(* ===== verification/Prelude.thy ===== *)
theory Prelude
  imports Main "HOL-Library.Word"
begin

text \<open>
  Shared vocabulary of the development: the machine types of the C code and of its Java
  callers, the result type of a C function that may run into undefined behaviour, the
  sequencing combinator of such functions, and the lemmas on lists and words that several
  components use.

  A C computation returns either \<^theory_text>\<open>Inl f\<close>, where \<^theory_text>\<open>f\<close> says which undefined
  operation it performed (the C standard and the JNI specification give the program no meaning
  from there on), or \<^theory_text>\<open>Inr x\<close> with its value.
\<close>

unbundle bit_operations_syntax

type_synonym u8 = "8 word"
type_synonym u16 = "16 word"
type_synonym u32 = "32 word"
type_synonym u64 = "64 word"

text \<open>The Java primitive types as the native code sees them; \<open>sint\<close> reads their sign.\<close>

type_synonym jbyte = "8 word"
type_synonym jshort = "16 word"
type_synonym jint = "32 word"
type_synonym jlong = "64 word"

text \<open>A Java byte array reference: \<open>None\<close> is \<open>null\<close>.\<close>

type_synonym jbyteArray = "u8 list option"

section \<open>Results of C functions\<close>

datatype fault =
    OutOfBounds int   \<comment> \<open>a read or a write outside the object, at this offset\<close>
  | NullReference     \<comment> \<open>a null array in a JNI array function, or a null pointer followed\<close>
  | Uninitialised     \<comment> \<open>a variable read before it was written\<close>
  | NotOpen           \<comment> \<open>a library call on a null handle\<close>
  | FreedHandle       \<comment> \<open>a library call on a handle that was freed before\<close>
  | DivideByZero      \<comment> \<open>an integer division by zero\<close>

type_synonym 'a res = "fault + 'a"

definition bindr :: "'e + 'a \<Rightarrow> ('a \<Rightarrow> 'e + 'b) \<Rightarrow> 'e + 'b" where
  "bindr m f = (case m of Inl e \<Rightarrow> Inl e | Inr x \<Rightarrow> f x)"

definition ok :: "'e + 'a \<Rightarrow> bool" where
  "ok m = (case m of Inl _ \<Rightarrow> False | Inr _ \<Rightarrow> True)"

named_theorems res_inv \<open>inversion of successful runs\<close>
named_theorems window \<open>access to a window of a buffer at a numeral offset\<close>
named_theorems layout \<open>offsets, sizes and constants of the C headers\<close>

lemma bindr_simps [simp]:
  "bindr (Inl e) f = Inl e"
  "bindr (Inr x) f = f x"
  by (simp_all add: bindr_def)

lemma bindr_cong [fundef_cong]:
  "m = m' \<Longrightarrow> (\<And>x. m' = Inr x \<Longrightarrow> f x = g x) \<Longrightarrow> bindr m f = bindr m' g"
  by (cases m') simp_all

lemma bindr_assoc: "bindr (bindr m f) g = bindr m (\<lambda>x. bindr (f x) g)"
  by (cases m) simp_all

lemma bindr_Inr_iff [res_inv]: "bindr m f = Inr y \<longleftrightarrow> (\<exists>x. m = Inr x \<and> f x = Inr y)"
  by (cases m) simp_all

lemma bindr_Inr_right [simp]: "bindr m Inr = m"
  by (cases m) simp_all

lemma if_Inl_Inr_iff [res_inv]: "((if b then Inr x else Inl e) = Inr y) \<longleftrightarrow> b \<and> x = y"
  by simp

lemma ok_simps [simp]: "ok (Inr x)" "\<not> ok (Inl e)"
  by (simp_all add: ok_def)

lemma ok_iff: "ok m \<longleftrightarrow> (\<exists>x. m = Inr x)"
  by (cases m) simp_all

text \<open>
  A condition on the result of every successful run, with one rule per construct, for functions
  with many steps.
\<close>

definition on_return :: "'e + 'a \<Rightarrow> ('a \<Rightarrow> bool) \<Rightarrow> bool" where
  "on_return m P \<longleftrightarrow> (\<forall>x. m = Inr x \<longrightarrow> P x)"

named_theorems returns \<open>introduction rules for conditions on results\<close>

lemma on_returnD: "on_return m P \<Longrightarrow> m = Inr x \<Longrightarrow> P x"
  by (simp add: on_return_def)

lemma on_return_Inr [returns]: "P x \<Longrightarrow> on_return (Inr x) P"
  by (simp add: on_return_def)

lemma on_return_Inl [returns]: "on_return (Inl e) P"
  by (simp add: on_return_def)

lemma on_return_bindr [returns]: "(\<And>x. on_return (f x) P) \<Longrightarrow> on_return (bindr m f) P"
  by (auto simp: on_return_def bindr_Inr_iff)

lemma on_return_if [returns]:
  "(b \<Longrightarrow> on_return m P) \<Longrightarrow> (\<not> b \<Longrightarrow> on_return n P) \<Longrightarrow> on_return (if b then m else n) P"
  by simp

lemma on_return_pair [returns]:
  "(\<And>x y. z = (x, y) \<Longrightarrow> on_return (f x y) P) \<Longrightarrow> on_return (case z of (x, y) \<Rightarrow> f x y) P"
  by (cases z) simp

lemma on_return_seq:
  "on_return m Q \<Longrightarrow> (\<And>x. Q x \<Longrightarrow> on_return (f x) P) \<Longrightarrow> on_return (bindr m f) P"
  by (auto simp: on_return_def bindr_Inr_iff)

section \<open>Lists\<close>

text \<open>\<open>overlay k bs xs\<close> overwrites \<open>xs\<close> with \<open>bs\<close> from index \<open>k\<close> on, as a \<open>memcpy\<close> does.\<close>

definition overlay :: "nat \<Rightarrow> 'a list \<Rightarrow> 'a list \<Rightarrow> 'a list" where
  "overlay k bs xs = take k xs @ bs @ drop (k + length bs) xs"

lemma overlay_Nil [simp]: "overlay k [] xs = xs"
  by (simp add: overlay_def)

lemma length_overlay [simp]: "k + length bs \<le> length xs \<Longrightarrow> length (overlay k bs xs) = length xs"
  by (simp add: overlay_def)

lemma overlay_append_right: "length xs \<le> k \<Longrightarrow> overlay k bs (xs @ ys) = xs @ overlay (k - length xs) bs ys"
  by (simp add: overlay_def)

lemma overlay_append_left:
  "k + length bs \<le> length xs \<Longrightarrow> overlay k bs (xs @ ys) = overlay k bs xs @ ys"
  by (simp add: overlay_def)

lemma overlay_window:
  assumes "length pre \<le> k" and "k + length bs \<le> length pre + length w"
  shows "overlay k bs (pre @ w @ post) = pre @ overlay (k - length pre) bs w @ post"
  using assms by (simp add: overlay_append_right overlay_append_left)

lemma take_overlay [simp]: "k \<le> length xs \<Longrightarrow> n \<le> k \<Longrightarrow> take n (overlay k bs xs) = take n xs"
  by (simp add: overlay_def)

lemma drop_overlay: "k + length bs \<le> length xs \<Longrightarrow> k + length bs \<le> n \<Longrightarrow> drop n (overlay k bs xs) = drop n xs"
  by (simp add: overlay_def)

lemma overlay_read: "k + length bs \<le> length xs \<Longrightarrow> take (length bs) (drop k (overlay k bs xs)) = bs"
  by (simp add: overlay_def)

lemma nth_overlay_other:
  assumes "k + length bs \<le> length xs" and "i < k \<or> k + length bs \<le> i"
  shows "overlay k bs xs ! i = xs ! i"
proof -
  have "length (take k xs) = k" using assms(1) by simp
  with assms show ?thesis by (cases "i < k") (auto simp: overlay_def nth_append)
qed

lemma nth_overlay_in:
  assumes "k + length bs \<le> length xs" and "k \<le> i" and "i < k + length bs"
  shows "overlay k bs xs ! i = bs ! (i - k)"
  using assms by (auto simp: overlay_def nth_append)

text \<open>A list with room for \<open>n\<close> elements at \<open>p\<close> splits around that window.\<close>

lemma window_split:
  assumes "p + n \<le> length xs"
  obtains pre w post where "xs = pre @ w @ post" and "length pre = p" and "length w = n"
proof
  show "xs = take p xs @ take n (drop p xs) @ drop (p + n) xs"
    by (metis append_take_drop_id drop_drop add.commute)
  show "length (take p xs) = p" and "length (take n (drop p xs)) = n"
    using assms by simp_all
qed

text \<open>Lists of a known length, written out.\<close>

lemma list_of_length_8:
  assumes "length w = 8"
  obtains w0 w1 w2 w3 w4 w5 w6 w7 where "w = [w0,w1,w2,w3,w4,w5,w6,w7]"
  using assms by (auto simp: numeral_eq_Suc length_Suc_conv)

lemma list_of_length_20:
  assumes "length w = 20"
  obtains w0 w1 w2 w3 w4 w5 w6 w7 w8 w9 w10 w11 w12 w13 w14 w15 w16 w17 w18 w19
  where "w = [w0,w1,w2,w3,w4,w5,w6,w7,w8,w9,w10,w11,w12,w13,w14,w15,w16,w17,w18,w19]"
  using assms by (auto simp: numeral_eq_Suc length_Suc_conv)

section \<open>Words, bit by bit\<close>

lemma less_8_cases:
  "n < (8 :: nat) \<Longrightarrow> n = 0 \<or> n = 1 \<or> n = 2 \<or> n = 3 \<or> n = 4 \<or> n = 5 \<or> n = 6 \<or> n = 7"
  by linarith

lemma u8_eq_iff:
  "(x :: u8) = y \<longleftrightarrow> bit x 0 = bit y 0 \<and> bit x 1 = bit y 1 \<and> bit x 2 = bit y 2 \<and>
     bit x 3 = bit y 3 \<and> bit x 4 = bit y 4 \<and> bit x 5 = bit y 5 \<and> bit x 6 = bit y 6 \<and>
     bit x 7 = bit y 7"
  by (auto intro!: bit_word_eqI dest!: less_8_cases)

text \<open>Testing a single-bit mask, as the code does with \<open>(x & FLAG) > 0\<close>.\<close>

lemma word_gt_0_iff: "(0 :: 'a::len word) < x \<longleftrightarrow> x \<noteq> 0"
  by (simp add: word_greater_zero_iff)

lemma and_exp_gt_0: "0 < (x :: 'a::len word) AND 2 ^ n \<longleftrightarrow> bit x n"
  by (simp add: word_greater_zero_iff and_exp_eq_0_iff_not_bit)

end
