(* ===== verification/CMem.thy ===== *)
theory CMem
  imports Prelude
begin

text \<open>
  The memory the C code works on: a byte buffer (the captured frame, or the stack array a frame
  is built in) and pointers into it as integer offsets. A field access through a struct pointer
  is a read or a write of the field's bytes at the pointer plus the field's offset, on a
  little-endian host (the \<open>BYTE_ORDER == LITTLE_ENDIAN\<close> branches of \<open>include/netinet\<close>). An access
  outside the buffer is the fault \<^const>\<open>OutOfBounds\<close>.
\<close>

type_synonym mem = "u8 list"
type_synonym ptr = int

section \<open>Bytes of words\<close>

definition byte_at :: "nat \<Rightarrow> 'a::len word \<Rightarrow> u8" where
  "byte_at i w = ucast (drop_bit (8 * i) w)"

definition le16 :: "u8 \<Rightarrow> u8 \<Rightarrow> u16" where
  "le16 b0 b1 = word_cat b1 b0"

definition le32 :: "u8 \<Rightarrow> u8 \<Rightarrow> u8 \<Rightarrow> u8 \<Rightarrow> u32" where
  "le32 b0 b1 b2 b3 = word_cat (le16 b2 b3) (le16 b0 b1)"

definition bytes16 :: "u16 \<Rightarrow> u8 list" where
  "bytes16 w = [byte_at 0 w, byte_at 1 w]"

definition bytes32 :: "u32 \<Rightarrow> u8 list" where
  "bytes32 w = [byte_at 0 w, byte_at 1 w, byte_at 2 w, byte_at 3 w]"

text \<open>\<open>htons\<close>, \<open>ntohs\<close>, \<open>htonl\<close>, \<open>ntohl\<close> of the C library on a little-endian host.\<close>

definition htons :: "u16 \<Rightarrow> u16" where
  "htons w = le16 (byte_at 1 w) (byte_at 0 w)"

definition ntohs :: "u16 \<Rightarrow> u16" where
  "ntohs w = htons w"

definition htonl :: "u32 \<Rightarrow> u32" where
  "htonl w = le32 (byte_at 3 w) (byte_at 2 w) (byte_at 1 w) (byte_at 0 w)"

definition ntohl :: "u32 \<Rightarrow> u32" where
  "ntohl w = htonl w"

text \<open>A big-endian field, read in network order.\<close>

abbreviation be16 :: "u8 \<Rightarrow> u8 \<Rightarrow> u16" where
  "be16 b0 b1 \<equiv> le16 b1 b0"

abbreviation be32 :: "u8 \<Rightarrow> u8 \<Rightarrow> u8 \<Rightarrow> u8 \<Rightarrow> u32" where
  "be32 b0 b1 b2 b3 \<equiv> le32 b3 b2 b1 b0"

lemma bit_le16: "bit (le16 a b) n \<longleftrightarrow> (if n < 8 then bit a n else bit b (n - 8) \<and> n < 16)"
  by (auto simp: le16_def bit_word_cat_iff)

lemma bit_byte_at: "bit (byte_at i (w :: 'a::len word)) n \<longleftrightarrow> n < 8 \<and> bit w (8 * i + n)"
  by (auto simp: byte_at_def bit_simps)

lemma bit_le32:
  "bit (le32 a b c d) n \<longleftrightarrow>
     (if n < 8 then bit a n else if n < 16 then bit b (n - 8)
      else if n < 24 then bit c (n - 16) else bit d (n - 24) \<and> n < 32)"
  by (auto simp: le32_def bit_word_cat_iff bit_le16 dest: bit_imp_le_length)

lemma byte_at_le16 [simp]: "byte_at 0 (le16 a b) = a" "byte_at (Suc 0) (le16 a b) = b"
  by (auto intro!: bit_word_eqI simp: bit_byte_at bit_le16)

lemma byte_at_le32 [simp]:
  "byte_at 0 (le32 a b c d) = a" "byte_at (Suc 0) (le32 a b c d) = b"
  "byte_at 2 (le32 a b c d) = c" "byte_at 3 (le32 a b c d) = d"
  by (auto intro!: bit_word_eqI simp: bit_byte_at bit_le32)

lemma le16_byte_at [simp]: "le16 (byte_at 0 w) (byte_at (Suc 0) w) = w"
  by (rule bit_word_eqI) (auto simp: bit_byte_at bit_le16)

lemma le32_byte_at [simp]:
  "le32 (byte_at 0 w) (byte_at (Suc 0) w) (byte_at 2 w) (byte_at 3 w) = w"
  by (rule bit_word_eqI) (auto simp: bit_byte_at bit_le32)

lemma le16_eq_iff [simp]: "le16 a b = le16 c d \<longleftrightarrow> a = c \<and> b = d"
  by (metis byte_at_le16)

lemma le32_eq_iff [simp]: "le32 a b c d = le32 e f g h \<longleftrightarrow> a = e \<and> b = f \<and> c = g \<and> d = h"
  by (metis byte_at_le32)

lemma ntohs_le16 [simp]: "ntohs (le16 a b) = le16 b a"
  by (simp add: ntohs_def htons_def)

lemma htons_le16 [simp]: "htons (le16 a b) = le16 b a"
  by (simp add: htons_def)

lemma ntohl_le32 [simp]: "ntohl (le32 a b c d) = le32 d c b a"
  by (simp add: ntohl_def htonl_def)

lemma htonl_le32 [simp]: "htonl (le32 a b c d) = le32 d c b a"
  by (simp add: htonl_def)

lemma htons_htons [simp]: "htons (htons w) = w"
  by (simp add: htons_def)

lemma ntohs_htons [simp]: "ntohs (htons w) = w"
  by (simp add: ntohs_def)

lemma htonl_htonl [simp]: "htonl (htonl w) = w"
  by (simp add: htonl_def)

lemma ntohl_htonl [simp]: "ntohl (htonl w) = w"
  by (simp add: ntohl_def)

lemma byte_at_htons [simp]:
  "byte_at 0 (htons w) = byte_at (Suc 0) w" "byte_at (Suc 0) (htons w) = byte_at 0 w"
  by (simp_all add: htons_def)

lemma byte_at_htonl [simp]:
  "byte_at 0 (htonl w) = byte_at 3 w" "byte_at (Suc 0) (htonl w) = byte_at 2 w"
  "byte_at 2 (htonl w) = byte_at (Suc 0) w" "byte_at 3 (htonl w) = byte_at 0 w"
  by (simp_all add: htonl_def)

lemma uint_le16: "uint (le16 a b) = uint a + 256 * uint b"
  unfolding le16_def
  by transfer (simp add: concat_bit_eq take_bit_eq_mod push_bit_eq_mult)

lemma unat_le16: "unat (le16 a b) = unat a + 256 * unat b"
proof -
  have "int (unat (le16 a b)) = int (unat a + 256 * unat b)"
    by (simp add: uint_le16)
  then show ?thesis by (simp only: of_nat_eq_iff)
qed

section \<open>Reads and writes\<close>

definition in_range :: "mem \<Rightarrow> ptr \<Rightarrow> nat \<Rightarrow> bool" where
  "in_range m p n \<longleftrightarrow> n = 0 \<or> (0 \<le> p \<and> p + int n \<le> int (length m))"

definition rd_bytes :: "mem \<Rightarrow> ptr \<Rightarrow> nat \<Rightarrow> u8 list res" where
  "rd_bytes m p n = (if in_range m p n then Inr (take n (drop (nat p) m)) else Inl (OutOfBounds p))"

definition rd8 :: "mem \<Rightarrow> ptr \<Rightarrow> u8 res" where
  "rd8 m p = (if in_range m p 1 then Inr (m ! nat p) else Inl (OutOfBounds p))"

definition rd16 :: "mem \<Rightarrow> ptr \<Rightarrow> u16 res" where
  "rd16 m p = (if in_range m p 2 then Inr (le16 (m ! nat p) (m ! (nat p + 1)))
     else Inl (OutOfBounds p))"

definition rd32 :: "mem \<Rightarrow> ptr \<Rightarrow> u32 res" where
  "rd32 m p = (if in_range m p 4
     then Inr (le32 (m ! nat p) (m ! (nat p + 1)) (m ! (nat p + 2)) (m ! (nat p + 3)))
     else Inl (OutOfBounds p))"

definition wr_bytes :: "ptr \<Rightarrow> u8 list \<Rightarrow> mem \<Rightarrow> mem res" where
  "wr_bytes p bs m =
     (if in_range m p (length bs) then Inr (overlay (nat p) bs m) else Inl (OutOfBounds p))"

definition wr8 :: "ptr \<Rightarrow> u8 \<Rightarrow> mem \<Rightarrow> mem res" where
  "wr8 p b = wr_bytes p [b]"

definition wr16 :: "ptr \<Rightarrow> u16 \<Rightarrow> mem \<Rightarrow> mem res" where
  "wr16 p w = wr_bytes p (bytes16 w)"

definition wr32 :: "ptr \<Rightarrow> u32 \<Rightarrow> mem \<Rightarrow> mem res" where
  "wr32 p w = wr_bytes p (bytes32 w)"

lemma length_bytes16 [simp]: "length (bytes16 w) = 2"
  by (simp add: bytes16_def)

lemma length_bytes32 [simp]: "length (bytes32 w) = 4"
  by (simp add: bytes32_def)

lemma rd_bytes_Inr_iff [res_inv]:
  "rd_bytes m p n = Inr bs \<longleftrightarrow> in_range m p n \<and> bs = take n (drop (nat p) m)"
  by (auto simp: rd_bytes_def)

lemma rd8_Inr_iff [res_inv]: "rd8 m p = Inr b \<longleftrightarrow> in_range m p 1 \<and> b = m ! nat p"
  by (auto simp: rd8_def)

lemma rd16_Inr_iff [res_inv]:
  "rd16 m p = Inr w \<longleftrightarrow> in_range m p 2 \<and> w = le16 (m ! nat p) (m ! (nat p + 1))"
  by (auto simp: rd16_def)

lemma rd32_Inr_iff [res_inv]:
  "rd32 m p = Inr w \<longleftrightarrow> in_range m p 4 \<and>
     w = le32 (m ! nat p) (m ! (nat p + 1)) (m ! (nat p + 2)) (m ! (nat p + 3))"
  by (auto simp: rd32_def)

lemma wr_bytes_Inr_iff [res_inv]:
  "wr_bytes p bs m = Inr m' \<longleftrightarrow> in_range m p (length bs) \<and> m' = overlay (nat p) bs m"
  by (auto simp: wr_bytes_def)

lemma in_range_less: "0 \<le> p \<Longrightarrow> p + int n \<le> int (length m) \<Longrightarrow> in_range m p n"
  by (simp add: in_range_def)

lemma length_rd_bytes: "rd_bytes m p n = Inr bs \<Longrightarrow> length bs = n"
  by (auto simp: rd_bytes_Inr_iff in_range_def)

lemma length_wr_bytes: "wr_bytes p bs m = Inr m' \<Longrightarrow> length m' = length m"
  by (auto simp: wr_bytes_Inr_iff in_range_def overlay_def)

text \<open>
  Access to a window of a buffer: \<open>pre @ w @ post\<close>, with the pointer at the window's start plus
  an offset.
\<close>

lemma rd_bytes_window:
  assumes "p = int (length pre) + int k" and "k + n \<le> length w"
  shows "rd_bytes (pre @ w @ post) p n = Inr (take n (drop k w))"
proof -
  have "nat p = length pre + k" and "in_range (pre @ w @ post) p n"
    using assms by (auto simp: in_range_def)
  with assms show ?thesis by (simp add: rd_bytes_def)
qed

lemma rd8_window:
  assumes "p = int (length pre) + int k" and "k < length w"
  shows "rd8 (pre @ w @ post) p = Inr (w ! k)"
proof -
  have "nat p = length pre + k" and "in_range (pre @ w @ post) p 1"
    using assms by (auto simp: in_range_def)
  with assms show ?thesis by (simp add: rd8_def nth_append)
qed

lemma rd16_window:
  assumes "p = int (length pre) + int k" and "k + 1 < length w"
  shows "rd16 (pre @ w @ post) p = Inr (le16 (w ! k) (w ! (k + 1)))"
proof -
  have "nat p = length pre + k" and "in_range (pre @ w @ post) p 2"
    using assms by (auto simp: in_range_def)
  with assms show ?thesis by (simp add: rd16_def nth_append)
qed

lemma rd32_window:
  assumes "p = int (length pre) + int k" and "k + 3 < length w"
  shows "rd32 (pre @ w @ post) p =
     Inr (le32 (w ! k) (w ! (k + 1)) (w ! (k + 2)) (w ! (k + 3)))"
proof -
  have "nat p = length pre + k" and "in_range (pre @ w @ post) p 4"
    using assms by (auto simp: in_range_def)
  with assms show ?thesis by (simp add: rd32_def nth_append)
qed

lemma wr_bytes_window:
  assumes "p = int (length pre) + int k" and "k + length bs \<le> length w"
  shows "wr_bytes p bs (pre @ w @ post) = Inr (pre @ overlay k bs w @ post)"
proof -
  have "nat p = length pre + k" and "in_range (pre @ w @ post) p (length bs)"
    using assms by (auto simp: in_range_def)
  with assms show ?thesis by (simp add: wr_bytes_def overlay_window)
qed

text \<open>The same with the offset written as a numeral, for rewriting.\<close>

lemma window_offset [window]:
  "numeral k + int (length pre) = int (length pre) + numeral k"
  by (rule add.commute)

lemma rd8_at [window]:
  "0 < length w \<Longrightarrow> rd8 (pre @ w @ post) (int (length pre)) = Inr (w ! 0)"
  "1 < length w \<Longrightarrow> rd8 (pre @ w @ post) (int (length pre) + 1) = Inr (w ! 1)"
  "numeral k < length w \<Longrightarrow>
     rd8 (pre @ w @ post) (int (length pre) + numeral k) = Inr (w ! numeral k)"
  using rd8_window [of _ pre 0 w post] rd8_window [of _ pre 1 w post]
    rd8_window [of _ pre "numeral k" w post] by simp_all

lemma rd16_at [window]:
  "1 < length w \<Longrightarrow> rd16 (pre @ w @ post) (int (length pre)) = Inr (le16 (w ! 0) (w ! 1))"
  "numeral k + 1 < length w \<Longrightarrow> rd16 (pre @ w @ post) (int (length pre) + numeral k) =
     Inr (le16 (w ! numeral k) (w ! (numeral k + 1)))"
  using rd16_window [of _ pre 0 w post] rd16_window [of _ pre "numeral k" w post] by simp_all

lemma rd32_at [window]:
  "3 < length w \<Longrightarrow> rd32 (pre @ w @ post) (int (length pre)) =
     Inr (le32 (w ! 0) (w ! 1) (w ! 2) (w ! 3))"
  "numeral k + 3 < length w \<Longrightarrow> rd32 (pre @ w @ post) (int (length pre) + numeral k) =
     Inr (le32 (w ! numeral k) (w ! (numeral k + 1)) (w ! (numeral k + 2)) (w ! (numeral k + 3)))"
  using rd32_window [of _ pre 0 w post] rd32_window [of _ pre "numeral k" w post]
  by (simp_all flip: numeral_2_eq_2)

lemma rd_bytes_at [window]:
  "n \<le> length w \<Longrightarrow> rd_bytes (pre @ w @ post) (int (length pre)) n = Inr (take n w)"
  "numeral k + n \<le> length w \<Longrightarrow> rd_bytes (pre @ w @ post) (int (length pre) + numeral k) n =
     Inr (take n (drop (numeral k) w))"
  using rd_bytes_window [of _ pre 0 n w post] rd_bytes_window [of _ pre "numeral k" n w post]
  by simp_all

section \<open>The buffer as an interface\<close>

text \<open>
  What the code that fills a buffer relies on: a write that succeeds keeps the size, is read
  back, and leaves everything that does not overlap it alone.
\<close>

locale byte_buffer =
  fixes rd :: "'b \<Rightarrow> int \<Rightarrow> nat \<Rightarrow> fault + 'v list"
    and wr :: "int \<Rightarrow> 'v list \<Rightarrow> 'b \<Rightarrow> fault + 'b"
    and size_of :: "'b \<Rightarrow> nat"
  assumes wr_size: "wr p bs b = Inr b' \<Longrightarrow> size_of b' = size_of b"
    and rd_wr_same: "wr p bs b = Inr b' \<Longrightarrow> rd b' p (length bs) = Inr bs"
    and rd_wr_other: "wr p bs b = Inr b' \<Longrightarrow> q + int n \<le> p \<or> p + int (length bs) \<le> q \<Longrightarrow>
          rd b' q n = rd b q n"
begin

text \<open>A list of writes, one after the other.\<close>

fun wr_all :: "(int \<times> 'v list) list \<Rightarrow> 'b \<Rightarrow> fault + 'b" where
  "wr_all [] b = Inr b"
| "wr_all ((p, bs) # ws) b = bindr (wr p bs b) (wr_all ws)"

lemma wr_all_size: "wr_all ws b = Inr b' \<Longrightarrow> size_of b' = size_of b"
  by (induction ws b rule: wr_all.induct) (auto simp: bindr_Inr_iff dest: wr_size)

lemma rd_wr_all_other:
  assumes "wr_all ws b = Inr b'"
    and "\<And>p bs. (p, bs) \<in> set ws \<Longrightarrow> q + int n \<le> p \<or> p + int (length bs) \<le> q"
  shows "rd b' q n = rd b q n"
  using assms
proof (induction ws b rule: wr_all.induct)
  case (1 b)
  then show ?case by simp
next
  case (2 p bs ws b)
  from "2.prems"(1) obtain c where c: "wr p bs b = Inr c" and rest: "wr_all ws c = Inr b'"
    by (auto simp: bindr_Inr_iff)
  have "rd b' q n = rd c q n"
    using "2.IH" [OF c rest] "2.prems"(2) by auto
  also have "rd c q n = rd b q n"
    using c "2.prems"(2) by (auto intro: rd_wr_other)
  finally show ?case .
qed

text \<open>The last of two overlapping writes wins; disjoint ones are both read back.\<close>

lemma rd_wr_twice:
  assumes "wr p bs b = Inr c" and "wr q cs c = Inr d"
    and "p + int (length bs) \<le> q \<or> q + int (length cs) \<le> p"
  shows "rd d p (length bs) = Inr bs" and "rd d q (length cs) = Inr cs"
  using assms rd_wr_same rd_wr_other by metis+

end

lemma take_drop_overlay_other:
  assumes "k + length bs \<le> length xs" and "i + n \<le> k \<or> k + length bs \<le> i"
  shows "take n (drop i (overlay k bs xs)) = take n (drop i xs)"
  using assms(2)
proof
  assume "i + n \<le> k"
  then have "take (i + n) (overlay k bs xs) = take (i + n) xs"
    using assms(1) by simp
  then show ?thesis by (metis add.commute take_drop)
next
  assume "k + length bs \<le> i"
  then show ?thesis using assms(1) by (simp add: drop_overlay)
qed

interpretation buf: byte_buffer rd_bytes wr_bytes length
proof unfold_locales
  fix p bs and b b' :: mem and q n
  assume w: "wr_bytes p bs b = Inr b'"
  show "length b' = length b" using w by (rule length_wr_bytes)
  show "rd_bytes b' p (length bs) = Inr bs"
    using w by (cases "bs = []")
      (auto simp: wr_bytes_Inr_iff rd_bytes_Inr_iff in_range_def overlay_read)
  assume d: "q + int n \<le> p \<or> p + int (length bs) \<le> q"
  have len: "length b' = length b" using w by (rule length_wr_bytes)
  show "rd_bytes b' q n = rd_bytes b q n"
  proof (cases "bs = [] \<or> n = 0 \<or> q < 0")
    case True
    then show ?thesis
      using w len by (auto simp: wr_bytes_Inr_iff rd_bytes_def in_range_def)
  next
    case False
    have "nat p + length bs \<le> length b" and "b' = overlay (nat p) bs b" and "0 \<le> p"
      using w False by (auto simp: wr_bytes_Inr_iff in_range_def)
    moreover have "nat q + n \<le> nat p \<or> nat p + length bs \<le> nat q"
      using d False \<open>0 \<le> p\<close> by linarith
    ultimately have "take n (drop (nat q) b') = take n (drop (nat q) b)"
      by (simp add: take_drop_overlay_other)
    then show ?thesis using len by (simp add: rd_bytes_def in_range_def)
  qed
qed

end
