(* ===== verification/JavaPacket.thy ===== *)
theory JavaPacket
  imports CMem
begin

text \<open>
  The Java objects the native code fills and reads (\<open>jpcap/packet/*.java\<close>), and the JNI
  operations it does so with (the macros of \<open>Jpcap_sub.h\<close>). A packet object is one record: its
  class, the fields of \<open>Packet\<close>, and one sub-record per subclass with that class's own fields.
  The methods the native code calls (\<open>setIPv4Value\<close>, \<open>setOption\<close>, \<open>getSourceAddress\<close>, ...) are the
  definitions of the same name.
\<close>

section \<open>Classes\<close>

datatype jclass = PacketC | IPPacketC | TCPPacketC | UDPPacketC | ICMPPacketC | ARPPacketC

text \<open>The subclass relation: \<open>c \<le> d\<close> when \<open>c\<close> extends \<open>d\<close>, directly or not.\<close>

fun superclass :: "jclass \<Rightarrow> jclass option" where
  "superclass PacketC = None"
| "superclass IPPacketC = Some PacketC"
| "superclass ARPPacketC = Some PacketC"
| "superclass TCPPacketC = Some IPPacketC"
| "superclass UDPPacketC = Some IPPacketC"
| "superclass ICMPPacketC = Some IPPacketC"

instantiation jclass :: order
begin

definition less_eq_jclass :: "jclass \<Rightarrow> jclass \<Rightarrow> bool" where
  "c \<le> d \<longleftrightarrow> c = d \<or> superclass c = Some d \<or> Option.bind (superclass c) superclass = Some d"

definition less_jclass :: "jclass \<Rightarrow> jclass \<Rightarrow> bool" where
  "c < d \<longleftrightarrow> c \<le> d \<and> c \<noteq> (d :: jclass)"

instance
proof
  fix c d e :: jclass
  show "c < d \<longleftrightarrow> c \<le> d \<and> \<not> d \<le> c"
    by (cases c; cases d) (simp_all add: less_eq_jclass_def less_jclass_def)
  show "c \<le> c"
    by (simp add: less_eq_jclass_def)
  show "c \<le> d \<Longrightarrow> d \<le> e \<Longrightarrow> c \<le> e"
    by (cases c; cases d; cases e) (simp_all add: less_eq_jclass_def)
  show "c \<le> d \<Longrightarrow> d \<le> c \<Longrightarrow> c = d"
    by (cases c; cases d) (simp_all add: less_eq_jclass_def)
qed

end

section \<open>Addresses\<close>

datatype inet_address = Inet4 "u8 list" | Inet6 "u8 list"

text \<open>
  \<open>InetAddress.getByAddress\<close> of the Java library: four bytes make an IPv4 address, sixteen an
  IPv6 address, unless they are an IPv4-mapped one, which is turned into the IPv4 address it
  maps; any other length is an \<open>UnknownHostException\<close> (\<open>None\<close>).
\<close>

definition getByAddress :: "u8 list \<Rightarrow> inet_address option" where
  "getByAddress bs =
     (if length bs = 4 then Some (Inet4 bs)
      else if length bs = 16 then
        (if take 12 bs = replicate 10 0 @ [0xff, 0xff] then Some (Inet4 (drop 12 bs))
         else Some (Inet6 bs))
      else None)"

fun getAddress :: "inet_address \<Rightarrow> u8 list" where
  "getAddress (Inet4 bs) = bs"
| "getAddress (Inet6 bs) = bs"

lemma getAddress_getByAddress4 [simp]:
  "length bs = 4 \<Longrightarrow> getByAddress bs = Some (Inet4 bs)"
  by (simp add: getByAddress_def)

section \<open>Packet objects\<close>

record ip_fields =                    \<comment> \<open>\<open>IPPacket.java\<close>\<close>
  ip_version :: jbyte
  ip_priority :: jbyte
  ip_d_flag :: bool
  ip_t_flag :: bool
  ip_r_flag :: bool
  ip_rsv_tos :: jbyte
  ip_length :: jshort
  ip_rsv_frag :: bool
  ip_dont_frag :: bool
  ip_more_frag :: bool
  ip_offset :: jshort
  ip_hop_limit :: jshort
  ip_protocol :: jshort
  ip_ident :: jint
  ip_flow_label :: jint
  ip_src_ip :: "inet_address option"
  ip_dst_ip :: "inet_address option"
  ip_option :: jbyteArray

record ipv6_option =                  \<comment> \<open>\<open>IPv6Option.java\<close>\<close>
  o_type :: jbyte
  o_next_header :: jbyte
  o_hlen :: jbyte
  o_option :: jbyteArray
  o_routing_type :: jbyte
  o_hop_left :: jbyte
  o_addrs :: "inet_address option list option"
  o_offset :: jshort
  o_m_flag :: bool
  o_identification :: jint
  o_spi :: jint
  o_sequence :: jint

record tcp_fields =                   \<comment> \<open>\<open>TCPPacket.java\<close>\<close>
  tcp_src_port :: jint
  tcp_dst_port :: jint
  tcp_sequence :: jlong
  tcp_ack_num :: jlong
  tcp_urg :: bool
  tcp_ack :: bool
  tcp_psh :: bool
  tcp_rst :: bool
  tcp_syn :: bool
  tcp_fin :: bool
  tcp_rsv1 :: bool
  tcp_rsv2 :: bool
  tcp_window :: jint
  tcp_urgent_pointer :: jshort
  tcp_option :: jbyteArray

record udp_fields =                   \<comment> \<open>\<open>UDPPacket.java\<close>\<close>
  udp_src_port :: jint
  udp_dst_port :: jint
  udp_length :: jint

record icmp_fields =                  \<comment> \<open>\<open>ICMPPacket.java\<close>\<close>
  icmp_type :: jbyte
  icmp_code :: jbyte
  icmp_checksum :: jshort
  icmp_id :: jshort
  icmp_seq :: jshort
  icmp_subnetmask :: jint
  icmp_orig_timestamp :: jint
  icmp_recv_timestamp :: jint
  icmp_trans_timestamp :: jint
  icmp_mtu :: jshort
  icmp_ippacket :: "ip_fields option"
  icmp_redir_ip :: "inet_address option"
  icmp_addr_num :: jbyte
  icmp_addr_entry_size :: jbyte
  icmp_alive_time :: jshort

record arp_fields =                   \<comment> \<open>\<open>ARPPacket.java\<close>\<close>
  arp_hardtype :: jshort
  arp_prototype :: jshort
  arp_hlen :: jshort
  arp_plen :: jshort
  arp_operation :: jshort
  arp_sender_hardaddr :: jbyteArray
  arp_sender_protoaddr :: jbyteArray
  arp_target_hardaddr :: jbyteArray
  arp_target_protoaddr :: jbyteArray

record ether_fields =                 \<comment> \<open>\<open>EthernetPacket.java\<close>\<close>
  eth_dst_mac :: jbyteArray
  eth_src_mac :: jbyteArray
  eth_frametype :: jshort

text \<open>A reference to a \<open>DatalinkPacket\<close>: an \<open>EthernetPacket\<close> or another one.\<close>

datatype datalink = EthernetPacket ether_fields | OtherDatalink

record jpacket =                      \<comment> \<open>\<open>Packet.java\<close>\<close>
  pk_class :: jclass
  pk_sec :: jlong
  pk_usec :: jlong
  pk_caplen :: jint
  pk_len :: jint
  pk_datalink :: "datalink option"
  pk_header :: jbyteArray
  pk_data :: jbyteArray
  pk_ip :: ip_fields
  pk_options :: "ipv6_option list option"  \<comment> \<open>\<open>IPPacket.options\<close>\<close>
  pk_tcp :: tcp_fields
  pk_udp :: udp_fields
  pk_icmp :: icmp_fields
  pk_arp :: arp_fields

definition IsInstanceOf :: "jpacket \<Rightarrow> jclass \<Rightarrow> bool" where
  "IsInstanceOf pk c \<longleftrightarrow> pk_class pk \<le> c"

lemma jclass_le [simp]:
  "TCPPacketC \<le> IPPacketC" "UDPPacketC \<le> IPPacketC" "ICMPPacketC \<le> IPPacketC"
  "c \<le> PacketC" "\<not> ARPPacketC \<le> IPPacketC" "\<not> PacketC \<le> IPPacketC"
  "\<not> IPPacketC \<le> ARPPacketC" "\<not> TCPPacketC \<le> UDPPacketC" "\<not> UDPPacketC \<le> TCPPacketC"
  "\<not> ICMPPacketC \<le> TCPPacketC" "\<not> ICMPPacketC \<le> UDPPacketC" "\<not> IPPacketC \<le> TCPPacketC"
  "\<not> IPPacketC \<le> UDPPacketC" "\<not> IPPacketC \<le> ICMPPacketC" "\<not> TCPPacketC \<le> ICMPPacketC"
  "\<not> UDPPacketC \<le> ICMPPacketC" "\<not> PacketC \<le> ARPPacketC"
  by (cases c; simp add: less_eq_jclass_def)+

section \<open>Object creation\<close>

text \<open>\<open>AllocObject\<close> runs no constructor: every field is zero, \<open>false\<close> or \<open>null\<close>.\<close>

definition zero_ip :: ip_fields where
  "zero_ip = \<lparr>ip_version = 0, ip_priority = 0, ip_d_flag = False, ip_t_flag = False,
     ip_r_flag = False, ip_rsv_tos = 0, ip_length = 0, ip_rsv_frag = False,
     ip_dont_frag = False, ip_more_frag = False, ip_offset = 0, ip_hop_limit = 0,
     ip_protocol = 0, ip_ident = 0, ip_flow_label = 0, ip_src_ip = None, ip_dst_ip = None,
     ip_option = None\<rparr>"

definition zero_option :: ipv6_option where
  "zero_option = \<lparr>o_type = 0, o_next_header = 0, o_hlen = 0, o_option = None,
     o_routing_type = 0, o_hop_left = 0, o_addrs = None, o_offset = 0, o_m_flag = False,
     o_identification = 0, o_spi = 0, o_sequence = 0\<rparr>"

definition zero_tcp :: tcp_fields where
  "zero_tcp = \<lparr>tcp_src_port = 0, tcp_dst_port = 0, tcp_sequence = 0, tcp_ack_num = 0,
     tcp_urg = False, tcp_ack = False, tcp_psh = False, tcp_rst = False, tcp_syn = False,
     tcp_fin = False, tcp_rsv1 = False, tcp_rsv2 = False, tcp_window = 0,
     tcp_urgent_pointer = 0, tcp_option = None\<rparr>"

definition zero_udp :: udp_fields where
  "zero_udp = \<lparr>udp_src_port = 0, udp_dst_port = 0, udp_length = 0\<rparr>"

definition zero_icmp :: icmp_fields where
  "zero_icmp = \<lparr>icmp_type = 0, icmp_code = 0, icmp_checksum = 0, icmp_id = 0, icmp_seq = 0,
     icmp_subnetmask = 0, icmp_orig_timestamp = 0, icmp_recv_timestamp = 0,
     icmp_trans_timestamp = 0, icmp_mtu = 0, icmp_ippacket = None, icmp_redir_ip = None,
     icmp_addr_num = 0, icmp_addr_entry_size = 0, icmp_alive_time = 0\<rparr>"

definition zero_arp :: arp_fields where
  "zero_arp = \<lparr>arp_hardtype = 0, arp_prototype = 0, arp_hlen = 0, arp_plen = 0,
     arp_operation = 0, arp_sender_hardaddr = None, arp_sender_protoaddr = None,
     arp_target_hardaddr = None, arp_target_protoaddr = None\<rparr>"

definition zero_ether :: ether_fields where
  "zero_ether = \<lparr>eth_dst_mac = None, eth_src_mac = None, eth_frametype = 0\<rparr>"

definition AllocObject :: "jclass \<Rightarrow> jpacket" where
  "AllocObject c = \<lparr>pk_class = c, pk_sec = 0, pk_usec = 0, pk_caplen = 0, pk_len = 0,
     pk_datalink = None, pk_header = None, pk_data = None, pk_ip = zero_ip,
     pk_options = None, pk_tcp = zero_tcp, pk_udp = zero_udp, pk_icmp = zero_icmp,
     pk_arp = zero_arp\<rparr>"

section \<open>Methods called from native code\<close>

definition setPacketValue :: "jlong \<Rightarrow> jlong \<Rightarrow> jint \<Rightarrow> jint \<Rightarrow> jpacket \<Rightarrow> jpacket" where
  "setPacketValue sec usec caplen len pk =
     pk\<lparr>pk_sec := sec, pk_usec := usec, pk_caplen := caplen, pk_len := len\<rparr>"

definition setDatalinkPacket :: "datalink \<Rightarrow> jpacket \<Rightarrow> jpacket" where
  "setDatalinkPacket p pk = pk\<lparr>pk_datalink := Some p\<rparr>"

definition setPacketHeader :: "jbyteArray \<Rightarrow> jpacket \<Rightarrow> jpacket" where
  "setPacketHeader a pk = pk\<lparr>pk_header := a\<rparr>"

definition setPacketData :: "jbyteArray \<Rightarrow> jpacket \<Rightarrow> jpacket" where
  "setPacketData a pk = pk\<lparr>pk_data := a\<rparr>"

definition ether_setValue :: "jbyteArray \<Rightarrow> jbyteArray \<Rightarrow> jshort \<Rightarrow> ether_fields \<Rightarrow> ether_fields" where
  "ether_setValue dst src frame e =
     e\<lparr>eth_dst_mac := dst, eth_src_mac := src, eth_frametype := frame\<rparr>"

text \<open>
  Both addresses are set in one \<open>try\<close> block: when the first conversion throws, the second is
  not reached.
\<close>

definition set_addresses :: "u8 list \<Rightarrow> u8 list \<Rightarrow> ip_fields \<Rightarrow> ip_fields" where
  "set_addresses src dst f =
     (case getByAddress src of None \<Rightarrow> f
      | Some s \<Rightarrow> (case getByAddress dst of None \<Rightarrow> f\<lparr>ip_src_ip := Some s\<rparr>
                   | Some d \<Rightarrow> f\<lparr>ip_src_ip := Some s, ip_dst_ip := Some d\<rparr>))"

definition setIPv4Value ::
  "jbyte \<Rightarrow> jbyte \<Rightarrow> bool \<Rightarrow> bool \<Rightarrow> bool \<Rightarrow> jbyte \<Rightarrow> bool \<Rightarrow> bool \<Rightarrow> bool \<Rightarrow> jshort \<Rightarrow> jshort \<Rightarrow>
   jshort \<Rightarrow> jshort \<Rightarrow> jshort \<Rightarrow> u8 list \<Rightarrow> u8 list \<Rightarrow> ip_fields \<Rightarrow> ip_fields" where
  "setIPv4Value ver pri d t r rsv_tos rf df mf offset len ident ttl proto src dst f =
     set_addresses src dst
       (f\<lparr>ip_version := ver, ip_priority := pri, ip_d_flag := d, ip_t_flag := t, ip_r_flag := r,
          ip_rsv_tos := rsv_tos, ip_rsv_frag := rf, ip_dont_frag := df, ip_more_frag := mf,
          ip_offset := offset, ip_length := len, ip_ident := scast ident, ip_hop_limit := ttl,
          ip_protocol := proto\<rparr>)"

definition setIPv6Value ::
  "jbyte \<Rightarrow> jbyte \<Rightarrow> jint \<Rightarrow> jshort \<Rightarrow> jbyte \<Rightarrow> jshort \<Rightarrow> u8 list \<Rightarrow> u8 list \<Rightarrow> ip_fields \<Rightarrow> ip_fields"
where
  "setIPv6Value ver v6class flow payload nxt hlim src dst f =
     set_addresses src dst
       (f\<lparr>ip_version := ver, ip_priority := v6class, ip_flow_label := flow, ip_length := payload,
          ip_protocol := scast nxt, ip_hop_limit := hlim\<rparr>)"

text \<open>
  \<open>setOption\<close> is a virtual call: \<open>TCPPacket\<close> overrides \<open>IPPacket.setOption\<close> and has a field
  \<open>option\<close> of its own.
\<close>

definition setOption :: "u8 list \<Rightarrow> jpacket \<Rightarrow> jpacket" where
  "setOption opt pk =
     (if pk_class pk = TCPPacketC
      then pk\<lparr>pk_tcp := (pk_tcp pk)\<lparr>tcp_option := Some opt\<rparr>\<rparr>
      else pk\<lparr>pk_ip := (pk_ip pk)\<lparr>ip_option := Some opt\<rparr>\<rparr>)"

definition addOptionHeader :: "ipv6_option \<Rightarrow> jpacket \<Rightarrow> jpacket" where
  "addOptionHeader h pk =
     (case pk_options pk of None \<Rightarrow> pk\<lparr>pk_options := Some [h]\<rparr>
      | Some hs \<Rightarrow> pk\<lparr>pk_options := Some (hs @ [h])\<rparr>)"

text \<open>\<open>null\<close> when \<open>src_ip\<close> is \<open>null\<close>: the call has thrown a \<open>NullPointerException\<close>.\<close>

definition getSourceAddress :: "ip_fields \<Rightarrow> jbyteArray" where
  "getSourceAddress f = map_option getAddress (ip_src_ip f)"

definition getDestinationAddress :: "ip_fields \<Rightarrow> jbyteArray" where
  "getDestinationAddress f = map_option getAddress (ip_dst_ip f)"

definition tcp_setValue ::
  "jint \<Rightarrow> jint \<Rightarrow> jlong \<Rightarrow> jlong \<Rightarrow> bool \<Rightarrow> bool \<Rightarrow> bool \<Rightarrow> bool \<Rightarrow> bool \<Rightarrow> bool \<Rightarrow> bool \<Rightarrow> bool \<Rightarrow>
   jint \<Rightarrow> jshort \<Rightarrow> tcp_fields \<Rightarrow> tcp_fields" where
  "tcp_setValue src dst seq ack_num urg ack psh rst syn fin rsv1 rsv2 win urp f =
     f\<lparr>tcp_src_port := src, tcp_dst_port := dst, tcp_sequence := seq, tcp_ack_num := ack_num,
       tcp_urg := urg, tcp_ack := ack, tcp_psh := psh, tcp_rst := rst, tcp_syn := syn,
       tcp_fin := fin, tcp_rsv1 := rsv1, tcp_rsv2 := rsv2, tcp_window := win,
       tcp_urgent_pointer := urp\<rparr>"

definition udp_setValue :: "jint \<Rightarrow> jint \<Rightarrow> jint \<Rightarrow> udp_fields \<Rightarrow> udp_fields" where
  "udp_setValue src dst len f = f\<lparr>udp_src_port := src, udp_dst_port := dst, udp_length := len\<rparr>"

definition icmp_setValue ::
  "jbyte \<Rightarrow> jbyte \<Rightarrow> jshort \<Rightarrow> jshort \<Rightarrow> jshort \<Rightarrow> icmp_fields \<Rightarrow> icmp_fields" where
  "icmp_setValue type code checksum ident seq f =
     f\<lparr>icmp_type := type, icmp_code := code, icmp_checksum := checksum, icmp_id := ident,
       icmp_seq := seq\<rparr>"

definition icmp_setID :: "jshort \<Rightarrow> jshort \<Rightarrow> icmp_fields \<Rightarrow> icmp_fields" where
  "icmp_setID ident seq f = f\<lparr>icmp_id := ident, icmp_seq := seq\<rparr>"

definition icmp_setTimestampValue :: "jint \<Rightarrow> jint \<Rightarrow> jint \<Rightarrow> icmp_fields \<Rightarrow> icmp_fields" where
  "icmp_setTimestampValue orig recv tr f =
     f\<lparr>icmp_orig_timestamp := orig, icmp_recv_timestamp := recv, icmp_trans_timestamp := tr\<rparr>"

definition icmp_setRedirectIP :: "u8 list \<Rightarrow> icmp_fields \<Rightarrow> icmp_fields" where
  "icmp_setRedirectIP bs f =
     (case getByAddress bs of None \<Rightarrow> f | Some a \<Rightarrow> f\<lparr>icmp_redir_ip := Some a\<rparr>)"

text \<open>
  \<open>setRouterAdValue\<close>: the loop over \<open>addr_num\<close> entries stores into \<open>router_ip\<close> and \<open>preference\<close>,
  which no code ever allocates, so only its three scalar stores are visible; the native caller
  reaches it with \<open>addr_num = 0\<close> only.
\<close>

definition icmp_setRouterAdValue :: "jbyte \<Rightarrow> jbyte \<Rightarrow> jshort \<Rightarrow> icmp_fields \<Rightarrow> icmp_fields" where
  "icmp_setRouterAdValue num entry alive f =
     f\<lparr>icmp_addr_num := num, icmp_addr_entry_size := entry, icmp_alive_time := alive\<rparr>"

definition icmp_getRedirectIP :: "icmp_fields \<Rightarrow> jbyteArray" where
  "icmp_getRedirectIP f = map_option getAddress (icmp_redir_ip f)"

definition arp_setValue ::
  "jshort \<Rightarrow> jshort \<Rightarrow> jshort \<Rightarrow> jshort \<Rightarrow> jshort \<Rightarrow> u8 list \<Rightarrow> u8 list \<Rightarrow> u8 list \<Rightarrow> u8 list \<Rightarrow>
   arp_fields \<Rightarrow> arp_fields" where
  "arp_setValue hardtype prototype hlen plen operation sha spa tha tpa f =
     f\<lparr>arp_hardtype := hardtype, arp_prototype := prototype, arp_hlen := hlen, arp_plen := plen,
       arp_operation := operation, arp_sender_hardaddr := Some sha,
       arp_sender_protoaddr := Some spa, arp_target_hardaddr := Some tha,
       arp_target_protoaddr := Some tpa\<rparr>"

definition option_setValue :: "jbyte \<Rightarrow> jbyte \<Rightarrow> jbyte \<Rightarrow> ipv6_option \<Rightarrow> ipv6_option" where
  "option_setValue type next_hdr hlen h = h\<lparr>o_type := type, o_next_header := next_hdr, o_hlen := hlen\<rparr>"

definition setOptionData :: "u8 list \<Rightarrow> ipv6_option \<Rightarrow> ipv6_option" where
  "setOptionData opt h = h\<lparr>o_option := Some opt\<rparr>"

definition setRoutingOption :: "jbyte \<Rightarrow> jbyte \<Rightarrow> u8 list list \<Rightarrow> ipv6_option \<Rightarrow> ipv6_option" where
  "setRoutingOption type left addrs h =
     h\<lparr>o_routing_type := type, o_hop_left := left, o_addrs := Some (map getByAddress addrs)\<rparr>"

definition setFragmentOption :: "jshort \<Rightarrow> bool \<Rightarrow> jint \<Rightarrow> ipv6_option \<Rightarrow> ipv6_option" where
  "setFragmentOption off m ident h = h\<lparr>o_offset := off, o_m_flag := m, o_identification := ident\<rparr>"

definition setAHOption :: "jint \<Rightarrow> jint \<Rightarrow> ipv6_option \<Rightarrow> ipv6_option" where
  "setAHOption spi seq h = h\<lparr>o_spi := spi, o_sequence := seq\<rparr>"

end
