(* ===== verification/Jni.thy ===== *)
theory Jni
  imports JavaPacket
begin

text \<open>
  The JNI operations on arrays and the state of the sending side: the stack buffer a frame is
  built in and the pending Java exception. A failed \<open>GetByteArrayRegion\<close> copies nothing, leaves
  an exception pending and lets the C code run on, as the virtual machine does; a null array is
  the fault \<^const>\<open>NullReference\<close>.
\<close>

datatype jexception = ArrayIndexOutOfBounds | IOException string

record sstate =
  sbuf :: mem
  pending :: "jexception option"

section \<open>Writing through a struct pointer\<close>

definition put_bytes :: "ptr \<Rightarrow> u8 list \<Rightarrow> sstate \<Rightarrow> sstate res" where
  "put_bytes p bs s = bindr (wr_bytes p bs (sbuf s)) (\<lambda>m. Inr (s\<lparr>sbuf := m\<rparr>))"

definition put8 :: "ptr \<Rightarrow> u8 \<Rightarrow> sstate \<Rightarrow> sstate res" where
  "put8 p b = put_bytes p [b]"

definition put16 :: "ptr \<Rightarrow> u16 \<Rightarrow> sstate \<Rightarrow> sstate res" where
  "put16 p w = put_bytes p (bytes16 w)"

definition put32 :: "ptr \<Rightarrow> u32 \<Rightarrow> sstate \<Rightarrow> sstate res" where
  "put32 p w = put_bytes p (bytes32 w)"

text \<open>An assignment to a 4-bit field reads its byte and replaces one half of it.\<close>

definition put_low4 :: "ptr \<Rightarrow> u8 \<Rightarrow> sstate \<Rightarrow> sstate res" where
  "put_low4 p v s = bindr (rd8 (sbuf s) p) (\<lambda>b. put8 p ((b AND 0xf0) OR (v AND 0x0f)) s)"

definition put_high4 :: "ptr \<Rightarrow> u8 \<Rightarrow> sstate \<Rightarrow> sstate res" where
  "put_high4 p v s = bindr (rd8 (sbuf s) p) (\<lambda>b. put8 p ((b AND 0x0f) OR push_bit 4 v) s)"

section \<open>Arrays\<close>

definition GetArrayLength :: "jbyteArray \<Rightarrow> int res" where
  "GetArrayLength a = (case a of None \<Rightarrow> Inl NullReference | Some bs \<Rightarrow> Inr (int (length bs)))"

definition GetByteArrayRegion :: "jbyteArray \<Rightarrow> int \<Rightarrow> int \<Rightarrow> ptr \<Rightarrow> sstate \<Rightarrow> sstate res" where
  "GetByteArrayRegion a start len p s =
     (case a of None \<Rightarrow> Inl NullReference
      | Some bs \<Rightarrow>
          if start < 0 \<or> len < 0 \<or> int (length bs) < start + len
          then Inr (s\<lparr>pending := Some ArrayIndexOutOfBounds\<rparr>)
          else put_bytes p (take (nat len) (drop (nat start) bs)) s)"

text \<open>\<open>ExceptionDescribe\<close> prints the pending exception and clears it.\<close>

definition ExceptionDescribe :: "sstate \<Rightarrow> sstate" where
  "ExceptionDescribe s = s\<lparr>pending := None\<rparr>"

text \<open>
  \<open>NewByteArray(n)\<close> followed by \<open>SetByteArrayRegion(array,0,n,p)\<close>: the bytes at \<open>p\<close>. A negative
  size yields a null array, which the second call does not survive.
\<close>

definition new_array :: "mem \<Rightarrow> ptr \<Rightarrow> int \<Rightarrow> u8 list res" where
  "new_array m p n = (if n < 0 then Inl NullReference else rd_bytes m p (nat n))"

section \<open>Windows\<close>

lemma put_bytes_window:
  assumes "p = int (length pre) + int k" and "k + length bs \<le> length w"
  shows "put_bytes p bs \<lparr>sbuf = pre @ w @ post, pending = e\<rparr> =
     Inr \<lparr>sbuf = pre @ overlay k bs w @ post, pending = e\<rparr>"
  using wr_bytes_window [OF assms, of post] by (simp add: put_bytes_def)

lemma put_bytes_at [window]:
  "length bs \<le> length w \<Longrightarrow>
     put_bytes (int (length pre)) bs \<lparr>sbuf = pre @ w @ post, pending = e\<rparr> =
     Inr \<lparr>sbuf = pre @ overlay 0 bs w @ post, pending = e\<rparr>"
  "1 + length bs \<le> length w \<Longrightarrow>
     put_bytes (int (length pre) + 1) bs \<lparr>sbuf = pre @ w @ post, pending = e\<rparr> =
     Inr \<lparr>sbuf = pre @ overlay 1 bs w @ post, pending = e\<rparr>"
  "numeral k + length bs \<le> length w \<Longrightarrow>
     put_bytes (int (length pre) + numeral k) bs \<lparr>sbuf = pre @ w @ post, pending = e\<rparr> =
     Inr \<lparr>sbuf = pre @ overlay (numeral k) bs w @ post, pending = e\<rparr>"
  using put_bytes_window [of _ pre 0 bs w post e] put_bytes_window [of _ pre 1 bs w post e]
    put_bytes_window [of _ pre "numeral k" bs w post e] by simp_all

lemmas put_window [window] =
  put8_def put16_def put32_def put_low4_def put_high4_def

lemma new_array_at [window]:
  "numeral n \<le> length w \<Longrightarrow>
     new_array (pre @ w @ post) (int (length pre)) (numeral n) = Inr (take (numeral n) w)"
  "numeral k + numeral n \<le> length w \<Longrightarrow>
     new_array (pre @ w @ post) (int (length pre) + numeral k) (numeral n) =
     Inr (take (numeral n) (drop (numeral k) w))"
  using rd_bytes_window [of _ pre 0 "numeral n" w post]
    rd_bytes_window [of _ pre "numeral k" "numeral n" w post]
  by (simp_all add: new_array_def)

lemma region_ok:
  assumes "0 \<le> n" and "n \<le> int (length bs)"
  shows "GetByteArrayRegion (Some bs) 0 n p s = put_bytes p (take (nat n) bs) s"
  using assms by (simp add: GetByteArrayRegion_def)

lemma put_bytes_Inr_iff [res_inv]:
  "put_bytes p bs s = Inr s' \<longleftrightarrow>
     in_range (sbuf s) p (length bs) \<and> s' = s\<lparr>sbuf := overlay (nat p) bs (sbuf s)\<rparr>"
  by (auto simp: put_bytes_def res_inv)

lemma new_array_Inr_iff [res_inv]:
  "new_array m p n = Inr bs \<longleftrightarrow>
     0 \<le> n \<and> in_range m p (nat n) \<and> bs = take (nat n) (drop (nat p) m)"
  by (auto simp: new_array_def rd_bytes_Inr_iff)

section \<open>Emitters: the contract of the functions that fill a header\<close>

text \<open>
  An emitter for the range \<open>[p, p + n)\<close> keeps the size of the buffer and writes nothing outside
  that range. Every \<open>set_*\<close> function of the sender is one; running one after another is one for
  the range that covers both.
\<close>

locale emitter =
  fixes emit :: "sstate \<Rightarrow> sstate res" and lo :: int and hi :: int
  assumes emit_size: "emit s = Inr s' \<Longrightarrow> length (sbuf s') = length (sbuf s)"
    and emit_outside: "emit s = Inr s' \<Longrightarrow> i < length (sbuf s) \<Longrightarrow> int i < lo \<or> hi \<le> int i \<Longrightarrow>
          sbuf s' ! i = sbuf s ! i"
begin

lemma emit_prefix:
  assumes "emit s = Inr s'" and "int k \<le> lo" and "k \<le> length (sbuf s)"
  shows "take k (sbuf s') = take k (sbuf s)"
proof (rule nth_equalityI)
  show "length (take k (sbuf s')) = length (take k (sbuf s))"
    using emit_size [OF assms(1)] by simp
  fix i assume "i < length (take k (sbuf s'))"
  then have "i < k" by simp
  with assms show "take k (sbuf s') ! i = take k (sbuf s) ! i"
    by (auto intro: emit_outside)
qed

lemma emit_suffix:
  assumes "emit s = Inr s'" and "hi \<le> int k"
  shows "drop k (sbuf s') = drop k (sbuf s)"
proof (rule nth_equalityI)
  show "length (drop k (sbuf s')) = length (drop k (sbuf s))"
    using emit_size [OF assms(1)] by simp
  fix i assume "i < length (drop k (sbuf s'))"
  then have "k + i < length (sbuf s)" using emit_size [OF assms(1)] by simp
  with assms show "drop k (sbuf s') ! i = drop k (sbuf s) ! i"
    using emit_outside [of s s' "k + i"] emit_size [OF assms(1)] by simp
qed

end

text \<open>The length of an array, zero for \<open>null\<close>.\<close>

definition array_length :: "jbyteArray \<Rightarrow> int" where
  "array_length a = (case a of None \<Rightarrow> 0 | Some bs \<Rightarrow> int (length bs))"

lemma array_length_nonneg [simp]: "0 \<le> array_length a"
  by (simp add: array_length_def split: option.split)

text \<open>The closure rules that make an emitter out of the code's primitive writes.\<close>

lemma emitter_put_bytes:
  assumes "lo \<le> p" and "p + int (length bs) \<le> hi"
  shows "emitter (put_bytes p bs) lo hi"
proof
  fix s s' :: sstate and i
  assume e: "put_bytes p bs s = Inr s'"
  then show "length (sbuf s') = length (sbuf s)"
    by (auto simp: put_bytes_def res_inv dest: length_wr_bytes)
       (auto simp: in_range_def)
  assume i: "i < length (sbuf s)" and out: "int i < lo \<or> hi \<le> int i"
  show "sbuf s' ! i = sbuf s ! i"
  proof (cases "bs = []")
    case True
    with e show ?thesis by (simp add: res_inv)
  next
    case False
    with e have r: "0 \<le> p" "p + int (length bs) \<le> int (length (sbuf s))"
      by (auto simp: res_inv in_range_def)
    with out assms have "i < nat p \<or> nat p + length bs \<le> i" by linarith
    with e r show ?thesis by (auto simp: res_inv nth_overlay_other)
  qed
qed

lemma emitter_Inr: "emitter Inr lo hi"
  by unfold_locales simp_all

lemma emitter_seq:
  assumes "emitter f lo hi" and "emitter g lo hi"
  shows "emitter (\<lambda>s. bindr (f s) g) lo hi"
proof
  fix s s' :: sstate and i
  assume "bindr (f s) g = Inr s'"
  then obtain t where f: "f s = Inr t" and g: "g t = Inr s'" by (auto simp: res_inv)
  note size = emitter.emit_size [OF assms(1) f] emitter.emit_size [OF assms(2) g]
  then show "length (sbuf s') = length (sbuf s)" by simp
  assume "i < length (sbuf s)" and "int i < lo \<or> hi \<le> int i"
  with size show "sbuf s' ! i = sbuf s ! i"
    using emitter.emit_outside [OF assms(1) f] emitter.emit_outside [OF assms(2) g] by simp
qed

lemma emitter_read:
  assumes "\<And>x. emitter (g x) lo hi"
  shows "emitter (\<lambda>s. bindr (h s) (\<lambda>x. g x s)) lo hi"
proof
  fix s s' :: sstate and i
  assume "bindr (h s) (\<lambda>x. g x s) = Inr s'"
  then obtain x where g: "g x s = Inr s'" by (auto simp: res_inv)
  show "length (sbuf s') = length (sbuf s)" using emitter.emit_size [OF assms g] .
  assume "i < length (sbuf s)" and "int i < lo \<or> hi \<le> int i"
  then show "sbuf s' ! i = sbuf s ! i" by (rule emitter.emit_outside [OF assms g])
qed

lemma emitter_if: "emitter f lo hi \<Longrightarrow> emitter g lo hi \<Longrightarrow> emitter (if b then f else g) lo hi"
  by simp

lemma emitter_if_app:
  "emitter f lo hi \<Longrightarrow> emitter g lo hi \<Longrightarrow> emitter (\<lambda>s. if b then f s else g s) lo hi"
  by (cases b) simp_all

lemma emitter_put8: "lo \<le> p \<Longrightarrow> p + 1 \<le> hi \<Longrightarrow> emitter (put8 p b) lo hi"
  by (simp add: put8_def emitter_put_bytes)

lemma emitter_put16: "lo \<le> p \<Longrightarrow> p + 2 \<le> hi \<Longrightarrow> emitter (put16 p w) lo hi"
  by (simp add: put16_def emitter_put_bytes)

lemma emitter_put32: "lo \<le> p \<Longrightarrow> p + 4 \<le> hi \<Longrightarrow> emitter (put32 p w) lo hi"
  by (simp add: put32_def emitter_put_bytes)

lemma emitter_put_low4: "lo \<le> p \<Longrightarrow> p + 1 \<le> hi \<Longrightarrow> emitter (put_low4 p v) lo hi"
  unfolding put_low4_def by (intro emitter_read emitter_put8)

lemma emitter_put_high4: "lo \<le> p \<Longrightarrow> p + 1 \<le> hi \<Longrightarrow> emitter (put_high4 p v) lo hi"
  unfolding put_high4_def by (intro emitter_read emitter_put8)

lemma emitter_pending: "emitter (\<lambda>s. Inr (s\<lparr>pending := e\<rparr>)) lo hi"
  by unfold_locales auto

lemma emitter_region:
  assumes "lo \<le> p" and "p + max 0 n \<le> hi"
  shows "emitter (GetByteArrayRegion a start n p) lo hi"
proof (cases a)
  case None
  then show ?thesis by unfold_locales (simp_all add: GetByteArrayRegion_def)
next
  case (Some bs)
  have "p + int (length (take (nat n) (drop (nat start) bs))) \<le> hi"
    using assms(2) by auto
  then have "emitter (put_bytes p (take (nat n) (drop (nat start) bs))) lo hi"
    using assms(1) by (rule emitter_put_bytes [rotated])
  then show ?thesis
    unfolding GetByteArrayRegion_def [abs_def] Some option.case
    by (intro emitter_if_app emitter_pending)
qed

lemma emitter_weaken:
  "emitter f lo hi \<Longrightarrow> lo' \<le> lo \<Longrightarrow> hi \<le> hi' \<Longrightarrow> emitter f lo' hi'"
  by (auto simp: emitter_def)

lemmas emitter_intros =
  emitter_Inr emitter_seq emitter_put8 emitter_put16 emitter_put32 emitter_put_low4
  emitter_put_high4 emitter_region emitter_put_bytes emitter_if_app

text \<open>
  The same contract as a relation between two states, for functions that return a value beside
  the state.
\<close>

definition agree_outside :: "int \<Rightarrow> int \<Rightarrow> sstate \<Rightarrow> sstate \<Rightarrow> bool" where
  "agree_outside lo hi s s' \<longleftrightarrow> length (sbuf s') = length (sbuf s) \<and>
     (\<forall>i < length (sbuf s). int i < lo \<or> hi \<le> int i \<longrightarrow> sbuf s' ! i = sbuf s ! i)"

lemma emitter_iff_agree: "emitter f lo hi \<longleftrightarrow> (\<forall>s s'. f s = Inr s' \<longrightarrow> agree_outside lo hi s s')"
  by (auto simp: emitter_def agree_outside_def)

lemma emitter_agree: "emitter f lo hi \<Longrightarrow> f s = Inr s' \<Longrightarrow> agree_outside lo hi s s'"
  by (simp add: emitter_iff_agree)

lemma agree_refl [simp]: "agree_outside lo hi s s"
  by (simp add: agree_outside_def)

lemma agree_trans [trans]:
  "agree_outside lo hi s t \<Longrightarrow> agree_outside lo hi t u \<Longrightarrow> agree_outside lo hi s u"
  by (simp add: agree_outside_def)

lemma agree_weaken:
  "agree_outside lo hi s t \<Longrightarrow> lo' \<le> lo \<Longrightarrow> hi \<le> hi' \<Longrightarrow> agree_outside lo' hi' s t"
  by (auto simp: agree_outside_def)

end
