(* ===== verification/Headers.thy ===== *)
theory Headers
  imports Jni
begin

text \<open>
  The layout of the header structures of \<open>include/netinet\<close>, \<open>include/net/if_arp.h\<close> and
  \<open>Jpcap_ether.h\<close> (little-endian branches) and the constants of those files and of
  \<open>Jpcap_sub.h\<close>. \<open>at_f p\<close> is the address of the field \<open>f\<close> of the structure at \<open>p\<close>.
\<close>

section \<open>Sizes and limits\<close>

definition MAX_NUMBER_OF_INSTANCE :: nat where [layout]: "MAX_NUMBER_OF_INSTANCE = 255"
definition IPv4HDRLEN :: int where [layout]: "IPv4HDRLEN = 20"
definition TCPHDRLEN :: int where [layout]: "TCPHDRLEN = 20"
definition UDPHDRLEN :: int where [layout]: "UDPHDRLEN = 8"
definition ICMPHDRLEN :: int where [layout]: "ICMPHDRLEN = 8"
definition MAX_PACKET_SIZE :: int where [layout]: "MAX_PACKET_SIZE = 1600"

definition sizeof_ether_header :: int where [layout]: "sizeof_ether_header = 14"
definition sizeof_arphdr :: int where [layout]: "sizeof_arphdr = 8"
definition sizeof_ether_arp :: int where [layout]: "sizeof_ether_arp = 28"
definition sizeof_ip :: int where [layout]: "sizeof_ip = 20"
definition sizeof_tcphdr :: int where [layout]: "sizeof_tcphdr = 20"
definition sizeof_udphdr :: int where [layout]: "sizeof_udphdr = 8"
definition sizeof_ip6_hdr :: int where [layout]: "sizeof_ip6_hdr = 40"
definition sizeof_ip6_ext :: int where [layout]: "sizeof_ip6_ext = 2"
definition sizeof_newah :: int where [layout]: "sizeof_newah = 12"

section \<open>Protocol numbers and flags\<close>

definition ETHERTYPE_IP :: u16 where [layout]: "ETHERTYPE_IP = 0x0800"
definition ETHERTYPE_ARP :: u16 where [layout]: "ETHERTYPE_ARP = 0x0806"
definition ETHERTYPE_REVARP :: u16 where [layout]: "ETHERTYPE_REVARP = 0x8035"
definition ETHERTYPE_IPV6 :: u16 where [layout]: "ETHERTYPE_IPV6 = 0x86dd"
definition UNKNOWN_PROTO :: u16 where [layout]: "UNKNOWN_PROTO = 0xffff"

text \<open>The IP protocol numbers of the C library, and those \<open>packet_ipv6.c\<close> repeats.\<close>

definition IPPROTO_ICMP :: u8 where [layout]: "IPPROTO_ICMP = 1"
definition IPPROTO_TCP :: u8 where [layout]: "IPPROTO_TCP = 6"
definition IPPROTO_UDP :: u8 where [layout]: "IPPROTO_UDP = 17"
definition IPPROTO_HOPOPTS :: u8 where [layout]: "IPPROTO_HOPOPTS = 0"
definition IPPROTO_ROUTING :: u8 where [layout]: "IPPROTO_ROUTING = 43"
definition IPPROTO_FRAGMENT :: u8 where [layout]: "IPPROTO_FRAGMENT = 44"
definition IPPROTO_ESP :: u8 where [layout]: "IPPROTO_ESP = 50"
definition IPPROTO_AH :: u8 where [layout]: "IPPROTO_AH = 51"
definition IPPROTO_NONE :: u8 where [layout]: "IPPROTO_NONE = 59"
definition IPPROTO_DSTOPTS :: u8 where [layout]: "IPPROTO_DSTOPTS = 60"

definition IP_RF :: u16 where [layout]: "IP_RF = 0x8000"
definition IP_DF :: u16 where [layout]: "IP_DF = 0x4000"
definition IP_MF :: u16 where [layout]: "IP_MF = 0x2000"
definition IP_OFFMASK :: u16 where [layout]: "IP_OFFMASK = 0x1fff"
definition IPTOS_LOWDELAY :: u8 where [layout]: "IPTOS_LOWDELAY = 0x10"
definition IPTOS_THROUGHPUT :: u8 where [layout]: "IPTOS_THROUGHPUT = 0x08"
definition IPTOS_RELIABILITY :: u8 where [layout]: "IPTOS_RELIABILITY = 0x04"

definition TH_FIN :: u8 where [layout]: "TH_FIN = 0x01"
definition TH_SYN :: u8 where [layout]: "TH_SYN = 0x02"
definition TH_RST :: u8 where [layout]: "TH_RST = 0x04"
definition TH_PUSH :: u8 where [layout]: "TH_PUSH = 0x08"
definition TH_ACK :: u8 where [layout]: "TH_ACK = 0x10"
definition TH_URG :: u8 where [layout]: "TH_URG = 0x20"
definition TH_RSV2 :: u8 where [layout]: "TH_RSV2 = 0x40"
definition TH_RSV1 :: u8 where [layout]: "TH_RSV1 = 0x80"

definition ICMP_ECHOREPLY :: u8 where [layout]: "ICMP_ECHOREPLY = 0"
definition ICMP_UNREACH :: u8 where [layout]: "ICMP_UNREACH = 3"
definition ICMP_SOURCEQUENCH :: u8 where [layout]: "ICMP_SOURCEQUENCH = 4"
definition ICMP_REDIRECT :: u8 where [layout]: "ICMP_REDIRECT = 5"
definition ICMP_ECHO :: u8 where [layout]: "ICMP_ECHO = 8"
definition ICMP_ROUTERADVERT :: u8 where [layout]: "ICMP_ROUTERADVERT = 9"
definition ICMP_TIMXCEED :: u8 where [layout]: "ICMP_TIMXCEED = 11"
definition ICMP_PARAMPROB :: u8 where [layout]: "ICMP_PARAMPROB = 12"
definition ICMP_TSTAMP :: u8 where [layout]: "ICMP_TSTAMP = 13"
definition ICMP_TSTAMPREPLY :: u8 where [layout]: "ICMP_TSTAMPREPLY = 14"
definition ICMP_MASKREQ :: u8 where [layout]: "ICMP_MASKREQ = 17"
definition ICMP_MASKREPLY :: u8 where [layout]: "ICMP_MASKREPLY = 18"

text \<open>In network byte order: \<open>htons(0xfff8)\<close> and \<open>htons(0x0001)\<close>.\<close>

definition IP6F_OFF_MASK :: u16 where [layout]: "IP6F_OFF_MASK = htons 0xfff8"
definition IP6F_MORE_FRAG :: u16 where [layout]: "IP6F_MORE_FRAG = htons 0x0001"

section \<open>Link types\<close>

definition DLT_EN10MB :: int where [layout]: "DLT_EN10MB = 1"
definition DLT_IEEE802 :: int where [layout]: "DLT_IEEE802 = 6"
definition DLT_RAW :: int where [layout]: "DLT_RAW = 12"

section \<open>Field addresses\<close>

text \<open>\<open>struct ether_header\<close>\<close>
abbreviation "at_ether_dest p \<equiv> p + (0 :: int)"
abbreviation "at_ether_src p \<equiv> p + (6 :: int)"
abbreviation "at_ether_type p \<equiv> p + (12 :: int)"

text \<open>\<open>struct arphdr\<close> and \<open>struct ether_arp\<close>\<close>
abbreviation "at_arp_hrd p \<equiv> p + (0 :: int)"
abbreviation "at_arp_pro p \<equiv> p + (2 :: int)"
abbreviation "at_arp_hln p \<equiv> p + (4 :: int)"
abbreviation "at_arp_pln p \<equiv> p + (5 :: int)"
abbreviation "at_arp_op p \<equiv> p + (6 :: int)"
abbreviation "at_arp_sha p \<equiv> p + (8 :: int)"
abbreviation "at_arp_spa p \<equiv> p + (14 :: int)"
abbreviation "at_arp_tha p \<equiv> p + (18 :: int)"
abbreviation "at_arp_tpa p \<equiv> p + (24 :: int)"

text \<open>\<open>struct ip\<close>: \<open>ip_hl\<close> is the low half of its first byte and \<open>ip_v\<close> the high half.\<close>
abbreviation "at_ip_hl_v p \<equiv> p + (0 :: int)"
abbreviation "at_ip_tos p \<equiv> p + (1 :: int)"
abbreviation "at_ip_len p \<equiv> p + (2 :: int)"
abbreviation "at_ip_id p \<equiv> p + (4 :: int)"
abbreviation "at_ip_off p \<equiv> p + (6 :: int)"
abbreviation "at_ip_ttl p \<equiv> p + (8 :: int)"
abbreviation "at_ip_p p \<equiv> p + (9 :: int)"
abbreviation "at_ip_sum p \<equiv> p + (10 :: int)"
abbreviation "at_ip_src p \<equiv> p + (12 :: int)"
abbreviation "at_ip_dst p \<equiv> p + (16 :: int)"

text \<open>\<open>struct tcphdr\<close>: \<open>th_off\<close> is the high half of the byte at 12.\<close>
abbreviation "at_th_sport p \<equiv> p + (0 :: int)"
abbreviation "at_th_dport p \<equiv> p + (2 :: int)"
abbreviation "at_th_seq p \<equiv> p + (4 :: int)"
abbreviation "at_th_ack p \<equiv> p + (8 :: int)"
abbreviation "at_th_x2_off p \<equiv> p + (12 :: int)"
abbreviation "at_th_flags p \<equiv> p + (13 :: int)"
abbreviation "at_th_win p \<equiv> p + (14 :: int)"
abbreviation "at_th_sum p \<equiv> p + (16 :: int)"
abbreviation "at_th_urp p \<equiv> p + (18 :: int)"

text \<open>\<open>struct udphdr\<close>\<close>
abbreviation "at_uh_sport p \<equiv> p + (0 :: int)"
abbreviation "at_uh_dport p \<equiv> p + (2 :: int)"
abbreviation "at_uh_ulen p \<equiv> p + (4 :: int)"
abbreviation "at_uh_sum p \<equiv> p + (6 :: int)"

text \<open>\<open>struct icmp\<close>, with its two unions at 4 and 8\<close>
abbreviation "at_icmp_type p \<equiv> p + (0 :: int)"
abbreviation "at_icmp_code p \<equiv> p + (1 :: int)"
abbreviation "at_icmp_cksum p \<equiv> p + (2 :: int)"
abbreviation "at_icmp_gwaddr p \<equiv> p + (4 :: int)"
abbreviation "at_icmp_id p \<equiv> p + (4 :: int)"
abbreviation "at_icmp_seq p \<equiv> p + (6 :: int)"
abbreviation "at_icmp_nextmtu p \<equiv> p + (6 :: int)"
abbreviation "at_icmp_otime p \<equiv> p + (8 :: int)"
abbreviation "at_icmp_rtime p \<equiv> p + (12 :: int)"
abbreviation "at_icmp_ttime p \<equiv> p + (16 :: int)"
abbreviation "at_icmp_ip p \<equiv> p + (8 :: int)"
abbreviation "at_icmp_mask p \<equiv> p + (8 :: int)"
abbreviation "at_icmp_data p \<equiv> p + (8 :: int)"

text \<open>\<open>struct ip6_hdr\<close>; \<open>ip6_vfc\<close> and \<open>ip6_flow\<close> share the first bytes\<close>
abbreviation "at_ip6_flow p \<equiv> p + (0 :: int)"
abbreviation "at_ip6_vfc p \<equiv> p + (0 :: int)"
abbreviation "at_ip6_plen p \<equiv> p + (4 :: int)"
abbreviation "at_ip6_nxt p \<equiv> p + (6 :: int)"
abbreviation "at_ip6_hlim p \<equiv> p + (7 :: int)"
abbreviation "at_ip6_src p \<equiv> p + (8 :: int)"
abbreviation "at_ip6_dst p \<equiv> p + (24 :: int)"

text \<open>\<open>struct ip6_ext\<close>, \<open>struct ip6_rthdr\<close>, \<open>struct ip6_frag\<close> and \<open>struct newah\<close>\<close>
abbreviation "at_ip6e_nxt p \<equiv> p + (0 :: int)"
abbreviation "at_ip6e_len p \<equiv> p + (1 :: int)"
abbreviation "at_ip6r_len p \<equiv> p + (1 :: int)"
abbreviation "at_ip6r_type p \<equiv> p + (2 :: int)"
abbreviation "at_ip6r_segleft p \<equiv> p + (3 :: int)"
abbreviation "at_ip6f_offlg p \<equiv> p + (2 :: int)"
abbreviation "at_ip6f_ident p \<equiv> p + (4 :: int)"
abbreviation "at_ah_len p \<equiv> p + (1 :: int)"
abbreviation "at_ah_spi p \<equiv> p + (4 :: int)"
abbreviation "at_ah_seq p \<equiv> p + (8 :: int)"

end
