(* ===== verification/PacketDatalink.thy ===== *)
theory PacketDatalink
  imports Headers
begin

text \<open>
  \<open>packet_datalink.c\<close>: \<open>analyze_datalink\<close> makes the \<open>DatalinkPacket\<close> of a captured frame,
  \<open>set_ether\<close> writes the Ethernet header of a packet to send.
\<close>

definition analyze_datalink :: "mem \<Rightarrow> ptr \<Rightarrow> int \<Rightarrow> datalink res" where
  "analyze_datalink m data linktype =
     (if linktype = DLT_EN10MB then
        bindr (new_array m (at_ether_src data) 6) (\<lambda>src_addr.
        bindr (new_array m (at_ether_dest data) 6) (\<lambda>dst_addr.
        bindr (rd16 m (at_ether_type data)) (\<lambda>type.
          Inr (EthernetPacket
                (ether_setValue (Some dst_addr) (Some src_addr) (ntohs type) zero_ether)))))
      else Inr OtherDatalink)"

text \<open>
  The pending exception of a MAC array shorter than six bytes is printed and cleared by
  \<open>ExceptionDescribe\<close>; the frame goes out with whatever the buffer held.
\<close>

definition set_ether :: "datalink option \<Rightarrow> ptr \<Rightarrow> sstate \<Rightarrow> (int \<times> sstate) res" where
  "set_ether datalink pointer s =
     (case datalink of
        Some (EthernetPacket e) \<Rightarrow>
          bindr (GetByteArrayRegion (eth_src_mac e) 0 6 (at_ether_src pointer) s) (\<lambda>s.
          bindr (GetByteArrayRegion (eth_dst_mac e) 0 6 (at_ether_dest pointer) s) (\<lambda>s.
          bindr (put16 (at_ether_type pointer) (htons (eth_frametype e)) s) (\<lambda>s.
            Inr (sizeof_ether_header, ExceptionDescribe s))))
      | _ \<Rightarrow> Inr (0, s))"

interpretation set_ether: emitter "\<lambda>s. bindr (set_ether dl p s) (\<lambda>(n, s). Inr s)" p "p + 14"
  for dl p
proof (cases dl)
  case None
  then show "emitter (\<lambda>s. bindr (set_ether dl p s) (\<lambda>(n, s). Inr s)) p (p + 14)"
    by (simp add: set_ether_def emitter_Inr)
next
  case (Some d)
  show "emitter (\<lambda>s. bindr (set_ether dl p s) (\<lambda>(n, s). Inr s)) p (p + 14)"
  proof (cases d)
    case (EthernetPacket e)
    have "emitter (\<lambda>s. Inr (ExceptionDescribe s)) p (p + 14)"
      by unfold_locales (auto simp: ExceptionDescribe_def)
    then show ?thesis
      unfolding set_ether_def Some EthernetPacket option.case datalink.case bindr_assoc
        bindr_simps prod.case
      by (intro emitter_intros) simp_all
  next
    case OtherDatalink
    with Some show ?thesis by (simp add: set_ether_def emitter_Inr)
  qed
qed

text \<open>The 14 bytes of the Ethernet header, in the order of the wire.\<close>

definition ether_bytes :: "u8 list \<Rightarrow> u8 list \<Rightarrow> u16 \<Rightarrow> u8 list" where
  "ether_bytes dst src type = dst @ src @ [byte_at 1 type, byte_at 0 type]"

lemma list_of_length_14:
  assumes "length w = 14"
  obtains w0 w1 w2 w3 w4 w5 w6 w7 w8 w9 w10 w11 w12 w13
  where "w = [w0,w1,w2,w3,w4,w5,w6,w7,w8,w9,w10,w11,w12,w13]"
  using assms by (auto simp: numeral_eq_Suc length_Suc_conv)

lemma set_ether_window:
  assumes "length w = 14"
    and "eth_src_mac e = Some src" and "length src = 6"
    and "eth_dst_mac e = Some dst" and "length dst = 6"
  shows "set_ether (Some (EthernetPacket e)) (int (length pre))
       \<lparr>sbuf = pre @ w @ post, pending = x\<rparr> =
     Inr (14, \<lparr>sbuf = pre @ ether_bytes dst src (eth_frametype e) @ post, pending = None\<rparr>)"
  using assms
  by (simp add: set_ether_def window region_ok ExceptionDescribe_def sizeof_ether_header_def)
     (auto elim!: list_of_length_14 simp: overlay_def ether_bytes_def bytes16_def)

lemma analyze_datalink_window:
  assumes "14 \<le> length w"
  shows "analyze_datalink (pre @ w @ post) (int (length pre)) DLT_EN10MB =
     Inr (EthernetPacket \<lparr>eth_dst_mac = Some (take 6 w), eth_src_mac = Some (take 6 (drop 6 w)),
            eth_frametype = be16 (w ! 12) (w ! 13)\<rparr>)"
  using assms by (simp add: analyze_datalink_def window ether_setValue_def zero_ether_def)

lemma analyze_ether_bytes:
  assumes "length dst = 6" and "length src = 6"
  shows "analyze_datalink (pre @ ether_bytes dst src type @ post) (int (length pre)) DLT_EN10MB =
     Inr (EthernetPacket \<lparr>eth_dst_mac = Some dst, eth_src_mac = Some src, eth_frametype = type\<rparr>)"
proof -
  have "14 \<le> length (ether_bytes dst src type)"
    using assms by (simp add: ether_bytes_def)
  from analyze_datalink_window [OF this] assms show ?thesis
    by (simp add: ether_bytes_def nth_append)
qed

end
