(* ===== verification/PacketArp.thy ===== *)
theory PacketArp
  imports Headers
begin

text \<open>
  \<open>packet_arp.c\<close>: \<open>analyze_arp\<close> reads the variable-size form of RFC 826, with the lengths the
  header carries; \<open>set_arp\<close> writes the fixed Ethernet/IPv4 form \<open>struct ether_arp\<close>.
\<close>

definition analyze_arp :: "mem \<Rightarrow> jpacket \<Rightarrow> ptr \<Rightarrow> (jpacket \<times> int) res" where
  "analyze_arp m packet data =
     bindr (rd8 m (at_arp_hln data)) (\<lambda>hl.
     bindr (rd8 m (at_arp_pln data)) (\<lambda>pl.
     bindr (new_array m (data + sizeof_arphdr) (uint hl)) (\<lambda>sha.
     bindr (new_array m (data + sizeof_arphdr + uint hl) (uint pl)) (\<lambda>spa.
     bindr (new_array m (data + sizeof_arphdr + uint hl + uint pl) (uint hl)) (\<lambda>tha.
     bindr (new_array m (data + sizeof_arphdr + uint hl + uint pl + uint hl) (uint pl)) (\<lambda>tpa.
     bindr (rd16 m (at_arp_hrd data)) (\<lambda>hrd.
     bindr (rd16 m (at_arp_pro data)) (\<lambda>pro.
     bindr (rd16 m (at_arp_op data)) (\<lambda>op.
       Inr (packet\<lparr>pk_arp := arp_setValue (ntohs hrd) (ntohs pro) (ucast hl) (ucast pl)
                     (ntohs op) sha spa tha tpa (pk_arp packet)\<rparr>,
            sizeof_arphdr + uint hl * 2 + uint pl * 2))))))))))"

definition set_arp :: "arp_fields \<Rightarrow> ptr \<Rightarrow> sstate \<Rightarrow> (int \<times> sstate) res" where
  "set_arp packet arp s =
     bindr (put16 (at_arp_hrd arp) (htons (arp_hardtype packet)) s) (\<lambda>s.
     bindr (put16 (at_arp_pro arp) (htons (arp_prototype packet)) s) (\<lambda>s.
     bindr (put16 (at_arp_op arp) (htons (arp_operation packet)) s) (\<lambda>s.
     bindr (put8 (at_arp_hln arp) (ucast (arp_hlen packet)) s) (\<lambda>s.
     bindr (put8 (at_arp_pln arp) (ucast (arp_plen packet)) s) (\<lambda>s.
     bindr (rd8 (sbuf s) (at_arp_hln arp)) (\<lambda>hln.
     bindr (GetByteArrayRegion (arp_sender_hardaddr packet) 0 (uint hln) (at_arp_sha arp) s) (\<lambda>s.
     bindr (rd8 (sbuf s) (at_arp_pln arp)) (\<lambda>pln.
     bindr (GetByteArrayRegion (arp_sender_protoaddr packet) 0 (uint pln) (at_arp_spa arp) s) (\<lambda>s.
     bindr (rd8 (sbuf s) (at_arp_hln arp)) (\<lambda>hln.
     bindr (GetByteArrayRegion (arp_target_hardaddr packet) 0 (uint hln) (at_arp_tha arp) s) (\<lambda>s.
     bindr (rd8 (sbuf s) (at_arp_pln arp)) (\<lambda>pln.
     bindr (GetByteArrayRegion (arp_target_protoaddr packet) 0 (uint pln) (at_arp_tpa arp) s) (\<lambda>s.
       Inr (sizeof_ether_arp, s))))))))))))))"

section \<open>Ethernet/IPv4 addresses\<close>

text \<open>The 28 bytes of an Ethernet/IPv4 ARP packet.\<close>

definition arp_bytes :: "arp_fields \<Rightarrow> u8 list \<Rightarrow> u8 list \<Rightarrow> u8 list \<Rightarrow> u8 list \<Rightarrow> u8 list" where
  "arp_bytes f sha spa tha tpa =
     [byte_at 1 (arp_hardtype f), byte_at 0 (arp_hardtype f),
      byte_at 1 (arp_prototype f), byte_at 0 (arp_prototype f), 6, 4,
      byte_at 1 (arp_operation f), byte_at 0 (arp_operation f)] @ sha @ spa @ tha @ tpa"

lemma list_of_length_28:
  assumes "length w = 28"
  obtains w0 w1 w2 w3 w4 w5 w6 w7 w8 w9 w10 w11 w12 w13 w14 w15 w16 w17 w18 w19 w20 w21 w22
    w23 w24 w25 w26 w27
  where "w = [w0,w1,w2,w3,w4,w5,w6,w7,w8,w9,w10,w11,w12,w13,w14,w15,w16,w17,w18,w19,w20,w21,
    w22,w23,w24,w25,w26,w27]"
  using assms by (auto simp: numeral_eq_Suc length_Suc_conv)

lemma set_arp_window:
  assumes "length w = 28" and "arp_hlen f = 6" and "arp_plen f = 4"
    and "arp_sender_hardaddr f = Some sha" and "length sha = 6"
    and "arp_sender_protoaddr f = Some spa" and "length spa = 4"
    and "arp_target_hardaddr f = Some tha" and "length tha = 6"
    and "arp_target_protoaddr f = Some tpa" and "length tpa = 4"
  shows "set_arp f (int (length pre)) \<lparr>sbuf = pre @ w @ post, pending = x\<rparr> =
     Inr (28, \<lparr>sbuf = pre @ arp_bytes f sha spa tha tpa @ post, pending = x\<rparr>)"
  using assms
  by (simp add: set_arp_def window region_ok sizeof_ether_arp_def nth_overlay_other nth_overlay_in)
     (auto elim!: list_of_length_28 simp: overlay_def arp_bytes_def bytes16_def)

lemma arp_setValue_eq:
  "arp_setValue hrd pro hl pl op sha spa tha tpa f =
     \<lparr>arp_hardtype = hrd, arp_prototype = pro, arp_hlen = hl, arp_plen = pl,
      arp_operation = op, arp_sender_hardaddr = Some sha, arp_sender_protoaddr = Some spa,
      arp_target_hardaddr = Some tha, arp_target_protoaddr = Some tpa\<rparr>"
  by (cases f) (simp add: arp_setValue_def)

lemma analyze_arp_window:
  assumes "28 \<le> length w" and "w ! 4 = 6" and "w ! 5 = 4"
  shows "analyze_arp (pre @ w @ post) packet (int (length pre)) =
     Inr (packet\<lparr>pk_arp := \<lparr>arp_hardtype = be16 (w ! 0) (w ! 1), arp_prototype = be16 (w ! 2) (w ! 3),
            arp_hlen = 6, arp_plen = 4, arp_operation = be16 (w ! 6) (w ! 7),
            arp_sender_hardaddr = Some (take 6 (drop 8 w)),
            arp_sender_protoaddr = Some (take 4 (drop 14 w)),
            arp_target_hardaddr = Some (take 6 (drop 18 w)),
            arp_target_protoaddr = Some (take 4 (drop 24 w))\<rparr>\<rparr>, 28)"
  using assms by (simp add: analyze_arp_def window arp_setValue_eq sizeof_arphdr_def)

lemma analyze_arp_bytes:
  assumes "length sha = 6" and "length spa = 4" and "length tha = 6" and "length tpa = 4"
  shows "analyze_arp (pre @ arp_bytes f sha spa tha tpa @ post) packet (int (length pre)) =
     Inr (packet\<lparr>pk_arp := \<lparr>arp_hardtype = arp_hardtype f, arp_prototype = arp_prototype f,
            arp_hlen = 6, arp_plen = 4, arp_operation = arp_operation f,
            arp_sender_hardaddr = Some sha, arp_sender_protoaddr = Some spa,
            arp_target_hardaddr = Some tha, arp_target_protoaddr = Some tpa\<rparr>\<rparr>, 28)"
proof -
  have "28 \<le> length (arp_bytes f sha spa tha tpa)" and "arp_bytes f sha spa tha tpa ! 4 = 6"
    and "arp_bytes f sha spa tha tpa ! 5 = 4"
    using assms by (simp_all add: arp_bytes_def)
  from analyze_arp_window [OF this] assms show ?thesis
    by (simp add: arp_bytes_def nth_append)
qed

end
