(* ===== verification/Checksum.thy ===== *)
theory Checksum
  imports CMem
begin

text \<open>
  \<open>in_cksum\<close> and \<open>in_cksum2\<close> of \<open>JpcapSender.c\<close>, with their loop over 16-bit words of host
  memory and their final folding, against the Internet checksum of RFC 1071 over the bytes in
  network order. \<open>unsigned long\<close> is taken at its least width, 32 bits; \<open>cksum_no_wrap\<close> shows
  that the sum of any buffer of up to 131072 bytes fits, so a 64-bit one gives the same result.
\<close>

section \<open>The code\<close>

function cksum_words :: "mem \<Rightarrow> ptr \<Rightarrow> int \<Rightarrow> u32 \<Rightarrow> (ptr \<times> int \<times> u32) res" where
  "cksum_words m data sz acc =
     (if sz > 1
      then bindr (rd16 m data) (\<lambda>w. cksum_words m (data + 2) (sz - 2) (acc + ucast w))
      else Inr (data, sz, acc))"
  by pat_completeness auto
termination
  by (relation "measure (\<lambda>(m, data, sz, acc). nat sz)") auto

declare cksum_words.simps [simp del]

definition fold_sum :: "u32 \<Rightarrow> u16" where
  "fold_sum s =
     (let acc = (s AND 0xffff) + drop_bit 16 s
      in NOT (ucast (drop_bit 16 acc + (acc AND 0xffff))))"

definition in_cksum :: "mem \<Rightarrow> ptr \<Rightarrow> int \<Rightarrow> u16 res" where
  "in_cksum m data sz =
     bindr (cksum_words m data sz 0) (\<lambda>(data, sz, acc).
       if sz > 0
       then bindr (rd16 m data) (\<lambda>w. Inr (fold_sum (acc + ucast (w AND 0xff00))))
       else Inr (fold_sum acc))"

definition in_cksum2 :: "mem \<Rightarrow> ptr \<Rightarrow> u16 \<Rightarrow> ptr \<Rightarrow> int \<Rightarrow> u16 res" where
  "in_cksum2 m ip len data sz =
     bindr (rd16 m (ip + 12)) (\<lambda>p0. bindr (rd16 m (ip + 14)) (\<lambda>p1.
     bindr (rd16 m (ip + 16)) (\<lambda>p2. bindr (rd16 m (ip + 18)) (\<lambda>p3.
     bindr (rd8 m (ip + 9)) (\<lambda>ip_p.
     bindr (cksum_words m data sz
              (ucast p0 + ucast p1 + ucast p2 + ucast p3
               + ucast (htons (ucast ip_p AND 0x00ff)) + ucast len))
       (\<lambda>(data, sz, acc).
         if sz > 0
         then bindr (rd8 m data) (\<lambda>b. Inr (fold_sum (acc + ucast b)))
         else Inr (fold_sum acc)))))))"

section \<open>The reference: RFC 1071 over bytes in network order\<close>

text \<open>One's complement addition of 16-bit values: a carry out is added back in.\<close>

definition oc_add :: "nat \<Rightarrow> nat \<Rightarrow> nat" where
  "oc_add a b = (if a + b < 65536 then a + b else a + b - 65535)"

text \<open>The 16-bit words of a byte string, an odd last byte padded with a zero byte.\<close>

fun be_words :: "u8 list \<Rightarrow> nat list" where
  "be_words [] = []"
| "be_words [a] = [256 * unat a]"
| "be_words (a # b # bs) = (256 * unat a + unat b) # be_words bs"

definition rfc1071 :: "u8 list \<Rightarrow> nat" where
  "rfc1071 bs = 65535 - foldl oc_add 0 (be_words bs)"

text \<open>The same words as the little-endian host reads them, and their plain sum.\<close>

fun le_words :: "u8 list \<Rightarrow> nat list" where
  "le_words [] = []"
| "le_words [a] = [unat a]"
| "le_words (a # b # bs) = (unat a + 256 * unat b) # le_words bs"

section \<open>Arithmetic of the folding\<close>

text \<open>The representative in \<open>1..65535\<close> of a sum modulo 65535, or 0 for the empty sum.\<close>

definition oc_norm :: "nat \<Rightarrow> nat" where
  "oc_norm n = (if n = 0 then 0 else (n - 1) mod 65535 + 1)"

lemma oc_norm_le: "oc_norm n \<le> 65535"
proof -
  have "(n - 1) mod 65535 < (65535 :: nat)" by simp
  then have "(n - 1) mod 65535 + 1 \<le> 65535" by linarith
  then show ?thesis by (simp add: oc_norm_def)
qed

lemma oc_norm_small: "n \<le> 65535 \<Longrightarrow> oc_norm n = n"
  by (auto simp: oc_norm_def)

lemma oc_norm_cong: "oc_norm n mod 65535 = n mod 65535"
  by (cases n) (simp_all add: oc_norm_def mod_Suc)

lemma oc_norm_0 [simp]: "oc_norm n = 0 \<longleftrightarrow> n = 0"
  by (simp add: oc_norm_def)

lemma oc_norm_unique:
  assumes "m mod 65535 = n mod 65535" and "m = 0 \<longleftrightarrow> n = 0"
  shows "oc_norm m = oc_norm n"
proof (cases "m = 0")
  case True
  with assms show ?thesis by simp
next
  case False
  with assms have pos: "0 < m" "0 < n" by auto
  have "(m - 1) mod 65535 = (n - 1) mod 65535"
    using assms(1) pos mod_Suc [of "m - 1" 65535] mod_Suc [of "n - 1" 65535]
    by (auto split: if_splits)
  with pos show ?thesis by (simp add: oc_norm_def)
qed

lemma oc_add_0: "a \<le> 65535 \<Longrightarrow> b \<le> 65535 \<Longrightarrow> oc_add a b = 0 \<longleftrightarrow> a = 0 \<and> b = 0"
  by (auto simp: oc_add_def)

lemma oc_add_norm: "oc_add (oc_norm m) (oc_norm n) = oc_norm (m + n)"
proof -
  have le: "oc_norm m \<le> 65535" "oc_norm n \<le> 65535" by (rule oc_norm_le)+
  have "oc_add (oc_norm m) (oc_norm n) \<le> 65535"
    using le by (auto simp: oc_add_def)
  moreover have "oc_add (oc_norm m) (oc_norm n) = 0 \<longleftrightarrow> oc_norm m = 0 \<and> oc_norm n = 0"
    using le by (rule oc_add_0)
  then have "oc_add (oc_norm m) (oc_norm n) = 0 \<longleftrightarrow> m + n = 0"
    by simp
  moreover have "oc_add (oc_norm m) (oc_norm n) mod 65535 = (m + n) mod 65535"
  proof -
    have "oc_add (oc_norm m) (oc_norm n) mod 65535 = (oc_norm m + oc_norm n) mod 65535"
      by (auto simp: oc_add_def le_mod_geq)
    also have "\<dots> = (m + n) mod 65535"
      by (metis mod_add_eq oc_norm_cong)
    finally show ?thesis .
  qed
  ultimately show ?thesis using oc_norm_unique oc_norm_small by metis
qed

lemma foldl_oc_add:
  assumes "\<forall>w \<in> set ws. w \<le> 65535"
  shows "foldl oc_add (oc_norm n) ws = oc_norm (n + sum_list ws)"
  using assms
proof (induction ws arbitrary: n)
  case Nil
  then show ?case by simp
next
  case (Cons w ws)
  then have "oc_norm w = w" by (simp add: oc_norm_small)
  then have "oc_add (oc_norm n) w = oc_norm (n + w)"
    using oc_add_norm [of n w] by simp
  with Cons show ?case by (simp add: add.assoc)
qed

lemma unat8_le: "unat (b :: u8) \<le> 255"
  using unsigned_less [of b, where 'a = nat] by simp

lemma unat16_le: "unat (b :: u16) \<le> 65535"
  using unsigned_less [of b, where 'a = nat] by simp

lemma be_words_le: "\<forall>w \<in> set (be_words bs). w \<le> 65535"
proof (induction bs rule: be_words.induct)
  case 1
  then show ?case by simp
next
  case (2 a)
  show ?case using unat8_le [of a] by simp
next
  case (3 a b bs)
  then show ?case using unat8_le [of a] unat8_le [of b] by simp
qed

lemma le_words_le: "\<forall>w \<in> set (le_words bs). w \<le> 65535"
proof (induction bs rule: le_words.induct)
  case 1
  then show ?case by simp
next
  case (2 a)
  show ?case using unat8_le [of a] by simp
next
  case (3 a b bs)
  then show ?case using unat8_le [of a] unat8_le [of b] by simp
qed

lemma rfc1071_norm: "rfc1071 bs = 65535 - oc_norm (sum_list (be_words bs))"
  using foldl_oc_add [OF be_words_le, of 0] by (simp add: rfc1071_def oc_norm_def)

text \<open>The code's folding computes that representative and complements it.\<close>

lemma unat_not16: "unat (NOT (w :: u16)) = 65535 - unat w"
proof -
  have "NOT w = - 1 - w" by (simp add: not_eq_complement)
  moreover have "w \<le> - 1" by simp
  ultimately have "unat (NOT w) = unat (- 1 :: u16) - unat w"
    by (simp only: unat_sub)
  moreover have "unat (- 1 :: u16) = 65535" by (simp add: unsigned_minus_1_eq_mask mask_eq_exp_minus_1)
  ultimately show ?thesis by simp
qed

lemma unat_low16: "unat ((s :: u32) AND 0xffff) = unat s mod 65536"
proof -
  have "s AND 0xffff = take_bit 16 s" by (simp add: take_bit_eq_mask mask_numeral)
  then have "unat (s AND 0xffff) = take_bit 16 (unat s)" by (simp only: unsigned_take_bit_eq)
  then show ?thesis by (simp add: take_bit_eq_mod)
qed

lemma unat_high16: "unat (drop_bit 16 (s :: u32)) = unat s div 65536"
proof -
  have "unat (drop_bit 16 s) = drop_bit 16 (unat s)" by (simp only: unat_drop_bit_eq)
  then show ?thesis by (simp add: drop_bit_eq_div)
qed

lemma fold_step:
  "(n mod 65536 + n div 65536) mod 65535 = (n :: nat) mod 65535"
  "n mod 65536 + n div 65536 = 0 \<longleftrightarrow> n = 0"
proof -
  have n: "n = n mod 65536 + n div 65536 + (n div 65536) * 65535"
    using div_mult_mod_eq [of n 65536] by linarith
  show "(n mod 65536 + n div 65536) mod 65535 = n mod 65535"
    by (subst (3) n) (rule mod_mult_self1 [symmetric])
  show "n mod 65536 + n div 65536 = 0 \<longleftrightarrow> n = 0" using n by auto
qed

lemma fold_twice:
  assumes "n < 4294967296"
  defines "f \<equiv> n mod 65536 + n div 65536"
  shows "f div 65536 + f mod 65536 = oc_norm n" and "f \<le> 131070"
proof -
  have "n div 65536 < 65536" using assms by (simp add: less_mult_imp_div_less)
  moreover have "n mod 65536 < 65536" by simp
  ultimately show f: "f \<le> 131070" unfolding f_def by linarith
  have g: "f div 65536 + f mod 65536 \<le> 65535"
  proof (cases "f < 65536")
    case True
    then show ?thesis by simp
  next
    case False
    with f have "f div 65536 = 1" and "f mod 65536 = f - 65536"
      by (simp_all add: div_nat_eqI le_mod_geq)
    with f show ?thesis by simp
  qed
  have "f div 65536 + f mod 65536 = oc_norm (f mod 65536 + f div 65536)"
    using g by (simp add: oc_norm_small add.commute)
  also have "\<dots> = oc_norm f" by (rule oc_norm_unique [OF fold_step])
  also have "\<dots> = oc_norm n" unfolding f_def by (rule oc_norm_unique [OF fold_step])
  finally show "f div 65536 + f mod 65536 = oc_norm n" .
qed

lemma unat_fold_sum: "unat (fold_sum s) = 65535 - oc_norm (unat s)"
proof -
  let ?f = "unat s mod 65536 + unat s div 65536"
  have n: "unat s < 4294967296" using unsigned_less [of s, where 'a = nat] by simp
  have f: "unat ((s AND 0xffff) + drop_bit 16 s) = ?f"
    using fold_twice(2) [OF n] by (simp add: unat_word_ariths unat_low16 unat_high16)
  have "unat (drop_bit 16 ((s AND 0xffff) + drop_bit 16 s)
          + (((s AND 0xffff) + drop_bit 16 s) AND 0xffff)) = oc_norm (unat s)"
    using fold_twice(1) [OF n] oc_norm_le [of "unat s"]
    by (simp add: unat_word_ariths f unat_low16 unat_high16)
  then show ?thesis
    using oc_norm_le [of "unat s"]
    by (simp add: fold_sum_def Let_def unat_not16 unsigned_ucast_eq take_bit_eq_mod)
qed

section \<open>The loop\<close>

lemma sum_le_words_bound: "sum_list (le_words bs) \<le> 65535 * ((length bs + 1) div 2)"
proof (induction bs rule: le_words.induct)
  case 1
  then show ?case by simp
next
  case (2 a)
  show ?case using unat8_le [of a] by simp
next
  case (3 a b bs)
  then show ?case using unat8_le [of a] unat8_le [of b] by simp
qed

lemma le_words_append: "even (length xs) \<Longrightarrow> le_words (xs @ ys) = le_words xs @ le_words ys"
  by (induction xs rule: le_words.induct) simp_all

lemma be_words_append: "even (length xs) \<Longrightarrow> be_words (xs @ ys) = be_words xs @ be_words ys"
  by (induction xs rule: be_words.induct) simp_all

lemma ucast_le16: "(ucast (le16 a b) :: u32) = of_nat (unat a + 256 * unat b)"
proof -
  have "(ucast (le16 a b) :: u32) = of_nat (unat (le16 a b))" by simp
  then show ?thesis by (simp only: unat_le16)
qed

lemma cksum_words_even:
  assumes "even (length w)" and "p = int (length pre)" and "0 \<le> k"
  shows "cksum_words (pre @ w @ post) p (int (length w) + k) s =
     cksum_words (pre @ w @ post) (p + int (length w)) k (s + of_nat (sum_list (le_words w)))"
  using assms(1,2)
proof (induction w arbitrary: pre p s rule: le_words.induct)
  case 1
  then show ?case by simp
next
  case (2 a)
  then show ?case by simp
next
  case (3 a b w)
  let ?m = "pre @ (a # b # w) @ post"
  have rd: "rd16 ?m p = Inr (le16 a b)"
    using rd16_window [of p pre 0 "a # b # w" post] "3.prems" by simp
  have "cksum_words ?m p (int (length (a # b # w)) + k) s =
          cksum_words ?m (p + 2) (int (length w) + k) (s + ucast (le16 a b))"
    using assms(3) by (subst cksum_words.simps) (simp add: rd [simplified] add.commute)
  also have "\<dots> = cksum_words ((pre @ [a, b]) @ w @ post) (p + 2) (int (length w) + k)
                   (s + of_nat (unat a + 256 * unat b))"
    by (simp add: ucast_le16)
  also have "\<dots> = cksum_words ((pre @ [a, b]) @ w @ post) (p + 2 + int (length w)) k
                   (s + of_nat (unat a + 256 * unat b) + of_nat (sum_list (le_words w)))"
    using "3.prems" by (intro "3.IH") simp_all
  finally show ?case by (simp add: algebra_simps)
qed

lemma cksum_words_done: "k \<le> 1 \<Longrightarrow> cksum_words m p k s = Inr (p, k, s)"
  by (subst cksum_words.simps) simp

lemma in_cksum_even:
  assumes "even (length w)"
  shows "in_cksum (pre @ w @ post) (int (length pre)) (int (length w)) =
     Inr (fold_sum (of_nat (sum_list (le_words w))))"
  using cksum_words_even [OF assms refl, of 0 pre post 0]
  by (simp add: in_cksum_def cksum_words_done)

text \<open>
  With an odd size, the last byte \<open>b\<close> of the data is masked away and the byte \<open>c\<close> after the
  data is added in its place.
\<close>

lemma le16_high: "(ucast (le16 b c AND 0xff00) :: u32) = of_nat (256 * unat c)"
proof -
  have "le16 b c AND push_bit 8 (mask 8) = le16 0 c"
    by (auto intro!: bit_word_eqI simp: bit_le16 bit_simps) linarith+
  moreover have "push_bit 8 (mask 8) = (0xff00 :: u16)" by (simp add: mask_numeral)
  ultimately have "le16 b c AND 0xff00 = le16 0 c" by simp
  then show ?thesis by (simp add: ucast_le16)
qed

lemma in_cksum_odd:
  assumes "even (length w)"
  shows "in_cksum (pre @ w @ b # c # post) (int (length pre)) (int (length w) + 1) =
     Inr (fold_sum (of_nat (sum_list (le_words w) + 256 * unat c)))"
proof -
  have "rd16 ((pre @ w) @ [b, c] @ post) (int (length pre) + int (length w)) = Inr (le16 b c)"
    by (subst rd16_window [where k = 0]) simp_all
  then show ?thesis
    using cksum_words_even [OF assms refl, of 1 pre "b # c # post" 0]
    by (simp add: in_cksum_def cksum_words_done le16_high)
qed

section \<open>Agreement with RFC 1071\<close>

text \<open>Reading the words in the other byte order multiplies every sum by 256 modulo 65535.\<close>

lemma swap_mod: "(256 * (unat a + 256 * unat b)) mod 65535 = (256 * unat a + unat b) mod 65535"
proof -
  have "256 * (unat a + 256 * unat b) = 256 * unat a + unat b + unat b * 65535" by simp
  then show ?thesis by (metis mod_mult_self1)
qed

lemma sum_be_le_words:
  "(256 * sum_list (le_words bs)) mod 65535 = sum_list (be_words bs) mod 65535"
proof (induction bs rule: le_words.induct)
  case 1
  then show ?case by simp
next
  case (2 a)
  then show ?case by simp
next
  case (3 a b bs)
  have "(256 * sum_list (le_words (a # b # bs))) mod 65535 =
          (256 * (unat a + 256 * unat b) + 256 * sum_list (le_words bs)) mod 65535"
    by (simp add: algebra_simps)
  also have "\<dots> = (256 * unat a + unat b + sum_list (be_words bs)) mod 65535"
    by (rule mod_add_cong [OF swap_mod "3.IH"])
  finally show ?case by simp
qed

lemma sum_be_le_zero: "sum_list (le_words bs) = 0 \<longleftrightarrow> sum_list (be_words bs) = 0"
  by (induction bs rule: le_words.induct) auto

lemma le16_cases: obtains a b where "(w :: u16) = le16 a b"
  using le16_byte_at by metis

lemma unat_ntohs_cong:
  "unat (ntohs w) mod 65535 = (256 * unat w) mod 65535" "unat (ntohs w) = 0 \<longleftrightarrow> unat w = 0"
proof -
  obtain a b where w: "w = le16 a b" by (rule le16_cases)
  show "unat (ntohs w) mod 65535 = (256 * unat w) mod 65535"
    unfolding w ntohs_le16 unat_le16 using swap_mod [of a b] by (simp add: add.commute)
  show "unat (ntohs w) = 0 \<longleftrightarrow> unat w = 0"
    unfolding w ntohs_le16 unat_le16 by auto
qed

lemma ntohs_not: "ntohs (NOT w) = NOT (ntohs w)"
proof -
  have "ntohs (NOT w) = ntohs (le16 (NOT (byte_at 0 w)) (NOT (byte_at 1 w)))"
    by (rule arg_cong [where f = ntohs], rule bit_word_eqI)
       (auto simp: bit_le16 bit_byte_at bit_simps)
  also have "\<dots> = NOT (le16 (byte_at 1 w) (byte_at 0 w))"
    by (rule bit_word_eqI) (auto simp: bit_le16 bit_byte_at bit_simps)
  finally show ?thesis by (simp add: ntohs_def htons_def)
qed

lemma fold_sum_rfc:
  assumes "sum_list (le_words bs) < 2 ^ 32"
  shows "unat (ntohs (fold_sum (of_nat (sum_list (le_words bs))))) = rfc1071 bs"
proof -
  define x where "x = NOT (fold_sum (of_nat (sum_list (le_words bs))))"
  have x: "unat x = oc_norm (sum_list (le_words bs))"
    using assms oc_norm_le
    by (simp add: x_def unat_not16 unat_fold_sum unsigned_of_nat take_bit_nat_eq_self)
  have "unat (ntohs x) = oc_norm (unat (ntohs x))"
    using unat16_le by (simp add: oc_norm_small)
  also have "\<dots> = oc_norm (sum_list (be_words bs))"
  proof (rule oc_norm_unique)
    show "unat (ntohs x) mod 65535 = sum_list (be_words bs) mod 65535"
      by (metis unat_ntohs_cong(1) x sum_be_le_words mod_mult_right_eq oc_norm_cong)
    show "unat (ntohs x) = 0 \<longleftrightarrow> sum_list (be_words bs) = 0"
      using unat_ntohs_cong(2) [of x] x sum_be_le_zero [of bs] by simp
  qed
  finally have "unat (ntohs x) = oc_norm (sum_list (be_words bs))" .
  moreover have "fold_sum (of_nat (sum_list (le_words bs))) = NOT x"
    by (simp add: x_def)
  ultimately show ?thesis
    by (simp add: ntohs_not unat_not16 rfc1071_norm)
qed

lemma sum_le_words_fits: "length bs \<le> 131072 \<Longrightarrow> sum_list (le_words bs) < 2 ^ 32"
proof -
  assume "length bs \<le> 131072"
  then have "(length bs + 1) div 2 \<le> 65536" by linarith
  then show ?thesis using sum_le_words_bound [of bs] by simp
qed

section \<open>Verifying a checksum\<close>

text \<open>Adding the checksum to the sum it complements gives the other zero, 65535.\<close>

lemma oc_norm_complement: "oc_norm (n + (65535 - oc_norm n)) = 65535"
proof -
  have "n + (65535 - oc_norm n) \<noteq> 0"
    by (cases "n = 0") (auto simp: oc_norm_def)
  moreover have "(n + (65535 - oc_norm n)) mod 65535 = 65535 mod 65535"
  proof -
    have "(n + (65535 - oc_norm n)) mod 65535 = (oc_norm n + (65535 - oc_norm n)) mod 65535"
      by (metis mod_add_left_eq oc_norm_cong)
    then show ?thesis using oc_norm_le [of n] by simp
  qed
  ultimately have "oc_norm (n + (65535 - oc_norm n)) = oc_norm 65535"
    by (intro oc_norm_unique) simp_all
  then show ?thesis by (simp add: oc_norm_small)
qed

section \<open>The transport checksum\<close>

text \<open>
  What \<open>in_cksum2\<close> sums: the pseudo header of RFC 768 and RFC 793, made of the addresses and the
  protocol of the IP header and of the length, in front of the segment.
\<close>

definition pseudo_header :: "u8 list \<Rightarrow> u16 \<Rightarrow> u8 list" where
  "pseudo_header iph len = take 8 (drop 12 iph) @ [0, iph ! 9] @ bytes16 len"

lemma cksum_words_split:
  assumes "p = int (length pre)"
  obtains p' sz' acc where
    "cksum_words (pre @ w @ post) p (int (length w)) s = Inr (p', sz', acc)"
    and "0 < sz' \<Longrightarrow> \<exists>b. rd8 (pre @ w @ post) p' = Inr b \<and>
           acc + ucast b = s + of_nat (sum_list (le_words w))"
    and "\<not> 0 < sz' \<Longrightarrow> acc = s + of_nat (sum_list (le_words w))"
proof (cases "even (length w)")
  case True
  then have "cksum_words (pre @ w @ post) p (int (length w)) s =
      Inr (p + int (length w), 0, s + of_nat (sum_list (le_words w)))"
    using cksum_words_even [OF True assms, of 0 post s] by (simp add: cksum_words_done)
  then show ?thesis by (rule that) simp_all
next
  case False
  then obtain v b where w: "w = v @ [b]" by (cases w rule: rev_cases) auto
  with False have v: "even (length v)" by simp
  have len: "int (length w) = int (length v) + 1" by (simp add: w)
  have rd: "rd8 (pre @ w @ post) (p + int (length v)) = Inr b"
    using rd8_at(1) [of "[b]" "pre @ v" post] by (simp add: w assms)
  have "cksum_words (pre @ w @ post) p (int (length w)) s =
      Inr (p + int (length v), 1, s + of_nat (sum_list (le_words v)))"
    using cksum_words_even [OF v assms, of 1 "b # post" s]
    by (simp add: len) (simp add: w cksum_words_done)
  then show ?thesis
    by (rule that) (use rd v in \<open>simp_all add: w le_words_append add.assoc\<close>)
qed

lemma htons_low_byte: "htons (ucast (b :: u8) AND 0xff) = le16 0 b"
proof -
  have "(0xff :: u16) = mask 8" by (simp add: mask_numeral)
  moreover have "ucast b AND mask 8 = (ucast b :: u16)"
    by (intro bit_word_eqI) (auto simp: bit_simps dest: bit_imp_le_length)
  ultimately have "ucast b AND 0xff = (ucast b :: u16)" by metis
  also have "\<dots> = le16 b 0"
    by (rule bit_word_eqI) (auto simp: bit_le16 bit_simps dest: bit_imp_le_length)
  finally show ?thesis by simp
qed

lemma le_words_bytes16: "le_words (bytes16 w) = [unat w]"
  by (simp add: bytes16_def flip: unat_le16)

text \<open>The segment may stand behind the header with a gap \<open>mid\<close> between them.\<close>

lemma in_cksum2_gap:
  assumes "length iph = 20"
  shows "in_cksum2 (pre @ iph @ mid @ seg @ post) (int (length pre)) len
       (int (length pre) + 20 + int (length mid)) (int (length seg)) =
     Inr (fold_sum (of_nat (sum_list (le_words (pseudo_header iph len @ seg)))))"
proof -
  let ?m = "pre @ iph @ mid @ seg @ post" and ?p = "int (length pre) + 20 + int (length mid)"
  let ?s = "ucast (le16 (iph ! 12) (iph ! 13)) + ucast (le16 (iph ! 14) (iph ! 15))
      + ucast (le16 (iph ! 16) (iph ! 17)) + ucast (le16 (iph ! 18) (iph ! 19))
      + ucast (le16 0 (iph ! 9)) + (ucast len :: u32)"
  have ph: "sum_list (le_words (pseudo_header iph len @ seg)) =
      (unat (iph ! 12) + 256 * unat (iph ! 13)) + (unat (iph ! 14) + 256 * unat (iph ! 15))
      + (unat (iph ! 16) + 256 * unat (iph ! 17)) + (unat (iph ! 18) + 256 * unat (iph ! 19))
      + 256 * unat (iph ! 9) + unat len + sum_list (le_words seg)"
    using assms
    by (auto elim!: list_of_length_20 simp: pseudo_header_def le_words_append le_words_bytes16)
  have len: "ucast len = (of_nat (unat len) :: u32)"
    by simp
  have s: "?s + of_nat (sum_list (le_words seg)) =
      of_nat (sum_list (le_words (pseudo_header iph len @ seg)))"
    unfolding ph ucast_le16 len by simp
  have seg: "?m = (pre @ iph @ mid) @ seg @ post" and at: "?p = int (length (pre @ iph @ mid))"
    using assms by simp_all
  obtain p' sz' acc where c: "cksum_words ?m ?p (int (length seg)) ?s = Inr (p', sz', acc)"
    and odd: "0 < sz' \<Longrightarrow> \<exists>b. rd8 ?m p' = Inr b \<and> acc + ucast b = ?s + of_nat (sum_list (le_words seg))"
    and even: "\<not> 0 < sz' \<Longrightarrow> acc = ?s + of_nat (sum_list (le_words seg))"
    unfolding seg
    by (rule cksum_words_split [OF at, of seg post ?s]) blast
  have "in_cksum2 ?m (int (length pre)) len ?p (int (length seg)) =
      (if sz' > 0 then bindr (rd8 ?m p') (\<lambda>b. Inr (fold_sum (acc + ucast b)))
       else Inr (fold_sum acc))"
    using assms by (simp add: in_cksum2_def window htons_low_byte c)
  then show ?thesis using odd even by (auto simp: s)
qed

lemma in_cksum2_window:
  assumes "length iph = 20"
  shows "in_cksum2 (pre @ iph @ seg @ post) (int (length pre)) len (int (length pre) + 20)
       (int (length seg)) =
     Inr (fold_sum (of_nat (sum_list (le_words (pseudo_header iph len @ seg)))))"
  using in_cksum2_gap [OF assms, of pre "[]"] by simp

section \<open>The checksum as a field\<close>

text \<open>The RFC 1071 checksum of a byte string, as a 16-bit field of host memory.\<close>

definition inet_cksum :: "u8 list \<Rightarrow> u16" where
  "inet_cksum bs = htons (of_nat (rfc1071 bs))"

lemma rfc1071_le: "rfc1071 bs \<le> 65535"
  by (simp add: rfc1071_def)

lemma unat_ntohs_inet_cksum: "unat (ntohs (inet_cksum bs)) = rfc1071 bs"
  using rfc1071_le [of bs]
  by (simp add: inet_cksum_def unsigned_of_nat take_bit_nat_eq_self_iff)

lemma fold_sum_inet_cksum:
  assumes "length bs \<le> 131072"
  shows "fold_sum (of_nat (sum_list (le_words bs))) = inet_cksum bs"
proof -
  let ?c = "fold_sum (of_nat (sum_list (le_words bs)))"
  have "ntohs ?c = of_nat (rfc1071 bs)"
    unfolding fold_sum_rfc [OF sum_le_words_fits [OF assms], symmetric] by simp
  then have "htons (ntohs ?c) = inet_cksum bs" by (simp add: inet_cksum_def)
  then show ?thesis by (simp add: ntohs_def)
qed

lemma in_cksum_inet:
  assumes "even (length w)" and "length w \<le> 131072"
  shows "in_cksum (pre @ w @ post) (int (length pre)) (int (length w)) = Inr (inet_cksum w)"
  using in_cksum_even [OF assms(1)] fold_sum_inet_cksum [OF assms(2)] by simp

lemma in_cksum2_inet:
  assumes "length iph = 20" and "length seg \<le> 65535"
  shows "in_cksum2 (pre @ iph @ seg @ post) (int (length pre)) len (int (length pre) + 20)
       (int (length seg)) = Inr (inet_cksum (pseudo_header iph len @ seg))"
proof -
  have "length (pseudo_header iph len @ seg) \<le> 131072"
    using assms by (simp add: pseudo_header_def)
  then show ?thesis
    using in_cksum2_window [OF assms(1)] fold_sum_inet_cksum by simp
qed

text \<open>
  A receiver sums the data with the checksum in place and gets zero: the words before and after
  the field, the field itself in the order of the wire.
\<close>

lemma rfc1071_verify:
  assumes "even (length xs)"
  shows "rfc1071 (xs @ bytes16 (inet_cksum (xs @ [0, 0] @ ys)) @ ys) = 0"
proof -
  let ?n = "sum_list (be_words (xs @ [0, 0] @ ys))"
  have n: "?n = sum_list (be_words xs) + sum_list (be_words ys)"
    using assms by (simp add: be_words_append)
  have c: "be_words (bytes16 w @ ys) = unat (ntohs w) # be_words ys" for w
    by (simp add: bytes16_def ntohs_def htons_def unat_le16)
  have "sum_list (be_words (xs @ bytes16 (inet_cksum (xs @ [0, 0] @ ys)) @ ys)) =
      sum_list (be_words xs) + rfc1071 (xs @ [0, 0] @ ys) + sum_list (be_words ys)"
    using assms by (simp add: be_words_append c unat_ntohs_inet_cksum)
  also have "\<dots> = ?n + (65535 - oc_norm ?n)"
    unfolding n rfc1071_norm by simp
  finally show ?thesis
    unfolding rfc1071_norm by (simp only: oc_norm_complement)
qed

end
