(* ===== verification/PacketUdp.thy ===== *)
theory PacketUdp
  imports Headers Checksum
begin

text \<open>
  \<open>packet_udp.c\<close>: \<open>analyze_udp\<close> fills a \<open>UDPPacket\<close> from a UDP header, \<open>set_udp\<close> writes the
  header, the payload and the checksum.
\<close>

definition analyze_udp :: "mem \<Rightarrow> jpacket \<Rightarrow> ptr \<Rightarrow> jpacket res" where
  "analyze_udp m packet data =
     bindr (rd16 m (at_uh_sport data)) (\<lambda>sport.
     bindr (rd16 m (at_uh_dport data)) (\<lambda>dport.
     bindr (rd16 m (at_uh_ulen data)) (\<lambda>ulen.
       Inr (packet\<lparr>pk_udp := udp_setValue (ucast (ntohs sport)) (ucast (ntohs dport))
                     (ucast (ntohs ulen)) (pk_udp packet)\<rparr>))))"

definition set_udp :: "udp_fields \<Rightarrow> ptr \<Rightarrow> jbyteArray \<Rightarrow> ptr \<Rightarrow> sstate \<Rightarrow> sstate res" where
  "set_udp packet pointer data ip s =
     bindr (GetArrayLength data) (\<lambda>length.
     bindr (put16 (at_uh_sport pointer) (htons (ucast (udp_src_port packet))) s) (\<lambda>s.
     bindr (put16 (at_uh_dport pointer) (htons (ucast (udp_dst_port packet))) s) (\<lambda>s.
     let length = (if length + IPv4HDRLEN + UDPHDRLEN > MAX_PACKET_SIZE
                   then MAX_PACKET_SIZE - IPv4HDRLEN - UDPHDRLEN else length) in
     bindr (put16 (at_uh_ulen pointer) (htons (of_int (length + UDPHDRLEN))) s) (\<lambda>s.
     bindr (GetByteArrayRegion data 0 length (pointer + UDPHDRLEN) s) (\<lambda>s.
     bindr (put16 (at_uh_sum pointer) 0 s) (\<lambda>s.
     bindr (rd16 (sbuf s) (at_uh_ulen pointer)) (\<lambda>ulen.
     bindr (in_cksum2 (sbuf s) ip ulen pointer (length + UDPHDRLEN)) (\<lambda>cksum.
     bindr (put16 (at_uh_sum pointer) cksum s) (\<lambda>s.
     bindr (rd16 (sbuf s) (at_uh_sum pointer)) (\<lambda>sum.
       if sum = 0 then put16 (at_uh_sum pointer) 0xffff s else Inr s))))))))))"

text \<open>The clamp on the payload bounds the room behind \<open>pointer\<close>.\<close>

interpretation set_udp: emitter "set_udp packet pointer data ip" pointer
  "pointer + (8 + min 1572 (array_length data))"
  for packet pointer data ip
proof (cases data)
  case None
  then show "emitter (set_udp packet pointer data ip) pointer (pointer + (8 + min 1572 (array_length data)))"
    by unfold_locales (simp_all add: set_udp_def GetArrayLength_def)
next
  case (Some bs)
  show "emitter (set_udp packet pointer data ip) pointer (pointer + (8 + min 1572 (array_length data)))"
    unfolding set_udp_def [abs_def] Let_def Some GetArrayLength_def option.case bindr_simps
    by (intro emitter_read emitter_seq emitter_intros) (simp_all add: layout array_length_def)
qed

section \<open>What \<open>set_udp\<close> writes\<close>

text \<open>A UDP segment, with its checksum field as it is in memory.\<close>

definition udp_segment :: "udp_fields \<Rightarrow> u8 list \<Rightarrow> u16 \<Rightarrow> u8 list" where
  "udp_segment f data cksum =
     bytes16 (htons (ucast (udp_src_port f))) @ bytes16 (htons (ucast (udp_dst_port f)))
     @ bytes16 (htons (of_nat (length data + 8))) @ bytes16 cksum @ data"

lemma length_udp_segment [simp]: "length (udp_segment f data cksum) = length data + 8"
  by (simp add: udp_segment_def)

text \<open>A zero checksum means no checksum in UDP, so the code sends its other representation.\<close>

definition udp_cksum :: "u16 \<Rightarrow> u16" where
  "udp_cksum c = (if c = 0 then 0xffff else c)"

lemma set_udp_window:
  assumes "length w = length data + 8" and "length data \<le> 1572"
    and cksum: "in_cksum2 (pre @ udp_segment f data 0 @ post) ip (htons (of_nat (length data + 8)))
        (int (length pre)) (int (length data + 8)) = Inr c"
  shows "set_udp f (int (length pre)) (Some data) ip \<lparr>sbuf = pre @ w @ post, pending = e\<rparr> =
     Inr \<lparr>sbuf = pre @ udp_segment f data (udp_cksum c) @ post, pending = e\<rparr>"
proof -
  obtain h body where w: "w = h @ body" "length h = 8" "length body = length data"
    using assms(1) append_take_drop_id [of 8 w]
    by (metis add_diff_cancel_right' length_append length_drop length_take min.absorb2
        le_add2)
  obtain h0 h1 h2 h3 h4 h5 h6 h7 where h: "h = [h0,h1,h2,h3,h4,h5,h6,h7]"
    using w(2) by (rule list_of_length_8)
  have hdr: "overlay 6 (bytes16 0) (overlay 8 data (overlay 4 (bytes16 (htons (of_nat (length data) + 8)))
      (overlay 2 (bytes16 (htons (ucast (udp_dst_port f))))
        (overlay 0 (bytes16 (htons (ucast (udp_src_port f)))) w)))) = udp_segment f data 0"
    using w(3) by (simp add: overlay_def w(1) h udp_segment_def bytes16_def)
  have sum: "overlay 6 (bytes16 x) (udp_segment f data y) = udp_segment f data x" for x y
    by (simp add: overlay_def udp_segment_def bytes16_def)
  have rd4: "le16 (udp_segment f data x ! 4) (udp_segment f data x ! 5) =
      htons (of_nat (length data) + 8)" for x
    by (simp add: udp_segment_def bytes16_def htons_def)
  have rd6: "le16 (udp_segment f data x ! 6) (udp_segment f data x ! 7) = x" for x
    by (simp add: udp_segment_def bytes16_def)
  show ?thesis
    using assms(1,2) cksum
    by (simp add: set_udp_def GetArrayLength_def window region_ok layout hdr sum rd4 rd6
        udp_cksum_def)
qed

section \<open>Reading a header\<close>

lemma analyze_udp_window:
  assumes "8 \<le> length w"
  shows "analyze_udp (pre @ w @ post) packet (int (length pre)) =
     Inr (packet\<lparr>pk_udp := \<lparr>udp_src_port = ucast (be16 (w ! 0) (w ! 1)),
            udp_dst_port = ucast (be16 (w ! 2) (w ! 3)),
            udp_length = ucast (be16 (w ! 4) (w ! 5))\<rparr>\<rparr>)"
  using assms by (cases "pk_udp packet") (simp add: analyze_udp_def window udp_setValue_def)

lemma analyze_udp_segment:
  "analyze_udp (pre @ udp_segment f data c @ post) packet (int (length pre)) =
     Inr (packet\<lparr>pk_udp := \<lparr>udp_src_port = ucast (ucast (udp_src_port f) :: u16),
            udp_dst_port = ucast (ucast (udp_dst_port f) :: u16),
            udp_length = ucast (of_nat (length data + 8) :: u16)\<rparr>\<rparr>)"
  using analyze_udp_window [of "udp_segment f data c" pre post packet]
  by (simp add: udp_segment_def bytes16_def)

section \<open>Payloads that do not fit\<close>

lemma put_bytes_overflow:
  assumes "length (sbuf s) < nat p + length bs" and "0 \<le> p" and "bs \<noteq> []"
  shows "put_bytes p bs s = Inl (OutOfBounds p)"
  using assms by (simp add: put_bytes_def wr_bytes_def in_range_def)

lemma set_udp_overflow:
  assumes "length w = 8" and room: "length post < min 1572 (length data)"
  shows "set_udp f (int (length pre)) (Some data) ip \<lparr>sbuf = pre @ w @ post, pending = e\<rparr> =
     Inl (OutOfBounds (int (length pre) + 8))"
proof -
  let ?n = "if int (length data) + 28 > 1600 then 1572 else int (length data)"
  have n: "?n = int (min 1572 (length data))" by simp
  have full: "put_bytes (int (length pre) + 8) (take (nat ?n) data) s = Inl (OutOfBounds (int (length pre) + 8))"
    if "length (sbuf s) = length pre + 8 + length post" for s
    by (rule put_bytes_overflow) (use that room n in auto)
  have region: "GetByteArrayRegion (Some data) 0 ?n (int (length pre) + 8) s =
      Inl (OutOfBounds (int (length pre) + 8))"
    if "length (sbuf s) = length pre + 8 + length post" for s
    using full [OF that] by (subst region_ok) auto
  show ?thesis
    using assms(1) region
    by (cases "1572 < length data") (simp_all add: set_udp_def GetArrayLength_def window layout)
qed

end
