(* ===== verification/PacketTcp.thy ===== *)
theory PacketTcp
  imports Headers Checksum
begin

text \<open>
  \<open>packet_tcp.c\<close>: \<open>analyze_tcp\<close> fills a \<open>TCPPacket\<close> from a TCP header and returns the header's
  length, \<open>set_tcp\<close> writes the header, the payload and the checksum.
\<close>

definition analyze_tcp :: "mem \<Rightarrow> jpacket \<Rightarrow> ptr \<Rightarrow> (jpacket \<times> u16) res" where
  "analyze_tcp m packet data =
     bindr (rd16 m (at_th_sport data)) (\<lambda>sport.
     bindr (rd16 m (at_th_dport data)) (\<lambda>dport.
     bindr (rd32 m (at_th_seq data)) (\<lambda>seq.
     bindr (rd32 m (at_th_ack data)) (\<lambda>ack.
     bindr (rd8 m (at_th_flags data)) (\<lambda>flags.
     bindr (rd16 m (at_th_win data)) (\<lambda>win.
     bindr (rd16 m (at_th_urp data)) (\<lambda>urp.
     bindr (rd8 m (at_th_x2_off data)) (\<lambda>x2_off.
       let packet = packet\<lparr>pk_tcp := tcp_setValue
             (ucast (ntohs sport))
             (ucast (ntohs dport))
             (ucast (ntohl seq))
             (ucast (ntohl ack))
             (flags AND TH_URG > 0)
             (flags AND TH_ACK > 0)
             (flags AND TH_PUSH > 0)
             (flags AND TH_RST > 0)
             (flags AND TH_SYN > 0)
             (flags AND TH_FIN > 0)
             (flags AND TH_RSV1 > 0)
             (flags AND TH_RSV2 > 0)
             (ucast (ntohs win))
             (ntohs urp) (pk_tcp packet)\<rparr>;
           hdrlen = (ucast (drop_bit 4 x2_off) * 4 :: u16)
       in if uint hdrlen > TCPHDRLEN
          then bindr (new_array m (data + TCPHDRLEN) (uint hdrlen - TCPHDRLEN)) (\<lambda>opt.
                 Inr (packet\<lparr>pk_tcp := (pk_tcp packet)\<lparr>tcp_option := Some opt\<rparr>\<rparr>, hdrlen))
          else Inr (packet, hdrlen)))))))))"

definition set_tcp :: "tcp_fields \<Rightarrow> ptr \<Rightarrow> jbyteArray \<Rightarrow> ptr \<Rightarrow> sstate \<Rightarrow> sstate res" where
  "set_tcp packet pointer data ip s =
     bindr (GetArrayLength data) (\<lambda>length.
     bindr (put16 (at_th_sport pointer) (htons (ucast (tcp_src_port packet))) s) (\<lambda>s.
     bindr (put16 (at_th_dport pointer) (htons (ucast (tcp_dst_port packet))) s) (\<lambda>s.
     bindr (put32 (at_th_seq pointer) (htonl (ucast (tcp_sequence packet))) s) (\<lambda>s.
     bindr (put32 (at_th_ack pointer) (htonl (ucast (tcp_ack_num packet))) s) (\<lambda>s.
     bindr (put_high4 (at_th_x2_off pointer) 5 s) (\<lambda>s.
     bindr (put8 (at_th_flags pointer)
              (push_bit 7 (of_bool (tcp_rsv1 packet)) + push_bit 6 (of_bool (tcp_rsv2 packet))
               + push_bit 5 (of_bool (tcp_urg packet)) + push_bit 4 (of_bool (tcp_ack packet))
               + push_bit 3 (of_bool (tcp_psh packet)) + push_bit 2 (of_bool (tcp_rst packet))
               + push_bit 1 (of_bool (tcp_syn packet)) + of_bool (tcp_fin packet)) s) (\<lambda>s.
     bindr (put16 (at_th_win pointer) (htons (ucast (tcp_window packet))) s) (\<lambda>s.
     bindr (put16 (at_th_urp pointer) (htons (tcp_urgent_pointer packet)) s) (\<lambda>s.
     let length = (if length + IPv4HDRLEN + TCPHDRLEN > MAX_PACKET_SIZE
                   then MAX_PACKET_SIZE - IPv4HDRLEN - TCPHDRLEN else length) in
     bindr (GetByteArrayRegion data 0 length (pointer + TCPHDRLEN) s) (\<lambda>s.
     bindr (put16 (at_th_sum pointer) 0 s) (\<lambda>s.
     bindr (in_cksum2 (sbuf s) ip (htons (of_int (length + TCPHDRLEN))) pointer
              (length + TCPHDRLEN)) (\<lambda>cksum.
       put16 (at_th_sum pointer) cksum s))))))))))))"

interpretation set_tcp: emitter "set_tcp packet pointer data ip" pointer
  "pointer + (20 + min 1560 (array_length data))"
  for packet pointer data ip
proof (cases data)
  case None
  then show "emitter (set_tcp packet pointer data ip) pointer (pointer + (20 + min 1560 (array_length data)))"
    by unfold_locales (simp_all add: set_tcp_def GetArrayLength_def)
next
  case (Some bs)
  show "emitter (set_tcp packet pointer data ip) pointer (pointer + (20 + min 1560 (array_length data)))"
    unfolding set_tcp_def [abs_def] Let_def Some GetArrayLength_def option.case bindr_simps
    by (rule emitter_intros | rule emitter_read | (simp add: layout array_length_def; fail))+
qed

section \<open>What \<open>set_tcp\<close> writes\<close>

definition tcp_flags_byte :: "tcp_fields \<Rightarrow> u8" where
  "tcp_flags_byte f =
     push_bit 7 (of_bool (tcp_rsv1 f)) + push_bit 6 (of_bool (tcp_rsv2 f))
     + push_bit 5 (of_bool (tcp_urg f)) + push_bit 4 (of_bool (tcp_ack f))
     + push_bit 3 (of_bool (tcp_psh f)) + push_bit 2 (of_bool (tcp_rst f))
     + push_bit 1 (of_bool (tcp_syn f)) + of_bool (tcp_fin f)"

text \<open>
  A TCP segment. The code writes \<open>th_off\<close> and leaves \<open>th_x2\<close>, the other half of the byte at 12,
  as the buffer had it: \<open>x2\<close> is that byte before.
\<close>

definition tcp_segment :: "tcp_fields \<Rightarrow> u8 list \<Rightarrow> u8 \<Rightarrow> u16 \<Rightarrow> u8 list" where
  "tcp_segment f data x2 cksum =
     bytes16 (htons (ucast (tcp_src_port f))) @ bytes16 (htons (ucast (tcp_dst_port f)))
     @ bytes32 (htonl (ucast (tcp_sequence f))) @ bytes32 (htonl (ucast (tcp_ack_num f)))
     @ [(x2 AND 0x0f) OR 0x50, tcp_flags_byte f]
     @ bytes16 (htons (ucast (tcp_window f))) @ bytes16 cksum
     @ bytes16 (htons (tcp_urgent_pointer f)) @ data"

lemma length_tcp_segment [simp]: "length (tcp_segment f data x2 cksum) = length data + 20"
  by (simp add: tcp_segment_def)

lemma set_tcp_window:
  assumes "length w = length data + 20" and "length data \<le> 1560"
    and cksum: "in_cksum2 (pre @ tcp_segment f data (w ! 12) 0 @ post) ip
        (htons (of_nat (length data + 20))) (int (length pre)) (int (length data + 20)) = Inr c"
  shows "set_tcp f (int (length pre)) (Some data) ip \<lparr>sbuf = pre @ w @ post, pending = e\<rparr> =
     Inr \<lparr>sbuf = pre @ tcp_segment f data (w ! 12) c @ post, pending = e\<rparr>"
proof -
  have len: "20 \<le> length w" using assms(1) by simp
  define body where "body = drop 20 w"
  have "length (take 20 w) = 20" using len by simp
  then obtain h0 h1 h2 h3 h4 h5 h6 h7 h8 h9 h10 h11 h12 h13 h14 h15 h16 h17 h18 h19
    where h: "take 20 w = [h0,h1,h2,h3,h4,h5,h6,h7,h8,h9,h10,h11,h12,h13,h14,h15,h16,h17,h18,h19]"
    by (rule list_of_length_20)
  have w: "w = [h0,h1,h2,h3,h4,h5,h6,h7,h8,h9,h10,h11,h12,h13,h14,h15,h16,h17,h18,h19] @ body"
    unfolding body_def h [symmetric] by simp
  have body: "length body = length data" using assms(1) by (simp add: body_def)
  let ?w1 = "overlay 8 (bytes32 (htonl (ucast (tcp_ack_num f))))
      (overlay 4 (bytes32 (htonl (ucast (tcp_sequence f))))
      (overlay 2 (bytes16 (htons (ucast (tcp_dst_port f))))
      (overlay 0 (bytes16 (htons (ucast (tcp_src_port f)))) w)))"
  have x2: "?w1 ! 12 = w ! 12" by (simp add: w overlay_def bytes16_def bytes32_def)
  have hdr: "overlay 16 (bytes16 0) (overlay 20 data
      (overlay 18 (bytes16 (htons (tcp_urgent_pointer f)))
      (overlay 14 (bytes16 (htons (ucast (tcp_window f))))
      (overlay 13 [tcp_flags_byte f]
      (overlay 12 [(w ! 12 AND 0x0f) OR 0x50] ?w1))))) = tcp_segment f data (w ! 12) 0"
    using body by (simp add: overlay_def w tcp_segment_def bytes16_def bytes32_def)
  have sum: "overlay 16 (bytes16 x) (tcp_segment f data b y) = tcp_segment f data b x" for x y b
    by (simp add: overlay_def tcp_segment_def bytes16_def bytes32_def)
  show ?thesis
    using assms(1,2) cksum
    unfolding set_tcp_def tcp_flags_byte_def [symmetric]
    by (simp add: GetArrayLength_def window region_ok layout x2 hdr sum)
qed

section \<open>Reading a header\<close>

lemma tcp_setValue_eq:
  "tcp_setValue sp dp seq ack u a p r s fin r1 r2 win urp f =
     \<lparr>tcp_src_port = sp, tcp_dst_port = dp, tcp_sequence = seq, tcp_ack_num = ack, tcp_urg = u,
      tcp_ack = a, tcp_psh = p, tcp_rst = r, tcp_syn = s, tcp_fin = fin, tcp_rsv1 = r1,
      tcp_rsv2 = r2, tcp_window = win, tcp_urgent_pointer = urp, tcp_option = tcp_option f\<rparr>"
  by (cases f) (simp add: tcp_setValue_def)

lemma data_offset: "ucast (drop_bit 4 (((x :: u8) AND 0x0f) OR 0x50)) * 4 = (20 :: u16)"
proof -
  have "drop_bit 4 ((x AND 0x0f) OR 0x50) = 5"
    by (simp add: u8_eq_iff bit_simps)
  then show ?thesis by simp
qed

lemma tcp_flag_bits:
  "bit (tcp_flags_byte f) 0 = tcp_fin f" "bit (tcp_flags_byte f) 1 = tcp_syn f"
  "bit (tcp_flags_byte f) 2 = tcp_rst f" "bit (tcp_flags_byte f) 3 = tcp_psh f"
  "bit (tcp_flags_byte f) 4 = tcp_ack f" "bit (tcp_flags_byte f) 5 = tcp_urg f"
  "bit (tcp_flags_byte f) 6 = tcp_rsv2 f" "bit (tcp_flags_byte f) 7 = tcp_rsv1 f"
proof -
  have "tcp_flags_byte f =
     push_bit 7 (of_bool (tcp_rsv1 f)) OR push_bit 6 (of_bool (tcp_rsv2 f))
     OR push_bit 5 (of_bool (tcp_urg f)) OR push_bit 4 (of_bool (tcp_ack f))
     OR push_bit 3 (of_bool (tcp_psh f)) OR push_bit 2 (of_bool (tcp_rst f))
     OR push_bit 1 (of_bool (tcp_syn f)) OR of_bool (tcp_fin f)"
    unfolding tcp_flags_byte_def of_bool_def by (simp split: if_splits)
  then show "bit (tcp_flags_byte f) 0 = tcp_fin f" "bit (tcp_flags_byte f) 1 = tcp_syn f"
    "bit (tcp_flags_byte f) 2 = tcp_rst f" "bit (tcp_flags_byte f) 3 = tcp_psh f"
    "bit (tcp_flags_byte f) 4 = tcp_ack f" "bit (tcp_flags_byte f) 5 = tcp_urg f"
    "bit (tcp_flags_byte f) 6 = tcp_rsv2 f" "bit (tcp_flags_byte f) 7 = tcp_rsv1 f"
    by (simp_all add: bit_simps)
qed

text \<open>What reading a segment the code wrote gives back: the fields at their width on the wire.\<close>

definition tcp_on_wire :: "tcp_fields \<Rightarrow> jbyteArray \<Rightarrow> tcp_fields" where
  "tcp_on_wire f opt = f\<lparr>tcp_src_port := ucast (ucast (tcp_src_port f) :: u16),
     tcp_dst_port := ucast (ucast (tcp_dst_port f) :: u16),
     tcp_sequence := ucast (ucast (tcp_sequence f) :: u32),
     tcp_ack_num := ucast (ucast (tcp_ack_num f) :: u32),
     tcp_window := ucast (ucast (tcp_window f) :: u16),
     tcp_option := opt\<rparr>"

lemma th_flag_gt_0:
  "0 < b AND TH_FIN \<longleftrightarrow> bit b 0" "0 < b AND TH_SYN \<longleftrightarrow> bit b 1" "0 < b AND TH_RST \<longleftrightarrow> bit b 2"
  "0 < b AND TH_PUSH \<longleftrightarrow> bit b 3" "0 < b AND TH_ACK \<longleftrightarrow> bit b 4" "0 < b AND TH_URG \<longleftrightarrow> bit b 5"
  "0 < b AND TH_RSV2 \<longleftrightarrow> bit b 6" "0 < b AND TH_RSV1 \<longleftrightarrow> bit b 7"
  using and_exp_gt_0 [of b 0] and_exp_gt_0 [of b 1] and_exp_gt_0 [of b 2] and_exp_gt_0 [of b 3]
    and_exp_gt_0 [of b 4] and_exp_gt_0 [of b 5] and_exp_gt_0 [of b 6] and_exp_gt_0 [of b 7]
  by (simp_all add: layout)

lemma analyze_tcp_segment:
  "analyze_tcp (pre @ tcp_segment f data x2 c @ post) packet (int (length pre)) =
     Inr (packet\<lparr>pk_tcp := tcp_on_wire f (tcp_option (pk_tcp packet))\<rparr>, 20)"
proof -
  let ?w = "tcp_segment f data x2 c"
  have len: "20 \<le> length ?w" by simp
  have nth: "le16 (?w ! 0) (?w ! 1) = htons (ucast (tcp_src_port f))"
    "le16 (?w ! 2) (?w ! 3) = htons (ucast (tcp_dst_port f))"
    "le32 (?w ! 4) (?w ! 5) (?w ! 6) (?w ! 7) = htonl (ucast (tcp_sequence f))"
    "le32 (?w ! 8) (?w ! 9) (?w ! 10) (?w ! 11) = htonl (ucast (tcp_ack_num f))"
    "?w ! 12 = (x2 AND 0x0f) OR 0x50" "?w ! 13 = tcp_flags_byte f"
    "le16 (?w ! 14) (?w ! 15) = htons (ucast (tcp_window f))"
    "le16 (?w ! 18) (?w ! 19) = htons (tcp_urgent_pointer f)"
    by (simp_all add: tcp_segment_def bytes16_def bytes32_def htons_def htonl_def)
  have fields: "tcp_setValue (ucast (ucast (tcp_src_port f) :: u16))
      (ucast (ucast (tcp_dst_port f) :: u16)) (ucast (ucast (tcp_sequence f) :: u32))
      (ucast (ucast (tcp_ack_num f) :: u32)) (tcp_urg f) (tcp_ack f) (tcp_psh f) (tcp_rst f)
      (tcp_syn f) (tcp_fin f) (tcp_rsv1 f) (tcp_rsv2 f) (ucast (ucast (tcp_window f) :: u16))
      (tcp_urgent_pointer f) g = tcp_on_wire f (tcp_option g)" for g
    by (cases f) (simp add: tcp_setValue_eq tcp_on_wire_def)
  show ?thesis
    using len
    by (simp add: analyze_tcp_def window nth [simplified] th_flag_gt_0 tcp_flag_bits
        [simplified] fields data_offset TCPHDRLEN_def)
qed

end
