(* ===== verification/PacketIp.thy ===== *)
theory PacketIp
  imports Headers
begin

text \<open>
  \<open>packet_ip.c\<close>: \<open>analyze_ip\<close> fills an \<open>IPPacket\<close> from an IPv4 header, \<open>set_ip\<close> writes the
  header of a packet to send.
\<close>

definition analyze_ip :: "mem \<Rightarrow> jpacket \<Rightarrow> ptr \<Rightarrow> (jpacket \<times> u16) res" where
  "analyze_ip m packet data =
     bindr (new_array m (at_ip_src data) 4) (\<lambda>src_addr.
     bindr (new_array m (at_ip_dst data) 4) (\<lambda>dst_addr.
     bindr (rd8 m (at_ip_tos data)) (\<lambda>tos.
     bindr (rd16 m (at_ip_off data)) (\<lambda>off.
     bindr (rd16 m (at_ip_len data)) (\<lambda>len.
     bindr (rd16 m (at_ip_id data)) (\<lambda>ident.
     bindr (rd8 m (at_ip_ttl data)) (\<lambda>ttl.
     bindr (rd8 m (at_ip_p data)) (\<lambda>proto.
     bindr (rd8 m (at_ip_hl_v data)) (\<lambda>hl_v.
       let packet = packet\<lparr>pk_ip := setIPv4Value
             4
             (drop_bit 5 tos)
             (tos AND IPTOS_LOWDELAY > 0)
             (tos AND IPTOS_THROUGHPUT > 0)
             (tos AND IPTOS_RELIABILITY > 0)
             (tos AND 0x3)
             (off AND IP_RF > 0)
             (off AND IP_DF > 0)
             (off AND IP_MF > 0)
             (ntohs off AND IP_OFFMASK)
             (ntohs len)
             (ntohs ident)
             (ucast ttl)
             (ucast proto)
             src_addr dst_addr (pk_ip packet)\<rparr>;
           hdrlen = (push_bit 2 (ucast (hl_v AND 0x0f)) :: u16)
       in if uint hdrlen > IPv4HDRLEN
          then bindr (new_array m (data + IPv4HDRLEN) (uint hdrlen - IPv4HDRLEN)) (\<lambda>opt.
                 Inr (setOption opt packet, hdrlen))
          else Inr (packet, hdrlen))))))))))"

definition set_ip :: "ip_fields \<Rightarrow> ptr \<Rightarrow> sstate \<Rightarrow> sstate res" where
  "set_ip packet ip s =
     (let src = getSourceAddress packet; dst = getDestinationAddress packet in
     bindr (put_high4 (at_ip_hl_v ip) 4 s) (\<lambda>s.
     bindr (put_low4 (at_ip_hl_v ip) 5 s) (\<lambda>s.
     bindr (put16 (at_ip_id ip) (htons (ucast (ip_ident packet))) s) (\<lambda>s.
     bindr (put16 (at_ip_off ip)
              ((if ip_rsv_frag packet then IP_RF else 0)
               + (if ip_dont_frag packet then IP_DF else 0)
               + (if ip_more_frag packet then IP_MF else 0)
               + htons (ip_offset packet)) s) (\<lambda>s.
     bindr (put8 (at_ip_ttl ip) (ucast (ip_hop_limit packet)) s) (\<lambda>s.
     bindr (put8 (at_ip_tos ip)
              (push_bit 5 (ip_priority packet) + ip_rsv_tos packet
               + (if ip_d_flag packet then IPTOS_LOWDELAY else 0)
               + (if ip_t_flag packet then IPTOS_THROUGHPUT else 0)
               + (if ip_r_flag packet then IPTOS_RELIABILITY else 0)) s) (\<lambda>s.
     bindr (GetByteArrayRegion src 0 4 (at_ip_src ip) s) (\<lambda>s.
     GetByteArrayRegion dst 0 4 (at_ip_dst ip) s))))))))"

interpretation set_ip: emitter "set_ip packet ip" ip "ip + 20" for packet ip
  unfolding set_ip_def [abs_def] Let_def
  by (intro emitter_intros) simp_all

section \<open>What \<open>set_ip\<close> writes\<close>

definition ip_tos_byte :: "ip_fields \<Rightarrow> u8" where
  "ip_tos_byte f = push_bit 5 (ip_priority f) + ip_rsv_tos f
     + (if ip_d_flag f then IPTOS_LOWDELAY else 0)
     + (if ip_t_flag f then IPTOS_THROUGHPUT else 0)
     + (if ip_r_flag f then IPTOS_RELIABILITY else 0)"

definition ip_off_word :: "ip_fields \<Rightarrow> u16" where
  "ip_off_word f = (if ip_rsv_frag f then IP_RF else 0) + (if ip_dont_frag f then IP_DF else 0)
     + (if ip_more_frag f then IP_MF else 0) + htons (ip_offset f)"

text \<open>The header after \<open>set_ip\<close>, over the 20 bytes \<open>w\<close> that were there before.\<close>

definition set_ip_bytes :: "ip_fields \<Rightarrow> u8 list \<Rightarrow> u8 list \<Rightarrow> u8 list \<Rightarrow> u8 list" where
  "set_ip_bytes f src dst w =
     [0x45, ip_tos_byte f, w ! 2, w ! 3] @ bytes16 (htons (ucast (ip_ident f)))
     @ bytes16 (ip_off_word f) @ [ucast (ip_hop_limit f), w ! 9, w ! 10, w ! 11]
     @ take 4 src @ take 4 dst"

lemma version_byte: "(((b :: u8) AND 15 OR 64) AND 240) OR 5 = 69"
  by (simp add: u8_eq_iff bit_simps)

lemma set_ip_window:
  assumes "length w = 20"
    and "getSourceAddress f = Some src" and "4 \<le> length src"
    and "getDestinationAddress f = Some dst" and "4 \<le> length dst"
  shows "set_ip f (int (length pre)) \<lparr>sbuf = pre @ w @ post, pending = e\<rparr> =
     Inr \<lparr>sbuf = pre @ set_ip_bytes f src dst w @ post, pending = e\<rparr>"
  using assms
  by (simp add: set_ip_def Let_def window region_ok flip: ip_tos_byte_def ip_off_word_def)
     (auto elim!: list_of_length_20 simp: overlay_def set_ip_bytes_def bytes16_def version_byte)

section \<open>What \<open>analyze_ip\<close> reads\<close>

lemma ip_flag_gt_0:
  "0 < v AND IP_RF \<longleftrightarrow> bit v 15" "0 < v AND IP_DF \<longleftrightarrow> bit v 14" "0 < v AND IP_MF \<longleftrightarrow> bit v 13"
  using and_exp_gt_0 [of v 15] and_exp_gt_0 [of v 14] and_exp_gt_0 [of v 13]
  by (simp_all add: layout)

lemma tos_flag_gt_0:
  "0 < b AND IPTOS_LOWDELAY \<longleftrightarrow> bit b 4" "0 < b AND IPTOS_THROUGHPUT \<longleftrightarrow> bit b 3"
  "0 < b AND IPTOS_RELIABILITY \<longleftrightarrow> bit b 2"
  using and_exp_gt_0 [of b 4] and_exp_gt_0 [of b 3] and_exp_gt_0 [of b 2]
  by (simp_all add: layout)

text \<open>
  A header without options. The fragment offset comes from both bytes of the fragment word in
  network order, the three flags from its second byte alone.
\<close>

lemma analyze_ip_window:
  assumes "20 \<le> length w" and "w ! 0 AND 0x0f = 5"
  shows "analyze_ip (pre @ w @ post) packet (int (length pre)) =
     Inr (packet\<lparr>pk_ip := setIPv4Value 4 (drop_bit 5 (w ! 1)) (bit (w ! 1) 4) (bit (w ! 1) 3)
            (bit (w ! 1) 2) (w ! 1 AND 3) (bit (w ! 7) 7) (bit (w ! 7) 6) (bit (w ! 7) 5)
            (be16 (w ! 6) (w ! 7) AND IP_OFFMASK) (be16 (w ! 2) (w ! 3)) (be16 (w ! 4) (w ! 5))
            (ucast (w ! 8)) (ucast (w ! 9)) (take 4 (drop 12 w)) (take 4 (drop 16 w))
            (pk_ip packet)\<rparr>, 20)"
proof -
  have "w \<noteq> []" using assms(1) by auto
  then show ?thesis
    using assms
    by (simp add: analyze_ip_def window ip_flag_gt_0 tos_flag_gt_0 bit_le16 IPv4HDRLEN_def)
qed

end
