(* ===== verification/PacketIcmp.thy ===== *)
theory PacketIcmp
  imports PacketIp Checksum
begin

text \<open>
  \<open>packet_icmp.c\<close>: \<open>analyze_icmp\<close> fills an \<open>ICMPPacket\<close>, \<open>set_icmp\<close> writes one. The call that
  sets type, code and checksum passes three arguments to a method of five, so the identifier
  and the sequence number it sets are whatever the variadic call finds: the parameter \<open>va\<close>.
  \<open>num_addrs\<close> says whether the build's \<open>ip_icmp.h\<close> defines \<open>icmp_num_addrs\<close> (the one under
  \<open>include\<close> does not, that of the GNU C library does), which compiles the branch for router
  advertisements.
\<close>

definition analyze_icmp ::
  "bool \<Rightarrow> jshort \<times> jshort \<Rightarrow> mem \<Rightarrow> jpacket \<Rightarrow> ptr \<Rightarrow> u16 \<Rightarrow> jpacket res" where
  "analyze_icmp num_addrs va m packet data clen =
     bindr (rd8 m (at_icmp_type data)) (\<lambda>type.
     bindr (rd8 m (at_icmp_code data)) (\<lambda>code.
     bindr (rd16 m (at_icmp_cksum data)) (\<lambda>cksum.
     let packet = packet\<lparr>pk_icmp :=
                    icmp_setValue type code cksum (fst va) (snd va) (pk_icmp packet)\<rparr>;
         \<comment> \<open>the last three labels share this code\<close>
         ip_part = (\<lambda>packet.
           if uint clen < IPv4HDRLEN + 16 then Inr packet
           else bindr (analyze_ip m (AllocObject IPPacketC) (at_icmp_ip data))
                  (\<lambda>(ippacket, _). Inr (packet\<lparr>pk_icmp :=
                     (pk_icmp packet)\<lparr>icmp_ippacket := Some (pk_ip ippacket)\<rparr>\<rparr>)));
         mtu_part = (\<lambda>packet.
           bindr (rd16 m (at_icmp_nextmtu data)) (\<lambda>mtu.
             ip_part (packet\<lparr>pk_icmp := (pk_icmp packet)\<lparr>icmp_mtu := mtu\<rparr>\<rparr>)))
     in
     bindr (if type = ICMP_ECHOREPLY \<or> type = ICMP_ECHO \<or> type > ICMP_PARAMPROB
            then bindr (rd16 m (at_icmp_id data)) (\<lambda>ident.
                 bindr (rd16 m (at_icmp_seq data)) (\<lambda>seq.
                   Inr (packet\<lparr>pk_icmp :=
                          icmp_setID (signed_drop_bit 8 ident) (signed_drop_bit 8 seq)
                            (pk_icmp packet)\<rparr>)))
            else Inr packet) (\<lambda>packet.
     if type = ICMP_REDIRECT then
       bindr (new_array m (at_icmp_gwaddr data) 4) (\<lambda>addr.
         mtu_part (packet\<lparr>pk_icmp := icmp_setRedirectIP addr (pk_icmp packet)\<rparr>))
     else if type = ICMP_UNREACH then mtu_part packet
     else if type = ICMP_SOURCEQUENCH \<or> type = ICMP_TIMXCEED \<or> type = ICMP_PARAMPROB
       then ip_part packet
     else if num_addrs \<and> type = ICMP_ROUTERADVERT then
       bindr (rd8 m (data + 4)) (\<lambda>num. bindr (rd8 m (data + 5)) (\<lambda>wpa.
       bindr (rd16 m (data + 6)) (\<lambda>lifetime.
         \<comment> \<open>the loop stores the uninitialised \<open>addr\<close>\<close>
         if num > 0 then Inl Uninitialised
         else Inr (packet\<lparr>pk_icmp :=
                     icmp_setRouterAdValue num wpa lifetime (pk_icmp packet)\<rparr>))))
     else if type = ICMP_TSTAMP \<or> type = ICMP_TSTAMPREPLY then
       bindr (rd32 m (at_icmp_otime data)) (\<lambda>otime.
       bindr (rd32 m (at_icmp_rtime data)) (\<lambda>rtime.
       bindr (rd32 m (at_icmp_ttime data)) (\<lambda>ttime.
         Inr (packet\<lparr>pk_icmp := icmp_setTimestampValue otime rtime ttime (pk_icmp packet)\<rparr>))))
     else if type = ICMP_MASKREQ \<or> type = ICMP_MASKREPLY then
       bindr (rd32 m (at_icmp_mask data)) (\<lambda>msk.
         Inr (packet\<lparr>pk_icmp := (pk_icmp packet)\<lparr>icmp_subnetmask := msk\<rparr>\<rparr>))
     else Inr packet))))"

definition set_icmp :: "icmp_fields \<Rightarrow> ptr \<Rightarrow> jbyteArray \<Rightarrow> sstate \<Rightarrow> (int \<times> sstate) res" where
  "set_icmp packet icmp data s =
     (let length = (case data of None \<Rightarrow> 0 | Some bs \<Rightarrow> int (length bs));
          type = icmp_type packet;
          put_cksum = (\<lambda>size s.
            bindr (put16 (at_icmp_cksum icmp) 0 s) (\<lambda>s.
            bindr (in_cksum (sbuf s) icmp size) (\<lambda>cksum.
              put16 (at_icmp_cksum icmp) cksum s)));
          put_id_seq = (\<lambda>s.
            bindr (put16 (at_icmp_id icmp) (htons (icmp_id packet)) s)
              (put16 (at_icmp_seq icmp) (htons (icmp_seq packet))));
          \<comment> \<open>the last four labels share this code\<close>
          ip_part = (\<lambda>s.
            let hdr = (case icmp_ippacket packet of None \<Rightarrow> (12 :: int) | Some _ \<Rightarrow> 12 + 20) in
            bindr (case icmp_ippacket packet of None \<Rightarrow> Inr s
                   | Some ippacket \<Rightarrow> set_ip ippacket (at_icmp_ip icmp) s) (\<lambda>s.
            bindr (put_cksum hdr s) (\<lambda>s. Inr (hdr - length, s))))
      in
      bindr (put8 (at_icmp_type icmp) type s) (\<lambda>s.
      bindr (put8 (at_icmp_code icmp) (icmp_code packet) s) (\<lambda>s.
      if type = ICMP_ECHOREPLY \<or> type = ICMP_ECHO then
        bindr (put_id_seq s) (\<lambda>s.
        bindr (if data \<noteq> None
               then GetByteArrayRegion data 0 length (at_icmp_data icmp) s else Inr s) (\<lambda>s.
        bindr (put_cksum (8 + length) s) (\<lambda>s. Inr (8, s))))
      else if type = ICMP_REDIRECT then
        bindr (GetByteArrayRegion (icmp_getRedirectIP packet) 0 4 (at_icmp_gwaddr icmp) s) ip_part
      else if type = ICMP_UNREACH \<or> type = ICMP_SOURCEQUENCH \<or> type = ICMP_TIMXCEED
              \<or> type = ICMP_PARAMPROB
        then ip_part s
      else if type = ICMP_TSTAMP \<or> type = ICMP_TSTAMPREPLY then
        bindr (put_id_seq s) (\<lambda>s.
        bindr (put32 (at_icmp_otime icmp) (htonl (icmp_orig_timestamp packet)) s) (\<lambda>s.
        bindr (put32 (at_icmp_rtime icmp) (htonl (icmp_recv_timestamp packet)) s) (\<lambda>s.
        bindr (put32 (at_icmp_ttime icmp) (htonl (icmp_trans_timestamp packet)) s) (\<lambda>s.
        bindr (put_cksum 20 s) (\<lambda>s. Inr (20 - length, s))))))
      else if type = ICMP_MASKREQ \<or> type = ICMP_MASKREPLY then
        bindr (put_id_seq s) (\<lambda>s.
        bindr (put32 (at_icmp_mask icmp) (htonl (icmp_subnetmask packet)) s) (\<lambda>s.
        bindr (put_cksum 12 s) (\<lambda>s. Inr (12 - length, s))))
      else Inr (0, s))))"

text \<open>
  Every branch writes inside the header and its payload: at most 28 bytes, or 8 and the data of
  an echo message.
\<close>

definition icmp_extent :: "jbyteArray \<Rightarrow> int" where
  "icmp_extent data = max 28 (8 + array_length data)"

lemma icmp_extent_ge: "28 \<le> icmp_extent data"
  "8 + int (case data of None \<Rightarrow> 0 | Some bs \<Rightarrow> length bs) \<le> icmp_extent data"
  by (simp_all add: icmp_extent_def array_length_def split: option.split)

lemma emitter_set_ip: "lo \<le> ip \<Longrightarrow> ip + 20 \<le> hi \<Longrightarrow> emitter (set_ip packet ip) lo hi"
  by (rule emitter_weaken [OF set_ip.emitter_axioms])

interpretation set_icmp: emitter "\<lambda>s. bindr (set_icmp packet icmp data s) (\<lambda>(n, s). Inr s)"
  icmp "icmp + icmp_extent data" for packet icmp data
proof -
  note ext = icmp_extent_ge [of data]
  have cksum: "emitter (\<lambda>s. bindr (in_cksum (sbuf s) icmp n)
      (\<lambda>c. put16 (at_icmp_cksum icmp) c s)) icmp (icmp + icmp_extent d)" for n d
    using icmp_extent_ge(1) [of d] by (intro emitter_read emitter_put16) simp_all
  show "emitter (\<lambda>s. bindr (set_icmp packet icmp data s) (\<lambda>(n, s). Inr s))
      icmp (icmp + icmp_extent data)"
    using ext unfolding set_icmp_def Let_def bindr_assoc
    by (cases "icmp_ippacket packet"; cases data)
       (auto simp: bindr_assoc if_distrib [of "\<lambda>m. bindr m _"]
         intro!: emitter_intros emitter_set_ip cksum [simplified])
qed

section \<open>Echo messages\<close>

definition icmp_echo :: "icmp_fields \<Rightarrow> u8 list \<Rightarrow> u16 \<Rightarrow> u8 list" where
  "icmp_echo f data cksum =
     [icmp_type f, icmp_code f] @ bytes16 cksum @ bytes16 (htons (icmp_id f))
     @ bytes16 (htons (icmp_seq f)) @ data"

lemma length_icmp_echo [simp]: "length (icmp_echo f data c) = length data + 8"
  by (simp add: icmp_echo_def)

lemma set_icmp_echo_window:
  assumes "icmp_type f = ICMP_ECHO \<or> icmp_type f = ICMP_ECHOREPLY"
    and len: "length w = length data + 8"
    and cksum: "in_cksum (pre @ icmp_echo f data 0 @ post) (int (length pre))
      (8 + int (length data)) = Inr c"
  shows "set_icmp f (int (length pre)) (Some data) \<lparr>sbuf = pre @ w @ post, pending = e\<rparr> =
     Inr (8, \<lparr>sbuf = pre @ icmp_echo f data c @ post, pending = e\<rparr>)"
proof -
  define body where "body = drop 8 w"
  have "length (take 8 w) = 8" using len by simp
  then obtain h0 h1 h2 h3 h4 h5 h6 h7 where h: "take 8 w = [h0,h1,h2,h3,h4,h5,h6,h7]"
    by (rule list_of_length_8)
  have w: "w = [h0,h1,h2,h3,h4,h5,h6,h7] @ body"
    unfolding body_def h [symmetric] by simp
  have body: "length body = length data" using len by (simp add: body_def)
  have hdr: "overlay 2 (bytes16 0) (overlay 8 data (overlay 6 (bytes16 (htons (icmp_seq f)))
      (overlay 4 (bytes16 (htons (icmp_id f))) (overlay 1 [icmp_code f] (overlay 0 [icmp_type f] w)))))
      = icmp_echo f data 0"
    using body by (simp add: w overlay_def icmp_echo_def bytes16_def)
  have sum: "overlay 2 (bytes16 x) (icmp_echo f data y) = icmp_echo f data x" for x y
    by (simp add: overlay_def icmp_echo_def bytes16_def)
  show ?thesis
    using assms hdr
    by (auto simp: set_icmp_def window region_ok sum)
qed

end
