(* ===== verification/PacketIpv6.thy ===== *)
theory PacketIpv6
  imports Headers
begin

text \<open>
  \<open>packet_ipv6.c\<close>: \<open>analyze_ipv6\<close> reads the fixed IPv6 header and walks the extension headers,
  one \<open>IPv6Option\<close> object per header; \<open>set_ipv6\<close> writes the fixed header of a packet to send.
\<close>

section \<open>Extension headers\<close>

definition is_ext :: "u8 \<Rightarrow> bool" where
  "is_ext proto \<longleftrightarrow> proto = IPPROTO_HOPOPTS \<or> proto = IPPROTO_DSTOPTS \<or>
     proto = IPPROTO_ROUTING \<or> proto = IPPROTO_AH \<or> proto = IPPROTO_FRAGMENT"

text \<open>
  The address loop of the routing header. Its third clause is \<open>data+=16\<close>: the pointer \<open>p\<close> the
  addresses are read from stays where it is, and \<open>data\<close> moves.
\<close>

fun routing_addrs :: "mem \<Rightarrow> nat \<Rightarrow> ptr \<Rightarrow> ptr \<Rightarrow> (u8 list list \<times> ptr) res" where
  "routing_addrs m 0 p data = Inr ([], data)"
| "routing_addrs m (Suc n) p data =
     bindr (new_array m p 16) (\<lambda>addr.
     bindr (routing_addrs m n p (data + 16)) (\<lambda>(addrs, data). Inr (addr # addrs, data)))"

text \<open>
  One turn of the loop: the option object, and the new values of \<open>hlen\<close> and \<open>data\<close>. The option
  data is read at \<open>ip6_ext+2\<close> and at \<open>ah+8\<close>, which count in structures, not in bytes.
\<close>

definition analyze_option ::
  "mem \<Rightarrow> u8 \<Rightarrow> u8 \<Rightarrow> u8 \<Rightarrow> ptr \<Rightarrow> int \<Rightarrow> (ipv6_option \<times> int \<times> ptr) res" where
  "analyze_option m proto nxt len data hlen =
     (let opt_hdr = option_setValue proto nxt len zero_option in
      if proto = IPPROTO_HOPOPTS \<or> proto = IPPROTO_DSTOPTS then
        bindr (new_array m (data + 2 * sizeof_ip6_ext) (uint len)) (\<lambda>opt_data.
          Inr (setOptionData opt_data opt_hdr,
               hlen + push_bit 3 (uint len + 1), data + push_bit 3 (uint len + 1)))
      else if proto = IPPROTO_ROUTING then
        bindr (routing_addrs m (unat (drop_bit 1 len)) (data + 8) data) (\<lambda>(addrs, data').
        bindr (rd8 m (at_ip6r_type data)) (\<lambda>type.
        bindr (rd8 m (at_ip6r_segleft data)) (\<lambda>segleft.
          Inr (setRoutingOption type segleft addrs opt_hdr,
               hlen + push_bit 3 (uint len + 1), data' + push_bit 3 (uint len + 1)))))
      else if proto = IPPROTO_FRAGMENT then
        bindr (rd16 m (at_ip6f_offlg data)) (\<lambda>offlg.
        bindr (rd32 m (at_ip6f_ident data)) (\<lambda>ident.
          Inr (setFragmentOption (ntohs (offlg AND IP6F_OFF_MASK)) (offlg AND IP6F_MORE_FRAG > 0)
                 (ntohl ident) opt_hdr,
               hlen + 8, data + 8)))
      else \<comment> \<open>\<open>IPPROTO_AH\<close>\<close>
        bindr (rd32 m (at_ah_spi data)) (\<lambda>spi.
        bindr (rd32 m (at_ah_seq data)) (\<lambda>seq.
        bindr (new_array m (data + 8 * sizeof_newah) (uint len)) (\<lambda>opt_data.
          Inr (setOptionData opt_data (setAHOption (ntohl spi) (ntohl seq) opt_hdr),
               hlen + push_bit 2 (uint len + 2), data + push_bit 2 (uint len + 2))))))"

lemma routing_addrs_data:
  "routing_addrs m n p data = Inr (addrs, data') \<Longrightarrow> data' = data + 16 * int n"
proof (induction n arbitrary: data addrs)
  case 0
  then show ?case by simp
next
  case (Suc n)
  then obtain as where "routing_addrs m n p (data + 16) = Inr (as, data')"
    by (auto simp: bindr_Inr_iff)
  from Suc.IH [OF this] show ?case by simp
qed

lemma analyze_option_advances:
  assumes "analyze_option m proto nxt len data hlen = Inr (h, hlen', data')"
  shows "data + 8 \<le> data'"
proof -
  have "8 \<le> push_bit 3 (uint len + 1)" and "8 \<le> push_bit 2 (uint len + 2)"
    by (simp_all add: push_bit_eq_mult)
  moreover from this(1) have "8 \<le> 16 * uint (drop_bit (Suc 0) len) + push_bit 3 (uint len + 1)"
    by (rule order_trans) simp
  ultimately show ?thesis using assms
    by (auto simp: analyze_option_def Let_def res_inv split: if_splits
        dest!: routing_addrs_data)
qed

text \<open>
  The \<open>while\<close> loop. It ends: every turn reads its header in the frame and moves \<open>data\<close> at least
  eight bytes on.
\<close>

function analyze_options ::
  "mem \<Rightarrow> u8 \<Rightarrow> ptr \<Rightarrow> int \<Rightarrow> jpacket \<Rightarrow> (jpacket \<times> int) res" where
  "analyze_options m proto data hlen packet =
     (if is_ext proto then
        bindr (rd8 m (at_ip6e_nxt data)) (\<lambda>nxt.
        bindr (rd8 m (at_ip6e_len data)) (\<lambda>len.
        bindr (analyze_option m proto nxt len data hlen) (\<lambda>(opt_hdr, hlen, data).
          analyze_options m nxt data hlen (addOptionHeader opt_hdr packet))))
      else Inr (packet, hlen))"
  by pat_completeness auto
termination
  by (relation "measure (\<lambda>(m, proto, data, hlen, packet). nat (int (length m) - data))")
     (auto simp: res_inv in_range_def dest!: analyze_option_advances)

declare analyze_options.simps [simp del]

section \<open>The header\<close>

definition analyze_ipv6 :: "mem \<Rightarrow> jpacket \<Rightarrow> ptr \<Rightarrow> (jpacket \<times> u16) res" where
  "analyze_ipv6 m packet data =
     bindr (new_array m (at_ip6_src data) 16) (\<lambda>src_addr.
     bindr (new_array m (at_ip6_dst data) 16) (\<lambda>dst_addr.
     bindr (rd32 m (at_ip6_flow data)) (\<lambda>flow.
     bindr (rd16 m (at_ip6_plen data)) (\<lambda>plen.
     bindr (rd8 m (at_ip6_nxt data)) (\<lambda>nxt.
     bindr (rd8 m (at_ip6_hlim data)) (\<lambda>hlim.
       let packet = packet\<lparr>pk_ip := setIPv6Value
             6
             (ucast (signed_drop_bit 20 (scast (ucast (flow AND 0x0ff00000) :: jbyte) :: jint)))
             (ntohl (flow AND 0x000fffff))
             (ntohs plen)
             nxt
             (ucast hlim)
             src_addr dst_addr (pk_ip packet)\<rparr>
       in bindr (analyze_options m nxt (data + 40) 40 packet) (\<lambda>(packet, hlen).
            Inr (packet, of_int hlen))))))))"

definition set_ipv6 :: "ip_fields \<Rightarrow> ptr \<Rightarrow> sstate \<Rightarrow> sstate res" where
  "set_ipv6 packet v6_pkt s =
     (let src = getSourceAddress packet; dst = getDestinationAddress packet in
     bindr (put32 (at_ip6_flow v6_pkt) 0 s) (\<lambda>s.
     bindr (put8 (at_ip6_vfc v6_pkt) 0x60 s) (\<lambda>s.
     bindr (GetByteArrayRegion src 0 16 (at_ip6_src v6_pkt) s) (\<lambda>s.
     bindr (GetByteArrayRegion dst 0 16 (at_ip6_dst v6_pkt) s) (\<lambda>s.
     bindr (rd32 (sbuf s) (at_ip6_flow v6_pkt)) (\<lambda>flow.
     bindr (put32 (at_ip6_flow v6_pkt)
              (flow OR htonl ((push_bit 20 (scast (ip_priority packet)) OR ip_flow_label packet)
                              AND 0x0fffffff)) s) (\<lambda>s.
     bindr (put8 (at_ip6_nxt v6_pkt) (ucast (ip_protocol packet)) s) (\<lambda>s.
       put8 (at_ip6_hlim v6_pkt) (ucast (ip_hop_limit packet)) s))))))))"

interpretation set_ipv6: emitter "set_ipv6 packet v6_pkt" v6_pkt "v6_pkt + 40" for packet v6_pkt
  unfolding set_ipv6_def [abs_def] Let_def
  by (rule emitter_intros | rule emitter_read | (simp; fail))+

section \<open>What \<open>set_ipv6\<close> writes\<close>

text \<open>
  The 40 bytes of the header: version 6 with the priority and the flow label, and the two bytes
  \<open>l\<close> of the payload length as they were before.
\<close>

definition ipv6_flow_word :: "ip_fields \<Rightarrow> u32" where
  "ipv6_flow_word f = 0x60000000 OR
     ((push_bit 20 (scast (ip_priority f)) OR ip_flow_label f) AND 0x0fffffff)"

definition set_ipv6_bytes :: "ip_fields \<Rightarrow> u8 list \<Rightarrow> u8 list \<Rightarrow> u8 list \<Rightarrow> u8 list" where
  "set_ipv6_bytes f src dst l =
     bytes32 (htonl (ipv6_flow_word f)) @ l @ [ucast (ip_protocol f), ucast (ip_hop_limit f)]
     @ src @ dst"

lemma htonl_or: "htonl (v OR w) = htonl v OR htonl w"
  by (rule bit_word_eqI) (auto simp: htonl_def bit_le32 bit_byte_at bit_simps)

lemma version6_word: "le32 0x60 0 0 0 = htonl 0x60000000"
proof -
  have "byte_at 0 (0x60000000 :: u32) = 0" "byte_at (Suc 0) (0x60000000 :: u32) = 0"
    "byte_at 2 (0x60000000 :: u32) = 0" "byte_at 3 (0x60000000 :: u32) = 0x60"
    by (simp_all add: byte_at_def drop_bit_eq_div)
  then show ?thesis by (simp add: htonl_def)
qed

lemma list_of_length_40:
  assumes "length w = 40"
  obtains w0 w1 w2 w3 w4 w5 w6 w7 rest where "w = [w0,w1,w2,w3,w4,w5,w6,w7] @ rest"
    and "length rest = 32"
proof -
  have "length (take 8 w) = 8" and "length (drop 8 w) = 32" using assms by simp_all
  then show ?thesis using that append_take_drop_id [of 8 w] list_of_length_8 by metis
qed

lemma set_ipv6_window:
  assumes "length w = 40"
    and "getSourceAddress f = Some src" and "length src = 16"
    and "getDestinationAddress f = Some dst" and "length dst = 16"
  shows "set_ipv6 f (int (length pre)) \<lparr>sbuf = pre @ w @ post, pending = e\<rparr> =
     Inr \<lparr>sbuf = pre @ set_ipv6_bytes f src dst (take 2 (drop 4 w)) @ post, pending = e\<rparr>"
proof -
  obtain w0 w1 w2 w3 w4 w5 w6 w7 rest where w: "w = [w0,w1,w2,w3,w4,w5,w6,w7] @ rest"
    and rest: "length rest = 32"
    using assms(1) by (rule list_of_length_40)
  let ?w1 = "overlay 24 dst (overlay 8 src (overlay 0 [0x60] (overlay 0 (bytes32 0) w)))"
  have z: "byte_at i (0 :: u32) = 0" for i by (simp add: byte_at_def)
  have flow: "le32 (?w1 ! 0) (?w1 ! 1) (?w1 ! 2) (?w1 ! 3) = htonl 0x60000000"
    using rest assms(3,5) by (simp add: w overlay_def bytes32_def z version6_word)
  have hdr: "overlay 7 [ucast (ip_hop_limit f)] (overlay 6 [ucast (ip_protocol f)]
      (overlay 0 (bytes32 x) ?w1)) =
      bytes32 x @ [w4, w5, ucast (ip_protocol f), ucast (ip_hop_limit f)] @ src @ dst" for x
    using rest assms(3,5) by (simp add: w overlay_def bytes32_def)
  show ?thesis
    using assms
    by (simp add: set_ipv6_def window region_ok flow [simplified] hdr flip: htonl_or)
       (simp add: set_ipv6_bytes_def ipv6_flow_word_def w)
qed

end
