(* ===== verification/Captor.thy ===== *)
theory Captor
  imports PacketDatalink PacketArp PacketUdp PacketTcp PacketIcmp PacketIpv6
begin

text \<open>
  \<open>get_packet\<close> of \<open>JpcapCaptor.c\<close>: a captured frame becomes a packet object of the class its
  protocols call for. The frame is the memory \<open>data\<close> (the \<open>caplen\<close> bytes the capture library
  delivers, at offset 0), the link type is \<open>linktypes[id]\<close>. The fields of \<open>junk\<close> stand for what
  the code reads without having written it: the local variable \<open>tproto\<close> and the two arguments
  missing from a variadic call.
\<close>

record pcap_pkthdr =
  ts_sec :: jlong
  ts_usec :: jlong
  caplen :: u32
  wire_len :: u32

record junk =
  j_tproto :: u16
  j_va :: "jshort \<times> jshort"

section \<open>Link-layer tables\<close>

definition offset_type :: "int list" where
  "offset_type = [0, 12, -1, -1, -1, -1, 20, -1, -1, 2, 19, 6, -1, -1, 5]"

definition offset_data :: "int list" where
  "offset_data = [4, 14, -1, -1, -1, -1, 22, -1, 16, 4, 21, 8, 0, 24, 24]"

definition table :: "int list \<Rightarrow> int \<Rightarrow> int res" where
  "table xs i = (if 0 \<le> i \<and> i < int (length xs) then Inr (xs ! nat i) else Inl (OutOfBounds i))"

definition get_network_type :: "mem \<Rightarrow> ptr \<Rightarrow> int \<Rightarrow> u16 res" where
  "get_network_type m data linktype =
     bindr (table offset_type linktype) (\<lambda>off.
     bindr (rd16 m (data + off)) (\<lambda>type. Inr (ntohs type)))"

definition datalink_hlen :: "int \<Rightarrow> int res" where
  "datalink_hlen linktype = table offset_data linktype"

definition skip_datalink_header :: "ptr \<Rightarrow> int \<Rightarrow> ptr res" where
  "skip_datalink_header data linktype = bindr (datalink_hlen linktype) (\<lambda>n. Inr (data + n))"

text \<open>Assigning an \<open>int\<close> to a \<open>short\<close> keeps its low 16 bits.\<close>

definition to_short :: "int \<Rightarrow> jshort" where
  "to_short n = word_of_int n"

section \<open>Which protocols a frame carries\<close>

text \<open>The network protocol and what is left of \<open>clen\<close> after the link header.\<close>

definition network_protocol :: "mem \<Rightarrow> int \<Rightarrow> u32 \<Rightarrow> (u16 \<times> jshort) res" where
  "network_protocol m linktype cap =
     (let clen = ucast cap in
      if linktype = DLT_RAW then
        bindr (datalink_hlen linktype) (\<lambda>n. Inr (ETHERTYPE_IP, to_short (sint clen - n)))
      else if linktype = DLT_IEEE802 \<or> linktype = DLT_EN10MB then
        bindr (get_network_type m 0 linktype) (\<lambda>nproto.
        bindr (datalink_hlen linktype) (\<lambda>n. Inr (nproto, to_short (sint clen - n))))
      else Inr (UNKNOWN_PROTO, clen))"

text \<open>
  The walk over IPv6 extension headers. It starts at \<open>dp\<close>, which \<open>get_packet\<close> sets to the IPv6
  header itself.
\<close>

definition is_ext_proto :: "u16 \<Rightarrow> bool" where
  "is_ext_proto tproto \<longleftrightarrow> tproto < 256 \<and> is_ext (ucast tproto)"

definition ext_step :: "u16 \<Rightarrow> u8 \<Rightarrow> int" where
  "ext_step tproto len =
     (if tproto = ucast IPPROTO_AH then push_bit 2 (uint len + 2)
      else if tproto = ucast IPPROTO_FRAGMENT then 8
      else push_bit 3 (uint len + 1))"

lemma ext_step_pos: "8 \<le> ext_step tproto len"
  by (simp add: ext_step_def push_bit_eq_mult)

function walk_ext :: "mem \<Rightarrow> u16 \<Rightarrow> ptr \<Rightarrow> jshort \<Rightarrow> (u16 \<times> jshort) res" where
  "walk_ext m tproto dp clen =
     (if is_ext_proto tproto \<and> sint clen > 0 then
        bindr (rd8 m (at_ip6e_nxt dp)) (\<lambda>nxt.
        bindr (if tproto = ucast IPPROTO_FRAGMENT then Inr 0 else rd8 m (at_ip6e_len dp)) (\<lambda>len.
          let n = ext_step tproto len;
              tproto = (if nxt = IPPROTO_ESP \<or> nxt = IPPROTO_NONE then -1 else ucast nxt)
          in walk_ext m tproto (dp + n) (to_short (sint clen - n))))
      else Inr (tproto, clen))"
  by pat_completeness auto
termination
proof (relation "measure (\<lambda>(m, tproto, dp, clen). nat (int (length m) - dp))")
  fix m tproto dp clen nxt len n tproto'
  assume "rd8 m (at_ip6e_nxt dp) = Inr nxt" and "n = ext_step tproto len"
  then show "((m, tproto', dp + n, to_short (sint clen - n)), m, tproto, dp, clen)
      \<in> measure (\<lambda>(m, tproto, dp, clen). nat (int (length m) - dp))"
    using ext_step_pos [of tproto len] by (auto simp: res_inv in_range_def)
qed simp

declare walk_ext.simps [simp del]

text \<open>
  The transport protocol and the bytes left for it, for a \<open>clen\<close> already reduced by the link
  header.
\<close>

definition detect_transport ::
  "junk \<Rightarrow> mem \<Rightarrow> int \<Rightarrow> u16 \<Rightarrow> jshort \<Rightarrow> (u16 \<times> jshort) res" where
  "detect_transport j m linktype nproto clen =
     (if sint clen > 0 then
        if nproto = ETHERTYPE_IP then
          bindr (skip_datalink_header 0 linktype) (\<lambda>ip.
          bindr (rd8 m (at_ip_hl_v ip)) (\<lambda>hl_v.
            let clen = to_short (sint clen - push_bit 2 (uint (hl_v AND 0x0f))) in
            if sint clen > 0 then
              bindr (rd16 m (at_ip_off ip)) (\<lambda>off.
                if ntohs off AND IP_OFFMASK = 0
                then bindr (rd8 m (at_ip_p ip)) (\<lambda>p. Inr (ucast p, clen))
                else Inr (ETHERTYPE_IP, clen))
            else Inr (ETHERTYPE_IP, clen)))
        else if nproto = ETHERTYPE_IPV6 then
          let clen = to_short (sint clen - 40) in
          if sint clen > 0 then
            bindr (skip_datalink_header 0 linktype) (\<lambda>dp.
            bindr (rd8 m (at_ip6_nxt dp)) (\<lambda>nxt. walk_ext m (ucast nxt) dp clen))
          else Inr (j_tproto j, clen)
        else if nproto = ETHERTYPE_ARP then
          let clen = to_short (sint clen - 28) in
          Inr (if sint clen > 0 then ETHERTYPE_ARP else j_tproto j, clen)
        else if nproto = UNKNOWN_PROTO then Inr (UNKNOWN_PROTO, clen)
        else bindr (get_network_type m 0 linktype) (\<lambda>t. Inr (t, clen))
      else Inr (j_tproto j, clen))"

text \<open>The check for truncated packets turns the three transport protocols into \<open>-1\<close>.\<close>

definition check_truncated :: "u16 \<Rightarrow> jshort \<Rightarrow> u16" where
  "check_truncated tproto clen =
     (if tproto = ucast IPPROTO_TCP \<and> sint clen < TCPHDRLEN \<or>
         tproto = ucast IPPROTO_UDP \<and> sint clen < UDPHDRLEN \<or>
         tproto = ucast IPPROTO_ICMP \<and> sint clen < ICMPHDRLEN
      then -1 else tproto)"

definition transport_protocol ::
  "junk \<Rightarrow> mem \<Rightarrow> int \<Rightarrow> u16 \<Rightarrow> jshort \<Rightarrow> (u16 \<times> jshort) res" where
  "transport_protocol j m linktype nproto clen =
     bindr (detect_transport j m linktype nproto clen) (\<lambda>(tproto, clen).
       Inr (check_truncated tproto clen, clen))"

definition packet_class :: "u16 \<Rightarrow> u16 \<Rightarrow> jclass" where
  "packet_class nproto tproto =
     (if tproto = ucast IPPROTO_TCP then TCPPacketC
      else if tproto = ucast IPPROTO_UDP then UDPPacketC
      else if tproto = ucast IPPROTO_ICMP then ICMPPacketC
      else if nproto = ETHERTYPE_IP then IPPacketC
      else if nproto = ETHERTYPE_IPV6 then IPPacketC
      else if nproto = ETHERTYPE_ARP \<or> nproto = ETHERTYPE_REVARP then ARPPacketC
      else PacketC)"

section \<open>Filling the object\<close>

text \<open>The network header: the object, \<open>clen\<close> and \<open>hlen\<close>, with \<open>data\<close> past the link header.\<close>

definition analyze_network ::
  "mem \<Rightarrow> int \<Rightarrow> u16 \<Rightarrow> u32 \<Rightarrow> ptr \<Rightarrow> jpacket \<Rightarrow> (jpacket \<times> jshort \<times> jshort) res" where
  "analyze_network m linktype nproto cap data packet =
     (if nproto = ETHERTYPE_IP then
        bindr (rd16 m (at_ip_len data)) (\<lambda>len.
        bindr (analyze_ip m packet data) (\<lambda>(packet, hlen). Inr (packet, ntohs len, hlen)))
      else if nproto = ETHERTYPE_IPV6 then
        bindr (rd16 m (at_ip6_plen data)) (\<lambda>plen.
        bindr (analyze_ipv6 m packet data) (\<lambda>(packet, hlen).
          Inr (packet, ntohs plen + 40, hlen)))
      else if nproto = ETHERTYPE_ARP then
        bindr (analyze_arp m packet data) (\<lambda>(packet, n). Inr (packet, to_short n, to_short n))
      else if nproto = UNKNOWN_PROTO then Inr (packet, ucast cap, 0)
      else bindr (datalink_hlen linktype) (\<lambda>n. Inr (packet, ucast (cap - of_int n), 0)))"

text \<open>The transport header: the object and \<open>hlen\<close>.\<close>

definition analyze_transport ::
  "bool \<Rightarrow> junk \<Rightarrow> mem \<Rightarrow> u16 \<Rightarrow> ptr \<Rightarrow> jshort \<Rightarrow> jpacket \<Rightarrow> (jpacket \<times> jshort) res" where
  "analyze_transport num_addrs j m tproto data clen packet =
     (if tproto = ucast IPPROTO_TCP then analyze_tcp m packet data
      else if tproto = ucast IPPROTO_UDP then
        bindr (analyze_udp m packet data) (\<lambda>packet. Inr (packet, to_short UDPHDRLEN))
      else if tproto = ucast IPPROTO_ICMP then
        bindr (analyze_icmp num_addrs (j_va j) m packet data clen)
          (\<lambda>packet. Inr (packet, to_short ICMPHDRLEN))
      else Inr (packet, 0))"

text \<open>
  The two byte arrays: everything before \<open>data\<close> is the header, the \<open>clen\<close> bytes from \<open>data\<close> on
  are the data, if \<open>clen\<close> is not negative.
\<close>

definition set_arrays :: "mem \<Rightarrow> ptr \<Rightarrow> jshort \<Rightarrow> jpacket \<Rightarrow> jpacket res" where
  "set_arrays m data clen packet =
     (let hlen = to_short data in
      bindr (new_array m 0 (sint hlen)) (\<lambda>hdr.
      let packet = setPacketHeader (Some hdr) packet in
      if sint clen \<ge> 0
      then bindr (new_array m data (sint clen)) (\<lambda>body. Inr (setPacketData (Some body) packet))
      else Inr packet))"

text \<open>
  The part of \<open>get_packet\<close> after the object has been created and its link layer set: the
  headers of layers 3 and 4, then the two arrays.
\<close>

definition fill_packet ::
  "bool \<Rightarrow> junk \<Rightarrow> int \<Rightarrow> u32 \<Rightarrow> mem \<Rightarrow> u16 \<Rightarrow> u16 \<Rightarrow> jpacket \<Rightarrow> jpacket res" where
  "fill_packet num_addrs j linktype cap m nproto tproto packet =
     bindr (if nproto \<noteq> UNKNOWN_PROTO then skip_datalink_header 0 linktype else Inr 0) (\<lambda>data.
     bindr (analyze_network m linktype nproto cap data packet) (\<lambda>(packet, clen, hlen).
     bindr (if nproto \<noteq> UNKNOWN_PROTO \<and> tproto \<noteq> UNKNOWN_PROTO
            then bindr (datalink_hlen linktype) (\<lambda>n.
                   let rest = cap - of_int n in
                   Inr (if (scast clen :: u32) > rest then ucast rest else clen))
            else Inr clen) (\<lambda>clen.
     let data = data + sint hlen; clen = to_short (sint clen - sint hlen) in
     bindr (analyze_transport num_addrs j m tproto data clen packet) (\<lambda>(packet, hlen).
     let hlen = (if sint hlen > sint clen then clen else hlen);
         clen = to_short (sint clen - sint hlen);
         data = data + sint hlen
     in set_arrays m data clen packet))))"

definition get_packet ::
  "bool \<Rightarrow> junk \<Rightarrow> int \<Rightarrow> pcap_pkthdr \<Rightarrow> mem \<Rightarrow> jpacket res" where
  "get_packet num_addrs j linktype header m =
     bindr (network_protocol m linktype (caplen header)) (\<lambda>(nproto, clen).
     bindr (transport_protocol j m linktype nproto clen) (\<lambda>(tproto, _).
     let packet = setPacketValue (ts_sec header) (ts_usec header) (caplen header)
                    (wire_len header) (AllocObject (packet_class nproto tproto)) in
     bindr (analyze_datalink m 0 linktype) (\<lambda>dlpacket.
       fill_packet num_addrs j linktype (caplen header) m nproto tproto
         (setDatalinkPacket dlpacket packet))))"

end
