(* ===== verification/SetPacket.thy ===== *)
theory SetPacket
  imports PacketDatalink PacketArp PacketUdp PacketTcp PacketIcmp PacketIpv6
begin

text \<open>
  \<open>set_packet\<close> of \<open>JpcapSender.c\<close>: the frame of a packet object is built in a buffer, layer by
  layer. The header of layer 3 is written first, then the transport part with its checksum over
  that header, then the total length, the fragment word and the header checksum are put in
  network order.
\<close>

section \<open>The layers\<close>

text \<open>
  The protocol number and the length in the IP header, for both versions: \<open>ip_len\<close> and
  \<open>ip6_plen\<close> take the length in the byte order of the host.
\<close>

definition set_proto_len :: "int \<Rightarrow> ptr \<Rightarrow> u8 \<Rightarrow> int \<Rightarrow> sstate \<Rightarrow> sstate res" where
  "set_proto_len ver ip proto len s =
     (if ver = 4
      then bindr (put8 (at_ip_p ip) proto s) (put16 (at_ip_len ip) (of_int len))
      else bindr (put8 (at_ip6_nxt ip) proto s) (put16 (at_ip6_plen ip) (of_int len)))"

text \<open>The last block for IPv4: two fields to network order, then the header checksum.\<close>

definition finish_ip :: "ptr \<Rightarrow> sstate \<Rightarrow> sstate res" where
  "finish_ip ip s =
     bindr (rd16 (sbuf s) (at_ip_len ip)) (\<lambda>w.
     bindr (put16 (at_ip_len ip) (htons w) s) (\<lambda>s.
     bindr (rd16 (sbuf s) (at_ip_off ip)) (\<lambda>off.
     bindr (put16 (at_ip_off ip) (htons off) s) (\<lambda>s.
     bindr (put16 (at_ip_sum ip) 0 s) (\<lambda>s.
     bindr (in_cksum (sbuf s) ip 20) (\<lambda>cksum.
       put16 (at_ip_sum ip) cksum s))))))"

text \<open>The branches on the class of an IP packet; the value is the length so far.\<close>

definition set_transport ::
  "jpacket \<Rightarrow> int \<Rightarrow> ptr \<Rightarrow> ptr \<Rightarrow> int \<Rightarrow> sstate \<Rightarrow> (int \<times> sstate) res" where
  "set_transport packet ver ip pointer len s =
     (let data = pk_data packet in
      if IsInstanceOf packet TCPPacketC then
        let len = len + TCPHDRLEN in
        bindr (set_proto_len ver ip IPPROTO_TCP len s) (\<lambda>s.
        bindr (set_tcp (pk_tcp packet) pointer data ip s) (\<lambda>s. Inr (len, s)))
      else if IsInstanceOf packet UDPPacketC then
        let len = len + UDPHDRLEN in
        bindr (set_proto_len ver ip IPPROTO_UDP len s) (\<lambda>s.
        bindr (set_udp (pk_udp packet) pointer data ip s) (\<lambda>s. Inr (len, s)))
      else if IsInstanceOf packet ICMPPacketC then
        bindr (set_icmp (pk_icmp packet) pointer data s) (\<lambda>(n, s).
        let len = len + n in
        bindr (set_proto_len ver ip IPPROTO_ICMP len s) (\<lambda>s. Inr (len, s)))
      else if ver = 4 then
        bindr (put8 (at_ip_p ip) (ucast (ip_protocol (pk_ip packet))) s) (\<lambda>s.
        bindr (put16 (at_ip_len ip) (of_int len) s) (\<lambda>s.
        bindr (GetByteArrayRegion data 0 (len - IPv4HDRLEN) pointer s) (\<lambda>s.
          Inr (len, s))))
      else
        bindr (put16 (at_ip6_plen ip) (of_int len) s) (\<lambda>s.
        bindr (GetByteArrayRegion data 0 (len - 40) pointer s) (\<lambda>s. Inr (len, s))))"

text \<open>The three branches on the kind of packet, with \<open>pointer\<close> past the link header.\<close>

definition set_ip_packet :: "jpacket \<Rightarrow> ptr \<Rightarrow> int \<Rightarrow> sstate \<Rightarrow> (int \<times> sstate) res" where
  "set_ip_packet packet pointer len s =
     (let ip = pointer; ver = sint (ip_version (pk_ip packet)) in
      bindr (if ver = 4
             then bindr (set_ip (pk_ip packet) pointer s) (\<lambda>s.
                    Inr (len + IPv4HDRLEN, pointer + IPv4HDRLEN, s))
             else bindr (set_ipv6 (pk_ip packet) pointer s) (\<lambda>s.
                    Inr (len + 40, pointer + 40, s))) (\<lambda>(len, pointer, s).
      bindr (set_transport packet ver ip pointer len s) (\<lambda>(len, s).
        if ver = 4 then bindr (finish_ip ip s) (\<lambda>s. Inr (len, s)) else Inr (len, s))))"

definition set_layers :: "jpacket \<Rightarrow> ptr \<Rightarrow> sstate \<Rightarrow> (int \<times> sstate) res" where
  "set_layers packet pointer s =
     (let data = pk_data packet;
          len = (case data of None \<Rightarrow> 0 | Some bs \<Rightarrow> int (length bs))
      in if IsInstanceOf packet IPPacketC then set_ip_packet packet pointer len s
         else if IsInstanceOf packet ARPPacketC then
           bindr (set_arp (pk_arp packet) pointer s) (\<lambda>(n, s). Inr (len + n, s))
         else
           bindr (GetByteArrayRegion data 0 len pointer s) (\<lambda>s. Inr (len, s)))"

definition set_packet :: "jpacket \<Rightarrow> ptr \<Rightarrow> bool \<Rightarrow> sstate \<Rightarrow> (int \<times> sstate) res" where
  "set_packet packet pointer include_datalink s =
     bindr (if include_datalink then set_ether (pk_datalink packet) pointer s else Inr (0, s))
       (\<lambda>(dthlen, s).
     bindr (set_layers packet (pointer + dthlen) s) (\<lambda>(len, s). Inr (len + dthlen, s)))"

section \<open>The frame handed to the network\<close>

text \<open>
  The body of \<open>nativeSendPacket\<close> after its check of the handle: the frame is built in the
  uninitialised stack array \<open>buf\<close>, and a frame of fewer than 60 bytes is padded with the
  trailer of an Ethernet frame (\<open>60-length+1\<close> zero bytes). The value is what
  \<open>pcap_sendpacket\<close> is called with.
\<close>

definition build_frame :: "mem \<Rightarrow> jpacket \<Rightarrow> (int \<times> sstate) res" where
  "build_frame buf packet =
     bindr (set_packet packet 0 True \<lparr>sbuf = buf, pending = None\<rparr>) (\<lambda>(len, s).
       if len < 60
       then bindr (put_bytes len (replicate (nat (60 - len + 1)) 0) s) (\<lambda>s. Inr (60, s))
       else Inr (len, s))"

text \<open>The bytes \<open>pcap_sendpacket(pcds[id],buf,length)\<close> reads.\<close>

definition bytes_sent :: "mem \<Rightarrow> jpacket \<Rightarrow> u8 list res" where
  "bytes_sent buf packet =
     bindr (build_frame buf packet) (\<lambda>(len, s). rd_bytes (sbuf s) 0 (nat len))"

section \<open>The writes stay in the frame\<close>

lemma emitter_set_proto_len:
  "lo \<le> ip \<Longrightarrow> ip + 20 \<le> hi \<Longrightarrow> emitter (set_proto_len ver ip proto len) lo hi"
  unfolding set_proto_len_def [abs_def]
  by (rule emitter_intros | (simp; fail))+

lemma emitter_finish_ip: "lo \<le> ip \<Longrightarrow> ip + 20 \<le> hi \<Longrightarrow> emitter (finish_ip ip) lo hi"
  unfolding finish_ip_def [abs_def]
  by (rule emitter_read emitter_intros | (simp; fail))+

text \<open>
  The room \<open>set_packet\<close> may write to behind its pointer: the headers of the layers the packet has
  and its data, cut to what the clamps of TCP and UDP leave. The ARP part takes its two lengths
  from the packet, which have one byte each.
\<close>

definition transport_extent :: "jpacket \<Rightarrow> int" where
  "transport_extent packet =
     (let n = array_length (pk_data packet) in
      if IsInstanceOf packet TCPPacketC then 20 + min 1560 n
      else if IsInstanceOf packet UDPPacketC then 8 + min 1572 n
      else if IsInstanceOf packet ICMPPacketC then icmp_extent (pk_data packet)
      else n)"

definition packet_extent :: "jpacket \<Rightarrow> int" where
  "packet_extent packet = 14 +
     (if IsInstanceOf packet IPPacketC
      then (if sint (ip_version (pk_ip packet)) = 4 then 20 else 40) + transport_extent packet
      else if IsInstanceOf packet ARPPacketC then 279
      else array_length (pk_data packet))"

lemma transport_extent_nonneg: "0 \<le> transport_extent packet"
  using icmp_extent_ge(1) [of "pk_data packet"] by (simp add: transport_extent_def Let_def)

lemma set_transport_agree:
  assumes run: "set_transport packet ver ip pointer len s = Inr (n, s')"
    and "lo \<le> ip" and "ip + 20 \<le> hi" and "lo \<le> pointer"
    and hi: "pointer + transport_extent packet \<le> hi"
    and len: "len = array_length (pk_data packet) + (if ver = 4 then 20 else 40)"
  shows "agree_outside lo hi s s'"
proof -
  note hi = hi [unfolded transport_extent_def Let_def]
  note proto = emitter_agree [OF emitter_set_proto_len [OF assms(2,3)]]
  have tcp_step: "emitter (set_tcp t pointer (pk_data packet) ip) lo hi"
    if "IsInstanceOf packet TCPPacketC" for t
    by (rule emitter_weaken [OF set_tcp.emitter_axioms]) (use assms(4) hi that in auto)
  have udp_step: "emitter (set_udp t pointer (pk_data packet) ip) lo hi"
    if "\<not> IsInstanceOf packet TCPPacketC" "IsInstanceOf packet UDPPacketC" for t
    by (rule emitter_weaken [OF set_udp.emitter_axioms]) (use assms(4) hi that in auto)
  have icmp_step: "emitter (\<lambda>s. bindr (set_icmp i pointer (pk_data packet) s) (\<lambda>(n, s). Inr s)) lo hi"
    if "\<not> IsInstanceOf packet TCPPacketC" "\<not> IsInstanceOf packet UDPPacketC" "IsInstanceOf packet ICMPPacketC" for i
    by (rule emitter_weaken [OF set_icmp.emitter_axioms]) (use assms(4) hi that in auto)
  have body: "emitter (GetByteArrayRegion d 0 k pointer) lo hi"
    if "\<not> IsInstanceOf packet TCPPacketC" "\<not> IsInstanceOf packet UDPPacketC" "\<not> IsInstanceOf packet ICMPPacketC"
      "k = array_length (pk_data packet)" for d k
    by (rule emitter_region) (use assms(4) hi that in auto)
  have field: "emitter (put8 (ip + 9) b) lo hi" "emitter (put16 (ip + 2) w) lo hi"
    "emitter (put16 (ip + 4) w) lo hi" for b w
    by (rule emitter_put8 emitter_put16; use assms(2,3) in simp)+
  have ip4: "emitter (\<lambda>s. bindr (put8 (ip + 9) b s) (\<lambda>s. bindr (put16 (ip + 2) w s)
      (GetByteArrayRegion d 0 (len - 20) pointer))) lo hi"
    if "ver = 4" "\<not> IsInstanceOf packet TCPPacketC" "\<not> IsInstanceOf packet UDPPacketC"
      "\<not> IsInstanceOf packet ICMPPacketC" for b w d
    using that len by (auto intro!: emitter_seq field body)
  have ip6: "emitter (\<lambda>s. bindr (put16 (ip + 4) w s)
      (GetByteArrayRegion d 0 (len - 40) pointer)) lo hi"
    if "ver \<noteq> 4" "\<not> IsInstanceOf packet TCPPacketC" "\<not> IsInstanceOf packet UDPPacketC"
      "\<not> IsInstanceOf packet ICMPPacketC" for w d
    using that len by (auto intro!: emitter_seq field body)
  consider (tcp) "IsInstanceOf packet TCPPacketC"
    | (udp) "\<not> IsInstanceOf packet TCPPacketC" "IsInstanceOf packet UDPPacketC"
    | (icmp) "\<not> IsInstanceOf packet TCPPacketC" "\<not> IsInstanceOf packet UDPPacketC"
        "IsInstanceOf packet ICMPPacketC"
    | (other) "\<not> IsInstanceOf packet TCPPacketC" "\<not> IsInstanceOf packet UDPPacketC"
        "\<not> IsInstanceOf packet ICMPPacketC"
    by blast
  then show ?thesis
  proof cases
    case tcp
    then show ?thesis
      using run emitter_agree [OF tcp_step [OF tcp]]
      by (auto simp: set_transport_def Let_def bindr_Inr_iff dest!: proto intro: agree_trans)
  next
    case udp
    then show ?thesis
      using run emitter_agree [OF udp_step [OF udp]]
      by (auto simp: set_transport_def Let_def bindr_Inr_iff dest!: proto intro: agree_trans)
  next
    case icmp
    then obtain m t where "set_icmp (pk_icmp packet) pointer (pk_data packet) s = Inr (m, t)"
      and t: "set_proto_len ver ip IPPROTO_ICMP (len + m) t = Inr s'"
      using run by (auto simp: set_transport_def Let_def bindr_Inr_iff)
    then have "bindr (set_icmp (pk_icmp packet) pointer (pk_data packet) s) (\<lambda>(n, s). Inr s) = Inr t"
      by simp
    then have "agree_outside lo hi s t"
      by (rule emitter_agree [OF icmp_step [OF icmp]])
    from this proto [OF t] show ?thesis by (rule agree_trans)
  next
    case other
    show ?thesis
    proof (cases "ver = 4")
      case True
      then have "bindr (put8 (ip + 9) (ucast (ip_protocol (pk_ip packet))) s)
          (\<lambda>s. bindr (put16 (ip + 2) (of_int len) s)
            (GetByteArrayRegion (pk_data packet) 0 (len - 20) pointer)) = Inr s'"
        using run other by (auto simp: set_transport_def Let_def bindr_Inr_iff IPv4HDRLEN_def)
      then show ?thesis by (rule emitter_agree [OF ip4 [OF True other]])
    next
      case False
      then have "bindr (put16 (ip + 4) (of_int len) s)
          (GetByteArrayRegion (pk_data packet) 0 (len - 40) pointer) = Inr s'"
        using run other by (auto simp: set_transport_def Let_def bindr_Inr_iff)
      then show ?thesis by (rule emitter_agree [OF ip6 [OF False other]])
    qed
  qed
qed

lemma set_ether_agree:
  assumes "set_ether dl p s = Inr (n, t)"
  shows "agree_outside p (p + 14) s t" and "n = 0 \<or> n = 14"
proof -
  have "bindr (set_ether dl p s) (\<lambda>(n, s). Inr s) = Inr t" using assms by simp
  then show "agree_outside p (p + 14) s t" by (rule emitter_agree [OF set_ether.emitter_axioms])
  show "n = 0 \<or> n = 14"
    using assms
    by (auto simp: set_ether_def bindr_Inr_iff sizeof_ether_header_def
        split: option.splits datalink.splits)
qed

lemma emitter_set_arp:
  "emitter (\<lambda>s. bindr (set_arp f p s) (\<lambda>(n, s). Inr s)) p (p + 279)"
proof -
  have reg: "emitter (GetByteArrayRegion a 0 (uint b) (p + q)) p (p + 279)"
    if "0 \<le> q" and "q \<le> 24" for a q and b :: u8
    by (rule emitter_region) (use that uint_lt2p [of b] in simp_all)
  show ?thesis
    unfolding set_arp_def bindr_assoc bindr_simps prod.case
    by (rule reg emitter_intros emitter_read | (simp; fail))+
qed

lemma emitter_region_all:
  "emitter (GetByteArrayRegion d 0 k p) p (p + max 0 k)"
  by (rule emitter_region) simp_all

lemma set_ip_packet_agree:
  assumes run: "set_ip_packet packet pointer len s = Inr (n, s')" and lo: "lo \<le> pointer"
    and hi: "pointer + (if sint (ip_version (pk_ip packet)) = 4 then 20 else 40) + transport_extent packet \<le> hi"
    and len: "len = array_length (pk_data packet)"
  shows "agree_outside lo hi s s'"
  using transport_extent_nonneg [of packet]
proof (cases "sint (ip_version (pk_ip packet)) = 4")
  case True
  obtain t m u where ip: "set_ip (pk_ip packet) pointer s = Inr t"
    and tr: "set_transport packet 4 pointer (pointer + 20) (len + 20) t = Inr (m, u)"
    and fin: "finish_ip pointer u = Inr s'"
    using run True by (auto simp: set_ip_packet_def bindr_Inr_iff IPv4HDRLEN_def)
  have "agree_outside lo hi s t"
    by (rule agree_weaken [OF emitter_agree [OF set_ip.emitter_axioms ip]]) (use lo hi True transport_extent_nonneg [of packet] in auto)
  also have "agree_outside lo hi t u"
    by (rule set_transport_agree [OF tr]) (use lo hi len True transport_extent_nonneg [of packet] in auto)
  also have "agree_outside lo hi u s'"
    by (rule emitter_agree [OF emitter_finish_ip fin]) (use lo hi True transport_extent_nonneg [of packet] in auto)
  finally show ?thesis .
next
  case False
  obtain t m where ip: "set_ipv6 (pk_ip packet) pointer s = Inr t"
    and tr: "set_transport packet (sint (ip_version (pk_ip packet))) pointer (pointer + 40)
      (len + 40) t = Inr (m, s')"
    using run False by (auto simp: set_ip_packet_def bindr_Inr_iff)
  have "agree_outside lo hi s t"
    by (rule agree_weaken [OF emitter_agree [OF set_ipv6.emitter_axioms ip]])
       (use lo hi False transport_extent_nonneg [of packet] in auto)
  also have "agree_outside lo hi t s'"
    by (rule set_transport_agree [OF tr]) (use lo hi len False transport_extent_nonneg [of packet] in auto)
  finally show ?thesis .
qed

lemma set_layers_agree:
  assumes run: "set_layers packet pointer s = Inr (n, s')" and lo: "lo \<le> pointer"
    and hi: "pointer + packet_extent packet \<le> hi + 14"
  shows "agree_outside lo hi s s'"
proof -
  let ?L = "array_length (pk_data packet)"
  consider (ip) "IsInstanceOf packet IPPacketC" "set_ip_packet packet pointer ?L s = Inr (n, s')"
    | (arp) "\<not> IsInstanceOf packet IPPacketC" "IsInstanceOf packet ARPPacketC"
      "bindr (set_arp (pk_arp packet) pointer s) (\<lambda>(n, s). Inr s) = Inr s'"
    | (other) "\<not> IsInstanceOf packet IPPacketC" "\<not> IsInstanceOf packet ARPPacketC"
      "GetByteArrayRegion (pk_data packet) 0 ?L pointer s = Inr s'"
    using run unfolding array_length_def
    by (auto simp: set_layers_def Let_def bindr_Inr_iff split: if_splits)
  then show ?thesis
  proof cases
    case ip
    from ip(2) show ?thesis
      by (rule set_ip_packet_agree) (use lo hi ip(1) in \<open>auto simp: packet_extent_def\<close>)
  next
    case arp
    show ?thesis
      by (rule agree_weaken [OF emitter_agree [OF emitter_set_arp arp(3)]])
         (use lo hi arp(1,2) in \<open>auto simp: packet_extent_def\<close>)
  next
    case other
    show ?thesis
      by (rule agree_weaken [OF emitter_agree [OF emitter_region_all other(3)]])
         (use lo hi other(1,2) in \<open>auto simp: packet_extent_def\<close>)
  qed
qed

text \<open>
  A run that returns keeps the size of the buffer and changes no byte before its pointer nor
  beyond the headers and the clamped data of its packet.
\<close>

theorem set_packet_frame:
  assumes "set_packet packet pointer link s = Inr (n, s')"
  shows "length (sbuf s') = length (sbuf s) \<and>
    (\<forall>i < length (sbuf s). int i < pointer \<or> pointer + packet_extent packet \<le> int i \<longrightarrow>
       sbuf s' ! i = sbuf s ! i)"
proof -
  let ?hi = "pointer + packet_extent packet"
  obtain d t m where ether: "(if link then set_ether (pk_datalink packet) pointer s
      else Inr (0, s)) = Inr (d, t)"
    and body: "set_layers packet (pointer + d) t = Inr (m, s')"
    using assms by (auto simp: set_packet_def bindr_Inr_iff)
  have d: "d = 0 \<or> d = 14" and t: "agree_outside pointer (pointer + 14) s t"
    using ether set_ether_agree [of "pk_datalink packet" pointer s d t]
    by (auto split: if_splits)
  have "agree_outside pointer ?hi s t"
    by (rule agree_weaken [OF t]) (use transport_extent_nonneg [of packet] in \<open>auto simp: packet_extent_def\<close>)
  also have "agree_outside pointer ?hi t s'"
    by (rule set_layers_agree [OF body]) (use d in auto)
  finally show ?thesis by (simp add: agree_outside_def)
qed

end
