(* ===== verification/Frames.thy ===== *)
theory Frames
  imports SetPacket
begin

text \<open>
  The wire formats \<open>set_packet\<close> is meant to produce, written down on their own over the bytes of
  a frame with the checksums of RFC 1071, and the lemmas that the code produces them: the
  composition of the window lemmas of the layers.
\<close>

section \<open>Formats\<close>

definition ipv4_header :: "ip_fields \<Rightarrow> u8 list \<Rightarrow> u8 list \<Rightarrow> u8 \<Rightarrow> u16 \<Rightarrow> u16 \<Rightarrow> u8 list" where
  "ipv4_header f src dst proto tlen cksum =
     [0x45, ip_tos_byte f] @ bytes16 (htons tlen) @ bytes16 (htons (ucast (ip_ident f)))
     @ bytes16 (htons (ip_off_word f)) @ [ucast (ip_hop_limit f), proto] @ bytes16 cksum
     @ src @ dst"

text \<open>A packet: the header with its checksum, then the payload.\<close>

definition ipv4_packet :: "ip_fields \<Rightarrow> u8 list \<Rightarrow> u8 list \<Rightarrow> u8 \<Rightarrow> u8 list \<Rightarrow> u8 list" where
  "ipv4_packet f src dst proto payload =
     (let tlen = of_nat (20 + length payload)
      in ipv4_header f src dst proto tlen
           (inet_cksum (ipv4_header f src dst proto tlen 0)) @ payload)"

definition pseudo_bytes :: "u8 list \<Rightarrow> u8 list \<Rightarrow> u8 \<Rightarrow> nat \<Rightarrow> u8 list" where
  "pseudo_bytes src dst proto len = src @ dst @ [0, proto] @ bytes16 (htons (of_nat len))"

definition udp_datagram :: "u8 list \<Rightarrow> u8 list \<Rightarrow> udp_fields \<Rightarrow> u8 list \<Rightarrow> u8 list" where
  "udp_datagram src dst u data =
     udp_segment u data (udp_cksum (inet_cksum
       (pseudo_bytes src dst 17 (length data + 8) @ udp_segment u data 0)))"

definition tcp_datagram :: "u8 list \<Rightarrow> u8 list \<Rightarrow> tcp_fields \<Rightarrow> u8 list \<Rightarrow> u8 \<Rightarrow> u8 list" where
  "tcp_datagram src dst t data x2 =
     tcp_segment t data x2 (inet_cksum
       (pseudo_bytes src dst 6 (length data + 20) @ tcp_segment t data x2 0))"

lemma length_ipv4_header [simp]:
  "length src = 4 \<Longrightarrow> length dst = 4 \<Longrightarrow> length (ipv4_header f src dst proto tlen c) = 20"
  by (simp add: ipv4_header_def)

lemma length_udp_datagram [simp]: "length (udp_datagram src dst u data) = length data + 8"
  by (simp add: udp_datagram_def)

lemma length_tcp_datagram [simp]: "length (tcp_datagram src dst t data x2) = length data + 20"
  by (simp add: tcp_datagram_def)

lemma length_ipv4_packet [simp]:
  "length src = 4 \<Longrightarrow> length dst = 4 \<Longrightarrow>
     length (ipv4_packet f src dst proto payload) = 20 + length payload"
  by (simp add: ipv4_packet_def Let_def)

section \<open>The network layer\<close>

text \<open>The header between \<open>set_transport\<close> and \<open>finish_ip\<close>: lengths in host order.\<close>

definition raw_header :: "ip_fields \<Rightarrow> u8 list \<Rightarrow> u8 list \<Rightarrow> u8 \<Rightarrow> u16 \<Rightarrow> u8 list \<Rightarrow> u8 list" where
  "raw_header f src dst proto tlen ck =
     [0x45, ip_tos_byte f] @ bytes16 tlen @ bytes16 (htons (ucast (ip_ident f)))
     @ bytes16 (ip_off_word f) @ [ucast (ip_hop_limit f), proto] @ ck @ src @ dst"

lemma set_proto_len_window:
  assumes "length w = 20" and "length src = 4" and "length dst = 4"
  shows "set_proto_len 4 (int (length pre)) proto n
       \<lparr>sbuf = pre @ set_ip_bytes f src dst w @ post, pending = e\<rparr> =
     Inr \<lparr>sbuf = pre @ raw_header f src dst proto (of_int n) (take 2 (drop 10 w)) @ post,
          pending = e\<rparr>"
proof -
  have len: "length (set_ip_bytes f src dst w) = 20"
    using assms by (simp add: set_ip_bytes_def)
  have ck: "take 2 (drop 10 w) = [w ! 10, w ! 11]"
    using assms(1) by (auto elim!: list_of_length_20)
  have "overlay 2 (bytes16 t) (overlay 9 [proto] (set_ip_bytes f src dst w)) =
      raw_header f src dst proto t (take 2 (drop 10 w))" for t
    using assms by (simp add: set_ip_bytes_def raw_header_def ck overlay_def bytes16_def)
  with len show ?thesis
    by (simp add: set_proto_len_def window)
qed

lemma finish_ip_window:
  assumes "length src = 4" and "length dst = 4" and "length ck = 2"
  shows "finish_ip (int (length pre))
       \<lparr>sbuf = pre @ raw_header f src dst proto tlen ck @ post, pending = e\<rparr> =
     Inr \<lparr>sbuf = pre @ ipv4_header f src dst proto tlen
            (inet_cksum (ipv4_header f src dst proto tlen 0)) @ post, pending = e\<rparr>"
proof -
  let ?w = "raw_header f src dst proto tlen ck"
  obtain c0 c1 where ck: "ck = [c0, c1]"
    using assms(3) by (auto simp: numeral_eq_Suc length_Suc_conv)
  have len: "length ?w = 20" using assms by (simp add: raw_header_def)
  have rd: "le16 (?w ! 2) (?w ! 3) = tlen"
    "le16 (overlay 2 x ?w ! 6) (overlay 2 x ?w ! 7) = ip_off_word f" if "length x = 2" for x
    using that by (auto simp: raw_header_def overlay_def bytes16_def numeral_eq_Suc length_Suc_conv)
  have swap: "overlay 10 (bytes16 c) (overlay 6 (bytes16 (htons (ip_off_word f)))
      (overlay 2 (bytes16 (htons tlen)) ?w)) = ipv4_header f src dst proto tlen c" for c
    by (simp add: raw_header_def ipv4_header_def overlay_def bytes16_def ck)
  have again: "overlay 10 (bytes16 c) (ipv4_header f src dst proto tlen c') =
      ipv4_header f src dst proto tlen c" for c c'
    by (simp add: ipv4_header_def overlay_def bytes16_def)
  have sum: "in_cksum (pre @ ipv4_header f src dst proto tlen 0 @ post) (int (length pre)) 20 =
      Inr (inet_cksum (ipv4_header f src dst proto tlen 0))"
    using in_cksum_inet [of "ipv4_header f src dst proto tlen 0" pre post] assms by simp
  show ?thesis
    using len assms
    by (simp add: finish_ip_def window rd swap sum again)
qed

section \<open>The transport layer\<close>

lemma pseudo_header_raw:
  assumes "length src = 4" and "length dst = 4" and "length ck = 2"
  shows "pseudo_header (raw_header f src dst proto tlen ck) (htons (of_nat n)) =
     pseudo_bytes src dst proto n"
proof -
  obtain c0 c1 where ck: "ck = [c0, c1]"
    using assms(3) by (auto simp: numeral_eq_Suc length_Suc_conv)
  show ?thesis
    using assms(1,2)
    by (simp add: ck pseudo_header_def pseudo_bytes_def raw_header_def bytes16_def nth_append)
qed

lemma transport_cksum:
  assumes "length src = 4" and "length dst = 4" and "length ck = 2" and "length seg \<le> 65535"
  shows "in_cksum2 (pre @ raw_header f src dst proto tlen ck @ seg @ post) (int (length pre))
       (htons (of_nat (length seg))) (int (length pre) + 20) (int (length seg)) =
     Inr (inet_cksum (pseudo_bytes src dst proto (length seg) @ seg))"
proof -
  have "length (raw_header f src dst proto tlen ck) = 20"
    using assms by (simp add: raw_header_def)
  from in_cksum2_inet [OF this assms(4)] show ?thesis
    using assms by (simp add: pseudo_header_raw)
qed

lemma set_transport_udp:
  assumes cls: "pk_class packet = UDPPacketC" and data: "pk_data packet = Some data"
    and "length data \<le> 1572" and "length src = 4" and "length dst = 4"
    and iw: "length iw = 20" and "length uw = length data + 8"
  shows "set_transport packet 4 (int (length pre)) (int (length pre) + 20) (20 + int (length data))
       \<lparr>sbuf = pre @ set_ip_bytes f src dst iw @ uw @ post, pending = e\<rparr> =
     Inr (28 + int (length data),
       \<lparr>sbuf = pre @ raw_header f src dst 17 (of_nat (28 + length data)) (take 2 (drop 10 iw))
              @ udp_datagram src dst (pk_udp packet) data @ post, pending = e\<rparr>)"
proof -
  let ?ck = "take 2 (drop 10 iw)"
  let ?h = "raw_header f src dst 17 (of_nat (28 + length data)) ?ck"
  have ck: "length ?ck = 2" using iw by simp
  have len: "length (pre @ ?h) = length pre + 20" using assms ck by (simp add: raw_header_def)
  have "in_cksum2 ((pre @ ?h) @ udp_segment (pk_udp packet) data 0 @ post) (int (length pre))
      (htons (of_nat (length data + 8))) (int (length (pre @ ?h))) (int (length data + 8)) =
      Inr (inet_cksum (pseudo_bytes src dst 17 (length data + 8)
        @ udp_segment (pk_udp packet) data 0))"
    unfolding len
    using transport_cksum [of src dst ?ck "udp_segment (pk_udp packet) data 0" pre f 17
        "of_nat (28 + length data)" post] assms ck by simp
  from set_udp_window [OF assms(7,3) this, of e] len
  have udp: "set_udp (pk_udp packet) (int (length pre) + 20) (Some data) (int (length pre))
      \<lparr>sbuf = pre @ ?h @ uw @ post, pending = e\<rparr> =
      Inr \<lparr>sbuf = pre @ ?h @ udp_datagram src dst (pk_udp packet) data @ post, pending = e\<rparr>"
    by (simp add: udp_datagram_def)
  show ?thesis
    using set_proto_len_window [of iw src dst pre 17 "28 + int (length data)" f "uw @ post" e] assms udp
    by (simp add: set_transport_def IsInstanceOf_def layout add.commute)
qed

lemma set_transport_tcp:
  assumes cls: "pk_class packet = TCPPacketC" and data: "pk_data packet = Some data"
    and "length data \<le> 1560" and "length src = 4" and "length dst = 4"
    and iw: "length iw = 20" and "length tw = length data + 20"
  shows "set_transport packet 4 (int (length pre)) (int (length pre) + 20) (20 + int (length data))
       \<lparr>sbuf = pre @ set_ip_bytes f src dst iw @ tw @ post, pending = e\<rparr> =
     Inr (40 + int (length data),
       \<lparr>sbuf = pre @ raw_header f src dst 6 (of_nat (40 + length data)) (take 2 (drop 10 iw))
              @ tcp_datagram src dst (pk_tcp packet) data (tw ! 12) @ post, pending = e\<rparr>)"
proof -
  let ?ck = "take 2 (drop 10 iw)"
  let ?h = "raw_header f src dst 6 (of_nat (40 + length data)) ?ck"
  have ck: "length ?ck = 2" using iw by simp
  have len: "length (pre @ ?h) = length pre + 20" using assms ck by (simp add: raw_header_def)
  have "in_cksum2 ((pre @ ?h) @ tcp_segment (pk_tcp packet) data (tw ! 12) 0 @ post)
      (int (length pre)) (htons (of_nat (length data + 20))) (int (length (pre @ ?h)))
      (int (length data + 20)) =
      Inr (inet_cksum (pseudo_bytes src dst 6 (length data + 20)
        @ tcp_segment (pk_tcp packet) data (tw ! 12) 0))"
    unfolding len
    using transport_cksum [of src dst ?ck "tcp_segment (pk_tcp packet) data (tw ! 12) 0" pre f 6
        "of_nat (40 + length data)" post] assms ck by simp
  from set_tcp_window [OF assms(7,3) this, of e] len
  have tcp: "set_tcp (pk_tcp packet) (int (length pre) + 20) (Some data) (int (length pre))
      \<lparr>sbuf = pre @ ?h @ tw @ post, pending = e\<rparr> =
      Inr \<lparr>sbuf = pre @ ?h @ tcp_datagram src dst (pk_tcp packet) data (tw ! 12) @ post,
           pending = e\<rparr>"
    by (simp add: tcp_datagram_def)
  show ?thesis
    using set_proto_len_window [of iw src dst pre 6 "40 + int (length data)" f "tw @ post" e] assms tcp
    by (simp add: set_transport_def IsInstanceOf_def layout add.commute)
qed

definition icmp_echo_message :: "icmp_fields \<Rightarrow> u8 list \<Rightarrow> u8 list" where
  "icmp_echo_message f data = icmp_echo f data (inet_cksum (icmp_echo f data 0))"

lemma length_icmp_echo_message [simp]: "length (icmp_echo_message f data) = length data + 8"
  by (simp add: icmp_echo_message_def)

lemma set_transport_icmp_echo:
  assumes cls: "pk_class packet = ICMPPacketC" and data: "pk_data packet = Some data"
    and "even (length data)" and "length data \<le> 65535" and "length src = 4" and "length dst = 4"
    and type: "icmp_type (pk_icmp packet) = ICMP_ECHO \<or> icmp_type (pk_icmp packet) = ICMP_ECHOREPLY"
    and iw: "length iw = 20" and mw: "length mw = length data + 8"
  shows "set_transport packet 4 (int (length pre)) (int (length pre) + 20) (20 + int (length data))
       \<lparr>sbuf = pre @ set_ip_bytes f src dst iw @ mw @ post, pending = e\<rparr> =
     Inr (28 + int (length data),
       \<lparr>sbuf = pre @ raw_header f src dst 1 (of_nat (28 + length data)) (take 2 (drop 10 iw))
              @ icmp_echo_message (pk_icmp packet) data @ post, pending = e\<rparr>)"
proof -
  let ?h = "set_ip_bytes f src dst iw"
  have len: "length (pre @ ?h) = length pre + 20" using assms by (simp add: set_ip_bytes_def)
  have "in_cksum ((pre @ ?h) @ icmp_echo (pk_icmp packet) data 0 @ post)
      (int (length (pre @ ?h))) (8 + int (length data)) =
      Inr (inet_cksum (icmp_echo (pk_icmp packet) data 0))"
    using in_cksum_inet [of "icmp_echo (pk_icmp packet) data 0" "pre @ ?h" post] assms(3,4)
    by (simp add: add.commute)
  from set_icmp_echo_window [OF type mw this, of e] len
  have icmp: "set_icmp (pk_icmp packet) (int (length pre) + 20) (Some data)
      \<lparr>sbuf = pre @ ?h @ mw @ post, pending = e\<rparr> =
      Inr (8, \<lparr>sbuf = pre @ ?h @ icmp_echo_message (pk_icmp packet) data @ post, pending = e\<rparr>)"
    by (simp add: icmp_echo_message_def)
  show ?thesis
    using set_proto_len_window [of iw src dst pre 1 "28 + int (length data)" f
        "icmp_echo_message (pk_icmp packet) data @ post" e] assms icmp
    by (simp add: set_transport_def IsInstanceOf_def IPPROTO_ICMP_def add.commute)
qed

text \<open>An IP packet of no known transport class carries its data as it is.\<close>

lemma set_transport_other:
  assumes cls: "pk_class packet = IPPacketC" and data: "pk_data packet = Some data"
    and "length src = 4" and "length dst = 4" and iw: "length iw = 20" and "length dw = length data"
  shows "set_transport packet 4 (int (length pre)) (int (length pre) + 20) (20 + int (length data))
       \<lparr>sbuf = pre @ set_ip_bytes f src dst iw @ dw @ post, pending = e\<rparr> =
     Inr (20 + int (length data),
       \<lparr>sbuf = pre @ raw_header f src dst (ucast (ip_protocol (pk_ip packet)))
                (of_nat (20 + length data)) (take 2 (drop 10 iw)) @ data @ post, pending = e\<rparr>)"
proof -
  let ?p = "ucast (ip_protocol (pk_ip packet)) :: u8"
  let ?h = "raw_header f src dst ?p (of_nat (20 + length data)) (take 2 (drop 10 iw))"
  have len: "length (pre @ ?h) = length pre + 20" using assms by (simp add: raw_header_def)
  have body: "put_bytes (int (length pre) + 20) data \<lparr>sbuf = pre @ ?h @ dw @ post, pending = e\<rparr> =
      Inr \<lparr>sbuf = pre @ ?h @ data @ post, pending = e\<rparr>"
    using put_bytes_at(1) [of data dw "pre @ ?h" post e] assms(6) len
    by (simp add: overlay_def add.commute)
  have "bindr (put8 (int (length pre) + 9) ?p
        \<lparr>sbuf = pre @ set_ip_bytes f src dst iw @ dw @ post, pending = e\<rparr>)
        (put16 (int (length pre) + 2) (of_int (20 + int (length data)))) =
      Inr \<lparr>sbuf = pre @ ?h @ dw @ post, pending = e\<rparr>"
    using set_proto_len_window [of iw src dst pre ?p "20 + int (length data)" f "dw @ post" e] assms
    by (simp add: set_proto_len_def)
  then obtain t where p: "put8 (int (length pre) + 9) ?p
        \<lparr>sbuf = pre @ set_ip_bytes f src dst iw @ dw @ post, pending = e\<rparr> = Inr t"
    and t: "put16 (int (length pre) + 2) (of_int (20 + int (length data))) t =
      Inr \<lparr>sbuf = pre @ ?h @ dw @ post, pending = e\<rparr>"
    by (auto simp: bindr_Inr_iff)
  show ?thesis
    using p t body assms
    by (simp add: set_transport_def IsInstanceOf_def layout region_ok)
qed

section \<open>The whole frame\<close>

lemma set_packet_datalink:
  "set_packet packet pointer True s =
     bindr (set_ether (pk_datalink packet) pointer s) (\<lambda>(dthlen, s).
     bindr (set_packet packet (pointer + dthlen) False s) (\<lambda>(n, s). Inr (n + dthlen, s)))"
  by (simp add: set_packet_def)

lemma set_packet_ipv4:
  assumes "IsInstanceOf packet IPPacketC" and "ip_version (pk_ip packet) = 4"
    and "getSourceAddress (pk_ip packet) = Some src" and "length src = 4"
    and "getDestinationAddress (pk_ip packet) = Some dst" and "length dst = 4"
    and "pk_data packet = Some data" and "length iw = 20" and "length ck = 2"
    and transport: "set_transport packet 4 (int (length pre)) (int (length pre) + 20)
      (20 + int (length data))
      \<lparr>sbuf = pre @ set_ip_bytes (pk_ip packet) src dst iw @ rest, pending = e\<rparr> =
      Inr (n, \<lparr>sbuf = pre @ raw_header (pk_ip packet) src dst proto tlen ck @ rest', pending = e\<rparr>)"
  shows "set_packet packet (int (length pre)) False \<lparr>sbuf = pre @ iw @ rest, pending = e\<rparr> =
     Inr (n, \<lparr>sbuf = pre @ ipv4_header (pk_ip packet) src dst proto tlen
        (inet_cksum (ipv4_header (pk_ip packet) src dst proto tlen 0)) @ rest', pending = e\<rparr>)"
  using assms finish_ip_window [of src dst ck pre "pk_ip packet" proto tlen rest' e]
    set_ip_window [of iw "pk_ip packet" src dst pre rest e]
  by (simp add: set_packet_def set_layers_def set_ip_packet_def IPv4HDRLEN_def add.commute)

text \<open>
  An IPv4 packet with all that the code needs to build its frame: Ethernet addresses of six
  bytes, IPv4 addresses, a data array.
\<close>

definition sendable ::
  "jpacket \<Rightarrow> u8 list \<Rightarrow> u8 list \<Rightarrow> u16 \<Rightarrow> u8 list \<Rightarrow> u8 list \<Rightarrow> u8 list \<Rightarrow> bool" where
  "sendable packet dmac smac type src dst data \<longleftrightarrow>
     pk_datalink packet = Some (EthernetPacket
       \<lparr>eth_dst_mac = Some dmac, eth_src_mac = Some smac, eth_frametype = type\<rparr>) \<and>
     length dmac = 6 \<and> length smac = 6 \<and>
     ip_version (pk_ip packet) = 4 \<and>
     ip_src_ip (pk_ip packet) = Some (Inet4 src) \<and> length src = 4 \<and>
     ip_dst_ip (pk_ip packet) = Some (Inet4 dst) \<and> length dst = 4 \<and>
     pk_data packet = Some data"

lemma length_ether_bytes [simp]:
  "length dmac = 6 \<Longrightarrow> length smac = 6 \<Longrightarrow> length (ether_bytes dmac smac type) = 14"
  by (simp add: ether_bytes_def)

lemma set_packet_ether_ipv4:
  assumes ready: "sendable packet dmac smac type src dst data"
    and ip: "IsInstanceOf packet IPPacketC"
    and ew: "length ew = 14" and iw: "length iw = 20" and "length ck = 2"
    and transport: "\<And>pre e. length pre = length pre0 + 14 \<Longrightarrow>
      set_transport packet 4 (int (length pre)) (int (length pre) + 20) (20 + int (length data))
      \<lparr>sbuf = pre @ set_ip_bytes (pk_ip packet) src dst iw @ rest, pending = e\<rparr> =
      Inr (n, \<lparr>sbuf = pre @ raw_header (pk_ip packet) src dst proto tlen ck @ rest', pending = e\<rparr>)"
  shows "set_packet packet (int (length pre0)) True
       \<lparr>sbuf = pre0 @ ew @ iw @ rest, pending = e\<rparr> =
     Inr (n + 14, \<lparr>sbuf = pre0 @ ether_bytes dmac smac type
        @ ipv4_header (pk_ip packet) src dst proto tlen
            (inet_cksum (ipv4_header (pk_ip packet) src dst proto tlen 0)) @ rest',
        pending = None\<rparr>)"
proof -
  let ?pre = "pre0 @ ether_bytes dmac smac type"
  have len: "length ?pre = length pre0 + 14"
    using ready by (simp add: sendable_def)
  have ether: "set_ether (pk_datalink packet) (int (length pre0))
      \<lparr>sbuf = pre0 @ ew @ iw @ rest, pending = e\<rparr> =
      Inr (14, \<lparr>sbuf = ?pre @ iw @ rest, pending = None\<rparr>)"
    using ready set_ether_window [OF ew, of "\<lparr>eth_dst_mac = Some dmac, eth_src_mac = Some smac,
        eth_frametype = type\<rparr>" smac dmac pre0 "iw @ rest" e]
    by (simp add: sendable_def)
  have "set_packet packet (int (length ?pre)) False \<lparr>sbuf = ?pre @ iw @ rest, pending = None\<rparr> =
      Inr (n, \<lparr>sbuf = ?pre @ ipv4_header (pk_ip packet) src dst proto tlen
        (inet_cksum (ipv4_header (pk_ip packet) src dst proto tlen 0)) @ rest', pending = None\<rparr>)"
    using ready ip iw assms(5) transport [OF len]
    by (intro set_packet_ipv4)
       (simp_all add: sendable_def getSourceAddress_def getDestinationAddress_def)
  then show ?thesis
    using ether len by (simp add: set_packet_datalink add.commute)
qed

text \<open>Padding to the least size of an Ethernet frame.\<close>

definition pad60 :: "u8 list \<Rightarrow> u8 list" where
  "pad60 frame = frame @ replicate (60 - length frame) 0"

lemma bytes_sent_pad60:
  assumes built: "set_packet packet 0 True \<lparr>sbuf = buf, pending = None\<rparr> =
      Inr (int (length frame), \<lparr>sbuf = frame @ post, pending = e\<rparr>)"
    and room: "61 \<le> length frame + length post"
  shows "bytes_sent buf packet = Inr (pad60 frame)"
proof (cases "length frame < 60")
  case True
  let ?z = "replicate (61 - length frame) (0 :: u8)"
  have n: "nat (61 - int (length frame)) = 61 - length frame"
    using True by linarith
  have "put_bytes (int (length frame)) ?z \<lparr>sbuf = frame @ post, pending = e\<rparr> =
      Inr \<lparr>sbuf = frame @ overlay 0 ?z post, pending = e\<rparr>"
    using put_bytes_at(1) [of ?z post frame "[]" e] room True by simp
  moreover have "take 60 (frame @ overlay 0 ?z post) = pad60 frame"
    using True by (simp add: pad60_def overlay_def min_def)
  moreover have "in_range (frame @ overlay 0 ?z post) 0 60"
    using room True by (simp add: in_range_def overlay_def)
  ultimately show ?thesis
    using True built by (simp add: bytes_sent_def build_frame_def n rd_bytes_def)
next
  case False
  then show ?thesis
    using built by (simp add: bytes_sent_def build_frame_def rd_bytes_def in_range_def pad60_def)
qed

lemma frame_buffer_split:
  assumes "length (buf :: 'a list) = 1600" and "n \<le> 1566"
  obtains ew iw tw post where "buf = ew @ iw @ tw @ post" and "length ew = 14"
    and "length iw = 20" and "length tw = n" and "length post = 1566 - n"
proof -
  have "14 + 20 \<le> length buf" using assms(1) by simp
  then obtain ew iw rest where b: "buf = ew @ iw @ rest" and len: "length ew = 14" "length iw = 20"
    by (rule window_split)
  moreover have "length rest = 1566" using assms(1) len by (simp add: b)
  ultimately show ?thesis
    using that [of ew iw "take n rest" "drop n rest"] assms(2) by simp
qed

lemma sent_ipv4:
  assumes ready: "sendable packet dmac smac type src dst data"
    and ip: "IsInstanceOf packet IPPacketC"
    and buf: "length buf = 1600" and n: "length payload \<le> 1566"
    and transport: "\<And>pre e iw post. length iw = 20 \<Longrightarrow>
      set_transport packet 4 (int (length pre)) (int (length pre) + 20) (20 + int (length data))
      \<lparr>sbuf = pre @ set_ip_bytes (pk_ip packet) src dst iw
        @ take (length payload) (drop 34 buf) @ post, pending = e\<rparr> =
      Inr (20 + int (length payload), \<lparr>sbuf = pre @ raw_header (pk_ip packet) src dst proto
        (of_nat (20 + length payload)) (take 2 (drop 10 iw)) @ payload @ post, pending = e\<rparr>)"
  shows "bytes_sent buf packet =
     Inr (pad60 (ether_bytes dmac smac type @ ipv4_packet (pk_ip packet) src dst proto payload))"
proof -
  obtain ew iw tw post where b: "buf = ew @ iw @ tw @ post" and len: "length ew = 14"
    "length iw = 20" "length tw = length payload" "length post = 1566 - length payload"
    using frame_buffer_split [OF buf n] by metis
  have tw: "take (length payload) (drop 34 buf) = tw" using len by (simp add: b)
  have sz: "length src = 4" "length dst = 4" "length dmac = 6" "length smac = 6"
    using ready by (simp_all add: sendable_def)
  have "set_packet packet (int (length ([] :: u8 list))) True
      \<lparr>sbuf = [] @ ew @ iw @ tw @ post, pending = None\<rparr> =
      Inr (20 + int (length payload) + 14, \<lparr>sbuf = [] @ ether_bytes dmac smac type
        @ ipv4_header (pk_ip packet) src dst proto (of_nat (20 + length payload))
            (inet_cksum (ipv4_header (pk_ip packet) src dst proto (of_nat (20 + length payload)) 0))
        @ payload @ post, pending = None\<rparr>)"
    by (rule set_packet_ether_ipv4 [OF ready ip len(1,2) _ transport [unfolded tw, OF len(2)]])
       (simp add: len)
  then have "set_packet packet 0 True \<lparr>sbuf = buf, pending = None\<rparr> =
      Inr (int (length (ether_bytes dmac smac type
          @ ipv4_packet (pk_ip packet) src dst proto payload)),
        \<lparr>sbuf = (ether_bytes dmac smac type
          @ ipv4_packet (pk_ip packet) src dst proto payload) @ post, pending = None\<rparr>)"
    using sz by (simp add: b ipv4_packet_def Let_def)
  then show ?thesis
    by (rule bytes_sent_pad60) (use len n sz in simp)
qed

section \<open>The frames the code builds\<close>

lemma udp_frame_bytes:
  assumes "sendable packet dmac smac type src dst data" and "pk_class packet = UDPPacketC"
    and "length data \<le> 1558" and "length buf = 1600"
  shows "bytes_sent buf packet =
     Inr (pad60 (ether_bytes dmac smac type @ ipv4_packet (pk_ip packet) src dst 17
       (udp_datagram src dst (pk_udp packet) data)))"
proof (rule sent_ipv4 [OF assms(1)])
  fix pre e iw post assume iw: "length (iw :: u8 list) = 20"
  have "length (take (length data + 8) (drop 34 buf)) = length data + 8" using assms by simp
  then show "set_transport packet 4 (int (length pre)) (int (length pre) + 20)
      (20 + int (length data)) \<lparr>sbuf = pre @ set_ip_bytes (pk_ip packet) src dst iw
        @ take (length (udp_datagram src dst (pk_udp packet) data)) (drop 34 buf) @ post,
        pending = e\<rparr> =
      Inr (20 + int (length (udp_datagram src dst (pk_udp packet) data)),
        \<lparr>sbuf = pre @ raw_header (pk_ip packet) src dst 17
          (of_nat (20 + length (udp_datagram src dst (pk_udp packet) data)))
          (take 2 (drop 10 iw)) @ udp_datagram src dst (pk_udp packet) data @ post, pending = e\<rparr>)"
    using set_transport_udp [of packet data src dst iw "take (length data + 8) (drop 34 buf)" pre
        "pk_ip packet" post e] assms iw
    by (simp add: sendable_def algebra_simps)
qed (use assms in \<open>simp_all add: IsInstanceOf_def\<close>)

lemma tcp_frame_bytes:
  assumes "sendable packet dmac smac type src dst data" and "pk_class packet = TCPPacketC"
    and "length data \<le> 1546" and "length buf = 1600"
  shows "bytes_sent buf packet =
     Inr (pad60 (ether_bytes dmac smac type @ ipv4_packet (pk_ip packet) src dst 6
       (tcp_datagram src dst (pk_tcp packet) data (buf ! 46))))"
proof (rule sent_ipv4 [OF assms(1)])
  fix pre e iw post assume iw: "length (iw :: u8 list) = 20"
  have "length (take (length data + 20) (drop 34 buf)) = length data + 20" using assms by simp
  moreover have "take (length data + 20) (drop 34 buf) ! 12 = buf ! 46" using assms by simp
  ultimately show "set_transport packet 4 (int (length pre)) (int (length pre) + 20)
      (20 + int (length data)) \<lparr>sbuf = pre @ set_ip_bytes (pk_ip packet) src dst iw
        @ take (length (tcp_datagram src dst (pk_tcp packet) data (buf ! 46))) (drop 34 buf) @ post,
        pending = e\<rparr> =
      Inr (20 + int (length (tcp_datagram src dst (pk_tcp packet) data (buf ! 46))),
        \<lparr>sbuf = pre @ raw_header (pk_ip packet) src dst 6
          (of_nat (20 + length (tcp_datagram src dst (pk_tcp packet) data (buf ! 46))))
          (take 2 (drop 10 iw)) @ tcp_datagram src dst (pk_tcp packet) data (buf ! 46) @ post,
          pending = e\<rparr>)"
    using set_transport_tcp [of packet data src dst iw "take (length data + 20) (drop 34 buf)" pre
        "pk_ip packet" post e] assms iw
    by (simp add: sendable_def algebra_simps)
qed (use assms in \<open>simp_all add: IsInstanceOf_def\<close>)

lemma icmp_echo_frame_bytes:
  assumes "sendable packet dmac smac type src dst data" and "pk_class packet = ICMPPacketC"
    and "icmp_type (pk_icmp packet) = ICMP_ECHO \<or> icmp_type (pk_icmp packet) = ICMP_ECHOREPLY"
    and "even (length data)" and "length data \<le> 1558" and "length buf = 1600"
  shows "bytes_sent buf packet =
     Inr (pad60 (ether_bytes dmac smac type @ ipv4_packet (pk_ip packet) src dst 1
       (icmp_echo_message (pk_icmp packet) data)))"
proof (rule sent_ipv4 [OF assms(1)])
  fix pre e iw post assume iw: "length (iw :: u8 list) = 20"
  have "length (take (length data + 8) (drop 34 buf)) = length data + 8" using assms by simp
  then show "set_transport packet 4 (int (length pre)) (int (length pre) + 20)
      (20 + int (length data)) \<lparr>sbuf = pre @ set_ip_bytes (pk_ip packet) src dst iw
        @ take (length (icmp_echo_message (pk_icmp packet) data)) (drop 34 buf) @ post,
        pending = e\<rparr> =
      Inr (20 + int (length (icmp_echo_message (pk_icmp packet) data)),
        \<lparr>sbuf = pre @ raw_header (pk_ip packet) src dst 1
          (of_nat (20 + length (icmp_echo_message (pk_icmp packet) data)))
          (take 2 (drop 10 iw)) @ icmp_echo_message (pk_icmp packet) data @ post, pending = e\<rparr>)"
    using set_transport_icmp_echo [of packet data src dst iw
        "take (length data + 8) (drop 34 buf)" pre "pk_ip packet" post e] assms iw
    by (simp add: sendable_def algebra_simps)
qed (use assms in \<open>simp_all add: IsInstanceOf_def\<close>)

text \<open>An ARP packet for Ethernet and IPv4.\<close>

definition sendable_arp ::
  "jpacket \<Rightarrow> u8 list \<Rightarrow> u8 list \<Rightarrow> u16 \<Rightarrow> u8 list \<Rightarrow> u8 list \<Rightarrow> u8 list \<Rightarrow> u8 list \<Rightarrow> bool" where
  "sendable_arp packet dmac smac type sha spa tha tpa \<longleftrightarrow>
     pk_class packet = ARPPacketC \<and>
     pk_datalink packet = Some (EthernetPacket
       \<lparr>eth_dst_mac = Some dmac, eth_src_mac = Some smac, eth_frametype = type\<rparr>) \<and>
     length dmac = 6 \<and> length smac = 6 \<and>
     arp_hlen (pk_arp packet) = 6 \<and> arp_plen (pk_arp packet) = 4 \<and>
     arp_sender_hardaddr (pk_arp packet) = Some sha \<and> length sha = 6 \<and>
     arp_sender_protoaddr (pk_arp packet) = Some spa \<and> length spa = 4 \<and>
     arp_target_hardaddr (pk_arp packet) = Some tha \<and> length tha = 6 \<and>
     arp_target_protoaddr (pk_arp packet) = Some tpa \<and> length tpa = 4"

lemma set_packet_arp:
  assumes ready: "sendable_arp packet dmac smac type sha spa tha tpa"
    and ew: "length ew = 14" and aw: "length aw = 28"
  shows "set_packet packet 0 True \<lparr>sbuf = ew @ aw @ post, pending = e\<rparr> =
     Inr (42 + int (case pk_data packet of None \<Rightarrow> 0 | Some bs \<Rightarrow> length bs),
       \<lparr>sbuf = ether_bytes dmac smac type @ arp_bytes (pk_arp packet) sha spa tha tpa @ post,
        pending = None\<rparr>)"
proof -
  have len: "length (ether_bytes dmac smac type) = 14"
    using ready by (simp add: sendable_arp_def)
  have ether: "set_ether (pk_datalink packet) 0 \<lparr>sbuf = ew @ aw @ post, pending = e\<rparr> =
      Inr (14, \<lparr>sbuf = ether_bytes dmac smac type @ aw @ post, pending = None\<rparr>)"
    using ready set_ether_window [OF ew, of "\<lparr>eth_dst_mac = Some dmac, eth_src_mac = Some smac,
        eth_frametype = type\<rparr>" smac dmac "[]" "aw @ post" e]
    by (simp add: sendable_arp_def)
  have arp: "set_arp (pk_arp packet) 14
      \<lparr>sbuf = ether_bytes dmac smac type @ aw @ post, pending = None\<rparr> =
      Inr (28, \<lparr>sbuf = ether_bytes dmac smac type @ arp_bytes (pk_arp packet) sha spa tha tpa @ post,
        pending = None\<rparr>)"
    using ready set_arp_window [OF aw, of "pk_arp packet" sha spa tha tpa
        "ether_bytes dmac smac type" post None] len
    by (simp add: sendable_arp_def)
  show ?thesis
    using ready ether arp
    by (simp add: set_packet_def set_layers_def sendable_arp_def IsInstanceOf_def split: option.split)
qed

lemma arp_frame_bytes:
  assumes ready: "sendable_arp packet dmac smac type sha spa tha tpa"
    and "pk_data packet = None" and buf: "length buf = 1600"
  shows "bytes_sent buf packet =
     Inr (pad60 (ether_bytes dmac smac type @ arp_bytes (pk_arp packet) sha spa tha tpa))"
proof -
  have "14 + 28 \<le> length buf" using buf by simp
  then obtain ew aw post where b: "buf = ew @ aw @ post" and len: "length ew = 14" "length aw = 28"
    by (rule window_split)
  have sz: "length dmac = 6" "length smac = 6" "length sha = 6" "length spa = 4"
    "length tha = 6" "length tpa = 4"
    using ready by (simp_all add: sendable_arp_def)
  show ?thesis
    using set_packet_arp [OF ready len, of post None] b buf len sz assms(2)
    by (intro bytes_sent_pad60 [where post = post and e = None]) (simp_all add: arp_bytes_def)
qed

section \<open>Payloads that do not fit\<close>

lemma set_transport_udp_overflow:
  assumes cls: "pk_class packet = UDPPacketC" and data: "pk_data packet = Some data"
    and sz: "length src = 4" "length dst = 4" "length iw = 20" "length uw = 8"
    and room: "length post < min 1572 (length data)"
  shows "set_transport packet 4 (int (length pre)) (int (length pre) + 20) (20 + int (length data))
       \<lparr>sbuf = pre @ set_ip_bytes f src dst iw @ uw @ post, pending = e\<rparr> =
     Inl (OutOfBounds (int (length pre) + 28))"
proof -
  let ?h = "raw_header f src dst 17 (of_nat (28 + length data)) (take 2 (drop 10 iw))"
  have len: "int (length (pre @ ?h)) = int (length pre) + 20" using sz by (simp add: raw_header_def)
  have "set_udp (pk_udp packet) (int (length (pre @ ?h))) (Some data) (int (length pre))
      \<lparr>sbuf = (pre @ ?h) @ uw @ post, pending = e\<rparr> = Inl (OutOfBounds (int (length (pre @ ?h)) + 8))"
    by (rule set_udp_overflow [OF sz(4) room])
  then show ?thesis
    unfolding len
    using set_proto_len_window [of iw src dst pre 17 "28 + int (length data)" f "uw @ post" e] assms
    by (simp add: set_transport_def IsInstanceOf_def layout add.commute)
qed

text \<open>
  C31. The length clamp of set_udp leaves room for the IP and UDP headers but not for the link
  header: every UDP packet of more than 1558 data bytes is written past the end of the 1600-byte
  stack array.
\<close>

theorem udp_oversize_overflows:
  assumes ready: "sendable packet dmac smac type src dst data"
    and cls: "pk_class packet = UDPPacketC"
    and big: "1558 < length data" and buf: "length buf = 1600"
  shows "bytes_sent buf packet = Inl (OutOfBounds 42)"
proof -
  obtain ew iw uw post where b: "buf = ew @ iw @ uw @ post" and len: "length ew = 14"
    "length iw = 20" "length uw = 8" "length post = 1558"
    by (rule frame_buffer_split [OF buf, of 8]) simp_all
  let ?e = "ether_bytes dmac smac type"
  have sz: "length src = 4" "length dst = 4" "length ?e = 14"
    using ready by (simp_all add: sendable_def)
  have ether: "set_ether (pk_datalink packet) 0 \<lparr>sbuf = buf, pending = None\<rparr> =
      Inr (14, \<lparr>sbuf = ?e @ iw @ uw @ post, pending = None\<rparr>)"
    using ready set_ether_window [OF len(1), of "\<lparr>eth_dst_mac = Some dmac, eth_src_mac = Some smac,
        eth_frametype = type\<rparr>" smac dmac "[]" "iw @ uw @ post" None]
    by (simp add: sendable_def b)
  have ip: "set_ip (pk_ip packet) 14 \<lparr>sbuf = ?e @ iw @ uw @ post, pending = None\<rparr> =
      Inr \<lparr>sbuf = ?e @ set_ip_bytes (pk_ip packet) src dst iw @ uw @ post, pending = None\<rparr>"
    using ready set_ip_window [OF len(2), of "pk_ip packet" src dst ?e "uw @ post" None]
    by (simp add: sendable_def getSourceAddress_def getDestinationAddress_def)
  have "length post < min 1572 (length data)" using len(4) big by simp
  moreover have "pk_data packet = Some data" using ready by (simp add: sendable_def)
  ultimately have "set_transport packet 4 14 34 (20 + int (length data))
      \<lparr>sbuf = ?e @ set_ip_bytes (pk_ip packet) src dst iw @ uw @ post, pending = None\<rparr> =
      Inl (OutOfBounds 42)"
    using set_transport_udp_overflow [OF cls, of data src dst iw uw post ?e "pk_ip packet" None] sz len
    by simp
  then show ?thesis
    using ready cls ether ip
    by (simp add: bytes_sent_def build_frame_def set_packet_def set_layers_def set_ip_packet_def
        sendable_def IsInstanceOf_def IPv4HDRLEN_def add.commute)
qed

section \<open>What goes on the wire\<close>

text \<open>
  C3. Sending a UDP packet of up to 1558 data bytes hands pcap_sendpacket exactly the Ethernet
  header, an IPv4 header with a correct RFC 1071 checksum and a UDP datagram whose checksum
  covers the pseudo header, padded to 60 bytes, whatever the uninitialised stack buffer held.
\<close>

theorem udp_frame_sent:
  assumes "sendable packet dmac smac type src dst data" and "pk_class packet = UDPPacketC"
    and "length data \<le> 1558" and "length buf = 1600"
  shows "bytes_sent buf packet =
     Inr (pad60 (ether_bytes dmac smac type @ ipv4_packet (pk_ip packet) src dst 17
       (udp_datagram src dst (pk_udp packet) data)))"
  by (rule udp_frame_bytes [OF assms])

text \<open>
  C4. Sending a TCP packet of up to 1546 data bytes hands pcap_sendpacket the Ethernet header,
  the IPv4 header and a TCP segment with correct checksums; the only byte of the frame that
  depends on the uninitialised buffer is the one holding th_x2 (buf ! 46).
\<close>

theorem tcp_frame_sent:
  assumes "sendable packet dmac smac type src dst data" and "pk_class packet = TCPPacketC"
    and "length data \<le> 1546" and "length buf = 1600"
  shows "bytes_sent buf packet =
     Inr (pad60 (ether_bytes dmac smac type @ ipv4_packet (pk_ip packet) src dst 6
       (tcp_datagram src dst (pk_tcp packet) data (buf ! 46))))"
  by (rule tcp_frame_bytes [OF assms])

text \<open>
  C25. Sending an ICMP echo or echo reply over IPv4 with an even number of data bytes, at most
  1558, hands pcap_sendpacket the Ethernet header, the IPv4 header and the ICMP message with its
  RFC 1071 checksum, padded to 60 bytes, whatever the uninitialised stack buffer held.
\<close>

theorem icmp_echo_frame_sent:
  assumes "sendable packet dmac smac type src dst data" and "pk_class packet = ICMPPacketC"
    and "icmp_type (pk_icmp packet) = ICMP_ECHO \<or> icmp_type (pk_icmp packet) = ICMP_ECHOREPLY"
    and "even (length data)" and "length data \<le> 1558" and "length buf = 1600"
  shows "bytes_sent buf packet =
     Inr (pad60 (ether_bytes dmac smac type @ ipv4_packet (pk_ip packet) src dst 1
       (icmp_echo_message (pk_icmp packet) data)))"
  by (rule icmp_echo_frame_bytes [OF assms])

text \<open>
  Sending an ARP packet without data hands pcap_sendpacket the Ethernet header and the 28 ARP
  bytes, padded to 60 bytes.
\<close>

theorem arp_frame_sent:
  assumes ready: "sendable_arp packet dmac smac type sha spa tha tpa"
    and "pk_data packet = None" and buf: "length buf = 1600"
  shows "bytes_sent buf packet =
     Inr (pad60 (ether_bytes dmac smac type @ arp_bytes (pk_arp packet) sha spa tha tpa))"
  by (rule arp_frame_bytes [OF assms])

end
