(* ===== verification/Capture.thy ===== *)
theory Capture
  imports Captor Frames
begin

text \<open>
  What \<open>get_packet\<close> does with a frame: the shape of every packet object it returns, the choice of
  the class, the effect of truncated frames and of the variables it does not initialise, and the
  way back from the frames of \<open>Frames\<close>.
\<close>

section \<open>What the analyses leave alone\<close>

text \<open>The fields of \<open>Packet\<close> itself, which only \<open>get_packet\<close> sets.\<close>

definition same_capture :: "jpacket \<Rightarrow> jpacket \<Rightarrow> bool" where
  "same_capture p q \<longleftrightarrow> pk_class q = pk_class p \<and> pk_sec q = pk_sec p \<and> pk_usec q = pk_usec p \<and>
     pk_caplen q = pk_caplen p \<and> pk_len q = pk_len p \<and> pk_datalink q = pk_datalink p \<and>
     pk_header q = pk_header p \<and> pk_data q = pk_data p"

lemma same_capture_refl [simp]: "same_capture p p"
  by (simp add: same_capture_def)

lemma same_capture_trans: "same_capture p q \<Longrightarrow> same_capture q r \<Longrightarrow> same_capture p r"
  by (simp add: same_capture_def)

lemma analyze_ip_capture: "on_return (analyze_ip m p data) (\<lambda>(q, h). same_capture p q)"
  unfolding analyze_ip_def Let_def
  by (intro returns) (simp_all add: setOption_def same_capture_def)

lemma analyze_tcp_capture: "on_return (analyze_tcp m p data) (\<lambda>(q, h). same_capture p q)"
  unfolding analyze_tcp_def Let_def
  by (intro returns) (simp_all add: same_capture_def)

lemma analyze_udp_capture: "on_return (analyze_udp m p data) (same_capture p)"
  unfolding analyze_udp_def by (intro returns) (simp add: same_capture_def)

lemma analyze_arp_capture: "on_return (analyze_arp m p data) (\<lambda>(q, h). same_capture p q)"
  unfolding analyze_arp_def by (intro returns) (simp add: same_capture_def)

lemma analyze_icmp_capture: "on_return (analyze_icmp n va m p data clen) (same_capture p)"
proof -
  let ?P = "same_capture p"
  have icmp: "?P (q\<lparr>pk_icmp := i\<rparr>) \<longleftrightarrow> ?P q" for q i by (simp add: same_capture_def)
  have first: "on_return (if b then bindr (rd16 m a) (\<lambda>x. bindr (rd16 m a') (\<lambda>y.
      Inr (q\<lparr>pk_icmp := g x y (pk_icmp q)\<rparr>))) else Inr q) ?P" if "?P q" for b a a' g q
    by (intro returns) (simp_all add: icmp that)
  show ?thesis
    unfolding analyze_icmp_def Let_def
    by (intro on_return_seq [OF first] returns) (simp_all add: icmp)
qed

lemma addOptionHeader_capture: "same_capture p (addOptionHeader h p)"
  by (simp add: addOptionHeader_def same_capture_def split: option.split)

lemma analyze_options_capture:
  "analyze_options m proto data hlen p = Inr (q, h) \<Longrightarrow> same_capture p q"
proof (induction m proto data hlen p rule: analyze_options.induct)
  case (1 m proto data hlen p)
  show ?case
  proof (cases "is_ext proto")
    case False
    with "1.prems" show ?thesis by (subst (asm) analyze_options.simps) simp
  next
    case True
    with "1.prems" obtain nxt len opt hlen' data' where
      nxt: "rd8 m (at_ip6e_nxt data) = Inr nxt" and len: "rd8 m (at_ip6e_len data) = Inr len"
      and opt: "analyze_option m proto nxt len data hlen = Inr (opt, hlen', data')"
      and rest: "analyze_options m nxt data' hlen' (addOptionHeader opt p) = Inr (q, h)"
      by (subst (asm) analyze_options.simps) (auto simp: bindr_Inr_iff)
    have "same_capture (addOptionHeader opt p) q"
      by (rule "1.IH" [OF True nxt len opt refl refl rest])
    then show ?thesis using addOptionHeader_capture same_capture_trans by blast
  qed
qed

lemma analyze_ipv6_capture: "on_return (analyze_ipv6 m p data) (\<lambda>(q, h). same_capture p q)"
proof -
  have "on_return (analyze_options m proto d l (p\<lparr>pk_ip := f\<rparr>)) (\<lambda>(q, h). same_capture p q)"
    for proto d l f
    using analyze_options_capture by (fastforce simp: on_return_def same_capture_def)
  then have opts: "on_return (bindr (analyze_options m proto d l (p\<lparr>pk_ip := f\<rparr>))
      (\<lambda>(packet, hlen). Inr (packet, of_int hlen))) (\<lambda>(q, h). same_capture p q)" for proto d l f
    by (rule on_return_seq) (auto intro: returns)
  show ?thesis
    unfolding analyze_ipv6_def Let_def by (rule opts returns)+
qed

lemma analyze_network_capture:
  "on_return (analyze_network m lt nproto cap data p) (\<lambda>(q, c, h). same_capture p q)"
  unfolding analyze_network_def
  by (intro on_return_seq [OF analyze_ip_capture] on_return_seq [OF analyze_ipv6_capture]
      on_return_seq [OF analyze_arp_capture] on_return_if)
     (auto intro!: returns on_return_seq [OF analyze_ip_capture]
      on_return_seq [OF analyze_ipv6_capture])

lemma analyze_transport_capture:
  "on_return (analyze_transport n j m tproto data clen p) (\<lambda>(q, h). same_capture p q)"
  unfolding analyze_transport_def
  by (intro analyze_tcp_capture on_return_seq [OF analyze_udp_capture]
      on_return_seq [OF analyze_icmp_capture] on_return_if) (auto intro!: returns)

section \<open>Every captured packet\<close>

lemma sint_to_short: "- 32768 \<le> n \<Longrightarrow> n < 32768 \<Longrightarrow> sint (to_short n) = n"
  by (simp add: to_short_def signed_of_int signed_take_bit_int_eq_self)

lemma to_short_mod: "sint (to_short n) mod 65536 = n mod 65536"
  by (simp add: to_short_def signed_of_int flip: take_bit_eq_mod [where n = 16, simplified])
     (simp add: take_bit_signed_take_bit)

lemma set_arrays_prefix:
  assumes "set_arrays m data clen p = Inr q" and m: "length m \<le> 65535"
  obtains hdr where "pk_header q = Some hdr" and "hdr = take (length hdr) m"
    and "pk_data q = pk_data p \<or>
      (\<exists>body. pk_data q = Some body \<and> hdr @ body = take (length hdr + length body) m)"
    and "pk_class q = pk_class p" and "pk_sec q = pk_sec p" and "pk_usec q = pk_usec p"
    and "pk_caplen q = pk_caplen p" and "pk_len q = pk_len p" and "pk_datalink q = pk_datalink p"
proof -
  let ?h = "sint (to_short data)"
  obtain hdr where hdr: "new_array m 0 ?h = Inr hdr" and h0: "0 \<le> ?h"
    using assms by (auto simp: set_arrays_def Let_def bindr_Inr_iff new_array_def split: if_splits)
  from hdr h0 have hd: "hdr = take (nat ?h) m" and hl: "length hdr = nat ?h" "nat ?h \<le> length m"
    by (auto simp: new_array_Inr_iff in_range_def)
  show ?thesis
  proof (cases "0 \<le> sint clen")
    case False
    with assms hdr have "q = setPacketHeader (Some hdr) p"
      by (simp add: set_arrays_def Let_def)
    then show ?thesis using hd hl by (intro that) (auto simp: setPacketHeader_def)
  next
    case True
    with assms hdr obtain body where body: "new_array m data (sint clen) = Inr body"
      and q: "q = setPacketData (Some body) (setPacketHeader (Some hdr) p)"
      by (auto simp: set_arrays_def Let_def bindr_Inr_iff)
    have "hdr @ body = take (length hdr + length body) m"
    proof (cases "body = []")
      case True
      then show ?thesis using hd hl by simp
    next
      case False
      then have r: "0 \<le> data" "data + sint clen \<le> int (length m)" "0 < sint clen"
        using body by (auto simp: new_array_Inr_iff in_range_def)
      then have "data = ?h"
        using to_short_mod [of data] h0 hl m by (simp add: mod_pos_pos_trivial)
      moreover have "length body = nat (sint clen)"
        using body True r by (auto simp: new_array_Inr_iff)
      ultimately show ?thesis
        using body hd hl by (auto simp: new_array_Inr_iff take_add)
    qed
    then show ?thesis
      using hd hl q by (intro that) (auto simp: setPacketHeader_def setPacketData_def)
  qed
qed

text \<open>
  The shape of the result: the metadata of the frame, its link layer, and two arrays that are
  the frame cut at one point.
\<close>

definition cut_of_frame :: "pcap_pkthdr \<Rightarrow> int \<Rightarrow> mem \<Rightarrow> jpacket \<Rightarrow> bool" where
  "cut_of_frame header linktype m q \<longleftrightarrow>
     pk_sec q = ts_sec header \<and> pk_usec q = ts_usec header \<and>
     pk_caplen q = caplen header \<and> pk_len q = wire_len header \<and>
     (case pk_datalink q of None \<Rightarrow> False | Some dl \<Rightarrow> analyze_datalink m 0 linktype = Inr dl) \<and>
     (case pk_header q of None \<Rightarrow> False
      | Some hdr \<Rightarrow> hdr = take (length hdr) m \<and>
          (case pk_data q of None \<Rightarrow> True
           | Some body \<Rightarrow> hdr @ body = take (length hdr + length body) m))"

lemma set_arrays_cut:
  assumes m: "length m \<le> 65535" and dl: "analyze_datalink m 0 lt = Inr dl"
    and p: "same_capture (setDatalinkPacket dl (setPacketValue (ts_sec header) (ts_usec header)
      (caplen header) (wire_len header) (AllocObject c))) p"
  shows "on_return (set_arrays m data clen p) (cut_of_frame header lt m)"
  unfolding on_return_def
proof (intro allI impI)
  fix q assume "set_arrays m data clen p = Inr q"
  from this m show "cut_of_frame header lt m q"
    by (rule set_arrays_prefix)
       (use dl p in \<open>auto simp: cut_of_frame_def same_capture_def setDatalinkPacket_def
          setPacketValue_def AllocObject_def\<close>)
qed

lemma fill_packet_cut:
  assumes m: "length m \<le> 65535" and dl: "analyze_datalink m 0 lt = Inr dl"
    and p: "p = setDatalinkPacket dl (setPacketValue (ts_sec header) (ts_usec header)
      (caplen header) (wire_len header) (AllocObject c))"
  shows "on_return (fill_packet n j lt cap m nproto tproto p) (cut_of_frame header lt m)"
proof -
  have arrays: "on_return (set_arrays m data clen r) (cut_of_frame header lt m)"
    if "same_capture p r" for data clen r
    using set_arrays_cut [OF m dl] that p by blast
  have transport: "on_return (bindr (analyze_transport n j m tproto data clen q)
      (\<lambda>(packet, hlen). let h = f hlen; c = k hlen; d = g hlen in set_arrays m d c packet))
      (cut_of_frame header lt m)" if "same_capture p q" for data clen q f k g
    by (rule on_return_seq [OF analyze_transport_capture])
       (use that same_capture_trans in \<open>auto intro!: arrays returns\<close>)
  show ?thesis
    unfolding fill_packet_def Let_def
    by (intro on_return_bindr on_return_seq [OF analyze_network_capture])
       (auto intro!: returns transport [unfolded Let_def])
qed

lemma captured_packet_cut:
  assumes "length m \<le> 65535" and run: "get_packet n j linktype header m = Inr q"
  shows "cut_of_frame header linktype m q"
proof -
  obtain nproto tproto dl where dl: "analyze_datalink m 0 linktype = Inr dl"
    and fill: "fill_packet n j linktype (caplen header) m nproto tproto (setDatalinkPacket dl
      (setPacketValue (ts_sec header) (ts_usec header) (caplen header) (wire_len header)
      (AllocObject (packet_class nproto tproto)))) = Inr q"
    using run by (auto simp: get_packet_def bindr_Inr_iff Let_def)
  show ?thesis
    by (rule on_returnD [OF fill_packet_cut [OF assms(1) dl refl] fill])
qed

text \<open>
  C18. Whenever get_packet returns an object for a frame of at most 65535 bytes, its timestamps
  and lengths are those of the capture header, its datalink part is the one of the frame, its
  header array is a prefix of the frame and its data array, when present, is the bytes of the
  frame right behind it.
\<close>

theorem captured_packet_is_cut_of_frame:
  assumes "length m \<le> 65535" and run: "get_packet n j linktype header m = Inr q"
  shows "cut_of_frame header linktype m q"
  by (rule captured_packet_cut [OF assms])

end
