(* ===== verification/RoundTrip.thy ===== *)
theory RoundTrip
  imports Capture
begin

text \<open>
  From the sender to the captor: what \<open>get_packet\<close> makes of the frames that \<open>set_packet\<close>
  builds.
\<close>

section \<open>The IPv4 header read back\<close>

text \<open>
  The fields of the receiver's packet for a header the sender wrote. The fields of the type of
  service are decoded from the one octet the sender adds them up in. The fragment flags are gone:
  \<open>analyze_ip\<close> looks for them in the low byte of the fragment word.
\<close>

definition ip_received :: "ip_fields \<Rightarrow> u8 list \<Rightarrow> u8 list \<Rightarrow> u8 \<Rightarrow> u16 \<Rightarrow> ip_fields" where
  "ip_received f src dst proto tlen = f\<lparr>ip_version := 4, ip_length := tlen,
     ip_priority := drop_bit 5 (ip_tos_byte f), ip_d_flag := bit (ip_tos_byte f) 4,
     ip_t_flag := bit (ip_tos_byte f) 3, ip_r_flag := bit (ip_tos_byte f) 2,
     ip_rsv_tos := ip_tos_byte f AND 3,
     ip_rsv_frag := False, ip_dont_frag := False, ip_more_frag := False, ip_offset := 0,
     ip_hop_limit := ucast (ucast (ip_hop_limit f) :: u8), ip_protocol := ucast proto,
     ip_ident := scast (ucast (ip_ident f) :: u16), ip_flow_label := 0,
     ip_src_ip := Some (Inet4 src), ip_dst_ip := Some (Inet4 dst), ip_option := None\<rparr>"

lemma u8_less_8_cases:
  assumes "(x :: u8) < 8"
  shows "x = 0 \<or> x = 1 \<or> x = 2 \<or> x = 3 \<or> x = 4 \<or> x = 5 \<or> x = 6 \<or> x = 7"
proof -
  have "unat x < 8" using assms by (simp add: word_less_nat_alt)
  then have "unat x = 0 \<or> unat x = 1 \<or> unat x = 2 \<or> unat x = 3 \<or> unat x = 4 \<or> unat x = 5
      \<or> unat x = 6 \<or> unat x = 7"
    by (rule less_8_cases)
  moreover have "x = of_nat n" if "unat x = n" for n
    using that by (metis of_nat_unat ucast_id)
  ultimately show ?thesis by fastforce
qed

lemma u8_less_4_cases:
  assumes "(x :: u8) < 4"
  shows "x = 0 \<or> x = 1 \<or> x = 2 \<or> x = 3"
proof -
  have "x < 8" using assms by (rule less_trans) simp
  with assms show ?thesis by (auto dest: u8_less_8_cases)
qed

lemma tos_fields:
  assumes "ip_priority f < 8" and "ip_rsv_tos f < 4"
  shows "drop_bit 5 (ip_tos_byte f) = ip_priority f" and "ip_tos_byte f AND 3 = ip_rsv_tos f"
    and "bit (ip_tos_byte f) 4 = ip_d_flag f" and "bit (ip_tos_byte f) 3 = ip_t_flag f"
    and "bit (ip_tos_byte f) 2 = ip_r_flag f"
  using u8_less_8_cases [OF assms(1)] u8_less_4_cases [OF assms(2)]
  by (elim disjE; simp add: ip_tos_byte_def layout)+

text \<open>
  Fields within their three and two bits come back as they were sent; a reserved field of 4 comes
  back as the reliability flag.
\<close>

theorem tos_comes_back:
  assumes "ip_priority f < 8" and "ip_rsv_tos f < 4"
  shows "ip_priority (ip_received f src dst proto tlen) = ip_priority f \<and>
     ip_d_flag (ip_received f src dst proto tlen) = ip_d_flag f \<and>
     ip_t_flag (ip_received f src dst proto tlen) = ip_t_flag f \<and>
     ip_r_flag (ip_received f src dst proto tlen) = ip_r_flag f \<and>
     ip_rsv_tos (ip_received f src dst proto tlen) = ip_rsv_tos f"
  by (simp add: ip_received_def tos_fields [OF assms])

theorem tos_spills:
  assumes "ip_priority f < 8" and "ip_rsv_tos f = 4" and "\<not> ip_r_flag f"
  shows "ip_r_flag (ip_received f src dst proto tlen) \<and>
     ip_rsv_tos (ip_received f src dst proto tlen) = 0"
  using u8_less_8_cases [OF assms(1)] assms(2,3)
  by (elim disjE; simp add: ip_received_def ip_tos_byte_def layout)

lemma off_word_flags:
  assumes "ip_offset f = 0"
  shows "byte_at 0 (ip_off_word f) = 0" and "ip_off_word f AND IP_OFFMASK = 0"
proof -
  have "htons 0 = 0" by (rule bit_word_eqI) (simp add: htons_def bit_le16 bit_byte_at)
  then show "byte_at 0 (ip_off_word f) = 0" and "ip_off_word f AND IP_OFFMASK = 0"
    using assms by (auto simp: ip_off_word_def layout byte_at_def)
qed

lemma analyze_ip_header:
  assumes sz: "length src = 4" "length dst = 4"
    and f: "ip_offset f = 0"
    and p: "pk_ip packet = zero_ip"
  shows "analyze_ip (pre @ ipv4_header f src dst proto tlen ck @ post) packet (int (length pre)) =
     Inr (packet\<lparr>pk_ip := ip_received f src dst proto tlen\<rparr>, 20)"
proof -
  let ?w = "ipv4_header f src dst proto tlen ck" and ?t = "ip_tos_byte f"
  have nth: "?w ! 0 = 0x45" "?w ! 1 = ip_tos_byte f" "?w ! 2 = byte_at 1 tlen"
    "?w ! 3 = byte_at 0 tlen" "?w ! 4 = byte_at 1 (ucast (ip_ident f) :: u16)"
    "?w ! 5 = byte_at 0 (ucast (ip_ident f) :: u16)" "?w ! 6 = byte_at 1 (ip_off_word f)"
    "?w ! 7 = 0" "?w ! 8 = ucast (ip_hop_limit f)" "?w ! 9 = proto"
    "take 4 (drop 12 ?w) = src" "take 4 (drop 16 ?w) = dst"
    using sz off_word_flags(1) [OF f] by (simp_all add: ipv4_header_def bytes16_def)
  have off: "be16 (?w ! 6) (?w ! 7) AND IP_OFFMASK = 0"
    using off_word_flags [OF f] le16_byte_at [of "ip_off_word f"] by (simp add: nth)
  have "analyze_ip (pre @ ?w @ post) packet (int (length pre)) =
      Inr (packet\<lparr>pk_ip := setIPv4Value 4 (drop_bit 5 ?t) (bit ?t 4) (bit ?t 3)
            (bit ?t 2) (?t AND 3) False False False 0 tlen (ucast (ip_ident f))
            (ucast (ucast (ip_hop_limit f) :: u8)) (ucast proto) src dst zero_ip\<rparr>, 20)"
    using analyze_ip_window [of ?w pre post packet] sz nth off p by simp
  moreover have "setIPv4Value 4 (drop_bit 5 ?t) (bit ?t 4) (bit ?t 3)
      (bit ?t 2) (?t AND 3) False False False 0 tlen (ucast (ip_ident f))
      (ucast (ucast (ip_hop_limit f) :: u8)) (ucast proto) src dst zero_ip =
      ip_received f src dst proto tlen"
    using sz by (cases f) (simp add: setIPv4Value_def set_addresses_def ip_received_def zero_ip_def)
  ultimately show ?thesis by simp
qed

section \<open>The frame on an Ethernet link\<close>

definition ipv4_frame ::
  "u8 list \<Rightarrow> u8 list \<Rightarrow> ip_fields \<Rightarrow> u8 list \<Rightarrow> u8 list \<Rightarrow> u8 \<Rightarrow> u8 list \<Rightarrow> u8 list" where
  "ipv4_frame dmac smac f src dst proto payload =
     ether_bytes dmac smac ETHERTYPE_IP @ ipv4_packet f src dst proto payload"

lemma table_EN10MB [simp]:
  "table offset_type DLT_EN10MB = Inr 12" "table offset_data DLT_EN10MB = Inr 14"
  "table offset_type 1 = Inr 12" "table offset_data 1 = Inr 14"
  by (simp_all add: table_def offset_type_def offset_data_def DLT_EN10MB_def)

lemma short_of_nat: "n < 32768 \<Longrightarrow> sint (of_nat n :: jshort) = int n"
  using sint_to_short [of "int n"] by (simp add: to_short_def)

lemma ucast_of_nat_short: "(ucast (of_nat n :: u32) :: jshort) = of_nat n"
  by (simp add: unsigned_of_nat word_of_nat_eq_iff take_bit_take_bit)

lemma ethertype_ip_bytes: "le16 0 8 = ETHERTYPE_IP"
  by (simp only: word_uint_eq_iff uint_le16) (simp add: layout)

lemma ethertype_ip_on_wire: "byte_at 1 ETHERTYPE_IP = 8" "byte_at 0 ETHERTYPE_IP = 0"
  by (simp_all flip: ethertype_ip_bytes)

text \<open>The fields the classification looks at.\<close>

lemma header_reads:
  assumes sz: "length dmac = 6" "length smac = 6" "length src = 4" "length dst = 4"
    and m: "m = ether_bytes dmac smac ETHERTYPE_IP @ ipv4_header f src dst proto tlen ck @ rest"
  shows "rd16 m 12 = Inr (le16 8 0)" and "rd8 m 14 = Inr 0x45"
    and "rd16 m 20 = Inr (htons (ip_off_word f))" and "rd8 m 23 = Inr proto"
    and "rd16 m 16 = Inr (htons tlen)" and "length m = 34 + length rest"
proof -
  let ?E = "ether_bytes dmac smac ETHERTYPE_IP"
  let ?h = "ipv4_header f src dst proto tlen ck"
  have m': "m = [] @ ?E @ ?h @ rest" by (simp add: m)
  have len: "length ?E = 14" "length ?h = 20" using sz by simp_all
  have ne: "?h \<noteq> []" using len by auto
  show "rd16 m 12 = Inr (le16 8 0)"
    using rd16_window [of 12 "[]" 12 ?E "?h @ rest"] len sz
    unfolding m'
    by (simp add: ether_bytes_def nth_append ethertype_ip_on_wire [simplified])
  show "rd8 m 14 = Inr 0x45"
    using rd8_window [of 14 ?E 0 ?h rest] len ne
    unfolding m by (simp add: ipv4_header_def)
  show "rd16 m 20 = Inr (htons (ip_off_word f))"
    using rd16_window [of 20 ?E 6 ?h rest] len
    unfolding m by (simp add: ipv4_header_def bytes16_def htons_def)
  show "rd8 m 23 = Inr proto"
    using rd8_window [of 23 ?E 9 ?h rest] len
    unfolding m by (simp add: ipv4_header_def bytes16_def)
  show "rd16 m 16 = Inr (htons tlen)"
    using rd16_window [of 16 ?E 2 ?h rest] len
    unfolding m by (simp add: ipv4_header_def bytes16_def htons_def)
  show "length m = 34 + length rest"
    using len unfolding m by simp
qed

lemma frame_reads:
  assumes sz: "length dmac = 6" "length smac = 6" "length src = 4" "length dst = 4"
    and m: "m = ipv4_frame dmac smac f src dst proto payload @ pad"
  shows "rd16 m 12 = Inr (le16 8 0)" and "rd8 m 14 = Inr 0x45"
    and "rd16 m 20 = Inr (htons (ip_off_word f))" and "rd8 m 23 = Inr proto"
    and "rd16 m 16 = Inr (htons (of_nat (20 + length payload)))"
    and "length m = 34 + length payload + length pad"
proof -
  let ?t = "of_nat (20 + length payload) :: u16"
  have "m = ether_bytes dmac smac ETHERTYPE_IP @ ipv4_header f src dst proto ?t
      (inet_cksum (ipv4_header f src dst proto ?t 0)) @ payload @ pad"
    by (simp add: m ipv4_frame_def ipv4_packet_def Let_def)
  note reads = header_reads [OF sz this]
  show "rd16 m 12 = Inr (le16 8 0)" and "rd8 m 14 = Inr 0x45"
    and "rd16 m 20 = Inr (htons (ip_off_word f))" and "rd8 m 23 = Inr proto"
    and "rd16 m 16 = Inr (htons ?t)" and "length m = 34 + length payload + length pad"
    using reads by simp_all
qed

lemma uint_ucast_8_16: "uint (ucast (x :: u8) :: u16) = uint x"
  using uint_lt2p [of x] by (simp add: unsigned_ucast_eq take_bit_int_eq_self)

lemma classify_sent:
  assumes sz: "length dmac = 6" "length smac = 6" "length src = 4" "length dst = 4"
    and off: "ip_offset f = 0" and m: "m = ipv4_frame dmac smac f src dst proto payload @ pad"
    and n: "length m < 32768" "payload \<noteq> []"
    and full: "proto = 6 \<Longrightarrow> 20 \<le> length payload" "proto = 17 \<Longrightarrow> 8 \<le> length payload"
      "proto = 1 \<Longrightarrow> 8 \<le> length payload"
  shows "network_protocol m DLT_EN10MB (of_nat (length m)) =
      Inr (ETHERTYPE_IP, to_short (int (length m) - 14))"
    and "transport_protocol j m DLT_EN10MB ETHERTYPE_IP (to_short (int (length m) - 14)) =
      Inr (ucast proto, to_short (int (length m) - 34))"
proof -
  note reads = frame_reads [OF sz m]
  show "network_protocol m DLT_EN10MB (of_nat (length m)) =
      Inr (ETHERTYPE_IP, to_short (int (length m) - 14))"
    using n
    by (simp add: network_protocol_def get_network_type_def datalink_hlen_def DLT_EN10MB_def
        DLT_RAW_def DLT_IEEE802_def reads(1) ucast_of_nat_short short_of_nat ethertype_ip_bytes)
  have pos: "34 < length m" using n(2) reads(6) by (cases payload) simp_all
  have short: "sint (to_short (int (length m) - 14)) = int (length m) - 14"
    "sint (to_short (int (length m) - 34)) = int (length m) - 34"
    using n pos by (simp_all add: sint_to_short)
  have ihl: "push_bit 2 (uint ((0x45 :: u8) AND 0x0f)) = 20" by simp
  have p: "(ucast proto :: u16) = ucast IPPROTO_TCP \<longleftrightarrow> proto = 6"
    "(ucast proto :: u16) = ucast IPPROTO_UDP \<longleftrightarrow> proto = 17"
    "(ucast proto :: u16) = ucast IPPROTO_ICMP \<longleftrightarrow> proto = 1"
    by (simp_all add: word_uint_eq_iff uint_ucast_8_16 layout)
  have whole: "\<not> (proto = 6 \<and> int (length m) - 34 < TCPHDRLEN \<or>
      proto = 17 \<and> int (length m) - 34 < UDPHDRLEN \<or>
      proto = 1 \<and> int (length m) - 34 < ICMPHDRLEN)"
    using full reads(6) by (auto simp: layout)
  show "transport_protocol j m DLT_EN10MB ETHERTYPE_IP (to_short (int (length m) - 14)) =
      Inr (ucast proto, to_short (int (length m) - 34))"
    unfolding transport_protocol_def detect_transport_def check_truncated_def
    using pos off_word_flags(2) [OF off] whole
    by (simp add: skip_datalink_header_def datalink_hlen_def reads(2-4) short ihl p Let_def)
qed

lemma scast_of_nat_32: "n < 32768 \<Longrightarrow> (scast (of_nat n :: jshort) :: u32) = of_nat n"
  by (metis of_int_sint short_of_nat of_int_of_nat_eq)

lemma ucast_of_nat_16_32: "n < 65536 \<Longrightarrow> (ucast (of_nat n :: u16) :: u32) = of_nat n"
  by (simp add: unsigned_of_nat take_bit_nat_eq_self)

lemma of_nat_not_less_u32: "a \<le> b \<Longrightarrow> b < 4294967296 \<Longrightarrow> \<not> (of_nat a :: u32) > of_nat b"
  by (simp add: not_less word_le_nat_alt unsigned_of_nat take_bit_nat_eq_self)

lemma fill_sent:
  assumes sz: "length dmac = 6" "length smac = 6" "length src = 4" "length dst = 4"
    and f: "ip_offset f = 0"
    and m: "m = ipv4_frame dmac smac f src dst proto payload @ pad"
    and n: "length m < 32768" and p: "pk_ip packet = zero_ip"
  shows "fill_packet na j DLT_EN10MB (of_nat (length m)) m ETHERTYPE_IP (ucast proto) packet =
     bindr (analyze_transport na j m (ucast proto) 34 (to_short (int (length payload)))
       (packet\<lparr>pk_ip := ip_received f src dst proto (of_nat (20 + length payload))\<rparr>))
       (\<lambda>(packet, hlen).
         let hlen = (if sint hlen > int (length payload) then to_short (int (length payload)) else hlen)
         in set_arrays m (34 + sint hlen) (to_short (int (length payload) - sint hlen)) packet)"
proof -
  note reads = frame_reads [OF sz m]
  let ?P = "length payload"
  have len: "?P < 32768 - 34" "20 + ?P \<le> length m - 14" "14 \<le> length m" using n reads(6) by auto
  define t :: jshort where "t = of_nat (20 + ?P)"
  have ip: "analyze_ip m packet 14 = Inr (packet\<lparr>pk_ip := ip_received f src dst proto t\<rparr>, 20)"
    using analyze_ip_header [OF sz(3,4) f p, of "ether_bytes dmac smac ETHERTYPE_IP" proto t] sz
    by (simp add: m ipv4_frame_def ipv4_packet_def Let_def t_def)
  have tot: "sint t = 20 + int ?P" "(scast t :: u32) = of_nat (20 + ?P)"
    using short_of_nat [of "20 + ?P"] scast_of_nat_32 [of "20 + ?P"] len by (simp_all add: t_def)
  have "(of_nat (length m) :: u32) - 14 = of_nat (length m - 14)"
    using len(3) by (simp add: of_nat_diff)
  moreover have "\<not> (of_nat (20 + ?P) :: u32) > of_nat (length m - 14)"
    by (rule of_nat_not_less_u32) (use len n in auto)
  ultimately have clamp: "\<not> of_nat (length m) - 14 < (scast t :: u32)"
    using tot(2) by simp
  have short: "sint (to_short (int ?P)) = int ?P" using len by (simp add: sint_to_short)
  have unknown: "ETHERTYPE_IP \<noteq> UNKNOWN_PROTO" by (simp add: layout)
  have net: "analyze_network m DLT_EN10MB ETHERTYPE_IP (of_nat (length m)) 14 packet =
      Inr (packet\<lparr>pk_ip := ip_received f src dst proto t\<rparr>, t, 20)"
    by (simp add: analyze_network_def reads(5) ip t_def)
  show ?thesis
    unfolding t_def [symmetric]
    using unknown
    by (simp add: fill_packet_def skip_datalink_header_def datalink_hlen_def net clamp
        tot(1) short Let_def cong: if_cong)
qed

text \<open>The object \<open>get_packet\<close> starts from, for a frame of the sender.\<close>

definition captured_object :: "pcap_pkthdr \<Rightarrow> jclass \<Rightarrow> datalink \<Rightarrow> jpacket" where
  "captured_object header c dl =
     setDatalinkPacket dl (setPacketValue (ts_sec header) (ts_usec header) (caplen header)
       (wire_len header) (AllocObject c))"

lemma get_packet_sent:
  assumes sz: "length dmac = 6" "length smac = 6" "length src = 4" "length dst = 4"
    and f: "ip_offset f = 0"
    and m: "m = ipv4_frame dmac smac f src dst proto payload @ pad"
    and n: "length m < 32768" "payload \<noteq> []" and cap: "caplen header = of_nat (length m)"
    and full: "proto = 6 \<Longrightarrow> 20 \<le> length payload" "proto = 17 \<Longrightarrow> 8 \<le> length payload"
      "proto = 1 \<Longrightarrow> 8 \<le> length payload"
  shows "get_packet na j DLT_EN10MB header m =
     bindr (analyze_transport na j m (ucast proto) 34 (to_short (int (length payload)))
       ((captured_object header (packet_class ETHERTYPE_IP (ucast proto))
          (EthernetPacket \<lparr>eth_dst_mac = Some dmac, eth_src_mac = Some smac,
             eth_frametype = ETHERTYPE_IP\<rparr>))
        \<lparr>pk_ip := ip_received f src dst proto (of_nat (20 + length payload))\<rparr>))
       (\<lambda>(packet, hlen).
         let hlen = (if sint hlen > int (length payload) then to_short (int (length payload)) else hlen)
         in set_arrays m (34 + sint hlen) (to_short (int (length payload) - sint hlen)) packet)"
proof -
  let ?dl = "EthernetPacket \<lparr>eth_dst_mac = Some dmac, eth_src_mac = Some smac,
      eth_frametype = ETHERTYPE_IP\<rparr>"
  have dl: "analyze_datalink m 0 DLT_EN10MB = Inr ?dl"
    using analyze_ether_bytes [OF sz(1,2), where pre = "[]" and type = ETHERTYPE_IP
        and post = "ipv4_packet f src dst proto payload @ pad"]
    by (simp add: m ipv4_frame_def)
  have obj: "pk_ip (captured_object header c ?dl) = zero_ip" for c
    by (simp add: captured_object_def setDatalinkPacket_def setPacketValue_def AllocObject_def)
  show ?thesis
    unfolding get_packet_def cap
    using classify_sent(1) [OF sz f m n full] classify_sent(2) [OF sz f m n full, of j] fill_sent [OF sz f m n(1) obj] dl
    by (simp add: captured_object_def cap)
qed

lemma set_arrays_window:
  assumes "length hdr < 32768" and "length body < 32768"
  shows "set_arrays (hdr @ body @ pad) (int (length hdr)) (to_short (int (length body))) p =
     Inr (setPacketData (Some body) (setPacketHeader (Some hdr) p))"
proof -
  have "sint (to_short (int (length hdr))) = int (length hdr)"
    "sint (to_short (int (length body))) = int (length body)"
    using assms by (simp_all add: sint_to_short)
  then show ?thesis
    by (simp add: set_arrays_def new_array_def rd_bytes_def in_range_def)
qed

text \<open>The 34 bytes in front of the payload.\<close>

definition frame_head ::
  "u8 list \<Rightarrow> u8 list \<Rightarrow> ip_fields \<Rightarrow> u8 list \<Rightarrow> u8 list \<Rightarrow> u8 \<Rightarrow> u8 list \<Rightarrow> u8 list" where
  "frame_head dmac smac f src dst proto payload =
     (let tlen = of_nat (20 + length payload)
      in ether_bytes dmac smac ETHERTYPE_IP @ ipv4_header f src dst proto tlen
           (inet_cksum (ipv4_header f src dst proto tlen 0)))"

lemma ipv4_frame_eq:
  "ipv4_frame dmac smac f src dst proto payload = frame_head dmac smac f src dst proto payload @ payload"
  by (simp add: ipv4_frame_def frame_head_def ipv4_packet_def Let_def)

lemma length_frame_head [simp]:
  "length dmac = 6 \<Longrightarrow> length smac = 6 \<Longrightarrow> length src = 4 \<Longrightarrow> length dst = 4 \<Longrightarrow>
     length (frame_head dmac smac f src dst proto payload) = 34"
  by (simp add: frame_head_def Let_def)

section \<open>Round trips\<close>

lemma udp_captured_again:
  assumes ready: "sendable packet dmac smac ETHERTYPE_IP src dst data"
    and cls: "pk_class packet = UDPPacketC"
    and f: "ip_offset (pk_ip packet) = 0"
    and len: "length data \<le> 1558" and buf: "length buf = 1600"
    and sent: "bytes_sent buf packet = Inr m" and cap: "caplen header = of_nat (length m)"
  shows "get_packet na j DLT_EN10MB header m = Inr
     ((captured_object header UDPPacketC (EthernetPacket \<lparr>eth_dst_mac = Some dmac,
         eth_src_mac = Some smac, eth_frametype = ETHERTYPE_IP\<rparr>))
      \<lparr>pk_ip := ip_received (pk_ip packet) src dst 17 (of_nat (28 + length data)),
       pk_udp := \<lparr>udp_src_port = ucast (ucast (udp_src_port (pk_udp packet)) :: u16),
                  udp_dst_port = ucast (ucast (udp_dst_port (pk_udp packet)) :: u16),
                  udp_length = of_nat (length data + 8)\<rparr>,
       pk_header := Some (take 42 m), pk_data := Some data\<rparr>)"
proof -
  let ?f = "pk_ip packet"
  let ?u = "udp_datagram src dst (pk_udp packet) data"
  have sz: "length dmac = 6" "length smac = 6" "length src = 4" "length dst = 4"
    using ready by (simp_all add: sendable_def)
  define pad where "pad = replicate (60 - length (ipv4_frame dmac smac ?f src dst 17 ?u)) (0 :: u8)"
  have m: "m = ipv4_frame dmac smac ?f src dst 17 ?u @ pad"
    using sent udp_frame_bytes [OF ready cls len buf]
    by (simp add: pad60_def ipv4_frame_def pad_def)
  define h where "h = frame_head dmac smac ?f src dst 17 ?u"
  have mh: "m = h @ ?u @ pad" and lh: "length h = 34"
    using sz by (simp_all add: m h_def ipv4_frame_eq)
  have lm: "length m < 32768"
    using len sz by (simp add: m ipv4_frame_eq pad_def)
  have udp: "?u = udp_segment (pk_udp packet) data c" if "c = udp_cksum (inet_cksum
      (pseudo_bytes src dst 17 (length data + 8) @ udp_segment (pk_udp packet) data 0))" for c
    using that by (simp add: udp_datagram_def)
  define uh where "uh = take 8 ?u"
  have u: "?u = uh @ data" and luh: "length uh = 8"
    by (simp_all add: uh_def udp_datagram_def udp_segment_def bytes16_def)
  have cls17: "packet_class ETHERTYPE_IP 17 = UDPPacketC"
    by (simp add: packet_class_def layout)
  have ulen: "(ucast (of_nat (length data + 8) :: u16) :: jint) = of_nat (length data + 8)"
    using ucast_of_nat_16_32 [of "length data + 8"] len by simp
  have transport: "analyze_transport na j m 17 34 c p = Inr (p\<lparr>pk_udp :=
      \<lparr>udp_src_port = ucast (ucast (udp_src_port (pk_udp packet)) :: u16),
       udp_dst_port = ucast (ucast (udp_dst_port (pk_udp packet)) :: u16),
       udp_length = of_nat (length data + 8)\<rparr>\<rparr>, 8)" for c p
    using analyze_udp_segment [of h "pk_udp packet" data _ pad p] ulen
    by (simp add: analyze_transport_def layout mh lh udp [OF refl] to_short_def)
  have arrays: "set_arrays m 42 (to_short (int (length data))) p =
      Inr (setPacketData (Some data) (setPacketHeader (Some (take 42 m)) p))" for p
    using set_arrays_window [of "h @ uh" data pad p] lh luh len by (simp add: mh u)
  have ne: "uh \<noteq> []" using luh by auto
  show ?thesis
    using get_packet_sent [OF sz f m lm _ cap, where na = na and j = j] cls17 transport arrays len
    by (simp add: u luh ne setPacketData_def setPacketHeader_def)
qed

text \<open>
  C5. A UDP packet with fragment offset 0, from and to IPv4 addresses, in an Ethernet frame of
  type 0x0800, with at most 1558 data bytes, sent with nativeSendPacket and captured again whole
  on Ethernet comes back as a UDPPacket with the ports modulo 2^16, the same data and the header
  split off behind byte 42. Of the IP fields (ip_received), hop limit and identification come
  back cut to 8 and 16 bits and the fragmentation flags cleared; the priority, the three service
  flags and rsv_tos are those read out of the one octet the sender adds them into: values of at
  most 7 and 3 come back unchanged (theorem tos_comes_back), an rsv_tos of 4 comes back as the
  reliability flag (theorem tos_spills).
\<close>

theorem udp_round_trip:
  assumes ready: "sendable packet dmac smac ETHERTYPE_IP src dst data"
    and cls: "pk_class packet = UDPPacketC"
    and f: "ip_offset (pk_ip packet) = 0"
    and len: "length data \<le> 1558" and buf: "length buf = 1600"
    and sent: "bytes_sent buf packet = Inr m" and cap: "caplen header = of_nat (length m)"
  shows "get_packet na j DLT_EN10MB header m = Inr
     ((captured_object header UDPPacketC (EthernetPacket \<lparr>eth_dst_mac = Some dmac,
         eth_src_mac = Some smac, eth_frametype = ETHERTYPE_IP\<rparr>))
      \<lparr>pk_ip := ip_received (pk_ip packet) src dst 17 (of_nat (28 + length data)),
       pk_udp := \<lparr>udp_src_port = ucast (ucast (udp_src_port (pk_udp packet)) :: u16),
                  udp_dst_port = ucast (ucast (udp_dst_port (pk_udp packet)) :: u16),
                  udp_length = of_nat (length data + 8)\<rparr>,
       pk_header := Some (take 42 m), pk_data := Some data\<rparr>)"
  by (rule udp_captured_again [OF assms])

text \<open>
  C16. A TCP packet with fragment offset 0, from and to IPv4 addresses, in an Ethernet frame of
  type 0x0800, with at most 1546 data bytes, sent and captured again whole comes back as a
  TCPPacket with every TCP field cut to its width on the wire, no options, the same data and the
  header split off behind byte 54. The IP fields are as in ip_received: hop limit and
  identification cut to 8 and 16 bits, the fragmentation flags cleared; the service fields are
  read out of the one octet the sender adds them into, and those of at most 7 and 3 come back
  unchanged (theorem tos_comes_back).
\<close>

theorem tcp_round_trip:
  assumes ready: "sendable packet dmac smac ETHERTYPE_IP src dst data"
    and cls: "pk_class packet = TCPPacketC"
    and f: "ip_offset (pk_ip packet) = 0"
    and len: "length data \<le> 1546" and buf: "length buf = 1600"
    and sent: "bytes_sent buf packet = Inr m" and cap: "caplen header = of_nat (length m)"
  shows "get_packet na j DLT_EN10MB header m = Inr
     ((captured_object header TCPPacketC (EthernetPacket \<lparr>eth_dst_mac = Some dmac,
         eth_src_mac = Some smac, eth_frametype = ETHERTYPE_IP\<rparr>))
      \<lparr>pk_ip := ip_received (pk_ip packet) src dst 6 (of_nat (40 + length data)),
       pk_tcp := tcp_on_wire (pk_tcp packet) None,
       pk_header := Some (take 54 m), pk_data := Some data\<rparr>)"
proof -
  let ?f = "pk_ip packet"
  let ?x = "buf ! 46"
  let ?t = "tcp_datagram src dst (pk_tcp packet) data ?x"
  have sz: "length dmac = 6" "length smac = 6" "length src = 4" "length dst = 4"
    using ready by (simp_all add: sendable_def)
  define pad where "pad = replicate (60 - length (ipv4_frame dmac smac ?f src dst 6 ?t)) (0 :: u8)"
  have m: "m = ipv4_frame dmac smac ?f src dst 6 ?t @ pad"
    using sent tcp_frame_bytes [OF ready cls len buf]
    by (simp add: pad60_def ipv4_frame_def pad_def)
  define h where "h = frame_head dmac smac ?f src dst 6 ?t"
  have mh: "m = h @ ?t @ pad" and lh: "length h = 34"
    using sz by (simp_all add: m h_def ipv4_frame_eq)
  have lm: "length m < 32768"
    using len sz by (simp add: m ipv4_frame_eq pad_def)
  define th where "th = take 20 ?t"
  have t: "?t = th @ data" and lth: "length th = 20" and ne: "th \<noteq> []"
    by (simp_all add: th_def tcp_datagram_def tcp_segment_def bytes16_def bytes32_def)
  have cls6: "packet_class ETHERTYPE_IP 6 = TCPPacketC"
    by (simp add: packet_class_def layout)
  have transport: "analyze_transport na j m 6 34 c p =
      Inr (p\<lparr>pk_tcp := tcp_on_wire (pk_tcp packet) None\<rparr>, 20)" if "pk_tcp p = zero_tcp" for c p
    using that lh
      analyze_tcp_segment [of h "pk_tcp packet" data ?x _ pad p, folded tcp_datagram_def]
    by (simp add: analyze_transport_def layout mh tcp_datagram_def zero_tcp_def)
  have obj: "pk_tcp (captured_object header c dl\<lparr>pk_ip := i\<rparr>) = zero_tcp" for c dl i
    by (simp add: captured_object_def setDatalinkPacket_def setPacketValue_def AllocObject_def)
  have arrays: "set_arrays m 54 (to_short (int (length data))) p =
      Inr (setPacketData (Some data) (setPacketHeader (Some (take 54 m)) p))" for p
    using set_arrays_window [of "h @ th" data pad p] lh lth len by (simp add: mh t)
  show ?thesis
    using get_packet_sent [OF sz f m lm _ cap, where na = na and j = j] cls6 arrays len
    by (simp add: transport [OF obj] t lth ne setPacketData_def setPacketHeader_def)
qed

text \<open>
  C17. An ARP packet in the form for Ethernet and IPv4 (hlen 6 and plen 4, hardware addresses of
  6 and protocol addresses of 4 bytes) without data, in a frame of type 0x0806, sent and
  captured again comes back with exactly the same ARP fields. Other lengths are outside: set_arp
  writes the fixed form whatever they are, and analyze_arp reads the form they give.
\<close>

theorem arp_round_trip:
  assumes ready: "sendable_arp packet dmac smac ETHERTYPE_ARP sha spa tha tpa"
    and data: "pk_data packet = None" and buf: "length buf = 1600"
    and sent: "bytes_sent buf packet = Inr m" and cap: "caplen header = of_nat (length m)"
  shows "get_packet na j DLT_EN10MB header m = Inr
     ((captured_object header ARPPacketC (EthernetPacket \<lparr>eth_dst_mac = Some dmac,
         eth_src_mac = Some smac, eth_frametype = ETHERTYPE_ARP\<rparr>))
      \<lparr>pk_arp := pk_arp packet, pk_header := Some (take 42 m), pk_data := Some []\<rparr>)"
proof -
  let ?E = "ether_bytes dmac smac ETHERTYPE_ARP"
  let ?A = "arp_bytes (pk_arp packet) sha spa tha tpa"
  have sz: "length dmac = 6" "length smac = 6" "length sha = 6" "length spa = 4"
    "length tha = 6" "length tpa = 4"
    using ready by (simp_all add: sendable_arp_def)
  define pad where "pad = replicate 18 (0 :: u8)"
  have len: "length ?E = 14" "length ?A = 28" using sz by (simp_all add: arp_bytes_def)
  have m: "m = ?E @ ?A @ pad"
    using sent arp_frame_bytes [OF ready data buf] len by (simp add: pad60_def pad_def)
  have lm: "length m = 60" using len by (simp add: m pad_def)
  have same: "\<lparr>arp_hardtype = arp_hardtype f, arp_prototype = arp_prototype f, arp_hlen = 6,
      arp_plen = 4, arp_operation = arp_operation f, arp_sender_hardaddr = Some sha,
      arp_sender_protoaddr = Some spa, arp_target_hardaddr = Some tha,
      arp_target_protoaddr = Some tpa\<rparr> = f" if "f = pk_arp packet" for f
    using ready that by (cases f) (simp add: sendable_arp_def)
  have dl: "analyze_datalink m 0 DLT_EN10MB = Inr (EthernetPacket \<lparr>eth_dst_mac = Some dmac,
      eth_src_mac = Some smac, eth_frametype = ETHERTYPE_ARP\<rparr>)"
    using analyze_ether_bytes [OF sz(1,2), where pre = "[]" and type = ETHERTYPE_ARP
        and post = "?A @ pad"] by (simp add: m)
  have arp: "analyze_arp m p 14 = Inr (p\<lparr>pk_arp := pk_arp packet\<rparr>, 28)" for p
    using analyze_arp_bytes [OF sz(3-6), of ?E "pk_arp packet" pad p] len same [OF refl]
    by (simp add: m)
  have "rd16 m 12 = Inr (htons ETHERTYPE_ARP)"
    using rd16_window [of 12 "[]" 12 ?E "?A @ pad"] sz len(1)
    by (simp add: m ether_bytes_def nth_append htons_def)
  then have np: "network_protocol m DLT_EN10MB (caplen header) = Inr (ETHERTYPE_ARP, 46)"
    by (simp add: network_protocol_def get_network_type_def datalink_hlen_def DLT_EN10MB_def
        DLT_RAW_def DLT_IEEE802_def cap lm to_short_def)
  have tp: "transport_protocol j m DLT_EN10MB ETHERTYPE_ARP 46 = Inr (ETHERTYPE_ARP, 18)"
    by (simp add: transport_protocol_def detect_transport_def check_truncated_def layout
        to_short_def Let_def)
  have cl: "packet_class ETHERTYPE_ARP ETHERTYPE_ARP = ARPPacketC"
    by (simp add: packet_class_def layout)
  have fill: "fill_packet na j DLT_EN10MB (caplen header) m ETHERTYPE_ARP ETHERTYPE_ARP p =
      set_arrays m 42 0 (p\<lparr>pk_arp := pk_arp packet\<rparr>)" for p
    by (simp add: fill_packet_def skip_datalink_header_def datalink_hlen_def analyze_network_def
        arp analyze_transport_def cap lm layout to_short_def Let_def cong: if_cong)
  have "set_arrays m 42 0 p = Inr (setPacketData (Some []) (setPacketHeader (Some (take 42 m)) p))" for p
    using set_arrays_window [of "?E @ ?A" "[]" pad p] len by (simp add: m to_short_def)
  then show ?thesis
    by (simp add: get_packet_def np tp cl dl fill captured_object_def setPacketData_def
        setPacketHeader_def)
qed

end
