(* ===== verification/CaptureLaws.thy ===== *)
theory CaptureLaws
  imports RoundTrip
begin

text \<open>
  Properties of the capturing side beyond the round trips: the class of a captured packet, the
  bytes each header field comes from, truncated frames, and the variables \<open>get_packet\<close> reads
  without having set them.
\<close>

section \<open>Field by field\<close>

lemma on_return_bindr_eq:
  "(\<And>x. m = Inr x \<Longrightarrow> on_return (f x) P) \<Longrightarrow> on_return (bindr m f) P"
  by (auto simp: on_return_def bindr_Inr_iff)

lemmas on_return_eq_intros =
  on_return_bindr_eq on_return_if on_return_Inr on_return_Inl on_return_pair

lemma set_addresses_fields [simp]:
  "ip_rsv_frag (set_addresses src dst f) = ip_rsv_frag f"
  "ip_dont_frag (set_addresses src dst f) = ip_dont_frag f"
  "ip_more_frag (set_addresses src dst f) = ip_more_frag f"
  "ip_offset (set_addresses src dst f) = ip_offset f"
  "ip_priority (set_addresses src dst f) = ip_priority f"
  by (simp_all add: set_addresses_def split: option.splits)

lemma analyze_ip_off:
  assumes "rd16 m (data + 6) = Inr off"
  shows "on_return (analyze_ip m packet data) (\<lambda>(q, hlen).
      ip_rsv_frag (pk_ip q) = bit off 15 \<and> ip_dont_frag (pk_ip q) = bit off 14 \<and>
      ip_more_frag (pk_ip q) = bit off 13 \<and> ip_offset (pk_ip q) = ntohs off AND IP_OFFMASK)"
  unfolding analyze_ip_def Let_def
  by (intro on_return_eq_intros)
     (use assms in \<open>simp_all add: ip_flag_gt_0 setOption_def setIPv4Value_def\<close>)

text \<open>
  analyze_ip tests the three fragmentation flags on the word as it lies in memory: on a little-
  endian host they come from the low byte of the fragment offset, not from the flag bits, while
  the offset itself is read in network order.
\<close>

theorem ip_flags_from_low_byte:
  assumes run: "analyze_ip m packet data = Inr (q, hlen)"
  shows "ip_rsv_frag (pk_ip q) = bit (m ! nat (data + 7)) 7 \<and>
     ip_dont_frag (pk_ip q) = bit (m ! nat (data + 7)) 6 \<and>
     ip_more_frag (pk_ip q) = bit (m ! nat (data + 7)) 5 \<and>
     ip_offset (pk_ip q) = be16 (m ! nat (data + 6)) (m ! nat (data + 7)) AND 0x1fff"
proof -
  obtain off where off: "rd16 m (data + 6) = Inr off"
    using run by (auto simp: analyze_ip_def bindr_Inr_iff)
  then have "0 \<le> data + 6" and "off = le16 (m ! nat (data + 6)) (m ! (nat (data + 6) + 1))"
    by (auto simp: rd16_Inr_iff in_range_def)
  moreover from this(1) have "nat (data + 6) + 1 = nat (data + 7)" by linarith
  ultimately show ?thesis
    using on_returnD [OF analyze_ip_off [OF off] run]
    by (simp add: bit_le16 IP_OFFMASK_def)
qed

text \<open>
  Of a captured echo message the object gets type, code and checksum as stored, and of the
  identifier and sequence number only the sign-extended low byte, because the swapped words are
  shifted right by 8.
\<close>

theorem icmp_echo_received:
  assumes "icmp_type f = ICMP_ECHO \<or> icmp_type f = ICMP_ECHOREPLY"
  shows "analyze_icmp na va (pre @ icmp_echo f data c @ post) packet (int (length pre)) clen =
     Inr (packet\<lparr>pk_icmp := (pk_icmp packet)\<lparr>icmp_type := icmp_type f, icmp_code := icmp_code f,
       icmp_checksum := c, icmp_id := scast (ucast (icmp_id f) :: u8),
       icmp_seq := scast (ucast (icmp_seq f) :: u8)\<rparr>\<rparr>)"
proof -
  let ?w = "icmp_echo f data c"
  have len: "8 \<le> length ?w" "?w \<noteq> []" by (auto simp: icmp_echo_def)
  have nth: "?w ! 0 = icmp_type f" "?w ! 1 = icmp_code f" "le16 (?w ! 2) (?w ! 3) = c"
    "le16 (?w ! 4) (?w ! 5) = htons (icmp_id f)" "le16 (?w ! 6) (?w ! 7) = htons (icmp_seq f)"
    by (simp_all add: icmp_echo_def bytes16_def htons_def)
  have seven: "n = 7" if "7 \<le> n" and "\<not> 8 \<le> n" for n :: nat
    using that by linarith
  have low: "signed_drop_bit 8 (htons x) = scast (ucast x :: u8)" for x
    by (rule bit_word_eqI)
       (auto simp: bit_signed_drop_bit_iff bit_signed_iff bit_ucast_iff htons_def bit_le16
          bit_byte_at min_def dest: seven)
  have type: "rd8 (pre @ ?w @ post) (int (length pre)) = Inr (icmp_type f)"
    "rd8 (pre @ ?w @ post) (int (length pre) + 1) = Inr (icmp_code f)"
    "rd16 (pre @ ?w @ post) (int (length pre) + 2) = Inr c"
    "rd16 (pre @ ?w @ post) (int (length pre) + 4) = Inr (htons (icmp_id f))"
    "rd16 (pre @ ?w @ post) (int (length pre) + 6) = Inr (htons (icmp_seq f))"
    using len by (simp_all add: window nth [simplified])
  have plain: "icmp_type f \<noteq> ICMP_REDIRECT" "icmp_type f \<noteq> ICMP_UNREACH"
    "icmp_type f \<noteq> ICMP_SOURCEQUENCH" "icmp_type f \<noteq> ICMP_TIMXCEED"
    "icmp_type f \<noteq> ICMP_PARAMPROB" "icmp_type f \<noteq> ICMP_ROUTERADVERT"
    "icmp_type f \<noteq> ICMP_TSTAMP" "icmp_type f \<noteq> ICMP_TSTAMPREPLY"
    "icmp_type f \<noteq> ICMP_MASKREQ" "icmp_type f \<noteq> ICMP_MASKREPLY"
    using assms by (auto simp: layout)
  have echo: "icmp_type f = ICMP_ECHOREPLY \<or> icmp_type f = ICMP_ECHO \<or> icmp_type f > ICMP_PARAMPROB"
    using assms by auto
  show ?thesis
    by (simp add: analyze_icmp_def type plain echo low icmp_setValue_def icmp_setID_def)
qed

text \<open>
  The address list of an IPv6 routing header is n copies of the first address, and data ends
  16*n bytes further on.
\<close>

theorem routing_header_addresses:
  assumes "routing_addrs m n p data = Inr (addrs, data')"
  shows "addrs = replicate n (take 16 (drop (nat p) m)) \<and> data' = data + 16 * int n"
proof -
  have "addrs = replicate n (take 16 (drop (nat p) m))"
    using assms
  proof (induction n arbitrary: data addrs)
    case 0
    then show ?case by simp
  next
    case (Suc n)
    then obtain as where "routing_addrs m n p (data + 16) = Inr (as, data')"
      and "addrs = take 16 (drop (nat p) m) # as"
      by (auto simp: bindr_Inr_iff new_array_Inr_iff)
    then show ?case using Suc.IH by simp
  qed
  with routing_addrs_data [OF assms] show ?thesis by simp
qed

lemma analyze_options_ip:
  "analyze_options m proto data hlen p = Inr (q, h) \<Longrightarrow> pk_ip q = pk_ip p"
proof (induction m proto data hlen p rule: analyze_options.induct)
  case (1 m proto data hlen p)
  show ?case
  proof (cases "is_ext proto")
    case False
    with "1.prems" show ?thesis by (subst (asm) analyze_options.simps) simp
  next
    case True
    with "1.prems" obtain nxt len opt hlen' data' where
      nxt: "rd8 m (at_ip6e_nxt data) = Inr nxt" and len: "rd8 m (at_ip6e_len data) = Inr len"
      and opt: "analyze_option m proto nxt len data hlen = Inr (opt, hlen', data')"
      and rest: "analyze_options m nxt data' hlen' (addOptionHeader opt p) = Inr (q, h)"
      by (subst (asm) analyze_options.simps) (auto simp: bindr_Inr_iff)
    have "pk_ip q = pk_ip (addOptionHeader opt p)"
      by (rule "1.IH" [OF True nxt len opt refl refl rest])
    then show ?thesis by (simp add: addOptionHeader_def split: option.splits)
  qed
qed

lemma class_bits_lost: "(ucast ((flow :: u32) AND 0x0ff00000) :: jbyte) = 0"
proof -
  have "(ucast (flow AND push_bit 20 (mask 8)) :: jbyte) = 0"
    by (rule bit_word_eqI) (simp add: bit_simps)
  then show ?thesis by (simp add: mask_numeral)
qed

text \<open>
  analyze_ipv6 casts the masked flow word to a byte before shifting it, so the traffic class of
  every captured IPv6 packet is zero.
\<close>

theorem ipv6_class_never_read:
  assumes run: "analyze_ipv6 m packet data = Inr (q, hlen)"
  shows "ip_priority (pk_ip q) = 0"
proof -
  have "on_return (analyze_ipv6 m packet data) (\<lambda>(q, hlen). ip_priority (pk_ip q) = 0)"
    unfolding analyze_ipv6_def Let_def class_bits_lost
    by (intro on_return_eq_intros)
       (auto dest!: analyze_options_ip simp: setIPv6Value_def)
  with run show ?thesis by (auto simp: on_return_def)
qed

section \<open>The class of the object\<close>

lemma fill_packet_class:
  "on_return (fill_packet n j lt cap m nproto tproto p) (\<lambda>q. pk_class q = pk_class p)"
proof -
  have arrays: "on_return (set_arrays m data clen r) (\<lambda>q. pk_class q = pk_class p)"
    if "pk_class r = pk_class p" for data clen r
    unfolding set_arrays_def Let_def
    by (intro returns) (simp_all add: that setPacketHeader_def setPacketData_def)
  have transport: "on_return (bindr (analyze_transport n j m tproto data clen q)
      (\<lambda>(packet, hlen). let h = f hlen; c = k hlen; d = g hlen in set_arrays m d c packet))
      (\<lambda>q. pk_class q = pk_class p)" if "same_capture p q" for data clen q f k g
    by (rule on_return_seq [OF analyze_transport_capture])
       (use that in \<open>auto intro!: arrays returns simp: same_capture_def\<close>)
  show ?thesis
    unfolding fill_packet_def Let_def
    by (intro on_return_bindr on_return_seq [OF analyze_network_capture])
       (auto intro!: returns transport [unfolded Let_def])
qed

lemma get_packet_class:
  assumes "get_packet n j lt header m = Inr q"
  obtains nproto clen tproto clen' where
    "network_protocol m lt (caplen header) = Inr (nproto, clen)"
    and "transport_protocol j m lt nproto clen = Inr (tproto, clen')"
    and "pk_class q = packet_class nproto tproto"
proof -
  obtain nproto clen tproto clen' dl where
    "network_protocol m lt (caplen header) = Inr (nproto, clen)"
    "transport_protocol j m lt nproto clen = Inr (tproto, clen')"
    and fill: "fill_packet n j lt (caplen header) m nproto tproto (setDatalinkPacket dl
      (setPacketValue (ts_sec header) (ts_usec header) (caplen header) (wire_len header)
      (AllocObject (packet_class nproto tproto)))) = Inr q"
    using assms by (auto simp: get_packet_def bindr_Inr_iff Let_def)
  moreover have "pk_class q = packet_class nproto tproto"
    using on_returnD [OF fill_packet_class fill]
    by (simp add: setDatalinkPacket_def setPacketValue_def AllocObject_def)
  ultimately show ?thesis using that by blast
qed

text \<open>
  An IPv6 packet with an extension header: the walk starts at the IPv6 header, whose first byte
  \<open>0x6?\<close> it takes for the next protocol, so the packet is never a TCP, UDP or ICMP packet.
\<close>

lemma version_6_byte:
  assumes "drop_bit 4 (b :: u8) = 6"
  shows "\<not> is_ext_proto (ucast b)" and "b \<noteq> IPPROTO_TCP" and "b \<noteq> IPPROTO_UDP"
    and "b \<noteq> IPPROTO_ICMP" and "b \<noteq> IPPROTO_ESP" and "b \<noteq> IPPROTO_NONE"
proof -
  have "(ucast (ucast b :: u16) :: u8) = b"
    by (rule bit_word_eqI) (auto simp: bit_simps dest: bit_imp_le_length)
  then show "\<not> is_ext_proto (ucast b)"
    using assms by (auto simp: is_ext_proto_def is_ext_def layout)
  show "b \<noteq> IPPROTO_TCP" and "b \<noteq> IPPROTO_UDP"
    and "b \<noteq> IPPROTO_ICMP" and "b \<noteq> IPPROTO_ESP" and "b \<noteq> IPPROTO_NONE"
    using assms by (auto simp: layout)
qed

lemma walk_ext_version_6:
  assumes "rd8 m dp = Inr b" and b: "drop_bit 4 b = 6" and "is_ext_proto tproto"
    and run: "walk_ext m tproto dp clen = Inr (t, clen')"
  shows "t = ucast b \<or> t = tproto"
proof (cases "sint clen > 0")
  case False
  with run show ?thesis by (subst (asm) walk_ext.simps) simp
next
  case True
  have stop: "walk_ext m (ucast b) p c = Inr (ucast b, c)" for p c
    using version_6_byte(1) [OF b] by (subst walk_ext.simps) simp
  have "b \<noteq> IPPROTO_ESP" "b \<noteq> IPPROTO_NONE" by (rule version_6_byte [OF b])+
  with run True assms(1,3) show ?thesis
    by (subst (asm) walk_ext.simps) (auto simp: bindr_Inr_iff Let_def stop)
qed

lemma u16_proto: "(ucast (x :: u8) :: u16) = ucast y \<longleftrightarrow> x = y"
  by (simp add: word_uint_eq_iff uint_ucast_8_16)

lemma packet_class_ipv6:
  assumes "tproto \<noteq> ucast IPPROTO_TCP" "tproto \<noteq> ucast IPPROTO_UDP" "tproto \<noteq> ucast IPPROTO_ICMP"
  shows "packet_class ETHERTYPE_IPV6 tproto = IPPacketC"
  using assms by (auto simp: packet_class_def layout)

lemma check_truncated_short:
  assumes "sint clen \<le> 0"
  shows "check_truncated t clen \<noteq> ucast IPPROTO_TCP \<and> check_truncated t clen \<noteq> ucast IPPROTO_UDP \<and>
     check_truncated t clen \<noteq> ucast IPPROTO_ICMP"
  using assms by (auto simp: check_truncated_def layout)

text \<open>
  C39. An IPv6 frame with any extension header is never recognised as TCP, UDP or ICMP: the walk
  starts at the IPv6 header itself and takes its version byte for the next protocol.
\<close>

theorem ipv6_extension_hides_transport:
  assumes run: "get_packet n j DLT_EN10MB header m = Inr q"
    and type: "rd16 m 12 = Inr (htons ETHERTYPE_IPV6)"
    and ver: "rd8 m 14 = Inr b" "drop_bit 4 b = 6"
    and nxt: "rd8 m 20 = Inr nxt" "is_ext nxt"
  shows "pk_class q = IPPacketC"
proof -
  obtain nproto clen tproto clen' where
    np: "network_protocol m DLT_EN10MB (caplen header) = Inr (nproto, clen)"
    and tp: "transport_protocol j m DLT_EN10MB nproto clen = Inr (tproto, clen')"
    and cls: "pk_class q = packet_class nproto tproto"
    using run by (rule get_packet_class)
  have nproto: "nproto = ETHERTYPE_IPV6"
    using np type
    by (simp add: network_protocol_def get_network_type_def datalink_hlen_def DLT_EN10MB_def
        DLT_RAW_def DLT_IEEE802_def)
  have ext: "is_ext_proto (ucast nxt)"
  proof -
    have "(ucast (ucast nxt :: u16) :: u8) = nxt"
      by (rule bit_word_eqI) (auto simp: bit_simps dest: bit_imp_le_length)
    moreover have "(ucast nxt :: u16) < 256"
      using uint_lt2p [of nxt] by (simp add: word_less_def uint_ucast_8_16)
    ultimately show ?thesis using nxt(2) by (simp add: is_ext_proto_def)
  qed
  have ne: "ETHERTYPE_IPV6 \<noteq> ETHERTYPE_IP" by (simp add: layout)
  obtain t where t: "detect_transport j m DLT_EN10MB ETHERTYPE_IPV6 clen = Inr (t, clen')"
    and tproto: "tproto = check_truncated t clen'"
    using tp unfolding nproto by (auto simp: transport_protocol_def bindr_Inr_iff)
  consider (walk) c where "walk_ext m (ucast nxt) 14 c = Inr (t, clen')"
    | (junk) "sint clen' \<le> 0"
    using t ne nxt(1)
    by (auto simp: detect_transport_def bindr_Inr_iff Let_def skip_datalink_header_def
        datalink_hlen_def not_less split: if_splits)
  then have "tproto \<noteq> ucast IPPROTO_TCP \<and> tproto \<noteq> ucast IPPROTO_UDP \<and> tproto \<noteq> ucast IPPROTO_ICMP"
  proof cases
    case walk
    then have "t = ucast b \<or> t = ucast nxt"
      using walk_ext_version_6 [OF ver ext] by auto
    moreover have "nxt \<noteq> IPPROTO_TCP \<and> nxt \<noteq> IPPROTO_UDP \<and> nxt \<noteq> IPPROTO_ICMP"
      using nxt(2) by (auto simp: is_ext_def layout)
    ultimately have "t \<noteq> ucast IPPROTO_TCP \<and> t \<noteq> ucast IPPROTO_UDP \<and> t \<noteq> ucast IPPROTO_ICMP"
      using version_6_byte [OF ver(2)] by (auto simp: u16_proto)
    then show ?thesis using tproto by (simp add: check_truncated_def)
  next
    case junk
    then show ?thesis unfolding tproto by (rule check_truncated_short)
  qed
  then show ?thesis unfolding cls nproto by (intro packet_class_ipv6) auto
qed

section \<open>The type of the object\<close>

text \<open>
  An object is well typed when only fields its class has were ever set: the fields each class
  declares are zero in the objects that are no instances of it. A setter of a class called on an
  object of another one breaks this.
\<close>

definition well_typed :: "jpacket \<Rightarrow> bool" where
  "well_typed q \<longleftrightarrow>
     (IsInstanceOf q IPPacketC \<or> pk_ip q = zero_ip \<and> pk_options q = None) \<and>
     (IsInstanceOf q TCPPacketC \<or> pk_tcp q = zero_tcp) \<and>
     (IsInstanceOf q UDPPacketC \<or> pk_udp q = zero_udp) \<and>
     (IsInstanceOf q ICMPPacketC \<or> pk_icmp q = zero_icmp) \<and>
     (IsInstanceOf q ARPPacketC \<or> pk_arp q = zero_arp)"

text \<open>What a step of the analysis must keep: it leaves the class alone and the object well typed.\<close>

definition typed_step :: "jpacket \<Rightarrow> jpacket \<Rightarrow> bool" where
  "typed_step p q \<longleftrightarrow> pk_class q = pk_class p \<and> (well_typed p \<longrightarrow> well_typed q)"

lemma typed_step_refl [simp]: "typed_step p p"
  by (simp add: typed_step_def)

lemma typed_step_trans: "typed_step p q \<Longrightarrow> typed_step q r \<Longrightarrow> typed_step p r"
  by (simp add: typed_step_def)

lemma analyze_ip_typed:
  "IsInstanceOf p IPPacketC \<Longrightarrow> on_return (analyze_ip m p data) (\<lambda>(q, h). typed_step p q)"
  unfolding analyze_ip_def Let_def
  by (intro returns) (simp_all add: setOption_def typed_step_def well_typed_def IsInstanceOf_def)

lemma analyze_tcp_typed:
  "pk_class p = TCPPacketC \<Longrightarrow> on_return (analyze_tcp m p data) (\<lambda>(q, h). typed_step p q)"
  unfolding analyze_tcp_def Let_def
  by (intro returns) (simp_all add: typed_step_def well_typed_def IsInstanceOf_def)

lemma analyze_udp_typed:
  "pk_class p = UDPPacketC \<Longrightarrow> on_return (analyze_udp m p data) (typed_step p)"
  unfolding analyze_udp_def
  by (intro returns) (simp add: typed_step_def well_typed_def IsInstanceOf_def)

lemma analyze_arp_typed:
  "pk_class p = ARPPacketC \<Longrightarrow> on_return (analyze_arp m p data) (\<lambda>(q, h). typed_step p q)"
  unfolding analyze_arp_def
  by (intro returns) (simp add: typed_step_def well_typed_def IsInstanceOf_def)

lemma analyze_icmp_typed:
  assumes "pk_class p = ICMPPacketC"
  shows "on_return (analyze_icmp n va m p data clen) (typed_step p)"
proof -
  have icmp: "typed_step p (q\<lparr>pk_icmp := i\<rparr>)" if "typed_step p q" for q i
    using that assms by (auto simp: typed_step_def well_typed_def IsInstanceOf_def)
  have first: "on_return (if b then bindr (rd16 m a) (\<lambda>x. bindr (rd16 m a') (\<lambda>y.
      Inr (q\<lparr>pk_icmp := g x y (pk_icmp q)\<rparr>))) else Inr q) (typed_step p)" if "typed_step p q" for b a a' g q
    by (intro returns) (simp_all add: icmp that)
  show ?thesis
    unfolding analyze_icmp_def Let_def
    by (intro on_return_seq [OF first] returns) (simp_all add: icmp)
qed

lemma analyze_options_typed:
  "analyze_options m proto data hlen p = Inr (q, h) \<Longrightarrow> IsInstanceOf p IPPacketC \<Longrightarrow> typed_step p q"
proof (induction m proto data hlen p rule: analyze_options.induct)
  case (1 m proto data hlen p)
  show ?case
  proof (cases "is_ext proto")
    case False
    with "1.prems" show ?thesis by (subst (asm) analyze_options.simps) simp
  next
    case True
    with "1.prems" obtain nxt len opt hlen' data' where
      nxt: "rd8 m (at_ip6e_nxt data) = Inr nxt" and len: "rd8 m (at_ip6e_len data) = Inr len"
      and opt: "analyze_option m proto nxt len data hlen = Inr (opt, hlen', data')"
      and rest: "analyze_options m nxt data' hlen' (addOptionHeader opt p) = Inr (q, h)"
      by (subst (asm) analyze_options.simps) (auto simp: bindr_Inr_iff)
    have add: "typed_step p (addOptionHeader opt p)" "IsInstanceOf (addOptionHeader opt p) IPPacketC"
      using "1.prems"(2)
      by (auto simp: addOptionHeader_def typed_step_def well_typed_def IsInstanceOf_def split: option.split)
    have "typed_step (addOptionHeader opt p) q"
      by (rule "1.IH" [OF True nxt len opt refl refl rest add(2)])
    then show ?thesis by (rule typed_step_trans [OF add(1)])
  qed
qed

lemma analyze_ipv6_typed:
  assumes "IsInstanceOf p IPPacketC"
  shows "on_return (analyze_ipv6 m p data) (\<lambda>(q, h). typed_step p q)"
proof -
  have step: "typed_step p (p\<lparr>pk_ip := f\<rparr>)" "IsInstanceOf (p\<lparr>pk_ip := f\<rparr>) IPPacketC" for f
    using assms by (simp_all add: typed_step_def well_typed_def IsInstanceOf_def)
  have "on_return (analyze_options m proto d l (p\<lparr>pk_ip := f\<rparr>)) (\<lambda>(q, h). typed_step p q)"
    for proto d l f
    using analyze_options_typed step typed_step_trans by (fastforce simp: on_return_def)
  then have opts: "on_return (bindr (analyze_options m proto d l (p\<lparr>pk_ip := f\<rparr>))
      (\<lambda>(packet, hlen). Inr (packet, of_int hlen))) (\<lambda>(q, h). typed_step p q)" for proto d l f
    by (rule on_return_seq) (auto intro: returns)
  show ?thesis
    unfolding analyze_ipv6_def Let_def by (rule opts returns)+
qed

text \<open>
  The class the code chooses fits the analyses it then runs: for ARP this takes the check for
  truncated packets, since a short ARP packet leaves \<open>tproto\<close> as it was on the stack.
\<close>

lemma packet_class_typed:
  assumes "transport_protocol j m lt nproto clen = Inr (tproto, clen')"
  shows "nproto = ETHERTYPE_IP \<or> nproto = ETHERTYPE_IPV6 \<Longrightarrow> packet_class nproto tproto \<le> IPPacketC"
    and "nproto = ETHERTYPE_ARP \<Longrightarrow> packet_class nproto tproto = ARPPacketC"
    and "tproto = ucast IPPROTO_TCP \<Longrightarrow> packet_class nproto tproto = TCPPacketC"
    and "tproto = ucast IPPROTO_UDP \<Longrightarrow> packet_class nproto tproto = UDPPacketC"
    and "tproto = ucast IPPROTO_ICMP \<Longrightarrow> packet_class nproto tproto = ICMPPacketC"
proof -
  have ne: "ETHERTYPE_ARP \<noteq> ETHERTYPE_IP" "ETHERTYPE_ARP \<noteq> ETHERTYPE_IPV6" "IPPROTO_TCP \<noteq> IPPROTO_UDP"
    "IPPROTO_TCP \<noteq> IPPROTO_ICMP" "IPPROTO_UDP \<noteq> IPPROTO_ICMP" "ETHERTYPE_ARP \<noteq> ucast IPPROTO_TCP"
    "ETHERTYPE_ARP \<noteq> ucast IPPROTO_UDP" "ETHERTYPE_ARP \<noteq> ucast IPPROTO_ICMP"
    by (simp_all add: layout)
  show "nproto = ETHERTYPE_IP \<or> nproto = ETHERTYPE_IPV6 \<Longrightarrow> packet_class nproto tproto \<le> IPPacketC"
    by (auto simp: packet_class_def)
  show "tproto = ucast IPPROTO_TCP \<Longrightarrow> packet_class nproto tproto = TCPPacketC"
    "tproto = ucast IPPROTO_UDP \<Longrightarrow> packet_class nproto tproto = UDPPacketC"
    "tproto = ucast IPPROTO_ICMP \<Longrightarrow> packet_class nproto tproto = ICMPPacketC"
    using ne by (auto simp: packet_class_def u16_proto)
  show "packet_class nproto tproto = ARPPacketC" if arp: "nproto = ETHERTYPE_ARP"
  proof -
    obtain t where t: "detect_transport j m lt ETHERTYPE_ARP clen = Inr (t, clen')"
      and tproto: "tproto = check_truncated t clen'"
      using assms unfolding arp by (auto simp: transport_protocol_def bindr_Inr_iff)
    consider "t = ETHERTYPE_ARP" | "sint clen' \<le> 0"
      using t ne by (auto simp: detect_transport_def Let_def not_less split: if_splits)
    then have "tproto \<noteq> ucast IPPROTO_TCP \<and> tproto \<noteq> ucast IPPROTO_UDP \<and> tproto \<noteq> ucast IPPROTO_ICMP"
    proof cases
      case 1
      with ne show ?thesis by (auto simp: tproto check_truncated_def)
    next
      case 2
      then show ?thesis unfolding tproto by (rule check_truncated_short)
    qed
    then show ?thesis using ne by (simp add: arp packet_class_def)
  qed
qed

lemma fill_packet_typed:
  assumes tp: "transport_protocol j m lt nproto clen = Inr (tproto, clen')"
    and p: "pk_class p = packet_class nproto tproto"
  shows "on_return (fill_packet n j' lt' cap m nproto tproto p) (typed_step p)"
proof -
  note cls = packet_class_typed [OF tp, folded p]
  have arrays: "on_return (set_arrays m data clen r) (typed_step p)" if "typed_step p r" for data clen r
    using typed_step_trans [OF that] unfolding set_arrays_def Let_def
    by (intro returns)
       (simp_all add: setPacketHeader_def setPacketData_def typed_step_def [of r] well_typed_def IsInstanceOf_def)
  have trans: "on_return (analyze_transport n j' m tproto data clen q) (\<lambda>(r, h). typed_step p r)"
    if q: "typed_step p q" for data clen q
  proof -
    have pair: "on_return (Inr (r, h)) (\<lambda>(r, h). typed_step q r)" if "typed_step q r" for r and h :: jshort
      using that by (simp add: on_return_Inr)
    have "pk_class q = pk_class p" using q by (simp add: typed_step_def)
    then have "on_return (analyze_transport n j' m tproto data clen q) (\<lambda>(r, h). typed_step q r)"
      using cls(3-5) unfolding analyze_transport_def
      by (intro on_return_if analyze_tcp_typed on_return_seq [OF analyze_udp_typed pair]
        on_return_seq [OF analyze_icmp_typed pair] pair) simp_all
    then show ?thesis using typed_step_trans [OF q] by (auto simp: on_return_def)
  qed
  have net: "on_return (analyze_network m lt' nproto cap data p) (\<lambda>(q, c, h). typed_step p q)" for data
  proof -
    have pair: "on_return (case x of (packet, h) \<Rightarrow> Inr (packet, f h)) (\<lambda>(q, c, h). typed_step p q)"
      if "case x of (q, h) \<Rightarrow> typed_step p q" for x and f :: "'h \<Rightarrow> jshort \<times> jshort"
      using that by (cases x) (simp add: on_return_def)
    show ?thesis
      using cls(1,2) unfolding analyze_network_def IsInstanceOf_def [symmetric]
      by (intro on_return_if on_return_seq [OF analyze_ip_typed] on_return_seq [OF analyze_ipv6_typed]
          on_return_seq [OF analyze_arp_typed] pair on_return_bindr on_return_Inr) simp_all
  qed
  have transport: "on_return (bindr (analyze_transport n j' m tproto data clen q)
      (\<lambda>(packet, hlen). let h = f hlen; c = k hlen; d = g hlen in set_arrays m d c packet))
      (typed_step p)" if "typed_step p q" for data clen q f k g
    by (rule on_return_seq [OF trans [OF that]]) (auto intro!: arrays returns)
  show ?thesis
    unfolding fill_packet_def Let_def
    by (intro on_return_bindr on_return_seq [OF net])
       (auto intro!: returns transport [unfolded Let_def])
qed

text \<open>
  C35. Type safety of the analysis: whatever the frame, the link type and the contents of the
  uninitialised variables, an object get_packet returns is well typed. The class chosen from the
  protocols before the object is allocated fits every setter the network and transport analyses
  then call on it: the fields of IPPacket, TCPPacket, UDPPacket, ICMPPacket and ARPPacket are
  still zero in every object that is no instance of that class.
\<close>

theorem captured_object_well_typed:
  assumes run: "get_packet n j lt header m = Inr q"
  shows "well_typed q"
proof -
  obtain nproto clen tproto clen' dl where
    tp: "transport_protocol j m lt nproto clen = Inr (tproto, clen')"
    and fill: "fill_packet n j lt (caplen header) m nproto tproto (setDatalinkPacket dl
      (setPacketValue (ts_sec header) (ts_usec header) (caplen header) (wire_len header)
      (AllocObject (packet_class nproto tproto)))) = Inr q"
    using run by (auto simp: get_packet_def bindr_Inr_iff Let_def)
  let ?p = "setDatalinkPacket dl (setPacketValue (ts_sec header) (ts_usec header) (caplen header)
      (wire_len header) (AllocObject (packet_class nproto tproto)))"
  have new: "pk_class ?p = packet_class nproto tproto" "well_typed ?p"
    by (simp_all add: setDatalinkPacket_def setPacketValue_def AllocObject_def well_typed_def)
  from on_returnD [OF fill_packet_typed [OF tp new(1)] fill] new(2) show ?thesis
    by (simp add: typed_step_def)
qed

section \<open>The class of IPv4 packets\<close>

text \<open>The class an IPv4 frame calls for, with \<open>rest\<close> bytes behind its IP header.\<close>

definition ipv4_class :: "u8 \<Rightarrow> u16 \<Rightarrow> int \<Rightarrow> jclass" where
  "ipv4_class proto off rest =
     (if rest > 0 \<and> ntohs off AND 0x1fff = 0 then
        if proto = 6 \<and> rest \<ge> 20 then TCPPacketC
        else if proto = 17 \<and> rest \<ge> 8 then UDPPacketC
        else if proto = 1 \<and> rest \<ge> 8 then ICMPPacketC
        else IPPacketC
      else IPPacketC)"

lemma network_protocol_ether:
  assumes "rd16 m 12 = Inr (htons type)" and "n < 32768"
  shows "network_protocol m DLT_EN10MB (of_nat n) = Inr (type, to_short (int n - 14))"
  using assms
  by (simp add: network_protocol_def get_network_type_def datalink_hlen_def DLT_EN10MB_def
      DLT_RAW_def DLT_IEEE802_def ucast_of_nat_short short_of_nat)

lemma packet_class_ipv4:
  "packet_class ETHERTYPE_IP (ucast p) = (if p = IPPROTO_TCP then TCPPacketC
     else if p = IPPROTO_UDP then UDPPacketC else if p = IPPROTO_ICMP then ICMPPacketC
     else IPPacketC)"
  "packet_class ETHERTYPE_IP ETHERTYPE_IP = IPPacketC" "packet_class ETHERTYPE_IP (-1) = IPPacketC"
  "packet_class ETHERTYPE_IP 6 = TCPPacketC" "packet_class ETHERTYPE_IP 17 = UDPPacketC"
  "packet_class ETHERTYPE_IP 1 = ICMPPacketC"
  by (simp_all add: packet_class_def u16_proto) (simp_all add: layout)

lemma detect_transport_ipv4:
  assumes n: "14 < n" "n < 32768"
    and hl: "rd8 m 14 = Inr v" and off: "rd16 m 20 = Inr off" and proto: "rd8 m 23 = Inr p"
    and rest: "rest = int n - 14 - 4 * uint (v AND 0x0f)"
  shows "detect_transport j m DLT_EN10MB ETHERTYPE_IP (to_short (int n - 14)) =
      Inr (if rest > 0 \<and> ntohs off AND IP_OFFMASK = 0 then ucast p else ETHERTYPE_IP, to_short rest)"
    and "sint (to_short rest) = rest"
proof -
  have "0 \<le> uint (v AND 0x0f)" and "uint (v AND 0x0f) < 256"
    using uint_lt2p [of "v AND 0x0f"] by simp_all
  then have "- 32768 \<le> rest" and "rest < 32768" using n rest by linarith+
  then show s: "sint (to_short rest) = rest" by (simp add: sint_to_short)
  have s': "sint (to_short (int n - 14)) = int n - 14" using n by (simp add: sint_to_short)
  have "int n - 14 - push_bit 2 (uint (v AND 0x0f)) = rest"
    by (simp add: rest push_bit_eq_mult mult.commute)
  then show "detect_transport j m DLT_EN10MB ETHERTYPE_IP (to_short (int n - 14)) =
      Inr (if rest > 0 \<and> ntohs off AND IP_OFFMASK = 0 then ucast p else ETHERTYPE_IP, to_short rest)"
    using n(1) hl off proto
    by (simp add: detect_transport_def skip_datalink_header_def datalink_hlen_def s s' Let_def)
qed


section \<open>Variables read before they are written\<close>

lemma detect_transport_junk:
  assumes "40 < sint clen"
  shows "detect_transport j m lt nproto clen = detect_transport j' m lt nproto clen"
proof -
  have "sint (to_short (sint clen - 40)) = sint clen - 40"
    "sint (to_short (sint clen - 28)) = sint clen - 28"
    using assms sint_lt [of clen] by (simp_all add: sint_to_short)
  with assms show ?thesis by (simp add: detect_transport_def Let_def)
qed

lemma analyze_transport_junk:
  "analyze_transport na \<lparr>j_tproto = t, j_va = v\<rparr> = analyze_transport na \<lparr>j_tproto = t', j_va = v\<rparr>"
  by (intro ext) (simp add: analyze_transport_def)

lemma fill_packet_junk:
  "fill_packet na \<lparr>j_tproto = t, j_va = v\<rparr> lt cap m nproto tproto p =
     fill_packet na \<lparr>j_tproto = t', j_va = v\<rparr> lt cap m nproto tproto p"
  unfolding fill_packet_def analyze_transport_junk [of na t v t'] ..

text \<open>
  For frames of more than 54 bytes on Ethernet the uninitialised local variable tproto has no
  influence on the object get_packet builds.
\<close>

theorem tproto_initialised_for_long_frames:
  assumes "54 < n" and "n < 32768" and cap: "caplen header = of_nat n"
    and lt: "linktype = DLT_EN10MB"
  shows "get_packet na \<lparr>j_tproto = t, j_va = v\<rparr> linktype header m =
     get_packet na \<lparr>j_tproto = t', j_va = v\<rparr> linktype header m"
proof -
  let ?j = "\<lparr>j_tproto = t, j_va = v\<rparr>" and ?j' = "\<lparr>j_tproto = t', j_va = v\<rparr>"
  have tp: "transport_protocol ?j m lt nproto clen = transport_protocol ?j' m lt nproto clen"
    if "40 < sint clen" for lt nproto clen
    by (simp add: transport_protocol_def detect_transport_junk [OF that, where j = ?j and j' = ?j'])
  have short: "sint (to_short (int n - 14)) = int n - 14" "sint (to_short (int n)) = int n"
    using assms(1,2) by (simp_all add: sint_to_short)
  have clen: "40 < sint clen"
    if "network_protocol m DLT_EN10MB (of_nat n) = Inr (nproto, clen)" for nproto clen
  proof -
    have "clen = to_short (int n - 14)"
      using that assms(2)
      by (auto simp: network_protocol_def bindr_Inr_iff datalink_hlen_def DLT_EN10MB_def
          DLT_RAW_def DLT_IEEE802_def ucast_of_nat_short short_of_nat)
    then show ?thesis using short assms(1) by simp
  qed
  show ?thesis
    unfolding get_packet_def cap lt
  proof (rule bindr_cong [OF refl])
    fix x assume "network_protocol m DLT_EN10MB (of_nat n) = Inr x"
    then obtain nproto c where x: "x = (nproto, c)" and "40 < sint c"
      using clen by (cases x) auto
    then show "(case x of (nproto, clen) \<Rightarrow>
        bindr (transport_protocol ?j m DLT_EN10MB nproto clen) (\<lambda>(tproto, _).
        let packet = setPacketValue (ts_sec header) (ts_usec header) (of_nat n)
              (wire_len header) (AllocObject (packet_class nproto tproto))
        in bindr (analyze_datalink m 0 DLT_EN10MB) (\<lambda>dlpacket.
          fill_packet na ?j DLT_EN10MB (of_nat n) m nproto tproto
            (setDatalinkPacket dlpacket packet)))) =
      (case x of (nproto, clen) \<Rightarrow>
        bindr (transport_protocol ?j' m DLT_EN10MB nproto clen) (\<lambda>(tproto, _).
        let packet = setPacketValue (ts_sec header) (ts_usec header) (of_nat n)
              (wire_len header) (AllocObject (packet_class nproto tproto))
        in bindr (analyze_datalink m 0 DLT_EN10MB) (\<lambda>dlpacket.
          fill_packet na ?j' DLT_EN10MB (of_nat n) m nproto tproto
            (setDatalinkPacket dlpacket packet))))"
      using tp [of c DLT_EN10MB nproto] by (simp only: x prod.case fill_packet_junk [of na t v _ _ _ _ _ _ t'])
  qed
qed

section \<open>Frames cut short by the snapshot length\<close>

text \<open>
  A frame cut inside its transport header: \<open>tproto\<close> becomes \<open>-1\<close>, which is also the value of
  \<open>UNKNOWN_PROTO\<close>, so the clamp of the data length is skipped and the data is read past the end
  of the frame.
\<close>

lemma cut_transport_unknown:
  assumes sz: "length dmac = 6" "length smac = 6" "length src = 4" "length dst = 4"
    and f: "ip_offset f = 0"
    and m: "m = ether_bytes dmac smac ETHERTYPE_IP @ ipv4_header f src dst proto len ck @ rest"
    and proto: "proto = 6 \<and> length rest < 20 \<or> proto = 17 \<and> length rest < 8"
    and rest: "rest \<noteq> []"
  shows "transport_protocol j m DLT_EN10MB ETHERTYPE_IP (to_short (int (length m) - 14)) =
    Inr (UNKNOWN_PROTO, to_short (int (length m) - 34))"
proof -
  note reads = header_reads [OF sz m]
  have n: "length m < 32768" "34 < length m"
    using reads(6) proto rest by (auto simp: neq_Nil_conv)
  have s: "sint (to_short (int (length m) - 14)) = int (length m) - 14"
    "sint (to_short (int (length m) - 34)) = int (length m) - 34"
    using n by (simp_all add: sint_to_short)
  have ihl: "push_bit 2 (uint ((0x45 :: u8) AND 0x0f)) = 20" by simp
  have "detect_transport j m DLT_EN10MB ETHERTYPE_IP (to_short (int (length m) - 14)) =
      Inr (ucast proto, to_short (int (length m) - 34))"
    unfolding detect_transport_def
    using n off_word_flags(2) [OF f]
    by (simp add: skip_datalink_header_def datalink_hlen_def reads(2-4) s ihl Let_def)
  moreover have "sint (to_short (int (length m) - 34)) = int (length rest)"
    using s(2) reads(6) by simp
  then have "check_truncated (ucast proto) (to_short (int (length m) - 34)) = UNKNOWN_PROTO"
    using proto
    by (auto simp only: check_truncated_def TCPHDRLEN_def UDPHDRLEN_def IPPROTO_TCP_def
        IPPROTO_UDP_def of_nat_less_iff u16_proto if_True if_False simp_thms)
       (simp_all add: UNKNOWN_PROTO_def)
  ultimately show ?thesis by (simp add: transport_protocol_def)
qed

lemma unknown_transport_over_reads:
  assumes sz: "length dmac = 6" "length smac = 6" "length src = 4" "length dst = 4"
    and f: "ip_offset f = 0"
    and m: "m = ether_bytes dmac smac ETHERTYPE_IP @ ipv4_header f src dst proto (of_nat len) ck @ rest"
    and len: "20 + length rest < len" "len < 32768"
    and p: "pk_ip p = zero_ip"
  shows "fill_packet na j DLT_EN10MB clen m ETHERTYPE_IP UNKNOWN_PROTO p = Inl (OutOfBounds 34)"
proof -
  note reads = header_reads [OF sz m]
  have ip: "analyze_ip m p 14 = Inr (p\<lparr>pk_ip := ip_received f src dst proto (of_nat len)\<rparr>, 20)"
    using analyze_ip_header [OF sz(3,4) f p, of "ether_bytes dmac smac ETHERTYPE_IP" proto
        "of_nat len" ck rest] sz by (simp add: m)
  have "sint (of_nat len :: jshort) = int len" using len by (simp add: short_of_nat)
  moreover have s: "sint (to_short (int len - 20)) = int len - 20"
    using len by (simp add: sint_to_short)
  moreover have "\<not> ETHERTYPE_IP = UNKNOWN_PROTO" "UNKNOWN_PROTO \<noteq> ucast IPPROTO_TCP"
    "UNKNOWN_PROTO \<noteq> ucast IPPROTO_UDP" "UNKNOWN_PROTO \<noteq> ucast IPPROTO_ICMP"
    by (simp_all add: layout)
  moreover have "\<not> len < 20" using len by simp
  moreover have "set_arrays m 34 (to_short (int len - 20)) q = Inl (OutOfBounds 34)" for q
    using len reads(6) s
    by (simp add: set_arrays_def new_array_def rd_bytes_def in_range_def sint_to_short)
  ultimately show ?thesis
    by (simp add: fill_packet_def skip_datalink_header_def datalink_hlen_def analyze_network_def
        reads(5) ip analyze_transport_def Let_def)
qed


end
