(* ===== verification/Witnesses.thy ===== *)
theory Witnesses
  imports CaptureLaws
begin

text \<open>
  Concrete packets and frames, and the properties of the packet code applied to them: each
  hypothesis of a property can be met.
\<close>

section \<open>Sample packets\<close>

definition sample_ip :: ip_fields where
  "sample_ip = zero_ip\<lparr>ip_version := 4, ip_hop_limit := 64, ip_ident := 7, ip_dont_frag := True,
     ip_src_ip := Some (Inet4 [10, 0, 0, 1]), ip_dst_ip := Some (Inet4 [10, 0, 0, 2])\<rparr>"

definition sample_arp :: arp_fields where
  "sample_arp = zero_arp\<lparr>arp_hardtype := 1, arp_prototype := 0x0800, arp_hlen := 6, arp_plen := 4,
     arp_operation := 1, arp_sender_hardaddr := Some [2, 0, 0, 0, 0, 1],
     arp_sender_protoaddr := Some [10, 0, 0, 1], arp_target_hardaddr := Some [0, 0, 0, 0, 0, 0],
     arp_target_protoaddr := Some [10, 0, 0, 2]\<rparr>"

definition sample_packet :: "jclass \<Rightarrow> u16 \<Rightarrow> jbyteArray \<Rightarrow> jpacket" where
  "sample_packet c type data = (AllocObject c)\<lparr>pk_data := data, pk_ip := sample_ip,
     pk_datalink := Some (EthernetPacket \<lparr>eth_dst_mac = Some [2, 0, 0, 0, 0, 2],
       eth_src_mac = Some [2, 0, 0, 0, 0, 1], eth_frametype = type\<rparr>),
     pk_tcp := zero_tcp\<lparr>tcp_src_port := 1024, tcp_dst_port := 80, tcp_syn := True\<rparr>,
     pk_udp := zero_udp\<lparr>udp_src_port := 1024, udp_dst_port := 53\<rparr>,
     pk_icmp := zero_icmp\<lparr>icmp_type := 8, icmp_id := 1, icmp_seq := 2\<rparr>,
     pk_arp := sample_arp\<rparr>"

definition sample_buf :: mem where
  "sample_buf = replicate 1600 0"

definition sample_header :: "nat \<Rightarrow> pcap_pkthdr" where
  "sample_header n = \<lparr>ts_sec = 1, ts_usec = 2, caplen = of_nat n, wire_len = of_nat n\<rparr>"

lemma length_sample_buf [simp]: "length sample_buf = 1600"
  by (simp add: sample_buf_def)

lemma sample_sendable:
  "sendable (sample_packet c type (Some data)) [2, 0, 0, 0, 0, 2] [2, 0, 0, 0, 0, 1] type
     [10, 0, 0, 1] [10, 0, 0, 2] data"
  by (simp add: sendable_def sample_packet_def sample_ip_def AllocObject_def)

lemma sample_sendable_arp:
  "sendable_arp (sample_packet ARPPacketC type data) [2, 0, 0, 0, 0, 2] [2, 0, 0, 0, 0, 1] type
     [2, 0, 0, 0, 0, 1] [10, 0, 0, 1] [0, 0, 0, 0, 0, 0] [10, 0, 0, 2]"
  by (simp add: sendable_arp_def sample_packet_def sample_arp_def AllocObject_def)

lemma sample_fields [simp]:
  "pk_class (sample_packet c type data) = c" "pk_data (sample_packet c type data) = data"
  "pk_ip (sample_packet c type data) = sample_ip"
  "pk_icmp (sample_packet c type data) = zero_icmp\<lparr>icmp_type := 8, icmp_id := 1, icmp_seq := 2\<rparr>"
  "ip_priority sample_ip = 0" "ip_rsv_tos sample_ip = 0" "ip_offset sample_ip = 0"
  "caplen (sample_header n) = of_nat n"
  by (simp_all add: sample_packet_def sample_ip_def sample_header_def zero_ip_def AllocObject_def)

section \<open>Sending\<close>

lemma udp_frame_sent_witness:
  "\<exists>m. bytes_sent sample_buf (sample_packet UDPPacketC ETHERTYPE_IP (Some [1, 2, 3])) = Inr m"
  using udp_frame_sent [OF sample_sendable, of UDPPacketC ETHERTYPE_IP "[1, 2, 3]" sample_buf] by simp

lemma tcp_frame_sent_witness:
  "\<exists>m. bytes_sent sample_buf (sample_packet TCPPacketC ETHERTYPE_IP (Some [1, 2, 3])) = Inr m"
  using tcp_frame_sent [OF sample_sendable, of TCPPacketC ETHERTYPE_IP "[1, 2, 3]" sample_buf] by simp

lemma icmp_echo_frame_sent_witness:
  "\<exists>m. bytes_sent sample_buf (sample_packet ICMPPacketC ETHERTYPE_IP (Some [1, 2])) = Inr m"
  using icmp_echo_frame_sent [OF sample_sendable, of ICMPPacketC ETHERTYPE_IP "[1, 2]" sample_buf]
  by (simp add: ICMP_ECHO_def)

lemma arp_frame_sent_witness:
  "\<exists>m. bytes_sent sample_buf (sample_packet ARPPacketC ETHERTYPE_ARP None) = Inr m"
  using arp_frame_sent [OF sample_sendable_arp, of ETHERTYPE_ARP None sample_buf] by simp

lemma set_packet_frame_witness:
  "\<exists>n s. set_packet (sample_packet UDPPacketC ETHERTYPE_IP (Some [1, 2, 3])) 0 True
      \<lparr>sbuf = sample_buf, pending = None\<rparr> = Inr (n, s) \<and> length (sbuf s) = 1600"
proof -
  let ?p = "sample_packet UDPPacketC ETHERTYPE_IP (Some [1, 2, 3])"
  obtain m where "bytes_sent sample_buf ?p = Inr m"
    using udp_frame_bytes [OF sample_sendable, of UDPPacketC ETHERTYPE_IP "[1, 2, 3]" sample_buf] by auto
  then obtain n s where run: "set_packet ?p 0 True \<lparr>sbuf = sample_buf, pending = None\<rparr> = Inr (n, s)"
    by (auto simp: bytes_sent_def build_frame_def bindr_Inr_iff)
  then show ?thesis using set_packet_frame [OF run] by auto
qed

lemma udp_oversize_overflows_witness:
  "bytes_sent sample_buf (sample_packet UDPPacketC ETHERTYPE_IP (Some (replicate 1559 0))) =
     Inl (OutOfBounds 42)"
  by (rule udp_oversize_overflows [OF sample_sendable]) simp_all

section \<open>Sending and capturing\<close>

definition sample_junk :: junk where
  "sample_junk = \<lparr>j_tproto = 0, j_va = (0, 0)\<rparr>"

lemma udp_round_trip_witness:
  "\<exists>m q. bytes_sent sample_buf (sample_packet UDPPacketC ETHERTYPE_IP (Some [1, 2, 3])) = Inr m \<and>
     get_packet False sample_junk DLT_EN10MB (sample_header (length m)) m = Inr q \<and>
     pk_data q = Some [1, 2, 3]"
proof -
  let ?p = "sample_packet UDPPacketC ETHERTYPE_IP (Some [1, 2, 3])"
  obtain m where m: "bytes_sent sample_buf ?p = Inr m"
    using udp_frame_bytes [OF sample_sendable, of UDPPacketC ETHERTYPE_IP "[1, 2, 3]" sample_buf] by auto
  show ?thesis
    using udp_round_trip [OF sample_sendable _ _ _ _ m, of "sample_header (length m)" False sample_junk] m
    by (auto simp: captured_object_def)
qed

lemma tcp_round_trip_witness:
  "\<exists>m q. bytes_sent sample_buf (sample_packet TCPPacketC ETHERTYPE_IP (Some [1, 2, 3])) = Inr m \<and>
     get_packet False sample_junk DLT_EN10MB (sample_header (length m)) m = Inr q \<and>
     pk_data q = Some [1, 2, 3]"
proof -
  let ?p = "sample_packet TCPPacketC ETHERTYPE_IP (Some [1, 2, 3])"
  obtain m where m: "bytes_sent sample_buf ?p = Inr m"
    using tcp_frame_bytes [OF sample_sendable, of TCPPacketC ETHERTYPE_IP "[1, 2, 3]" sample_buf] by auto
  show ?thesis
    using tcp_round_trip [OF sample_sendable _ _ _ _ m, of "sample_header (length m)" False sample_junk] m
    by (auto simp: captured_object_def)
qed

lemma arp_round_trip_witness:
  "\<exists>m q. bytes_sent sample_buf (sample_packet ARPPacketC ETHERTYPE_ARP None) = Inr m \<and>
     get_packet False sample_junk DLT_EN10MB (sample_header (length m)) m = Inr q \<and>
     pk_arp q = sample_arp"
proof -
  let ?p = "sample_packet ARPPacketC ETHERTYPE_ARP None"
  obtain m where m: "bytes_sent sample_buf ?p = Inr m"
    using arp_frame_bytes [OF sample_sendable_arp, of ETHERTYPE_ARP None sample_buf] by auto
  have "pk_arp ?p = sample_arp" by (simp add: sample_packet_def)
  then show ?thesis
    using arp_round_trip [OF sample_sendable_arp _ _ m, of "sample_header (length m)" False sample_junk] m
    by (auto simp: captured_object_def)
qed

section \<open>Capturing\<close>

text \<open>An ARP request, a 60-byte IPv4/ICMP frame and an IPv6 frame with a hop-by-hop header.\<close>

definition arp_frame :: mem where
  "arp_frame = [255, 255, 255, 255, 255, 255, 2, 0, 0, 0, 0, 1, 8, 6, 0, 1, 8, 0, 6, 4, 0, 1,
     2, 0, 0, 0, 0, 1, 10, 0, 0, 1, 0, 0, 0, 0, 0, 0, 10, 0, 0, 2]"

definition ping_frame :: mem where
  "ping_frame = [2, 0, 0, 0, 0, 2, 2, 0, 0, 0, 0, 1, 8, 0, 0x45, 0, 0, 32, 0, 7, 0x40, 0, 64, 1, 0, 0,
     10, 0, 0, 1, 10, 0, 0, 2, 8, 0, 0, 0, 0, 1, 0, 2, 1, 2, 3, 4]"

definition ipv6_frame :: mem where
  "ipv6_frame = [2, 0, 0, 0, 0, 2, 2, 0, 0, 0, 0, 1, 0x86, 0xdd, 0x60, 0, 0, 0, 0, 16, 0, 64]
     @ replicate 32 1 @ [17, 0, 0, 0, 0, 0, 0, 0] @ replicate 40 0"

lemma captured_packet_is_cut_of_frame_witness:
  "\<exists>q. get_packet False sample_junk DLT_EN10MB (sample_header 42) arp_frame = Inr q \<and>
     cut_of_frame (sample_header 42) DLT_EN10MB arp_frame q"
proof -
  have "\<not> isl (get_packet False sample_junk DLT_EN10MB (sample_header 42) arp_frame)"
    by code_simp
  then obtain q where q: "get_packet False sample_junk DLT_EN10MB (sample_header 42) arp_frame = Inr q"
    by (cases "get_packet False sample_junk DLT_EN10MB (sample_header 42) arp_frame") auto
  moreover have "length arp_frame \<le> 65535" by (simp add: arp_frame_def)
  ultimately show ?thesis using captured_packet_is_cut_of_frame by blast
qed

lemma ip_flags_from_low_byte_witness:
  "\<exists>q hlen. analyze_ip ping_frame (AllocObject IPPacketC) 14 = Inr (q, hlen) \<and>
     \<not> ip_dont_frag (pk_ip q)"
proof -
  have "\<not> isl (analyze_ip ping_frame (AllocObject IPPacketC) 14)" by code_simp
  then obtain q hlen where q: "analyze_ip ping_frame (AllocObject IPPacketC) 14 = Inr (q, hlen)"
    by (cases "analyze_ip ping_frame (AllocObject IPPacketC) 14") auto
  moreover have "\<not> bit (ping_frame ! 21) 6" by (simp add: ping_frame_def)
  ultimately show ?thesis using ip_flags_from_low_byte [OF q] by auto
qed

lemma icmp_echo_received_witness:
  "\<exists>q. analyze_icmp False (0, 0) ([] @ icmp_echo (zero_icmp\<lparr>icmp_type := 8, icmp_id := 0x1234\<rparr>) [1, 2] 0 @ [])
     (AllocObject ICMPPacketC) 0 10 = Inr q \<and> icmp_id (pk_icmp q) = 0x34"
  using icmp_echo_received [of "zero_icmp\<lparr>icmp_type := 8, icmp_id := 0x1234\<rparr>" False "(0, 0)" "[]"
      "[1, 2]" 0 "[]" "AllocObject ICMPPacketC" 10]
  by (simp add: ICMP_ECHO_def)

lemma routing_header_addresses_witness:
  "\<exists>addrs. routing_addrs (replicate 40 1) 2 8 0 = Inr (addrs, 32) \<and> length addrs = 2"
proof -
  have "\<not> isl (routing_addrs (replicate 40 1) 2 8 0)" by code_simp
  then obtain addrs d where r: "routing_addrs (replicate 40 1) 2 8 0 = Inr (addrs, d)"
    by (cases "routing_addrs (replicate 40 1) 2 8 0") auto
  then show ?thesis using routing_header_addresses [OF r] by simp
qed

lemma ipv6_class_never_read_witness:
  "\<exists>q hlen. analyze_ipv6 ipv6_frame (AllocObject IPPacketC) 14 = Inr (q, hlen) \<and>
     ip_priority (pk_ip q) = 0"
proof -
  have "\<not> isl (analyze_ipv6 ipv6_frame (AllocObject IPPacketC) 14)" by code_simp
  then obtain q hlen where q: "analyze_ipv6 ipv6_frame (AllocObject IPPacketC) 14 = Inr (q, hlen)"
    by (cases "analyze_ipv6 ipv6_frame (AllocObject IPPacketC) 14") auto
  then show ?thesis using ipv6_class_never_read [OF q] by blast
qed

lemma ipv6_extension_hides_transport_witness:
  "\<exists>q. get_packet False sample_junk DLT_EN10MB (sample_header 102) ipv6_frame = Inr q \<and>
     pk_class q = IPPacketC"
proof -
  have "\<not> isl (get_packet False sample_junk DLT_EN10MB (sample_header 102) ipv6_frame)" by code_simp
  then obtain q where q: "get_packet False sample_junk DLT_EN10MB (sample_header 102) ipv6_frame = Inr q"
    by (cases "get_packet False sample_junk DLT_EN10MB (sample_header 102) ipv6_frame") auto
  moreover have "rd16 ipv6_frame 12 = Inr (htons ETHERTYPE_IPV6)" by code_simp
  moreover have "rd8 ipv6_frame 14 = Inr 0x60" "drop_bit 4 (0x60 :: u8) = 6" by code_simp+
  moreover have "rd8 ipv6_frame 20 = Inr 0" "is_ext 0" by code_simp+
  ultimately show ?thesis using ipv6_extension_hides_transport by blast
qed


lemma tproto_initialised_for_long_frames_witness:
  "get_packet False \<lparr>j_tproto = 0, j_va = (0, 0)\<rparr> DLT_EN10MB (sample_header 102) ipv6_frame =
     get_packet False \<lparr>j_tproto = 6, j_va = (0, 0)\<rparr> DLT_EN10MB (sample_header 102) ipv6_frame"
  by (rule tproto_initialised_for_long_frames [where n = 102]) simp_all


end
