(* ===== verification/JavaEnv.thy ===== *)
theory JavaEnv
  imports Prelude
begin

text \<open>
  \<open>set_Java_env\<close> of \<open>JpcapCaptor.c\<close>: the table of classes and methods the native code looks up once
  and keeps in global variables, and what becomes of it when a class is missing. The virtual
  machine is a parameter. The second half reads the JNI descriptors of the table and compares
  them with the arguments of the calls.
\<close>

section \<open>The tables\<close>

text \<open>One \<open>GlobalClassRef(var, name)\<close> per entry.\<close>

definition java_classes :: "(string \<times> string) list" where
  "java_classes =
     [(''Jpcap'', ''jpcap/JpcapCaptor''),
      (''JpcapHandler'', ''jpcap/PacketReceiver''),
      (''Packet'', ''jpcap/packet/Packet''),
      (''DatalinkPacket'', ''jpcap/packet/DatalinkPacket''),
      (''EthernetPacket'', ''jpcap/packet/EthernetPacket''),
      (''IPPacket'', ''jpcap/packet/IPPacket''),
      (''TCPPacket'', ''jpcap/packet/TCPPacket''),
      (''UDPPacket'', ''jpcap/packet/UDPPacket''),
      (''ICMPPacket'', ''jpcap/packet/ICMPPacket''),
      (''IPv6Option'', ''jpcap/packet/IPv6Option''),
      (''ARPPacket'', ''jpcap/packet/ARPPacket''),
      (''String'', ''java/lang/String''),
      (''Thread'', ''java/lang/Thread''),
      (''UnknownHostException'', ''java/net/UnknownHostException''),
      (''IOException'', ''java/io/IOException'')]"

text \<open>One \<open>var=GetMethodID(env, class, name, descriptor)\<close> per entry.\<close>

definition java_methods :: "(string \<times> string \<times> string \<times> string) list" where
  "java_methods =
     [(''handleMID'', ''JpcapHandler'', ''receivePacket'', ''(Ljpcap/packet/Packet;)V''),
      (''setPacketValueMID'', ''Packet'', ''setPacketValue'', ''(JJII)V''),
      (''setDatalinkPacketMID'', ''Packet'', ''setDatalinkPacket'', ''(Ljpcap/packet/DatalinkPacket;)V''),
      (''setPacketHeaderMID'', ''Packet'', ''setPacketHeader'', ''([B)V''),
      (''setPacketDataMID'', ''Packet'', ''setPacketData'', ''([B)V''),
      (''setEthernetValueMID'', ''EthernetPacket'', ''setValue'', ''([B[BS)V''),
      (''setIPValueMID'', ''IPPacket'', ''setIPv4Value'', ''(BBZZZBZZZSSSSS[B[B)V''),
      (''setIPv4OptionMID'', ''IPPacket'', ''setOption'', ''([B)V''),
      (''setIPv6ValueMID'', ''IPPacket'', ''setIPv6Value'', ''(BBISBS[B[B)V''),
      (''addIPv6OptHdrMID'', ''IPPacket'', ''addOptionHeader'', ''(Ljpcap/packet/IPv6Option;)V''),
      (''setTCPValueMID'', ''TCPPacket'', ''setValue'', ''(IIJJZZZZZZZZIS)V''),
      (''setTCPOptionMID'', ''TCPPacket'', ''setOption'', ''([B)V''),
      (''setUDPValueMID'', ''UDPPacket'', ''setValue'', ''(III)V''),
      (''setICMPValueMID'', ''ICMPPacket'', ''setValue'', ''(BBSSS)V''),
      (''setICMPIDMID'', ''ICMPPacket'', ''setID'', ''(SS)V''),
      (''setICMPTimestampMID'', ''ICMPPacket'', ''setTimestampValue'', ''(III)V''),
      (''setICMPRedirectIPMID'', ''ICMPPacket'', ''setRedirectIP'', ''([B)V''),
      (''getICMPRedirectIPMID'', ''ICMPPacket'', ''getRedirectIP'', ''()[B''),
      (''setICMPRouterAdMID'', ''ICMPPacket'', ''setRouterAdValue'', ''(BBS[Ljava/lang/String;[I)V''),
      (''setV6OptValueMID'', ''IPv6Option'', ''setValue'', ''(BBB)V''),
      (''setV6OptOptionMID'', ''IPv6Option'', ''setOptionData'', ''([B)V''),
      (''setV6OptRoutingMID'', ''IPv6Option'', ''setRoutingOption'', ''(BB[[B)V''),
      (''setV6OptFragmentMID'', ''IPv6Option'', ''setFragmentOption'', ''(SZI)V''),
      (''setV6OptAHMID'', ''IPv6Option'', ''setAHOption'', ''(II)V''),
      (''getSourceAddressMID'', ''IPPacket'', ''getSourceAddress'', ''()[B''),
      (''getDestinationAddressMID'', ''IPPacket'', ''getDestinationAddress'', ''()[B''),
      (''setARPValueMID'', ''ARPPacket'', ''setValue'', ''(SSSSS[B[B[B[B)V'')]"

section \<open>The lookup\<close>

text \<open>A virtual machine: its answers to \<open>FindClass\<close>, \<open>GetMethodID\<close> and \<open>GetFieldID\<close>.\<close>

record jvm =
  vm_FindClass :: "string \<Rightarrow> nat option"
  vm_GetMethodID :: "nat \<Rightarrow> string \<Rightarrow> string \<Rightarrow> nat option"
  vm_GetFieldID :: "nat \<Rightarrow> string \<Rightarrow> string \<Rightarrow> nat option"

text \<open>The global variables: a class reference, a method ID or a field ID may be \<open>NULL\<close>.\<close>

record java_env =
  class_ref :: "string \<Rightarrow> nat option"
  method_id :: "string \<Rightarrow> nat option"
  jpcapID :: "nat option"

definition java_env0 :: java_env where
  "java_env0 = \<lparr>class_ref = \<lambda>_. None, method_id = \<lambda>_. None, jpcapID = None\<rparr>"

definition find_classes :: "jvm \<Rightarrow> java_env \<Rightarrow> java_env" where
  "find_classes vm e =
     e\<lparr>class_ref := fold (\<lambda>(var, name) f. f(var := vm_FindClass vm name)) java_classes (class_ref e)\<rparr>"

definition find_methods :: "jvm \<Rightarrow> java_env \<Rightarrow> java_env" where
  "find_methods vm e =
     e\<lparr>method_id := fold (\<lambda>(var, cls, name, desc) f. f(var :=
          Option.bind (class_ref e cls) (\<lambda>c. vm_GetMethodID vm c name desc)))
          java_methods (method_id e),
       jpcapID := Option.bind (class_ref e ''Jpcap'') (\<lambda>c. vm_GetFieldID vm c ''ID'' ''I'')\<rparr>"

text \<open>
  The function. After the class lookups a pending exception (a class that was not found) is
  described, which clears it, and the function returns; so it does after the method lookups.
\<close>

definition set_Java_env :: "jvm \<Rightarrow> java_env \<Rightarrow> java_env" where
  "set_Java_env vm e =
     (if class_ref e ''Jpcap'' \<noteq> None then e
      else let e = find_classes vm e in
        if \<exists>(var, name) \<in> set java_classes. vm_FindClass vm name = None then e
        else find_methods vm e)"

section \<open>What the lookup leaves\<close>

lemma fold_upd_notin:
  "v \<notin> fst ` set xs \<Longrightarrow> fold (\<lambda>(var, x) f. f(var := g x)) xs h v = h v"
  by (induction xs arbitrary: h) auto

lemma fold_upd_in:
  "distinct (map fst xs) \<Longrightarrow> (v, x) \<in> set xs \<Longrightarrow> fold (\<lambda>(var, x) f. f(var := g x)) xs h v = g x"
proof (induction xs arbitrary: h)
  case (Cons p xs)
  obtain var y where p: "p = (var, y)" by (cases p) auto
  show ?case
  proof (cases "(v, x) \<in> set xs")
    case True
    then show ?thesis using Cons by (simp add: p)
  next
    case False
    then have "v = var" "x = y" using Cons.prems(2) by (auto simp: p)
    moreover have "var \<notin> fst ` set xs" using Cons.prems(1) by (simp add: p)
    ultimately show ?thesis
      using fold_upd_notin [of var xs g "h(var := g y)"]
      by (simp only: p fold_simps prod.case fun_upd_same not_False_eq_True simp_thms)
  qed
qed simp

lemma distinct_tables:
  "distinct (map fst java_classes)" "distinct (map fst java_methods)"
  by (simp_all add: java_classes_def java_methods_def)

lemma class_ref_found:
  "(var, name) \<in> set java_classes \<Longrightarrow> class_ref (find_classes vm e) var = vm_FindClass vm name"
  unfolding find_classes_def by (simp add: fold_upd_in [OF distinct_tables(1)])

lemma find_methods_method_id:
  assumes "(var, cls, name, desc) \<in> set java_methods"
  shows "method_id (find_methods vm e) var =
     Option.bind (class_ref e cls) (\<lambda>c. vm_GetMethodID vm c name desc)"
proof -
  have eq: "(\<lambda>(var, cls, name, desc) f. f(var :=
        Option.bind (class_ref e cls) (\<lambda>c. vm_GetMethodID vm c name desc))) =
      (\<lambda>(var, x) f. f(var := (case x of (cls, name, desc) \<Rightarrow>
        Option.bind (class_ref e cls) (\<lambda>c. vm_GetMethodID vm c name desc))))"
    by (auto simp: fun_eq_iff)
  show ?thesis
    unfolding find_methods_def eq
    by (simp add: fold_upd_in [OF distinct_tables(2) assms])
qed

lemma method_classes_listed:
  "(var, cls, name, desc) \<in> set java_methods \<Longrightarrow> cls \<in> fst ` set java_classes"
  by (auto simp: java_methods_def java_classes_def)

text \<open>
  With every class and method present the table is complete.
\<close>

theorem set_Java_env_complete:
  assumes "class_ref e ''Jpcap'' = None"
    and "\<And>var name. (var, name) \<in> set java_classes \<Longrightarrow> vm_FindClass vm name \<noteq> None"
    and "\<And>c var cls name desc. (var, cls, name, desc) \<in> set java_methods \<Longrightarrow>
      vm_GetMethodID vm c name desc \<noteq> None"
  shows "(\<forall>var \<in> fst ` set java_classes. class_ref (set_Java_env vm e) var \<noteq> None) \<and>
     (\<forall>var \<in> fst ` set java_methods. method_id (set_Java_env vm e) var \<noteq> None)"
proof -
  have "\<not> (\<exists>(var, name) \<in> set java_classes. vm_FindClass vm name = None)"
    using assms(2) by fastforce
  then have run: "set_Java_env vm e = find_methods vm (find_classes vm e)"
    using assms(1) by (simp add: set_Java_env_def Let_def)
  have classes: "class_ref (find_classes vm e) var \<noteq> None" if "var \<in> fst ` set java_classes" for var
    using that assms(2) by (auto simp: class_ref_found)
  have "class_ref (find_methods vm (find_classes vm e)) = class_ref (find_classes vm e)"
    by (simp add: find_methods_def)
  moreover have "method_id (find_methods vm (find_classes vm e)) var \<noteq> None"
    if "var \<in> fst ` set java_methods" for var
  proof -
    from that obtain cls name desc where m: "(var, cls, name, desc) \<in> set java_methods" by auto
    obtain c where "class_ref (find_classes vm e) cls = Some c"
      using classes [OF method_classes_listed [OF m]] by auto
    then show ?thesis using assms(3) [OF m] by (simp add: find_methods_method_id [OF m])
  qed
  ultimately show ?thesis using classes by (simp add: run)
qed

text \<open>
  When JpcapCaptor is found but another class of the table is not, set_Java_env leaves every
  method ID null, and no later call looks them up again.
\<close>

theorem set_Java_env_failure_is_final:
  assumes "e = set_Java_env vm java_env0" and "vm_FindClass vm ''jpcap/JpcapCaptor'' \<noteq> None"
    and "(var, name) \<in> set java_classes" and "vm_FindClass vm name = None"
  shows "method_id e v = None \<and> set_Java_env vm' e = e"
proof -
  have e: "e = find_classes vm java_env0"
    using assms(1,3,4) by (auto simp: set_Java_env_def Let_def java_env0_def)
  have "(''Jpcap'', ''jpcap/JpcapCaptor'') \<in> set java_classes" by (simp add: java_classes_def)
  from class_ref_found [OF this, of vm java_env0] have "class_ref e ''Jpcap'' \<noteq> None"
    using assms(2) by (simp add: e)
  then show ?thesis by (simp add: set_Java_env_def) (simp add: e find_classes_def java_env0_def)
qed

section \<open>Descriptors\<close>

text \<open>The types of the JNI descriptors (\<open>jni.h\<close>): the primitive ones, classes and arrays.\<close>

datatype jtype = JByte | JBoolean | JChar | JShort | JInt | JLong | JFloat | JDouble | JVoid
  | JClass string | JArray jtype

definition jtype_char :: "char \<Rightarrow> jtype option" where
  "jtype_char c = map_of
     [(CHR ''B'', JByte), (CHR ''Z'', JBoolean), (CHR ''C'', JChar), (CHR ''S'', JShort),
      (CHR ''I'', JInt), (CHR ''J'', JLong), (CHR ''F'', JFloat), (CHR ''D'', JDouble),
      (CHR ''V'', JVoid)] c"

fun parse_type :: "string \<Rightarrow> (jtype \<times> string) option" where
  "parse_type [] = None"
| "parse_type (c # cs) =
     (if c = CHR ''['' then
        (case parse_type cs of None \<Rightarrow> None | Some (t, rest) \<Rightarrow> Some (JArray t, rest))
      else if c = CHR ''L'' then
        (case dropWhile (\<lambda>d. d \<noteq> CHR '';'') cs of [] \<Rightarrow> None
         | _ # rest \<Rightarrow> Some (JClass (takeWhile (\<lambda>d. d \<noteq> CHR '';'') cs), rest))
      else (case jtype_char c of None \<Rightarrow> None | Some t \<Rightarrow> Some (t, cs)))"

lemma parse_type_shorter: "parse_type cs = Some (t, rest) \<Longrightarrow> length rest < length cs"
proof (induction cs arbitrary: t rest)
  case (Cons c cs)
  have "length (dropWhile (\<lambda>d. d \<noteq> CHR '';'') cs) \<le> length cs"
    by (rule length_dropWhile_le)
  then show ?case
    using Cons.prems
    by (fastforce split: if_splits option.splits list.splits prod.splits dest: Cons.IH)
qed simp

function parse_args :: "string \<Rightarrow> (jtype list \<times> string) option" where
  "parse_args cs =
     (case cs of [] \<Rightarrow> None
      | c # rest \<Rightarrow>
          if c = CHR '')'' then Some ([], rest)
          else (case parse_type cs of None \<Rightarrow> None
                | Some (t, cs') \<Rightarrow>
                    (case parse_args cs' of None \<Rightarrow> None | Some (ts, cs'') \<Rightarrow> Some (t # ts, cs''))))"
  by pat_completeness auto
termination
  by (relation "measure length") (auto dest: parse_type_shorter simp del: parse_type.simps)

declare parse_args.simps [simp del]

text \<open>A method descriptor: the argument types in parentheses, then the result type.\<close>

definition parse_descriptor :: "string \<Rightarrow> (jtype list \<times> jtype) option" where
  "parse_descriptor cs =
     (case cs of [] \<Rightarrow> None
      | c # cs \<Rightarrow>
          if c \<noteq> CHR ''('' then None
          else (case parse_args cs of None \<Rightarrow> None
                | Some (ts, cs') \<Rightarrow>
                    (case parse_type cs' of Some (t, []) \<Rightarrow> Some (ts, t) | _ \<Rightarrow> None)))"

section \<open>The calls\<close>

text \<open>
  \<open>CallVoidMethod\<close> and \<open>CallObjectMethod\<close> are variadic: the callee fetches its arguments by the
  descriptor, from what the caller passed after the default promotions of C. \<open>va_kind\<close> is the
  promoted kind.
\<close>

datatype va_kind = VaInt | VaLong | VaDouble | VaRef

fun va_of :: "jtype \<Rightarrow> va_kind" where
  "va_of JLong = VaLong"
| "va_of JFloat = VaDouble"
| "va_of JDouble = VaDouble"
| "va_of (JClass _) = VaRef"
| "va_of (JArray _) = VaRef"
| "va_of _ = VaInt"

text \<open>What the call sites pass, file by file.\<close>

definition captor_calls :: "(string \<times> va_kind list) list" where
  "captor_calls = [(''setPacketValueMID'', [VaLong, VaLong, VaInt, VaInt]),
     (''setDatalinkPacketMID'', [VaRef]), (''setPacketHeaderMID'', [VaRef]),
     (''setPacketDataMID'', [VaRef])]"

definition handler_call :: "string \<times> va_kind list" where
  "handler_call = (''handleMID'', [VaRef])"

definition datalink_call :: "string \<times> va_kind list" where
  "datalink_call = (''setEthernetValueMID'', [VaRef, VaRef, VaInt])"

definition arp_call :: "string \<times> va_kind list" where
  "arp_call = (''setARPValueMID'', [VaInt, VaInt, VaInt, VaInt, VaInt, VaRef, VaRef, VaRef, VaRef])"

definition ip_calls :: "(string \<times> va_kind list) list" where
  "ip_calls = [(''setIPValueMID'', replicate 14 VaInt @ [VaRef, VaRef]), (''setIPv4OptionMID'', [VaRef])]"

definition ip_address_calls :: "(string \<times> va_kind list) list" where
  "ip_address_calls = [(''getSourceAddressMID'', []), (''getDestinationAddressMID'', [])]"

definition udp_call :: "string \<times> va_kind list" where
  "udp_call = (''setUDPValueMID'', [VaInt, VaInt, VaInt])"

definition tcp_calls :: "(string \<times> va_kind list) list" where
  "tcp_calls = [(''setTCPValueMID'', [VaInt, VaInt, VaLong, VaLong] @ replicate 10 VaInt),
     (''setTCPOptionMID'', [VaRef])]"

definition icmp_calls :: "(string \<times> va_kind list) list" where
  "icmp_calls = [(''setICMPValueMID'', [VaInt, VaInt, VaInt]), (''setICMPIDMID'', [VaInt, VaInt]),
     (''setICMPRedirectIPMID'', [VaRef]), (''setICMPRouterAdMID'', [VaInt, VaInt, VaInt, VaRef, VaRef]),
     (''setICMPTimestampMID'', [VaInt, VaInt, VaInt])]"

definition icmp_redirect_call :: "string \<times> va_kind list" where
  "icmp_redirect_call = (''getICMPRedirectIPMID'', [])"

definition ipv6_calls :: "(string \<times> va_kind list) list" where
  "ipv6_calls = [(''setIPv6ValueMID'', replicate 6 VaInt @ [VaRef, VaRef]),
     (''setV6OptValueMID'', [VaInt, VaInt, VaInt]), (''setV6OptOptionMID'', [VaRef]),
     (''setV6OptRoutingMID'', [VaInt, VaInt, VaRef]), (''setV6OptFragmentMID'', [VaInt, VaInt, VaInt]),
     (''setV6OptAHMID'', [VaInt, VaInt]), (''addIPv6OptHdrMID'', [VaRef])]"

definition method_calls :: "(string \<times> va_kind list) list" where
  "method_calls = captor_calls @ [handler_call, datalink_call, arp_call] @ ip_calls @ ip_address_calls
     @ [udp_call] @ tcp_calls @ icmp_calls @ [icmp_redirect_call] @ ipv6_calls"

lemmas method_calls_defs = method_calls_def captor_calls_def handler_call_def datalink_call_def
  arp_call_def ip_calls_def ip_address_calls_def udp_call_def tcp_calls_def icmp_calls_def
  icmp_redirect_call_def ipv6_calls_def

text \<open>The arguments the callee of a method variable fetches.\<close>

definition expected_args :: "string \<Rightarrow> va_kind list option" where
  "expected_args mid =
     (case map_of java_methods mid of None \<Rightarrow> None
      | Some (cls, name, desc) \<Rightarrow> map_option (\<lambda>(ts, t). map va_of ts) (parse_descriptor desc))"

text \<open>
  Of all the variadic calls of Java methods the native code makes, every one passes the
  arguments its JNI descriptor asks for, in number and in promoted type, except the call of
  ICMPPacket.setValue, which passes three of five.
\<close>

theorem calls_match_descriptors:
  "map (\<lambda>(mid, args). (mid, args, the (expected_args mid)))
     (filter (\<lambda>(mid, args). expected_args mid \<noteq> Some args) method_calls) =
   [(''setICMPValueMID'', [VaInt, VaInt, VaInt], [VaInt, VaInt, VaInt, VaInt, VaInt])] \<and>
   fst ` set method_calls = fst ` set java_methods"
proof
  show "map (\<lambda>(mid, args). (mid, args, the (expected_args mid)))
     (filter (\<lambda>(mid, args). expected_args mid \<noteq> Some args) method_calls) =
   [(''setICMPValueMID'', [VaInt, VaInt, VaInt], [VaInt, VaInt, VaInt, VaInt, VaInt])]"
    by code_simp
  show "fst ` set method_calls = fst ` set java_methods"
    by code_simp
qed

end
