(* ===== verification/Instances.thy ===== *)
theory Instances
  imports Captor JavaEnv
begin

text \<open>
  The state the native code keeps between calls: the global arrays with one slot per instance
  (\<open>pcds\<close>, \<open>jni_envs\<close>, \<open>pcap_errbuf\<close>, \<open>linktypes\<close>, \<open>netnums\<close>, \<open>netmasks\<close>, \<open>jpcap_handlers\<close>), the raw
  socket of \<open>JpcapSender.c\<close> and the dump file of \<open>JpcapWriter.c\<close>. The capture library is a
  parameter: a record of the answers it gives to the calls of one operation. Three fields of the
  state belong to the environment: the handles the library has given out and not yet freed, the
  open sockets of the process and the global references of the virtual machine.
\<close>

type_synonym handle = nat        \<comment> \<open>a \<open>pcap_t *\<close> other than \<open>NULL\<close>\<close>
type_synonym env_ptr = nat       \<comment> \<open>a \<open>JNIEnv *\<close>\<close>
type_synonym object_ref = nat    \<comment> \<open>a Java object\<close>

datatype platform = Win32 | Unix

record native =
  jenv :: java_env
  JpcapSender_class :: bool
  pcds :: "handle option list"
  jni_envs :: "env_ptr option list"
  pcap_errbuf :: "nat \<Rightarrow> char"
  linktypes :: "int list"
  netnums :: "u32 list"
  netmasks :: "u32 list"
  jpcap_handlers :: "nat option list"
  soc_num :: int
  sockRaw :: "int option"
  pcdd :: "handle option"
  pdt :: "nat option"
  live :: "handle set"
  live_sockets :: "int set"
  global_refs :: "nat \<Rightarrow> object_ref option"
  next_ref :: nat

text \<open>The state before the first call: static storage is zero.\<close>

definition native0 :: native where
  "native0 = \<lparr>jenv = java_env0, JpcapSender_class = False,
     pcds = replicate MAX_NUMBER_OF_INSTANCE None, jni_envs = replicate MAX_NUMBER_OF_INSTANCE None,
     pcap_errbuf = \<lambda>_. CHR 0x00, linktypes = replicate MAX_NUMBER_OF_INSTANCE 0,
     netnums = replicate MAX_NUMBER_OF_INSTANCE 0, netmasks = replicate MAX_NUMBER_OF_INSTANCE 0,
     jpcap_handlers = replicate MAX_NUMBER_OF_INSTANCE None, soc_num = - 1, sockRaw = None,
     pcdd = None, pdt = None, live = {}, live_sockets = {}, global_refs = \<lambda>_. None, next_ref = 0\<rparr>"

text \<open>Every array has its declared size.\<close>

definition arrays_sized :: "native \<Rightarrow> bool" where
  "arrays_sized s \<longleftrightarrow> length (pcds s) = MAX_NUMBER_OF_INSTANCE \<and>
     length (jni_envs s) = MAX_NUMBER_OF_INSTANCE \<and> length (linktypes s) = MAX_NUMBER_OF_INSTANCE \<and>
     length (netnums s) = MAX_NUMBER_OF_INSTANCE \<and> length (netmasks s) = MAX_NUMBER_OF_INSTANCE \<and>
     length (jpcap_handlers s) = MAX_NUMBER_OF_INSTANCE"

section \<open>Slots\<close>

text \<open>The index an instance's \<open>ID\<close> stands for; the code does not check it.\<close>

definition slot :: "jint \<Rightarrow> nat res" where
  "slot ID = (if 0 \<le> sint ID \<and> sint ID < int MAX_NUMBER_OF_INSTANCE then Inr (nat (sint ID))
     else Inl (OutOfBounds (sint ID)))"

lemma slot_Inr_iff [res_inv]:
  "slot ID = Inr i \<longleftrightarrow> 0 \<le> sint ID \<and> i = nat (sint ID) \<and> i < MAX_NUMBER_OF_INSTANCE"
  by (auto simp: slot_def MAX_NUMBER_OF_INSTANCE_def)

lemma slot_of_nat: "i < MAX_NUMBER_OF_INSTANCE \<Longrightarrow> slot (of_nat i) = Inr i"
proof -
  assume "i < MAX_NUMBER_OF_INSTANCE"
  then have "sint (of_nat i :: jint) = int i"
    by (simp add: MAX_NUMBER_OF_INSTANCE_def signed_of_nat signed_take_bit_int_eq_self)
  with \<open>i < MAX_NUMBER_OF_INSTANCE\<close> show ?thesis by (simp add: slot_def)
qed

text \<open>The handle of an instance, as an argument of a library call that uses it.\<close>

definition the_handle :: "nat \<Rightarrow> native \<Rightarrow> handle res" where
  "the_handle i s =
     (case pcds s ! i of None \<Rightarrow> Inl NotOpen
      | Some h \<Rightarrow> if h \<in> live s then Inr h else Inl FreedHandle)"

lemma the_handle_Inr_iff [res_inv]:
  "the_handle i s = Inr h \<longleftrightarrow> pcds s ! i = Some h \<and> h \<in> live s"
  by (auto simp: the_handle_def split: option.splits)

definition pcap_close :: "handle \<Rightarrow> native \<Rightarrow> native res" where
  "pcap_close h s = (if h \<in> live s then Inr (s\<lparr>live := live s - {h}\<rparr>) else Inl FreedHandle)"

text \<open>Storing what an opening call returns.\<close>

definition open_slot :: "nat \<Rightarrow> handle option \<Rightarrow> native \<Rightarrow> native" where
  "open_slot i h s = s\<lparr>pcds := (pcds s)[i := h], live := live s \<union> set_option h\<rparr>"

section \<open>Error messages\<close>

text \<open>
  \<open>char pcap_errbuf[PCAP_ERRBUF_SIZE][MAX_NUMBER_OF_INSTANCE]\<close>: the two dimensions are in this
  order, so the row of an instance starts every 255 bytes while the library may write 256.
\<close>

definition PCAP_ERRBUF_SIZE :: nat where
  "PCAP_ERRBUF_SIZE = 256"

definition errbuf_row :: "nat \<Rightarrow> nat" where
  "errbuf_row i = i * MAX_NUMBER_OF_INSTANCE"

definition errbuf_bytes :: nat where
  "errbuf_bytes = PCAP_ERRBUF_SIZE * MAX_NUMBER_OF_INSTANCE"

text \<open>A message of the library: its characters and the closing zero.\<close>

definition put_errbuf :: "nat \<Rightarrow> string option \<Rightarrow> native \<Rightarrow> native" where
  "put_errbuf i msg s =
     (case msg of None \<Rightarrow> s
      | Some cs \<Rightarrow> s\<lparr>pcap_errbuf := (\<lambda>a.
          if errbuf_row i \<le> a \<and> a \<le> errbuf_row i + length cs
          then (cs @ [CHR 0x00]) ! (a - errbuf_row i) else pcap_errbuf s a)\<rparr>)"

text \<open>The library keeps a message within \<open>PCAP_ERRBUF_SIZE\<close> bytes.\<close>

definition library_message :: "string \<Rightarrow> bool" where
  "library_message cs \<longleftrightarrow> length cs < PCAP_ERRBUF_SIZE \<and> CHR 0x00 \<notin> set cs"

text \<open>The C string at an address, of at most \<open>n\<close> bytes with its zero.\<close>

fun c_string :: "(nat \<Rightarrow> char) \<Rightarrow> nat \<Rightarrow> nat \<Rightarrow> string res" where
  "c_string m p 0 = Inl (OutOfBounds (int p))"
| "c_string m p (Suc n) =
     (if m p = CHR 0x00 then Inr []
      else bindr (c_string m (Suc p) n) (\<lambda>cs. Inr (m p # cs)))"

text \<open>\<open>NewString(pcap_errbuf[id])\<close>\<close>

definition errbuf_string :: "nat \<Rightarrow> native \<Rightarrow> string res" where
  "errbuf_string i s = c_string (pcap_errbuf s) (errbuf_row i) (errbuf_bytes - errbuf_row i)"

lemma c_string_stored:
  "length cs < n \<Longrightarrow> CHR 0x00 \<notin> set cs \<Longrightarrow> (\<And>k. k < length cs \<Longrightarrow> m (p + k) = cs ! k) \<Longrightarrow>
     m (p + length cs) = CHR 0x00 \<Longrightarrow> c_string m p n = Inr cs"
proof (induction cs arbitrary: p n)
  case Nil
  then obtain n' where "n = Suc n'" by (cases n) auto
  with Nil show ?case by simp
next
  case (Cons c cs)
  then obtain n' where n: "n = Suc n'" by (cases n) auto
  have "m p = c" using Cons.prems(3) [of 0] by simp
  moreover have "c_string m (Suc p) n' = Inr cs"
  proof (rule Cons.IH)
    show "m (Suc p + k) = cs ! k" if "k < length cs" for k
      using Cons.prems(3) [of "Suc k"] that by simp
  qed (use Cons.prems n in auto)
  ultimately show ?case using Cons.prems(2) by (auto simp: n)
qed

lemma c_string_cong:
  "(\<And>a. p \<le> a \<Longrightarrow> a < p + n \<Longrightarrow> m a = m' a) \<Longrightarrow> c_string m p n = c_string m' p n"
  by (induction n arbitrary: p) (auto intro!: bindr_cong)

lemma put_errbuf_None [simp]: "put_errbuf i None s = s"
  by (simp add: put_errbuf_def)

text \<open>A message changes the buffer and nothing else.\<close>

lemma put_errbuf_fields [simp]:
  "pcds (put_errbuf i msg s) = pcds s" "jni_envs (put_errbuf i msg s) = jni_envs s"
  "linktypes (put_errbuf i msg s) = linktypes s" "netnums (put_errbuf i msg s) = netnums s"
  "netmasks (put_errbuf i msg s) = netmasks s" "jpcap_handlers (put_errbuf i msg s) = jpcap_handlers s"
  "live (put_errbuf i msg s) = live s" "jenv (put_errbuf i msg s) = jenv s"
  "global_refs (put_errbuf i msg s) = global_refs s" "next_ref (put_errbuf i msg s) = next_ref s"
  "pcdd (put_errbuf i msg s) = pcdd s" "pdt (put_errbuf i msg s) = pdt s"
  by (simp_all add: put_errbuf_def split: option.split)

lemma errbuf_string_fields [simp]:
  "errbuf_string i (s\<lparr>netmasks := x\<rparr>) = errbuf_string i s"
  "errbuf_string i (s\<lparr>netnums := y\<rparr>) = errbuf_string i s"
  by (simp_all add: errbuf_string_def)

lemma errbuf_read_back:
  assumes "i < MAX_NUMBER_OF_INSTANCE" and "library_message cs"
  shows "errbuf_string i (put_errbuf i (Some cs) s) = Inr cs"
proof -
  have "errbuf_row i \<le> errbuf_row 254"
    using assms(1) by (simp add: errbuf_row_def MAX_NUMBER_OF_INSTANCE_def)
  moreover have "length cs < errbuf_bytes - errbuf_row 254"
    using assms(2)
    by (simp add: errbuf_bytes_def errbuf_row_def library_message_def PCAP_ERRBUF_SIZE_def
        MAX_NUMBER_OF_INSTANCE_def)
  ultimately have "length cs < errbuf_bytes - errbuf_row i" by linarith
  then show ?thesis
    unfolding errbuf_string_def
    by (rule c_string_stored) (use assms in \<open>simp_all add: put_errbuf_def library_message_def nth_append\<close>)
qed

text \<open>The string at \<open>p\<close> depends on the bytes up to its zero only.\<close>

lemma c_string_prefix_cong:
  "c_string m p n = Inr cs \<Longrightarrow> (\<And>a. p \<le> a \<Longrightarrow> a \<le> p + length cs \<Longrightarrow> m' a = m a) \<Longrightarrow>
     c_string m' p n = Inr cs"
proof (induction n arbitrary: p cs)
  case (Suc n)
  show ?case
  proof (cases "m p = CHR 0x00")
    case True
    then show ?thesis using Suc.prems by simp
  next
    case False
    with Suc.prems(1) obtain ds where ds: "c_string m (Suc p) n = Inr ds" "cs = m p # ds"
      by (auto simp: bindr_Inr_iff)
    moreover have "c_string m' (Suc p) n = Inr ds"
      by (rule Suc.IH [OF ds(1)]) (use Suc.prems(2) ds(2) in simp)
    moreover have "m' p = m p" using Suc.prems(2) [of p] by simp
    ultimately show ?thesis using False by simp
  qed
qed simp

section \<open>Global references\<close>

definition NewGlobalRef :: "object_ref \<Rightarrow> native \<Rightarrow> nat \<times> native" where
  "NewGlobalRef obj s =
     (next_ref s, s\<lparr>global_refs := (global_refs s)(next_ref s := Some obj), next_ref := Suc (next_ref s)\<rparr>)"

definition DeleteGlobalRef :: "nat option \<Rightarrow> native \<Rightarrow> native" where
  "DeleteGlobalRef r s =
     (case r of None \<Rightarrow> s | Some r \<Rightarrow> s\<lparr>global_refs := (global_refs s)(r := None)\<rparr>)"

section \<open>Arrays with one slot per instance\<close>

text \<open>
  What the operations rely on for each of the arrays: a slot read back after a write holds what
  was written, and the slots of the other instances keep their contents.
\<close>

locale slot_array =
  fixes get :: "nat \<Rightarrow> 's \<Rightarrow> 'v"
    and put :: "nat \<Rightarrow> 'v \<Rightarrow> 's \<Rightarrow> 's"
    and good :: "'s \<Rightarrow> bool"
    and fits :: "'v \<Rightarrow> bool"
  assumes read_same: "good s \<Longrightarrow> i < MAX_NUMBER_OF_INSTANCE \<Longrightarrow> fits v \<Longrightarrow> get i (put i v s) = v"
    and read_other: "good s \<Longrightarrow> i < MAX_NUMBER_OF_INSTANCE \<Longrightarrow> j < MAX_NUMBER_OF_INSTANCE \<Longrightarrow>
      i \<noteq> j \<Longrightarrow> fits v \<Longrightarrow> fits (get j s) \<Longrightarrow> get j (put i v s) = get j s"
    and good_write: "good s \<Longrightarrow> good (put i v s)"
begin

lemma good_writes: "good s \<Longrightarrow> good (fold (\<lambda>(i, v). put i v) ws s)"
  by (induction ws arbitrary: s) (auto simp: good_write)

lemma writes_elsewhere:
  assumes "good s" and "j < MAX_NUMBER_OF_INSTANCE" and "fits (get j s)"
    and "\<forall>(i, v) \<in> set ws. i < MAX_NUMBER_OF_INSTANCE \<and> i \<noteq> j \<and> fits v"
  shows "get j (fold (\<lambda>(i, v). put i v) ws s) = get j s"
  using assms
proof (induction ws arbitrary: s)
  case (Cons w ws)
  obtain i v where w: "w = (i, v)" by (cases w)
  have "get j (put i v s) = get j s"
    using Cons.prems by (intro read_other) (auto simp: w)
  moreover from this have "get j (fold (\<lambda>(i, v). put i v) ws (put i v s)) = get j (put i v s)"
    using Cons.prems by (intro Cons.IH good_write) (auto simp: w)
  ultimately show ?case by (simp add: w)
qed simp

lemma last_write:
  assumes "good s" and "i < MAX_NUMBER_OF_INSTANCE" and "fits v"
    and "\<forall>(k, u) \<in> set ws. k < MAX_NUMBER_OF_INSTANCE \<and> k \<noteq> i \<and> fits u"
  shows "get i (fold (\<lambda>(i, v). put i v) ws (put i v s)) = v"
  using assms writes_elsewhere [of "put i v s" i ws] read_same [of s i v]
  by (simp add: good_write)

end

interpretation pcds_slots: slot_array "\<lambda>i s. pcds s ! i" "\<lambda>i v s. s\<lparr>pcds := (pcds s)[i := v]\<rparr>"
    arrays_sized "\<lambda>_. True"
  by unfold_locales (auto simp: arrays_sized_def)

interpretation linktype_slots: slot_array "\<lambda>i s. linktypes s ! i"
    "\<lambda>i v s. s\<lparr>linktypes := (linktypes s)[i := v]\<rparr>" arrays_sized "\<lambda>_. True"
  by unfold_locales (auto simp: arrays_sized_def)

interpretation netmask_slots: slot_array "\<lambda>i s. netmasks s ! i"
    "\<lambda>i v s. s\<lparr>netmasks := (netmasks s)[i := v]\<rparr>" arrays_sized "\<lambda>_. True"
  by unfold_locales (auto simp: arrays_sized_def)

text \<open>
  The rows of \<open>pcap_errbuf\<close> are such an array for messages that leave room for their zero in the
  255 bytes of a row.
\<close>

definition row_message :: "string res \<Rightarrow> bool" where
  "row_message m \<longleftrightarrow>
     (\<exists>cs. m = Inr cs \<and> length cs < MAX_NUMBER_OF_INSTANCE \<and> CHR 0x00 \<notin> set cs)"

definition put_row :: "nat \<Rightarrow> string res \<Rightarrow> native \<Rightarrow> native" where
  "put_row i m s = (case m of Inl _ \<Rightarrow> s | Inr cs \<Rightarrow> put_errbuf i (Some cs) s)"

lemma rows_apart:
  assumes "i \<noteq> j" and "k < MAX_NUMBER_OF_INSTANCE" and "l < MAX_NUMBER_OF_INSTANCE"
  shows "errbuf_row i + k \<noteq> errbuf_row j + l"
proof
  assume "errbuf_row i + k = errbuf_row j + l"
  then have "(i * MAX_NUMBER_OF_INSTANCE + k) div MAX_NUMBER_OF_INSTANCE =
      (j * MAX_NUMBER_OF_INSTANCE + l) div MAX_NUMBER_OF_INSTANCE"
    by (simp add: errbuf_row_def)
  then show False using assms by simp
qed

interpretation errbuf_slots: slot_array errbuf_string put_row "\<lambda>_. True" row_message
proof unfold_locales
  fix s :: native and i j and v :: "string res"
  assume i: "i < MAX_NUMBER_OF_INSTANCE" and v: "row_message v"
  from v obtain cs where cs: "v = Inr cs" "length cs < MAX_NUMBER_OF_INSTANCE" "CHR 0x00 \<notin> set cs"
    by (auto simp: row_message_def)
  then have "library_message cs"
    by (simp add: library_message_def MAX_NUMBER_OF_INSTANCE_def PCAP_ERRBUF_SIZE_def)
  then show "errbuf_string i (put_row i v s) = v"
    using i by (simp add: put_row_def cs(1) errbuf_read_back)
  assume "j < MAX_NUMBER_OF_INSTANCE" and ij: "i \<noteq> j" and "row_message (errbuf_string j s)"
  then obtain ds where ds: "errbuf_string j s = Inr ds" "length ds < MAX_NUMBER_OF_INSTANCE"
    by (auto simp: row_message_def)
  have "errbuf_string j (put_row i v s) = Inr ds"
    unfolding errbuf_string_def
  proof (rule c_string_prefix_cong [OF ds(1) [unfolded errbuf_string_def]])
    fix a assume a: "errbuf_row j \<le> a" "a \<le> errbuf_row j + length ds"
    have "\<not> (errbuf_row i \<le> a \<and> a \<le> errbuf_row i + length cs)"
      using rows_apart [OF ij, of "a - errbuf_row i" "a - errbuf_row j"] a cs(2) ds(2) by simp linarith
    then show "pcap_errbuf (put_row i v s) a = pcap_errbuf s a"
      by (auto simp: put_row_def cs(1) put_errbuf_def)
  qed
  then show "errbuf_string j (put_row i v s) = errbuf_string j s" by (simp add: ds(1))
qed simp

end
