(* ===== verification/CaptorOps.thy ===== *)
theory CaptorOps
  imports Instances "HOL-Library.Signed_Division"
begin

text \<open>
  The native methods of \<open>JpcapCaptor.c\<close> on the state of theory Instances: opening and closing an
  instance, the capture loops, filters, statistics, error messages and timeouts. Each operation
  takes the answers of the capture library and of the operating system as a parameter and
  returns its Java result with the new state, or the undefined behaviour it runs into.
\<close>

section \<open>The library\<close>

text \<open>
  One field per library function the operations call, with what the call returns through its
  result and its pointer arguments. A message is \<open>None\<close> when the call leaves the buffer alone.
\<close>

record library =
  lib_open_live :: "string \<Rightarrow> jint \<Rightarrow> jint \<Rightarrow> jint \<Rightarrow> handle option \<times> string option"
  lib_lookupnet :: "string \<Rightarrow> int \<times> u32 option \<times> u32 option \<times> string option"
  lib_open_offline :: "string \<Rightarrow> handle option \<times> string option"
  lib_datalink :: "handle \<Rightarrow> int"
  lib_dispatch :: "handle \<Rightarrow> jint \<Rightarrow> (pcap_pkthdr \<times> mem) list \<times> jint"
  lib_loop :: "handle \<Rightarrow> jint \<Rightarrow> (pcap_pkthdr \<times> mem) list \<times> jint"
  lib_next_ex :: "handle \<Rightarrow> int \<times> pcap_pkthdr \<times> mem option"
  lib_setnonblock :: "handle \<Rightarrow> bool \<Rightarrow> string option"
  lib_getnonblock :: "handle \<Rightarrow> int \<times> string option"
  lib_compile :: "handle \<Rightarrow> string \<Rightarrow> int \<Rightarrow> u32 \<Rightarrow> int"
  lib_setfilter :: "handle \<Rightarrow> string \<Rightarrow> int"
  lib_geterr :: "handle \<Rightarrow> string option"
  lib_stats :: "handle \<Rightarrow> (u32 \<times> u32) option"
  lib_fileno :: "handle \<Rightarrow> int"
  lib_set_rcvtimeo :: "int \<Rightarrow> int \<times> int \<Rightarrow> int"
  lib_get_rcvtimeo :: "int \<Rightarrow> int \<times> (int \<times> int) \<times> nat"

text \<open>The library returns a handle that is not in use.\<close>

definition fresh_handle :: "handle option \<Rightarrow> native \<Rightarrow> bool" where
  "fresh_handle h s \<longleftrightarrow> (\<forall>k. h = Some k \<longrightarrow> k \<notin> live s)"

section \<open>Opening and closing\<close>

text \<open>\<open>pcap_lookupnet(dev,&netnums[id],&netmasks[id],pcap_errbuf[id])\<close> and the test of its result\<close>

definition lookup_net :: "library \<Rightarrow> nat \<Rightarrow> string \<Rightarrow> native \<Rightarrow> native" where
  "lookup_net lib i dev s =
     (let (ret, net, nmask, msg) = lib_lookupnet lib dev;
          s = put_errbuf i msg (s
            \<lparr>netnums := (case net of None \<Rightarrow> netnums s | Some n \<Rightarrow> (netnums s)[i := n]),
             netmasks := (case nmask of None \<Rightarrow> netmasks s | Some n \<Rightarrow> (netmasks s)[i := n])\<rparr>)
      in if ret = - 1 then s\<lparr>netmasks := (netmasks s)[i := 0]\<rparr> else s)"

definition nativeOpenLive ::
  "jvm \<Rightarrow> library \<Rightarrow> env_ptr \<Rightarrow> jint \<Rightarrow> string option \<Rightarrow> jint \<Rightarrow> jint \<Rightarrow> jint \<Rightarrow> native \<Rightarrow>
   (string option \<times> native) res" where
  "nativeOpenLive vm lib env ID device snaplen promisc to_ms s =
     (let s = s\<lparr>jenv := set_Java_env vm (jenv s)\<rparr> in
      bindr (slot ID) (\<lambda>i.
      if pcds s ! i \<noteq> None then Inr (Some ''Another Jpcap instance is being used.'', s)
      else
        let s = s\<lparr>jni_envs := (jni_envs s)[i := Some env]\<rparr> in
        case device of
          None \<Rightarrow> Inr (Some ''Please specify device name.'', s)
        | Some dev \<Rightarrow>
            let (h, msg) = lib_open_live lib dev snaplen promisc to_ms;
                s = lookup_net lib i dev (put_errbuf i msg (open_slot i h s))
            in case h of
                 None \<Rightarrow> bindr (errbuf_string i s) (\<lambda>m. Inr (Some m, s))
               | Some h \<Rightarrow> Inr (None, s\<lparr>linktypes := (linktypes s)[i := lib_datalink lib h]\<rparr>)))"

lemma lookup_net_fields [simp]:
  "pcds (lookup_net lib i dev s) = pcds s" "jni_envs (lookup_net lib i dev s) = jni_envs s"
  "linktypes (lookup_net lib i dev s) = linktypes s" "live (lookup_net lib i dev s) = live s"
  "jpcap_handlers (lookup_net lib i dev s) = jpcap_handlers s"
  "jenv (lookup_net lib i dev s) = jenv s" "global_refs (lookup_net lib i dev s) = global_refs s"
  "pcdd (lookup_net lib i dev s) = pcdd s" "pdt (lookup_net lib i dev s) = pdt s"
  "next_ref (lookup_net lib i dev s) = next_ref s"
  by (simp_all add: lookup_net_def Let_def split: prod.split)

lemma lookup_net_message:
  "lib_lookupnet lib dev = (ret, net, nmask, None) \<Longrightarrow>
     errbuf_string i (lookup_net lib i dev s) = errbuf_string i s"
  "lib_lookupnet lib dev = (ret, net, nmask, Some cs) \<Longrightarrow> i < MAX_NUMBER_OF_INSTANCE \<Longrightarrow>
     library_message cs \<Longrightarrow> errbuf_string i (lookup_net lib i dev s) = Inr cs"
  by (simp_all add: lookup_net_def Let_def errbuf_read_back)

definition nativeOpenOffline ::
  "jvm \<Rightarrow> library \<Rightarrow> env_ptr \<Rightarrow> jint \<Rightarrow> string option \<Rightarrow> native \<Rightarrow> (string option \<times> native) res" where
  "nativeOpenOffline vm lib env ID filename s =
     (let s = s\<lparr>jenv := set_Java_env vm (jenv s)\<rparr> in
      bindr (slot ID) (\<lambda>i.
      if pcds s ! i \<noteq> None then Inr (Some ''Another Jpcap instance is being used.'', s)
      else
        let s = s\<lparr>jni_envs := (jni_envs s)[i := Some env]\<rparr> in
        case filename of
          None \<Rightarrow> Inl NullReference
        | Some file \<Rightarrow>
            let (h, msg) = lib_open_offline lib file;
                s = put_errbuf i msg (open_slot i h s)
            in case h of
                 None \<Rightarrow> bindr (errbuf_string i s) (\<lambda>m. Inr (Some m, s))
               | Some h \<Rightarrow> Inr (None, s
                   \<lparr>linktypes := (linktypes s)[i := lib_datalink lib h],
                    jenv := set_Java_env vm (jenv s)\<rparr>)))"

definition nativeClose :: "jint \<Rightarrow> native \<Rightarrow> native res" where
  "nativeClose ID s =
     bindr (slot ID) (\<lambda>i.
     bindr (case pcds s ! i of None \<Rightarrow> Inr s | Some h \<Rightarrow> pcap_close h s) (\<lambda>s.
       Inr (s\<lparr>pcds := (pcds s)[i := None]\<rparr>)))"

section \<open>The capture loops\<close>

text \<open>
  \<open>dispatcher_handler\<close> builds the object of a frame and calls \<open>receivePacket\<close> of the handler of
  the instance. The handler is Java code; what it does to the native state is the parameter
  \<open>receive\<close>. The result is the receiver, the packet and the state after the call.
\<close>

definition dispatcher_handler ::
  "bool \<Rightarrow> junk \<Rightarrow> (native \<Rightarrow> native res) \<Rightarrow> nat \<Rightarrow> pcap_pkthdr \<Rightarrow> mem \<Rightarrow> native \<Rightarrow>
   ((object_ref \<times> jpacket) \<times> native) res" where
  "dispatcher_handler na jk receive i header data s =
     (if jni_envs s ! i = None then Inl NullReference
      else bindr (get_packet na jk (linktypes s ! i) header data) (\<lambda>packet.
        case Option.bind (jpcap_handlers s ! i) (global_refs s) of
          None \<Rightarrow> Inl NullReference
        | Some obj \<Rightarrow> bindr (receive s) (\<lambda>s. Inr ((obj, packet), s))))"

text \<open>The library calls it for one frame after the other.\<close>

fun dispatch_frames ::
  "bool \<Rightarrow> (nat \<Rightarrow> junk) \<Rightarrow> (nat \<Rightarrow> native \<Rightarrow> native res) \<Rightarrow> nat \<Rightarrow> nat \<Rightarrow> (pcap_pkthdr \<times> mem) list \<Rightarrow>
   native \<Rightarrow> ((object_ref \<times> jpacket) list \<times> native) res" where
  "dispatch_frames na jk receive i n [] s = Inr ([], s)"
| "dispatch_frames na jk receive i n ((header, data) # frames) s =
     bindr (dispatcher_handler na (jk n) (receive n) i header data s) (\<lambda>(d, s).
     bindr (dispatch_frames na jk receive i (Suc n) frames s) (\<lambda>(ds, s). Inr (d # ds, s)))"

text \<open>
  \<open>processPacket\<close> and \<open>loopPacket\<close> differ in the library call only; \<open>call\<close> is that call. The value
  is the count the library returns and the packets delivered.
\<close>

definition capture_loop ::
  "(handle \<Rightarrow> jint \<Rightarrow> (pcap_pkthdr \<times> mem) list \<times> jint) \<Rightarrow> bool \<Rightarrow> (nat \<Rightarrow> junk) \<Rightarrow>
   (nat \<Rightarrow> native \<Rightarrow> native res) \<Rightarrow> env_ptr \<Rightarrow> jint \<Rightarrow> jint \<Rightarrow> object_ref \<Rightarrow> native \<Rightarrow>
   ((jint \<times> (object_ref \<times> jpacket) list) \<times> native) res" where
  "capture_loop call na jk receive env ID cnt handler s =
     bindr (slot ID) (\<lambda>i.
     let s = s\<lparr>jni_envs := (jni_envs s)[i := Some env]\<rparr>;
         (r, s) = NewGlobalRef handler s;
         s = s\<lparr>jpcap_handlers := (jpcap_handlers s)[i := Some r]\<rparr>
     in bindr (the_handle i s) (\<lambda>h.
        let (frames, pkt_cnt) = call h cnt in
        bindr (dispatch_frames na jk receive i 0 frames s) (\<lambda>(ds, s).
          Inr ((pkt_cnt, ds), DeleteGlobalRef (jpcap_handlers s ! i) s))))"

definition processPacket ::
  "library \<Rightarrow> bool \<Rightarrow> (nat \<Rightarrow> junk) \<Rightarrow> (nat \<Rightarrow> native \<Rightarrow> native res) \<Rightarrow> env_ptr \<Rightarrow> jint \<Rightarrow> jint \<Rightarrow>
   object_ref \<Rightarrow> native \<Rightarrow> ((jint \<times> (object_ref \<times> jpacket) list) \<times> native) res" where
  "processPacket lib = capture_loop (lib_dispatch lib)"

definition loopPacket ::
  "library \<Rightarrow> bool \<Rightarrow> (nat \<Rightarrow> junk) \<Rightarrow> (nat \<Rightarrow> native \<Rightarrow> native res) \<Rightarrow> env_ptr \<Rightarrow> jint \<Rightarrow> jint \<Rightarrow>
   object_ref \<Rightarrow> native \<Rightarrow> ((jint \<times> (object_ref \<times> jpacket) list) \<times> native) res" where
  "loopPacket lib = capture_loop (lib_loop lib)"

text \<open>The results of \<open>getPacket\<close>: \<open>null\<close>, the constant \<open>Packet.EOF\<close> or a packet.\<close>

datatype packet_ref = NullPacket | EOF | APacket jpacket

definition getPacket ::
  "library \<Rightarrow> bool \<Rightarrow> junk \<Rightarrow> env_ptr \<Rightarrow> jint \<Rightarrow> native \<Rightarrow> (packet_ref \<times> native) res" where
  "getPacket lib na jk env ID s =
     bindr (slot ID) (\<lambda>i.
     bindr (the_handle i s) (\<lambda>h.
     let (ret, header, data) = lib_next_ex lib h in
     if ret = 0 then Inr (NullPacket, s)
     else if ret = - 1 then Inr (NullPacket, s)
     else if ret = - 2 then Inr (EOF, s)
     else
       let s = s\<lparr>jni_envs := (jni_envs s)[i := Some env]\<rparr> in
       case data of
         None \<Rightarrow> Inr (NullPacket, s)
       | Some m \<Rightarrow> bindr (get_packet na jk (linktypes s ! i) header m) (\<lambda>p. Inr (APacket p, s))))"

section \<open>Modes, filters, statistics\<close>

definition setNonBlockingMode :: "library \<Rightarrow> jint \<Rightarrow> bool \<Rightarrow> native \<Rightarrow> native res" where
  "setNonBlockingMode lib ID non_blocking s =
     bindr (slot ID) (\<lambda>i.
     bindr (the_handle i s) (\<lambda>h. Inr (put_errbuf i (lib_setnonblock lib h non_blocking) s)))"

definition isNonBlockinMode :: "library \<Rightarrow> jint \<Rightarrow> native \<Rightarrow> (bool \<times> native) res" where
  "isNonBlockinMode lib ID s =
     bindr (slot ID) (\<lambda>i.
     bindr (the_handle i s) (\<lambda>h.
     let (nonblocking, msg) = lib_getnonblock lib h
     in Inr (nonblocking \<noteq> 0, put_errbuf i msg s)))"

definition filter_prefix :: string where
  "filter_prefix = ''Error occurred while compiling or setting filter: ''"

text \<open>
  The message of the exception in the 2048-byte array \<open>buf\<close>. On Windows \<open>strncat_s\<close> truncates so
  that the zero fits; elsewhere \<open>strncat\<close> appends at most \<open>2047-strlen(buf)\<close> bytes.
\<close>

definition filter_message :: "platform \<Rightarrow> string \<Rightarrow> string" where
  "filter_message plat err =
     (case plat of
        Win32 \<Rightarrow> filter_prefix @ take (2048 - length filter_prefix - 1) err
      | Unix \<Rightarrow> filter_prefix @ take (2047 - length filter_prefix) err)"

definition filter_error :: "library \<Rightarrow> handle \<Rightarrow> string \<Rightarrow> bool \<Rightarrow> u32 \<Rightarrow> string option" where
  "filter_error lib h cdt opt netmask =
     (if lib_compile lib h cdt (if opt then - 1 else 0) netmask \<noteq> 0 then
        Some (case lib_geterr lib h of None \<Rightarrow> ''pcap_compile failed'' | Some err \<Rightarrow> err)
      else if lib_setfilter lib h cdt \<noteq> 0 then
        Some (case lib_geterr lib h of None \<Rightarrow> ''pcap_setfilter failed'' | Some err \<Rightarrow> err)
      else None)"

definition setFilter ::
  "platform \<Rightarrow> library \<Rightarrow> jint \<Rightarrow> string option \<Rightarrow> bool \<Rightarrow> native \<Rightarrow> (jexception option \<times> native) res" where
  "setFilter plat lib ID condition opt s =
     (case condition of None \<Rightarrow> Inl NullReference
      | Some cdt \<Rightarrow>
          bindr (slot ID) (\<lambda>i.
          bindr (the_handle i s) (\<lambda>h.
            Inr (map_option (\<lambda>err. IOException (filter_message plat err))
                   (filter_error lib h cdt opt (netmasks s ! i)), s))))"

definition breakLoop :: "jint \<Rightarrow> native \<Rightarrow> native res" where
  "breakLoop ID s = bindr (slot ID) (\<lambda>i. bindr (the_handle i s) (\<lambda>h. Inr s))"

text \<open>
  \<open>updateStat\<close> stores the two counters in the Java object. It does not look at the result of
  \<open>pcap_stats\<close>: when the call fails, the structure on the stack keeps its old contents \<open>jk\<close>.
\<close>

record captor_object =
  received_packets :: jint
  dropped_packets :: jint

definition updateStat ::
  "library \<Rightarrow> u32 \<times> u32 \<Rightarrow> jint \<Rightarrow> captor_object \<Rightarrow> native \<Rightarrow> captor_object res" where
  "updateStat lib jk ID obj s =
     bindr (slot ID) (\<lambda>i.
     bindr (the_handle i s) (\<lambda>h.
     let (ps_recv, ps_drop) = (case lib_stats lib h of None \<Rightarrow> jk | Some st \<Rightarrow> st)
     in Inr (obj\<lparr>received_packets := ps_recv, dropped_packets := ps_drop\<rparr>)))"

definition getErrorMessage :: "jint \<Rightarrow> native \<Rightarrow> string res" where
  "getErrorMessage ID s = bindr (slot ID) (\<lambda>i. errbuf_string i s)"

section \<open>Timeouts\<close>

text \<open>
  \<open>millis / 1000\<close> and \<open>millis % 1000\<close> round towards zero. The pair is (\<open>tv_sec\<close>, \<open>tv_usec\<close>).
\<close>

definition timeval_of :: "jint \<Rightarrow> int \<times> int" where
  "timeval_of millis = (sint millis sdiv 1000, (sint millis smod 1000) * 1000)"

definition setPacketReadTimeout :: "platform \<Rightarrow> library \<Rightarrow> jint \<Rightarrow> jint \<Rightarrow> native \<Rightarrow> bool res" where
  "setPacketReadTimeout plat lib ID millis s =
     (case plat of Win32 \<Rightarrow> Inr False
      | Unix \<Rightarrow>
          bindr (slot ID) (\<lambda>i.
          bindr (the_handle i s) (\<lambda>h.
            Inr (lib_set_rcvtimeo lib (lib_fileno lib h) (timeval_of millis) = 0))))"

definition sizeof_timeval :: nat where
  "sizeof_timeval = 16"

definition getPacketReadTimeout :: "platform \<Rightarrow> library \<Rightarrow> jint \<Rightarrow> native \<Rightarrow> jint res" where
  "getPacketReadTimeout plat lib ID s =
     (case plat of Win32 \<Rightarrow> Inr (- 1)
      | Unix \<Rightarrow>
          bindr (slot ID) (\<lambda>i.
          bindr (the_handle i s) (\<lambda>h.
          let (ret, (tv_sec, tv_usec), len) = lib_get_rcvtimeo lib (lib_fileno lib h) in
            Inr (if ret = 0 \<and> len = sizeof_timeval
                 then of_int (tv_usec sdiv 1000 + tv_sec * 1000) else - 1))))"

end
