(* ===== verification/NativeMethods.thy ===== *)
theory NativeMethods
  imports JavaEnv
begin

text \<open>
  The boundary between Java and C: the native methods the three Java classes declare, the
  prototypes of the generated headers \<open>jpcap_JpcapCaptor.h\<close>, \<open>jpcap_JpcapSender.h\<close> and
  \<open>jpcap_JpcapWriter.h\<close>, and the naming and typing rules of the JNI specification that lead from
  the ones to the others.
\<close>

section \<open>The Java declarations\<close>

text \<open>Name, whether it is static, parameter types and result type of a native method.\<close>

type_synonym java_native = "string \<times> bool \<times> jtype list \<times> jtype"

abbreviation "String \<equiv> JClass ''java/lang/String''"
abbreviation "APacket \<equiv> JClass ''jpcap/packet/Packet''"
abbreviation "Receiver \<equiv> JClass ''jpcap/PacketReceiver''"

definition java_captor_natives :: "java_native list" where
  "java_captor_natives =
     [(''nativeOpenLive'', False, [String, JInt, JInt, JInt], String),
      (''nativeOpenOffline'', False, [String], String),
      (''nativeClose'', False, [], JVoid),
      (''getDeviceList'', True, [], JArray (JClass ''jpcap/NetworkInterface'')),
      (''getPacket'', False, [], APacket),
      (''processPacket'', False, [JInt, Receiver], JInt),
      (''loopPacket'', False, [JInt, Receiver], JInt),
      (''setNonBlockingMode'', False, [JBoolean], JVoid),
      (''isNonBlockinMode'', False, [], JBoolean),
      (''breakLoop'', False, [], JVoid),
      (''setPacketReadTimeout'', False, [JInt], JBoolean),
      (''getPacketReadTimeout'', False, [], JInt),
      (''setFilter'', False, [String, JBoolean], JVoid),
      (''updateStat'', False, [], JVoid),
      (''getErrorMessage'', False, [], String)]"

definition java_sender_natives :: "java_native list" where
  "java_sender_natives =
     [(''nativeOpenDevice'', False, [String], String),
      (''nativeSendPacket'', False, [APacket], JVoid),
      (''nativeCloseDevice'', False, [], JVoid),
      (''nativeOpenRawSocket'', False, [], JVoid),
      (''nativeSendPacketViaRawSocket'', False, [APacket], JVoid),
      (''nativeCloseRawSocket'', False, [], JVoid)]"

definition java_writer_natives :: "java_native list" where
  "java_writer_natives =
     [(''nativeOpenDumpFile'', False, [String, JInt], String),
      (''close'', False, [], JVoid),
      (''writePacket'', False, [APacket], JVoid)]"

section \<open>The headers\<close>

text \<open>
  A prototype: the signature of its comment, the result type, the function name and the types of
  the parameters.
\<close>

record prototype =
  pr_signature :: string
  pr_result :: string
  pr_name :: string
  pr_params :: "string list"

definition jpcap_JpcapCaptor_h :: "prototype list" where
  "jpcap_JpcapCaptor_h =
     [\<lparr>pr_signature = ''(Ljava/lang/String;III)Ljava/lang/String;'', pr_result = ''jstring'',
        pr_name = ''Java_jpcap_JpcapCaptor_nativeOpenLive'',
        pr_params = [''JNIEnv *'', ''jobject'', ''jstring'', ''jint'', ''jint'', ''jint'']\<rparr>,
      \<lparr>pr_signature = ''(Ljava/lang/String;)Ljava/lang/String;'', pr_result = ''jstring'',
        pr_name = ''Java_jpcap_JpcapCaptor_nativeOpenOffline'',
        pr_params = [''JNIEnv *'', ''jobject'', ''jstring'']\<rparr>,
      \<lparr>pr_signature = ''()V'', pr_result = ''void'',
        pr_name = ''Java_jpcap_JpcapCaptor_nativeClose'',
        pr_params = [''JNIEnv *'', ''jobject'']\<rparr>,
      \<lparr>pr_signature = ''()[Ljpcap/NetworkInterface;'', pr_result = ''jobjectArray'',
        pr_name = ''Java_jpcap_JpcapCaptor_getDeviceList'',
        pr_params = [''JNIEnv *'', ''jclass'']\<rparr>,
      \<lparr>pr_signature = ''()Ljpcap/packet/Packet;'', pr_result = ''jobject'',
        pr_name = ''Java_jpcap_JpcapCaptor_getPacket'',
        pr_params = [''JNIEnv *'', ''jobject'']\<rparr>,
      \<lparr>pr_signature = ''(ILjpcap/PacketReceiver;)I'', pr_result = ''jint'',
        pr_name = ''Java_jpcap_JpcapCaptor_processPacket'',
        pr_params = [''JNIEnv *'', ''jobject'', ''jint'', ''jobject'']\<rparr>,
      \<lparr>pr_signature = ''(ILjpcap/PacketReceiver;)I'', pr_result = ''jint'',
        pr_name = ''Java_jpcap_JpcapCaptor_loopPacket'',
        pr_params = [''JNIEnv *'', ''jobject'', ''jint'', ''jobject'']\<rparr>,
      \<lparr>pr_signature = ''(Z)V'', pr_result = ''void'',
        pr_name = ''Java_jpcap_JpcapCaptor_setNonBlockingMode'',
        pr_params = [''JNIEnv *'', ''jobject'', ''jboolean'']\<rparr>,
      \<lparr>pr_signature = ''()Z'', pr_result = ''jboolean'',
        pr_name = ''Java_jpcap_JpcapCaptor_isNonBlockinMode'',
        pr_params = [''JNIEnv *'', ''jobject'']\<rparr>,
      \<lparr>pr_signature = ''()V'', pr_result = ''void'',
        pr_name = ''Java_jpcap_JpcapCaptor_breakLoop'',
        pr_params = [''JNIEnv *'', ''jobject'']\<rparr>,
      \<lparr>pr_signature = ''(I)Z'', pr_result = ''jboolean'',
        pr_name = ''Java_jpcap_JpcapCaptor_setPacketReadTimeout'',
        pr_params = [''JNIEnv *'', ''jobject'', ''jint'']\<rparr>,
      \<lparr>pr_signature = ''()I'', pr_result = ''jint'',
        pr_name = ''Java_jpcap_JpcapCaptor_getPacketReadTimeout'',
        pr_params = [''JNIEnv *'', ''jobject'']\<rparr>,
      \<lparr>pr_signature = ''(Ljava/lang/String;Z)V'', pr_result = ''void'',
        pr_name = ''Java_jpcap_JpcapCaptor_setFilter'',
        pr_params = [''JNIEnv *'', ''jobject'', ''jstring'', ''jboolean'']\<rparr>,
      \<lparr>pr_signature = ''()V'', pr_result = ''void'',
        pr_name = ''Java_jpcap_JpcapCaptor_updateStat'',
        pr_params = [''JNIEnv *'', ''jobject'']\<rparr>,
      \<lparr>pr_signature = ''()Ljava/lang/String;'', pr_result = ''jstring'',
        pr_name = ''Java_jpcap_JpcapCaptor_getErrorMessage'',
        pr_params = [''JNIEnv *'', ''jobject'']\<rparr>]"

definition jpcap_JpcapSender_h :: "prototype list" where
  "jpcap_JpcapSender_h =
     [\<lparr>pr_signature = ''(Ljava/lang/String;)Ljava/lang/String;'', pr_result = ''jstring'',
        pr_name = ''Java_jpcap_JpcapSender_nativeOpenDevice'',
        pr_params = [''JNIEnv *'', ''jobject'', ''jstring'']\<rparr>,
      \<lparr>pr_signature = ''(Ljpcap/packet/Packet;)V'', pr_result = ''void'',
        pr_name = ''Java_jpcap_JpcapSender_nativeSendPacket'',
        pr_params = [''JNIEnv *'', ''jobject'', ''jobject'']\<rparr>,
      \<lparr>pr_signature = ''()V'', pr_result = ''void'',
        pr_name = ''Java_jpcap_JpcapSender_nativeCloseDevice'',
        pr_params = [''JNIEnv *'', ''jobject'']\<rparr>,
      \<lparr>pr_signature = ''()V'', pr_result = ''void'',
        pr_name = ''Java_jpcap_JpcapSender_nativeOpenRawSocket'',
        pr_params = [''JNIEnv *'', ''jobject'']\<rparr>,
      \<lparr>pr_signature = ''(Ljpcap/packet/Packet;)V'', pr_result = ''void'',
        pr_name = ''Java_jpcap_JpcapSender_nativeSendPacketViaRawSocket'',
        pr_params = [''JNIEnv *'', ''jobject'', ''jobject'']\<rparr>,
      \<lparr>pr_signature = ''()V'', pr_result = ''void'',
        pr_name = ''Java_jpcap_JpcapSender_nativeCloseRawSocket'',
        pr_params = [''JNIEnv *'', ''jobject'']\<rparr>]"

definition jpcap_JpcapWriter_h :: "prototype list" where
  "jpcap_JpcapWriter_h =
     [\<lparr>pr_signature = ''(Ljava/lang/String;I)Ljava/lang/String;'', pr_result = ''jstring'',
        pr_name = ''Java_jpcap_JpcapWriter_nativeOpenDumpFile'',
        pr_params = [''JNIEnv *'', ''jobject'', ''jstring'', ''jint'']\<rparr>,
      \<lparr>pr_signature = ''()V'', pr_result = ''void'',
        pr_name = ''Java_jpcap_JpcapWriter_close'',
        pr_params = [''JNIEnv *'', ''jobject'']\<rparr>,
      \<lparr>pr_signature = ''(Ljpcap/packet/Packet;)V'', pr_result = ''void'',
        pr_name = ''Java_jpcap_JpcapWriter_writePacket'',
        pr_params = [''JNIEnv *'', ''jobject'', ''jobject'']\<rparr>]"

definition jpcap_JpcapSender_RAW_SOCKET_ID :: jint where
  "jpcap_JpcapSender_RAW_SOCKET_ID = 99999"

definition jpcap_JpcapCaptor_MAX_NUMBER_OF_INSTANCE :: int where
  "jpcap_JpcapCaptor_MAX_NUMBER_OF_INSTANCE = 255"

section \<open>The rules of the JNI specification\<close>

text \<open>Escapes in the names of native functions, for the characters that occur here.\<close>

definition mangle_char :: "char \<Rightarrow> string" where
  "mangle_char c =
     (if c = CHR ''/'' then ''_'' else if c = CHR ''_'' then ''_1''
      else if c = CHR '';'' then ''_2'' else if c = CHR ''['' then ''_3'' else [c])"

definition jni_name :: "string \<Rightarrow> string \<Rightarrow> string" where
  "jni_name cls m = ''Java_'' @ concat (map mangle_char cls) @ ''_'' @ concat (map mangle_char m)"

text \<open>The C types of Java types.\<close>

fun c_type :: "jtype \<Rightarrow> string" where
  "c_type JByte = ''jbyte''"
| "c_type JBoolean = ''jboolean''"
| "c_type JChar = ''jchar''"
| "c_type JShort = ''jshort''"
| "c_type JInt = ''jint''"
| "c_type JLong = ''jlong''"
| "c_type JFloat = ''jfloat''"
| "c_type JDouble = ''jdouble''"
| "c_type JVoid = ''void''"
| "c_type (JClass c) = (if c = ''java/lang/String'' then ''jstring'' else ''jobject'')"
| "c_type (JArray (JClass c)) = ''jobjectArray''"
| "c_type (JArray (JArray t)) = ''jobjectArray''"
| "c_type (JArray t) = c_type t @ ''Array''"

text \<open>The printed form of a descriptor.\<close>

fun show_type :: "jtype \<Rightarrow> string" where
  "show_type JByte = ''B''"
| "show_type JBoolean = ''Z''"
| "show_type JChar = ''C''"
| "show_type JShort = ''S''"
| "show_type JInt = ''I''"
| "show_type JLong = ''J''"
| "show_type JFloat = ''F''"
| "show_type JDouble = ''D''"
| "show_type JVoid = ''V''"
| "show_type (JClass c) = ''L'' @ c @ '';''"
| "show_type (JArray t) = ''['' @ show_type t"

definition show_descriptor :: "jtype list \<Rightarrow> jtype \<Rightarrow> string" where
  "show_descriptor ts t = ''('' @ concat (map show_type ts) @ '')'' @ show_type t"

text \<open>The prototype the specification prescribes for a declared native method.\<close>

fun jni_prototype :: "string \<Rightarrow> java_native \<Rightarrow> prototype" where
  "jni_prototype cls (m, static, ts, t) =
     \<lparr>pr_signature = show_descriptor ts t, pr_result = c_type t, pr_name = jni_name cls m,
      pr_params = [''JNIEnv *'', if static then ''jclass'' else ''jobject''] @ map c_type ts\<rparr>"

section \<open>Descriptors print and parse back\<close>

fun wf_type :: "jtype \<Rightarrow> bool" where
  "wf_type (JClass c) = (CHR '';'' \<notin> set c)"
| "wf_type (JArray t) = wf_type t"
| "wf_type _ = True"

lemma parse_type_show: "wf_type t \<Longrightarrow> parse_type (show_type t @ rest) = Some (t, rest)"
proof (induction t arbitrary: rest)
  case (JClass c)
  then have "\<forall>x \<in> set c. x \<noteq> CHR '';''" by auto
  then show ?case by simp
qed (simp_all add: jtype_char_def)

lemma show_type_head: "\<exists>c cs. show_type t = c # cs \<and> c \<noteq> CHR '')''"
  by (cases t) auto

lemma parse_args_show:
  "list_all wf_type ts \<Longrightarrow>
     parse_args (concat (map show_type ts) @ CHR '')'' # rest) = Some (ts, rest)"
proof (induction ts)
  case Nil
  then show ?case by (simp add: parse_args.simps)
next
  case (Cons t ts)
  let ?tail = "concat (map show_type ts) @ CHR '')'' # rest"
  obtain c cs where head: "show_type t = c # cs" "c \<noteq> CHR '')''"
    using show_type_head by blast
  moreover have "parse_type (show_type t @ ?tail) = Some (t, ?tail)"
    by (rule parse_type_show) (use Cons.prems in simp)
  moreover have "parse_args ?tail = Some (ts, rest)" using Cons by simp
  ultimately show ?case by (subst parse_args.simps) (simp del: parse_type.simps)
qed

text \<open>
  Descriptors are read back as they are printed.
\<close>

theorem descriptor_round_trip:
  assumes "list_all wf_type ts" and "wf_type t"
  shows "parse_descriptor (show_descriptor ts t) = Some (ts, t)"
  using parse_args_show [OF assms(1), of "show_type t"] parse_type_show [OF assms(2), of "[]"]
  by (simp add: parse_descriptor_def show_descriptor_def)

text \<open>
  The prototypes and signatures of the three generated headers are exactly those the JNI rules
  derive from the native methods of the Java classes.
\<close>

theorem native_prototypes:
  "map (jni_prototype ''jpcap/JpcapCaptor'') java_captor_natives = jpcap_JpcapCaptor_h \<and>
   map (jni_prototype ''jpcap/JpcapSender'') java_sender_natives = jpcap_JpcapSender_h \<and>
   map (jni_prototype ''jpcap/JpcapWriter'') java_writer_natives = jpcap_JpcapWriter_h \<and>
   distinct (map pr_name (jpcap_JpcapCaptor_h @ jpcap_JpcapSender_h @ jpcap_JpcapWriter_h))"
  by (intro conjI; code_simp)

end
