(* ===== verification/SenderOps.thy ===== *)
theory SenderOps
  imports SetPacket CaptorOps NativeMethods
begin

text \<open>
  The native methods of \<open>JpcapSender.c\<close>: opening and closing a device and the raw socket, and
  sending a packet through either.
\<close>

section \<open>The library\<close>

text \<open>\<open>pcap_sendpacket\<close>, \<open>WSAStartup\<close>, \<open>socket\<close>/\<open>WSASocket\<close> and \<open>sendto\<close>.\<close>

record sender_library = library +
  lib_sendpacket :: "handle \<Rightarrow> u8 list \<Rightarrow> int"
  lib_WSAStartup :: int
  lib_WSASocket :: "int option"
  lib_socket :: int
  lib_sendto :: "u8 list \<Rightarrow> u8 list \<Rightarrow> int"

section \<open>Devices\<close>

definition getJpcapSenderID :: "jint \<Rightarrow> native \<Rightarrow> jint \<times> native" where
  "getJpcapSenderID ID s = (ID, s\<lparr>JpcapSender_class := True\<rparr>)"

definition nativeOpenDevice ::
  "jvm \<Rightarrow> sender_library \<Rightarrow> env_ptr \<Rightarrow> jint \<Rightarrow> string option \<Rightarrow> native \<Rightarrow>
   (string option \<times> native) res" where
  "nativeOpenDevice vm lib env obj_ID device s =
     (let s = s\<lparr>jenv := set_Java_env vm (jenv s)\<rparr>;
          (ID, s) = getJpcapSenderID obj_ID s
      in bindr (slot ID) (\<lambda>i.
         let s = s\<lparr>jni_envs := (jni_envs s)[i := Some env]\<rparr> in
         if pcds s ! i \<noteq> None then Inr (Some ''Another Jpcap instance is being used.'', s)
         else case device of
           None \<Rightarrow> Inr (Some ''Please specify device name.'', s)
         | Some dev \<Rightarrow>
             let (h, msg) = lib_open_live lib dev 65535 0 1000;
                 s = put_errbuf i msg (open_slot i h s)
             in case h of
                  None \<Rightarrow> bindr (errbuf_string i s) (\<lambda>m. Inr (Some m, s))
                | Some _ \<Rightarrow> Inr (None, s)))"

definition nativeCloseDevice :: "jint \<Rightarrow> native \<Rightarrow> native res" where
  "nativeCloseDevice obj_ID s =
     (let (ID, s) = getJpcapSenderID obj_ID s in
      bindr (slot ID) (\<lambda>i.
      bindr (case pcds s ! i of None \<Rightarrow> Inr s | Some h \<Rightarrow> pcap_close h s) (\<lambda>s.
        Inr (s\<lparr>pcds := (pcds s)[i := None]\<rparr>))))"

text \<open>
  \<open>nativeSendPacket\<close>. The result is the pending exception (one that \<open>set_packet\<close> left, or the one
  thrown here), the bytes handed to \<open>pcap_sendpacket\<close> and the state; \<open>buf\<close> is what the stack array
  holds on entry. The message of the exception is read from the error buffer, which
  \<open>pcap_sendpacket\<close> does not write.
\<close>

definition nativeSendPacket ::
  "sender_library \<Rightarrow> mem \<Rightarrow> jint \<Rightarrow> jpacket \<Rightarrow> native \<Rightarrow>
   ((jexception option \<times> u8 list option) \<times> native) res" where
  "nativeSendPacket lib buf obj_ID packet s =
     (let (ID, s) = getJpcapSenderID obj_ID s in
      bindr (slot ID) (\<lambda>i.
      if pcds s ! i = None
      then Inr ((Some (IOException ''Another JpcapSender instance is being used.''), None), s)
      else
        bindr (build_frame buf packet) (\<lambda>(len, st).
        bindr (the_handle i s) (\<lambda>h.
        bindr (rd_bytes (sbuf st) 0 (nat len)) (\<lambda>bytes.
          if lib_sendpacket lib h bytes < 0
          then bindr (errbuf_string i s) (\<lambda>m. Inr ((Some (IOException m), Some bytes), s))
          else Inr ((pending st, Some bytes), s))))))"

section \<open>The raw socket\<close>

definition nativeOpenRawSocket ::
  "platform \<Rightarrow> jvm \<Rightarrow> sender_library \<Rightarrow> native \<Rightarrow> jexception option \<times> native" where
  "nativeOpenRawSocket plat vm lib s =
     (let s = s\<lparr>jenv := set_Java_env vm (jenv s)\<rparr> in
      case plat of
        Win32 \<Rightarrow>
          if sockRaw s \<noteq> None then (Some (IOException ''Raw Socket is already opened.''), s)
          else if lib_WSAStartup lib \<noteq> 0
          then (Some (IOException ''Failed to find Winsock 2.1 or better.''), s)
          else
            let s = s\<lparr>sockRaw := lib_WSASocket lib,
                      live_sockets := live_sockets s \<union> set_option (lib_WSASocket lib)\<rparr> in
            if sockRaw s = None then (Some (IOException ''Failed to create raw socket.''), s)
            else (None, s)
      | Unix \<Rightarrow>
          if soc_num s \<ge> 0 then (Some (IOException ''Raw Socket is already opened.''), s)
          else
            let s = s\<lparr>soc_num := lib_socket lib,
                      live_sockets := live_sockets s \<union> (if 0 \<le> lib_socket lib then {lib_socket lib} else {})\<rparr> in
            if soc_num s < 0 then (Some (IOException ''can't initialize socket''), s)
            else (None, s))"

text \<open>Closing the socket leaves the variable that holds it as it is.\<close>

definition nativeCloseRawSocket :: "platform \<Rightarrow> native \<Rightarrow> native" where
  "nativeCloseRawSocket plat s =
     (case plat of
        Win32 \<Rightarrow> s\<lparr>live_sockets := live_sockets s - set_option (sockRaw s)\<rparr>
      | Unix \<Rightarrow> s\<lparr>live_sockets := live_sockets s - {soc_num s}\<rparr>)"

text \<open>The variable as the code tests it: \<open>None\<close> is \<open>INVALID_SOCKET\<close> or a negative number.\<close>

definition raw_socket :: "platform \<Rightarrow> native \<Rightarrow> int option" where
  "raw_socket plat s =
     (case plat of Win32 \<Rightarrow> sockRaw s | Unix \<Rightarrow> if soc_num s < 0 then None else Some (soc_num s))"

text \<open>\<open>sendto\<close> fails on a socket that is not open.\<close>

definition sendto :: "sender_library \<Rightarrow> int \<Rightarrow> u8 list \<Rightarrow> u8 list \<Rightarrow> native \<Rightarrow> int" where
  "sendto lib sock bytes sin_addr s =
     (if sock \<in> live_sockets s then lib_sendto lib bytes sin_addr else - 1)"

text \<open>
  \<open>nativeSendPacketViaRawSocket\<close>: the IP packet without link header, and the destination address
  out of its header. The value has the bytes and the address \<open>sendto\<close> is called with.
\<close>

definition nativeSendPacketViaRawSocket ::
  "platform \<Rightarrow> sender_library \<Rightarrow> mem \<Rightarrow> jpacket \<Rightarrow> native \<Rightarrow>
   (jexception option \<times> (u8 list \<times> u8 list) option) res" where
  "nativeSendPacketViaRawSocket plat lib buf packet s =
     (if \<not> IsInstanceOf packet IPPacketC
      then Inr (Some (IOException ''seinding non-IP packet is not supported''), None)
      else case raw_socket plat s of
        None \<Rightarrow> Inr (Some (IOException ''socket not initialized yet''), None)
      | Some sock \<Rightarrow>
        bindr (set_packet packet 0 False \<lparr>sbuf = buf, pending = None\<rparr>) (\<lambda>(len, st).
        bindr (rd_bytes (sbuf st) (at_ip_dst 0) 4) (\<lambda>sin_addr.
        bindr (rd_bytes (sbuf st) 0 (nat len)) (\<lambda>bytes.
          if sendto lib sock bytes sin_addr s < 0
          then Inr (Some (IOException ''sendto error''), Some (bytes, sin_addr))
          else Inr (pending st, Some (bytes, sin_addr))))))"

end
