(* ===== verification/SenderLaws.thy ===== *)
theory SenderLaws
  imports SenderOps Frames
begin

text \<open>
  Properties of the operations of theory SenderOps: what \<open>nativeSendPacket\<close> hands to the capture
  library, what goes through the raw socket, and the raw socket that cannot be opened again.
\<close>

section \<open>Sending through a device\<close>

text \<open>
  nativeSendPacket on an open instance hands the library exactly the bytes that set_packet and
  the padding to 60 bytes produce, once, and changes nothing but the cached class.
\<close>

theorem nativeSendPacket_sends_frame:
  assumes "slot ID = Inr i" and "pcds s ! i = Some h" and "h \<in> live s"
    and "bytes_sent buf packet = Inr frame" and "0 \<le> lib_sendpacket lib h frame"
  shows "\<exists>e. nativeSendPacket lib buf ID packet s = Inr ((e, Some frame), s\<lparr>JpcapSender_class := True\<rparr>)"
proof -
  obtain len st where "build_frame buf packet = Inr (len, st)"
    and "rd_bytes (sbuf st) 0 (nat len) = Inr frame"
    using assms(4) by (auto simp: bytes_sent_def bindr_Inr_iff)
  then show ?thesis
    using assms(1,2,3,5) by (simp add: nativeSendPacket_def getJpcapSenderID_def the_handle_def)
qed

text \<open>
  When the library reports a failure, the message of the exception is what an earlier call left
  in the error buffer of the instance.
\<close>

text \<open>
  The message of a failed send.
\<close>

theorem send_failure_reports_old_message:
  assumes "slot ID = Inr i" and "i < MAX_NUMBER_OF_INSTANCE" and "pcds s ! i = Some h" and "h \<in> live s"
    and "bytes_sent buf packet = Inr frame" and "lib_sendpacket lib h frame < 0"
    and "library_message old" and "s = put_errbuf i (Some old) s0"
  shows "nativeSendPacket lib buf ID packet s =
     Inr ((Some (IOException old), Some frame), s\<lparr>JpcapSender_class := True\<rparr>)"
proof -
  have "errbuf_string i s = Inr old"
    unfolding assms(8) by (rule errbuf_read_back [OF assms(2,7)])
  then have "errbuf_string i (s\<lparr>JpcapSender_class := True\<rparr>) = Inr old"
    by (simp add: errbuf_string_def)
  moreover obtain len st where "build_frame buf packet = Inr (len, st)"
    and "rd_bytes (sbuf st) 0 (nat len) = Inr frame"
    using assms(5) by (auto simp: bytes_sent_def bindr_Inr_iff)
  ultimately show ?thesis
    using assms(1,3,4,6)
    by (simp add: nativeSendPacket_def getJpcapSenderID_def the_handle_def)
qed

section \<open>Sending through the raw socket\<close>

lemma raw_udp_packet:
  assumes ready: "sendable packet dmac smac type src dst data"
    and cls: "pk_class packet = UDPPacketC"
    and len: "length data \<le> 1572" and buf: "length buf = 1600"
  shows "\<exists>post. set_packet packet 0 False \<lparr>sbuf = buf, pending = None\<rparr> =
     Inr (28 + int (length data), \<lparr>sbuf = ipv4_packet (pk_ip packet) src dst 17
       (udp_datagram src dst (pk_udp packet) data) @ post, pending = None\<rparr>)"
proof -
  let ?f = "pk_ip packet" and ?u = "udp_datagram src dst (pk_udp packet) data"
  have "20 + (length data + 8) \<le> length buf" using len buf by simp
  then obtain iw uw post where b: "buf = iw @ uw @ post" and sz: "length iw = 20"
    "length uw = length data + 8"
    by (rule window_split)
  have "set_packet packet (int (length ([] :: u8 list))) False
      \<lparr>sbuf = [] @ iw @ uw @ post, pending = None\<rparr> =
      Inr (28 + int (length data), \<lparr>sbuf = [] @ ipv4_header ?f src dst 17 (of_nat (28 + length data))
        (inet_cksum (ipv4_header ?f src dst 17 (of_nat (28 + length data)) 0)) @ ?u @ post,
        pending = None\<rparr>)"
  proof (rule set_packet_ipv4)
    show "set_transport packet 4 (int (length ([] :: u8 list))) (int (length ([] :: u8 list)) + 20)
        (20 + int (length data)) \<lparr>sbuf = [] @ set_ip_bytes ?f src dst iw @ uw @ post, pending = None\<rparr> =
      Inr (28 + int (length data), \<lparr>sbuf = [] @ raw_header ?f src dst 17 (of_nat (28 + length data))
        (take 2 (drop 10 iw)) @ ?u @ post, pending = None\<rparr>)"
      by (rule set_transport_udp [OF cls _ len]) (use ready sz in \<open>simp_all add: sendable_def\<close>)
  qed (use ready cls sz in \<open>simp_all add: sendable_def IsInstanceOf_def getSourceAddress_def
        getDestinationAddress_def\<close>)
  then show ?thesis by (auto simp: b ipv4_packet_def Let_def)
qed

text \<open>
  Through the raw socket a UDP packet goes out as the IPv4 packet without a link header, to the
  destination address of its own IP header, with correct checksums.
\<close>

theorem raw_socket_sends_ip_packet:
  assumes ready: "sendable packet dmac smac type src dst data"
    and cls: "pk_class packet = UDPPacketC"
    and len: "length data \<le> 1572" and buf: "length buf = 1600"
    and sock: "raw_socket plat s = Some sock" "sock \<in> live_sockets s"
    and sent: "0 \<le> lib_sendto lib (ipv4_packet (pk_ip packet) src dst 17
      (udp_datagram src dst (pk_udp packet) data)) dst"
  shows "nativeSendPacketViaRawSocket plat lib buf packet s =
     Inr (None, Some (ipv4_packet (pk_ip packet) src dst 17
       (udp_datagram src dst (pk_udp packet) data), dst))"
proof -
  let ?p = "ipv4_packet (pk_ip packet) src dst 17 (udp_datagram src dst (pk_udp packet) data)"
  obtain post where run: "set_packet packet 0 False \<lparr>sbuf = buf, pending = None\<rparr> =
      Inr (28 + int (length data), \<lparr>sbuf = ?p @ post, pending = None\<rparr>)"
    using raw_udp_packet [OF ready cls len buf] by blast
  have sz: "length src = 4" "length dst = 4" using ready by (simp_all add: sendable_def)
  then have lp: "length ?p = 28 + length data" by simp
  have n: "nat (28 + int (length data)) = length ?p" by (simp add: lp nat_add_distrib)
  have "rd_bytes (?p @ post) 16 4 = Inr dst"
    using sz by (simp add: rd_bytes_def in_range_def ipv4_packet_def ipv4_header_def bytes16_def Let_def)
  moreover have "rd_bytes (?p @ post) 0 (length ?p) = Inr ?p"
    by (simp add: rd_bytes_def in_range_def)
  ultimately show ?thesis
    using run cls sock sent
    by (simp add: nativeSendPacketViaRawSocket_def IsInstanceOf_def sendto_def n)
qed

section \<open>Closing the raw socket\<close>

text \<open>
  After closing the raw socket it can be neither used nor opened again.
\<close>

theorem raw_socket_lost_after_close:
  assumes "nativeOpenRawSocket plat vm lib s = (None, s1)" and "s2 = nativeCloseRawSocket plat s1"
  shows "fst (nativeOpenRawSocket plat vm' lib' s2) = Some (IOException ''Raw Socket is already opened.'') \<and>
     (\<forall>sock. raw_socket plat s2 = Some sock \<longrightarrow> sendto lib' sock bytes sin_addr s2 < 0) \<and>
     raw_socket plat s2 \<noteq> None"
proof (cases plat)
  case Win32
  with assms(1) obtain sock where "sockRaw s1 = Some sock"
    by (auto simp: nativeOpenRawSocket_def Let_def split: if_splits)
  then show ?thesis
    using assms(2) Win32
    by (simp add: nativeCloseRawSocket_def nativeOpenRawSocket_def raw_socket_def sendto_def)
next
  case Unix
  with assms(1) have "0 \<le> soc_num s1"
    by (auto simp: nativeOpenRawSocket_def Let_def split: if_splits)
  then show ?thesis
    using assms(2) Unix
    by (simp add: nativeCloseRawSocket_def nativeOpenRawSocket_def raw_socket_def sendto_def)
qed

end
