(* ===== verification/CaptorLaws.thy ===== *)
theory CaptorLaws
  imports CaptorOps
begin

text \<open>
  Properties of the operations of theory CaptorOps: what the capture loops deliver, the results
  of \<open>getPacket\<close>, opening and closing, the messages of errors, the timeouts, and the error rows
  that overlap.
\<close>

section \<open>The capture loops\<close>

text \<open>What a handler must leave alone for the loop of instance \<open>i\<close> to go on undisturbed.\<close>

definition keeps_loop :: "nat \<Rightarrow> native \<Rightarrow> native \<Rightarrow> bool" where
  "keeps_loop i s s' \<longleftrightarrow> jni_envs s' ! i = jni_envs s ! i \<and> linktypes s' ! i = linktypes s ! i \<and>
     jpcap_handlers s' ! i = jpcap_handlers s ! i \<and>
     Option.bind (jpcap_handlers s ! i) (global_refs s') =
       Option.bind (jpcap_handlers s ! i) (global_refs s)"

lemma keeps_loop_refl: "keeps_loop i s s"
  by (simp add: keeps_loop_def)

lemma keeps_loop_trans: "keeps_loop i s s' \<Longrightarrow> keeps_loop i s' s'' \<Longrightarrow> keeps_loop i s s''"
  by (simp add: keeps_loop_def)

lemma dispatch_frames_deliver:
  assumes "jni_envs s ! i \<noteq> None"
    and "Option.bind (jpcap_handlers s ! i) (global_refs s) = Some obj"
    and "\<And>k s. \<exists>s'. receive k s = Inr s' \<and> keeps_loop i s s'"
    and "list_all2 (\<lambda>(k, header, data) p. get_packet na (jk k) (linktypes s ! i) header data = Inr p)
      (enumerate n frames) ps"
  shows "\<exists>s'. dispatch_frames na jk receive i n frames s = Inr (map (Pair obj) ps, s') \<and> keeps_loop i s s'"
  using assms(1,2,4)
proof (induction frames arbitrary: n s ps)
  case Nil
  then show ?case by (auto simp: keeps_loop_refl)
next
  case (Cons f frames)
  obtain header data where f: "f = (header, data)" by (cases f)
  from Cons.prems(3) obtain p ps' where ps: "ps = p # ps'"
    and p: "get_packet na (jk n) (linktypes s ! i) header data = Inr p"
    and rest: "list_all2 (\<lambda>(k, header, data) p. get_packet na (jk k) (linktypes s ! i) header data = Inr p)
      (enumerate (Suc n) frames) ps'"
    by (auto simp: f list_all2_Cons1)
  obtain s' where s': "receive n s = Inr s'" and keep: "keeps_loop i s s'" using assms(3) by blast
  have "\<exists>s''. dispatch_frames na jk receive i (Suc n) frames s' = Inr (map (Pair obj) ps', s'') \<and>
      keeps_loop i s' s''"
    using Cons.prems(1,2) rest keep by (intro Cons.IH) (auto simp: keeps_loop_def)
  then obtain s'' where "dispatch_frames na jk receive i (Suc n) frames s' = Inr (map (Pair obj) ps', s'')"
    and "keeps_loop i s' s''" by blast
  then show ?case
    using Cons.prems(1,2) p s' keep
    by (auto simp: f ps dispatcher_handler_def intro: keeps_loop_trans)
qed

text \<open>
  C20. processPacket and loopPacket hand every frame the library delivers, in order and each as
  the object get_packet builds of it, to the handler given, and return the count of the library,
  as long as the handler leaves the instance alone.
\<close>

theorem capture_loop_delivers_in_order:
  assumes "arrays_sized s" and "slot ID = Inr i" and "pcds s ! i = Some h" and "h \<in> live s"
    and "call h cnt = (frames, pkt_cnt)"
    and "\<And>k s. \<exists>s'. receive k s = Inr s' \<and> keeps_loop i s s'"
    and "list_all2 (\<lambda>(k, header, data) p. get_packet na (jk k) (linktypes s ! i) header data = Inr p)
      (enumerate 0 frames) ps"
  shows "\<exists>s'. capture_loop call na jk receive env ID cnt handler s =
     Inr ((pkt_cnt, map (Pair handler) ps), s')"
proof -
  define s1 where "s1 = (snd (NewGlobalRef handler (s\<lparr>jni_envs := (jni_envs s)[i := Some env]\<rparr>)))
      \<lparr>jpcap_handlers := (jpcap_handlers s)[i := Some (next_ref s)]\<rparr>"
  have i: "i < length (jni_envs s)" "i < length (jpcap_handlers s)"
    using assms(1,2) by (simp_all add: arrays_sized_def slot_Inr_iff)
  have "\<exists>s'. dispatch_frames na jk receive i 0 frames s1 = Inr (map (Pair handler) ps, s') \<and>
      keeps_loop i s1 s'"
    using assms(7) i
    by (intro dispatch_frames_deliver [OF _ _ assms(6)]) (simp_all add: s1_def NewGlobalRef_def)
  then obtain s' where "dispatch_frames na jk receive i 0 frames s1 = Inr (map (Pair handler) ps, s')"
    by blast
  moreover have "the_handle i s1 = Inr h"
    using assms(3,4) by (simp add: the_handle_def s1_def NewGlobalRef_def)
  ultimately show ?thesis
    using assms(2,5) by (simp add: capture_loop_def NewGlobalRef_def s1_def Let_def)
qed

text \<open>
  A handler that runs a capture loop of the same instance itself: the inner loop replaces the
  handler reference and deletes it when it ends, and the next frame of the outer loop finds a
  dead reference.
\<close>

lemma inner_loop_kills_reference:
  assumes "arrays_sized s" and "slot ID = Inr i" and "pcds s ! i = Some h" and "h \<in> live s"
    and "call h cnt = ([], 0)"
  shows "\<exists>s'. capture_loop call na jk receive env ID cnt handler s = Inr ((0, []), s') \<and>
     jni_envs s' ! i = Some env \<and> linktypes s' = linktypes s \<and>
     Option.bind (jpcap_handlers s' ! i) (global_refs s') = None"
proof -
  have i: "i < length (jni_envs s)" "i < length (jpcap_handlers s)"
    using assms(1,2) by (simp_all add: arrays_sized_def slot_Inr_iff)
  then show ?thesis
    using assms
    by (simp add: capture_loop_def NewGlobalRef_def DeleteGlobalRef_def the_handle_def Let_def)
qed

text \<open>
  A handler that runs a capture loop on its own captor deletes the global reference of the outer
  loop with it.
\<close>

theorem nested_loop_breaks_outer:
  assumes state: "arrays_sized s" "slot ID = Inr i" "pcds s ! i = Some h" "h \<in> live s"
    and outer: "call h cnt = (f # (header, data) # frames, n)"
    and inner: "call' h cnt' = ([], 0)"
    and nested: "\<And>s. receive 0 s = bindr (capture_loop call' na jk' receive' env ID cnt' handler' s)
      (\<lambda>(_, s). Inr s)"
    and packets: "get_packet na (jk 0) (linktypes s ! i) (fst f) (snd f) = Inr p"
      "get_packet na (jk 1) (linktypes s ! i) header data = Inr q"
  shows "capture_loop call na jk receive env ID cnt handler s = Inl NullReference"
proof -
  define s1 where "s1 = (snd (NewGlobalRef handler (s\<lparr>jni_envs := (jni_envs s)[i := Some env]\<rparr>)))
      \<lparr>jpcap_handlers := (jpcap_handlers s)[i := Some (next_ref s)]\<rparr>"
  have i: "i < length (jni_envs s)" "i < length (jpcap_handlers s)"
    using state by (simp_all add: arrays_sized_def slot_Inr_iff)
  have s1: "arrays_sized s1" "pcds s1 ! i = Some h" "h \<in> live s1" "linktypes s1 = linktypes s"
    "jni_envs s1 ! i = Some env" "Option.bind (jpcap_handlers s1 ! i) (global_refs s1) = Some handler"
    using state i by (simp_all add: s1_def NewGlobalRef_def arrays_sized_def)
  obtain s2 where s2: "capture_loop call' na jk' receive' env ID cnt' handler' s1 = Inr ((0, []), s2)"
    "jni_envs s2 ! i = Some env" "linktypes s2 = linktypes s1"
    "Option.bind (jpcap_handlers s2 ! i) (global_refs s2) = None"
    using inner_loop_kills_reference [where call = call' and cnt = cnt', OF s1(1) state(2) s1(2,3) inner] by blast
  have "dispatch_frames na jk receive i 0 (f # (header, data) # frames) s1 = Inl NullReference"
    using packets s1 s2 nested [of s1]
    by (cases f) (simp add: dispatcher_handler_def)
  moreover have "the_handle i s1 = Inr h"
    using s1 by (simp add: the_handle_def)
  ultimately show ?thesis
    using state outer by (simp add: capture_loop_def NewGlobalRef_def s1_def Let_def)
qed

section \<open>getPacket\<close>

text \<open>
  What getPacket returns for each answer of the library.
\<close>

theorem getPacket_result:
  assumes "slot ID = Inr i" and "pcds s ! i = Some h" and "h \<in> live s"
    and "lib_next_ex lib h = (ret, header, data)"
  shows "getPacket lib na jk env ID s =
     (if ret = 0 \<or> ret = - 1 then Inr (NullPacket, s)
      else if ret = - 2 then Inr (EOF, s)
      else map_sum (\<lambda>f. f) (\<lambda>p. (p, s\<lparr>jni_envs := (jni_envs s)[i := Some env]\<rparr>))
        (case data of None \<Rightarrow> Inr NullPacket
         | Some m \<Rightarrow> map_sum (\<lambda>f. f) APacket (get_packet na jk (linktypes s ! i) header m)))"
  using assms
  by (auto simp: getPacket_def the_handle_def bindr_def split: option.split sum.split)

section \<open>Opening and closing\<close>

text \<open>
  nativeOpenLive stores handle and link type in the slot of the ID; a second call for the same
  ID is refused and changes nothing but the class table; nativeClose frees the handle and
  restores the slots and the set of live handles.
\<close>

theorem open_live_then_close:
  assumes state: "arrays_sized s" "slot ID = Inr i" "pcds s ! i = None"
    and device: "lib_open_live lib dev snaplen promisc to_ms = (Some h, msg)" "h \<notin> live s"
  shows "\<exists>s1. nativeOpenLive vm lib env ID (Some dev) snaplen promisc to_ms s = Inr (None, s1) \<and>
     the_handle i s1 = Inr h \<and> linktypes s1 ! i = lib_datalink lib h \<and>
     nativeOpenLive vm lib env ID device' snaplen' promisc' to_ms' s1 =
       Inr (Some ''Another Jpcap instance is being used.'', s1\<lparr>jenv := set_Java_env vm (jenv s1)\<rparr>) \<and>
     (\<exists>s2. nativeClose ID s1 = Inr s2 \<and> pcds s2 = pcds s \<and> live s2 = live s)"
proof -
  have i: "i < length (pcds s)" "i < length (linktypes s)"
    using state by (simp_all add: arrays_sized_def slot_Inr_iff)
  obtain s1 where run: "nativeOpenLive vm lib env ID (Some dev) snaplen promisc to_ms s = Inr (None, s1)"
    and s1: "pcds s1 = (pcds s)[i := Some h]" "live s1 = insert h (live s)"
      "linktypes s1 = (linktypes s)[i := lib_datalink lib h]"
    using state device by (auto simp: nativeOpenLive_def Let_def open_slot_def)
  have "(pcds s)[i := None] = pcds s" using state(3) by (metis list_update_id)
  then have "\<exists>s2. nativeClose ID s1 = Inr s2 \<and> pcds s2 = pcds s \<and> live s2 = live s"
    using state device(2) i s1 by (auto simp: nativeClose_def pcap_close_def)
  moreover have "nativeOpenLive vm lib env ID device' snaplen' promisc' to_ms' s1 =
      Inr (Some ''Another Jpcap instance is being used.'', s1\<lparr>jenv := set_Java_env vm (jenv s1)\<rparr>)"
    using state(2) i s1 by (simp add: nativeOpenLive_def Let_def)
  moreover have "the_handle i s1 = Inr h" "linktypes s1 ! i = lib_datalink lib h"
    using i s1 by (simp_all add: the_handle_def)
  ultimately show ?thesis using run by blast
qed

text \<open>
  A device that cannot be opened: the exception carries what the error buffer holds after
  \<open>pcap_lookupnet\<close>, which is called all the same.
\<close>

text \<open>
  The message of a failed openDevice.
\<close>

theorem open_live_failure_message:
  assumes "slot ID = Inr i" and "pcds s ! i = None"
    and "lib_open_live lib dev snaplen promisc to_ms = (None, Some m1)" and "library_message m1"
    and "lib_lookupnet lib dev = (ret, net, nmask, msg2)"
    and "\<And>m2. msg2 = Some m2 \<Longrightarrow> library_message m2"
  shows "\<exists>s'. nativeOpenLive vm lib env ID (Some dev) snaplen promisc to_ms s =
     Inr (Some (case msg2 of None \<Rightarrow> m1 | Some m2 \<Rightarrow> m2), s') \<and> live s' = live s"
proof -
  have i: "i < MAX_NUMBER_OF_INSTANCE" using assms(1) by (simp add: slot_Inr_iff)
  have first: "errbuf_string i (put_errbuf i (Some m1) t) = Inr m1" for t
    by (rule errbuf_read_back [OF i assms(4)])
  show ?thesis
  proof (cases msg2)
    case None
    then show ?thesis
      using assms(1-3,5) first
      by (simp add: nativeOpenLive_def Let_def open_slot_def lookup_net_message(1))
  next
    case (Some m2)
    then have "errbuf_string i (lookup_net lib i dev t) = Inr m2" for t
      using assms(5,6) i by (intro lookup_net_message(2)) simp_all
    then show ?thesis
      using assms(1-3) Some by (simp add: nativeOpenLive_def Let_def open_slot_def)
  qed
qed

section \<open>Filters\<close>

text \<open>
  The message setFilter builds in its 2048-byte array has at most 2047 characters on both
  platforms and is the prefix followed by the message of the library, cut there.
\<close>

theorem filter_message_bounded:
  "length (filter_message plat err) \<le> 2047 \<and>
   filter_message plat err = take 2047 (filter_prefix @ err)"
  by (cases plat) (simp_all add: filter_message_def filter_prefix_def)

section \<open>Timeouts\<close>

lemma timeval_millis:
  "snd (timeval_of millis) sdiv 1000 + fst (timeval_of millis) * 1000 = sint millis"
proof -
  have "(sint millis smod 1000) * 1000 sdiv 1000 = sint millis smod 1000"
    by (simp add: signed_divide_int_def sgn_mult abs_mult mult_sgn_abs)
  then show ?thesis
    using sdiv_mult_smod_eq [of "sint millis" 1000] by (simp add: timeval_of_def add.commute)
qed

text \<open>
  getPacketReadTimeout gives back the milliseconds setPacketReadTimeout converted into a struct
  timeval, for every 32-bit value, negative ones included, when the system returns the value it
  was given.
\<close>

theorem read_timeout_round_trip:
  assumes "slot ID = Inr i" and "pcds s ! i = Some h" and "h \<in> live s"
    and "lib_get_rcvtimeo lib (lib_fileno lib h) = (0, timeval_of millis, sizeof_timeval)"
  shows "getPacketReadTimeout Unix lib ID s = Inr millis"
proof -
  obtain sec usec where tv: "timeval_of millis = (sec, usec)" by (cases "timeval_of millis")
  then have "usec sdiv 1000 + sec * 1000 = sint millis" using timeval_millis [of millis] by simp
  then show ?thesis
    using assms by (simp add: getPacketReadTimeout_def the_handle_def tv)
qed

section \<open>Error rows\<close>

text \<open>
  The rows of \<open>pcap_errbuf\<close> are 255 bytes apart: messages shorter than that stay apart, a message
  of 255 characters puts its zero into the first byte of the next row.
\<close>

text \<open>
  C40. Although the rows of pcap_errbuf are declared with the dimensions swapped, the messages
  of different instances do not disturb each other as long as they have at most 254 characters.
\<close>

theorem error_messages_independent:
  assumes "i < MAX_NUMBER_OF_INSTANCE" and "j < MAX_NUMBER_OF_INSTANCE" and "i \<noteq> j"
    and "length cs < MAX_NUMBER_OF_INSTANCE" and "CHR 0x00 \<notin> set cs"
    and "getErrorMessage (of_nat j) s = Inr ds" and "length ds < MAX_NUMBER_OF_INSTANCE"
    and "CHR 0x00 \<notin> set ds"
  shows "getErrorMessage (of_nat j) (put_errbuf i (Some cs) s) = Inr ds \<and>
     getErrorMessage (of_nat i) (put_errbuf i (Some cs) s) = Inr cs"
proof -
  have v: "row_message (Inr cs)" using assms(4,5) by (simp add: row_message_def)
  have j: "errbuf_string j s = Inr ds" using assms(2,6) by (simp add: getErrorMessage_def slot_of_nat)
  then have w: "row_message (errbuf_string j s)" using assms(7,8) by (simp add: row_message_def)
  show ?thesis
    using errbuf_slots.read_other [OF TrueI assms(1-3) v w] errbuf_slots.read_same [OF TrueI assms(1) v] j
    by (simp add: getErrorMessage_def slot_of_nat assms(1,2) put_row_def)
qed

text \<open>
  A message of 255 characters empties the message of the next instance.
\<close>

theorem long_message_erases_neighbour:
  assumes "Suc i < MAX_NUMBER_OF_INSTANCE" and "length cs = 255" and "CHR 0x00 \<notin> set cs"
  shows "getErrorMessage (of_nat (Suc i)) (put_errbuf i (Some cs) s) = Inr []"
proof -
  have "pcap_errbuf (put_errbuf i (Some cs) s) (errbuf_row (Suc i)) = CHR 0x00"
    using assms(2) by (simp add: put_errbuf_def errbuf_row_def MAX_NUMBER_OF_INSTANCE_def nth_append)
  moreover have "0 < errbuf_bytes - errbuf_row (Suc i)"
    using assms(1)
    by (simp add: errbuf_bytes_def errbuf_row_def MAX_NUMBER_OF_INSTANCE_def PCAP_ERRBUF_SIZE_def)
  then obtain n where "errbuf_bytes - errbuf_row (Suc i) = Suc n" by (auto simp: gr0_conv_Suc)
  ultimately have "errbuf_string (Suc i) (put_errbuf i (Some cs) s) = Inr []"
    by (auto simp: errbuf_string_def)
  then show ?thesis using slot_of_nat [OF assms(1)] by (simp add: getErrorMessage_def del: of_nat_Suc)
qed

end
