(* ===== verification/Writer.thy ===== *)
theory Writer
  imports CaptorOps
begin

text \<open>
  \<open>JpcapWriter.c\<close>: the dump file. It is one for the whole process: \<open>pdt\<close> and \<open>pcdd\<close> are single
  variables. \<open>pcdd\<close> is an alias of the capture handle of the instance the file was opened with.
\<close>

section \<open>Opening and closing\<close>

text \<open>\<open>pcap_dump_open\<close> and \<open>pcap_geterr\<close> are parameters.\<close>

definition nativeOpenDumpFile ::
  "(handle \<Rightarrow> string \<Rightarrow> nat option) \<Rightarrow> (handle \<Rightarrow> string) \<Rightarrow> string option \<Rightarrow> jint \<Rightarrow> native \<Rightarrow>
   (string option \<times> native) res" where
  "nativeOpenDumpFile dump_open geterr filename ID s =
     bindr (slot ID) (\<lambda>i.
     if pcds s ! i = None then Inr (Some ''The jpcap is not instantiated.'', s)
     else case filename of
       None \<Rightarrow> Inl NullReference
     | Some file \<Rightarrow>
         let s = s\<lparr>pcdd := pcds s ! i\<rparr> in
         bindr (the_handle i s) (\<lambda>h.
         let s = s\<lparr>pdt := dump_open h file\<rparr> in
         if pdt s = None then Inr (Some (geterr h), s) else Inr (None, s)))"

text \<open>
  \<open>close\<close>: \<open>pcap_dump_close(pdt)\<close>, then \<open>free(pcdd)\<close>. The handle it frees is the one of the
  instance, whose slot in \<open>pcds\<close> keeps the pointer.
\<close>

definition free_handle :: "handle option \<Rightarrow> native \<Rightarrow> native res" where
  "free_handle h s = (case h of None \<Rightarrow> Inr s | Some h \<Rightarrow> pcap_close h s)"

definition writer_close :: "native \<Rightarrow> native res" where
  "writer_close s =
     bindr (if pdt s \<noteq> None then bindr (free_handle (pcdd s) s) (\<lambda>s. Inr (s\<lparr>pcdd := None\<rparr>)) else Inr s)
       (\<lambda>s. Inr (s\<lparr>pdt := None\<rparr>))"

section \<open>Writing\<close>

text \<open>A record of the file: the packet header and the \<open>caplen\<close> bytes behind it.\<close>

record dump_record =
  dr_header :: pcap_pkthdr
  dr_bytes :: "u8 list"

text \<open>
  \<open>writePacket\<close>: the header array and the data array of the packet are copied into the stack
  array \<open>buf\<close>, one behind the other, and \<open>pcap_dump\<close> writes \<open>caplen\<close> bytes of it. The value is
  the record written and the pending exception.
\<close>

definition writePacket ::
  "mem \<Rightarrow> jpacket \<Rightarrow> native \<Rightarrow> (dump_record \<times> jexception option) res" where
  "writePacket buf packet s =
     (let hdr = \<lparr>ts_sec = pk_sec packet, ts_usec = pk_usec packet, caplen = pk_caplen packet,
          wire_len = pk_len packet\<rparr>;
          header = pk_header packet;
          body = pk_data packet
      in bindr (GetArrayLength header) (\<lambda>hlen.
         bindr (GetArrayLength body) (\<lambda>blen.
         bindr (GetByteArrayRegion header 0 hlen 0 \<lparr>sbuf = buf, pending = None\<rparr>) (\<lambda>st.
         bindr (GetByteArrayRegion body 0 blen hlen st) (\<lambda>st.
           if pdt s = None then Inl NotOpen
           else bindr (rd_bytes (sbuf st) 0 (unat (caplen hdr))) (\<lambda>bytes.
             Inr (\<lparr>dr_header = hdr, dr_bytes = bytes\<rparr>, pending st)))))))"

end
