(* ===== verification/WriterLaws.thy ===== *)
theory WriterLaws
  imports Writer Capture
begin

text \<open>
  Properties of the dump file: what a record holds, captured packets written back, packets that
  do not fit the stack array, and the capture handle that closing the file frees.
\<close>

section \<open>Records\<close>

lemma rd_bytes_prefix: "n \<le> length m \<Longrightarrow> rd_bytes m 0 n = Inr (take n m)"
  by (simp add: rd_bytes_def in_range_def)

text \<open>The record of a packet in \<open>buf\<close>: its two arrays, then what the stack array held before.\<close>

lemma writePacket_buffer:
  assumes "pk_header packet = Some hb" and "pk_data packet = Some bd"
    and "length hb + length bd \<le> length buf" and "pdt s \<noteq> None"
  shows "writePacket buf packet s =
     bindr (rd_bytes (hb @ bd @ drop (length hb + length bd) buf) 0 (unat (pk_caplen packet))) (\<lambda>bytes.
       Inr (\<lparr>dr_header = \<lparr>ts_sec = pk_sec packet, ts_usec = pk_usec packet,
         caplen = pk_caplen packet, wire_len = pk_len packet\<rparr>, dr_bytes = bytes\<rparr>, None))"
proof -
  have h: "put_bytes 0 hb \<lparr>sbuf = buf, pending = None\<rparr> =
      Inr \<lparr>sbuf = hb @ drop (length hb) buf, pending = None\<rparr>"
    using put_bytes_window [of 0 "[]" 0 hb buf "[]" None] assms(3) by (simp add: overlay_def)
  have "put_bytes (int (length hb)) bd \<lparr>sbuf = hb @ drop (length hb) buf, pending = None\<rparr> =
      Inr \<lparr>sbuf = hb @ bd @ drop (length hb + length bd) buf, pending = None\<rparr>"
    using put_bytes_window [of "int (length hb)" hb 0 bd "drop (length hb) buf" "[]" None] assms(3)
    by (simp add: overlay_def add.commute)
  then show ?thesis
    using assms(1,2,4) h
    by (auto simp: writePacket_def GetArrayLength_def GetByteArrayRegion_def Let_def)
qed

text \<open>
  The record of a packet whose two arrays fit.
\<close>

theorem writePacket_record:
  assumes "pk_header packet = Some hb" and "pk_data packet = Some bd"
    and "length hb + length bd \<le> 1600" and "length buf = 1600" and "pdt s = Some d"
    and "unat (pk_caplen packet) \<le> 1600"
  shows "writePacket buf packet s =
     Inr (\<lparr>dr_header = \<lparr>ts_sec = pk_sec packet, ts_usec = pk_usec packet,
         caplen = pk_caplen packet, wire_len = pk_len packet\<rparr>,
       dr_bytes = take (unat (pk_caplen packet)) (hb @ bd @ drop (length hb + length bd) buf)\<rparr>, None)"
proof -
  have "rd_bytes (hb @ bd @ drop (length hb + length bd) buf) 0 (unat (pk_caplen packet)) =
      Inr (take (unat (pk_caplen packet)) (hb @ bd @ drop (length hb + length bd) buf))"
    by (rule rd_bytes_prefix) (use assms in simp)
  then show ?thesis
    using assms writePacket_buffer [of packet hb bd buf s] by simp
qed

text \<open>
  A captured frame comes back unchanged in the file as far as the two arrays of its object cover
  it; behind them the record has what was on the stack.
\<close>

text \<open>
  C34. A captured frame of at most 1600 bytes written to the dump file gives a record with the
  header of the capture and the bytes of the frame as far as the header and data arrays of its
  object cover it; the bytes behind them come from the uninitialised stack array.
\<close>

theorem captured_frame_written_back:
  assumes frame: "length m \<le> 1600" and cap: "caplen header = of_nat (length m)"
    and run: "get_packet na j linktype header m = Inr q" and data: "pk_data q = Some bd"
    and dumping: "pdt s = Some d" and buf: "length buf = 1600"
  shows "\<exists>hb. pk_header q = Some hb \<and> writePacket buf q s =
     Inr (\<lparr>dr_header = header,
       dr_bytes = take (length m) (take (length hb + length bd) m @ drop (length hb + length bd) buf)\<rparr>,
       None)"
proof -
  have cut: "cut_of_frame header linktype m q"
    by (rule captured_packet_cut [OF _ run]) (use frame in simp)
  then obtain hb where hb: "pk_header q = Some hb" "hb @ bd = take (length hb + length bd) m"
    using data by (auto simp: cut_of_frame_def split: option.splits)
  have meta: "pk_sec q = ts_sec header" "pk_usec q = ts_usec header"
    "pk_caplen q = caplen header" "pk_len q = wire_len header"
    using cut by (simp_all add: cut_of_frame_def)
  have "length (hb @ bd) \<le> length m" unfolding hb(2) by simp
  then have room: "length hb + length bd \<le> length buf" using frame buf by simp
  have n: "unat (caplen header) = length m"
    using frame by (simp add: cap unat_of_nat)
  have "rd_bytes (hb @ bd @ drop (length hb + length bd) buf) 0 (length m) =
      Inr (take (length m) ((hb @ bd) @ drop (length hb + length bd) buf))"
    using frame room buf by (simp add: rd_bytes_prefix)
  then have "writePacket buf q s =
      Inr (\<lparr>dr_header = header,
        dr_bytes = take (length m) ((hb @ bd) @ drop (length hb + length bd) buf)\<rparr>, None)"
    using writePacket_buffer [OF hb(1) data room, of s] dumping meta n by simp
  then show ?thesis using hb by auto
qed

text \<open>
  The two arrays together may be larger than the stack array.
\<close>

theorem large_packet_overflows_writer:
  assumes "pk_header packet = Some hb" and "pk_data packet = Some bd"
    and "length hb \<le> length buf" and "length buf < length hb + length bd"
  shows "writePacket buf packet s = Inl (OutOfBounds (int (length hb)))"
proof -
  have h: "put_bytes 0 hb \<lparr>sbuf = buf, pending = None\<rparr> =
      Inr \<lparr>sbuf = hb @ drop (length hb) buf, pending = None\<rparr>"
    using put_bytes_window [of 0 "[]" 0 hb buf "[]" None] assms(3) by (simp add: overlay_def)
  have "bd \<noteq> []" using assms(3,4) by auto
  then have "put_bytes (int (length hb)) bd \<lparr>sbuf = hb @ drop (length hb) buf, pending = None\<rparr> =
      Inl (OutOfBounds (int (length hb)))"
    using assms(3,4) by (simp add: put_bytes_def wr_bytes_def in_range_def)
  then show ?thesis
    using assms(1,2) h by (simp add: writePacket_def GetArrayLength_def GetByteArrayRegion_def)
qed

section \<open>The handle of the file\<close>

text \<open>
  C29. JpcapWriter.close frees the capture handle of the captor the file was opened with: the
  captor keeps the pointer, and its next getPacket or close uses memory that was freed.
\<close>

theorem closing_writer_frees_captor:
  assumes "arrays_sized s" and "slot ID = Inr i" and "pcds s ! i = Some h" and "h \<in> live s"
    and "dump_open h file = Some d"
  shows "\<exists>s1 s2. nativeOpenDumpFile dump_open geterr (Some file) ID s = Inr (None, s1) \<and>
     writer_close s1 = Inr s2 \<and> nativeClose ID s2 = Inl FreedHandle \<and>
     getPacket lib na jk env ID s2 = Inl FreedHandle"
  using assms
  by (simp add: nativeOpenDumpFile_def writer_close_def free_handle_def pcap_close_def the_handle_def
      nativeClose_def getPacket_def)

text \<open>A second file takes the variables of the first, which then can no longer be written or closed.\<close>

text \<open>
  The process has room for one dump file.
\<close>

theorem second_writer_replaces_first:
  assumes "slot ID = Inr i" and "pcds s ! i = Some h" and "h \<in> live s" and "dump_open h file = Some d"
    and "pcdd s = Some h0" and "pdt s = Some d0" and "h0 \<in> live s"
  shows "\<exists>s1 s2. nativeOpenDumpFile dump_open geterr (Some file) ID s = Inr (None, s1) \<and>
     writer_close s1 = Inr s2 \<and> pdt s2 = None \<and> pcdd s2 = None \<and> live s2 = live s - {h} \<and>
     writer_close s2 = Inr s2"
  using assms
  by (simp add: nativeOpenDumpFile_def writer_close_def free_handle_def pcap_close_def the_handle_def)

end
