(* ===== verification/Devices.thy ===== *)
theory Devices
  imports JavaPacket "HOL-Library.Sublist"
begin

text \<open>
  \<open>getDeviceList\<close> of \<open>JpcapCaptor.c\<close>: the interface list of the capture library as an array of
  \<open>NetworkInterface\<close> objects. The three ways to find a hardware address (Windows, Linux, FreeBSD)
  are the branches of the conditional compilation; what the operating system answers is a
  parameter.
\<close>

section \<open>What the library delivers\<close>

datatype family = AF_INET | AF_INET6 | AF_other int

record sockaddr =
  sa_family :: family
  sa_addr :: "u8 list"       \<comment> \<open>\<open>sin_addr\<close> or \<open>sin6_addr\<close>\<close>

record pcap_addr =
  a_addr :: "sockaddr option"
  a_netmask :: "sockaddr option"
  a_broadaddr :: "sockaddr option"
  a_dstaddr :: "sockaddr option"

record pcap_if =
  if_name :: string
  if_description :: "string option"
  if_addresses :: "pcap_addr list"
  if_flags :: u32

definition PCAP_IF_LOOPBACK :: u32 where
  "PCAP_IF_LOOPBACK = 0x00000001"

text \<open>The address in a \<open>sockaddr\<close>, if it is of one of the two families.\<close>

definition getAddressByteArray :: "sockaddr option \<Rightarrow> jbyteArray" where
  "getAddressByteArray addr =
     (case addr of None \<Rightarrow> None
      | Some sa \<Rightarrow>
          (case sa_family sa of
             AF_INET \<Rightarrow> Some (take 4 (sa_addr sa))
           | AF_INET6 \<Rightarrow> Some (take 16 (sa_addr sa))
           | AF_other _ \<Rightarrow> None))"

section \<open>The Java objects\<close>

record interface_address =               \<comment> \<open>\<open>NetworkInterfaceAddress.java\<close>\<close>
  ia_address :: "inet_address option"
  ia_subnet :: "inet_address option"
  ia_broadcast :: "inet_address option"
  ia_destination :: "inet_address option"

text \<open>The constructor stops at the first address \<open>getByAddress\<close> rejects.\<close>

definition NetworkInterfaceAddress ::
  "jbyteArray \<Rightarrow> jbyteArray \<Rightarrow> jbyteArray \<Rightarrow> jbyteArray \<Rightarrow> interface_address" where
  "NetworkInterfaceAddress address subnet broadcast destination =
     (let conv = (\<lambda>a. case a of None \<Rightarrow> None | Some bs \<Rightarrow> getByAddress bs);
          bad = (\<lambda>a. a \<noteq> None \<and> conv a = None)
      in \<lparr>ia_address = conv address,
          ia_subnet = (if bad address then None else conv subnet),
          ia_broadcast = (if bad address \<or> bad subnet then None else conv broadcast),
          ia_destination = (if bad address \<or> bad subnet \<or> bad broadcast then None
                            else conv destination)\<rparr>)"

record network_interface =               \<comment> \<open>\<open>NetworkInterface.java\<close>\<close>
  ni_name :: string
  ni_description :: "string option"
  ni_loopback :: bool
  ni_datalink_name :: string
  ni_datalink_description :: string
  ni_mac_address :: "u8 list"
  ni_addresses :: "interface_address option list"

section \<open>Hardware addresses\<close>

record adapter =
  ad_name :: string
  ad_phys_addr :: "u8 list"

text \<open>
  An entry of \<open>getifaddrs\<close>, of any family, as the cast of its \<open>ifa_addr\<close> to \<open>struct sockaddr_dl\<close>
  makes it appear: the byte that lies at \<open>sdl_nlen\<close>, and the memory of the address from \<open>sdl_data\<close>
  to its end. For an address of the link level these are the length of the interface's name, and
  the name with the hardware address behind it (\<open>LLADDR\<close>).
\<close>

record sockaddr_dl =
  sdl_nlen :: u8
  sdl_data :: mem

text \<open>The three compilations, with the answers of the system.\<close>

datatype host =
    Windows "adapter list option"              \<comment> \<open>\<open>None\<close>: \<open>GetInterfaceInfo\<close> fails\<close>
  | Linux bool "string \<Rightarrow> u8 list option"      \<comment> \<open>does \<open>socket\<close> succeed; the answer of \<open>ioctl\<close>\<close>
  | FreeBSD "sockaddr_dl option list"          \<comment> \<open>the entries; \<open>None\<close> where \<open>ifa_addr\<close> is \<open>NULL\<close>\<close>

text \<open>\<open>SetByteArrayRegion(env,mac,0,len,bytes)\<close> on the six-byte array: too long a region throws.\<close>

definition set_mac :: "u8 list \<Rightarrow> u8 list \<Rightarrow> u8 list" where
  "set_mac bs mac = (if length bs \<le> length mac then bs @ drop (length bs) mac else mac)"

text \<open>
  The two names compared from their closing zeros backwards, given in reverse. The loop has no
  other end than a difference.
\<close>

fun match_backwards :: "string \<Rightarrow> string \<Rightarrow> nat res" where
  "match_backwards (c # cs) (d # ds) =
     (if c = d then bindr (match_backwards cs ds) (\<lambda>k. Inr (Suc k)) else Inr 0)"
| "match_backwards _ _ = Inl (OutOfBounds (- 1))"

fun windows_mac :: "string \<Rightarrow> adapter list \<Rightarrow> u8 list \<Rightarrow> u8 list res" where
  "windows_mac name [] mac = Inr mac"
| "windows_mac name (a # as) mac =
     bindr (match_backwards (CHR 0x00 # rev name) (CHR 0x00 # rev (ad_name a))) (\<lambda>k.
       windows_mac name as (if k < 30 then mac else set_mac (ad_phys_addr a) mac))"

text \<open>\<open>strncpy\<close> into \<open>ifr_name\<close>, then \<open>ioctl\<close>, whose result is not looked at.\<close>

definition IFNAMSIZ :: nat where
  "IFNAMSIZ = 16"

definition linux_mac :: "(string \<Rightarrow> u8 list option) \<Rightarrow> string \<Rightarrow> u8 list" where
  "linux_mac ioctl name =
     (case ioctl (take IFNAMSIZ name) of None \<Rightarrow> replicate 6 0 | Some bs \<Rightarrow> take 6 bs)"

text \<open>\<open>strncmp(name, data, n) == 0\<close>: the loop reads \<open>data\<close> byte by byte and ends at a difference.\<close>

fun strncmp_eq :: "string \<Rightarrow> mem \<Rightarrow> ptr \<Rightarrow> nat \<Rightarrow> bool res" where
  "strncmp_eq name m p 0 = Inr True"
| "strncmp_eq [] m p (Suc n) = bindr (rd8 m p) (\<lambda>b. Inr (b = 0))"
| "strncmp_eq (c # cs) m p (Suc n) =
     bindr (rd8 m p) (\<lambda>b. if b = of_char c then strncmp_eq cs m (p + 1) n else Inr False)"

text \<open>
  The loop over the entries. None is skipped for its family, \<open>ifa_addr\<close> is followed without a
  test, and every entry with a matching name is taken, so that the last one wins.
\<close>

fun freebsd_mac :: "sockaddr_dl option list \<Rightarrow> string \<Rightarrow> u8 list \<Rightarrow> u8 list res" where
  "freebsd_mac [] name mac = Inr mac"
| "freebsd_mac (None # ifa) name mac = Inl NullReference"
| "freebsd_mac (Some dl # ifa) name mac =
     bindr (if sdl_nlen dl > 0 then strncmp_eq name (sdl_data dl) 0 (unat (sdl_nlen dl)) else Inr False) (\<lambda>eq.
     bindr (if eq then rd_bytes (sdl_data dl) (uint (sdl_nlen dl)) 6 else Inr mac) (\<lambda>mac.
       freebsd_mac ifa name mac))"

text \<open>The address of a device, or the message of the exception that ends the function.\<close>

definition device_mac :: "host \<Rightarrow> string \<Rightarrow> (string + u8 list) res" where
  "device_mac host name =
     (case host of
        Windows adapters \<Rightarrow>
          (case adapters of None \<Rightarrow> Inr (Inl ''GetInterfaceInfo failed.'')
           | Some as \<Rightarrow> bindr (windows_mac name as (replicate 6 0)) (\<lambda>mac. Inr (Inr mac)))
      | Linux sock ioctl \<Rightarrow>
          if sock then Inr (Inr (linux_mac ioctl name)) else Inr (Inl ''cannot open socket.'')
      | FreeBSD ifa \<Rightarrow> bindr (freebsd_mac ifa name (replicate 6 0)) (\<lambda>mac. Inr (Inr mac)))"

section \<open>Addresses\<close>

text \<open>The two loops over \<open>d->addresses\<close>: the first counts, the second fills the array.\<close>

definition count_addresses :: "pcap_addr list \<Rightarrow> nat" where
  "count_addresses as = fold (\<lambda>a j. if getAddressByteArray (a_addr a) \<noteq> None then Suc j else j) as 0"

fun fill_addresses ::
  "pcap_addr list \<Rightarrow> nat \<Rightarrow> interface_address option list \<Rightarrow> interface_address option list res" where
  "fill_addresses [] j arr = Inr arr"
| "fill_addresses (a # as) j arr =
     (if getAddressByteArray (a_addr a) = None then fill_addresses as j arr
      else if j < length arr then
        fill_addresses as (Suc j) (arr[j := Some (NetworkInterfaceAddress
          (getAddressByteArray (a_addr a)) (getAddressByteArray (a_netmask a))
          (getAddressByteArray (a_broadaddr a)) (getAddressByteArray (a_dstaddr a)))])
      else Inl (OutOfBounds (int j)))"

definition device_addresses :: "pcap_addr list \<Rightarrow> interface_address option list res" where
  "device_addresses as = fill_addresses as 0 (replicate (count_addresses as) None)"

section \<open>The list\<close>

text \<open>
  The link type of a device is found by opening it: \<open>datalink\<close> gives name and description, or
  \<open>None\<close> when the device cannot be opened.
\<close>

definition make_device ::
  "(string \<Rightarrow> (string \<times> string) option) \<Rightarrow> pcap_if \<Rightarrow> u8 list \<Rightarrow> network_interface res" where
  "make_device datalink d mac =
     bindr (device_addresses (if_addresses d)) (\<lambda>addresses.
     let (lname, ldesc) = (case datalink (if_name d) of None \<Rightarrow> (''Unknown'', ''Unknown'')
                           | Some p \<Rightarrow> p)
     in Inr \<lparr>ni_name = if_name d, ni_description = if_description d,
             ni_loopback = (if_flags d AND PCAP_IF_LOOPBACK \<noteq> 0), ni_datalink_name = lname,
             ni_datalink_description = ldesc, ni_mac_address = mac, ni_addresses = addresses\<rparr>)"

text \<open>The loop over the devices; an exception ends it.\<close>

fun make_devices ::
  "host \<Rightarrow> (string \<Rightarrow> (string \<times> string) option) \<Rightarrow> pcap_if list \<Rightarrow>
   (string + network_interface list) res" where
  "make_devices host datalink [] = Inr (Inr [])"
| "make_devices host datalink (d # ds) =
     bindr (device_mac host (if_name d)) (\<lambda>r.
       case r of Inl e \<Rightarrow> Inr (Inl e)
       | Inr mac \<Rightarrow>
           bindr (make_device datalink d mac) (\<lambda>dev.
           bindr (make_devices host datalink ds) (\<lambda>rest.
             Inr (case rest of Inl e \<Rightarrow> Inl e | Inr devs \<Rightarrow> Inr (dev # devs)))))"

text \<open>
  \<open>alldevs\<close> is \<open>None\<close> when \<open>pcap_findalldevs\<close> fails; then the function prints a message and returns
  \<open>null\<close>. On Windows \<open>GetInterfaceInfo\<close> is called before the loop. The value is the array or
  \<open>null\<close>, and the message of the pending \<open>IOException\<close>.
\<close>

definition getDeviceList ::
  "host \<Rightarrow> (string \<Rightarrow> (string \<times> string) option) \<Rightarrow> pcap_if list option \<Rightarrow>
   (network_interface list option \<times> string option) res" where
  "getDeviceList host datalink alldevs =
     (case alldevs of None \<Rightarrow> Inr (None, None)
      | Some ds \<Rightarrow>
          (case host of
             Windows None \<Rightarrow> Inr (None, Some ''GetInterfaceInfo failed.'')
           | _ \<Rightarrow> bindr (make_devices host datalink ds) (\<lambda>r.
               case r of Inl e \<Rightarrow> Inr (None, Some e) | Inr devs \<Rightarrow> Inr (Some devs, None))))"

section \<open>The address arrays\<close>

text \<open>What the array of a device is meant to hold: the convertible addresses, in order.\<close>

definition address_of :: "pcap_addr \<Rightarrow> interface_address" where
  "address_of a = NetworkInterfaceAddress
     (getAddressByteArray (a_addr a)) (getAddressByteArray (a_netmask a))
     (getAddressByteArray (a_broadaddr a)) (getAddressByteArray (a_dstaddr a))"

definition has_address :: "pcap_addr \<Rightarrow> bool" where
  "has_address a \<longleftrightarrow> getAddressByteArray (a_addr a) \<noteq> None"

lemma count_addresses_eq: "count_addresses as = length (filter has_address as)"
proof -
  have "fold (\<lambda>a j. if getAddressByteArray (a_addr a) \<noteq> None then Suc j else j) as j =
      j + length (filter has_address as)" for j
    by (induction as arbitrary: j) (auto simp: has_address_def)
  then show ?thesis by (simp add: count_addresses_def)
qed

lemma fill_addresses_eq:
  "length arr = length done + length (filter has_address as) \<Longrightarrow> take (length done) arr = done \<Longrightarrow>
     fill_addresses as (length done) arr =
       Inr (done @ map (\<lambda>a. Some (address_of a)) (filter has_address as))"
proof (induction as arbitrary: arr "done")
  case (Cons a as)
  show ?case
  proof (cases "has_address a")
    case True
    let ?arr = "arr[length done := Some (address_of a)]"
    have "take (length (done @ [Some (address_of a)])) ?arr = done @ [Some (address_of a)]"
      using Cons.prems True by (simp add: take_Suc_conv_app_nth)
    then have "fill_addresses as (length (done @ [Some (address_of a)])) ?arr =
        Inr ((done @ [Some (address_of a)]) @ map (\<lambda>a. Some (address_of a)) (filter has_address as))"
      using Cons.prems(1) True by (intro Cons.IH) simp_all
    moreover have "fill_addresses (a # as) (length done) arr = fill_addresses as (Suc (length done)) ?arr"
      using Cons.prems(1) True unfolding address_of_def by (auto simp: has_address_def)
    ultimately show ?thesis using True by simp
  next
    case False
    then have "fill_addresses (a # as) (length done) arr = fill_addresses as (length done) arr"
      by (auto simp: has_address_def)
    then show ?thesis using Cons False by simp
  qed
qed simp

lemma device_addresses_eq:
  "device_addresses as = Inr (map (\<lambda>a. Some (address_of a)) (filter has_address as))"
  using fill_addresses_eq [of "replicate (count_addresses as) None" "[]" as]
  by (simp add: device_addresses_def count_addresses_eq)

text \<open>The relation between a device of the library and its object with the hardware address \<open>mac\<close>.\<close>

definition describes ::
  "(string \<Rightarrow> (string \<times> string) option) \<Rightarrow> u8 list \<Rightarrow> pcap_if \<Rightarrow> network_interface \<Rightarrow> bool" where
  "describes datalink mac d dev \<longleftrightarrow> ni_name dev = if_name d \<and> ni_description dev = if_description d \<and>
     ni_loopback dev = bit (if_flags d) 0 \<and>
     (ni_datalink_name dev, ni_datalink_description dev) =
       (case datalink (if_name d) of None \<Rightarrow> (''Unknown'', ''Unknown'') | Some p \<Rightarrow> p) \<and>
     ni_mac_address dev = mac \<and>
     ni_addresses dev = map (\<lambda>a. Some (address_of a)) (filter has_address (if_addresses d))"

lemma loopback_bit: "flags AND PCAP_IF_LOOPBACK \<noteq> 0 \<longleftrightarrow> bit flags 0"
  by (simp add: PCAP_IF_LOOPBACK_def and_one_eq bit_0 odd_iff_mod_2_eq_one)

lemma make_device_fields:
  assumes "make_device datalink d mac = Inr dev"
  shows "describes datalink mac d dev"
  using assms
  by (auto simp: make_device_def device_addresses_eq describes_def loopback_bit split: prod.splits)

text \<open>Every device makes an object, whatever the library says of its link type.\<close>

lemma make_device_returns: "\<exists>dev. make_device datalink d mac = Inr dev"
  by (simp add: make_device_def device_addresses_eq split: prod.split)

text \<open>The loop over the devices, once the address of each is found.\<close>

lemma make_devices_describes:
  assumes "\<And>d. d \<in> set ds \<Longrightarrow> device_mac host (if_name d) = Inr (Inr (mac (if_name d)))"
  shows "\<exists>devs. make_devices host datalink ds = Inr (Inr devs) \<and>
    list_all2 (\<lambda>d. describes datalink (mac (if_name d)) d) ds devs"
  using assms
proof (induction ds)
  case (Cons d ds)
  obtain dev where dev: "make_device datalink d (mac (if_name d)) = Inr dev"
    using make_device_returns by blast
  obtain devs where "make_devices host datalink ds = Inr (Inr devs)"
    and "list_all2 (\<lambda>d. describes datalink (mac (if_name d)) d) ds devs"
    using Cons.IH Cons.prems by auto
  with dev Cons.prems make_device_fields [OF dev] show ?case by simp
qed simp

section \<open>The hardware addresses\<close>

text \<open>On Linux it is what \<open>ioctl\<close> answers for the name, cut to the size of \<open>ifr_name\<close>.\<close>

definition ioctl_address :: "(string \<Rightarrow> u8 list option) \<Rightarrow> string \<Rightarrow> u8 list" where
  "ioctl_address ioctl name =
     (case ioctl (take 16 name) of None \<Rightarrow> replicate 6 0 | Some bs \<Rightarrow> take 6 bs)"

text \<open>
  On FreeBSD it is that of the last entry whose name the name of the device begins with. \<open>c_string\<close>
  is the name with its closing zero; an entry is \<open>readable\<close> when the comparison and the address
  stay inside it.
\<close>

definition c_string :: "string \<Rightarrow> u8 list" where
  "c_string name = map of_char name @ [0]"

definition names_device :: "string \<Rightarrow> sockaddr_dl \<Rightarrow> bool" where
  "names_device name dl \<longleftrightarrow> sdl_nlen dl \<noteq> 0 \<and>
     take (unat (sdl_nlen dl)) (c_string name) =
       take (min (unat (sdl_nlen dl)) (Suc (length name))) (sdl_data dl)"

definition readable :: "string \<Rightarrow> sockaddr_dl \<Rightarrow> bool" where
  "readable name dl \<longleftrightarrow> sdl_nlen dl = 0 \<or> unat (sdl_nlen dl) + 6 \<le> length (sdl_data dl) \<or>
     (\<exists>i < min (unat (sdl_nlen dl)) (Suc (length name)).
        i < length (sdl_data dl) \<and> c_string name ! i \<noteq> sdl_data dl ! i)"

definition link_address :: "sockaddr_dl list \<Rightarrow> string \<Rightarrow> u8 list" where
  "link_address dls name =
     (case filter (names_device name) dls of [] \<Rightarrow> replicate 6 0
      | dl # rest \<Rightarrow> (let l = last (dl # rest) in take 6 (drop (unat (sdl_nlen l)) (sdl_data l))))"

lemma strncmp_eq_spec:
  assumes "p + n \<le> length m \<or> (\<exists>i < min n (Suc (length name)). p + i < length m \<and> c_string name ! i \<noteq> m ! (p + i))"
  shows "strncmp_eq name m (int p) n =
    Inr (take n (c_string name) = take (min n (Suc (length name))) (drop p m))"
  using assms
proof (induction name m "int p" n arbitrary: p rule: strncmp_eq.induct)
  case (1 name m)
  then show ?case by simp
next
  case (2 m n)
  then have "p < length m" by auto
  then show ?case
    by (auto simp: c_string_def rd8_def in_range_def take_Suc_conv_app_nth hd_drop_conv_nth simp flip: Cons_nth_drop_Suc)
next
  case (3 c cs m n)
  have p: "p < length m" using "3.prems" by (auto intro: le_less_trans)
  then have d: "drop p m = m ! p # drop (Suc p) m" by (rule Cons_nth_drop_Suc [symmetric])
  have r: "rd8 m (int p) = Inr (m ! p)" using p by (simp add: rd8_def in_range_def)
  show ?case
  proof (cases "m ! p = of_char c")
    case False
    then show ?thesis by (auto simp: r d c_string_def)
  next
    case True
    have "Suc p + n \<le> length m \<or>
        (\<exists>i < min n (Suc (length cs)). Suc p + i < length m \<and> c_string cs ! i \<noteq> m ! (Suc p + i))"
    proof (cases "p + Suc n \<le> length m")
      case False
      with "3.prems" obtain i where i: "i < min (Suc n) (Suc (length (c # cs)))" "p + i < length m"
        "c_string (c # cs) ! i \<noteq> m ! (p + i)" by auto
      then obtain k where "i = Suc k" using True by (cases i) (auto simp: c_string_def)
      with i show ?thesis by (auto simp: c_string_def intro!: exI [of _ k])
    qed simp
    from "3.hyps" [OF r True _ this] show ?thesis
      using True by (simp add: r d c_string_def add.commute)
  qed
qed

lemma freebsd_mac_spec:
  assumes "\<And>dl. dl \<in> set dls \<Longrightarrow> readable name dl"
  shows "freebsd_mac (map Some dls) name mac =
    Inr (case filter (names_device name) dls of [] \<Rightarrow> mac
      | dl # rest \<Rightarrow> (let l = last (dl # rest) in take 6 (drop (unat (sdl_nlen l)) (sdl_data l))))"
  using assms
proof (induction dls arbitrary: mac)
  case (Cons dl dls)
  let ?n = "unat (sdl_nlen dl)" and ?m = "sdl_data dl"
  have IH: "freebsd_mac (map Some dls) name mac =
    Inr (case filter (names_device name) dls of [] \<Rightarrow> mac
      | dl # rest \<Rightarrow> (let l = last (dl # rest) in take 6 (drop (unat (sdl_nlen l)) (sdl_data l))))" for mac
    using Cons by simp
  have r: "readable name dl" using Cons.prems by simp
  have eq: "(if sdl_nlen dl > 0 then strncmp_eq name ?m 0 ?n else Inr False) = Inr (names_device name dl)"
    using strncmp_eq_spec [of 0 ?n ?m name] r by (auto simp: readable_def names_device_def word_gt_0)
  show ?case
  proof (cases "names_device name dl")
    case False
    then show ?thesis by (simp add: eq IH)
  next
    case True
    have same: "c_string name ! i = ?m ! i" if "i < min ?n (Suc (length name))" "i < length ?m" for i
    proof -
      have "take ?n (c_string name) ! i = take (min ?n (Suc (length name))) ?m ! i"
        using True by (simp add: names_device_def)
      with that show ?thesis by simp
    qed
    then have "?n + 6 \<le> length ?m"
      using r True by (auto simp: readable_def names_device_def)
    then have "int (?n + 6) \<le> int (length ?m)" by (simp only: of_nat_le_iff)
    then have "rd_bytes ?m (uint (sdl_nlen dl)) 6 = Inr (take 6 (drop ?n ?m))"
      by (simp add: rd_bytes_def in_range_def)
    then have "freebsd_mac (map Some (dl # dls)) name mac =
        freebsd_mac (map Some dls) name (take 6 (drop ?n ?m))"
      using True by (simp only: list.map freebsd_mac.simps eq bindr_simps if_True)
    then show ?thesis
      using True unfolding IH Let_def by (cases "filter (names_device name) dls") simp_all
  qed
qed simp

text \<open>
  C33. On Linux, when the socket opens, and on FreeBSD, when no entry of getifaddrs has a NULL
  address and the comparisons stay inside the entries, getDeviceList returns one object per
  device of the library, in order, with its name, description, loopback flag and link type, and
  exactly its IPv4 and IPv6 addresses in order; the array of addresses, sized by a first loop
  and filled by a second one, is never overrun and has no null element. Its hardware address is
  on Linux the answer of the ioctl to its name cut to 16 characters (zeros if there is none),
  and on FreeBSD that of the last entry whose name its name begins with, which can belong to
  another interface (zeros if there is none).
\<close>

theorem device_list_complete:
  assumes "host = Linux True ioctl \<and> mac = ioctl_address ioctl \<or>
    host = FreeBSD (map Some dls) \<and> mac = link_address dls \<and>
      (\<forall>d \<in> set ds. \<forall>dl \<in> set dls. readable (if_name d) dl)"
  shows "\<exists>devs. getDeviceList host datalink (Some ds) = Inr (Some devs, None) \<and>
     list_all2 (\<lambda>d. describes datalink (mac (if_name d)) d) ds devs"
proof -
  have "device_mac host (if_name d) = Inr (Inr (mac (if_name d)))" if "d \<in> set ds" for d
    using assms
  proof (elim disjE conjE)
    assume "host = FreeBSD (map Some dls)" "mac = link_address dls"
      "\<forall>d \<in> set ds. \<forall>dl \<in> set dls. readable (if_name d) dl"
    with that show ?thesis
      by (simp add: device_mac_def freebsd_mac_spec link_address_def)
  qed (simp add: device_mac_def linux_mac_def ioctl_address_def IFNAMSIZ_def)
  from make_devices_describes [OF this, of ds datalink] obtain devs
    where "make_devices host datalink ds = Inr (Inr devs)"
      and "list_all2 (\<lambda>d. describes datalink (mac (if_name d)) d) ds devs" by blast
  moreover from this(1) have "getDeviceList host datalink (Some ds) = Inr (Some devs, None)"
    using assms by (auto simp: getDeviceList_def)
  ultimately show ?thesis by blast
qed

text \<open>One entry without an address, as point-to-point interfaces have them, stops the function.\<close>

lemma freebsd_null: "None \<in> set ifa \<Longrightarrow> \<exists>e. freebsd_mac ifa name mac = Inl e"
proof (induction ifa name mac rule: freebsd_mac.induct)
  case (3 dl ifa name mac)
  then show ?case by (cases "strncmp_eq name (sdl_data dl) 0 (unat (sdl_nlen dl))";
      cases "rd_bytes (sdl_data dl) (uint (sdl_nlen dl)) 6") (auto split: if_splits)
qed auto

theorem null_address_faults:
  assumes "None \<in> set ifa" and "ds \<noteq> []"
  shows "\<exists>e. getDeviceList (FreeBSD ifa) datalink (Some ds) = Inl e"
proof -
  obtain d rest where ds: "ds = d # rest" using assms(2) by (cases ds) auto
  obtain e where "freebsd_mac ifa (if_name d) (replicate 6 0) = Inl e"
    using freebsd_null [OF assms(1)] by blast
  then show ?thesis by (simp add: getDeviceList_def ds device_mac_def)
qed

section \<open>Names compared from the end\<close>

lemma match_backwards_fault:
  "(\<exists>e. match_backwards cs ds = Inl e) \<longleftrightarrow> prefix cs ds \<or> prefix ds cs"
proof (induction cs ds rule: match_backwards.induct)
  case (1 c cs d ds)
  then show ?case by (cases "match_backwards cs ds") auto
qed auto

text \<open>
  The comparison from the end leaves the strings exactly when one name ends with the other.
\<close>

theorem adapter_name_overrun:
  "(\<exists>e. windows_mac name [a] mac = Inl e) \<longleftrightarrow> suffix name (ad_name a) \<or> suffix (ad_name a) name"
proof -
  have "(\<exists>e. windows_mac name [a] mac = Inl e) \<longleftrightarrow>
      (\<exists>e. match_backwards (CHR 0x00 # rev name) (CHR 0x00 # rev (ad_name a)) = Inl e)"
    by (cases "match_backwards (CHR 0x00 # rev name) (CHR 0x00 # rev (ad_name a))") simp_all
  also have "\<dots> \<longleftrightarrow> prefix (rev name) (rev (ad_name a)) \<or> prefix (rev (ad_name a)) (rev name)"
    unfolding match_backwards_fault by simp
  finally show ?thesis by (simp add: suffix_to_prefix)
qed

text \<open>
  An interface whose name is a prefix of the name of the device gives its address.
\<close>

theorem freebsd_mac_of_prefix:
  assumes "prefix sdl name" and "sdl \<noteq> []" and "length sdl < 256" and "length lladdr = 6"
  shows "link_address (dls @ [\<lparr>sdl_nlen = of_nat (length sdl), sdl_data = map of_char sdl @ lladdr\<rparr>]) name = lladdr"
proof -
  let ?dl = "\<lparr>sdl_nlen = of_nat (length sdl), sdl_data = map of_char sdl @ lladdr\<rparr>"
  obtain rest where name: "name = sdl @ rest" using assms(1) by (auto simp: prefix_def)
  have n: "unat (of_nat (length sdl) :: u8) = length sdl"
    using assms(3) by (simp add: unsigned_of_nat take_bit_nat_eq_self)
  then have "(of_nat (length sdl) :: u8) \<noteq> 0" using assms(2) by (metis length_0_conv unat_0)
  then have "names_device name ?dl" by (simp add: names_device_def n name c_string_def)
  then have f: "filter (names_device name) (dls @ [?dl]) = filter (names_device name) dls @ [?dl]" by simp
  show ?thesis
    unfolding link_address_def f using assms(4)
    by (cases "filter (names_device name) dls") (simp_all add: n)
qed

end
