(* ===== verification/Api.thy ===== *)
theory Api
  imports SenderOps Writer
begin

text \<open>
  The Java side of the instances: \<open>JpcapInstance\<close> hands out the IDs that the native code uses as
  array indices, \<open>JpcapCaptor\<close>, \<open>JpcapSender\<close> and \<open>JpcapWriter\<close> open and close. The operations
  are the steps of a transition system whose invariant ties the ID flags to the native slots.
\<close>

section \<open>IDs\<close>

definition reserveID :: "bool list \<Rightarrow> jint \<times> bool list" where
  "reserveID instanciatedFlag =
     (case List.find (\<lambda>i. \<not> instanciatedFlag ! i) [0..<MAX_NUMBER_OF_INSTANCE] of
        None \<Rightarrow> (- 1, instanciatedFlag)
      | Some i \<Rightarrow> (of_nat i, instanciatedFlag[i := True]))"

definition unreserveID :: "jint \<Rightarrow> bool list \<Rightarrow> jexception + bool list" where
  "unreserveID ID instanciatedFlag =
     (if 0 \<le> sint ID \<and> sint ID < int (length instanciatedFlag)
      then Inr (instanciatedFlag[nat (sint ID) := False]) else Inl ArrayIndexOutOfBounds)"

record jstate =
  instanciatedFlag :: "bool list"
  nat_state :: native

definition jstate0 :: jstate where
  "jstate0 = \<lparr>instanciatedFlag = replicate MAX_NUMBER_OF_INSTANCE False, nat_state = native0\<rparr>"

definition all_taken :: string where
  "all_taken = ''Unable to open a device: 255 devices are already opened.''"

text \<open>What the operations get from outside: the platform, the virtual machine, the libraries.\<close>

record world =
  w_platform :: platform
  w_vm :: jvm
  w_lib :: sender_library
  w_env :: env_ptr
  w_dump_open :: "handle \<Rightarrow> string \<Rightarrow> nat option"
  w_geterr :: "handle \<Rightarrow> string"
  w_num_addrs :: bool
  w_junk :: "nat \<Rightarrow> junk"
  w_buf :: mem

text \<open>The outcome of a Java method: a value or the message of the exception.\<close>

type_synonym 'a outcome = "jexception + 'a"

section \<open>JpcapCaptor\<close>

definition with_new_ID ::
  "(jint \<Rightarrow> native \<Rightarrow> (string option \<times> native) res) \<Rightarrow> jstate \<Rightarrow> (jint outcome \<times> jstate) res" where
  "with_new_ID open_native s =
     (let (ID, flags) = reserveID (instanciatedFlag s);
          s = s\<lparr>instanciatedFlag := flags\<rparr>
      in if sint ID < 0 then Inr (Inl (IOException all_taken), s)
         else bindr (open_native ID (nat_state s)) (\<lambda>(ret, n).
           Inr (case ret of None \<Rightarrow> Inr ID | Some m \<Rightarrow> Inl (IOException m), s\<lparr>nat_state := n\<rparr>)))"

definition captor_openDevice ::
  "world \<Rightarrow> string option \<Rightarrow> jint \<Rightarrow> bool \<Rightarrow> jint \<Rightarrow> jstate \<Rightarrow> (jint outcome \<times> jstate) res" where
  "captor_openDevice w name snaplen promisc to_ms =
     with_new_ID (\<lambda>ID. nativeOpenLive (w_vm w) (library.truncate (w_lib w)) (w_env w) ID name snaplen
       (if promisc then 1 else 0) to_ms)"

definition captor_openFile :: "world \<Rightarrow> string option \<Rightarrow> jstate \<Rightarrow> (jint outcome \<times> jstate) res" where
  "captor_openFile w filename =
     with_new_ID (\<lambda>ID. nativeOpenOffline (w_vm w) (library.truncate (w_lib w)) (w_env w) ID filename)"

definition close_instance ::
  "(jint \<Rightarrow> native \<Rightarrow> native res) \<Rightarrow> jint \<Rightarrow> jstate \<Rightarrow> (unit outcome \<times> jstate) res" where
  "close_instance close_native ID s =
     bindr (close_native ID (nat_state s)) (\<lambda>n.
       let s = s\<lparr>nat_state := n\<rparr> in
       Inr (case unreserveID ID (instanciatedFlag s) of
              Inl e \<Rightarrow> (Inl e, s)
            | Inr flags \<Rightarrow> (Inr (), s\<lparr>instanciatedFlag := flags\<rparr>)))"

definition captor_close :: "jint \<Rightarrow> jstate \<Rightarrow> (unit outcome \<times> jstate) res" where
  "captor_close = close_instance nativeClose"

section \<open>JpcapSender\<close>

definition sender_openDevice :: "world \<Rightarrow> string option \<Rightarrow> jstate \<Rightarrow> (jint outcome \<times> jstate) res" where
  "sender_openDevice w name =
     with_new_ID (\<lambda>ID. nativeOpenDevice (w_vm w) (w_lib w) (w_env w) ID name)"

definition sender_openRawSocket :: "world \<Rightarrow> jstate \<Rightarrow> jint outcome \<times> jstate" where
  "sender_openRawSocket w s =
     (let (ID, flags) = reserveID (instanciatedFlag s);
          s = s\<lparr>instanciatedFlag := flags\<rparr>
      in if sint ID < 0 then (Inl (IOException all_taken), s)
         else
           let (e, n) = nativeOpenRawSocket (w_platform w) (w_vm w) (w_lib w) (nat_state s)
           in (case e of None \<Rightarrow> Inr jpcap_JpcapSender_RAW_SOCKET_ID | Some e \<Rightarrow> Inl e,
               s\<lparr>nat_state := n\<rparr>))"

definition sender_close :: "world \<Rightarrow> jint \<Rightarrow> jstate \<Rightarrow> (unit outcome \<times> jstate) res" where
  "sender_close w ID =
     close_instance (if ID = jpcap_JpcapSender_RAW_SOCKET_ID
       then (\<lambda>_ n. Inr (nativeCloseRawSocket (w_platform w) n)) else nativeCloseDevice) ID"

text \<open>\<open>sendPacket\<close>: the pending exception and the bytes that went out.\<close>

definition sender_sendPacket ::
  "world \<Rightarrow> jint \<Rightarrow> jpacket \<Rightarrow> jstate \<Rightarrow> ((jexception option \<times> u8 list option) \<times> jstate) res" where
  "sender_sendPacket w ID packet s =
     (if ID = jpcap_JpcapSender_RAW_SOCKET_ID
      then bindr (nativeSendPacketViaRawSocket (w_platform w) (w_lib w) (w_buf w) packet (nat_state s))
        (\<lambda>(e, out). Inr ((e, map_option fst out), s))
      else bindr (nativeSendPacket (w_lib w) (w_buf w) ID packet (nat_state s))
        (\<lambda>(r, n). Inr (r, s\<lparr>nat_state := n\<rparr>)))"

text \<open>\<open>getJpcapSenderInstance\<close> makes a sender with the ID of the captor; nothing is reserved.\<close>

definition getJpcapSenderInstance :: "jint \<Rightarrow> jint" where
  "getJpcapSenderInstance ID = ID"

section \<open>The operations as steps\<close>

datatype operation =
    OpenLive "string option" jint bool jint
  | OpenFile "string option"
  | CloseCaptor jint
  | ProcessPacket jint jint object_ref
  | LoopPacket jint jint object_ref
  | GetPacket jint
  | SetNonBlocking jint bool
  | IsNonBlocking jint
  | SetFilter jint "string option" bool
  | BreakLoop jint
  | OpenSender "string option"
  | OpenRaw
  | CloseSender jint
  | SendPacket jint jpacket
  | OpenWriter "string option" jint
  | CloseWriter

definition native_step :: "(native \<Rightarrow> native res) \<Rightarrow> jstate \<Rightarrow> jstate res" where
  "native_step f s = bindr (f (nat_state s)) (\<lambda>n. Inr (s\<lparr>nat_state := n\<rparr>))"

definition drop_value :: "('a \<times> 's) res \<Rightarrow> 's res" where
  "drop_value m = bindr m (\<lambda>(_, s). Inr s)"

fun exec :: "world \<Rightarrow> operation \<Rightarrow> jstate \<Rightarrow> jstate res" where
  "exec w (OpenLive name snaplen promisc to_ms) s =
     drop_value (captor_openDevice w name snaplen promisc to_ms s)"
| "exec w (OpenFile filename) s = drop_value (captor_openFile w filename s)"
| "exec w (CloseCaptor ID) s = drop_value (captor_close ID s)"
| "exec w (ProcessPacket ID cnt handler) s =
     native_step (\<lambda>n. drop_value (processPacket (library.truncate (w_lib w)) (w_num_addrs w) (w_junk w)
       (\<lambda>_. Inr) (w_env w) ID cnt handler n)) s"
| "exec w (LoopPacket ID cnt handler) s =
     native_step (\<lambda>n. drop_value (loopPacket (library.truncate (w_lib w)) (w_num_addrs w) (w_junk w)
       (\<lambda>_. Inr) (w_env w) ID cnt handler n)) s"
| "exec w (GetPacket ID) s =
     native_step (\<lambda>n. drop_value (getPacket (library.truncate (w_lib w)) (w_num_addrs w) (w_junk w 0)
       (w_env w) ID n)) s"
| "exec w (SetNonBlocking ID b) s =
     native_step (setNonBlockingMode (library.truncate (w_lib w)) ID b) s"
| "exec w (IsNonBlocking ID) s =
     native_step (\<lambda>n. drop_value (isNonBlockinMode (library.truncate (w_lib w)) ID n)) s"
| "exec w (SetFilter ID condition opt) s =
     native_step (\<lambda>n. drop_value (setFilter (w_platform w) (library.truncate (w_lib w)) ID condition opt n)) s"
| "exec w (BreakLoop ID) s = native_step (breakLoop ID) s"
| "exec w (OpenSender name) s = drop_value (sender_openDevice w name s)"
| "exec w OpenRaw s = Inr (snd (sender_openRawSocket w s))"
| "exec w (CloseSender ID) s = drop_value (sender_close w ID s)"
| "exec w (SendPacket ID packet) s = drop_value (sender_sendPacket w ID packet s)"
| "exec w (OpenWriter filename ID) s =
     native_step (\<lambda>n. drop_value (nativeOpenDumpFile (w_dump_open w) (w_geterr w) filename ID n)) s"
| "exec w CloseWriter s = native_step writer_close s"

text \<open>The library gives out handles that are not in use.\<close>

definition fresh_world :: "world \<Rightarrow> jstate \<Rightarrow> bool" where
  "fresh_world w s \<longleftrightarrow>
     (\<forall>dev n p t. fresh_handle (fst (lib_open_live (w_lib w) dev n p t)) (nat_state s)) \<and>
     (\<forall>f. fresh_handle (fst (lib_open_offline (w_lib w) f)) (nat_state s))"

inductive api_step :: "operation \<Rightarrow> jstate \<Rightarrow> jstate \<Rightarrow> bool" where
  step: "fresh_world w s \<Longrightarrow> exec w op s = Inr s' \<Longrightarrow> api_step op s s'"

inductive reachable :: "jstate \<Rightarrow> bool" where
  start: "reachable jstate0"
| run: "reachable s \<Longrightarrow> api_step op s s' \<Longrightarrow> op \<noteq> CloseWriter \<Longrightarrow> reachable s'"

inductive_simps api_step_iff: "api_step op s s'"
inductive_cases reachable_cases: "reachable s"

section \<open>The invariant\<close>

text \<open>
  Every handle in a slot is alive, no two slots share one, and a slot with a handle belongs to a
  reserved ID.
\<close>

definition slots_ok :: "native \<Rightarrow> bool" where
  "slots_ok n \<longleftrightarrow> arrays_sized n \<and>
     (\<forall>i h. i < MAX_NUMBER_OF_INSTANCE \<longrightarrow> pcds n ! i = Some h \<longrightarrow> h \<in> live n) \<and>
     (\<forall>i j h. i < MAX_NUMBER_OF_INSTANCE \<longrightarrow> j < MAX_NUMBER_OF_INSTANCE \<longrightarrow>
        pcds n ! i = Some h \<longrightarrow> pcds n ! j = Some h \<longrightarrow> i = j)"

definition api_inv :: "jstate \<Rightarrow> bool" where
  "api_inv s \<longleftrightarrow> length (instanciatedFlag s) = MAX_NUMBER_OF_INSTANCE \<and> slots_ok (nat_state s) \<and>
     (\<forall>i < MAX_NUMBER_OF_INSTANCE. pcds (nat_state s) ! i \<noteq> None \<longrightarrow> instanciatedFlag s ! i)"

text \<open>What most operations leave alone.\<close>

definition same_slots :: "native \<Rightarrow> native \<Rightarrow> bool" where
  "same_slots n n' \<longleftrightarrow> pcds n' = pcds n \<and> live n' = live n \<and> (arrays_sized n \<longrightarrow> arrays_sized n')"

text \<open>What opening and closing slot \<open>i\<close> may change.\<close>

definition slot_opened :: "nat \<Rightarrow> native \<Rightarrow> native \<Rightarrow> bool" where
  "slot_opened i n n' \<longleftrightarrow> (arrays_sized n \<longrightarrow> arrays_sized n') \<and>
     (pcds n' = pcds n \<and> live n' = live n \<or>
      pcds n ! i = None \<and>
      (\<exists>h. pcds n' = (pcds n)[i := h] \<and> live n' = live n \<union> set_option h \<and> set_option h \<inter> live n = {}))"

definition slot_closed :: "nat \<Rightarrow> native \<Rightarrow> native \<Rightarrow> bool" where
  "slot_closed i n n' \<longleftrightarrow> (arrays_sized n \<longrightarrow> arrays_sized n') \<and> pcds n' = (pcds n)[i := None] \<and>
     live n' = live n - set_option (pcds n ! i)"

lemma same_slots_ok: "same_slots n n' \<Longrightarrow> slots_ok n \<Longrightarrow> slots_ok n'"
  by (simp add: same_slots_def slots_ok_def)

lemma slot_opened_ok:
  assumes "slot_opened i n n'" and "slots_ok n" and "i < MAX_NUMBER_OF_INSTANCE"
  shows "slots_ok n'"
proof -
  have "length (pcds n) = MAX_NUMBER_OF_INSTANCE"
    using assms(2) by (simp add: slots_ok_def arrays_sized_def)
  then show ?thesis
    using assms unfolding slot_opened_def slots_ok_def
    by (elim conjE disjE exE) (force simp: nth_list_update split: if_splits)+
qed

lemma slot_closed_ok:
  assumes "slot_closed i n n'" and "slots_ok n" and "i < MAX_NUMBER_OF_INSTANCE"
  shows "slots_ok n'"
proof -
  have "length (pcds n) = MAX_NUMBER_OF_INSTANCE"
    using assms(2) by (simp add: slots_ok_def arrays_sized_def)
  then show ?thesis
    using assms unfolding slot_closed_def slots_ok_def
    by (auto simp: nth_list_update split: if_splits)
qed

end
