(* ===== verification/ApiLaws.thy ===== *)
theory ApiLaws
  imports Api
begin

text \<open>
  The invariant of the transition system of theory Api, by one lemma per operation, and what
  follows from it: open instances never meet a freed handle, IDs that leak, closing twice.
\<close>

section \<open>What each operation does to the slots\<close>

lemma same_slots_refl: "same_slots n n"
  by (simp add: same_slots_def)

lemma same_slots_trans: "same_slots n n' \<Longrightarrow> same_slots n' n'' \<Longrightarrow> same_slots n n''"
  by (simp add: same_slots_def)

lemma same_slots_fields:
  "pcds n' = pcds n \<Longrightarrow> live n' = live n \<Longrightarrow> jni_envs n' = jni_envs n \<Longrightarrow>
     linktypes n' = linktypes n \<Longrightarrow> netnums n' = netnums n \<Longrightarrow> netmasks n' = netmasks n \<Longrightarrow>
     jpcap_handlers n' = jpcap_handlers n \<Longrightarrow> same_slots n n'"
  by (simp add: same_slots_def arrays_sized_def)

lemma same_slots_put_errbuf: "same_slots n (put_errbuf i msg n)"
  by (intro same_slots_fields) simp_all

lemma dispatch_frames_same:
  "dispatch_frames na jk (\<lambda>_. Inr) i k frames n = Inr (ds, n') \<Longrightarrow> n' = n"
  by (induction frames arbitrary: k ds)
     (auto simp: dispatcher_handler_def bindr_Inr_iff split: if_splits option.splits)

lemma DeleteGlobalRef_slots: "same_slots n (DeleteGlobalRef r n)"
  by (simp add: DeleteGlobalRef_def same_slots_def arrays_sized_def split: option.split)

lemma capture_loop_slots:
  assumes "capture_loop call na jk (\<lambda>_. Inr) env ID cnt handler n = Inr (r, n')"
  shows "same_slots n n'"
proof -
  obtain i h ds n2 where i: "slot ID = Inr i"
    and run: "dispatch_frames na jk (\<lambda>_. Inr) i 0 (fst (call h cnt)) (n
      \<lparr>jni_envs := (jni_envs n)[i := Some env], global_refs := (global_refs n)(next_ref n := Some handler),
       next_ref := Suc (next_ref n), jpcap_handlers := (jpcap_handlers n)[i := Some (next_ref n)]\<rparr>) =
      Inr (ds, n2)"
    and n': "n' = DeleteGlobalRef (jpcap_handlers n2 ! i) n2"
    using assms by (auto simp: capture_loop_def NewGlobalRef_def bindr_Inr_iff case_prod_beta Let_def)
  have "same_slots n n2"
    using dispatch_frames_same [OF run] by (simp add: same_slots_def arrays_sized_def)
  then show ?thesis unfolding n' by (rule same_slots_trans [OF _ DeleteGlobalRef_slots])
qed

lemma getPacket_slots: "getPacket lib na jk env ID n = Inr (r, n') \<Longrightarrow> same_slots n n'"
  by (auto simp: getPacket_def bindr_Inr_iff same_slots_def arrays_sized_def Let_def case_prod_beta
      split: if_splits option.split_asm)

lemma setNonBlockingMode_slots: "setNonBlockingMode lib ID b n = Inr n' \<Longrightarrow> same_slots n n'"
  by (auto simp: setNonBlockingMode_def bindr_Inr_iff same_slots_put_errbuf)

lemma isNonBlockinMode_slots: "isNonBlockinMode lib ID n = Inr (r, n') \<Longrightarrow> same_slots n n'"
  by (auto simp: isNonBlockinMode_def bindr_Inr_iff same_slots_put_errbuf case_prod_beta Let_def)

lemma setFilter_slots: "setFilter plat lib ID c opt n = Inr (r, n') \<Longrightarrow> same_slots n n'"
  by (auto simp: setFilter_def bindr_Inr_iff same_slots_refl split: option.splits)

lemma breakLoop_slots: "breakLoop ID n = Inr n' \<Longrightarrow> same_slots n n'"
  by (auto simp: breakLoop_def bindr_Inr_iff same_slots_refl)

lemma nativeSendPacket_slots: "nativeSendPacket lib buf ID packet n = Inr (r, n') \<Longrightarrow> same_slots n n'"
  by (auto simp: nativeSendPacket_def getJpcapSenderID_def bindr_Inr_iff same_slots_def arrays_sized_def
      split: if_splits)

lemma nativeOpenRawSocket_slots: "nativeOpenRawSocket plat vm lib n = (e, n') \<Longrightarrow> same_slots n n'"
  by (cases plat)
     (auto simp: nativeOpenRawSocket_def same_slots_def arrays_sized_def Let_def split: if_splits)

lemma nativeCloseRawSocket_slots: "same_slots n (nativeCloseRawSocket plat n)"
  by (cases plat) (auto simp: nativeCloseRawSocket_def same_slots_def arrays_sized_def)

lemma nativeOpenDumpFile_slots:
  "nativeOpenDumpFile dump_open geterr f ID n = Inr (r, n') \<Longrightarrow> same_slots n n'"
  by (auto simp: nativeOpenDumpFile_def bindr_Inr_iff same_slots_def arrays_sized_def Let_def
      split: if_splits option.splits)

lemma lookup_net_sized: "arrays_sized n \<Longrightarrow> arrays_sized (lookup_net lib i dev n)"
  by (auto simp: lookup_net_def arrays_sized_def Let_def split: prod.split option.split)

lemma nativeOpenLive_slots:
  assumes "nativeOpenLive vm lib env ID dev snaplen promisc to_ms n = Inr (r, n')"
    and fresh: "\<And>d. fresh_handle (fst (lib_open_live lib d snaplen promisc to_ms)) n"
  shows "\<exists>i. slot ID = Inr i \<and> slot_opened i n n'"
proof -
  obtain i where i: "slot ID = Inr i" using assms(1) by (auto simp: nativeOpenLive_def bindr_Inr_iff Let_def)
  show ?thesis
  proof (cases "pcds n ! i = None \<and> dev \<noteq> None")
    case False
    then show ?thesis
      using assms(1) i by (auto simp: nativeOpenLive_def slot_opened_def arrays_sized_def Let_def split: if_splits)
  next
    case True
    then obtain d where d: "dev = Some d" "pcds n ! i = None" by blast
    obtain h msg where h: "lib_open_live lib d snaplen promisc to_ms = (h, msg)"
      by (cases "lib_open_live lib d snaplen promisc to_ms")
    have "pcds n' = (pcds n)[i := h] \<and> live n' = live n \<union> set_option h \<and> (arrays_sized n \<longrightarrow> arrays_sized n')"
    proof (cases h)
      case None
      then show ?thesis
        using assms(1) i d h
        by (auto simp: nativeOpenLive_def open_slot_def Let_def bindr_Inr_iff
            intro!: lookup_net_sized) (simp add: arrays_sized_def)
    next
      case (Some k)
      let ?m = "lookup_net lib i d (put_errbuf i msg (open_slot i h
        (n\<lparr>jenv := set_Java_env vm (jenv n), jni_envs := (jni_envs n)[i := Some env]\<rparr>)))"
      have n': "n' = ?m\<lparr>linktypes := (linktypes ?m)[i := lib_datalink lib k]\<rparr>"
        using assms(1) i d h Some by (simp add: nativeOpenLive_def Let_def)
      have "arrays_sized ?m" if "arrays_sized n"
        using that by (intro lookup_net_sized) (simp add: arrays_sized_def open_slot_def)
      then show ?thesis unfolding n' by (auto simp: open_slot_def arrays_sized_def)
    qed
    moreover have "set_option h \<inter> live n = {}"
      using fresh [of d] h by (auto simp: fresh_handle_def)
    ultimately show ?thesis using i d by (auto simp: slot_opened_def)
  qed
qed

lemma nativeOpenOffline_slots:
  assumes "nativeOpenOffline vm lib env ID filename n = Inr (r, n')"
    and fresh: "\<And>f. fresh_handle (fst (lib_open_offline lib f)) n"
  shows "\<exists>i. slot ID = Inr i \<and> slot_opened i n n'"
proof -
  obtain i where i: "slot ID = Inr i"
    using assms(1) by (auto simp: nativeOpenOffline_def bindr_Inr_iff Let_def)
  show ?thesis
  proof (cases "pcds n ! i = None \<and> filename \<noteq> None")
    case False
    then show ?thesis
      using assms(1) i by (auto simp: nativeOpenOffline_def slot_opened_def arrays_sized_def Let_def split: if_splits)
  next
    case True
    then obtain d where d: "filename = Some d" "pcds n ! i = None" by blast
    obtain h msg where h: "lib_open_offline lib d = (h, msg)" by (cases "lib_open_offline lib d")
    have "pcds n' = (pcds n)[i := h] \<and> live n' = live n \<union> set_option h \<and> (arrays_sized n \<longrightarrow> arrays_sized n')"
      using assms(1) i d h
      by (cases h)
         (auto simp: nativeOpenOffline_def open_slot_def Let_def bindr_Inr_iff arrays_sized_def)
    moreover have "set_option h \<inter> live n = {}"
      using fresh [of d] h by (auto simp: fresh_handle_def)
    ultimately show ?thesis using i d by (auto simp: slot_opened_def)
  qed
qed

lemma nativeOpenDevice_slots:
  assumes "nativeOpenDevice vm lib env ID dev n = Inr (r, n')"
    and fresh: "\<And>d. fresh_handle (fst (lib_open_live lib d 65535 0 1000)) n"
  shows "\<exists>i. slot ID = Inr i \<and> slot_opened i n n'"
proof -
  obtain i where i: "slot ID = Inr i"
    using assms(1) by (auto simp: nativeOpenDevice_def getJpcapSenderID_def bindr_Inr_iff Let_def)
  show ?thesis
  proof (cases "pcds n ! i = None \<and> dev \<noteq> None")
    case False
    then show ?thesis
      using assms(1) i
      by (auto simp: nativeOpenDevice_def getJpcapSenderID_def slot_opened_def arrays_sized_def Let_def
          split: if_splits)
  next
    case True
    then obtain d where d: "dev = Some d" "pcds n ! i = None" by blast
    obtain h msg where h: "lib_open_live lib d 65535 0 1000 = (h, msg)"
      by (cases "lib_open_live lib d 65535 0 1000")
    have "pcds n' = (pcds n)[i := h] \<and> live n' = live n \<union> set_option h \<and> (arrays_sized n \<longrightarrow> arrays_sized n')"
      using assms(1) i d h
      by (cases h)
         (auto simp: nativeOpenDevice_def getJpcapSenderID_def open_slot_def Let_def bindr_Inr_iff
           arrays_sized_def)
    moreover have "set_option h \<inter> live n = {}"
      using fresh [of d] h by (auto simp: fresh_handle_def)
    ultimately show ?thesis using i d by (auto simp: slot_opened_def)
  qed
qed

lemma close_slot_closed:
  assumes "bindr (case pcds n ! i of None \<Rightarrow> Inr n | Some h \<Rightarrow> pcap_close h n)
      (\<lambda>n. Inr (n\<lparr>pcds := (pcds n)[i := None]\<rparr>)) = Inr n'"
  shows "slot_closed i n n'"
  using assms
  by (cases "pcds n ! i") (auto simp: slot_closed_def pcap_close_def arrays_sized_def split: if_splits)

lemma nativeClose_slots:
  assumes "nativeClose ID n = Inr n'"
  shows "\<exists>i. slot ID = Inr i \<and> slot_closed i n n'"
proof -
  obtain i where i: "slot ID = Inr i" using assms by (auto simp: nativeClose_def bindr_Inr_iff)
  with assms show ?thesis by (auto simp: nativeClose_def intro: close_slot_closed)
qed

lemma nativeCloseDevice_slots:
  assumes "nativeCloseDevice ID n = Inr n'"
  shows "\<exists>i. slot ID = Inr i \<and> slot_closed i n n'"
proof -
  obtain i where i: "slot ID = Inr i"
    using assms by (auto simp: nativeCloseDevice_def getJpcapSenderID_def bindr_Inr_iff)
  with assms have "slot_closed i (n\<lparr>JpcapSender_class := True\<rparr>) n'"
    by (intro close_slot_closed) (simp add: nativeCloseDevice_def getJpcapSenderID_def)
  with i show ?thesis by (auto simp: slot_closed_def arrays_sized_def)
qed

section \<open>IDs\<close>

lemma reserveID_cases:
  assumes "length flags = MAX_NUMBER_OF_INSTANCE"
  obtains (taken) "reserveID flags = (- 1, flags)" "\<forall>i < MAX_NUMBER_OF_INSTANCE. flags ! i"
  | (free) i where "i < MAX_NUMBER_OF_INSTANCE" "\<not> flags ! i" "\<forall>j < i. flags ! j"
      "reserveID flags = (of_nat i, flags[i := True])"
proof (cases "List.find (\<lambda>i. \<not> flags ! i) [0..<MAX_NUMBER_OF_INSTANCE]")
  case None
  then have "reserveID flags = (- 1, flags)" by (simp add: reserveID_def)
  with None show ?thesis by (intro taken) (auto simp: find_None_iff)
next
  case (Some i)
  then have "i < MAX_NUMBER_OF_INSTANCE \<and> \<not> flags ! i \<and> (\<forall>j < i. flags ! j)"
    by (auto simp: find_Some_iff)
  with Some show ?thesis by (intro free [of i]) (simp_all add: reserveID_def)
qed

lemma sint_of_nat_slot:
  "i < MAX_NUMBER_OF_INSTANCE \<Longrightarrow> sint (of_nat i :: jint) = int i"
  by (simp add: MAX_NUMBER_OF_INSTANCE_def signed_of_nat signed_take_bit_int_eq_self)

lemma unreserveID_slot:
  assumes "slot ID = Inr i" and "length flags = MAX_NUMBER_OF_INSTANCE"
  shows "unreserveID ID flags = Inr (flags[i := False])"
  using assms by (auto simp: slot_Inr_iff unreserveID_def)

section \<open>The invariant\<close>

lemma truncated_open:
  "lib_open_live (library.truncate lib) = lib_open_live lib"
  "lib_open_offline (library.truncate lib) = lib_open_offline lib"
  by (simp_all add: library.truncate_def)

lemma api_inv_start: "api_inv jstate0"
  by (auto simp: api_inv_def jstate0_def slots_ok_def native0_def arrays_sized_def)

lemma api_inv_sized: "api_inv s \<Longrightarrow> length (instanciatedFlag s) = MAX_NUMBER_OF_INSTANCE"
  and api_inv_slots: "api_inv s \<Longrightarrow> slots_ok (nat_state s)"
  by (simp_all add: api_inv_def)

lemma slots_ok_sized: "slots_ok n \<Longrightarrow> length (pcds n) = MAX_NUMBER_OF_INSTANCE"
  by (simp add: slots_ok_def arrays_sized_def)

lemma api_inv_same_slots:
  "api_inv s \<Longrightarrow> same_slots (nat_state s) n \<Longrightarrow> api_inv (s\<lparr>nat_state := n\<rparr>)"
  using same_slots_ok by (auto simp: api_inv_def same_slots_def)

lemma api_inv_native_step:
  assumes "native_step f s = Inr s'" and "api_inv s"
    and "\<And>n'. f (nat_state s) = Inr n' \<Longrightarrow> same_slots (nat_state s) n'"
  shows "api_inv s'"
  using assms by (auto simp: native_step_def bindr_Inr_iff api_inv_same_slots)

lemma drop_value_iff: "drop_value m = Inr s \<longleftrightarrow> (\<exists>v. m = Inr (v, s))"
  by (auto simp: drop_value_def bindr_Inr_iff split_def)

lemma set_flag_keeps: "flags ! j \<Longrightarrow> j < length flags \<Longrightarrow> flags[i := True] ! j"
  by (cases "i = j") auto

lemma api_inv_reserve:
  "api_inv s \<Longrightarrow> api_inv (s\<lparr>instanciatedFlag := (instanciatedFlag s)[i := True]\<rparr>)"
  by (auto simp: api_inv_def set_flag_keeps)

lemma api_inv_opened:
  assumes "api_inv s" and "i < MAX_NUMBER_OF_INSTANCE" and "slot_opened i (nat_state s) n"
    and "instanciatedFlag s ! i"
  shows "api_inv (s\<lparr>nat_state := n\<rparr>)"
proof -
  have "slots_ok n" using slot_opened_ok assms(1-3) by (auto simp: api_inv_def)
  moreover have "j \<noteq> i \<Longrightarrow> pcds n ! j = pcds (nat_state s) ! j" for j
    using assms(3) by (auto simp: slot_opened_def)
  ultimately show ?thesis using assms(1,4) by (auto simp: api_inv_def) metis
qed

lemma api_inv_with_new_ID:
  assumes "with_new_ID f s = Inr (r, s')" and "api_inv s"
    and opened: "\<And>ID r n'. f ID (nat_state s) = Inr (r, n') \<Longrightarrow>
      \<exists>i. slot ID = Inr i \<and> slot_opened i (nat_state s) n'"
  shows "api_inv s'"
  using api_inv_sized [OF assms(2)]
proof (cases rule: reserveID_cases)
  case taken
  then show ?thesis using assms(1,2) by (simp add: with_new_ID_def)
next
  case (free i)
  let ?s = "s\<lparr>instanciatedFlag := (instanciatedFlag s)[i := True]\<rparr>"
  obtain r n where n: "f (of_nat i) (nat_state s) = Inr (r, n)" "s' = ?s\<lparr>nat_state := n\<rparr>"
    using assms(1) free
    by (auto simp: with_new_ID_def sint_of_nat_slot bindr_Inr_iff Let_def case_prod_beta)
  have "slot_opened i (nat_state ?s) n"
    using opened [OF n(1)] slot_of_nat [OF free(1)] by auto
  then show ?thesis
    unfolding n(2) using assms(2) free(1) api_inv_sized [OF assms(2)]
    by (intro api_inv_opened [OF api_inv_reserve]) auto
qed

lemma api_inv_closed:
  assumes "api_inv s" and "slot ID = Inr i" and "slot_closed i (nat_state s) n"
    and "unreserveID ID (instanciatedFlag s) = Inr flags"
  shows "api_inv (s\<lparr>nat_state := n, instanciatedFlag := flags\<rparr>)"
proof -
  have i: "i < MAX_NUMBER_OF_INSTANCE" using assms(2) by (simp add: slot_Inr_iff)
  have "flags = (instanciatedFlag s)[i := False]"
    using assms(1,2,4) unreserveID_slot by (auto simp: api_inv_def)
  moreover have "slots_ok n" using slot_closed_ok [OF assms(3)] assms(1) i by (simp add: api_inv_def)
  moreover have "pcds n = (pcds (nat_state s))[i := None]" using assms(3) by (simp add: slot_closed_def)
  ultimately show ?thesis
    using assms(1) i slots_ok_sized [OF api_inv_slots [OF assms(1)]]
    by (auto simp: api_inv_def nth_list_update split: if_splits)
qed

lemma api_inv_close_instance:
  assumes "close_instance f ID s = Inr (r, s')" and "api_inv s"
    and closed: "\<And>n'. f ID (nat_state s) = Inr n' \<Longrightarrow>
      \<exists>i. slot ID = Inr i \<and> slot_closed i (nat_state s) n'"
  shows "api_inv s'"
proof -
  obtain n where n: "f ID (nat_state s) = Inr n"
    using assms(1) by (auto simp: close_instance_def bindr_Inr_iff)
  from closed [OF n] obtain i where i: "slot ID = Inr i" "slot_closed i (nat_state s) n" by blast
  have "unreserveID ID (instanciatedFlag s) = Inr ((instanciatedFlag s)[i := False])"
    by (rule unreserveID_slot [OF i(1) api_inv_sized [OF assms(2)]])
  then show ?thesis
    using assms(1) n api_inv_closed [OF assms(2) i] by (auto simp: close_instance_def)
qed

lemma api_inv_close_raw:
  assumes "close_instance (\<lambda>_ n. Inr (nativeCloseRawSocket plat n)) jpcap_JpcapSender_RAW_SOCKET_ID s =
      Inr (r, s')" and "api_inv s"
  shows "api_inv s'"
proof -
  have "unreserveID jpcap_JpcapSender_RAW_SOCKET_ID (instanciatedFlag s) = Inl ArrayIndexOutOfBounds"
    using api_inv_sized [OF assms(2)]
    by (simp add: unreserveID_def jpcap_JpcapSender_RAW_SOCKET_ID_def MAX_NUMBER_OF_INSTANCE_def)
  then show ?thesis
    using assms api_inv_same_slots [OF assms(2) nativeCloseRawSocket_slots]
    by (auto simp: close_instance_def)
qed


lemma api_inv_open_raw:
  assumes "api_inv s"
  shows "api_inv (snd (sender_openRawSocket w s))"
proof -
  have "same_slots (nat_state s) (snd (nativeOpenRawSocket (w_platform w) (w_vm w) (w_lib w) (nat_state s)))"
    by (rule nativeOpenRawSocket_slots [OF prod.collapse [symmetric]])
  then have same: "api_inv (s\<lparr>instanciatedFlag := (instanciatedFlag s)[i := True], nat_state :=
      snd (nativeOpenRawSocket (w_platform w) (w_vm w) (w_lib w) (nat_state s))\<rparr>)" for i
    by (intro api_inv_same_slots [OF api_inv_reserve [OF assms]]) simp
  show ?thesis using api_inv_sized [OF assms]
    by (cases rule: reserveID_cases)
       (use assms same in \<open>auto simp: sender_openRawSocket_def sint_of_nat_slot Let_def case_prod_beta\<close>)
qed

lemma api_inv_step:
  assumes "api_step op s s'" and "op \<noteq> CloseWriter" and inv: "api_inv s"
  shows "api_inv s'"
proof -
  from assms(1) obtain w where fresh: "fresh_world w s" and run: "exec w op s = Inr s'"
    by (auto simp: api_step_iff)
  note live = fresh [unfolded fresh_world_def, THEN conjunct1, rule_format]
    and offline = fresh [unfolded fresh_world_def, THEN conjunct2, rule_format]
  show ?thesis
  proof (cases op)
    case (OpenLive name snaplen promisc to_ms)
    then obtain r where "captor_openDevice w name snaplen promisc to_ms s = Inr (r, s')"
      using run by (auto simp: drop_value_iff)
    then show ?thesis
      unfolding captor_openDevice_def
      by (rule api_inv_with_new_ID [OF _ inv]) (rule nativeOpenLive_slots, assumption, simp add: truncated_open live)
  next
    case (OpenFile name)
    then obtain r where "captor_openFile w name s = Inr (r, s')"
      using run by (auto simp: drop_value_iff)
    then show ?thesis
      unfolding captor_openFile_def
      by (rule api_inv_with_new_ID [OF _ inv]) (rule nativeOpenOffline_slots, assumption, simp add: truncated_open offline)
  next
    case (OpenSender name)
    then obtain r where "sender_openDevice w name s = Inr (r, s')"
      using run by (auto simp: drop_value_iff)
    then show ?thesis
      unfolding sender_openDevice_def
      by (rule api_inv_with_new_ID [OF _ inv]) (rule nativeOpenDevice_slots, assumption, rule live)
  next
    case (CloseCaptor ID)
    then show ?thesis
      using run by (auto simp: drop_value_iff captor_close_def
        intro: api_inv_close_instance [OF _ inv] dest: nativeClose_slots)
  next
    case (CloseSender ID)
    then show ?thesis
      using run by (auto simp: drop_value_iff sender_close_def split: if_splits
        intro: api_inv_close_raw [OF _ inv] api_inv_close_instance [OF _ inv] dest: nativeCloseDevice_slots)
  next
    case OpenRaw
    then show ?thesis using run api_inv_open_raw [OF inv, of w] by simp
  next
    case (SendPacket ID packet)
    then show ?thesis
      using run inv by (auto simp: drop_value_iff sender_sendPacket_def bindr_Inr_iff split: if_splits
        intro: api_inv_same_slots nativeSendPacket_slots)
  next
    case (ProcessPacket ID cnt h)
    with run show ?thesis
      by (auto simp: drop_value_iff processPacket_def
        intro: capture_loop_slots elim!: api_inv_native_step [OF _ inv])
  next
    case (LoopPacket ID cnt h)
    with run show ?thesis
      by (auto simp: drop_value_iff loopPacket_def
        intro: capture_loop_slots elim!: api_inv_native_step [OF _ inv])
  qed (use run assms(2) in \<open>auto simp: drop_value_iff elim!: api_inv_native_step [OF _ inv]
    intro: getPacket_slots setNonBlockingMode_slots isNonBlockinMode_slots setFilter_slots breakLoop_slots
      nativeOpenDumpFile_slots\<close>)
qed

section \<open>What follows\<close>

lemma reachable_inv: "reachable s \<Longrightarrow> api_inv s"
  by (induction rule: reachable.induct) (simp add: api_inv_start, rule api_inv_step)

lemma slots_ok_handle:
  "slots_ok n \<Longrightarrow> i < MAX_NUMBER_OF_INSTANCE \<Longrightarrow> pcds n ! i = Some h \<Longrightarrow> the_handle i n = Inr h"
  by (simp add: slots_ok_def the_handle_def)

lemma nativeClose_returns:
  "slots_ok n \<Longrightarrow> i < MAX_NUMBER_OF_INSTANCE \<Longrightarrow> \<exists>n'. nativeClose (of_nat i) n = Inr n'"
  by (cases "pcds n ! i") (auto simp: nativeClose_def slot_of_nat pcap_close_def slots_ok_def)

definition free_IDs :: "jstate \<Rightarrow> nat set" where
  "free_IDs s = {i. i < MAX_NUMBER_OF_INSTANCE \<and> \<not> instanciatedFlag s ! i}"

definition open_slots :: "jstate \<Rightarrow> nat \<rightharpoonup> handle" where
  "open_slots s = (\<lambda>i. if i < MAX_NUMBER_OF_INSTANCE then pcds (nat_state s) ! i else None)"

text \<open>A close, seen through these two.\<close>

lemma close_instance_effect:
  assumes inv: "api_inv s" and i: "i < MAX_NUMBER_OF_INSTANCE"
    and cl: "slot_closed i (nat_state s) n'" and run: "f (of_nat i) (nat_state s) = Inr n'"
  shows "\<exists>s'. close_instance f (of_nat i) s = Inr (Inr (), s') \<and> nat_state s' = n' \<and> api_inv s' \<and>
      free_IDs s' = insert i (free_IDs s) \<and> open_slots s' = (open_slots s)(i := None) \<and>
      (\<forall>j < MAX_NUMBER_OF_INSTANCE. j \<noteq> i \<longrightarrow>
         the_handle j (nat_state s') = the_handle j (nat_state s))"
proof -
  let ?s = "s\<lparr>nat_state := n', instanciatedFlag := (instanciatedFlag s)[i := False]\<rparr>"
  note ok = api_inv_slots [OF inv] and len = api_inv_sized [OF inv]
  have unreserve: "unreserveID (of_nat i) (instanciatedFlag s) = Inr ((instanciatedFlag s)[i := False])"
    by (rule unreserveID_slot [OF slot_of_nat [OF i] len])
  then have "close_instance f (of_nat i) s = Inr (Inr (), ?s)"
    using run by (simp add: close_instance_def)
  moreover have "api_inv ?s" by (rule api_inv_closed [OF inv slot_of_nat [OF i] cl unreserve])
  moreover have "free_IDs ?s = insert i (free_IDs s)"
    using i len by (auto simp: free_IDs_def nth_list_update)
  moreover have "open_slots ?s = (open_slots s)(i := None)"
    using cl slots_ok_sized [OF ok] i by (auto simp: open_slots_def slot_closed_def)
  moreover have "the_handle j (nat_state ?s) = the_handle j (nat_state s)"
    if "j < MAX_NUMBER_OF_INSTANCE" "j \<noteq> i" for j
    using cl ok that i slots_ok_sized [OF ok]
    by (auto simp: slot_closed_def the_handle_def slots_ok_def split: option.split)
  ultimately show ?thesis by (intro exI [of _ ?s]) auto
qed

lemma captor_close_effect:
  assumes "api_inv s" and "i < MAX_NUMBER_OF_INSTANCE"
  shows "\<exists>s'. captor_close (of_nat i) s = Inr (Inr (), s') \<and> api_inv s' \<and>
      free_IDs s' = insert i (free_IDs s) \<and> open_slots s' = (open_slots s)(i := None) \<and>
      (\<forall>j < MAX_NUMBER_OF_INSTANCE. j \<noteq> i \<longrightarrow>
         the_handle j (nat_state s') = the_handle j (nat_state s))"
proof -
  obtain n' where n': "nativeClose (of_nat i) (nat_state s) = Inr n'"
    using nativeClose_returns [OF api_inv_slots] assms by blast
  then have "slot_closed i (nat_state s) n'"
    using nativeClose_slots slot_of_nat [OF assms(2)] by fastforce
  from close_instance_effect [of s i n' nativeClose, OF assms this n'] show ?thesis
    by (auto simp: captor_close_def)
qed

lemma sender_close_effect:
  assumes "api_inv s" and "i < MAX_NUMBER_OF_INSTANCE"
  shows "\<exists>s'. sender_close w (of_nat i) s = Inr (Inr (), s') \<and> api_inv s' \<and>
      free_IDs s' = insert i (free_IDs s) \<and> open_slots s' = (open_slots s)(i := None)"
proof -
  let ?m = "nat_state s\<lparr>JpcapSender_class := True\<rparr>"
  have "slots_ok ?m" by (rule same_slots_ok [OF same_slots_fields api_inv_slots [OF assms(1)]]) simp_all
  then obtain n' where "nativeClose (of_nat i) ?m = Inr n'" using nativeClose_returns assms(2) by blast
  then have n': "nativeCloseDevice (of_nat i) (nat_state s) = Inr n'"
    by (simp add: nativeCloseDevice_def getJpcapSenderID_def nativeClose_def)
  then have "slot_closed i (nat_state s) n'"
    using nativeCloseDevice_slots slot_of_nat [OF assms(2)] by fastforce
  from close_instance_effect [of s i n' nativeCloseDevice, OF assms this n'] show ?thesis
    using sint_of_nat_slot [OF assms(2)] assms(2)
    by (auto simp: sender_close_def jpcap_JpcapSender_RAW_SOCKET_ID_def MAX_NUMBER_OF_INSTANCE_def)
qed

text \<open>
  C1. Every operation of JpcapCaptor and JpcapSender, and opening a dump file, keeps the
  invariant of the instances: the arrays have their size, every handle in a slot is alive, no
  two slots share a handle, and a slot with a handle belongs to a reserved ID. Closing a dump
  file is the one operation left out: it frees the handle of the captor. The capture loops run
  here with a handler that does not call back into the API.
\<close>

theorem api_inv_preserved:
  "api_step op s s' \<Longrightarrow> op \<noteq> CloseWriter \<Longrightarrow> api_inv s \<Longrightarrow> api_inv s'"
  by (rule api_inv_step)

text \<open>
  C2. In every state reached from the start without closing a dump file, the handle of an
  instance is never one that was freed, and closing any ID below 255 succeeds: it frees the ID
  and the slot and leaves the handles of all other instances as they are.
\<close>

theorem reachable_instances_safe:
  assumes "reachable s" and "i < MAX_NUMBER_OF_INSTANCE"
  shows "the_handle i (nat_state s) \<noteq> Inl FreedHandle \<and>
      (\<exists>s'. captor_close (of_nat i) s = Inr (Inr (), s') \<and> free_IDs s' = insert i (free_IDs s) \<and>
         open_slots s' = (open_slots s)(i := None) \<and>
         (\<forall>j < MAX_NUMBER_OF_INSTANCE. j \<noteq> i \<longrightarrow>
            the_handle j (nat_state s') = the_handle j (nat_state s)))"
proof -
  have inv: "api_inv s" by (rule reachable_inv [OF assms(1)])
  then have "the_handle i (nat_state s) \<noteq> Inl FreedHandle"
    using assms(2) by (auto simp: the_handle_def api_inv_def slots_ok_def split: option.split)
  then show ?thesis using captor_close_effect [OF inv assms(2)] by blast
qed

section \<open>Opening\<close>

text \<open>The lowest free ID is taken, whether the native call opens a device or not.\<close>

lemma with_new_ID_effect:
  assumes inv: "api_inv s" and run: "with_new_ID f s = Inr (r, s')"
  shows "(free_IDs s = {} \<and> r = Inl (IOException all_taken) \<and> s' = s) \<or>
    (\<exists>i ret n. i < MAX_NUMBER_OF_INSTANCE \<and> i = Min (free_IDs s) \<and> free_IDs s' = free_IDs s - {i} \<and>
       i \<in> free_IDs s \<and> pcds (nat_state s) ! i = None \<and>
       f (of_nat i) (nat_state s) = Inr (ret, n) \<and> nat_state s' = n \<and>
       r = (case ret of None \<Rightarrow> Inr (of_nat i) | Some m \<Rightarrow> Inl (IOException m)))"
  using api_inv_sized [OF inv]
proof (cases rule: reserveID_cases)
  case taken
  then show ?thesis using run by (simp add: with_new_ID_def free_IDs_def)
next
  case (free i)
  have "Min (free_IDs s) = i"
    using free by (intro Min_eqI) (auto simp: free_IDs_def not_less intro: leI)
  moreover have "i \<in> free_IDs s" using free by (simp add: free_IDs_def)
  moreover have "pcds (nat_state s) ! i = None" using inv free by (auto simp: api_inv_def)
  moreover from run free obtain ret n where ret: "f (of_nat i) (nat_state s) = Inr (ret, n)"
    "s' = s\<lparr>instanciatedFlag := (instanciatedFlag s)[i := True], nat_state := n\<rparr>"
    "r = (case ret of None \<Rightarrow> Inr (of_nat i) | Some m \<Rightarrow> Inl (IOException m))"
    by (auto simp: with_new_ID_def sint_of_nat_slot bindr_Inr_iff)
  moreover have "free_IDs s' = free_IDs s - {i}"
    unfolding ret(2) free_IDs_def using api_inv_sized [OF inv]
    by (auto simp: nth_list_update set_flag_keeps)
  ultimately show ?thesis using free(1) by auto
qed

lemma no_free_ID:
  assumes "api_inv s" and "free_IDs s = {}"
  shows "reserveID (instanciatedFlag s) = (- 1, instanciatedFlag s)"
  using api_inv_sized [OF assms(1)]
  by (cases rule: reserveID_cases) (use assms(2) in \<open>auto simp: free_IDs_def\<close>)

lemma open_slots_eq: "pcds (nat_state s') = pcds (nat_state s) \<Longrightarrow> open_slots s' = open_slots s"
  by (simp add: open_slots_def cong: if_cong)

lemma nativeOpenLive_new_handle:
  assumes "nativeOpenLive vm lib env ID (Some dev) snaplen promisc to_ms n = Inr (ret, n')"
    and "slot ID = Inr i" and "pcds n ! i = None" and "arrays_sized n"
  shows "case ret of None \<Rightarrow> \<exists>h. fst (lib_open_live lib dev snaplen promisc to_ms) = Some h \<and>
        pcds n' = (pcds n)[i := Some h]
      | Some m \<Rightarrow> pcds n' = pcds n"
proof (cases "fst (lib_open_live lib dev snaplen promisc to_ms)")
  case None
  have "(pcds n)[i := None] = pcds n" using assms(3) list_update_id [of "pcds n" i] by simp
  with None show ?thesis
    using assms by (auto simp: nativeOpenLive_def open_slot_def Let_def bindr_Inr_iff case_prod_beta)
next
  case (Some h)
  then show ?thesis
    using assms by (auto simp: nativeOpenLive_def open_slot_def Let_def bindr_Inr_iff case_prod_beta)
qed

lemma openDevice_table:
  assumes "api_inv s" and "fresh_world w s"
    and "captor_openDevice w (Some dev) snaplen promisc to_ms s = Inr (r, s')"
  shows "if free_IDs s = {} then r = Inl (IOException all_taken) \<and> s' = s
    else free_IDs s' = free_IDs s - {Min (free_IDs s)} \<and>
      (case r of
         Inl e \<Rightarrow> open_slots s' = open_slots s
       | Inr ID \<Rightarrow> ID = of_nat (Min (free_IDs s)) \<and>
           (\<exists>h. h \<notin> ran (open_slots s) \<and> open_slots s' = (open_slots s)(Min (free_IDs s) \<mapsto> h)))"
proof -
  from with_new_ID_effect [OF assms(1) assms(3) [unfolded captor_openDevice_def]]
  show ?thesis
  proof (elim disjE exE conjE)
    fix i ret n
    assume i: "i < MAX_NUMBER_OF_INSTANCE" "i = Min (free_IDs s)" "i \<in> free_IDs s"
      and ids: "free_IDs s' = free_IDs s - {i}" and none: "pcds (nat_state s) ! i = None"
      and run: "nativeOpenLive (w_vm w) (library.truncate (w_lib w)) (w_env w) (of_nat i) (Some dev)
        snaplen (if promisc then 1 else 0) to_ms (nat_state s) = Inr (ret, n)"
      and n: "nat_state s' = n"
      and r: "r = (case ret of None \<Rightarrow> Inr (of_nat i) | Some m \<Rightarrow> Inl (IOException m))"
    have sized: "arrays_sized (nat_state s)" using assms(1) by (simp add: api_inv_def slots_ok_def)
    note new = nativeOpenLive_new_handle [OF run slot_of_nat [OF i(1)] none sized]
    show ?thesis
    proof (cases ret)
      case (Some m)
      then show ?thesis using i ids new r n open_slots_eq [of s' s] by auto
    next
      case None
      with new obtain h where h: "pcds n = (pcds (nat_state s))[i := Some h]"
        "fst (lib_open_live (w_lib w) dev snaplen (if promisc then 1 else 0) to_ms) = Some h"
        by (auto simp: truncated_open)
      have "h \<notin> live (nat_state s)"
        using assms(2) h(2) unfolding fresh_world_def fresh_handle_def by metis
      moreover have "ran (open_slots s) \<subseteq> live (nat_state s)"
        using api_inv_slots [OF assms(1)] by (auto simp: ran_def open_slots_def slots_ok_def split: if_splits)
      moreover have "open_slots s' = (open_slots s)(i \<mapsto> h)"
        using h(1) i(1) n slots_ok_sized [OF api_inv_slots [OF assms(1)]] by (auto simp: open_slots_def)
      ultimately show ?thesis using i ids r None by auto
    qed
  qed simp
qed

text \<open>
  C19. Seen as a table from IDs to handles with a set of free IDs, JpcapCaptor.openDevice takes
  the lowest free ID: with success the table gets one new entry with a handle no other instance
  has, with failure the table stays as it is but the ID is gone, and with no free ID it throws
  and changes nothing.
\<close>

theorem openDevice_refines_table:
  assumes "api_inv s" and "fresh_world w s"
    and "captor_openDevice w (Some dev) snaplen promisc to_ms s = Inr (r, s')"
  shows "if free_IDs s = {} then r = Inl (IOException all_taken) \<and> s' = s
    else free_IDs s' = free_IDs s - {Min (free_IDs s)} \<and>
      (case r of
         Inl e \<Rightarrow> open_slots s' = open_slots s
       | Inr ID \<Rightarrow> ID = of_nat (Min (free_IDs s)) \<and>
           (\<exists>h. h \<notin> ran (open_slots s) \<and> open_slots s' = (open_slots s)(Min (free_IDs s) \<mapsto> h)))"
  using assms by (rule openDevice_table)

section \<open>Failed opens\<close>

text \<open>The caller tries to open a device again and again.\<close>

fun attempts :: "world \<Rightarrow> string \<Rightarrow> nat \<Rightarrow> jstate \<Rightarrow> jstate res" where
  "attempts w dev 0 s = Inr s"
| "attempts w dev (Suc n) s =
     bindr (drop_value (captor_openDevice w (Some dev) 65535 False 1000 s)) (attempts w dev n)"

definition cannot_open :: "world \<Rightarrow> string \<Rightarrow> bool" where
  "cannot_open w dev \<longleftrightarrow>
     (\<exists>msg. lib_open_live (w_lib w) dev 65535 0 1000 = (None, Some msg) \<and> library_message msg) \<and>
     (\<exists>ret net nmask. lib_lookupnet (w_lib w) dev = (ret, net, nmask, None))"

lemma truncated_lookupnet: "lib_lookupnet (library.truncate lib) = lib_lookupnet lib"
  by (simp add: library.truncate_def)

lemma nativeOpenLive_fails:
  assumes "cannot_open w dev" and "i < MAX_NUMBER_OF_INSTANCE" and "pcds n ! i = None"
  shows "\<exists>m n'. nativeOpenLive (w_vm w) (library.truncate (w_lib w)) (w_env w) (of_nat i) (Some dev)
      65535 0 1000 n = Inr (Some m, n') \<and> pcds n' = pcds n \<and> same_slots n n'"
proof -
  obtain msg ret net nmask where lib: "lib_open_live (library.truncate (w_lib w)) dev 65535 0 1000 = (None, Some msg)"
    "library_message msg" "lib_lookupnet (library.truncate (w_lib w)) dev = (ret, net, nmask, None)"
    using assms(1) by (auto simp: cannot_open_def truncated_open truncated_lookupnet)
  have keep: "(pcds n)[i := None] = pcds n" using assms(3) list_update_id [of "pcds n" i] by simp
  let ?n = "n\<lparr>jenv := set_Java_env (w_vm w) (jenv n), jni_envs := (jni_envs n)[i := Some (w_env w)]\<rparr>"
  let ?m = "lookup_net (library.truncate (w_lib w)) i dev (put_errbuf i (Some msg) (open_slot i None ?n))"
  have "nativeOpenLive (w_vm w) (library.truncate (w_lib w)) (w_env w) (of_nat i) (Some dev)
      65535 0 1000 n = Inr (Some msg, ?m)"
    using assms lib slot_of_nat [OF assms(2)]
    by (simp add: nativeOpenLive_def Let_def lookup_net_message(1) errbuf_read_back)
  moreover have "same_slots n ?m" unfolding same_slots_def
    using keep by (auto intro!: lookup_net_sized simp: open_slot_def) (simp add: arrays_sized_def)
  ultimately show ?thesis by (auto simp: same_slots_def)
qed

lemma failed_open_step:
  assumes "api_inv s" and "cannot_open w dev" and "free_IDs s \<noteq> {}"
  shows "\<exists>m s'. captor_openDevice w (Some dev) 65535 False 1000 s = Inr (Inl (IOException m), s') \<and>
      api_inv s' \<and> open_slots s' = open_slots s \<and> card (free_IDs s') = card (free_IDs s) - 1"
  using api_inv_sized [OF assms(1)]
proof (cases rule: reserveID_cases)
  case taken
  then show ?thesis using assms(3) by (auto simp: free_IDs_def)
next
  case (free i)
  have none: "pcds (nat_state s) ! i = None" using assms(1) free by (auto simp: api_inv_def)
  obtain m n' where m: "nativeOpenLive (w_vm w) (library.truncate (w_lib w)) (w_env w) (of_nat i)
      (Some dev) 65535 0 1000 (nat_state s) = Inr (Some m, n')"
    "pcds n' = pcds (nat_state s)" "same_slots (nat_state s) n'"
    using nativeOpenLive_fails [OF assms(2) free(1) none] by blast
  let ?s = "s\<lparr>instanciatedFlag := (instanciatedFlag s)[i := True], nat_state := n'\<rparr>"
  have "captor_openDevice w (Some dev) 65535 False 1000 s = Inr (Inl (IOException m), ?s)"
    using m(1) free by (simp add: captor_openDevice_def with_new_ID_def sint_of_nat_slot)
  moreover have "api_inv ?s" by (intro api_inv_same_slots api_inv_reserve assms) (simp add: m(3))
  moreover have "free_IDs ?s = free_IDs s - {i}"
    unfolding free_IDs_def using api_inv_sized [OF assms(1)]
    by (auto simp: nth_list_update set_flag_keeps)
  moreover have "i \<in> free_IDs s" using free by (simp add: free_IDs_def)
  ultimately show ?thesis using m(2) open_slots_eq [of ?s s] by auto
qed

lemma failed_opens:
  assumes "cannot_open w dev" and "api_inv s"
  shows "\<exists>s'. attempts w dev n s = Inr s' \<and> api_inv s' \<and> open_slots s' = open_slots s \<and>
      card (free_IDs s') = card (free_IDs s) - n"
  using assms(2)
proof (induction n arbitrary: s)
  case (Suc n)
  show ?case
  proof (cases "free_IDs s = {}")
    case False
    from failed_open_step [OF Suc.prems assms(1) False] obtain m s1 where s1:
      "captor_openDevice w (Some dev) 65535 False 1000 s = Inr (Inl (IOException m), s1)" "api_inv s1"
      "open_slots s1 = open_slots s" "card (free_IDs s1) = card (free_IDs s) - 1"
      by blast
    from Suc.IH [OF s1(2)] s1 show ?thesis by (auto simp: drop_value_def)
  next
    case True
    with Suc.prems have "captor_openDevice w (Some dev) 65535 False 1000 s = Inr (Inl (IOException all_taken), s)"
      by (simp add: captor_openDevice_def with_new_ID_def no_free_ID)
    with Suc.IH [OF Suc.prems] show ?thesis by (auto simp: drop_value_def True)
  qed
qed simp

text \<open>
  C30. A failed openDevice never gives back its ID: after 255 attempts to open a device that
  cannot be opened no device can be opened any more by a captor or a sender, although no slot is
  in use beyond those of before.
\<close>

theorem failed_opens_use_up_IDs:
  assumes "api_inv s" and "cannot_open w dev"
  shows "\<exists>s'. attempts w dev MAX_NUMBER_OF_INSTANCE s = Inr s' \<and> open_slots s' = open_slots s \<and>
      captor_openDevice w2 name snaplen promisc to_ms s' = Inr (Inl (IOException all_taken), s') \<and>
      sender_openDevice w2 name s' = Inr (Inl (IOException all_taken), s')"
proof -
  obtain s' where s': "attempts w dev MAX_NUMBER_OF_INSTANCE s = Inr s'" "api_inv s'"
    "open_slots s' = open_slots s" "card (free_IDs s') = card (free_IDs s) - MAX_NUMBER_OF_INSTANCE"
    using failed_opens [OF assms(2,1)] by blast
  have "card (free_IDs s) \<le> card {..<MAX_NUMBER_OF_INSTANCE}"
    by (rule card_mono) (auto simp: free_IDs_def)
  with s'(4) have "card (free_IDs s') = 0" by simp
  then have "free_IDs s' = {}" by (simp add: free_IDs_def)
  then show ?thesis
    using s' by (simp add: captor_openDevice_def sender_openDevice_def with_new_ID_def no_free_ID)
qed

lemma captor_open_inv:
  assumes "api_inv s" and "fresh_world w s"
    and "captor_openDevice w (Some dev) snaplen promisc to_ms s = Inr (r, s')"
  shows "api_inv s'"
  by (rule api_inv_step [OF api_step.step [OF assms(2), of "OpenLive (Some dev) snaplen promisc to_ms"]])
     (simp_all add: assms drop_value_def)

section \<open>Closing twice, raw senders and shared senders\<close>

text \<open>
  The ID of a closed captor goes to the next one opened when it is the lowest; closing the first
  captor a second time closes the handle of the other.
\<close>

theorem closed_ID_is_reused:
  assumes "api_inv s" and "i < MAX_NUMBER_OF_INSTANCE" and "\<forall>j < i. j \<notin> free_IDs s"
    and "captor_close (of_nat i) s = Inr (r, s1)" and "fresh_world w s1"
    and "captor_openDevice w (Some dev) snaplen promisc to_ms s1 = Inr (Inr ID, s2)"
  shows "ID = of_nat i \<and> open_slots s2 i \<noteq> None \<and>
      (\<exists>s3. captor_close (of_nat i) s2 = Inr (Inr (), s3) \<and> open_slots s3 i = None \<and> i \<in> free_IDs s3)"
proof -
  from captor_close_effect [OF assms(1,2)] assms(4) have s1: "api_inv s1"
    "free_IDs s1 = insert i (free_IDs s)" by auto
  have "Min (free_IDs s1) = i"
    using s1(2) assms(3) by (intro Min_eqI) (auto simp: free_IDs_def intro: leI)
  with openDevice_table [OF s1(1) assms(5,6)] s1(2) have "ID = of_nat i" "open_slots s2 i \<noteq> None"
    by auto
  moreover note captor_close_effect [OF captor_open_inv [OF s1(1) assms(5,6)] assms(2)]
  ultimately show ?thesis by auto
qed

text \<open>
  Closing a raw sender throws, and its ID stays reserved.
\<close>

theorem raw_sender_close_throws:
  assumes "reachable s"
  shows "\<exists>s'. sender_close w jpcap_JpcapSender_RAW_SOCKET_ID s = Inr (Inl ArrayIndexOutOfBounds, s') \<and>
      free_IDs s' = free_IDs s \<and> open_slots s' = open_slots s"
proof -
  have "unreserveID jpcap_JpcapSender_RAW_SOCKET_ID (instanciatedFlag s) = Inl ArrayIndexOutOfBounds"
    using api_inv_sized [OF reachable_inv [OF assms]]
    by (simp add: unreserveID_def jpcap_JpcapSender_RAW_SOCKET_ID_def MAX_NUMBER_OF_INSTANCE_def)
  then show ?thesis
    using nativeCloseRawSocket_slots [of "nat_state s" "w_platform w"]
    by (simp add: sender_close_def close_instance_def free_IDs_def open_slots_def same_slots_def cong: if_cong)
qed

text \<open>
  The sender of a captor closes the captor.
\<close>

theorem shared_sender_closes_captor:
  assumes "reachable s" and "i < MAX_NUMBER_OF_INSTANCE"
  shows "\<exists>s'. sender_close w (getJpcapSenderInstance (of_nat i)) s = Inr (Inr (), s') \<and>
      open_slots s' i = None \<and> i \<in> free_IDs s' \<and>
      getPacket lib na jk env (of_nat i) (nat_state s') = Inl NotOpen"
proof -
  obtain s' where s': "sender_close w (of_nat i) s = Inr (Inr (), s')"
    "free_IDs s' = insert i (free_IDs s)" "open_slots s' = (open_slots s)(i := None)"
    using sender_close_effect [OF reachable_inv [OF assms(1)] assms(2)] by blast
  then have "pcds (nat_state s') ! i = None" using assms(2) by (auto simp: open_slots_def dest: fun_cong [of _ _ i])
  then show ?thesis
    using s' slot_of_nat [OF assms(2)]
    by (simp add: getJpcapSenderInstance_def getPacket_def the_handle_def)
qed

section \<open>Opening again and again\<close>

text \<open>
  A device the library opens can be opened whenever an ID is free, and closing it gives back the
  ID and the slot.
\<close>

definition can_open :: "world \<Rightarrow> string \<Rightarrow> handle \<Rightarrow> jstate \<Rightarrow> bool" where
  "can_open w dev h s \<longleftrightarrow> h \<notin> live (nat_state s) \<and> (\<exists>msg. lib_open_live (w_lib w) dev 65535 0 1000 = (Some h, msg))"

lemma nativeOpenLive_succeeds:
  assumes "can_open w dev h s" and "i < MAX_NUMBER_OF_INSTANCE" and "pcds (nat_state s) ! i = None"
  shows "\<exists>n. nativeOpenLive (w_vm w) (library.truncate (w_lib w)) (w_env w) (of_nat i) (Some dev)
      65535 0 1000 (nat_state s) = Inr (None, n)"
proof -
  obtain msg where "lib_open_live (library.truncate (w_lib w)) dev 65535 0 1000 = (Some h, msg)"
    using assms(1) by (auto simp: can_open_def truncated_open)
  then show ?thesis
    using assms slot_of_nat [OF assms(2)] by (simp add: nativeOpenLive_def Let_def)
qed

lemma captor_open_succeeds:
  assumes "api_inv s" and "free_IDs s \<noteq> {}" and "can_open w dev h s"
  shows "\<exists>s1. captor_openDevice w (Some dev) 65535 False 1000 s = Inr (Inr (of_nat (Min (free_IDs s))), s1)"
  using api_inv_sized [OF assms(1)]
proof (cases rule: reserveID_cases)
  case taken
  then show ?thesis using assms(2) by (auto simp: free_IDs_def)
next
  case (free i)
  have none: "pcds (nat_state s) ! i = None" using assms(1) free by (auto simp: api_inv_def)
  have "i = Min (free_IDs s)"
    using free by (auto simp: free_IDs_def not_less intro!: Min_eqI [symmetric] intro: leI)
  with nativeOpenLive_succeeds [OF assms(3) free(1) none] free show ?thesis
    by (auto simp: captor_openDevice_def with_new_ID_def sint_of_nat_slot)
qed

text \<open>
  C28. Whenever an ID is free and the library opens the device, openDevice succeeds, and closing
  the captor gives back exactly the free IDs and the table of before.
\<close>

theorem open_then_close_restores:
  assumes "api_inv s" and "fresh_world w s" and "free_IDs s \<noteq> {}" and "can_open w dev h s"
  shows "\<exists>ID s1 s2. captor_openDevice w (Some dev) 65535 False 1000 s = Inr (Inr ID, s1) \<and>
      captor_close ID s1 = Inr (Inr (), s2) \<and> api_inv s2 \<and> free_IDs s2 = free_IDs s \<and>
      open_slots s2 = open_slots s"
proof -
  let ?i = "Min (free_IDs s)"
  have i: "?i \<in> free_IDs s" "?i < MAX_NUMBER_OF_INSTANCE"
    using Min_in [OF _ assms(3)] by (auto simp: free_IDs_def)
  obtain s1 where run: "captor_openDevice w (Some dev) 65535 False 1000 s = Inr (Inr (of_nat ?i), s1)"
    using captor_open_succeeds [OF assms(1,3,4)] by blast
  from openDevice_table [OF assms(1,2) run] assms(3)
  obtain h where s1: "free_IDs s1 = free_IDs s - {?i}" "open_slots s1 = (open_slots s)(?i \<mapsto> h)" by auto
  obtain s2 where s2: "captor_close (of_nat ?i) s1 = Inr (Inr (), s2)" "api_inv s2"
    "free_IDs s2 = insert ?i (free_IDs s1)" "open_slots s2 = (open_slots s1)(?i := None)"
    using captor_close_effect [OF captor_open_inv [OF assms(1,2) run] i(2)] by blast
  have "open_slots s ?i = None"
    using i assms(1) by (auto simp: open_slots_def free_IDs_def api_inv_def)
  then have "open_slots s2 = open_slots s" using s2(4) s1(2) by (auto simp: fun_eq_iff)
  moreover have "free_IDs s2 = free_IDs s" using s2(3) s1(1) i(1) by auto
  ultimately show ?thesis using run s2(1,2) by blast
qed

end
