(* ===== verification/Layout.thy ===== *)
theory Layout
  imports Headers
begin

text \<open>
  The structure declarations of \<open>include/\<close>, \<open>Jpcap_ether.h\<close>, \<open>packet_ipv6.c\<close> and \<open>pcap.h\<close> as C
  types, with the layout rules of the C implementations the library is built with: members in
  order, each at the next multiple of its alignment, bit-fields of one unit together. From the
  declarations follow the offsets that theory Headers writes out.
\<close>

section \<open>C types and their layout\<close>

datatype data_model = ILP32 | LP64 | LLP64

datatype byte_order = LittleEndian | BigEndian

fun pointer_size :: "data_model \<Rightarrow> nat" where
  "pointer_size ILP32 = 4"
| "pointer_size LP64 = 8"
| "pointer_size LLP64 = 8"

fun long_size :: "data_model \<Rightarrow> nat" where
  "long_size LP64 = 8"
| "long_size _ = 4"

text \<open>\<open>CInt n\<close> is an integer type of \<open>n\<close> bytes, \<open>CBits n fs\<close> a run of bit-fields in a unit of \<open>n\<close> bytes.\<close>

datatype ctype =
    CInt nat
  | CLong
  | CPtr
  | CArray ctype nat
  | CStruct "(string \<times> ctype) list"
  | CUnion "(string \<times> ctype) list"
  | CBits nat "(string \<times> nat) list"

definition round_up :: "nat \<Rightarrow> nat \<Rightarrow> nat" where
  "round_up n a = (n + a - 1) div a * a"

fun alignof :: "data_model \<Rightarrow> ctype \<Rightarrow> nat"
  and alignof_members :: "data_model \<Rightarrow> (string \<times> ctype) list \<Rightarrow> nat" where
  "alignof d (CInt n) = n"
| "alignof d CLong = long_size d"
| "alignof d CPtr = pointer_size d"
| "alignof d (CArray t n) = alignof d t"
| "alignof d (CStruct ms) = alignof_members d ms"
| "alignof d (CUnion ms) = alignof_members d ms"
| "alignof d (CBits n fs) = n"
| "alignof_members d [] = 1"
| "alignof_members d ((f, t) # ms) = max (alignof d t) (alignof_members d ms)"

fun sizeof :: "data_model \<Rightarrow> ctype \<Rightarrow> nat"
  and struct_end :: "data_model \<Rightarrow> nat \<Rightarrow> (string \<times> ctype) list \<Rightarrow> nat"
  and union_size :: "data_model \<Rightarrow> (string \<times> ctype) list \<Rightarrow> nat" where
  "sizeof d (CInt n) = n"
| "sizeof d CLong = long_size d"
| "sizeof d CPtr = pointer_size d"
| "sizeof d (CArray t n) = n * sizeof d t"
| "sizeof d (CStruct ms) = round_up (struct_end d 0 ms) (alignof_members d ms)"
| "sizeof d (CUnion ms) = round_up (union_size d ms) (alignof_members d ms)"
| "sizeof d (CBits n fs) = n"
| "struct_end d off [] = off"
| "struct_end d off ((f, t) # ms) = struct_end d (round_up off (alignof d t) + sizeof d t) ms"
| "union_size d [] = 0"
| "union_size d ((f, t) # ms) = max (sizeof d t) (union_size d ms)"

text \<open>Does a member of this name and type hold the field \<open>f\<close>?\<close>

fun holds :: "string \<Rightarrow> string \<times> ctype \<Rightarrow> bool" where
  "holds f (g, CBits n fs) \<longleftrightarrow> f \<in> fst ` set fs"
| "holds f (g, t) \<longleftrightarrow> f = g"

text \<open>Offset and type of the member a path of field names leads to.\<close>

fun locate :: "data_model \<Rightarrow> ctype \<Rightarrow> string list \<Rightarrow> (nat \<times> ctype) option"
  and locate_struct :: "data_model \<Rightarrow> nat \<Rightarrow> (string \<times> ctype) list \<Rightarrow> string \<Rightarrow> string list \<Rightarrow>
    (nat \<times> ctype) option"
  and locate_union :: "data_model \<Rightarrow> (string \<times> ctype) list \<Rightarrow> string \<Rightarrow> string list \<Rightarrow>
    (nat \<times> ctype) option" where
  "locate d t [] = Some (0, t)"
| "locate d (CStruct ms) (f # path) = locate_struct d 0 ms f path"
| "locate d (CUnion ms) (f # path) = locate_union d ms f path"
| "locate d _ (f # path) = None"
| "locate_struct d off [] f path = None"
| "locate_struct d off ((g, t) # ms) f path =
     (let at = round_up off (alignof d t) in
      if holds f (g, t) then map_option (\<lambda>(k, u). (at + k, u)) (locate d t path)
      else locate_struct d (at + sizeof d t) ms f path)"
| "locate_union d [] f path = None"
| "locate_union d ((g, t) # ms) f path =
     (if holds f (g, t) then locate d t path else locate_union d ms f path)"

text \<open>The bits of a bit-field in its unit: the number of the lowest bit and the width.\<close>

fun bits_below :: "string \<Rightarrow> (string \<times> nat) list \<Rightarrow> (nat \<times> nat) option" where
  "bits_below f [] = None"
| "bits_below f ((g, w) # fs) =
     (if f = g then Some (0, w) else map_option (\<lambda>(k, v). (w + k, v)) (bits_below f fs))"

fun bit_field :: "byte_order \<Rightarrow> ctype \<Rightarrow> string \<Rightarrow> (nat \<times> nat) option" where
  "bit_field LittleEndian (CBits n fs) f = bits_below f fs"
| "bit_field BigEndian (CBits n fs) f = map_option (\<lambda>(k, w). (8 * n - k - w, w)) (bits_below f fs)"
| "bit_field _ _ f = None"

section \<open>Every member lies inside its structure\<close>

lemma round_up_ge: "0 < a \<Longrightarrow> n \<le> round_up n a"
proof -
  assume a: "0 < a"
  have "n + a - 1 = (n + a - 1) div a * a + (n + a - 1) mod a" by simp
  moreover have "(n + a - 1) mod a < a" using a by simp
  ultimately show ?thesis unfolding round_up_def by linarith
qed

text \<open>Types with positive alignments.\<close>

fun proper :: "ctype \<Rightarrow> bool" and proper_members :: "(string \<times> ctype) list \<Rightarrow> bool" where
  "proper (CInt n) \<longleftrightarrow> 0 < n"
| "proper CLong \<longleftrightarrow> True"
| "proper CPtr \<longleftrightarrow> True"
| "proper (CArray t n) \<longleftrightarrow> proper t"
| "proper (CStruct ms) \<longleftrightarrow> proper_members ms"
| "proper (CUnion ms) \<longleftrightarrow> proper_members ms"
| "proper (CBits n fs) \<longleftrightarrow> 0 < n"
| "proper_members [] \<longleftrightarrow> True"
| "proper_members ((f, t) # ms) \<longleftrightarrow> proper t \<and> proper_members ms"

lemma alignof_pos:
  "proper t \<Longrightarrow> 0 < alignof d t"
  "proper_members ms \<Longrightarrow> 0 < alignof_members d ms"
  by (induction t and ms rule: proper_proper_members.induct) (cases d; auto)+

lemma struct_end_ge: "proper_members ms \<Longrightarrow> off \<le> struct_end d off ms"
proof (induction ms arbitrary: off)
  case (Cons m ms)
  obtain f t where m: "m = (f, t)" by (cases m)
  have "off \<le> round_up off (alignof d t) + sizeof d t"
    using Cons.prems m round_up_ge [OF alignof_pos(1) [of t d], of off] by simp
  also have "\<dots> \<le> struct_end d (round_up off (alignof d t) + sizeof d t) ms"
    using Cons.prems m by (intro Cons.IH) simp
  finally show ?case by (simp add: m)
qed simp

lemma locate_within:
  "proper t \<Longrightarrow> locate d t path = Some (k, u) \<Longrightarrow> k + sizeof d u \<le> sizeof d t"
  "proper_members ms \<Longrightarrow> locate_struct d off ms f path = Some (k, u) \<Longrightarrow>
     off \<le> k \<and> k + sizeof d u \<le> struct_end d off ms"
  "proper_members ms' \<Longrightarrow> locate_union d ms' f' path' = Some (k, u) \<Longrightarrow>
     k + sizeof d u \<le> union_size d ms'"
proof (induction d t path and d off ms f path and d ms' f' path' arbitrary: k u and k u and k u
    rule: locate_locate_struct_locate_union.induct)
  case (2 d ms f path)
  then show ?case
    using round_up_ge [OF alignof_pos(2) [of ms d], of "struct_end d 0 ms"] by fastforce
next
  case (3 d ms f path)
  then show ?case
    using round_up_ge [OF alignof_pos(2) [of ms d], of "union_size d ms"] by fastforce
next
  case (6 d off g t ms f path)
  let ?at = "round_up off (alignof d t)"
  have at: "off \<le> ?at" using "6.prems"(1) alignof_pos(1) [of t d] by (intro round_up_ge) simp
  have rest: "?at + sizeof d t \<le> struct_end d (?at + sizeof d t) ms"
    using "6.prems"(1) by (intro struct_end_ge) simp
  show ?case
  proof (cases "holds f (g, t)")
    case True
    then obtain k' where k': "locate d t path = Some (k', u)" "k = ?at + k'"
      using "6.prems"(2) by (auto simp: Let_def)
    have "k' + sizeof d u \<le> sizeof d t" using "6.IH"(1) [OF refl True _ k'(1)] "6.prems"(1) by simp
    then show ?thesis using at rest k'(2) by simp
  next
    case False
    then have "?at + sizeof d t \<le> k \<and> k + sizeof d u \<le> struct_end d (?at + sizeof d t) ms"
      using "6.IH"(2) [OF refl False] "6.prems" by (simp add: Let_def)
    then show ?thesis using at by simp
  qed
next
  case (8 d g t ms f path)
  then show ?case by (auto split: if_splits intro: max.coboundedI1 max.coboundedI2)
qed simp_all

end
