(* ===== verification/HeaderStructs.thy ===== *)
theory HeaderStructs
  imports Layout
begin

text \<open>
  The structure declarations of the headers, field by field, and the macros that name a field
  inside a union. Types that the headers take from elsewhere are parameters: \<open>struct sockaddr\<close>
  and the constant \<open>TCPT_NTIMERS\<close>.
\<close>

abbreviation "u_char \<equiv> CInt 1"
abbreviation "u_short \<equiv> CInt 2"
abbreviation "u_int \<equiv> CInt 4"

section \<open>Types of the network\<close>

text \<open>\<open>IN_SYSTM.H\<close>: \<open>n_short\<close>, \<open>n_long\<close> and \<open>n_time\<close>\<close>

definition n_short :: ctype where "n_short = u_short"
definition n_long :: ctype where "n_long = u_int"
definition n_time :: ctype where "n_time = u_int"

definition tcp_seq :: ctype where "tcp_seq = u_int"

text \<open>\<open>struct in_addr\<close> of the C library, and \<open>struct in6_addr\<close> as \<open>ip6_misc.h\<close> declares it\<close>

definition struct_in_addr :: ctype where
  "struct_in_addr = CStruct [(''s_addr'', u_int)]"

definition struct_in6_addr :: ctype where
  "struct_in6_addr = CStruct [(''in6_u'', CUnion
     [(''u6_addr8'', CArray u_char 16), (''u6_addr16'', CArray u_short 8), (''u6_addr32'', CArray u_int 4)])]"

section \<open>Ethernet and ARP\<close>

definition struct_ether_header :: ctype where    \<comment> \<open>\<open>Jpcap_ether.h\<close>\<close>
  "struct_ether_header = CStruct
     [(''ether_dest'', CArray u_char 6), (''ether_src'', CArray u_char 6), (''ether_type'', u_short)]"

definition struct_ether_addr :: ctype where
  "struct_ether_addr = CStruct [(''ether_addr_octet'', CArray u_char 6)]"

definition struct_ether_header_bsd :: ctype where    \<comment> \<open>\<open>IF_ETHER.H\<close>\<close>
  "struct_ether_header_bsd = CStruct
     [(''ether_dhost'', CArray u_char 6), (''ether_shost'', CArray u_char 6), (''ether_type'', u_short)]"

definition struct_arphdr :: ctype where
  "struct_arphdr = CStruct
     [(''ar_hrd'', u_short), (''ar_pro'', u_short), (''ar_hln'', u_char), (''ar_pln'', u_char),
      (''ar_op'', u_short)]"

definition struct_arpreq :: "ctype \<Rightarrow> ctype" where
  "struct_arpreq sockaddr = CStruct
     [(''arp_pa'', sockaddr), (''arp_ha'', sockaddr), (''arp_flags'', u_int)]"

definition struct_ether_arp :: ctype where
  "struct_ether_arp = CStruct
     [(''ea_hdr'', struct_arphdr), (''arp_sha'', CArray u_char 6), (''arp_spa'', CArray u_char 4),
      (''arp_tha'', CArray u_char 6), (''arp_tpa'', CArray u_char 4)]"

definition arp_macros :: "(string \<times> string list) list" where
  "arp_macros =
     [(''arp_hrd'', [''ea_hdr'', ''ar_hrd'']), (''arp_pro'', [''ea_hdr'', ''ar_pro'']),
      (''arp_hln'', [''ea_hdr'', ''ar_hln'']), (''arp_pln'', [''ea_hdr'', ''ar_pln'']),
      (''arp_op'', [''ea_hdr'', ''ar_op''])]"

section \<open>IPv4\<close>

definition ip_hl_v :: "byte_order \<Rightarrow> ctype" where
  "ip_hl_v order = CBits 1 (case order of
     LittleEndian \<Rightarrow> [(''ip_hl'', 4), (''ip_v'', 4)] | BigEndian \<Rightarrow> [(''ip_v'', 4), (''ip_hl'', 4)])"

definition struct_ip :: "byte_order \<Rightarrow> ctype" where
  "struct_ip order = CStruct
     [(''ip_hl_v'', ip_hl_v order), (''ip_tos'', u_char), (''ip_len'', u_short), (''ip_id'', u_short),
      (''ip_off'', u_short), (''ip_ttl'', u_char), (''ip_p'', u_char), (''ip_sum'', u_short),
      (''ip_src'', struct_in_addr), (''ip_dst'', struct_in_addr)]"

definition ipt_flg_oflw :: "byte_order \<Rightarrow> ctype" where
  "ipt_flg_oflw order = CBits 1 (case order of
     LittleEndian \<Rightarrow> [(''ipt_flg'', 4), (''ipt_oflw'', 4)] | BigEndian \<Rightarrow> [(''ipt_oflw'', 4), (''ipt_flg'', 4)])"

definition struct_ip_timestamp :: "byte_order \<Rightarrow> ctype" where
  "struct_ip_timestamp order = CStruct
     [(''ipt_code'', u_char), (''ipt_len'', u_char), (''ipt_ptr'', u_char),
      (''ipt_flg_oflw'', ipt_flg_oflw order),
      (''ipt_timestamp'', CUnion
        [(''ipt_time'', CArray n_long 1),
         (''ipt_ta'', CArray (CStruct [(''ipt_addr'', struct_in_addr), (''ipt_time'', n_long)]) 1)])]"

definition struct_ipovly :: ctype where
  "struct_ipovly = CStruct
     [(''ih_next'', CPtr), (''ih_prev'', CPtr), (''ih_x1'', u_char), (''ih_pr'', u_char),
      (''ih_len'', u_short), (''ih_src'', struct_in_addr), (''ih_dst'', struct_in_addr)]"

definition struct_ipq :: ctype where
  "struct_ipq = CStruct
     [(''next'', CPtr), (''prev'', CPtr), (''ipq_ttl'', u_char), (''ipq_p'', u_char),
      (''ipq_id'', u_short), (''ipq_next'', CPtr), (''ipq_prev'', CPtr), (''ipq_src'', struct_in_addr),
      (''ipq_dst'', struct_in_addr)]"

definition struct_ipasfrag :: "byte_order \<Rightarrow> ctype" where
  "struct_ipasfrag order = CStruct
     [(''ip_hl_v'', ip_hl_v order), (''ipf_mff'', u_char), (''ip_len'', u_short), (''ip_id'', u_short),
      (''ip_off'', u_short), (''ip_ttl'', u_char), (''ip_p'', u_char), (''ip_sum'', u_short),
      (''ipf_next'', CPtr), (''ipf_prev'', CPtr)]"

definition MAX_IPOPTLEN :: nat where "MAX_IPOPTLEN = 40"

definition struct_ipoption :: ctype where
  "struct_ipoption = CStruct
     [(''ipopt_dst'', struct_in_addr), (''ipopt_list'', CArray u_char MAX_IPOPTLEN)]"

definition struct_ipstat :: ctype where
  "struct_ipstat = CStruct (map (\<lambda>f. (f, n_long))
     [''ips_total'', ''ips_badsum'', ''ips_tooshort'', ''ips_toosmall'', ''ips_badhlen'', ''ips_badlen'',
      ''ips_fragments'', ''ips_fragdropped'', ''ips_fragtimeout'', ''ips_forward'', ''ips_cantforward'',
      ''ips_redirectsent'', ''ips_noproto'', ''ips_delivered'', ''ips_localout'', ''ips_odropped'',
      ''ips_reassembled'', ''ips_fragmented'', ''ips_ofragments'', ''ips_cantfrag'', ''ips_badoptions'',
      ''ips_noroute'', ''ips_badvers'', ''ips_rawout''])"

section \<open>ICMP\<close>

definition struct_icmp :: "byte_order \<Rightarrow> ctype" where
  "struct_icmp order = CStruct
     [(''icmp_type'', u_char), (''icmp_code'', u_char), (''icmp_cksum'', u_short),
      (''icmp_hun'', CUnion
        [(''ih_pptr'', u_char), (''ih_gwaddr'', struct_in_addr),
         (''ih_idseq'', CStruct [(''icd_id'', n_short), (''icd_seq'', n_short)]), (''ih_void'', u_int),
         (''ih_pmtu'', CStruct [(''ipm_void'', n_short), (''ipm_nextmtu'', n_short)])]),
      (''icmp_dun'', CUnion
        [(''id_ts'', CStruct [(''its_otime'', n_time), (''its_rtime'', n_time), (''its_ttime'', n_time)]),
         (''id_ip'', CStruct [(''idi_ip'', struct_ip order)]), (''id_mask'', u_int),
         (''id_data'', CArray u_char 1)])]"

definition icmp_macros :: "(string \<times> string list) list" where
  "icmp_macros =
     [(''icmp_pptr'', [''icmp_hun'', ''ih_pptr'']), (''icmp_gwaddr'', [''icmp_hun'', ''ih_gwaddr'']),
      (''icmp_id'', [''icmp_hun'', ''ih_idseq'', ''icd_id'']),
      (''icmp_seq'', [''icmp_hun'', ''ih_idseq'', ''icd_seq'']), (''icmp_void'', [''icmp_hun'', ''ih_void'']),
      (''icmp_pmvoid'', [''icmp_hun'', ''ih_pmtu'', ''ipm_void'']),
      (''icmp_nextmtu'', [''icmp_hun'', ''ih_pmtu'', ''ipm_nextmtu'']),
      (''icmp_otime'', [''icmp_dun'', ''id_ts'', ''its_otime'']),
      (''icmp_rtime'', [''icmp_dun'', ''id_ts'', ''its_rtime'']),
      (''icmp_ttime'', [''icmp_dun'', ''id_ts'', ''its_ttime'']),
      (''icmp_ip'', [''icmp_dun'', ''id_ip'', ''idi_ip'']), (''icmp_mask'', [''icmp_dun'', ''id_mask'']),
      (''icmp_data'', [''icmp_dun'', ''id_data''])]"

section \<open>TCP and UDP\<close>

definition struct_tcphdr :: "byte_order \<Rightarrow> ctype" where
  "struct_tcphdr order = CStruct
     [(''th_sport'', u_short), (''th_dport'', u_short), (''th_seq'', tcp_seq), (''th_ack'', tcp_seq),
      (''th_x2_off'', CBits 1 (case order of
         LittleEndian \<Rightarrow> [(''th_x2'', 4), (''th_off'', 4)] | BigEndian \<Rightarrow> [(''th_off'', 4), (''th_x2'', 4)])),
      (''th_flags'', u_char), (''th_win'', u_short), (''th_sum'', u_short), (''th_urp'', u_short)]"

definition struct_udphdr :: ctype where
  "struct_udphdr = CStruct
     [(''uh_sport'', u_short), (''uh_dport'', u_short), (''uh_ulen'', u_short), (''uh_sum'', u_short)]"

definition struct_tcpiphdr :: "byte_order \<Rightarrow> ctype" where
  "struct_tcpiphdr order = CStruct [(''ti_i'', struct_ipovly), (''ti_t'', struct_tcphdr order)]"

definition tcpip_macros :: "(string \<times> string list) list" where
  "tcpip_macros =
     [(''ti_next'', [''ti_i'', ''ih_next'']), (''ti_prev'', [''ti_i'', ''ih_prev'']),
      (''ti_x1'', [''ti_i'', ''ih_x1'']), (''ti_pr'', [''ti_i'', ''ih_pr'']), (''ti_len'', [''ti_i'', ''ih_len'']),
      (''ti_src'', [''ti_i'', ''ih_src'']), (''ti_dst'', [''ti_i'', ''ih_dst'']),
      (''ti_sport'', [''ti_t'', ''th_sport'']), (''ti_dport'', [''ti_t'', ''th_dport'']),
      (''ti_seq'', [''ti_t'', ''th_seq'']), (''ti_ack'', [''ti_t'', ''th_ack'']), (''ti_x2'', [''ti_t'', ''th_x2'']),
      (''ti_off'', [''ti_t'', ''th_off'']), (''ti_flags'', [''ti_t'', ''th_flags'']), (''ti_win'', [''ti_t'', ''th_win'']),
      (''ti_sum'', [''ti_t'', ''th_sum'']), (''ti_urp'', [''ti_t'', ''th_urp''])]"

definition struct_udpiphdr :: ctype where
  "struct_udpiphdr = CStruct [(''ui_i'', struct_ipovly), (''ui_u'', struct_udphdr)]"

definition udpip_macros :: "(string \<times> string list) list" where
  "udpip_macros =
     [(''ui_next'', [''ui_i'', ''ih_next'']), (''ui_prev'', [''ui_i'', ''ih_prev'']),
      (''ui_x1'', [''ui_i'', ''ih_x1'']), (''ui_pr'', [''ui_i'', ''ih_pr'']), (''ui_len'', [''ui_i'', ''ih_len'']),
      (''ui_src'', [''ui_i'', ''ih_src'']), (''ui_dst'', [''ui_i'', ''ih_dst'']),
      (''ui_sport'', [''ui_u'', ''uh_sport'']), (''ui_dport'', [''ui_u'', ''uh_dport'']),
      (''ui_ulen'', [''ui_u'', ''uh_ulen'']), (''ui_sum'', [''ui_u'', ''uh_sum''])]"

definition struct_udpstat :: ctype where
  "struct_udpstat = CStruct (map (\<lambda>f. (f, n_long))
     [''udps_ipackets'', ''udps_hdrops'', ''udps_badsum'', ''udps_badlen'', ''udps_noport'',
      ''udps_noportbcast'', ''udps_fullsock'', ''udpps_pcbcachemiss'', ''udps_opackets''])"

definition struct_tcpstat :: ctype where
  "struct_tcpstat = CStruct (map (\<lambda>f. (f, n_long))
     [''tcps_connattempt'', ''tcps_accepts'', ''tcps_connects'', ''tcps_drops'', ''tcps_conndrops'',
      ''tcps_closed'', ''tcps_segstimed'', ''tcps_rttupdated'', ''tcps_delack'',
      ''tcps_timeoutdrop'', ''tcps_rexmttimeo'', ''tcps_persisttimeo'', ''tcps_keeptimeo'',
      ''tcps_keepprobe'', ''tcps_keepdrops'', ''tcps_sndtotal'', ''tcps_sndpack'', ''tcps_sndbyte'',
      ''tcps_sndrexmitpack'', ''tcps_sndrexmitbyte'', ''tcps_sndacks'', ''tcps_sndprobe'',
      ''tcps_sndurg'', ''tcps_sndwinup'', ''tcps_sndctrl'', ''tcps_rcvtotal'', ''tcps_rcvpack'',
      ''tcps_rcvbyte'', ''tcps_rcvbadsum'', ''tcps_rcvbadoff'', ''tcps_rcvshort'',
      ''tcps_rcvduppack'', ''tcps_rcvdupbyte'', ''tcps_rcvpartduppack'', ''tcps_rcvpartdupbyte'',
      ''tcps_rcvoopack'', ''tcps_rcvoobyte'', ''tcps_rcvpackafterwin'', ''tcps_rcvbyteafterwin'',
      ''tcps_rcvafterclose'', ''tcps_rcvwinprobe'', ''tcps_rcvdupack'', ''tcps_rcvacktoomuch'',
      ''tcps_rcvackpack'', ''tcps_rcvackbyte'', ''tcps_rcvwinupd'', ''tcps_pawsdrop'',
      ''tcps_predack'', ''tcps_preddat'', ''tcps_pcbcachemiss'', ''tcps_persistdrop'',
      ''tcps_badsyn''])"

definition struct_tcpcb :: "nat \<Rightarrow> ctype" where
  "struct_tcpcb TCPT_NTIMERS = CStruct
     [(''seg_next'', CPtr), (''seg_prev'', CPtr), (''t_state'', u_short),
      (''t_timer'', CArray u_short TCPT_NTIMERS), (''t_rxtshift'', u_short),
      (''t_rxtcur'', u_short), (''t_dupacks'', u_short), (''t_maxseg'', u_short),
      (''t_force'', u_char), (''t_flags'', u_short), (''t_template'', CPtr), (''t_inpcb'', CPtr),
      (''snd_una'', tcp_seq), (''snd_nxt'', tcp_seq), (''snd_up'', tcp_seq), (''snd_wl1'', tcp_seq),
      (''snd_wl2'', tcp_seq), (''iss'', tcp_seq), (''snd_wnd'', n_long), (''rcv_wnd'', n_long),
      (''rcv_nxt'', tcp_seq), (''rcv_up'', tcp_seq), (''irs'', tcp_seq), (''rcv_adv'', tcp_seq),
      (''snd_max'', tcp_seq), (''snd_cwnd'', n_long), (''snd_ssthresh'', n_long),
      (''t_idle'', u_short), (''t_rtt'', u_short), (''t_rtseq'', tcp_seq), (''t_srtt'', u_short),
      (''t_rttvar'', u_short), (''t_rttmin'', u_short), (''max_sndwnd'', n_long),
      (''t_oobflags'', u_char), (''t_iobc'', u_char), (''t_softerror'', u_short),
      (''snd_scale'', u_char), (''rcv_scale'', u_char), (''request_r_scale'', u_char),
      (''requested_s_scale'', u_char), (''ts_recent'', n_long), (''ts_recent_age'', n_long),
      (''last_ack_sent'', tcp_seq), (''t_tuba_pcb'', CPtr)]"

section \<open>IPv6\<close>

definition struct_ip6_hdr :: ctype where
  "struct_ip6_hdr = CStruct
     [(''ip6_ctlun'', CUnion
        [(''ip6_un1'', CStruct
           [(''ip6_un1_flow'', u_int), (''ip6_un1_plen'', u_short), (''ip6_un1_nxt'', u_char),
            (''ip6_un1_hlim'', u_char)]),
         (''ip6_un2_vfc'', u_char)]),
      (''ip6_src'', struct_in6_addr), (''ip6_dst'', struct_in6_addr)]"

definition ip6_macros :: "(string \<times> string list) list" where
  "ip6_macros =
     [(''ip6_vfc'', [''ip6_ctlun'', ''ip6_un2_vfc'']),
      (''ip6_flow'', [''ip6_ctlun'', ''ip6_un1'', ''ip6_un1_flow'']),
      (''ip6_plen'', [''ip6_ctlun'', ''ip6_un1'', ''ip6_un1_plen'']),
      (''ip6_nxt'', [''ip6_ctlun'', ''ip6_un1'', ''ip6_un1_nxt'']),
      (''ip6_hlim'', [''ip6_ctlun'', ''ip6_un1'', ''ip6_un1_hlim'']),
      (''ip6_hops'', [''ip6_ctlun'', ''ip6_un1'', ''ip6_un1_hlim''])]"

definition struct_ip6_ext :: ctype where
  "struct_ip6_ext = CStruct [(''ip6e_nxt'', u_char), (''ip6e_len'', u_char)]"

definition struct_ip6_hbh :: ctype where
  "struct_ip6_hbh = CStruct [(''ip6h_nxt'', u_char), (''ip6h_len'', u_char)]"

definition struct_ip6_dest :: ctype where
  "struct_ip6_dest = CStruct [(''ip6d_nxt'', u_char), (''ip6d_len'', u_char)]"

definition struct_ip6_rthdr :: ctype where
  "struct_ip6_rthdr = CStruct
     [(''ip6r_nxt'', u_char), (''ip6r_len'', u_char), (''ip6r_type'', u_char), (''ip6r_segleft'', u_char)]"

definition struct_ip6_rthdr0 :: ctype where
  "struct_ip6_rthdr0 = CStruct
     [(''ip6r0_nxt'', u_char), (''ip6r0_len'', u_char), (''ip6r0_type'', u_char),
      (''ip6r0_segleft'', u_char), (''ip6r0_reserved'', u_char), (''ip6r0_slmap'', CArray u_char 3),
      (''ip6r0_addr'', CArray struct_in6_addr 1)]"

definition struct_ip6_frag :: ctype where
  "struct_ip6_frag = CStruct
     [(''ip6f_nxt'', u_char), (''ip6f_reserved'', u_char), (''ip6f_offlg'', u_short), (''ip6f_ident'', u_int)]"

text \<open>\<open>struct ah\<close> and \<open>struct newah\<close> of \<open>packet_ipv6.c\<close>\<close>

definition struct_ah :: ctype where
  "struct_ah = CStruct
     [(''ah_nxt'', u_char), (''ah_len'', u_char), (''ah_reserve'', u_short), (''ah_spi'', u_int)]"

definition struct_newah :: ctype where
  "struct_newah = CStruct
     [(''ah_nxt'', u_char), (''ah_len'', u_char), (''ah_reserve'', u_short), (''ah_spi'', u_int),
      (''ah_seq'', u_int)]"

section \<open>The capture library\<close>

definition struct_timeval :: ctype where
  "struct_timeval = CStruct [(''tv_sec'', CLong), (''tv_usec'', CLong)]"

definition struct_pcap_file_header :: ctype where
  "struct_pcap_file_header = CStruct
     [(''magic'', u_int), (''version_major'', u_short), (''version_minor'', u_short),
      (''thiszone'', u_int), (''sigfigs'', u_int), (''snaplen'', u_int), (''linktype'', u_int)]"

definition struct_pcap_pkthdr :: ctype where
  "struct_pcap_pkthdr = CStruct [(''ts'', struct_timeval), (''caplen'', u_int), (''len'', u_int)]"

definition struct_pcap_stat :: "bool \<Rightarrow> ctype" where
  "struct_pcap_stat HAVE_REMOTE = CStruct
     ([(''ps_recv'', u_int), (''ps_drop'', u_int), (''ps_ifdrop'', u_int)] @
      (if HAVE_REMOTE then [(''ps_capt'', u_int), (''ps_sent'', u_int), (''ps_netdrop'', u_int)] else []))"

definition struct_pcap_if :: ctype where
  "struct_pcap_if = CStruct
     [(''next'', CPtr), (''name'', CPtr), (''description'', CPtr), (''addresses'', CPtr), (''flags'', u_int)]"

definition struct_pcap_addr :: ctype where
  "struct_pcap_addr = CStruct
     [(''next'', CPtr), (''addr'', CPtr), (''netmask'', CPtr), (''broadaddr'', CPtr), (''dstaddr'', CPtr)]"

end
