(* ===== verification/HeaderTables.thy ===== *)
theory HeaderTables
  imports Headers
begin

text \<open>
  The constants of the headers as tables of names and values, and the macros that compute. A name
  that several headers define has one entry in each of their tables.
\<close>

type_synonym constants = "(string \<times> nat) list"

section \<open>Ethernet and ARP\<close>

definition jpcap_ethertypes :: constants where    \<comment> \<open>\<open>Jpcap_ether.h\<close>\<close>
  "jpcap_ethertypes =
     [(''ETHERTYPE_PUP'', 0x0200), (''ETHERTYPE_IP'', 0x0800), (''ETHERTYPE_ARP'', 0x0806),
      (''ETHERTYPE_REVARP'', 0x8035), (''ETHERTYPE_VLAN'', 0x8100), (''ETHERTYPE_IPV6'', 0x86dd),
      (''ETHERTYPE_LOOPBACK'', 0x9000)]"

definition bsd_ethertypes :: constants where    \<comment> \<open>\<open>IF_ETHER.H\<close>\<close>
  "bsd_ethertypes =
     [(''ETHERTYPE_PUP'', 0x0200), (''ETHERTYPE_IP'', 0x0800), (''ETHERTYPE_ARP'', 0x0806),
      (''ETHERTYPE_REVARP'', 0x8035)]"

definition ether_limits :: constants where
  "ether_limits =
     [(''ETHERTYPE_TRAIL'', 0x1000), (''ETHERTYPE_NTRAILER'', 16), (''ETHERMTU'', 1500),
      (''ETHERMIN'', 60 - 14)]"

definition arp_constants :: constants where
  "arp_constants =
     [(''ARPHRD_ETHER'', 1), (''ARPHRD_IEEE802'', 6), (''ARPHRD_FRELAY'', 15),
      (''ARPOP_REQUEST'', 1), (''ARPOP_REPLY'', 2), (''ARPOP_REVREQUEST'', 3), (''ARPOP_REVREPLY'', 4),
      (''ARPOP_INVREQUEST'', 8), (''ARPOP_INVREPLY'', 9)]"

definition atf_flags :: constants where
  "atf_flags =
     [(''ATF_INUSE'', 0x01), (''ATF_COM'', 0x02), (''ATF_PERM'', 0x04), (''ATF_PUBL'', 0x08),
      (''ATF_USETRAILERS'', 0x10)]"

section \<open>IPv4\<close>

definition ip_tos_values :: constants where
  "ip_tos_values =
     [(''IPTOS_LOWDELAY'', 0x10), (''IPTOS_THROUGHPUT'', 0x08), (''IPTOS_RELIABILITY'', 0x04),
      (''IPTOS_PREC_NETCONTROL'', 0xe0), (''IPTOS_PREC_INTERNETCONTROL'', 0xc0),
      (''IPTOS_PREC_CRITIC_ECP'', 0xa0), (''IPTOS_PREC_FLASHOVERRIDE'', 0x80), (''IPTOS_PREC_FLASH'', 0x60),
      (''IPTOS_PREC_IMMEDIATE'', 0x40), (''IPTOS_PREC_PRIORITY'', 0x20), (''IPTOS_PREC_ROUTINE'', 0x00)]"

definition IPOPT_COPIED :: "u8 \<Rightarrow> u8" where "IPOPT_COPIED opt = opt AND 0x80"
definition IPOPT_CLASS :: "u8 \<Rightarrow> u8" where "IPOPT_CLASS opt = opt AND 0x60"
definition IPOPT_NUMBER :: "u8 \<Rightarrow> u8" where "IPOPT_NUMBER opt = opt AND 0x1f"

definition ipopt_classes :: constants where
  "ipopt_classes =
     [(''IPOPT_CONTROL'', 0x00), (''IPOPT_RESERVED1'', 0x20), (''IPOPT_DEBMEAS'', 0x40),
      (''IPOPT_RESERVED2'', 0x60)]"

definition ipopt_values :: constants where
  "ipopt_values =
     [(''IPOPT_EOL'', 0), (''IPOPT_NOP'', 1), (''IPOPT_RR'', 7), (''IPOPT_TS'', 68),
      (''IPOPT_SECURITY'', 130), (''IPOPT_LSRR'', 131), (''IPOPT_SATID'', 136), (''IPOPT_SSRR'', 137)]"

definition ipopt_offsets :: constants where
  "ipopt_offsets =
     [(''IPOPT_OPTVAL'', 0), (''IPOPT_OLEN'', 1), (''IPOPT_OFFSET'', 2), (''IPOPT_MINOFF'', 4)]"

definition ipopt_flags :: constants where
  "ipopt_flags =
     [(''IPOPT_TS_TSONLY'', 0), (''IPOPT_TS_TSANDADDR'', 1), (''IPOPT_TS_PRESPEC'', 3),
      (''IPOPT_SECUR_UNCLASS'', 0x0000), (''IPOPT_SECUR_CONFID'', 0xf135), (''IPOPT_SECUR_EFTO'', 0x789a),
      (''IPOPT_SECUR_MMMM'', 0xbc4d), (''IPOPT_SECUR_RESTR'', 0xaf13), (''IPOPT_SECUR_SECRET'', 0xd788),
      (''IPOPT_SECUR_TOPSECRET'', 0x6bc5)]"

definition ip_limits :: constants where
  "ip_limits =
     [(''MAXTTL'', 255), (''IPDEFTTL'', 64), (''IPFRAGTTL'', 60), (''IPTTLDEC'', 1), (''IP_MSS'', 576)]"

definition IP_MAXPACKET :: nat where "IP_MAXPACKET = 65535"

section \<open>ICMP\<close>

definition ICMP_MINLEN :: int where "ICMP_MINLEN = 8"
definition ICMP_TSLEN :: int where "ICMP_TSLEN = 8 + 3 * 4"
definition ICMP_MASKLEN :: int where "ICMP_MASKLEN = 12"
definition ICMP_ADVLENMIN :: int where "ICMP_ADVLENMIN = 8 + sizeof_ip + 8"

text \<open>\<open>ICMP_ADVLEN(p)\<close>, on the \<open>ip_hl\<close> of the returned header\<close>

definition ICMP_ADVLEN :: "u8 \<Rightarrow> int" where
  "ICMP_ADVLEN ip_hl = 8 + push_bit 2 (uint ip_hl) + 8"

definition icmp_types :: constants where
  "icmp_types =
     [(''ICMP_ECHOREPLY'', 0), (''ICMP_UNREACH'', 3), (''ICMP_SOURCEQUENCH'', 4), (''ICMP_REDIRECT'', 5),
      (''ICMP_ECHO'', 8), (''ICMP_ROUTERADVERT'', 9), (''ICMP_ROUTERSOLICIT'', 10), (''ICMP_TIMXCEED'', 11),
      (''ICMP_PARAMPROB'', 12), (''ICMP_TSTAMP'', 13), (''ICMP_TSTAMPREPLY'', 14), (''ICMP_IREQ'', 15),
      (''ICMP_IREQREPLY'', 16), (''ICMP_MASKREQ'', 17), (''ICMP_MASKREPLY'', 18)]"

definition ICMP_MAXTYPE :: nat where "ICMP_MAXTYPE = 18"

definition icmp_codes :: constants where
  "icmp_codes =
     [(''ICMP_UNREACH_NET'', 0), (''ICMP_UNREACH_HOST'', 1), (''ICMP_UNREACH_PROTOCOL'', 2),
      (''ICMP_UNREACH_PORT'', 3), (''ICMP_UNREACH_NEEDFRAG'', 4), (''ICMP_UNREACH_SRCFAIL'', 5),
      (''ICMP_UNREACH_NET_UNKNOWN'', 6), (''ICMP_UNREACH_HOST_UNKNOWN'', 7), (''ICMP_UNREACH_ISOLATED'', 8),
      (''ICMP_UNREACH_NET_PROHIB'', 9), (''ICMP_UNREACH_HOST_PROHIB'', 10), (''ICMP_UNREACH_TOSNET'', 11),
      (''ICMP_UNREACH_TOSHOST'', 12), (''ICMP_REDIRECT_NET'', 0), (''ICMP_REDIRECT_HOST'', 1),
      (''ICMP_REDIRECT_TOSNET'', 2), (''ICMP_REDIRECT_TOSHOST'', 3), (''ICMP_TIMXCEED_INTRANS'', 0),
      (''ICMP_TIMXCEED_REASS'', 1), (''ICMP_PARAMPROB_OPTABSENT'', 1)]"

definition ICMP_INFOTYPE :: "nat \<Rightarrow> bool" where
  "ICMP_INFOTYPE type \<longleftrightarrow>
     (let is = (\<lambda>name. map_of icmp_types name = Some type) in
      is ''ICMP_ECHOREPLY'' \<or> is ''ICMP_ECHO'' \<or> is ''ICMP_ROUTERADVERT'' \<or> is ''ICMP_ROUTERSOLICIT'' \<or>
      is ''ICMP_TSTAMP'' \<or> is ''ICMP_TSTAMPREPLY'' \<or> is ''ICMP_IREQ'' \<or> is ''ICMP_IREQREPLY'' \<or>
      is ''ICMP_MASKREQ'' \<or> is ''ICMP_MASKREPLY'')"

section \<open>TCP and UDP\<close>

definition th_flags_values :: constants where
  "th_flags_values =
     [(''TH_FIN'', 0x01), (''TH_SYN'', 0x02), (''TH_RST'', 0x04), (''TH_PUSH'', 0x08), (''TH_ACK'', 0x10),
      (''TH_URG'', 0x20)]"

definition tcpopt_values :: constants where
  "tcpopt_values =
     [(''TCPOPT_EOL'', 0), (''TCPOPT_NOP'', 1), (''TCPOPT_MAXSEG'', 2), (''TCPOLEN_MAXSEG'', 4),
      (''TCPOPT_WINDOW'', 3), (''TCPOLEN_WINDOW'', 3), (''TCPOPT_SACK_PERMITTED'', 4),
      (''TCPOLEN_SACK_PERMITTED'', 2), (''TCPOPT_SACK'', 5), (''TCPOPT_TIMESTAMP'', 8),
      (''TCPOLEN_TIMESTAMP'', 10), (''TCPOLEN_TSTAMP_APPA'', 10 + 2)]"

text \<open>\<open>TCPOPT_NOP<<24|TCPOPT_NOP<<16|TCPOPT_TIMESTAMP<<8|TCPOLEN_TIMESTAMP\<close>\<close>

definition TCPOPT_TSTAMP_HDR :: u32 where
  "TCPOPT_TSTAMP_HDR =
     (let v = (\<lambda>name. case map_of tcpopt_values name of Some n \<Rightarrow> of_nat n | None \<Rightarrow> 0) in
      push_bit 24 (v ''TCPOPT_NOP'') OR push_bit 16 (v ''TCPOPT_NOP'') OR
      push_bit 8 (v ''TCPOPT_TIMESTAMP'') OR v ''TCPOLEN_TIMESTAMP'')"

definition tcp_limits :: constants where
  "tcp_limits =
     [(''TCP_MSS'', 512), (''TCP_MAXWIN'', 65535), (''TCP_MAX_WINSHIFT'', 14), (''TCP_NODELAY'', 0x01),
      (''TCP_MAXSEG'', 0x02)]"

definition tcpcb_flags :: constants where
  "tcpcb_flags =
     [(''TF_ACKNOW'', 0x0001), (''TF_DELACK'', 0x0002), (''TF_NODELAY'', 0x0004), (''TF_NOOPT'', 0x0008),
      (''TF_SENTFIN'', 0x0010), (''TF_REQ_SCALE'', 0x0020), (''TF_RCVD_SCALE'', 0x0040),
      (''TF_REQ_TSTMP'', 0x0080), (''TF_RCVD_TSTMP'', 0x0100), (''TF_SACK_PERMIT'', 0x0200)]"

definition tcp_rtt_constants :: constants where
  "tcp_rtt_constants =
     [(''TCP_RTT_SCALE'', 8), (''TCP_RTT_SHIFT'', 3), (''TCP_RTTVAR_SCALE'', 4), (''TCP_RTTVAR_SHIFT'', 2)]"

text \<open>\<open>TCP_REXMTVAL(tp)\<close>: \<open>t_srtt\<close> and \<open>t_rttvar\<close> are \<open>short\<close>, the sum is an \<open>int\<close>.\<close>

definition TCP_REXMTVAL :: "16 word \<Rightarrow> 16 word \<Rightarrow> int" where
  "TCP_REXMTVAL t_srtt t_rttvar = drop_bit 3 (sint t_srtt) + sint t_rttvar"

section \<open>IPv6\<close>

definition ip6_version :: constants where
  "ip6_version = [(''IPV6_VERSION'', 0x60), (''IPV6_VERSION_MASK'', 0xf0)]"

definition IPV6_FLOWINFO_MASK :: u32 where "IPV6_FLOWINFO_MASK = htonl 0x0fffffff"
definition IPV6_FLOWLABEL_MASK :: u32 where "IPV6_FLOWLABEL_MASK = htonl 0x000fffff"
definition IP6F_RESERVED_MASK :: u16 where "IP6F_RESERVED_MASK = htons 0x0006"

definition ip6opt_values :: constants where    \<comment> \<open>\<open>ip6.h\<close>\<close>
  "ip6opt_values =
     [(''IP6OPT_PAD1'', 0x00), (''IP6OPT_PADN'', 0x01), (''IP6OPT_JUMBO'', 0xC2), (''IP6OPT_JUMBO_LEN'', 6),
      (''IP6OPT_ROUTER_ALERT'', 0x05), (''IP6OPT_RTALERT_LEN'', 4), (''IP6OPT_RTALERT_MLD'', 0),
      (''IP6OPT_RTALERT_RSVP'', 1), (''IP6OPT_RTALERT_ACTNET'', 2), (''IP6OPT_MINLEN'', 2),
      (''IP6OPT_BINDING_UPDATE'', 0xc6), (''IP6OPT_BINDING_ACK'', 0x07), (''IP6OPT_BINDING_REQ'', 0x08),
      (''IP6OPT_HOME_ADDRESS'', 0xc9), (''IP6OPT_EID'', 0x8a), (''IP6OPT_TYPE_SKIP'', 0x00),
      (''IP6OPT_TYPE_DISCARD'', 0x40), (''IP6OPT_TYPE_FORCEICMP'', 0x80), (''IP6OPT_TYPE_ICMP'', 0xC0),
      (''IP6OPT_MUTABLE'', 0x20)]"

definition IP6OPT_TYPE :: "u8 \<Rightarrow> u8" where "IP6OPT_TYPE opt = opt AND 0xC0"

definition ip6_misc_options :: constants where    \<comment> \<open>\<open>ip6_misc.h\<close>\<close>
  "ip6_misc_options =
     [(''IP6OPT_PAD1'', 0x00), (''IP6OPT_PADN'', 0x01), (''IP6OPT_JUMBO'', 0xC2), (''IP6OPT_JUMBO_LEN'', 6),
      (''IP6OPT_ROUTER_ALERT'', 0x05), (''IP6OPT_RTALERT_LEN'', 4), (''IP6OPT_RTALERT_MLD'', 0),
      (''IP6OPT_RTALERT_RSVP'', 1), (''IP6OPT_RTALERT_ACTNET'', 2), (''IP6OPT_MINLEN'', 2),
      (''IP6OPT_BINDING_UPDATE'', 0xc6), (''IP6OPT_BINDING_ACK'', 0x07), (''IP6OPT_BINDING_REQ'', 0x08),
      (''IP6OPT_HOME_ADDRESS'', 0xc9), (''IP6OPT_EID'', 0x8a), (''IP6OPT_TYPE_SKIP'', 0x00),
      (''IP6OPT_TYPE_DISCARD'', 0x40), (''IP6OPT_TYPE_FORCEICMP'', 0x80), (''IP6OPT_TYPE_ICMP'', 0xC0),
      (''IP6OPT_MUTABLE'', 0x20)]"

text \<open>The protocol numbers: in \<open>JpcapCaptor.c\<close>, in \<open>packet_ipv6.c\<close> and in \<open>ip6_misc.h\<close>.\<close>

definition captor_ipproto :: constants where
  "captor_ipproto =
     [(''IPPROTO_HOPOPTS'', 0), (''IPPROTO_IPV6'', 41), (''IPPROTO_ROUTING'', 43), (''IPPROTO_FRAGMENT'', 44),
      (''IPPROTO_ESP'', 50), (''IPPROTO_AH'', 51), (''IPPROTO_ICMPV6'', 58), (''IPPROTO_NONE'', 59),
      (''IPPROTO_DSTOPTS'', 60)]"

definition packet_ipv6_ipproto :: constants where
  "packet_ipv6_ipproto =
     [(''IPPROTO_HOPOPTS'', 0), (''IPPROTO_IPV6'', 41), (''IPPROTO_ROUTING'', 43), (''IPPROTO_FRAGMENT'', 44),
      (''IPPROTO_ESP'', 50), (''IPPROTO_AH'', 51), (''IPPROTO_ICMPV6'', 58), (''IPPROTO_NONE'', 59),
      (''IPPROTO_DSTOPTS'', 60)]"

definition ip6_misc_ipproto :: constants where
  "ip6_misc_ipproto =
     [(''IPPROTO_HOPOPTS'', 0), (''IPPROTO_IPV6'', 41), (''IPPROTO_ROUTING'', 43), (''IPPROTO_FRAGMENT'', 44),
      (''IPPROTO_ESP'', 50), (''IPPROTO_AH'', 51), (''IPPROTO_ICMPV6'', 58), (''IPPROTO_NONE'', 59),
      (''IPPROTO_DSTOPTS'', 60), (''IPPROTO_PIM'', 103), (''IPV6_RTHDR_TYPE_0'', 0)]"

end
