(* ===== verification/HeaderLaws.thy ===== *)
theory HeaderLaws
  imports HeaderStructs HeaderTables CaptureLaws
begin

text \<open>
  The declarations of theory HeaderStructs against the offsets and sizes the packet code is
  modelled with (theory Headers), where the overlays of the BSD kernel headers stop fitting, and
  the constants that several headers repeat.
\<close>

section \<open>Offsets\<close>

text \<open>Every field address of theory Headers, with the declaration it belongs to.\<close>

definition ether_offsets :: "(ctype \<times> string list \<times> int) list" where
  "ether_offsets =
     [(struct_ether_header, [''ether_dest''], at_ether_dest 0), (struct_ether_header, [''ether_src''], at_ether_src 0),
      (struct_ether_header, [''ether_type''], at_ether_type 0)] @
     map (\<lambda>(f, a). (struct_ether_arp, the (map_of (arp_macros @ map (\<lambda>f. (f, [f]))
           [''arp_sha'', ''arp_spa'', ''arp_tha'', ''arp_tpa'']) f), a))
       [(''arp_hrd'', at_arp_hrd 0), (''arp_pro'', at_arp_pro 0), (''arp_hln'', at_arp_hln 0),
        (''arp_pln'', at_arp_pln 0), (''arp_op'', at_arp_op 0), (''arp_sha'', at_arp_sha 0),
        (''arp_spa'', at_arp_spa 0), (''arp_tha'', at_arp_tha 0), (''arp_tpa'', at_arp_tpa 0)]"

definition ip_offsets :: "byte_order \<Rightarrow> (ctype \<times> string list \<times> int) list" where
  "ip_offsets order = map (\<lambda>(f, a). (struct_ip order, [f], a))
     [(''ip_hl'', at_ip_hl_v 0), (''ip_v'', at_ip_hl_v 0), (''ip_tos'', at_ip_tos 0), (''ip_len'', at_ip_len 0),
      (''ip_id'', at_ip_id 0), (''ip_off'', at_ip_off 0), (''ip_ttl'', at_ip_ttl 0), (''ip_p'', at_ip_p 0),
      (''ip_sum'', at_ip_sum 0), (''ip_src'', at_ip_src 0), (''ip_dst'', at_ip_dst 0)]"

definition tcp_udp_offsets :: "byte_order \<Rightarrow> (ctype \<times> string list \<times> int) list" where
  "tcp_udp_offsets order =
     map (\<lambda>(f, a). (struct_tcphdr order, [f], a))
       [(''th_sport'', at_th_sport 0), (''th_dport'', at_th_dport 0), (''th_seq'', at_th_seq 0),
        (''th_ack'', at_th_ack 0), (''th_x2'', at_th_x2_off 0), (''th_off'', at_th_x2_off 0),
        (''th_flags'', at_th_flags 0), (''th_win'', at_th_win 0), (''th_sum'', at_th_sum 0),
        (''th_urp'', at_th_urp 0)] @
     map (\<lambda>(f, a). (struct_udphdr, [f], a))
       [(''uh_sport'', at_uh_sport 0), (''uh_dport'', at_uh_dport 0), (''uh_ulen'', at_uh_ulen 0),
        (''uh_sum'', at_uh_sum 0)]"

definition icmp_offsets :: "byte_order \<Rightarrow> (ctype \<times> string list \<times> int) list" where
  "icmp_offsets order = map (\<lambda>(f, a). (struct_icmp order, case map_of icmp_macros f of
       None \<Rightarrow> [f] | Some path \<Rightarrow> path, a))
     [(''icmp_type'', at_icmp_type 0), (''icmp_code'', at_icmp_code 0), (''icmp_cksum'', at_icmp_cksum 0),
      (''icmp_gwaddr'', at_icmp_gwaddr 0), (''icmp_id'', at_icmp_id 0), (''icmp_seq'', at_icmp_seq 0),
      (''icmp_nextmtu'', at_icmp_nextmtu 0), (''icmp_otime'', at_icmp_otime 0), (''icmp_rtime'', at_icmp_rtime 0),
      (''icmp_ttime'', at_icmp_ttime 0), (''icmp_ip'', at_icmp_ip 0), (''icmp_mask'', at_icmp_mask 0),
      (''icmp_data'', at_icmp_data 0)]"

definition ip6_offsets :: "(ctype \<times> string list \<times> int) list" where
  "ip6_offsets =
     map (\<lambda>(f, a). (struct_ip6_hdr, case map_of ip6_macros f of None \<Rightarrow> [f] | Some path \<Rightarrow> path, a))
       [(''ip6_flow'', at_ip6_flow 0), (''ip6_vfc'', at_ip6_vfc 0), (''ip6_plen'', at_ip6_plen 0),
        (''ip6_nxt'', at_ip6_nxt 0), (''ip6_hlim'', at_ip6_hlim 0), (''ip6_src'', at_ip6_src 0),
        (''ip6_dst'', at_ip6_dst 0)] @
     [(struct_ip6_ext, [''ip6e_nxt''], at_ip6e_nxt 0), (struct_ip6_ext, [''ip6e_len''], at_ip6e_len 0),
      (struct_ip6_rthdr, [''ip6r_len''], at_ip6r_len 0), (struct_ip6_rthdr, [''ip6r_type''], at_ip6r_type 0),
      (struct_ip6_rthdr, [''ip6r_segleft''], at_ip6r_segleft 0),
      (struct_ip6_frag, [''ip6f_offlg''], at_ip6f_offlg 0), (struct_ip6_frag, [''ip6f_ident''], at_ip6f_ident 0),
      (struct_newah, [''ah_len''], at_ah_len 0), (struct_newah, [''ah_spi''], at_ah_spi 0),
      (struct_newah, [''ah_seq''], at_ah_seq 0)]"

definition model_sizes :: "byte_order \<Rightarrow> (ctype \<times> int) list" where
  "model_sizes order =
     [(struct_ether_header, sizeof_ether_header), (struct_arphdr, sizeof_arphdr),
      (struct_ether_arp, sizeof_ether_arp), (struct_ip order, sizeof_ip), (struct_tcphdr order, sizeof_tcphdr),
      (struct_udphdr, sizeof_udphdr), (struct_ip6_hdr, sizeof_ip6_hdr), (struct_ip6_ext, sizeof_ip6_ext),
      (struct_newah, sizeof_newah)]"

text \<open>An entry says where its field is.\<close>

definition offset_right :: "data_model \<Rightarrow> ctype \<times> string list \<times> int \<Rightarrow> bool" where
  "offset_right d = (\<lambda>(t, path, a). map_option (\<lambda>(k, u). int k) (locate d t path) = Some a)"

lemma offsets_right:
  "list_all (offset_right d) ether_offsets" "list_all (offset_right d) (ip_offsets LittleEndian)"
  "list_all (offset_right d) (ip_offsets BigEndian)" "list_all (offset_right d) (tcp_udp_offsets LittleEndian)"
  "list_all (offset_right d) (tcp_udp_offsets BigEndian)" "list_all (offset_right d) (icmp_offsets LittleEndian)"
  "list_all (offset_right d) (icmp_offsets BigEndian)" "list_all (offset_right d) ip6_offsets"
  by code_simp+

lemma sizes_right:
  "list_all (\<lambda>(t, n). int (sizeof d t) = n) (model_sizes LittleEndian)"
  "list_all (\<lambda>(t, n). int (sizeof d t) = n) (model_sizes BigEndian)"
  by code_simp+

text \<open>
  Every field offset, structure size and bit-field position the packet code is modelled with is
  the one the C declarations have.
\<close>

theorem header_layouts:
  "list_all (offset_right d) (ether_offsets @ ip_offsets order @ tcp_udp_offsets order @
     icmp_offsets order @ ip6_offsets) \<and>
   list_all (\<lambda>(t, n). int (sizeof d t) = n) (model_sizes order) \<and>
   bit_field order (ip_hl_v order) ''ip_hl'' = Some (0, 4) \<and>
   bit_field order (ip_hl_v order) ''ip_v'' = Some (4, 4)"
  by (cases order) (simp_all add: offsets_right sizes_right ip_hl_v_def)

text \<open>
  Every member lies inside its structure.
\<close>

theorem field_inside_struct:
  "proper t \<Longrightarrow> locate d t path = Some (k, u) \<Longrightarrow> k + sizeof d u \<le> sizeof d t"
  by (rule locate_within(1))

section \<open>Overlays\<close>

text \<open>
  \<open>struct ipovly\<close> is meant to lie over an IP header, and \<open>ipf_next\<close> at the offset of \<open>ipq_next\<close>.
\<close>

lemma overlay_values:
  "sizeof ILP32 struct_ipovly = 20" "sizeof LP64 struct_ipovly = 32" "sizeof LLP64 struct_ipovly = 32"
  "sizeof ILP32 (struct_ip LittleEndian) = 20" "sizeof LP64 (struct_ip LittleEndian) = 20"
  "sizeof LLP64 (struct_ip LittleEndian) = 20" "sizeof ILP32 (struct_ip BigEndian) = 20"
  "sizeof LP64 (struct_ip BigEndian) = 20" "sizeof LLP64 (struct_ip BigEndian) = 20"
  "locate ILP32 struct_ipq [''ipq_next''] = Some (12, CPtr)"
  "locate LP64 struct_ipq [''ipq_next''] = Some (24, CPtr)"
  "locate LLP64 struct_ipq [''ipq_next''] = Some (24, CPtr)"
  by code_simp+

lemma overlay_order:
  "locate ILP32 (struct_ipasfrag LittleEndian) [''ipf_next''] = Some (12, CPtr)"
  "locate LP64 (struct_ipasfrag LittleEndian) [''ipf_next''] = Some (16, CPtr)"
  "locate LLP64 (struct_ipasfrag LittleEndian) [''ipf_next''] = Some (16, CPtr)"
  "locate ILP32 (struct_ipasfrag BigEndian) [''ipf_next''] = Some (12, CPtr)"
  "locate LP64 (struct_ipasfrag BigEndian) [''ipf_next''] = Some (16, CPtr)"
  "locate LLP64 (struct_ipasfrag BigEndian) [''ipf_next''] = Some (16, CPtr)"
  "locate ILP32 (struct_tcpiphdr LittleEndian) (the (map_of tcpip_macros ''ti_sport'')) = Some (20, u_short)"
  "locate LP64 (struct_tcpiphdr LittleEndian) (the (map_of tcpip_macros ''ti_sport'')) = Some (32, u_short)"
  "locate LLP64 (struct_tcpiphdr LittleEndian) (the (map_of tcpip_macros ''ti_sport'')) = Some (32, u_short)"
  "locate ILP32 (struct_tcpiphdr BigEndian) (the (map_of tcpip_macros ''ti_sport'')) = Some (20, u_short)"
  "locate LP64 (struct_tcpiphdr BigEndian) (the (map_of tcpip_macros ''ti_sport'')) = Some (32, u_short)"
  "locate LLP64 (struct_tcpiphdr BigEndian) (the (map_of tcpip_macros ''ti_sport'')) = Some (32, u_short)"
  by code_simp+

text \<open>
  The overlays of the BSD headers fit with 32-bit pointers only.
\<close>

theorem overlays_fit_ILP32_only:
  "(sizeof d struct_ipovly = sizeof d (struct_ip order) \<longleftrightarrow> d = ILP32) \<and>
   (map_option fst (locate d struct_ipq [''ipq_next'']) =
      map_option fst (locate d (struct_ipasfrag order) [''ipf_next'']) \<longleftrightarrow> d = ILP32) \<and>
   (map_option fst (locate d (struct_tcpiphdr order) (the (map_of tcpip_macros ''ti_sport''))) = Some 20 \<longleftrightarrow>
      d = ILP32)"
  by (cases d; cases order) (simp_all only: overlay_values overlay_order, simp_all)

section \<open>The capture file\<close>

text \<open>
  The file header is the same everywhere, the packet header is not.
\<close>

theorem capture_file_header_portable:
  "sizeof d struct_pcap_file_header = 24 \<and>
   locate d struct_pcap_file_header [''linktype''] = Some (20, u_int) \<and>
   (sizeof d struct_pcap_pkthdr = 16 \<longleftrightarrow> d \<noteq> LP64)"
  by (cases d) (simp_all add: struct_pcap_file_header_def struct_pcap_pkthdr_def struct_timeval_def round_up_def)

section \<open>Constants that several headers define\<close>

definition agree :: "constants \<Rightarrow> constants \<Rightarrow> bool" where
  "agree xs ys \<longleftrightarrow> list_all (\<lambda>(name, v). case map_of ys name of None \<Rightarrow> True | Some w \<Rightarrow> v = w) xs"

text \<open>The constants the packet code uses, as theory Headers has them.\<close>

definition used_constants :: constants where
  "used_constants =
     [(''ETHERTYPE_IP'', unat ETHERTYPE_IP), (''ETHERTYPE_ARP'', unat ETHERTYPE_ARP),
      (''ETHERTYPE_REVARP'', unat ETHERTYPE_REVARP), (''ETHERTYPE_IPV6'', unat ETHERTYPE_IPV6),
      (''IPTOS_LOWDELAY'', unat IPTOS_LOWDELAY), (''IPTOS_THROUGHPUT'', unat IPTOS_THROUGHPUT),
      (''IPTOS_RELIABILITY'', unat IPTOS_RELIABILITY),
      (''TH_FIN'', unat TH_FIN), (''TH_SYN'', unat TH_SYN), (''TH_RST'', unat TH_RST), (''TH_PUSH'', unat TH_PUSH),
      (''TH_ACK'', unat TH_ACK), (''TH_URG'', unat TH_URG),
      (''ICMP_ECHOREPLY'', unat ICMP_ECHOREPLY), (''ICMP_UNREACH'', unat ICMP_UNREACH),
      (''ICMP_SOURCEQUENCH'', unat ICMP_SOURCEQUENCH), (''ICMP_REDIRECT'', unat ICMP_REDIRECT),
      (''ICMP_ECHO'', unat ICMP_ECHO), (''ICMP_ROUTERADVERT'', unat ICMP_ROUTERADVERT),
      (''ICMP_TIMXCEED'', unat ICMP_TIMXCEED), (''ICMP_PARAMPROB'', unat ICMP_PARAMPROB),
      (''ICMP_TSTAMP'', unat ICMP_TSTAMP), (''ICMP_TSTAMPREPLY'', unat ICMP_TSTAMPREPLY),
      (''ICMP_MASKREQ'', unat ICMP_MASKREQ), (''ICMP_MASKREPLY'', unat ICMP_MASKREPLY),
      (''IPPROTO_HOPOPTS'', unat IPPROTO_HOPOPTS), (''IPPROTO_ROUTING'', unat IPPROTO_ROUTING),
      (''IPPROTO_FRAGMENT'', unat IPPROTO_FRAGMENT), (''IPPROTO_ESP'', unat IPPROTO_ESP),
      (''IPPROTO_AH'', unat IPPROTO_AH), (''IPPROTO_NONE'', unat IPPROTO_NONE),
      (''IPPROTO_DSTOPTS'', unat IPPROTO_DSTOPTS)]"

lemma used_agree:
  "agree used_constants (jpcap_ethertypes @ ip_tos_values @ th_flags_values @ icmp_types @ captor_ipproto)"
  by (simp add: agree_def used_constants_def layout jpcap_ethertypes_def ip_tos_values_def
      th_flags_values_def icmp_types_def captor_ipproto_def)

lemma repeated_agree:
  "agree bsd_ethertypes jpcap_ethertypes" "agree captor_ipproto packet_ipv6_ipproto"
  "agree packet_ipv6_ipproto ip6_misc_ipproto" "agree ip6opt_values ip6_misc_options"
  by (simp_all add: agree_def bsd_ethertypes_def jpcap_ethertypes_def captor_ipproto_def
      packet_ipv6_ipproto_def ip6_misc_ipproto_def ip6opt_values_def ip6_misc_options_def)

lemma infotype_values:
  "map_of icmp_types ''ICMP_ECHOREPLY'' = Some 0" "map_of icmp_types ''ICMP_ECHO'' = Some 8"
  "map_of icmp_types ''ICMP_ROUTERADVERT'' = Some 9" "map_of icmp_types ''ICMP_ROUTERSOLICIT'' = Some 10"
  "map_of icmp_types ''ICMP_TSTAMP'' = Some 13" "map_of icmp_types ''ICMP_TSTAMPREPLY'' = Some 14"
  "map_of icmp_types ''ICMP_IREQ'' = Some 15" "map_of icmp_types ''ICMP_IREQREPLY'' = Some 16"
  "map_of icmp_types ''ICMP_MASKREQ'' = Some 17" "map_of icmp_types ''ICMP_MASKREPLY'' = Some 18"
  by code_simp+

lemma infotype_iff: "ICMP_INFOTYPE n \<longleftrightarrow> n \<in> {0, 8, 9, 10, 13, 14, 15, 16, 17, 18}"
  by (auto simp only: ICMP_INFOTYPE_def Let_def infotype_values option.inject insert_iff empty_iff)

lemma infotypes:
  "list_all (\<lambda>(name, v). ICMP_INFOTYPE v \<longleftrightarrow> name \<notin> {''ICMP_UNREACH'', ''ICMP_SOURCEQUENCH'',
     ''ICMP_REDIRECT'', ''ICMP_TIMXCEED'', ''ICMP_PARAMPROB''}) icmp_types"
  by (simp only: infotype_iff icmp_types_def) simp

lemma tstamp_hdr: "TCPOPT_TSTAMP_HDR = 0x0101080a"
  by (simp add: TCPOPT_TSTAMP_HDR_def tcpopt_values_def)

text \<open>
  Constants that several headers define have one value.
\<close>

theorem header_constants_agree:
  "agree used_constants (jpcap_ethertypes @ ip_tos_values @ th_flags_values @ icmp_types @ captor_ipproto) \<and>
   agree bsd_ethertypes jpcap_ethertypes \<and> agree captor_ipproto packet_ipv6_ipproto \<and>
   agree packet_ipv6_ipproto ip6_misc_ipproto \<and> agree ip6opt_values ip6_misc_options \<and>
   list_all (\<lambda>(name, v). ICMP_INFOTYPE v \<longleftrightarrow> name \<notin> {''ICMP_UNREACH'', ''ICMP_SOURCEQUENCH'',
     ''ICMP_REDIRECT'', ''ICMP_TIMXCEED'', ''ICMP_PARAMPROB''}) icmp_types \<and>
   TCPOPT_TSTAMP_HDR = 0x0101080a"
  by (intro conjI used_agree repeated_agree infotypes tstamp_hdr)

section \<open>The minimal lengths of ICMP messages\<close>

text \<open>
  The headers give a minimal length per message type; \<open>get_packet\<close> asks for \<open>ICMPHDRLEN\<close> bytes
  whatever the type.
\<close>

lemma rd32_cases: "0 \<le> a \<Longrightarrow> (\<exists>x. rd32 m a = Inr x) \<or> rd32 m a = Inl (OutOfBounds a) \<and> int (length m) < a + 4"
  by (auto simp: rd32_def in_range_def)

text \<open>
  A timestamp message cut behind its first eight bytes is read past its end.
\<close>

theorem short_icmp_timestamp_over_reads:
  assumes "0 \<le> data" and "data + ICMP_MINLEN \<le> int (length m)" and "int (length m) < data + ICMP_TSLEN"
    and "m ! nat data = ICMP_TSTAMP"
  shows "\<exists>a. data + 8 \<le> a \<and> a < data + ICMP_TSLEN \<and>
      analyze_icmp na va m packet data clen = Inl (OutOfBounds a)"
proof -
  have type: "rd8 m data = Inr ICMP_TSTAMP"
    using assms by (simp add: rd8_def in_range_def ICMP_MINLEN_def)
  obtain code cksum ident seq where "rd8 m (data + 1) = Inr code" "rd16 m (data + 2) = Inr cksum"
    "rd16 m (data + 4) = Inr ident" "rd16 m (data + 6) = Inr seq"
    using assms(1,2) by (simp add: rd8_def rd16_def in_range_def ICMP_MINLEN_def)
  note head = type this
  have "\<not> in_range m (data + 16) 4" using assms(3) by (simp add: in_range_def ICMP_TSLEN_def)
  then have last: "rd32 m (data + 16) = Inl (OutOfBounds (data + 16))" by (simp add: rd32_def)
  show ?thesis
    using rd32_cases [of "data + 8" m] rd32_cases [of "data + 12" m] assms(1) last
    by (auto simp: analyze_icmp_def head layout ICMP_TSLEN_def Let_def)
qed

end
