(* ===== verification/LinkTypes.thy ===== *)
theory LinkTypes
  imports CaptureLaws
begin

text \<open>
  The link types of \<open>pcap-bpf.h\<close>, which the capture library stores in \<open>linktypes\<close>, and what
  \<open>get_packet\<close> does for each of them. A few have different numbers on different systems.
\<close>

section \<open>The link types\<close>

datatype system = OpenBSD | NetFreeBSD | OtherSystem

definition DLT_RAW_on :: "system \<Rightarrow> int" where
  "DLT_RAW_on os = (case os of OpenBSD \<Rightarrow> 14 | _ \<Rightarrow> 12)"

definition dlt_bsdos :: "system \<Rightarrow> (string \<times> int) list" where
  "dlt_bsdos os = (case os of
     NetFreeBSD \<Rightarrow> [(''DLT_SLIP_BSDOS'', 13), (''DLT_PPP_BSDOS'', 14)]
   | _ \<Rightarrow> [(''DLT_SLIP_BSDOS'', 15), (''DLT_PPP_BSDOS'', 16)])"

definition dlt_openbsd :: "system \<Rightarrow> (string \<times> int) list" where
  "dlt_openbsd os = (case os of
     OpenBSD \<Rightarrow> [(''DLT_ENC'', 13), (''DLT_OLD_PFLOG'', 17), (''DLT_PFSYNC'', 18)]
   | _ \<Rightarrow> [(''DLT_ENC'', 109)])"

definition dlt_basic :: "(string \<times> int) list" where
  "dlt_basic =
     [(''DLT_NULL'', 0), (''DLT_EN10MB'', 1), (''DLT_EN3MB'', 2), (''DLT_AX25'', 3),
      (''DLT_PRONET'', 4), (''DLT_CHAOS'', 5), (''DLT_IEEE802'', 6), (''DLT_ARCNET'', 7),
      (''DLT_SLIP'', 8), (''DLT_PPP'', 9), (''DLT_FDDI'', 10), (''DLT_ATM_RFC1483'', 11)]"

definition dlt_vendor :: "(string \<times> int) list" where
  "dlt_vendor =
     [(''DLT_ATM_CLIP'', 19), (''DLT_REDBACK_SMARTEDGE'', 32), (''DLT_PPP_SERIAL'', 50),
      (''DLT_PPP_ETHER'', 51), (''DLT_SYMANTEC_FIREWALL'', 99), (''DLT_C_HDLC'', 104),
      (''DLT_IEEE802_11'', 105), (''DLT_FRELAY'', 107), (''DLT_LOOP'', 108),
      (''DLT_LINUX_SLL'', 113), (''DLT_LTALK'', 114), (''DLT_ECONET'', 115),
      (''DLT_IPFILTER'', 116), (''DLT_PFLOG'', 117)]"

definition dlt_assigned :: "(string \<times> int) list" where
  "dlt_assigned =
     [(''DLT_CISCO_IOS'', 118), (''DLT_PRISM_HEADER'', 119), (''DLT_AIRONET_HEADER'', 120),
      (''DLT_HHDLC'', 121), (''DLT_IP_OVER_FC'', 122), (''DLT_SUNATM'', 123), (''DLT_RIO'', 124),
      (''DLT_PCI_EXP'', 125), (''DLT_AURORA'', 126), (''DLT_IEEE802_11_RADIO'', 127),
      (''DLT_TZSP'', 128), (''DLT_ARCNET_LINUX'', 129), (''DLT_JUNIPER_MLPPP'', 130),
      (''DLT_JUNIPER_MLFR'', 131), (''DLT_JUNIPER_ES'', 132), (''DLT_JUNIPER_GGSN'', 133),
      (''DLT_JUNIPER_MFR'', 134), (''DLT_JUNIPER_ATM2'', 135), (''DLT_JUNIPER_SERVICES'', 136),
      (''DLT_JUNIPER_ATM1'', 137), (''DLT_APPLE_IP_OVER_IEEE1394'', 138),
      (''DLT_MTP2_WITH_PHDR'', 139), (''DLT_MTP2'', 140), (''DLT_MTP3'', 141),
      (''DLT_SCCP'', 142), (''DLT_DOCSIS'', 143), (''DLT_LINUX_IRDA'', 144)]"

definition dlt_user :: "(string \<times> int) list" where
  "dlt_user =
     [(''DLT_IBM_SP'', 145), (''DLT_IBM_SN'', 146), (''DLT_USER0'', 147), (''DLT_USER1'', 148),
      (''DLT_USER2'', 149), (''DLT_USER3'', 150), (''DLT_USER4'', 151), (''DLT_USER5'', 152),
      (''DLT_USER6'', 153), (''DLT_USER7'', 154), (''DLT_USER8'', 155), (''DLT_USER9'', 156),
      (''DLT_USER10'', 157), (''DLT_USER11'', 158), (''DLT_USER12'', 159), (''DLT_USER13'', 160),
      (''DLT_USER14'', 161), (''DLT_USER15'', 162), (''DLT_IEEE802_11_RADIO_AVS'', 163),
      (''DLT_JUNIPER_MONITOR'', 164), (''DLT_BACNET_MS_TP'', 165), (''DLT_PPP_PPPD'', 166),
      (''DLT_JUNIPER_PPPOE'', 167), (''DLT_JUNIPER_PPPOE_ATM'', 168), (''DLT_GPRS_LLC'', 169),
      (''DLT_GPF_T'', 170), (''DLT_GPF_F'', 171)]"

definition dlt_late :: "(string \<times> int) list" where
  "dlt_late =
     [(''DLT_GCOM_T1E1'', 172), (''DLT_GCOM_SERIAL'', 173), (''DLT_JUNIPER_PIC_PEER'', 174),
      (''DLT_ERF_ETH'', 175), (''DLT_ERF_POS'', 176), (''DLT_LINUX_LAPD'', 177),
      (''DLT_JUNIPER_ETHER'', 178), (''DLT_JUNIPER_PPP'', 179), (''DLT_JUNIPER_FRELAY'', 180),
      (''DLT_JUNIPER_CHDLC'', 181), (''DLT_MFR'', 182), (''DLT_JUNIPER_VP'', 183),
      (''DLT_A429'', 184), (''DLT_A653_ICM'', 185), (''DLT_CAN20B'', 190)]"

text \<open>Names defined as another name: \<open>DLT_CHDLC\<close>, and two for \<open>DLT_PPP_PPPD\<close>.\<close>

definition dlt_aliases :: "(string \<times> string) list" where
  "dlt_aliases =
     [(''DLT_CHDLC'', ''DLT_C_HDLC''), (''DLT_PPP_WITH_DIRECTION'', ''DLT_PPP_PPPD''),
      (''DLT_LINUX_PPP_WITHDIRECTION'', ''DLT_PPP_PPPD'')]"

definition link_types :: "system \<Rightarrow> (string \<times> int) list" where
  "link_types os = dlt_basic @ [(''DLT_RAW'', DLT_RAW_on os)] @ dlt_bsdos os @ dlt_openbsd os @
     dlt_vendor @ dlt_assigned @ dlt_user @ dlt_late"

section \<open>What get_packet makes of them\<close>

text \<open>
  Link types have different numbers; raw IP on OpenBSD has the number of a PPP link in the
  offset table.
\<close>

theorem link_type_numbers:
  "distinct (map fst (link_types os)) \<and> distinct (map snd (link_types os)) \<and>
     list_all (\<lambda>(alias, name). map_of (link_types os) alias = None \<and> map_of (link_types os) name \<noteq> None)
       dlt_aliases \<and>
     datalink_hlen (DLT_RAW_on os) = Inr (if os = OpenBSD then 24 else 0)"
proof (cases os)
  case OpenBSD
  show ?thesis unfolding OpenBSD by (intro conjI; code_simp)
next
  case NetFreeBSD
  show ?thesis unfolding NetFreeBSD by (intro conjI; code_simp)
next
  case OtherSystem
  show ?thesis unfolding OtherSystem by (intro conjI; code_simp)
qed

text \<open>A frame of a link type that is neither Ethernet, token ring nor raw IP.\<close>

lemma whole_array: "new_array m 0 (int (length m)) = Inr m"
  by (simp add: new_array_Inr_iff in_range_def)

text \<open>
  For every link type other than Ethernet, token ring and raw IP get_packet does not look into
  the frame: the object is a plain Packet with the whole frame as data.
\<close>

theorem other_link_types_stay_bytes:
  assumes lt: "linktype \<notin> {DLT_RAW, DLT_IEEE802, DLT_EN10MB}"
    and m: "0 < length m" "length m \<le> 32767" and cap: "caplen header = of_nat (length m)"
  shows "get_packet na j linktype header m =
      Inr ((setPacketValue (ts_sec header) (ts_usec header) (caplen header) (wire_len header)
        (AllocObject PacketC))\<lparr>pk_datalink := Some OtherDatalink, pk_header := Some [], pk_data := Some m\<rparr>)"
proof -
  let ?clen = "of_nat (length m) :: jshort"
  have clen: "ucast (caplen header) = ?clen"
    using m(2) by (simp add: cap unsigned_of_nat take_bit_nat_eq_self)
  have s: "sint ?clen = int (length m)"
    using m(2) by (simp add: signed_of_nat signed_take_bit_int_eq_self)
  have net: "network_protocol m linktype (caplen header) = Inr (UNKNOWN_PROTO, ?clen)"
    using lt clen by (simp add: network_protocol_def)
  have "detect_transport j m linktype UNKNOWN_PROTO ?clen = Inr (UNKNOWN_PROTO, ?clen)"
    using s m(1) by (simp add: detect_transport_def layout)
  then have tr: "transport_protocol j m linktype UNKNOWN_PROTO ?clen = Inr (UNKNOWN_PROTO, ?clen)"
    by (simp add: transport_protocol_def check_truncated_def layout)
  have cls: "packet_class UNKNOWN_PROTO UNKNOWN_PROTO = PacketC"
    by (simp add: packet_class_def layout)
  have arr: "set_arrays m 0 ?clen p = Inr (setPacketData (Some m) (setPacketHeader (Some []) p))" for p
    using s whole_array [of m]
    by (simp add: set_arrays_def to_short_def new_array_def Let_def rd_bytes_def in_range_def)
  have "fill_packet na j linktype (caplen header) m UNKNOWN_PROTO UNKNOWN_PROTO p =
      Inr (setPacketData (Some m) (setPacketHeader (Some []) p))" for p
    using arr s clen
    by (simp add: fill_packet_def analyze_network_def analyze_transport_def layout Let_def to_short_def)
  then show ?thesis
    using net tr cls lt
    by (simp add: get_packet_def analyze_datalink_def Let_def setDatalinkPacket_def setPacketData_def
        setPacketHeader_def)
qed

end
