(* ===== verification/ProtocolLaws.thy ===== *)
theory ProtocolLaws
  imports CaptureLaws
begin

text \<open>
  Laws of single protocol functions: the checksums against RFC 1071 and the end of the loop over
  IPv6 extension headers.
\<close>

section \<open>Checksums\<close>

text \<open>
  C24. in_cksum over an even number of bytes, at most 131072, anywhere in memory is the checksum
  of RFC 1071, the complement of the ones-complement sum of the big-endian words, in network
  byte order.
\<close>

theorem in_cksum_is_rfc1071:
  assumes "even (length w)" and "length w \<le> 131072"
  shows "\<exists>c. in_cksum (pre @ w @ post) (int (length pre)) (int (length w)) = Inr c \<and>
      unat (ntohs c) = rfc1071 w"
  using in_cksum_inet [OF assms] unat_ntohs_inet_cksum by simp

text \<open>
  A receiver that sums pseudo header and segment gets zero.
\<close>

theorem in_cksum2_covers_pseudo_header:
  assumes "length iph = 20" and "length seg \<le> 65535" and "k < length seg" and "even k"
    and "seg ! k = 0" and "seg ! Suc k = 0" and "Suc k < length seg"
    and "in_cksum2 (pre @ iph @ seg @ post) (int (length pre)) len (int (length pre) + 20)
      (int (length seg)) = Inr c"
  shows "rfc1071 (pseudo_header iph len @ overlay k (bytes16 c) seg) = 0"
proof -
  have c: "c = inet_cksum (pseudo_header iph len @ seg)"
    using in_cksum2_inet [OF assms(1,2), of pre post len] assms(8) by simp
  have "drop k seg = [0, 0] @ drop (k + 2) seg"
    using Cons_nth_drop_Suc [OF assms(3)] Cons_nth_drop_Suc [OF assms(7)] assms(5,6) by simp
  then have seg: "seg = take k seg @ [0, 0] @ drop (k + 2) seg"
    by (metis append_take_drop_id)
  have "even (length (pseudo_header iph len @ take k seg))"
    using assms(1,3,4) by (simp add: pseudo_header_def bytes16_def)
  from rfc1071_verify [OF this, of "drop (k + 2) seg"] show ?thesis
    using c seg assms(3,7) by (simp add: overlay_def bytes16_def)
qed

section \<open>Extension headers\<close>

definition option_count :: "jpacket \<Rightarrow> nat" where
  "option_count p = (case pk_options p of None \<Rightarrow> 0 | Some hs \<Rightarrow> length hs)"

lemma option_count_add [simp]: "option_count (addOptionHeader h p) = Suc (option_count p)"
  by (simp add: option_count_def addOptionHeader_def split: option.split)

text \<open>
  C32. The loop over IPv6 extension headers ends: it adds at most one option header per eight
  bytes of the frame that are left, whatever next-header and length fields the frame holds.
\<close>

theorem extension_headers_bounded:
  "analyze_options m proto data hlen p = Inr (q, h) \<Longrightarrow>
     option_count p \<le> option_count q \<and>
     8 * int (option_count q - option_count p) \<le> max 0 (int (length m) - data + 7)"
proof (induction m proto data hlen p rule: analyze_options.induct)
  case (1 m proto data hlen p)
  show ?case
  proof (cases "is_ext proto")
    case False
    with "1.prems" show ?thesis by (subst (asm) analyze_options.simps) simp
  next
    case True
    with "1.prems" obtain nxt len opt hlen' data' where
      nxt: "rd8 m (at_ip6e_nxt data) = Inr nxt" and len: "rd8 m (at_ip6e_len data) = Inr len"
      and opt: "analyze_option m proto nxt len data hlen = Inr (opt, hlen', data')"
      and rest: "analyze_options m nxt data' hlen' (addOptionHeader opt p) = Inr (q, h)"
      by (subst (asm) analyze_options.simps) (auto simp: bindr_Inr_iff)
    from "1.IH" [OF True nxt len opt refl refl rest]
    have "Suc (option_count p) \<le> option_count q"
      "8 * int (option_count q - Suc (option_count p)) \<le> max 0 (int (length m) - data' + 7)"
      by auto
    moreover have "data + 8 \<le> data'" by (rule analyze_option_advances [OF opt])
    moreover have "data + 2 \<le> int (length m)"
      using len by (simp add: rd8_def in_range_def split: if_splits)
    ultimately show ?thesis by (auto simp: of_nat_diff)
  qed
qed

end
