(* ===== verification/Triples.thy ===== *)
theory Triples
  imports Jni
begin

text \<open>
  A calculus for total correctness of the modelled C functions: a triple says that a run returns
  and what holds of its result, with one rule per construct and per access to memory.
\<close>

section \<open>Triples\<close>

definition yields :: "'a res \<Rightarrow> ('a \<Rightarrow> bool) \<Rightarrow> bool" where
  "yields m P \<longleftrightarrow> (\<exists>x. m = Inr x \<and> P x)"

named_theorems safe \<open>rules of the calculus for runs that return\<close>

lemma yieldsE: "yields m P \<Longrightarrow> (\<And>x. m = Inr x \<Longrightarrow> P x \<Longrightarrow> thesis) \<Longrightarrow> thesis"
  by (auto simp: yields_def)

lemma yields_Inr [safe]: "P x \<Longrightarrow> yields (Inr x) P"
  by (simp add: yields_def)

lemma yields_weaken: "yields m Q \<Longrightarrow> (\<And>x. Q x \<Longrightarrow> P x) \<Longrightarrow> yields m P"
  by (auto simp: yields_def)

lemma yields_seq: "yields m Q \<Longrightarrow> (\<And>x. Q x \<Longrightarrow> yields (f x) P) \<Longrightarrow> yields (bindr m f) P"
  by (auto simp: yields_def)

lemma yields_if [safe]:
  "(b \<Longrightarrow> yields m P) \<Longrightarrow> (\<not> b \<Longrightarrow> yields n P) \<Longrightarrow> yields (if b then m else n) P"
  by simp

lemma yields_pair [safe]:
  "(\<And>x y. z = (x, y) \<Longrightarrow> yields (f x y) P) \<Longrightarrow> yields (case z of (x, y) \<Rightarrow> f x y) P"
  by (cases z) simp

text \<open>States whose buffer has \<open>n\<close> bytes.\<close>

definition sized :: "nat \<Rightarrow> sstate \<Rightarrow> bool" where
  "sized n s \<longleftrightarrow> length (sbuf s) = n"

text \<open>A step that keeps the size, followed by the rest; and a read.\<close>

lemma yields_step:
  "yields m (sized n) \<Longrightarrow> (\<And>s. sized n s \<Longrightarrow> yields (f s) P) \<Longrightarrow> yields (bindr m f) P"
  by (rule yields_seq)

lemma yields_read:
  "yields m (\<lambda>_. True) \<Longrightarrow> (\<And>x. yields (f x) P) \<Longrightarrow> yields (bindr m f) P"
  by (auto intro: yields_seq)

lemma rd8_yields: "sized n s \<Longrightarrow> 0 \<le> p \<Longrightarrow> p + 1 \<le> int n \<Longrightarrow> yields (rd8 (sbuf s) p) (\<lambda>_. True)"
  by (simp add: yields_def rd8_def in_range_def sized_def)

lemma rd16_yields: "sized n s \<Longrightarrow> 0 \<le> p \<Longrightarrow> p + 2 \<le> int n \<Longrightarrow> yields (rd16 (sbuf s) p) (\<lambda>_. True)"
  by (simp add: yields_def rd16_def in_range_def sized_def)

lemma rd32_yields: "sized n s \<Longrightarrow> 0 \<le> p \<Longrightarrow> p + 4 \<le> int n \<Longrightarrow> yields (rd32 (sbuf s) p) (\<lambda>_. True)"
  by (simp add: yields_def rd32_def in_range_def sized_def)

lemma put_bytes_yields:
  "sized n s \<Longrightarrow> 0 \<le> p \<Longrightarrow> p + int (length bs) \<le> int n \<Longrightarrow> yields (put_bytes p bs s) (sized n)"
  by (simp add: yields_def put_bytes_def wr_bytes_def in_range_def sized_def)

lemma put8_yields: "sized n s \<Longrightarrow> 0 \<le> p \<Longrightarrow> p + 1 \<le> int n \<Longrightarrow> yields (put8 p b s) (sized n)"
  by (simp add: put8_def put_bytes_yields)

lemma put16_yields: "sized n s \<Longrightarrow> 0 \<le> p \<Longrightarrow> p + 2 \<le> int n \<Longrightarrow> yields (put16 p b s) (sized n)"
  by (simp add: put16_def put_bytes_yields)

lemma put32_yields: "sized n s \<Longrightarrow> 0 \<le> p \<Longrightarrow> p + 4 \<le> int n \<Longrightarrow> yields (put32 p b s) (sized n)"
  by (simp add: put32_def put_bytes_yields)

lemma put_low4_yields: "sized n s \<Longrightarrow> 0 \<le> p \<Longrightarrow> p + 1 \<le> int n \<Longrightarrow> yields (put_low4 p b s) (sized n)"
  unfolding put_low4_def by (intro yields_read rd8_yields put8_yields)

lemma put_high4_yields: "sized n s \<Longrightarrow> 0 \<le> p \<Longrightarrow> p + 1 \<le> int n \<Longrightarrow> yields (put_high4 p b s) (sized n)"
  unfolding put_high4_def by (intro yields_read rd8_yields put8_yields)

text \<open>A region of an array that is too short leaves an exception pending and is no fault.\<close>

lemma region_yields:
  assumes "sized n s" and "a \<noteq> None" and "0 \<le> p" and "p + max 0 k \<le> int n"
  shows "yields (GetByteArrayRegion a start k p s) (sized n)"
proof -
  obtain bs where a: "a = Some bs" using assms(2) by auto
  have "yields (put_bytes p (take (nat k) (drop (nat start) bs)) s) (sized n)"
    by (rule put_bytes_yields) (use assms in auto)
  then show ?thesis
    using assms(1) by (auto simp: a GetByteArrayRegion_def sized_def yields_def)
qed

end
