(* ===== verification/SendSafety.thy ===== *)
theory SendSafety
  imports SetPacket Triples
begin

text \<open>
  Total correctness of the sending side: a packet whose arrays are not null and whose frame fits
  the stack array of 1600 bytes is sent, whatever its class and the values of its fields, and no
  access leaves that array. The proof is a calculus of triples with one rule per construct.
\<close>

section \<open>Checksums\<close>

lemma cksum_words_yields:
  assumes "0 \<le> p" and "0 \<le> sz" and "p + sz \<le> int (length m)"
  shows "yields (cksum_words m p sz acc) (\<lambda>(p', sz', _). p' + sz' = p + sz \<and> sz' = sz mod 2 \<and> p \<le> p')"
  using assms
proof (induction m p sz acc rule: cksum_words.induct)
  case (1 m p sz acc)
  show ?case
  proof (cases "sz > 1")
    case True
    have "rd16 m p = Inr (le16 (m ! nat p) (m ! (nat p + 1)))"
      using 1 True by (simp add: rd16_def in_range_def)
    with 1 True show ?thesis
      by (subst cksum_words.simps) (force elim!: yieldsE intro: yields_Inr simp: yields_def)
  next
    case False
    with 1 show ?thesis by (subst cksum_words.simps) (auto simp: yields_def)
  qed
qed

text \<open>\<open>in_cksum\<close> reads a whole word at an odd end, \<open>in_cksum2\<close> a byte.\<close>

lemma in_cksum_yields:
  assumes "sized n s" and "0 \<le> p" and "0 \<le> sz" and "p + sz + sz mod 2 \<le> int n"
  shows "yields (in_cksum (sbuf s) p sz) (\<lambda>_. True)"
proof -
  have "yields (rd16 (sbuf s) q) (\<lambda>_. True)" if "q + sz mod 2 = p + sz" "p \<le> q" "0 < sz mod 2" for q
    by (rule rd16_yields) (use assms that in auto)
  with assms show ?thesis
    unfolding in_cksum_def
    by (intro yields_seq [OF cksum_words_yields]) (auto simp: sized_def intro!: yields_Inr yields_read)
qed

lemma in_cksum2_yields:
  assumes "sized n s" and "0 \<le> ip" and "ip + 20 \<le> int n" and "0 \<le> p" and "0 \<le> sz"
    and "p + sz \<le> int n"
  shows "yields (in_cksum2 (sbuf s) ip len p sz) (\<lambda>_. True)"
proof -
  have "yields (rd8 (sbuf s) q) (\<lambda>_. True)" if "q + sz mod 2 = p + sz" "p \<le> q" "0 < sz mod 2" for q
    by (rule rd8_yields) (use assms that in auto)
  moreover have "yields (rd8 (sbuf s) (ip + 9)) (\<lambda>_. True)"
    by (rule rd8_yields) (use assms in auto)
  moreover have "yields (rd16 (sbuf s) (ip + k)) (\<lambda>_. True)" if "0 \<le> k" "k \<le> 18" for k
    by (rule rd16_yields) (use assms that in auto)
  ultimately show ?thesis
    using assms unfolding in_cksum2_def
    by (intro yields_read yields_seq [OF cksum_words_yields])
       (auto simp: sized_def intro!: yields_Inr yields_read)
qed

text \<open>The rules for a step in front of the rest of a function, for a read, and for the last step.\<close>

lemmas safe_steps = put8_yields [THEN yields_step] put16_yields [THEN yields_step]
  put32_yields [THEN yields_step] put_low4_yields [THEN yields_step]
  put_high4_yields [THEN yields_step] region_yields [THEN yields_step]

lemmas safe_reads = rd8_yields [THEN yields_read] rd16_yields [THEN yields_read]
  rd32_yields [THEN yields_read] in_cksum_yields [THEN yields_read]
  in_cksum2_yields [THEN yields_read]

lemmas safe_ends = put8_yields put16_yields put32_yields region_yields

section \<open>The setters\<close>

lemma set_ether_yields:
  assumes "sized n s" and "0 \<le> p" and "p + 14 \<le> int n"
    and "\<And>e. dl = Some (EthernetPacket e) \<Longrightarrow> eth_src_mac e \<noteq> None \<and> eth_dst_mac e \<noteq> None"
  shows "yields (set_ether dl p s) (\<lambda>(k, s). (k = 0 \<or> k = 14) \<and> sized n s)"
proof -
  have "yields (set_ether (Some (EthernetPacket e)) p s) (\<lambda>(k, s). (k = 0 \<or> k = 14) \<and> sized n s)"
    if "eth_src_mac e \<noteq> None" "eth_dst_mac e \<noteq> None" for e
    unfolding set_ether_def option.case datalink.case
    by (rule safe_steps | rule yields_Inr | use assms(1-3) that in \<open>simp; fail\<close>
        | (simp add: sized_def ExceptionDescribe_def sizeof_ether_header_def; fail))+
  with assms show ?thesis
    by (auto simp: set_ether_def intro!: yields_Inr split: option.splits datalink.splits)
qed

definition has_addresses :: "ip_fields \<Rightarrow> bool" where
  "has_addresses f \<longleftrightarrow> ip_src_ip f \<noteq> None \<and> ip_dst_ip f \<noteq> None"

lemma set_ip_yields:
  assumes "sized n s" and "0 \<le> p" and "p + 20 \<le> int n" and "has_addresses f"
  shows "yields (set_ip f p s) (sized n)"
  using assms unfolding set_ip_def Let_def has_addresses_def
  by (intro safe_steps safe_ends) (auto simp: getSourceAddress_def getDestinationAddress_def)

lemma set_ipv6_yields:
  assumes "sized n s" and "0 \<le> p" and "p + 40 \<le> int n" and "has_addresses f"
  shows "yields (set_ipv6 f p s) (sized n)"
  using assms unfolding set_ipv6_def Let_def has_addresses_def
  by (intro safe_steps safe_reads safe_ends)
     (auto simp: getSourceAddress_def getDestinationAddress_def)

lemma set_udp_yields:
  assumes "sized n s" and "0 \<le> ip" and "ip + 20 \<le> int n" and "0 \<le> p"
    and "p + 8 + int (length bs) \<le> int n" and "length bs \<le> 1572"
  shows "yields (set_udp u p (Some bs) ip s) (sized n)"
  using assms unfolding set_udp_def Let_def GetArrayLength_def
  by (simp add: layout)
     (rule safe_steps safe_reads safe_ends yields_if yields_Inr | simp; fail)+

lemma set_tcp_yields:
  assumes "sized n s" and "0 \<le> ip" and "ip + 20 \<le> int n" and "0 \<le> p"
    and "p + 20 + int (length bs) \<le> int n" and "length bs \<le> 1560"
  shows "yields (set_tcp t p (Some bs) ip s) (sized n)"
  using assms unfolding set_tcp_def Let_def GetArrayLength_def option.case bindr_simps layout
  by - (rule safe_steps safe_reads safe_ends yields_if yields_Inr | simp; fail)+

lemma set_arp_yields:
  assumes "sized n s" and "0 \<le> p" and "p + 279 \<le> int n"
    and "arp_sender_hardaddr a \<noteq> None" and "arp_sender_protoaddr a \<noteq> None"
    and "arp_target_hardaddr a \<noteq> None" and "arp_target_protoaddr a \<noteq> None"
  shows "yields (set_arp a p s) (\<lambda>(k, s). k = sizeof_ether_arp \<and> sized n s)"
proof -
  have reg: "yields (GetByteArrayRegion d 0 (uint b) (p + q) s) (sized n)"
    if "sized n s" "d \<noteq> None" "0 \<le> q" "q \<le> 24" for d q s and b :: u8
    by (rule region_yields) (use that assms(2,3) uint_lt2p [of b] in simp_all)
  show ?thesis
    using assms unfolding set_arp_def
    by (intro safe_steps(1-5) safe_reads reg [THEN yields_step] yields_Inr)
       (simp_all, linarith+)
qed

definition data_length :: "jbyteArray \<Rightarrow> int" where
  "data_length data = (case data of None \<Rightarrow> 0 | Some bs \<Rightarrow> int (length bs))"

lemma data_length_nonneg [simp]: "0 \<le> data_length data"
  by (simp add: data_length_def split: option.split)

definition icmp_complete :: "icmp_fields \<Rightarrow> bool" where
  "icmp_complete f \<longleftrightarrow> (icmp_type f = ICMP_REDIRECT \<longrightarrow> icmp_redir_ip f \<noteq> None) \<and>
     (case icmp_ippacket f of None \<Rightarrow> True | Some g \<Rightarrow> has_addresses g)"

text \<open>The room an ICMP message takes, with the second half of the word at an odd end.\<close>

definition icmp_room :: "jbyteArray \<Rightarrow> int" where
  "icmp_room data = max 32 (8 + data_length data + data_length data mod 2)"

lemma set_icmp_yields:
  assumes s: "sized n s" and p: "0 \<le> p" "p + icmp_room data \<le> int n" and f: "icmp_complete f"
  shows "yields (set_icmp f p data s)
    (\<lambda>(k, s). sized n s \<and> 0 \<le> k + data_length data \<and> k + data_length data \<le> icmp_room data)"
proof -
  have room: "p + 32 \<le> int n" "p + 8 + data_length data + data_length data mod 2 \<le> int n"
    "p + 8 + data_length data \<le> int n"
    using p(2) pos_mod_bound [of 2 "data_length data"] pos_mod_sign [of 2 "data_length data"]
    by (auto simp: icmp_room_def)
  define P where "P = (\<lambda>(k, s). sized n s \<and> 0 \<le> k + data_length data \<and> k + data_length data \<le> icmp_room data)"
  have cksum: "yields (bindr (put16 (p + 2) 0 s) (\<lambda>s. bindr (in_cksum (sbuf s) p k) (\<lambda>c. put16 (p + 2) c s))) (sized n)"
    if "sized n s" "0 \<le> k" "p + k + k mod 2 \<le> int n" for s k
    by (intro safe_steps safe_reads safe_ends) (use that p room in auto)
  have ids: "yields (bindr (put16 (p + 4) v s) (put16 (p + 6) w)) (sized n)" if "sized n s" for s v w
    by (intro safe_steps safe_ends) (use that p room in auto)
  have put: "yields (put8 (p + 0) b s) (sized n)" "yields (put8 (p + 1) b s) (sized n)"
    "yields (put32 (p + 8) l s) (sized n)" "yields (put32 (p + 12) l s) (sized n)"
    "yields (put32 (p + 16) l s) (sized n)" if "sized n s" for s b l
    by (intro safe_ends; use that p room in simp)+
  have addr: "yields (GetByteArrayRegion (icmp_getRedirectIP f) 0 4 (p + 4) s) (sized n)"
    if "sized n s" "icmp_type f = ICMP_REDIRECT" for s
    by (rule region_yields) (use that p room f in \<open>auto simp: icmp_complete_def icmp_getRedirectIP_def\<close>)
  have body: "yields (if data \<noteq> None then GetByteArrayRegion data 0 (data_length data) (p + 8) s
      else Inr s) (sized n)" if "sized n s" for s
    by (intro yields_if region_yields yields_Inr) (use that p room in auto)
  have last: "yields (bindr (bindr (put16 (p + 2) 0 s) (\<lambda>s. bindr (in_cksum (sbuf s) p k) (put16' s)))
      (\<lambda>s. Inr (i, s))) P"
    if "put16' = (\<lambda>s c. put16 (p + 2) c s)"
      and "sized n s" "0 \<le> k" "p + k + k mod 2 \<le> int n" "0 \<le> i + data_length data"
      "i + data_length data \<le> icmp_room data" for s k i put16'
    unfolding that(1) by (rule yields_step [OF cksum]) (use that in \<open>auto simp: P_def intro: yields_Inr\<close>)
  note last = last [OF refl]
  have big: "32 \<le> icmp_room data" "8 + data_length data \<le> icmp_room data" "data_length data \<le> icmp_room data"
    using pos_mod_sign [of 2 "data_length data"] by (auto simp: icmp_room_def)
  have ip: "yields (bindr (case icmp_ippacket f of None \<Rightarrow> Inr s | Some g \<Rightarrow> set_ip g (p + 8) s)
      (\<lambda>s. bindr (bindr (put16 (p + 2) 0 s) (\<lambda>s. bindr (in_cksum (sbuf s) p
          (case icmp_ippacket f of None \<Rightarrow> 12 | Some g \<Rightarrow> 12 + 20)) (\<lambda>c. put16 (p + 2) c s)))
        (\<lambda>s. Inr ((case icmp_ippacket f of None \<Rightarrow> 12 | Some g \<Rightarrow> 12 + 20) - data_length data, s)))) P"
    if "sized n s" for s
  proof (rule yields_step)
    show "yields (case icmp_ippacket f of None \<Rightarrow> Inr s | Some g \<Rightarrow> set_ip g (p + 8) s) (sized n)"
      using f that p room by (auto simp: icmp_complete_def split: option.splits intro!: yields_Inr set_ip_yields)
  qed (rule last; use room big in \<open>simp split: option.split\<close>)
  have par: "(8 + data_length data) mod 2 = data_length data mod 2"
    by presburger
  have len: "(case data of None \<Rightarrow> 0 | Some bs \<Rightarrow> int (length bs)) = data_length data"
    by (simp add: data_length_def)
  show ?thesis
    using s unfolding set_icmp_def Let_def len P_def [symmetric]
    by (intro put(1,2) [THEN yields_step] yields_if put(3-5) [THEN yields_step] ids [THEN yields_step]
        addr [THEN yields_step] body [THEN yields_step] ip last yields_Inr)
       (use room big par in \<open>auto simp: P_def\<close>)
qed

section \<open>The layers\<close>

text \<open>
  Packets without null arrays where the code does not test for them, and the room their frame
  takes in the stack array.
\<close>

definition complete_packet :: "jpacket \<Rightarrow> bool" where
  "complete_packet packet \<longleftrightarrow>
     (case pk_datalink packet of
        Some (EthernetPacket e) \<Rightarrow> eth_src_mac e \<noteq> None \<and> eth_dst_mac e \<noteq> None
      | _ \<Rightarrow> True) \<and>
     (if IsInstanceOf packet IPPacketC then has_addresses (pk_ip packet) \<and>
        (if IsInstanceOf packet ICMPPacketC then icmp_complete (pk_icmp packet)
         else pk_data packet \<noteq> None)
      else if IsInstanceOf packet ARPPacketC then
        arp_sender_hardaddr (pk_arp packet) \<noteq> None \<and> arp_sender_protoaddr (pk_arp packet) \<noteq> None \<and>
        arp_target_hardaddr (pk_arp packet) \<noteq> None \<and> arp_target_protoaddr (pk_arp packet) \<noteq> None
      else pk_data packet \<noteq> None)"

definition transport_room :: "jpacket \<Rightarrow> int" where
  "transport_room packet =
     (if IsInstanceOf packet TCPPacketC then 20 + data_length (pk_data packet)
      else if IsInstanceOf packet UDPPacketC then 8 + data_length (pk_data packet)
      else if IsInstanceOf packet ICMPPacketC then icmp_room (pk_data packet)
      else data_length (pk_data packet))"

definition frame_room :: "jpacket \<Rightarrow> int" where
  "frame_room packet = 14 +
     (if IsInstanceOf packet IPPacketC
      then (if ip_version (pk_ip packet) = 4 then 20 else 40) + transport_room packet
      else if IsInstanceOf packet ARPPacketC then max 279 (28 + data_length (pk_data packet))
      else data_length (pk_data packet))"

lemma set_proto_len_yields:
  assumes "sized n s" and "0 \<le> ip" and "ip + 20 \<le> int n"
  shows "yields (set_proto_len ver ip proto len s) (sized n)"
  using assms unfolding set_proto_len_def by (intro yields_if safe_steps safe_ends) auto

lemma finish_ip_yields:
  assumes "sized n s" and "0 \<le> ip" and "ip + 20 \<le> int n"
  shows "yields (finish_ip ip s) (sized n)"
  using assms unfolding finish_ip_def by (intro safe_steps safe_reads safe_ends) auto

lemma set_transport_yields:
  assumes s: "sized n s" and ip: "0 \<le> ip" and h: "h = (if ver = 4 then 20 else 40)"
    and room: "ip + h + transport_room packet \<le> int n" and n: "int n \<le> 1600"
    and c: "complete_packet packet" "IsInstanceOf packet IPPacketC"
  shows "yields (set_transport packet ver ip (ip + h) (data_length (pk_data packet) + h) s)
    (\<lambda>(l, s). sized n s \<and> 0 \<le> l \<and> l \<le> h + transport_room packet)"
proof -
  have h': "20 \<le> h" "0 \<le> transport_room packet" using h by (auto simp: transport_room_def icmp_room_def)
  then have hdr: "ip + 20 \<le> int n" using room by linarith
  note proto = set_proto_len_yields [OF _ ip hdr]
  have data: "pk_data packet \<noteq> None" if "pk_class packet \<noteq> ICMPPacketC"
    using c that by (cases "pk_class packet") (auto simp: complete_packet_def IsInstanceOf_def)
  consider (tcp) bs where "pk_class packet = TCPPacketC" "pk_data packet = Some bs"
    | (udp) bs where "pk_class packet = UDPPacketC" "pk_data packet = Some bs"
    | (icmp) "pk_class packet = ICMPPacketC"
    | (other) bs where "pk_class packet = IPPacketC" "pk_data packet = Some bs"
    using c(2) data by (cases "pk_class packet") (auto simp: IsInstanceOf_def)
  then show ?thesis
  proof cases
    case tcp
    then have "ip + h + 20 + int (length bs) \<le> int n"
      using room by (simp add: transport_room_def IsInstanceOf_def data_length_def)
    then show ?thesis
      using tcp s ip hdr h' n
      by (simp add: set_transport_def IsInstanceOf_def transport_room_def data_length_def layout Let_def)
         (intro yields_step [OF proto] yields_step [OF set_tcp_yields] yields_Inr, auto)
  next
    case udp
    then have "ip + h + 8 + int (length bs) \<le> int n"
      using room by (simp add: transport_room_def IsInstanceOf_def data_length_def)
    then show ?thesis
      using udp s ip hdr h' n
      by (simp add: set_transport_def IsInstanceOf_def transport_room_def data_length_def layout Let_def)
         (intro yields_step [OF proto] yields_step [OF set_udp_yields] yields_Inr, auto)
  next
    case icmp
    then have room': "ip + h + icmp_room (pk_data packet) \<le> int n"
      and f: "icmp_complete (pk_icmp packet)"
      using room c by (auto simp: transport_room_def complete_packet_def IsInstanceOf_def)
    have "yields (set_icmp (pk_icmp packet) (ip + h) (pk_data packet) s)
        (\<lambda>(k, s). sized n s \<and> 0 \<le> k + data_length (pk_data packet) \<and>
           k + data_length (pk_data packet) \<le> icmp_room (pk_data packet))"
      by (rule set_icmp_yields) (use s ip h' room' f in auto)
    then show ?thesis
      using icmp h'
      by (simp add: set_transport_def IsInstanceOf_def transport_room_def Let_def)
         (erule yields_seq; clarsimp; intro yields_step [OF proto] yields_Inr; simp)
  next
    case other
    then have "ip + h + int (length bs) \<le> int n"
      using room by (simp add: transport_room_def IsInstanceOf_def data_length_def)
    then show ?thesis
      using other s ip hdr h h'
      by (auto simp: set_transport_def IsInstanceOf_def transport_room_def data_length_def layout Let_def
            intro!: yields_Inr safe_steps)
  qed
qed

lemma set_ip_packet_yields:
  assumes s: "sized n s" and p: "0 \<le> p" and n: "int n \<le> 1600"
    and room: "p + (if ip_version (pk_ip packet) = 4 then 20 else 40) + transport_room packet \<le> int n"
    and c: "complete_packet packet" "IsInstanceOf packet IPPacketC"
  shows "yields (set_ip_packet packet p (data_length (pk_data packet)) s)
    (\<lambda>(l, s). sized n s \<and> 0 \<le> l \<and>
       l \<le> (if ip_version (pk_ip packet) = 4 then 20 else 40) + transport_room packet)"
proof -
  let ?ver = "sint (ip_version (pk_ip packet))"
  let ?h = "if ?ver = 4 then 20 else 40 :: int"
  have ver: "ip_version (pk_ip packet) = 4 \<longleftrightarrow> ?ver = 4"
    by (auto intro: signed_word_eqI)
  have "0 \<le> transport_room packet" by (auto simp: transport_room_def icmp_room_def)
  then have hdr: "p + ?h \<le> int n" using room by (simp add: ver)
  have f: "has_addresses (pk_ip packet)" using c by (simp add: complete_packet_def)
  note ip = set_ip_yields [OF _ p _ f] set_ipv6_yields [OF _ p _ f]
  note tr = set_transport_yields [OF _ p refl _ n c]
  show ?thesis
  proof (cases "?ver = 4")
    case True
    have "yields (set_transport packet 4 p (p + 20) (data_length (pk_data packet) + 20) t)
        (\<lambda>(l, s). sized n s \<and> 0 \<le> l \<and> l \<le> 20 + transport_room packet)" if "sized n t" for t
      using tr [where ver = 4] that room True by (simp add: ver)
    note tr = yields_seq [OF this]
    show ?thesis
      using s hdr True p
      by (simp add: set_ip_packet_def ver layout Let_def bindr_assoc)
        (intro yields_step [OF ip(1)] tr yields_pair yields_step [OF finish_ip_yields] yields_Inr; auto)
  next
    case False
    have tr: "yields (set_transport packet ?ver p (p + 40) (data_length (pk_data packet) + 40) t)
        (\<lambda>(l, s). sized n s \<and> 0 \<le> l \<and> l \<le> 40 + transport_room packet)" if "sized n t" for t
      using tr [where ver = ?ver] that room False by (simp add: ver)
    show ?thesis
      using s hdr False
      by (simp add: set_ip_packet_def ver Let_def bindr_assoc)
        (intro yields_step [OF ip(2)]; use tr in auto)
  qed
qed

lemma set_layers_yields:
  assumes s: "sized n s" and p: "0 \<le> p" and n: "int n \<le> 1600"
    and room: "p + frame_room packet \<le> int n + 14" and c: "complete_packet packet"
  shows "yields (set_layers packet p s) (\<lambda>(l, s). sized n s \<and> 0 \<le> l \<and> l \<le> frame_room packet - 14)"
proof -
  let ?L = "data_length (pk_data packet)"
  have len: "(case pk_data packet of None \<Rightarrow> 0 | Some bs \<Rightarrow> int (length bs)) = ?L"
    by (simp add: data_length_def)
  consider (ip) "IsInstanceOf packet IPPacketC"
    | (arp) "\<not> IsInstanceOf packet IPPacketC" "IsInstanceOf packet ARPPacketC"
    | (other) "\<not> IsInstanceOf packet IPPacketC" "\<not> IsInstanceOf packet ARPPacketC"
    by blast
  then show ?thesis
  proof cases
    case ip
    have "yields (set_ip_packet packet p ?L s) (\<lambda>(l, s). sized n s \<and> 0 \<le> l \<and>
       l \<le> (if ip_version (pk_ip packet) = 4 then 20 else 40) + transport_room packet)"
      by (rule set_ip_packet_yields) (use s p n c ip room in \<open>auto simp: frame_room_def\<close>)
    then show ?thesis
      unfolding set_layers_def Let_def len using ip by (simp add: frame_room_def)
  next
    case arp
    then have "p + 279 \<le> int n" and "yields (set_arp (pk_arp packet) p s) (\<lambda>(k, s). k = sizeof_ether_arp \<and> sized n s)"
      using s p room c by (auto simp: frame_room_def complete_packet_def intro!: set_arp_yields)
    then show ?thesis
      unfolding set_layers_def Let_def len
      using arp by (auto simp: frame_room_def sizeof_ether_arp_def elim!: yieldsE intro!: yields_Inr)
  next
    case other
    then have "yields (GetByteArrayRegion (pk_data packet) 0 ?L p s) (sized n)"
      using s p room c by (auto simp: frame_room_def complete_packet_def intro!: region_yields)
    then show ?thesis
      unfolding set_layers_def Let_def len
      using other by (auto simp: frame_room_def elim!: yieldsE intro!: yields_Inr)
  qed
qed

lemma set_packet_yields:
  assumes s: "sized n s" and p: "0 \<le> p" and n: "14 \<le> n" "n \<le> 1600"
    and room: "p + frame_room packet \<le> int n" and c: "complete_packet packet"
  shows "yields (set_packet packet p link s) (\<lambda>(l, s). sized n s \<and> 0 \<le> l \<and> l \<le> frame_room packet)"
proof -
  have "14 \<le> frame_room packet" by (auto simp: frame_room_def transport_room_def icmp_room_def)
  then have "p + 14 \<le> int n" using room by linarith
  then have "yields (set_ether (pk_datalink packet) p s) (\<lambda>(k, s). (k = 0 \<or> k = 14) \<and> sized n s)"
    using c by (intro set_ether_yields [OF s p]) (auto simp: complete_packet_def)
  then have "yields (if link then set_ether (pk_datalink packet) p s else Inr (0, s))
      (\<lambda>(k, s). (k = 0 \<or> k = 14) \<and> sized n s)"
    using s by (auto intro: yields_Inr)
  then show ?thesis
    unfolding set_packet_def
  proof (rule yields_seq, clarify)
    fix k :: int and t assume k: "k = 0 \<or> k = 14" and t: "sized n t"
    have "yields (set_layers packet (p + k) t) (\<lambda>(l, s). sized n s \<and> 0 \<le> l \<and> l \<le> frame_room packet - 14)"
      by (rule set_layers_yields) (use k p n room c t in auto)
    then show "yields (bindr (set_layers packet (p + k) t) (\<lambda>(len, s). Inr (len + k, s)))
        (\<lambda>(l, s). sized n s \<and> 0 \<le> l \<and> l \<le> frame_room packet)"
      by (rule yields_seq) (use k in \<open>auto intro!: yields_Inr\<close>)
  qed
qed

text \<open>
  C21. Total correctness of sending: a packet of any class whose arrays and addresses are not
  null and whose frame fits the 1600-byte stack array is sent. set_packet and the padding
  return, no access leaves the array whatever it held, and the frame has at least 60 bytes and
  no more than its layers need.
\<close>

theorem every_fitting_packet_is_sent:
  assumes c: "complete_packet packet" and room: "frame_room packet \<le> 1600" and buf: "length buf = 1600"
  shows "\<exists>frame. bytes_sent buf packet = Inr frame \<and> 60 \<le> length frame \<and>
     int (length frame) \<le> max 60 (frame_room packet)"
proof -
  have "yields (set_packet packet 0 True \<lparr>sbuf = buf, pending = None\<rparr>)
      (\<lambda>(l, s). sized 1600 s \<and> 0 \<le> l \<and> l \<le> frame_room packet)"
    by (rule set_packet_yields) (use assms in \<open>auto simp: sized_def\<close>)
  then obtain l s where run: "set_packet packet 0 True \<lparr>sbuf = buf, pending = None\<rparr> = Inr (l, s)"
    and s: "sized 1600 s" and l: "0 \<le> l" "l \<le> frame_room packet" by (auto elim: yieldsE)
  show ?thesis
  proof (cases "l < 60")
    case True
    have "yields (put_bytes l (replicate (nat (60 - l + 1)) 0) s) (sized 1600)"
      by (rule put_bytes_yields) (use s l True in auto)
    then show ?thesis
      using True by (auto simp: bytes_sent_def build_frame_def run rd_bytes_def in_range_def sized_def
          elim!: yieldsE)
  next
    case False
    then show ?thesis
      using s l room by (auto simp: bytes_sent_def build_frame_def run rd_bytes_def in_range_def sized_def)
  qed
qed

end
