(* ===== verification/CaptureSafety.thy ===== *)
theory CaptureSafety
  imports CaptureLaws Triples
begin

text \<open>
  Total correctness of the capturing side: the frames for which \<open>get_packet\<close> is sure to return,
  without a read behind the captured bytes. Conditions on the frame are those its own headers
  must meet: the lengths they claim lie inside it.
\<close>

section \<open>Reading a frame\<close>

abbreviation byte :: "mem \<Rightarrow> int \<Rightarrow> u8" where
  "byte m p \<equiv> m ! nat p"

text \<open>The length of the IPv4 header at \<open>p\<close> by its own field.\<close>

definition ihl :: "mem \<Rightarrow> int \<Rightarrow> int" where
  "ihl m p = 4 * uint (byte m p AND 0x0f)"

lemma u8_and_15: "uint ((b :: u8) AND 0x0f) < 16" "0 \<le> uint (b AND 0x0f)"
proof -
  have "b AND 0x0f \<le> 0x0f" by (rule word_and_le1)
  then show "uint (b AND 0x0f) < 16" by (simp add: word_le_def)
qed simp

lemma ihl_bounds: "0 \<le> ihl m p" "ihl m p \<le> 60"
  using u8_and_15 [of "byte m p"] by (simp_all add: ihl_def)

lemma rd8_in: "0 \<le> p \<Longrightarrow> p + 1 \<le> int (length m) \<Longrightarrow> rd8 m p = Inr (byte m p)"
  by (simp add: rd8_def in_range_def)

lemma rd16_in:
  "0 \<le> p \<Longrightarrow> p + 2 \<le> int (length m) \<Longrightarrow> rd16 m p = Inr (le16 (byte m p) (byte m (p + 1)))"
  by (simp add: rd16_def in_range_def nat_add_distrib)

lemma read_yields:
  "0 \<le> p \<Longrightarrow> p + 1 \<le> int (length m) \<Longrightarrow> yields (rd8 m p) (\<lambda>_. True)"
  "0 \<le> p \<Longrightarrow> p + 2 \<le> int (length m) \<Longrightarrow> yields (rd16 m p) (\<lambda>_. True)"
  "0 \<le> p \<Longrightarrow> p + 4 \<le> int (length m) \<Longrightarrow> yields (rd32 m p) (\<lambda>_. True)"
  "0 \<le> k \<Longrightarrow> 0 \<le> p \<Longrightarrow> p + k \<le> int (length m) \<Longrightarrow> yields (new_array m p k) (\<lambda>_. True)"
  by (auto simp: yields_def rd8_def rd16_def rd32_def new_array_def rd_bytes_def in_range_def)

lemmas reads = read_yields [THEN yields_read]

section \<open>The analysers\<close>

lemma analyze_ip_yields:
  assumes "0 \<le> p" and "p + 20 \<le> int (length m)" and "p + ihl m p \<le> int (length m)"
  shows "yields (analyze_ip m packet p) (\<lambda>(_, hlen). uint hlen = ihl m p)"
proof -
  have hl: "rd8 m (p + 0) = Inr (byte m p)"
    using rd8_in [of p m] assms by simp
  have hdr: "uint (push_bit 2 (ucast (byte m p AND 0x0f)) :: u16) = ihl m p"
    using u8_and_15 [of "byte m p"]
    by (simp add: push_bit_eq_mult uint_word_ariths uint_ucast_8_16 ihl_def mult.commute)
  have opt: "yields (new_array m (p + 20) (ihl m p - 20)) (\<lambda>_. True)" if "ihl m p > 20"
    by (rule read_yields) (use that assms in auto)
  show ?thesis
    unfolding analyze_ip_def Let_def hl bindr_simps hdr IPv4HDRLEN_def
    by (intro reads yields_if yields_Inr opt [THEN yields_read]) (use assms in \<open>simp_all add: hdr\<close>)
qed

lemma analyze_udp_yields:
  assumes "0 \<le> p" and "p + 8 \<le> int (length m)"
  shows "yields (analyze_udp m packet p) (\<lambda>_. True)"
  unfolding analyze_udp_def by (intro reads yields_Inr) (use assms in auto)

definition tcp_hlen :: "mem \<Rightarrow> int \<Rightarrow> int" where
  "tcp_hlen m p = 4 * uint (drop_bit 4 (byte m (p + 12)))"

lemma tcp_hlen_bounds: "0 \<le> tcp_hlen m p" "tcp_hlen m p \<le> 60"
proof -
  have "uint (drop_bit 4 (byte m (p + 12))) = uint (byte m (p + 12)) div 16"
    by (simp add: unsigned_drop_bit_eq drop_bit_eq_div uint_div)
  moreover have "uint (byte m (p + 12)) < 256" using uint_lt2p [of "byte m (p + 12)"] by simp
  moreover have "0 \<le> uint (byte m (p + 12)) div 16" by (rule pos_imp_zdiv_nonneg_iff [THEN iffD2]) simp_all
  moreover have "uint (byte m (p + 12)) div 16 \<le> 15" using calculation(2) by linarith
  ultimately show "0 \<le> tcp_hlen m p" "tcp_hlen m p \<le> 60" unfolding tcp_hlen_def by simp_all
qed

lemma analyze_tcp_yields:
  assumes "0 \<le> p" and "p + 20 \<le> int (length m)" and "p + tcp_hlen m p \<le> int (length m)"
  shows "yields (analyze_tcp m packet p) (\<lambda>(_, hlen). uint hlen = tcp_hlen m p)"
proof -
  have x2: "rd8 m (p + 12) = Inr (byte m (p + 12))"
    by (rule rd8_in) (use assms in auto)
  have hdr: "uint (ucast (drop_bit 4 (byte m (p + 12))) * 4 :: u16) = tcp_hlen m p"
    using tcp_hlen_bounds [of m p]
    by (simp add: uint_word_ariths uint_ucast_8_16 tcp_hlen_def mult.commute)
  have opt: "yields (new_array m (p + 20) (tcp_hlen m p - 20)) (\<lambda>_. True)" if "tcp_hlen m p > 20"
    by (rule read_yields) (use that assms in auto)
  show ?thesis
    unfolding analyze_tcp_def Let_def x2 bindr_simps hdr TCPHDRLEN_def
    by (intro reads yields_if yields_Inr opt [THEN yields_read]) (use assms in \<open>simp_all add: hdr\<close>)
qed

text \<open>The bytes an ICMP message of \<open>rest\<close> bytes must have for its type.\<close>

definition icmp_whole :: "bool \<Rightarrow> mem \<Rightarrow> int \<Rightarrow> int \<Rightarrow> bool" where
  "icmp_whole num_addrs m p rest \<longleftrightarrow>
     (let type = byte m p in
      8 \<le> rest \<and>
      (type = ICMP_REDIRECT \<or> type = ICMP_UNREACH \<or> type = ICMP_SOURCEQUENCH \<or> type = ICMP_TIMXCEED \<or>
         type = ICMP_PARAMPROB \<longrightarrow> 28 \<le> rest \<and> 8 + ihl m (p + 8) \<le> rest) \<and>
      (type = ICMP_ROUTERADVERT \<longrightarrow> num_addrs \<longrightarrow> byte m (p + 4) = 0) \<and>
      (type = ICMP_TSTAMP \<or> type = ICMP_TSTAMPREPLY \<longrightarrow> 20 \<le> rest) \<and>
      (type = ICMP_MASKREQ \<or> type = ICMP_MASKREPLY \<longrightarrow> 12 \<le> rest))"

lemma analyze_icmp_yields:
  assumes p: "0 \<le> p" "p + rest \<le> int (length m)" and w: "icmp_whole na m p rest"
  shows "yields (analyze_icmp na va m packet p clen) (\<lambda>_. True)"
proof -
  let ?type = "byte m p"
  have r: "8 \<le> rest" using w by (simp add: icmp_whole_def Let_def)
  then have ty: "rd8 m (p + 0) = Inr ?type" "rd8 m (p + 4) = Inr (byte m (p + 4))"
    using p rd8_in [of p m] rd8_in [of "p + 4" m] by simp_all
  have err: "28 \<le> rest \<and> 8 + ihl m (p + 8) \<le> rest"
    if "?type = ICMP_REDIRECT \<or> ?type = ICMP_UNREACH \<or> ?type = ICMP_SOURCEQUENCH \<or>
      ?type = ICMP_TIMXCEED \<or> ?type = ICMP_PARAMPROB"
    using that w unfolding icmp_whole_def Let_def by blast
  have time: "20 \<le> rest" if "?type = ICMP_TSTAMP \<or> ?type = ICMP_TSTAMPREPLY"
    using that w unfolding icmp_whole_def Let_def by blast
  have netmask: "12 \<le> rest" if "?type = ICMP_MASKREQ \<or> ?type = ICMP_MASKREPLY"
    using that w unfolding icmp_whole_def Let_def by blast
  have routers: "\<not> byte m (p + 4) > 0" if "na \<and> ?type = ICMP_ROUTERADVERT"
    using that w unfolding icmp_whole_def Let_def by simp
  have ip: "yields (analyze_ip m (AllocObject IPPacketC) (p + 8)) (\<lambda>_. True)"
    if "?type = ICMP_REDIRECT \<or> ?type = ICMP_UNREACH \<or> ?type = ICMP_SOURCEQUENCH \<or>
      ?type = ICMP_TIMXCEED \<or> ?type = ICMP_PARAMPROB"
    by (rule yields_weaken, rule analyze_ip_yields) (use err [OF that] p in simp_all)
  note steps = yields_if reads yields_Inr ip [THEN yields_read] yields_pair TrueI
    yields_read [where m = "if b then x else y" for b x y]
  show ?thesis
    unfolding analyze_icmp_def Let_def ty bindr_simps
    by (intro steps; use p r in simp; use err time netmask routers in auto)
qed

section \<open>The transport part and the arrays\<close>

text \<open>A transport header whose own lengths lie in the \<open>rest\<close> bytes at \<open>p\<close>.\<close>

definition transport_whole :: "bool \<Rightarrow> mem \<Rightarrow> u8 \<Rightarrow> int \<Rightarrow> int \<Rightarrow> bool" where
  "transport_whole num_addrs m proto p rest \<longleftrightarrow>
     (if proto = IPPROTO_TCP then 20 \<le> rest \<and> tcp_hlen m p \<le> rest
      else if proto = IPPROTO_UDP then 8 \<le> rest
      else if proto = IPPROTO_ICMP then icmp_whole num_addrs m p rest
      else True)"

lemma sint_of_uint: "uint (w :: u16) < 32768 \<Longrightarrow> sint w = uint w"
proof -
  assume "uint w < 32768"
  moreover have "- (2 ^ 15) \<le> uint w" by (rule order_trans [OF _ uint_ge_0]) simp
  ultimately show ?thesis by (simp add: sint_uint signed_take_bit_int_eq_self)
qed

lemma analyze_transport_yields:
  assumes p: "0 \<le> p" "p + rest \<le> int (length m)"
    and t: "tproto = ucast proto \<and> transport_whole na m proto p rest \<or>
      tproto \<noteq> ucast IPPROTO_TCP \<and> tproto \<noteq> ucast IPPROTO_UDP \<and> tproto \<noteq> ucast IPPROTO_ICMP"
  shows "yields (analyze_transport na j m tproto p clen packet) (\<lambda>(_, hlen). 0 \<le> sint hlen \<and> sint hlen \<le> 60)"
proof -
  have tcp: "yields (analyze_tcp m packet p) (\<lambda>(_, hlen). 0 \<le> sint hlen \<and> sint hlen \<le> 60)"
    if "20 \<le> rest" "tcp_hlen m p \<le> rest"
  proof (rule yields_weaken)
    show "yields (analyze_tcp m packet p) (\<lambda>(_, hlen). uint hlen = tcp_hlen m p)"
      by (rule analyze_tcp_yields) (use p that in simp_all)
  qed (use tcp_hlen_bounds [of m p] in \<open>auto simp: sint_of_uint\<close>)
  have udp: "yields (analyze_udp m packet p) (\<lambda>_. True)" if "8 \<le> rest"
    by (rule analyze_udp_yields) (use p that in simp_all)
  have icmp: "yields (analyze_icmp na va m packet p c) (\<lambda>_. True)" if "icmp_whole na m p rest" for va c
    by (rule analyze_icmp_yields [OF p that])
  have ne: "IPPROTO_TCP \<noteq> IPPROTO_UDP" "IPPROTO_TCP \<noteq> IPPROTO_ICMP" "IPPROTO_UDP \<noteq> IPPROTO_ICMP"
    by (simp_all add: layout)
  show ?thesis
    unfolding analyze_transport_def
    by (intro yields_if tcp udp [THEN yields_read] icmp [THEN yields_read] yields_Inr)
       (use t ne in \<open>auto simp: transport_whole_def u16_proto sint_to_short UDPHDRLEN_def ICMPHDRLEN_def\<close>)
qed

lemma set_arrays_yields:
  assumes "0 \<le> data" and "data \<le> int (length m)" and "length m < 32768" and "0 \<le> sint clen"
    and "data + sint clen \<le> int (length m)"
  shows "yields (set_arrays m data clen packet) (\<lambda>_. True)"
proof -
  have "sint (to_short data) = data" using assms by (simp add: sint_to_short)
  then show ?thesis
    unfolding set_arrays_def Let_def
    by (intro reads yields_if yields_Inr) (use assms in auto)
qed

text \<open>The end of \<open>fill_packet\<close>, from the transport header on.\<close>

lemma tail_yields:
  assumes n: "length m < 32768" and p: "0 \<le> p" "p + rest \<le> int (length m)" "p \<le> int (length m)"
    and c: "0 \<le> p + sint clen" "p + sint clen \<le> int (length m)"
    and t: "tproto = ucast proto \<and> transport_whole na m proto p rest \<or>
      tproto \<noteq> ucast IPPROTO_TCP \<and> tproto \<noteq> ucast IPPROTO_UDP \<and> tproto \<noteq> ucast IPPROTO_ICMP"
  shows "yields (bindr (analyze_transport na j m tproto p (clen :: jshort) packet) (\<lambda>(packet, hlen).
     let hlen = (if sint hlen > sint clen then clen else hlen);
         clen = to_short (sint clen - sint hlen);
         data = p + sint hlen
     in set_arrays m data clen packet)) (\<lambda>_. True)"
proof (rule yields_seq [OF analyze_transport_yields [OF p(1,2) t]], clarify)
  fix q and hlen :: jshort assume h: "0 \<le> sint hlen" "sint hlen \<le> 60"
  let ?h = "if sint hlen > sint clen then clen else hlen"
  have d: "0 \<le> sint clen - sint ?h" "0 \<le> p + sint ?h" "sint clen - sint ?h < 32768"
    using h c p sint_lt [of clen] by auto
  then have "sint (to_short (sint clen - sint ?h)) = sint clen - sint ?h"
    by (simp add: sint_to_short)
  then show "yields (let hlen = ?h; clen = to_short (sint clen - sint hlen); data = p + sint hlen
      in set_arrays m data clen q) (\<lambda>_. True)"
    unfolding Let_def by (intro set_arrays_yields) (use d c n in auto)
qed

section \<open>The length of the data\<close>

text \<open>
  The clamp to the captured length, done unless \<open>tproto\<close> is \<open>UNKNOWN_PROTO\<close>: what it leaves is
  a length inside the frame, also for a length of the header that is negative as a \<open>short\<close>.
\<close>

lemma clamp_bounds:
  fixes clen :: jshort
  assumes n: "14 \<le> n" "n < 32768" and rest: "rest = (of_nat n :: u32) - of_int 14"
    and c: "c = (if (scast clen :: u32) > rest then ucast rest else clen)"
  shows "0 \<le> sint c \<and> sint c \<le> int n - 14"
proof -
  have r: "rest = of_nat (n - 14)" using n(1) by (simp add: rest)
  have "uint (of_nat k :: u32) = int k" if "k < 32768" for k
    using that by (simp add: unsigned_of_nat take_bit_nat_eq_self)
  from this [of "n - 14"] have ur: "uint rest = int n - 14" unfolding r using n by linarith
  define w where "w = (if (scast clen :: u32) > rest then rest else scast clen)"
  have le: "uint w \<le> int n - 14" using ur by (auto simp: w_def word_le_def not_less)
  have "(ucast (scast clen :: u32) :: jshort) = clen"
    by (rule bit_word_eqI) (auto simp: bit_simps)
  then have cw: "c = ucast w" by (simp add: c w_def)
  have "uint c = uint w"
    using le n unfolding cw by (simp add: unsigned_ucast_eq take_bit_int_eq_self)
  then show ?thesis using le n sint_of_uint [of c] by simp
qed

text \<open>
  \<open>fill_packet\<close> behind the analysis of the network layer, for a frame of Ethernet: \<open>clen\<close> is the
  length of the network header and what follows it by its own field, \<open>hlen\<close> that of the header.
\<close>

lemma fill_rest_yields:
  fixes clen hlen :: jshort
  assumes n: "14 \<le> length m" "length m < 32768"
    and h: "0 \<le> sint hlen" "14 + sint hlen \<le> int (length m)"
    and known: "tproto = UNKNOWN_PROTO \<Longrightarrow> 0 \<le> sint clen \<and> sint clen \<le> int (length m) - 14"
    and t: "tproto = ucast proto \<and> transport_whole na m proto (14 + sint hlen) (int (length m) - 14 - sint hlen) \<or>
      tproto \<noteq> ucast IPPROTO_TCP \<and> tproto \<noteq> ucast IPPROTO_UDP \<and> tproto \<noteq> ucast IPPROTO_ICMP"
  shows "yields (bindr (if tproto \<noteq> UNKNOWN_PROTO
       then let rest = of_nat (length m) - of_int 14 in
            Inr (if (scast clen :: u32) > rest then ucast rest else clen)
       else Inr clen) (\<lambda>clen.
     let data = 14 + sint hlen; clen = to_short (sint clen - sint hlen) in
     bindr (analyze_transport na j m tproto data clen packet) (\<lambda>(packet, hlen).
     let hlen = (if sint hlen > sint clen then clen else hlen);
         clen = to_short (sint clen - sint hlen);
         data = data + sint hlen
     in set_arrays m data clen packet))) (\<lambda>_. True)"
proof (rule yields_seq [where Q = "\<lambda>c. 0 \<le> sint c \<and> sint c \<le> int (length m) - 14"])
  show "yields (if tproto \<noteq> UNKNOWN_PROTO
       then let rest = of_nat (length m) - of_int 14 in
            Inr (if (scast clen :: u32) > rest then ucast rest else clen)
       else Inr clen) (\<lambda>c. 0 \<le> sint c \<and> sint c \<le> int (length m) - 14)"
    unfolding Let_def
    by (intro yields_if yields_Inr) (rule clamp_bounds [OF n refl refl], use known in simp)
next
  fix c :: jshort assume c: "0 \<le> sint c \<and> sint c \<le> int (length m) - 14"
  have "sint (to_short (sint c - sint hlen)) = sint c - sint hlen"
    by (rule sint_to_short) (use c h n in auto)
  with c h n show "yields (let data = 14 + sint hlen; clen = to_short (sint c - sint hlen) in
     bindr (analyze_transport na j m tproto data clen packet) (\<lambda>(packet, hlen).
     let hlen = (if sint hlen > sint clen then clen else hlen);
         clen = to_short (sint clen - sint hlen);
         data = data + sint hlen
     in set_arrays m data clen packet)) (\<lambda>_. True)"
    unfolding Let_def
    by (intro tail_yields [OF n(2) _ _ _ _ _ t, unfolded Let_def]) simp_all
qed

section \<open>Whole frames\<close>

text \<open>
  A transport part of \<open>rest\<close> bytes at \<open>p\<close> that the code can analyse: its header is cut off
  before the end of the fixed part, and then \<open>claimed\<close>, the length the network header claims, must
  not reach behind the frame; or it is whole.
\<close>

definition segment_fits :: "bool \<Rightarrow> mem \<Rightarrow> u8 \<Rightarrow> int \<Rightarrow> int \<Rightarrow> jshort \<Rightarrow> bool" where
  "segment_fits num_addrs m proto p rest claimed \<longleftrightarrow>
     (if proto = IPPROTO_TCP \<and> rest < 20 \<or> proto = IPPROTO_UDP \<and> rest < 8 \<or> proto = IPPROTO_ICMP \<and> rest < 8
      then 0 \<le> sint claimed \<and> sint claimed \<le> int (length m) - 14
      else transport_whole num_addrs m proto p rest)"

definition be_field :: "mem \<Rightarrow> int \<Rightarrow> u16" where
  "be_field m p = be16 (byte m p) (byte m (p + 1))"

definition ipv4_whole :: "bool \<Rightarrow> mem \<Rightarrow> bool" where
  "ipv4_whole num_addrs m \<longleftrightarrow>
     (let n = int (length m); hl = ihl m 14 in
      34 \<le> n \<and> 14 + hl \<le> n \<and>
      (14 + hl < n \<and> be_field m 20 AND 0x1fff = 0 \<longrightarrow>
         segment_fits num_addrs m (byte m 23) (14 + hl) (n - 14 - hl) (be_field m 16)))"

text \<open>
  An extension header of IPv6 with \<open>len\<close> in its length field: what the walk of \<open>analyze_ipv6\<close> needs
  of the frame, which is the header itself and, for an authentication header, \<open>len\<close> bytes that the
  code reads 96 bytes behind its start; and how far the walk goes on, which is further than the
  header is long when it is a routing header with addresses.
\<close>

definition ext_claim :: "u8 \<Rightarrow> int \<Rightarrow> int" where
  "ext_claim proto len =
     (if proto = IPPROTO_FRAGMENT then 8 else if proto = IPPROTO_AH then 4 * (len + 2) else 8 * (len + 1))"

definition ext_needs :: "u8 \<Rightarrow> int \<Rightarrow> int" where
  "ext_needs proto len =
     max (ext_claim proto len) (if proto = IPPROTO_AH then (if len = 0 then 12 else 96 + len) else 8)"

definition ext_advance :: "u8 \<Rightarrow> int \<Rightarrow> int" where
  "ext_advance proto len = ext_claim proto len + (if proto = IPPROTO_ROUTING then 16 * (len div 2) else 0)"

lemma ext_advance_claim:
  "0 \<le> len \<Longrightarrow> 8 \<le> ext_claim proto len" "0 \<le> len \<Longrightarrow> ext_claim proto len \<le> ext_advance proto len"
  by (auto simp: ext_claim_def ext_advance_def)

function exts_whole :: "mem \<Rightarrow> u8 \<Rightarrow> int \<Rightarrow> bool" where
  "exts_whole m proto data =
     (if \<not> is_ext proto then True
      else if data + 8 \<le> int (length m) then
        (let len = uint (byte m (data + 1)) in
         data + ext_needs proto len \<le> int (length m) \<and>
         exts_whole m (byte m data) (data + ext_advance proto len))
      else False)"
  by pat_completeness auto
termination
proof (relation "measure (\<lambda>(m, proto, data). nat (int (length m) - data))")
  fix m proto data and len :: int
  assume "data + 8 \<le> int (length m)" and "len = uint (byte m (data + 1))"
  then show "((m, byte m data, data + ext_advance proto len), m, proto, data)
      \<in> measure (\<lambda>(m, proto, data). nat (int (length m) - data))"
    using ext_advance_claim [of len proto] by simp
qed simp

declare exts_whole.simps [simp del]

text \<open>
  An IPv6 packet: with nothing behind its header it claims nothing; behind extension headers the
  code looks for no transport header.
\<close>

definition ipv6_whole :: "bool \<Rightarrow> mem \<Rightarrow> bool" where
  "ipv6_whole num_addrs m \<longleftrightarrow>
     (let n = int (length m); claimed = be_field m 18 + 40 in
      54 \<le> n \<and>
      (if is_ext (byte m 20) then drop_bit 4 (byte m 14) = 6 \<and> exts_whole m (byte m 20) 54
       else if n = 54 then 0 \<le> sint claimed \<and> sint claimed \<le> 40
       else segment_fits num_addrs m (byte m 20) 54 (n - 54) claimed))"

definition arp_whole :: "mem \<Rightarrow> bool" where
  "arp_whole m \<longleftrightarrow> 22 \<le> length m \<and>
     22 + 2 * uint (byte m 18) + 2 * uint (byte m 19) \<le> int (length m)"

definition frame_whole :: "bool \<Rightarrow> mem \<Rightarrow> bool" where
  "frame_whole num_addrs m \<longleftrightarrow> 14 \<le> length m \<and>
     (let type = be_field m 12 in
      if type = ETHERTYPE_IP then ipv4_whole num_addrs m
      else if type = ETHERTYPE_IPV6 then ipv6_whole num_addrs m
      else if type = ETHERTYPE_ARP then arp_whole m
      else if type = 1 \<or> type = 6 \<or> type = 17
        then segment_fits num_addrs m (ucast type) 14 (int (length m) - 14) 0
      else True)"

lemma check_truncated_fits:
  assumes f: "segment_fits na m proto p rest claimed" and c: "sint clen = rest"
    and t: "tproto = check_truncated (ucast proto) clen"
  shows "tproto = UNKNOWN_PROTO \<Longrightarrow> 0 \<le> sint claimed \<and> sint claimed \<le> int (length m) - 14"
    and "tproto = ucast proto \<and> transport_whole na m proto p rest \<or>
      tproto \<noteq> ucast IPPROTO_TCP \<and> tproto \<noteq> ucast IPPROTO_UDP \<and> tproto \<noteq> ucast IPPROTO_ICMP"
proof -
  have "uint (ucast proto :: u16) < 256" using uint_lt2p [of proto] by (simp add: uint_ucast_8_16)
  moreover have "uint (- 1 :: u16) = 65535" by (simp add: unsigned_minus_1_eq_mask mask_eq_exp_minus_1)
  ultimately have ne: "(ucast proto :: u16) \<noteq> - 1" by fastforce
  let ?cut = "proto = IPPROTO_TCP \<and> rest < 20 \<or> proto = IPPROTO_UDP \<and> rest < 8 \<or> proto = IPPROTO_ICMP \<and> rest < 8"
  have tp: "tproto = (if ?cut then - 1 else ucast proto)"
    unfolding t check_truncated_def c u16_proto
    by (simp add: TCPHDRLEN_def UDPHDRLEN_def ICMPHDRLEN_def)
  show "tproto = UNKNOWN_PROTO \<Longrightarrow> 0 \<le> sint claimed \<and> sint claimed \<le> int (length m) - 14"
    using f ne unfolding tp segment_fits_def by (auto simp: UNKNOWN_PROTO_def split: if_splits)
  show "tproto = ucast proto \<and> transport_whole na m proto p rest \<or>
      tproto \<noteq> ucast IPPROTO_TCP \<and> tproto \<noteq> ucast IPPROTO_UDP \<and> tproto \<noteq> ucast IPPROTO_ICMP"
    using f unfolding tp segment_fits_def by (auto simp: layout split: if_splits)
qed

section \<open>get_packet on Ethernet\<close>

lemma ether_tables [simp]:
  "skip_datalink_header p DLT_EN10MB = Inr (p + 14)" "datalink_hlen DLT_EN10MB = Inr 14"
  by (simp_all add: skip_datalink_header_def datalink_hlen_def DLT_EN10MB_def table_def offset_data_def)

lemma be_field_in:
  "0 \<le> p \<Longrightarrow> p + 2 \<le> int (length m) \<Longrightarrow> rd16 m p = Inr (htons (be_field m p))"
  by (simp add: rd16_in be_field_def)

lemma fill_packet_ether:
  assumes n: "14 \<le> length m" "length m < 32768" and np: "nproto \<noteq> UNKNOWN_PROTO"
    and net: "yields (analyze_network m DLT_EN10MB nproto (of_nat (length m)) 14 p)
      (\<lambda>(_, clen, hlen). clen = claimed \<and> sint hlen = h)"
    and h: "0 \<le> h" "14 + h \<le> int (length m)"
    and known: "tproto = UNKNOWN_PROTO \<longrightarrow> 0 \<le> sint claimed \<and> sint claimed \<le> int (length m) - 14"
    and t: "tproto = ucast proto \<and> transport_whole na m proto (14 + h) (int (length m) - 14 - h) \<or>
       tproto \<noteq> ucast IPPROTO_TCP \<and> tproto \<noteq> ucast IPPROTO_UDP \<and> tproto \<noteq> ucast IPPROTO_ICMP"
  shows "yields (fill_packet na j DLT_EN10MB (of_nat (length m)) m nproto tproto p) (\<lambda>_. True)"
proof -
  have "yields (bindr (analyze_network m DLT_EN10MB nproto (of_nat (length m)) 14 p)
     (\<lambda>(packet, clen, hlen). bindr (if tproto \<noteq> UNKNOWN_PROTO
       then let rest = of_nat (length m) - of_int 14 in
            Inr (if (scast clen :: u32) > rest then ucast rest else clen)
       else Inr clen) (\<lambda>clen.
     let data = 14 + sint hlen; clen = to_short (sint clen - sint hlen) in
     bindr (analyze_transport na j m tproto data clen packet) (\<lambda>(packet, hlen).
     let hlen = (if sint hlen > sint clen then clen else hlen);
         clen = to_short (sint clen - sint hlen);
         data = data + sint hlen
     in set_arrays m data clen packet)))) (\<lambda>_. True)"
    by (rule yields_seq [OF net], clarify, rule fill_rest_yields [where proto = proto]) (use n h known t in simp_all)
  then show ?thesis
    using np by (simp add: fill_packet_def cong: if_cong)
qed

lemma get_packet_ether:
  assumes n: "14 \<le> length m" "length m < 32768" and cap: "caplen header = of_nat (length m)"
    and t: "transport_protocol j m DLT_EN10MB (be_field m 12) (to_short (int (length m) - 14)) = Inr (tproto, c)"
    and fill: "\<And>p. yields (fill_packet na j DLT_EN10MB (of_nat (length m)) m (be_field m 12) tproto p) (\<lambda>_. True)"
  shows "yields (get_packet na j DLT_EN10MB header m) (\<lambda>_. True)"
proof -
  have type: "rd16 m 12 = Inr (htons (be_field m 12))" by (rule be_field_in) (use n in auto)
  have np: "network_protocol m DLT_EN10MB (of_nat (length m)) = Inr (be_field m 12, to_short (int (length m) - 14))"
    by (rule network_protocol_ether [OF type n(2)])
  have dl: "yields (analyze_datalink m 0 DLT_EN10MB) (\<lambda>_. True)"
    unfolding analyze_datalink_def by (intro yields_if reads yields_Inr) (use n in auto)
  show ?thesis
    unfolding get_packet_def cap np bindr_simps prod.case t Let_def
    by (rule yields_read [OF dl fill])
qed

lemma sint_room: "length m < 32768 \<Longrightarrow> - 32768 \<le> int (length m) - k \<Longrightarrow> 0 \<le> k \<Longrightarrow>
    sint (to_short (int (length m) - k)) = int (length m) - k"
  by (rule sint_to_short) auto

lemma ipv4_yields:
  assumes n: "14 < length m" "length m < 32768" and cap: "caplen header = of_nat (length m)"
    and type: "be_field m 12 = ETHERTYPE_IP" and w: "ipv4_whole na m"
  shows "yields (get_packet na j DLT_EN10MB header m) (\<lambda>_. True)"
proof -
  let ?n = "int (length m)" and ?hl = "ihl m 14" and ?p = "byte m 23" and ?tot = "be_field m 16"
  have b: "34 \<le> ?n" "14 + ?hl \<le> ?n" using w by (simp_all add: ipv4_whole_def Let_def)
  have rd: "rd8 m 14 = Inr (byte m 14)" "rd16 m 20 = Inr (htons (be_field m 20))" "rd8 m 23 = Inr ?p"
    "rd16 m 16 = Inr (htons ?tot)"
    using b by (simp_all add: rd8_in be_field_in)
  let ?c = "to_short (?n - 14 - ?hl)"
  let ?first = "14 + ?hl < ?n \<and> be_field m 20 AND IP_OFFMASK = 0"
  have "?n - 14 - ?hl = ?n - 14 - 4 * uint (byte m 14 AND 0x0f)" by (simp add: ihl_def)
  note d = detect_transport_ipv4 [OF n rd(1-3) this]
  have first: "(?n - 14 - ?hl > 0 \<and> ntohs (htons (be_field m 20)) AND IP_OFFMASK = 0) = ?first"
    by auto
  define tproto where "tproto = check_truncated (if ?first then ucast ?p else ETHERTYPE_IP) ?c"
  have t: "transport_protocol j m DLT_EN10MB ETHERTYPE_IP (to_short (?n - 14)) = Inr (tproto, ?c)"
    unfolding transport_protocol_def d(1) first bindr_simps prod.case tproto_def ..
  have fits: "(tproto = UNKNOWN_PROTO \<longrightarrow> 0 \<le> sint ?tot \<and> sint ?tot \<le> ?n - 14) \<and>
      (tproto = ucast ?p \<and> transport_whole na m ?p (14 + ?hl) (?n - 14 - ?hl) \<or>
       tproto \<noteq> ucast IPPROTO_TCP \<and> tproto \<noteq> ucast IPPROTO_UDP \<and> tproto \<noteq> ucast IPPROTO_ICMP)"
  proof (cases ?first)
    case True
    then have f: "segment_fits na m ?p (14 + ?hl) (?n - 14 - ?hl) ?tot"
      using w by (simp add: ipv4_whole_def Let_def IP_OFFMASK_def)
    have "tproto = check_truncated (ucast ?p) ?c" using True by (simp add: tproto_def)
    from check_truncated_fits [OF f d(2) this] show ?thesis by blast
  next
    case False
    then have "tproto = ETHERTYPE_IP"
      unfolding tproto_def check_truncated_def by (auto simp: layout)
    then show ?thesis by (simp add: layout)
  qed
  have ip: "yields (analyze_ip m q 14) (\<lambda>(_, hlen). uint hlen = ?hl)" for q
    by (rule analyze_ip_yields) (use b in auto)
  have net: "yields (analyze_network m DLT_EN10MB ETHERTYPE_IP (of_nat (length m)) 14 q) (\<lambda>(_, clen, hlen).
      clen = ?tot \<and> sint hlen = ?hl)" for q
    unfolding analyze_network_def
    by (simp add: rd ntohs_def, rule yields_seq [OF ip])
       (use ihl_bounds [of m 14] in \<open>auto simp: sint_of_uint intro!: yields_Inr\<close>)
  have "yields (fill_packet na j DLT_EN10MB (of_nat (length m)) m ETHERTYPE_IP tproto q) (\<lambda>_. True)" for q
    by (rule fill_packet_ether [where proto = ?p, OF _ n(2) _ net _ b(2)])
       (use n fits ihl_bounds [of m 14] in \<open>simp_all add: ETHERTYPE_IP_def UNKNOWN_PROTO_def\<close>)
  then show ?thesis
    using n t by (intro get_packet_ether cap) (auto simp: type)
qed

text \<open>A protocol that the check for truncated packets has let through with nothing left for it.\<close>

lemma check_truncated_none:
  assumes "sint clen \<le> 0" and "tproto = check_truncated t clen"
  shows "tproto \<noteq> ucast IPPROTO_TCP \<and> tproto \<noteq> ucast IPPROTO_UDP \<and> tproto \<noteq> ucast IPPROTO_ICMP"
  using check_truncated_short [OF assms(1)] by (simp add: assms(2))

lemma routing_addrs_yields:
  assumes "n = 0 \<or> 0 \<le> p \<and> p + 16 \<le> int (length m)"
  shows "yields (routing_addrs m n p data) (\<lambda>(_, d). d = data + 16 * int n)"
  using assms
proof (induction n arbitrary: data)
  case 0
  then show ?case by (simp add: yields_Inr)
next
  case (Suc n)
  have "yields (routing_addrs m n p (data + 16)) (\<lambda>(_, d). d = data + 16 * int (Suc n))"
    by (rule yields_weaken [OF Suc.IH]) (use Suc.prems in auto)
  then show ?case
    using Suc.prems
    by (auto intro!: yields_read [OF read_yields(4)] yields_Inr elim!: yields_seq)
qed

lemma half_len:
  "uint (drop_bit (Suc 0) (len :: u8)) = uint len div 2"
  "int (unat (drop_bit (Suc 0) (len :: u8))) = uint len div 2"
proof -
  show h: "uint (drop_bit (Suc 0) len) = uint len div 2"
    by (simp add: unsigned_drop_bit_eq drop_bit_eq_div uint_div)
  then show "int (unat (drop_bit (Suc 0) len)) = uint len div 2" by (simp only: uint_nat)
qed

text \<open>One turn of the walk, and the walk.\<close>

lemma analyze_option_yields:
  assumes ext: "is_ext proto" and d: "0 \<le> data" "data + ext_needs proto (uint len) \<le> int (length m)"
  shows "yields (analyze_option m proto nxt len data hlen)
    (\<lambda>(_, h, d). h = hlen + ext_claim proto (uint len) \<and> d = data + ext_advance proto (uint len))"
proof -
  have ne: "IPPROTO_ROUTING \<noteq> IPPROTO_AH" "IPPROTO_ROUTING \<noteq> IPPROTO_FRAGMENT" "IPPROTO_FRAGMENT \<noteq> IPPROTO_AH"
    "IPPROTO_HOPOPTS \<noteq> IPPROTO_AH" "IPPROTO_DSTOPTS \<noteq> IPPROTO_AH"
    "IPPROTO_HOPOPTS \<noteq> IPPROTO_FRAGMENT" "IPPROTO_DSTOPTS \<noteq> IPPROTO_FRAGMENT"
    "IPPROTO_HOPOPTS \<noteq> IPPROTO_ROUTING" "IPPROTO_DSTOPTS \<noteq> IPPROTO_ROUTING"
    by (simp_all add: layout)
  have two: "2 \<le> uint len" if "unat (drop_bit (Suc 0) len) \<noteq> 0"
  proof (rule ccontr)
    assume "\<not> 2 \<le> uint len"
    then have "uint len div 2 = 0" by (intro div_pos_pos_trivial) auto
    with half_len(2) [of len] have "int (unat (drop_bit (Suc 0) len)) = 0" by (simp only:)
    with that show False by (simp only: of_nat_eq_0_iff)
  qed
  have pos: "0 \<le> uint len" by simp
  note sizes = ext_needs_def ext_claim_def ext_advance_def push_bit_eq_mult
  consider "proto = IPPROTO_HOPOPTS \<or> proto = IPPROTO_DSTOPTS" | "proto = IPPROTO_ROUTING"
    | "proto = IPPROTO_FRAGMENT" | "proto = IPPROTO_AH"
    using ext by (auto simp: is_ext_def)
  then show ?thesis
  proof cases
    case 1
    then have "data + 8 * (uint len + 1) \<le> int (length m)" using d ne by (auto simp: sizes)
    then have "data + 2 * 2 + uint len \<le> int (length m)" by (rule order_trans [rotated]) simp
    then show ?thesis
      using 1 d ne unfolding analyze_option_def Let_def
      by (auto simp: sizes sizeof_ip6_ext_def intro!: yields_read [OF read_yields(4)] yields_Inr)
  next
    case 2
    have c: "data + 8 * (uint len + 1) \<le> int (length m)" using d ne by (simp add: 2 sizes)
    then have "unat (drop_bit 1 len) = 0 \<or> data + 8 + 16 \<le> int (length m)" using two by fastforce
    then have "yields (routing_addrs m (unat (drop_bit 1 len)) (data + 8) data)
        (\<lambda>(_, d). d = data + 16 * int (unat (drop_bit 1 len)))"
      using d by (intro routing_addrs_yields) auto
    moreover have "data + 8 \<le> int (length m)" using c by (rule order_trans [rotated]) simp
    ultimately show ?thesis
      using d(1) ne unfolding analyze_option_def Let_def 2
      by (auto simp: sizes half_len intro!: yields_read [OF read_yields(1)] yields_Inr elim!: yields_seq)
  next
    case 3
    then show ?thesis
      using d ne unfolding analyze_option_def Let_def
      by (auto simp: sizes intro!: yields_read [OF read_yields(2)] yields_read [OF read_yields(3)] yields_Inr)
  next
    case 4
    have "data + 12 \<le> int (length m)"
      using d(2) by (rule order_trans [rotated]) (simp add: 4 sizes max_def)
    moreover have "yields (new_array m (data + 8 * sizeof_newah) (uint len)) (\<lambda>_. True)"
      using d read_yields(4) [of "uint len" "data + 96" m]
      by (cases "uint len = 0") (auto simp: 4 sizes sizeof_newah_def new_array_def rd_bytes_def in_range_def yields_def)
    ultimately show ?thesis
      using d(1) ne unfolding analyze_option_def Let_def 4
      by (auto simp: sizes intro!: yields_read [OF read_yields(3)] yields_Inr split: if_splits elim!: yields_read)
  qed
qed

lemma analyze_options_yields:
  "exts_whole m proto data \<Longrightarrow> 0 \<le> data \<Longrightarrow> 0 \<le> hlen \<Longrightarrow> 14 + hlen \<le> data \<Longrightarrow> 14 + hlen \<le> int (length m) \<Longrightarrow>
     yields (analyze_options m proto data hlen p) (\<lambda>(_, h). 0 \<le> h \<and> 14 + h \<le> int (length m))"
proof (induction m proto data arbitrary: hlen p rule: exts_whole.induct)
  case (1 m proto data)
  show ?case
  proof (cases "is_ext proto")
    case False
    with 1 show ?thesis by (subst analyze_options.simps) (simp add: yields_Inr)
  next
    case True
    let ?len = "byte m (data + 1)" and ?nxt = "byte m data"
    have w: "data + 8 \<le> int (length m)" "data + ext_needs proto (uint ?len) \<le> int (length m)"
      "exts_whole m ?nxt (data + ext_advance proto (uint ?len))"
      using "1.prems"(1) True by (subst (asm) exts_whole.simps; auto simp: Let_def split: if_splits)+
    have rd: "rd8 m (data + 0) = Inr ?nxt" "rd8 m (data + 1) = Inr ?len"
      using w "1.prems"(2) by (simp_all add: rd8_in)
    have c: "8 \<le> ext_claim proto (uint ?len)" "ext_claim proto (uint ?len) \<le> ext_advance proto (uint ?len)"
      "ext_claim proto (uint ?len) \<le> ext_needs proto (uint ?len)"
      using ext_advance_claim [of "uint ?len" proto] by (simp_all add: ext_needs_def)
    have rest: "yields (analyze_options m ?nxt (data + ext_advance proto (uint ?len))
        (hlen + ext_claim proto (uint ?len)) q) (\<lambda>(_, h). 0 \<le> h \<and> 14 + h \<le> int (length m))" for q
      using "1.prems" c w by (intro "1.IH" [OF _ w(1) refl]) (use True in auto)
    show ?thesis
      using True
      by (subst analyze_options.simps)
         (auto simp: rd [simplified] intro!: yields_seq [OF analyze_option_yields [OF True "1.prems"(2) w(2)]] rest)
  qed
qed

text \<open>
  \<open>fill_packet\<close> on an IPv6 packet: \<open>P\<close> holds of the length of the headers the walk has found.
\<close>

lemma ipv6_fill:
  assumes n: "54 \<le> length m" "length m < 32768"
    and opts: "\<And>q. yields (analyze_options m (byte m 20) 54 40 q) (\<lambda>(_, h). P h)"
    and P: "\<And>h. P h \<Longrightarrow> 0 \<le> h \<and> 14 + h \<le> int (length m)"
    and known: "tproto = UNKNOWN_PROTO \<longrightarrow>
      0 \<le> sint (be_field m 18 + 40) \<and> sint (be_field m 18 + 40) \<le> int (length m) - 14"
    and t: "\<And>h. P h \<Longrightarrow> tproto = ucast proto \<and> transport_whole na m proto (14 + h) (int (length m) - 14 - h) \<or>
       tproto \<noteq> ucast IPPROTO_TCP \<and> tproto \<noteq> ucast IPPROTO_UDP \<and> tproto \<noteq> ucast IPPROTO_ICMP"
  shows "yields (fill_packet na j DLT_EN10MB (of_nat (length m)) m ETHERTYPE_IPV6 tproto q) (\<lambda>_. True)"
proof -
  let ?tot = "be_field m 18 + 40"
  have rd: "rd8 m (14 + 6) = Inr (byte m 20)" "rd16 m 18 = Inr (htons (be_field m 18))"
    using n by (simp_all add: rd8_in be_field_in)
  have ne: "ETHERTYPE_IPV6 \<noteq> ETHERTYPE_IP" "ETHERTYPE_IPV6 \<noteq> UNKNOWN_PROTO" by (simp_all add: layout)
  have short: "P (sint (of_int h :: u16))" if "P h" for h
  proof -
    have "sint (of_int h :: u16) = h"
      using P [OF that] n sint_to_short [of h] by (simp add: to_short_def)
    with that show ?thesis by (simp only:)
  qed
  have ip: "yields (analyze_ipv6 m q 14) (\<lambda>(_, hlen). P (sint hlen))"
    unfolding analyze_ipv6_def Let_def rd bindr_simps
  proof (intro reads)
    fix src dst flow plen hlim
    have "yields (analyze_options m (byte m 20) (14 + 40) 40 r) (\<lambda>(_, h). P h)" for r
      using opts by simp
    then show "yields (bindr (analyze_options m (byte m 20) (14 + 40) 40 r) (\<lambda>(packet, hlen). Inr (packet, of_int hlen :: u16)))
        (\<lambda>(_, hlen). P (sint hlen))" for r
      by (rule yields_seq) (auto intro!: yields_Inr short)
  qed (use n in auto)
  have "yields (analyze_network m DLT_EN10MB ETHERTYPE_IPV6 (of_nat (length m)) 14 q)
      (\<lambda>(_, clen, hlen). clen = ?tot \<and> P (sint hlen))"
    using ne(1) unfolding analyze_network_def
    by (simp add: rd ntohs_def, intro yields_seq [OF ip]) (auto intro!: yields_Inr)
  then obtain h where "P h" and net: "yields (analyze_network m DLT_EN10MB ETHERTYPE_IPV6 (of_nat (length m)) 14 q)
      (\<lambda>(_, clen, hlen). clen = ?tot \<and> sint hlen = h)"
    by (auto simp: yields_def)
  show ?thesis
    by (rule fill_packet_ether [where proto = proto, OF _ n(2) ne(2) net])
       (use n P [OF \<open>P h\<close>] t [OF \<open>P h\<close>] known in simp_all)
qed

text \<open>With extension headers the walk of \<open>get_packet\<close> ends at the version byte.\<close>

lemma u8_u16_u8: "(ucast (ucast (x :: u8) :: u16) :: u8) = x"
  by (rule bit_word_eqI) (auto simp: bit_simps dest: bit_imp_le_length)

lemma transport_ipv6_ext:
  assumes n: "54 < length m" "length m < 32768" and ext: "is_ext (byte m 20)"
    and v: "drop_bit 4 (byte m 14) = 6"
  shows "\<exists>c. transport_protocol j m DLT_EN10MB ETHERTYPE_IPV6 (to_short (int (length m) - 14)) =
    Inr (ucast (byte m 14), c)"
proof -
  let ?n = "int (length m)" and ?p = "byte m 20" and ?v = "byte m 14"
  have rd: "rd8 m 20 = Inr ?p" "rd8 m 14 = Inr ?v" "rd8 m 15 = Inr (byte m 15)"
    using n by (simp_all add: rd8_in)
  have s: "sint (to_short (?n - 14)) = ?n - 14" "sint (to_short (?n - 54)) = ?n - 54"
    using n by (simp_all add: sint_to_short)
  have ne: "ETHERTYPE_IPV6 \<noteq> ETHERTYPE_IP" by (simp add: layout)
  note v = version_6_byte [OF v]
  have "is_ext_proto (ucast ?p)"
    using ext uint_lt2p [of ?p] by (simp add: is_ext_proto_def u8_u16_u8 word_less_def uint_ucast_8_16)
  moreover have "walk_ext m (ucast ?v) d c = Inr (ucast ?v, c)" for d c
    using v(1) by (subst walk_ext.simps) simp
  ultimately have "\<exists>c. walk_ext m (ucast ?p) 14 (to_short (?n - 54)) = Inr (ucast ?v, c)"
    using n s(2) v rd by (subst walk_ext.simps) (simp add: Let_def)
  then obtain c where walk: "walk_ext m (ucast ?p) 14 (to_short (?n - 54)) = Inr (ucast ?v, c)" by blast
  then have "detect_transport j m DLT_EN10MB ETHERTYPE_IPV6 (to_short (?n - 14)) = Inr (ucast ?v, c)"
    using n ne rd by (simp add: detect_transport_def s Let_def)
  then show ?thesis
    using v by (simp add: transport_protocol_def check_truncated_def u16_proto)
qed

lemma ipv6_yields:
  assumes n: "length m < 32768" and cap: "caplen header = of_nat (length m)"
    and type: "be_field m 12 = ETHERTYPE_IPV6" and w: "ipv6_whole na m"
  shows "yields (get_packet na j DLT_EN10MB header m) (\<lambda>_. True)"
proof -
  let ?n = "int (length m)" and ?p = "byte m 20" and ?v = "byte m 14" and ?tot = "be_field m 18 + 40"
  have b: "54 \<le> ?n" using w by (simp add: ipv6_whole_def Let_def)
  have rd: "rd8 m 20 = Inr ?p" "rd8 m 14 = Inr ?v" "rd8 m 15 = Inr (byte m 15)"
    using b by (simp_all add: rd8_in)
  have s: "sint (to_short (?n - 14)) = ?n - 14" "sint (to_short (?n - 54)) = ?n - 54"
    using b n by (simp_all add: sint_to_short)
  have ne: "ETHERTYPE_IPV6 \<noteq> ETHERTYPE_IP" by (simp add: layout)
  have transport: "transport_protocol j m DLT_EN10MB ETHERTYPE_IPV6 (to_short (?n - 14)) =
      bindr (if 54 < ?n then walk_ext m (ucast ?p) 14 (to_short (?n - 54)) else Inr (j_tproto j, to_short (?n - 54)))
        (\<lambda>(tproto, clen). Inr (check_truncated tproto clen, clen))"
    using b ne rd by (simp add: transport_protocol_def detect_transport_def s Let_def)
  have plain': "yields (analyze_options m ?p 54 40 q) (\<lambda>(_, h). h = 40)" if "\<not> is_ext ?p" for q
    using that by (subst analyze_options.simps) (simp add: yields_Inr)
  have finish: "yields (get_packet na j DLT_EN10MB header m) (\<lambda>_. True)"
    if "transport_protocol j m DLT_EN10MB ETHERTYPE_IPV6 (to_short (?n - 14)) = Inr (tproto, c)"
      and "\<And>q. yields (fill_packet na j DLT_EN10MB (of_nat (length m)) m ETHERTYPE_IPV6 tproto q) (\<lambda>_. True)"
    for tproto c
    using n b that by (intro get_packet_ether cap) (auto simp: type)
  consider (ext) "is_ext ?p" "drop_bit 4 ?v = 6" "exts_whole m ?p 54"
    | (empty) "\<not> is_ext ?p" "?n = 54" "0 \<le> sint ?tot" "sint ?tot \<le> 40"
    | (plain) "\<not> is_ext ?p" "54 < ?n" "segment_fits na m ?p 54 (?n - 54) ?tot"
    using w b by (auto simp: ipv6_whole_def Let_def split: if_splits)
  then show ?thesis
  proof cases
    case plain
    then have "walk_ext m (ucast ?p) 14 c = Inr (ucast ?p, c)" for c
      by (subst walk_ext.simps) (simp add: is_ext_proto_def u8_u16_u8)
    note t = transport [unfolded this, simplified plain(2) if_True bindr_simps prod.case]
    note fits = check_truncated_fits [OF plain(3) s(2) refl]
    show ?thesis
      by (rule finish [OF t], rule ipv6_fill [OF _ n plain' [OF plain(1)]]) (use b fits in simp_all)
  next
    case empty
    define tproto where "tproto = check_truncated (j_tproto j) (to_short (?n - 54))"
    have "transport_protocol j m DLT_EN10MB ETHERTYPE_IPV6 (to_short (?n - 14)) = Inr (tproto, to_short (?n - 54))"
      using empty(2) unfolding transport tproto_def by simp
    moreover have "tproto \<noteq> ucast IPPROTO_TCP \<and> tproto \<noteq> ucast IPPROTO_UDP \<and> tproto \<noteq> ucast IPPROTO_ICMP"
      using empty(2) s(2) by (intro check_truncated_none [OF _ tproto_def]) simp
    ultimately show ?thesis
      using b empty by (auto intro!: finish ipv6_fill [OF _ n plain' [OF empty(1)], where proto = 0])
  next
    case ext
    note v = version_6_byte [OF ext(2)]
    have n62: "62 \<le> ?n"
      using ext(1,3) by (subst (asm) exts_whole.simps) (auto split: if_splits)
    then obtain c where t: "transport_protocol j m DLT_EN10MB ETHERTYPE_IPV6 (to_short (?n - 14)) = Inr (ucast ?v, c)"
      using transport_ipv6_ext [OF _ n ext(1,2)] by auto
    have "uint (ucast ?v :: u16) < 256" using uint_lt2p [of ?v] by (simp add: uint_ucast_8_16)
    moreover have "uint UNKNOWN_PROTO = 65535" by (simp add: layout unsigned_minus_1_eq_mask mask_eq_exp_minus_1)
    ultimately have "ucast ?v \<noteq> UNKNOWN_PROTO" by fastforce
    moreover have "yields (analyze_options m ?p 54 40 q) (\<lambda>(_, h). 0 \<le> h \<and> 14 + h \<le> ?n)" for q
      using b by (intro analyze_options_yields ext) simp_all
    ultimately show ?thesis
      by (intro finish [OF t] ipv6_fill [OF _ n, where P = "\<lambda>h. 0 \<le> h \<and> 14 + h \<le> ?n" and proto = 0])
         (use b v in \<open>auto simp: u16_proto\<close>)
  qed
qed

lemma arp_yields:
  assumes n: "length m < 32768" and cap: "caplen header = of_nat (length m)"
    and type: "be_field m 12 = ETHERTYPE_ARP" and w: "arp_whole m"
  shows "yields (get_packet na j DLT_EN10MB header m) (\<lambda>_. True)"
proof -
  let ?n = "int (length m)" and ?hl = "uint (byte m 18)" and ?pl = "uint (byte m 19)"
  let ?size = "8 + ?hl * 2 + ?pl * 2"
  have b: "22 \<le> ?n" "14 + ?size \<le> ?n" using w by (simp_all add: arp_whole_def)
  have n14: "14 \<le> length m" using b(1) by simp
  have u: "0 \<le> ?hl" "?hl < 256" "0 \<le> ?pl" "?pl < 256"
    using uint_lt2p [of "byte m 18"] uint_lt2p [of "byte m 19"] by simp_all
  have s: "sint (to_short (?n - 14)) = ?n - 14" "sint (to_short (?n - 42)) = ?n - 42"
    "sint (to_short ?size) = ?size"
    using b n u by (simp_all add: sint_to_short)
  have ne: "ETHERTYPE_ARP \<noteq> ETHERTYPE_IP" "ETHERTYPE_ARP \<noteq> ETHERTYPE_IPV6" "ETHERTYPE_ARP \<noteq> UNKNOWN_PROTO"
    "ETHERTYPE_ARP \<noteq> ucast IPPROTO_TCP" "ETHERTYPE_ARP \<noteq> ucast IPPROTO_UDP" "ETHERTYPE_ARP \<noteq> ucast IPPROTO_ICMP"
    by (simp_all add: layout)
  define tproto where
    "tproto = check_truncated (if 42 < ?n then ETHERTYPE_ARP else j_tproto j) (to_short (?n - 42))"
  have t: "transport_protocol j m DLT_EN10MB ETHERTYPE_ARP (to_short (?n - 14)) = Inr (tproto, to_short (?n - 42))"
    using b ne by (simp add: transport_protocol_def detect_transport_def s Let_def tproto_def)
  have none: "tproto \<noteq> ucast IPPROTO_TCP \<and> tproto \<noteq> ucast IPPROTO_UDP \<and> tproto \<noteq> ucast IPPROTO_ICMP"
  proof (cases "42 < ?n")
    case True
    then show ?thesis using ne by (simp add: tproto_def check_truncated_def)
  next
    case False
    then show ?thesis using s by (intro check_truncated_none [OF _ tproto_def]) simp
  qed
  have arp: "yields (analyze_arp m q 14) (\<lambda>(_, size). size = ?size)" for q
  proof -
    have rd: "rd8 m (14 + 4) = Inr (byte m 18)" "rd8 m (14 + 5) = Inr (byte m 19)"
      using b by (simp_all add: rd8_in)
    show ?thesis
      unfolding analyze_arp_def rd bindr_simps sizeof_arphdr_def
      by (intro reads yields_Inr; use b u in \<open>linarith | simp\<close>)
  qed
  have net: "yields (analyze_network m DLT_EN10MB ETHERTYPE_ARP (of_nat (length m)) 14 q)
      (\<lambda>(_, clen, hlen). clen = to_short ?size \<and> sint hlen = ?size)" for q
    using ne unfolding analyze_network_def
    by (simp, intro yields_seq [OF arp]) (use s in \<open>auto intro!: yields_Inr\<close>)
  have "yields (fill_packet na j DLT_EN10MB (of_nat (length m)) m ETHERTYPE_ARP tproto q) (\<lambda>_. True)" for q
    by (rule fill_packet_ether [where proto = 0, OF n14 n _ net _ b(2)]) (use b(2) u s ne none in auto)
  then show ?thesis
    using n b t by (intro get_packet_ether cap) (auto simp: type)
qed

lemma other_yields:
  assumes n: "14 \<le> length m" "length m < 32768" and cap: "caplen header = of_nat (length m)"
    and type: "be_field m 12 \<notin> {ETHERTYPE_IP, ETHERTYPE_IPV6, ETHERTYPE_ARP}"
    and w: "be_field m 12 \<in> {1, 6, 17} \<Longrightarrow>
      segment_fits na m (ucast (be_field m 12)) 14 (int (length m) - 14) 0"
  shows "yields (get_packet na j DLT_EN10MB header m) (\<lambda>_. True)"
proof -
  let ?n = "int (length m)" and ?t = "be_field m 12"
  have ne: "?t \<noteq> ETHERTYPE_IP" "?t \<noteq> ETHERTYPE_IPV6" "?t \<noteq> ETHERTYPE_ARP" using type by auto
  have s: "sint (to_short (?n - 14)) = ?n - 14" "sint (to_short ?n) = ?n" using n by (simp_all add: sint_to_short)
  have type: "get_network_type m 0 DLT_EN10MB = Inr ?t"
    using be_field_in [of 12 m] n
    by (simp add: get_network_type_def DLT_EN10MB_def table_def offset_type_def)
  define tproto where "tproto = check_truncated (if 14 < ?n then ?t else j_tproto j) (to_short (?n - 14))"
  have t: "transport_protocol j m DLT_EN10MB ?t (to_short (?n - 14)) = Inr (tproto, to_short (?n - 14))"
    using n ne type by (simp add: transport_protocol_def detect_transport_def s Let_def tproto_def)
  have fits: "(tproto = ucast (ucast ?t :: u8) \<and> transport_whole na m (ucast ?t) 14 (?n - 14) \<or>
       tproto \<noteq> ucast IPPROTO_TCP \<and> tproto \<noteq> ucast IPPROTO_UDP \<and> tproto \<noteq> ucast IPPROTO_ICMP)"
  proof (cases "14 < ?n \<and> ?t \<in> {1, 6, 17}")
    case True
    then have w': "segment_fits na m (ucast ?t) 14 (?n - 14) 0" using w by simp
    from True have u: "ucast (ucast ?t :: u8) = ?t" by auto
    have "tproto = check_truncated (ucast (ucast ?t :: u8)) (to_short (?n - 14))"
      using True by (simp add: tproto_def u)
    from check_truncated_fits(2) [OF w' s(1) this] show ?thesis by simp
  next
    case False
    then show ?thesis
      using s(1) n(1) check_truncated_none [OF _ refl, of "to_short (?n - 14)" "j_tproto j"]
      by (cases "14 < ?n") (auto simp: tproto_def check_truncated_def layout)
  qed
  have "yields (fill_packet na j DLT_EN10MB (of_nat (length m)) m ?t tproto q) (\<lambda>_. True)" for q
  proof (cases "?t = UNKNOWN_PROTO")
    case False
    have len: "(ucast (of_nat (length m) - of_int 14 :: u32) :: jshort) = of_nat (length m - 14)"
      using ucast_of_nat_short [of "length m - 14"] n by (simp add: of_nat_diff)
    have "sint (of_nat (length m - 14) :: jshort) = ?n - 14"
      using n sint_to_short [of "?n - 14"] by (simp add: to_short_def)
    moreover have "yields (analyze_network m DLT_EN10MB ?t (of_nat (length m)) 14 q)
        (\<lambda>(_, clen, hlen). clen = of_nat (length m - 14) \<and> sint hlen = 0)"
      using ne False len by (simp add: analyze_network_def yields_def)
    ultimately show ?thesis
      by (intro fill_packet_ether [where proto = "ucast ?t"]) (use n fits False in auto)
  next
    case True
    have none: "tproto \<noteq> ucast IPPROTO_TCP" "tproto \<noteq> ucast IPPROTO_UDP" "tproto \<noteq> ucast IPPROTO_ICMP"
      using s(1) n(1) True check_truncated_none [OF _ refl, of "to_short (?n - 14)" "j_tproto j"]
      by (cases "14 < ?n"; auto simp: tproto_def check_truncated_def layout)+
    have c: "(ucast (of_nat (length m) :: u32) :: jshort) = to_short ?n"
      by (simp add: to_short_def ucast_of_nat_short)
    have un: "UNKNOWN_PROTO \<noteq> ETHERTYPE_IP" "UNKNOWN_PROTO \<noteq> ETHERTYPE_IPV6" "UNKNOWN_PROTO \<noteq> ETHERTYPE_ARP"
      by (simp_all add: layout)
    have "yields (bindr (analyze_transport na j m tproto 0 (to_short ?n) q) (\<lambda>(packet, hlen).
        let hlen = (if sint hlen > sint (to_short ?n) then to_short ?n else hlen);
            clen = to_short (sint (to_short ?n) - sint hlen);
            data = 0 + sint hlen
        in set_arrays m data clen packet)) (\<lambda>_. True)"
      by (rule tail_yields [where rest = ?n]) (use n s none in auto)
    then show ?thesis
      using un by (simp add: fill_packet_def True analyze_network_def c s Let_def cong: if_cong)
  qed
  then show ?thesis
    using n t by (intro get_packet_ether cap) auto
qed

lemma whole_frame_yields:
  assumes "length m < 32768" and "caplen header = of_nat (length m)" and w: "frame_whole na m"
  shows "yields (get_packet na j DLT_EN10MB header m) (\<lambda>_. True)"
proof -
  have n: "14 \<le> length m" using w by (simp add: frame_whole_def)
  have ne: "ETHERTYPE_IP \<notin> {1, 6, 17}" "ETHERTYPE_IPV6 \<notin> {1, 6, 17}" "ETHERTYPE_ARP \<notin> {1, 6, 17}"
    by (simp_all add: layout)
  consider "be_field m 12 = ETHERTYPE_IP" "ipv4_whole na m" | "be_field m 12 = ETHERTYPE_IPV6" "ipv6_whole na m"
    | "be_field m 12 = ETHERTYPE_ARP" "arp_whole m"
    | "be_field m 12 \<notin> {ETHERTYPE_IP, ETHERTYPE_IPV6, ETHERTYPE_ARP}"
      "be_field m 12 \<in> {1, 6, 17} \<longrightarrow> segment_fits na m (ucast (be_field m 12)) 14 (int (length m) - 14) 0"
    using w by (auto simp: frame_whole_def Let_def split: if_splits)
  then show ?thesis
  proof cases
    case 1
    then have "14 < length m" by (simp add: ipv4_whole_def Let_def)
    with 1 assms(1,2) show ?thesis by (auto intro: ipv4_yields)
  qed (use n assms(1,2) in \<open>auto intro: ipv6_yields arp_yields other_yields\<close>)
qed

text \<open>
  C22. Total correctness of capturing on Ethernet: for every frame of less than 32768 bytes, all
  captured, whose headers claim no more than is there as frame_whole states, get_packet returns
  an object, reads nothing outside the frame, and header and data of the object are cut from it
  as captured_packet_is_cut_of_frame says. The conditions are those of the code where it differs
  from the formats: IPv6 extension headers lie where the loop of analyze_ipv6 looks for them,
  authentication data of length len > 0 is looked for 96 bytes behind its header, the addresses
  of a router advertisement are asked for only when their number is compiled in, and the length
  of an IEEE 802.3 frame counts as a transport protocol when it is 1, 6 or 17.
\<close>

theorem every_whole_frame_is_analysed:
  assumes "length m < 32768" and "caplen header = of_nat (length m)" and "frame_whole na m"
  shows "\<exists>q. get_packet na j DLT_EN10MB header m = Inr q \<and> cut_of_frame header DLT_EN10MB m q"
proof -
  obtain q where q: "get_packet na j DLT_EN10MB header m = Inr q"
    using whole_frame_yields [OF assms, of j] by (auto simp: yields_def)
  moreover have "cut_of_frame header DLT_EN10MB m q"
    by (rule captured_packet_cut [OF _ q]) (use assms(1) in simp)
  ultimately show ?thesis by blast
qed

text \<open>
  C23. The authentication data of an IPv6 packet is read 96 bytes behind its header (ah+8 counts
  structures of 12 bytes, not bytes): a captured Ethernet frame of at least 66 bytes with an
  IPv6 packet whose first extension header is an authentication header of length field len > 0,
  however well-formed, makes get_packet read behind the captured bytes when less than 96 + len
  bytes follow the fixed header.
\<close>

theorem authentication_header_over_reads:
  assumes n: "66 \<le> length m" "length m < 32768" and cap: "caplen header = of_nat (length m)"
    and type: "be_field m 12 = ETHERTYPE_IPV6" and version: "drop_bit 4 (byte m 14) = 6"
    and nxt: "byte m 20 = IPPROTO_AH" and len: "byte m 55 \<noteq> 0"
    and short: "int (length m) < 54 + 96 + uint (byte m 55)"
  shows "get_packet na j DLT_EN10MB header m = Inl (OutOfBounds 150)"
proof -
  let ?len = "byte m 55"
  have ah: "is_ext IPPROTO_AH" "IPPROTO_AH \<noteq> IPPROTO_HOPOPTS" "IPPROTO_AH \<noteq> IPPROTO_DSTOPTS"
    "IPPROTO_AH \<noteq> IPPROTO_ROUTING" "IPPROTO_AH \<noteq> IPPROTO_FRAGMENT"
    by (simp_all add: is_ext_def layout)
  obtain c where t: "transport_protocol j m DLT_EN10MB ETHERTYPE_IPV6 (to_short (int (length m) - 14)) =
      Inr (ucast (byte m 14), c)"
    using transport_ipv6_ext [OF _ n(2) _ version, of j] n(1) ah(1) unfolding nxt by fastforce
  have rd12: "rd16 m 12 = Inr (htons (be_field m 12))" and rd18: "rd16 m 18 = Inr (htons (be_field m 18))"
    by (rule be_field_in; use n in simp)+
  have np: "network_protocol m DLT_EN10MB (of_nat (length m)) = Inr (ETHERTYPE_IPV6, to_short (int (length m) - 14))"
    using network_protocol_ether [OF rd12 n(2)] by (simp only: type)
  have "yields (analyze_datalink m 0 DLT_EN10MB) (\<lambda>_. True)"
    unfolding analyze_datalink_def by (intro yields_if reads yields_Inr) (use n in auto)
  then obtain dl where dl: "analyze_datalink m 0 DLT_EN10MB = Inr dl" by (auto simp: yields_def)
  have "\<not> in_range m (54 + 8 * sizeof_newah) (nat (uint ?len))"
    using short len by (simp add: in_range_def sizeof_newah_def uint_0_iff unat_gt_0)
  then have data: "new_array m (54 + 8 * sizeof_newah) (uint ?len) = Inl (OutOfBounds 150)"
    by (simp add: new_array_def rd_bytes_def sizeof_newah_def)
  have words: "\<exists>w. rd32 m (54 + 4) = Inr w" "\<exists>w. rd32 m (54 + 8) = Inr w"
    using n by (auto simp: rd32_def in_range_def)
  have bytes: "rd8 m (54 + 0) = Inr (byte m 54)" "rd8 m (54 + 1) = Inr ?len"
    using n by (simp_all add: rd8_in)
  have opts: "analyze_options m IPPROTO_AH (14 + 40) 40 p = Inl (OutOfBounds 150)" for p
    using words ah data
    by (subst analyze_options.simps) (auto simp: bytes [simplified] analyze_option_def Let_def)
  have "\<exists>a. new_array m (14 + 8) 16 = Inr a" "\<exists>a. new_array m (14 + 24) 16 = Inr a"
    "\<exists>w. rd32 m (14 + 0) = Inr w" "rd8 m (14 + 6) = Inr IPPROTO_AH" "rd8 m (14 + 7) = Inr (byte m 21)"
    using n nxt by (simp_all add: new_array_def rd_bytes_def rd32_def in_range_def rd8_in)
  then have ip: "analyze_ipv6 m p 14 = Inl (OutOfBounds 150)" for p
    using rd18 opts [simplified] by (auto simp: analyze_ipv6_def Let_def)
  have ne: "ETHERTYPE_IPV6 \<noteq> ETHERTYPE_IP" "ETHERTYPE_IPV6 \<noteq> UNKNOWN_PROTO" by (simp_all add: layout)
  show ?thesis
    unfolding get_packet_def cap np bindr_simps prod.case t Let_def dl fill_packet_def analyze_network_def
    using ne rd18 by (simp add: ip)
qed

text \<open>
  An IEEE 802.3 frame has its length where Ethernet has the type. \<open>get_packet\<close> takes the type of
  an unknown network protocol for the transport protocol, so a frame whose length field is 6 is
  analysed as a TCP packet.
\<close>

theorem length_field_taken_for_protocol:
  assumes run: "get_packet na j DLT_EN10MB header m = Inr q" and cap: "caplen header = of_nat (length m)"
    and n: "34 \<le> length m" "length m < 32768" and type: "be_field m 12 = 6"
  shows "pk_class q = TCPPacketC"
proof -
  obtain nproto clen tproto clen' where
    np: "network_protocol m DLT_EN10MB (caplen header) = Inr (nproto, clen)"
    and tp: "transport_protocol j m DLT_EN10MB nproto clen = Inr (tproto, clen')"
    and cls: "pk_class q = packet_class nproto tproto"
    using run by (rule get_packet_class)
  have rd: "rd16 m 12 = Inr (htons 6)" using be_field_in [of 12 m] n type by simp
  have nproto: "nproto = 6" "clen = to_short (int (length m) - 14)"
    using np network_protocol_ether [OF rd n(2)] by (simp_all add: cap)
  have "get_network_type m 0 DLT_EN10MB = Inr 6"
    using rd by (simp add: get_network_type_def DLT_EN10MB_def table_def offset_type_def ntohs_def)
  moreover have "sint (to_short (int (length m) - 14)) = int (length m) - 14"
    using n by (simp add: sint_to_short)
  ultimately have "tproto = 6"
    using tp n by (simp add: nproto transport_protocol_def detect_transport_def layout check_truncated_def)
  then show ?thesis by (simp add: cls packet_class_def layout)
qed

end
