(* ===== verification/Frames6.thy ===== *)
theory Frames6
  imports Frames
begin

text \<open>
  The frames \<open>set_packet\<close> builds for UDP and TCP over IPv6, byte by byte: the payload length is left
  in the byte order of the host and counts the header, and the transport checksum is computed over
  the words an IPv4 header would have at the place of its addresses.
\<close>

section \<open>Formats\<close>

text \<open>The header as sent; \<open>len\<close> is the length of header and payload.\<close>

definition ipv6_header_sent :: "ip_fields \<Rightarrow> u8 list \<Rightarrow> u8 list \<Rightarrow> u8 \<Rightarrow> nat \<Rightarrow> u8 list" where
  "ipv6_header_sent f src dst proto len =
     bytes32 (htonl (ipv6_flow_word f)) @ bytes16 (of_nat len) @ [proto, ucast (ip_hop_limit f)]
     @ src @ dst"

lemma length_ipv6_header_sent [simp]:
  "length src = 16 \<Longrightarrow> length dst = 16 \<Longrightarrow> length (ipv6_header_sent f src dst proto len) = 40"
  by (simp add: ipv6_header_sent_def)

text \<open>What is summed before the segment: bytes 12 to 19 and 9 of the IPv6 header.\<close>

definition misplaced_pseudo :: "ip_fields \<Rightarrow> u8 list \<Rightarrow> u8 list \<Rightarrow> u8 \<Rightarrow> nat \<Rightarrow> u8 list" where
  "misplaced_pseudo f src dst proto seg_len =
     take 8 (drop 4 src) @ [0, src ! 1] @ bytes16 (htons (of_nat seg_len))"

definition udp6_datagram :: "ip_fields \<Rightarrow> u8 list \<Rightarrow> u8 list \<Rightarrow> udp_fields \<Rightarrow> u8 list \<Rightarrow> u8 list" where
  "udp6_datagram f src dst u data =
     udp_segment u data (udp_cksum (inet_cksum
       (misplaced_pseudo f src dst 17 (length data + 8) @ udp_segment u data 0)))"

definition tcp6_segment :: "ip_fields \<Rightarrow> u8 list \<Rightarrow> u8 list \<Rightarrow> tcp_fields \<Rightarrow> u8 list \<Rightarrow> u8 \<Rightarrow> u8 list" where
  "tcp6_segment f src dst t data x2 =
     tcp_segment t data x2 (inet_cksum
       (misplaced_pseudo f src dst 6 (length data + 20) @ tcp_segment t data x2 0))"

lemma length_udp6_datagram [simp]: "length (udp6_datagram f src dst u data) = length data + 8"
  by (simp add: udp6_datagram_def)

lemma length_tcp6_segment [simp]: "length (tcp6_segment f src dst t data x2) = length data + 20"
  by (simp add: tcp6_segment_def)

section \<open>The layers\<close>

lemma set_proto_len_v6_window:
  assumes "length l = 2" and "length src = 16" and "length dst = 16" and "ver \<noteq> 4" and "0 \<le> n"
  shows "set_proto_len ver (int (length pre)) proto n
       \<lparr>sbuf = pre @ set_ipv6_bytes f src dst l @ post, pending = e\<rparr> =
     Inr \<lparr>sbuf = pre @ ipv6_header_sent f src dst proto (nat n) @ post, pending = e\<rparr>"
proof -
  obtain a b where l: "l = [a, b]" using assms(1) by (auto simp: numeral_eq_Suc length_Suc_conv)
  have len: "length (set_ipv6_bytes f src dst l) = 40"
    using assms by (simp add: set_ipv6_bytes_def)
  have "overlay 4 (bytes16 t) (overlay 6 [proto] (set_ipv6_bytes f src dst l)) =
      bytes32 (htonl (ipv6_flow_word f)) @ bytes16 t @ [proto, ucast (ip_hop_limit f)] @ src @ dst" for t
    by (simp add: set_ipv6_bytes_def l overlay_def bytes16_def bytes32_def)
  moreover have "(of_int n :: u16) = of_nat (nat n)" using assms(5) by simp
  ultimately show ?thesis
    using assms(4) len by (simp add: set_proto_len_def window ipv6_header_sent_def)
qed

lemma transport_cksum_v6:
  assumes "length src = 16" and "length dst = 16" and "length seg \<le> 65535"
  shows "in_cksum2 (pre @ ipv6_header_sent f src dst proto n @ seg @ post) (int (length pre))
       (htons (of_nat (length seg))) (int (length pre) + 40) (int (length seg)) =
     Inr (inet_cksum (misplaced_pseudo f src dst proto (length seg) @ seg))"
proof -
  let ?h = "ipv6_header_sent f src dst proto n"
  obtain s0 s1 s2 where "src = s0 # s1 # s2" using assms(1) by (auto simp: numeral_eq_Suc length_Suc_conv)
  then have ph: "pseudo_header (take 20 ?h) (htons (of_nat (length seg))) =
      misplaced_pseudo f src dst proto (length seg)"
    using assms(1,2)
    by (simp add: pseudo_header_def misplaced_pseudo_def ipv6_header_sent_def bytes32_def bytes16_def drop_take)
  have "in_cksum2 (pre @ take 20 ?h @ drop 20 ?h @ seg @ post) (int (length pre))
      (htons (of_nat (length seg))) (int (length pre) + 20 + int (length (drop 20 ?h))) (int (length seg)) =
      Inr (fold_sum (of_nat (sum_list (le_words (pseudo_header (take 20 ?h) (htons (of_nat (length seg))) @ seg)))))"
    by (rule in_cksum2_gap) (use assms in simp)
  then show ?thesis
    using assms unfolding ph by (simp add: fold_sum_inet_cksum misplaced_pseudo_def add.commute flip: append_assoc)
qed

lemma set_transport_v6_udp:
  assumes cls: "pk_class packet = UDPPacketC" and data: "pk_data packet = Some data"
    and ver: "ver \<noteq> 4" and "length data \<le> 1572" and "length src = 16" and "length dst = 16"
    and "length l = 2" and "length uw = length data + 8"
  shows "set_transport packet ver (int (length pre)) (int (length pre) + 40) (40 + int (length data))
       \<lparr>sbuf = pre @ set_ipv6_bytes f src dst l @ uw @ post, pending = e\<rparr> =
     Inr (48 + int (length data),
       \<lparr>sbuf = pre @ ipv6_header_sent f src dst 17 (48 + length data)
              @ udp6_datagram f src dst (pk_udp packet) data @ post, pending = e\<rparr>)"
proof -
  let ?h = "ipv6_header_sent f src dst 17 (48 + length data)"
  have len: "length (pre @ ?h) = length pre + 40" using assms by simp
  have "in_cksum2 ((pre @ ?h) @ udp_segment (pk_udp packet) data 0 @ post) (int (length pre))
      (htons (of_nat (length data + 8))) (int (length (pre @ ?h))) (int (length data + 8)) =
      Inr (inet_cksum (misplaced_pseudo f src dst 17 (length data + 8) @ udp_segment (pk_udp packet) data 0))"
    unfolding len
    using transport_cksum_v6 [of src dst "udp_segment (pk_udp packet) data 0" pre f 17 "48 + length data" post]
      assms by simp
  from set_udp_window [OF assms(8,4) this, of e] len
  have udp: "set_udp (pk_udp packet) (int (length pre) + 40) (Some data) (int (length pre))
      \<lparr>sbuf = pre @ ?h @ uw @ post, pending = e\<rparr> =
      Inr \<lparr>sbuf = pre @ ?h @ udp6_datagram f src dst (pk_udp packet) data @ post, pending = e\<rparr>"
    by (simp add: udp6_datagram_def)
  have n: "nat (int (length data) + 48) = length data + 48" by simp
  show ?thesis
    using set_proto_len_v6_window [of l src dst ver "48 + int (length data)" pre 17 f "uw @ post" e] assms udp
    by (simp add: set_transport_def IsInstanceOf_def layout n add.commute Let_def)
qed

lemma set_transport_v6_tcp:
  assumes cls: "pk_class packet = TCPPacketC" and data: "pk_data packet = Some data"
    and ver: "ver \<noteq> 4" and "length data \<le> 1560" and "length src = 16" and "length dst = 16"
    and "length l = 2" and "length tw = length data + 20"
  shows "set_transport packet ver (int (length pre)) (int (length pre) + 40) (40 + int (length data))
       \<lparr>sbuf = pre @ set_ipv6_bytes f src dst l @ tw @ post, pending = e\<rparr> =
     Inr (60 + int (length data),
       \<lparr>sbuf = pre @ ipv6_header_sent f src dst 6 (60 + length data)
              @ tcp6_segment f src dst (pk_tcp packet) data (tw ! 12) @ post, pending = e\<rparr>)"
proof -
  let ?h = "ipv6_header_sent f src dst 6 (60 + length data)"
  have len: "length (pre @ ?h) = length pre + 40" using assms by simp
  have "in_cksum2 ((pre @ ?h) @ tcp_segment (pk_tcp packet) data (tw ! 12) 0 @ post) (int (length pre))
      (htons (of_nat (length data + 20))) (int (length (pre @ ?h))) (int (length data + 20)) =
      Inr (inet_cksum (misplaced_pseudo f src dst 6 (length data + 20)
        @ tcp_segment (pk_tcp packet) data (tw ! 12) 0))"
    unfolding len
    using transport_cksum_v6 [of src dst "tcp_segment (pk_tcp packet) data (tw ! 12) 0" pre f 6
        "60 + length data" post] assms by simp
  from set_tcp_window [OF assms(8,4) this, of e] len
  have tcp: "set_tcp (pk_tcp packet) (int (length pre) + 40) (Some data) (int (length pre))
      \<lparr>sbuf = pre @ ?h @ tw @ post, pending = e\<rparr> =
      Inr \<lparr>sbuf = pre @ ?h @ tcp6_segment f src dst (pk_tcp packet) data (tw ! 12) @ post, pending = e\<rparr>"
    by (simp add: tcp6_segment_def)
  have n: "nat (int (length data) + 60) = length data + 60" by simp
  show ?thesis
    using set_proto_len_v6_window [of l src dst ver "60 + int (length data)" pre 6 f "tw @ post" e] assms tcp
    by (simp add: set_transport_def IsInstanceOf_def layout n add.commute Let_def)
qed

section \<open>The whole frame\<close>

definition sendable6 ::
  "jpacket \<Rightarrow> u8 list \<Rightarrow> u8 list \<Rightarrow> u16 \<Rightarrow> u8 list \<Rightarrow> u8 list \<Rightarrow> u8 list \<Rightarrow> bool" where
  "sendable6 packet dmac smac type src dst data \<longleftrightarrow>
     pk_datalink packet = Some (EthernetPacket
       \<lparr>eth_dst_mac = Some dmac, eth_src_mac = Some smac, eth_frametype = type\<rparr>) \<and>
     length dmac = 6 \<and> length smac = 6 \<and>
     ip_version (pk_ip packet) = 6 \<and>
     ip_src_ip (pk_ip packet) = Some (Inet6 src) \<and> length src = 16 \<and>
     ip_dst_ip (pk_ip packet) = Some (Inet6 dst) \<and> length dst = 16 \<and>
     pk_data packet = Some data"

lemma sent_ipv6:
  assumes ready: "sendable6 packet dmac smac type src dst data" and ip: "IsInstanceOf packet IPPacketC"
    and buf: "length buf = 1600" and n: "length payload \<le> 1546"
    and transport: "\<And>pre e l post. length l = 2 \<Longrightarrow>
      set_transport packet 6 (int (length pre)) (int (length pre) + 40) (40 + int (length data))
      \<lparr>sbuf = pre @ set_ipv6_bytes (pk_ip packet) src dst l
        @ take (length payload) (drop 54 buf) @ post, pending = e\<rparr> =
      Inr (40 + int (length payload), \<lparr>sbuf = pre @ ipv6_header_sent (pk_ip packet) src dst proto
        (40 + length payload) @ payload @ post, pending = e\<rparr>)"
  shows "bytes_sent buf packet = Inr (pad60 (ether_bytes dmac smac type
     @ ipv6_header_sent (pk_ip packet) src dst proto (40 + length payload) @ payload))"
proof -
  have "14 + 40 \<le> length buf" using buf by simp
  then obtain ew iw rest where b: "buf = ew @ iw @ rest" and len: "length ew = 14" "length iw = 40"
    by (rule window_split)
  define tw post where "tw = take (length payload) rest" and "post = drop (length payload) rest"
  have rest: "rest = tw @ post" "length rest = 1546" using buf len by (simp_all add: b tw_def post_def)
  have tw: "take (length payload) (drop 54 buf) = tw" using len by (simp add: b tw_def)
  have sz: "length src = 16" "length dst = 16" "length dmac = 6" "length smac = 6"
    using ready by (simp_all add: sendable6_def)
  let ?E = "ether_bytes dmac smac type" and ?H = "ipv6_header_sent (pk_ip packet) src dst proto (40 + length payload)"
  have ether: "set_ether (pk_datalink packet) 0 \<lparr>sbuf = buf, pending = None\<rparr> =
      Inr (14, \<lparr>sbuf = ?E @ iw @ rest, pending = None\<rparr>)"
    using ready set_ether_window [OF len(1), of "\<lparr>eth_dst_mac = Some dmac, eth_src_mac = Some smac,
        eth_frametype = type\<rparr>" smac dmac "[]" "iw @ rest" None]
    by (simp add: sendable6_def b)
  have v6: "set_ipv6 (pk_ip packet) 14 \<lparr>sbuf = ?E @ iw @ rest, pending = None\<rparr> =
      Inr \<lparr>sbuf = ?E @ set_ipv6_bytes (pk_ip packet) src dst (take 2 (drop 4 iw)) @ rest, pending = None\<rparr>"
    using set_ipv6_window [OF len(2), of "pk_ip packet" src dst ?E rest None] ready sz
    by (simp add: sendable6_def getSourceAddress_def getDestinationAddress_def)
  have tr: "set_transport packet 6 14 54 (40 + int (length data))
      \<lparr>sbuf = ?E @ set_ipv6_bytes (pk_ip packet) src dst (take 2 (drop 4 iw)) @ rest, pending = None\<rparr> =
      Inr (40 + int (length payload), \<lparr>sbuf = ?E @ ?H @ payload @ post, pending = None\<rparr>)"
    using transport [of "take 2 (drop 4 iw)" ?E post None] len sz unfolding tw rest(1) by simp
  have "set_packet packet 0 True \<lparr>sbuf = buf, pending = None\<rparr> =
      Inr (int (length (?E @ ?H @ payload)), \<lparr>sbuf = (?E @ ?H @ payload) @ post, pending = None\<rparr>)"
    using ready ip ether v6 tr sz
    by (simp add: set_packet_def set_layers_def set_ip_packet_def sendable6_def add.commute)
  moreover have "61 \<le> length (?E @ ?H @ payload) + length post"
    using rest n sz by (simp add: post_def)
  ultimately show ?thesis by (rule bytes_sent_pad60)
qed

text \<open>
  Swapping the bytes of the length never gives the payload length: the two differ by a multiple of
  255, and the length counts the 40 bytes of the header in addition.
\<close>

lemma swapped_length_wrong:
  assumes "n + 40 \<le> 65535"
  shows "htons (of_nat (n + 40)) \<noteq> of_nat n"
proof
  let ?w = "of_nat (n + 40) :: u16"
  assume e: "htons ?w = of_nat n"
  obtain a b where w: "?w = le16 a b" by (metis le16_byte_at)
  have "unat ?w = n + 40" and n: "unat (of_nat n :: u16) = n"
    using assms take_bit_nat_eq_self [of "n + 40" 16] take_bit_nat_eq_self [of n 16]
    by (simp_all only: unsigned_of_nat) simp_all
  moreover have "unat ?w = unat a + 256 * unat b" by (simp only: w unat_le16)
  moreover have "n = unat b + 256 * unat a"
    using arg_cong [OF e, of unat] unfolding w htons_le16 unat_le16 n by simp
  ultimately have "255 * unat b = 255 * unat a + 40" by linarith
  then have "(255 * unat b) mod 255 = (40 + 255 * unat a) mod 255" by (simp only: add.commute)
  then show False by simp
qed

text \<open>
  C26. Sending a UDP packet of up to 1538 data bytes over IPv6 hands pcap_sendpacket the
  Ethernet header, the IPv6 header and the datagram byte by byte as stated; but the payload
  length on the wire is never the length of the datagram, since it counts the header too and
  stays in host byte order, and the checksum covers bytes 12 to 19 of the header in place of the
  addresses.
\<close>

theorem udp6_frame_sent:
  assumes ready: "sendable6 packet dmac smac type src dst data" and cls: "pk_class packet = UDPPacketC"
    and len: "length data \<le> 1538" and buf: "length buf = 1600"
  shows "\<exists>m. bytes_sent buf packet = Inr m \<and>
     m = pad60 (ether_bytes dmac smac type @ ipv6_header_sent (pk_ip packet) src dst 17 (48 + length data)
       @ udp6_datagram (pk_ip packet) src dst (pk_udp packet) data) \<and>
     be16 (m ! 18) (m ! 19) \<noteq> of_nat (length data + 8)"
proof -
  have sz: "length src = 16" "length dst = 16" "pk_data packet = Some data" "length dmac = 6" "length smac = 6"
    using ready by (simp_all add: sendable6_def)
  let ?m = "pad60 (ether_bytes dmac smac type @ ipv6_header_sent (pk_ip packet) src dst 17 (48 + length data)
       @ udp6_datagram (pk_ip packet) src dst (pk_udp packet) data)"
  have sent: "bytes_sent buf packet = Inr ?m"
    using sent_ipv6 [OF ready _ buf, of "udp6_datagram (pk_ip packet) src dst (pk_udp packet) data" 17]
      set_transport_v6_udp [OF cls sz(3), of 6 src dst _ "take (length data + 8) (drop 54 buf)"] sz len buf
    by (simp add: IsInstanceOf_def cls)
  have "be16 (?m ! 18) (?m ! 19) = htons (of_nat (length data + 8 + 40))"
    using sz by (simp add: pad60_def nth_append ipv6_header_sent_def bytes16_def bytes32_def htons_def add.commute)
  with swapped_length_wrong [of "length data + 8"] len have "be16 (?m ! 18) (?m ! 19) \<noteq> of_nat (length data + 8)"
    by simp
  with sent show ?thesis by blast
qed

end
