(* ===== verification/TimeCalls.thy ===== *)
theory TimeCalls
  imports Prelude "HOL-Library.Signed_Division"
begin

text \<open>
  \<open>time_calls.h\<close>: how the packet driver stamps a packet. The kernel's clocks are readings handed
  to the functions; what the driver keeps is the mode, the affinity of the thread, the stamp
  \<open>old_ts\<close> that all open instances share, and for each instance the time at which its counters
  started. \<open>LONG\<close> is \<open>32 word\<close> read with \<open>sint\<close>, \<open>QuadPart\<close> and \<open>ULONGLONG\<close> are \<open>64 word\<close>.
\<close>

section \<open>State\<close>

type_synonym LONG = u32
type_synonym ULONG = u32
type_synonym QuadPart = u64

record timeval =
  tv_sec :: LONG
  tv_usec :: LONG

record time_conv =
  reference :: u64
  start :: "timeval list"

text \<open>One look at the clocks: performance counter, its frequency, system time, cycle counter.\<close>

record clocks =
  PTime :: QuadPart
  TimeFreq :: QuadPart
  SystemTime :: QuadPart
  rdtsc :: u64

record driver =
  TimestampMode :: ULONG
  affinity :: u32
  old_ts :: timeval

definition timestamp_modes :: "(string \<times> ULONG) list" where
  "timestamp_modes =
     [(''DEFAULT_TIMESTAMPMODE'', 0), (''TIMESTAMPMODE_SINGLE_SYNCHRONIZATION'', 0),
      (''TIMESTAMPMODE_SYNCHRONIZATION_ON_CPU_WITH_FIXUP'', 1), (''TIMESTAMPMODE_QUERYSYSTEMTIME'', 2),
      (''TIMESTAMPMODE_RDTSC'', 3), (''TIMESTAMPMODE_SYNCHRONIZATION_ON_CPU_NO_FIXUP'', 99)]"

definition on_cpu_mode :: "ULONG \<Rightarrow> bool" where
  "on_cpu_mode mode \<longleftrightarrow> mode = 1 \<or> mode = 99"

section \<open>Arithmetic of the kernel's types\<close>

text \<open>Signed division of \<open>LONGLONG\<close> values.\<close>

definition quad_quot :: "QuadPart \<Rightarrow> QuadPart \<Rightarrow> QuadPart" where
  "quad_quot a b = word_of_int (sint a sdiv sint b)"

definition quad_rem :: "QuadPart \<Rightarrow> QuadPart \<Rightarrow> QuadPart" where
  "quad_rem a b = word_of_int (sint a smod sint b)"

definition borrow :: "timeval \<Rightarrow> timeval" where
  "borrow t = (if tv_usec t <s 0 then t\<lparr>tv_sec := tv_sec t - 1, tv_usec := tv_usec t + 1000000\<rparr> else t)"

definition carry :: "timeval \<Rightarrow> timeval" where
  "carry t = (if 1000000 \<le>s tv_usec t then t\<lparr>tv_sec := tv_sec t + 1, tv_usec := tv_usec t - 1000000\<rparr> else t)"

text \<open>Seconds and microseconds the performance counter has run.\<close>

definition counter_sec :: "clocks \<Rightarrow> LONG" where
  "counter_sec c = ucast (quad_quot (PTime c) (TimeFreq c))"

definition counter_usec :: "clocks \<Rightarrow> LONG" where
  "counter_usec c = ucast (quad_quot (quad_rem (PTime c) (TimeFreq c) * 1000000) (TimeFreq c))"

section \<open>Synchronisation\<close>

definition TIME_DESYNCHRONIZE :: "time_conv \<Rightarrow> time_conv" where
  "TIME_DESYNCHRONIZE data = data\<lparr>reference := 0\<rparr>"

definition SynchronizeOnCpu :: "clocks \<Rightarrow> timeval res" where
  "SynchronizeOnCpu c =
     (if TimeFreq c = 0 then Inl DivideByZero
      else Inr (borrow
        \<lparr>tv_sec = ucast (quad_quot (SystemTime c) 10000000 - 11644473600) - counter_sec c,
         tv_usec = ucast (quad_quot (quad_rem (SystemTime c) 10000000) 10) - counter_usec c\<rparr>))"

text \<open>The looks at the clocks before and after the pause of \<open>TimeSynchronizeRDTSC\<close>, and at its end.\<close>

definition TimeSynchronizeRDTSC :: "clocks \<Rightarrow> clocks \<Rightarrow> clocks \<Rightarrow> time_conv \<Rightarrow> time_conv res" where
  "TimeSynchronizeRDTSC begun stopped now data =
     (if reference data \<noteq> 0 then Inr data
      else
        let delta = rdtsc stopped - rdtsc begun;
            delta2 = PTime stopped - PTime begun;
            (delta, delta2) = (if delta > 10000000000 then (delta div 16, delta2 div 16) else (delta, delta2))
        in if delta2 = 0 then Inl DivideByZero
        else
          let freq = delta * TimeFreq begun div delta2;
              khz = freq div 1000 + (if freq mod 1000 > 500 then 1 else 0);
              freq = khz * 1000
          in if freq = 0 then Inl DivideByZero
          else
            let system_time = SystemTime now - 116444736000000000;
                sec = - ucast (rdtsc now div freq) + ucast (quad_quot system_time 10000000);
                usec = - ucast (rdtsc now mod freq * 1000000 div freq)
                  + ucast (quad_quot (quad_rem system_time 10000000) 10)
            in Inr (data\<lparr>reference := freq,
                 start := (start data)[0 := borrow \<lparr>tv_sec = sec, tv_usec = usec\<rparr>]\<rparr>))"

text \<open>
  The loop over the processors; \<open>look mask\<close> are the clocks seen by a thread bound to the
  processors of \<open>mask\<close>. From processor 32 on the array and the shift are out of range. \<open>intel\<close> says
  whether the driver was built with \<open>__NPF_x86__\<close>.
\<close>

fun sync_cpus :: "(u32 \<Rightarrow> clocks) \<Rightarrow> nat list \<Rightarrow> timeval list \<Rightarrow> timeval list res" where
  "sync_cpus look [] tvs = Inr tvs"
| "sync_cpus look (i # is) tvs =
     (if length tvs \<le> i then Inl (OutOfBounds (int i))
      else bindr (SynchronizeOnCpu (look (push_bit i 1))) (\<lambda>tv. sync_cpus look is (tvs[i := tv])))"

definition TIME_SYNCHRONIZE ::
  "bool \<Rightarrow> ULONG \<Rightarrow> (u32 \<Rightarrow> clocks) \<Rightarrow> clocks \<times> clocks \<times> clocks \<Rightarrow> driver \<times> time_conv \<Rightarrow>
    (driver \<times> time_conv) res" where
  "TIME_SYNCHRONIZE intel NumberOfCpus look rdtsc_looks = (\<lambda>(drv, data).
     if reference data \<noteq> 0 then Inr (drv, data)
     else if on_cpu_mode (TimestampMode drv) then
       bindr (sync_cpus look [0..<unat NumberOfCpus] (start data)) (\<lambda>tvs.
       Inr (drv\<lparr>affinity := 0xFFFFFFFF\<rparr>, data\<lparr>reference := 1, start := tvs\<rparr>))
     else if TimestampMode drv = 2 then Inr (drv, data\<lparr>reference := 1\<rparr>)
     else if intel \<and> TimestampMode drv = 3 then
       (case rdtsc_looks of (begun, stopped, now) \<Rightarrow>
         bindr (TimeSynchronizeRDTSC begun stopped now data) (\<lambda>data. Inr (drv, data)))
     else
       bindr (SynchronizeOnCpu (look (affinity drv))) (\<lambda>tv.
       Inr (drv, data\<lparr>reference := 1, start := (start data)[0 := tv]\<rparr>)))"

section \<open>The time of a packet\<close>

definition elapsed :: "timeval \<Rightarrow> clocks \<Rightarrow> timeval" where
  "elapsed s c = carry \<lparr>tv_sec = tv_sec s + counter_sec c, tv_usec = tv_usec s + counter_usec c\<rparr>"

definition later :: "timeval \<Rightarrow> timeval \<Rightarrow> bool" where
  "later a b \<longleftrightarrow> tv_sec b <s tv_sec a \<or> tv_sec a = tv_sec b \<and> tv_usec b <s tv_usec a"

definition GetTimeKQPC :: "clocks \<Rightarrow> ULONG \<Rightarrow> driver \<Rightarrow> time_conv \<Rightarrow> (timeval \<times> driver) res" where
  "GetTimeKQPC c CurrentCpu drv data =
     (if TimeFreq c = 0 then Inl DivideByZero
      else if on_cpu_mode (TimestampMode drv) then
        (if length (start data) \<le> unat CurrentCpu then Inl (OutOfBounds (uint CurrentCpu))
         else
           let dst = elapsed (start data ! unat CurrentCpu) c
           in if TimestampMode drv = 1
              then if later (old_ts drv) dst then Inr (old_ts drv, drv)
                   else Inr (dst, drv\<lparr>old_ts := dst\<rparr>)
              else Inr (dst, drv))
      else Inr (elapsed (start data ! 0) c, drv))"

text \<open>Nothing is stored while the instance is not synchronised.\<close>

definition GetTimeRDTSC :: "clocks \<Rightarrow> time_conv \<Rightarrow> timeval \<Rightarrow> timeval" where
  "GetTimeRDTSC c data dst =
     (if reference data = 0 then dst
      else
        let sec = ucast (rdtsc c div reference data);
            usec = ucast ((rdtsc c - scast sec * reference data) * 1000000 div reference data)
        in carry \<lparr>tv_sec = sec + tv_sec (start data ! 0), tv_usec = usec + tv_usec (start data ! 0)\<rparr>)"

definition GetTimeQST :: "clocks \<Rightarrow> timeval" where
  "GetTimeQST c =
     \<lparr>tv_sec = ucast (quad_quot (SystemTime c) 10000000 - 11644473600),
      tv_usec = ucast (quad_quot (quad_rem (SystemTime c) 10000000) 10)\<rparr>"

definition GET_TIME ::
  "bool \<Rightarrow> clocks \<Rightarrow> ULONG \<Rightarrow> driver \<Rightarrow> time_conv \<Rightarrow> timeval \<Rightarrow> (timeval \<times> driver) res" where
  "GET_TIME intel c CurrentCpu drv data dst =
     (if intel \<and> TimestampMode drv = 3 then Inr (GetTimeRDTSC c data dst, drv)
      else if TimestampMode drv = 2 then Inr (GetTimeQST c, drv)
      else GetTimeKQPC c CurrentCpu drv data)"

text \<open>Outside the driver the time is handed over.\<close>

definition FORCE_TIME :: "timeval \<Rightarrow> time_conv \<Rightarrow> time_conv" where
  "FORCE_TIME src dest = dest\<lparr>start := (start dest)[0 := src]\<rparr>"

definition GET_TIME_user :: "time_conv \<Rightarrow> timeval" where
  "GET_TIME_user data = start data ! 0"

section \<open>The mode in the registry\<close>

text \<open>
  \<open>query path default\<close> is the status of \<open>RtlQueryRegistryValues\<close> and what it leaves in
  \<open>TimestampMode\<close> (\<open>None\<close> when it stores nothing); the result has the values written back, by path.
  The path has \<open>Length\<close> bytes.
\<close>

definition ReadTimeStampModeFromRegistry ::
  "bool \<Rightarrow> (u16 list \<Rightarrow> ULONG \<Rightarrow> bool \<times> ULONG option) \<Rightarrow> u16 \<Rightarrow> u16 list \<Rightarrow> driver \<Rightarrow>
    driver \<times> (u16 list \<times> ULONG) list" where
  "ReadTimeStampModeFromRegistry allocated query Length Buffer drv =
     (if allocated then
        let path = take (unat Length div 2) Buffer;
            (success, stored) = query path 0;
            mode = (if success then case stored of None \<Rightarrow> TimestampMode drv | Some m \<Rightarrow> m else 0)
        in (drv\<lparr>TimestampMode := mode\<rparr>, [(path, mode)])
      else (drv\<lparr>TimestampMode := 0\<rparr>, []))"

end
