(* ===== verification/TimeLaws.thy ===== *)
theory TimeLaws
  imports TimeCalls
begin

text \<open>
  The stamps of \<open>time_calls.h\<close> are the system time at synchronisation plus the time the counter
  has run since, to the microsecond; with the fix-up they never go back; and the array of start
  times has room for 32 processors.
\<close>

section \<open>Words as integers\<close>

lemma sint_word_of_int_64: "- (2 ^ 63) \<le> k \<Longrightarrow> k < 2 ^ 63 \<Longrightarrow> sint (word_of_int k :: u64) = k"
  by (simp add: signed_of_int signed_take_bit_int_eq_self)

lemma sint_word_of_int_32: "- (2 ^ 31) \<le> k \<Longrightarrow> k < 2 ^ 31 \<Longrightarrow> sint (word_of_int k :: u32) = k"
  by (simp add: signed_of_int signed_take_bit_int_eq_self)

lemma sint_small_64: "0 \<le> k \<Longrightarrow> k < 1000000000000000000 \<Longrightarrow> sint (word_of_int k :: u64) = k"
  by (rule sint_word_of_int_64) simp_all

lemma ucast_word_of_int: "(ucast (word_of_int k :: u64) :: u32) = word_of_int k"
  by (rule word_uint_eqI) (simp add: unsigned_of_int unsigned_ucast_eq take_bit_take_bit min_def)

lemma sdiv_nonneg: "0 \<le> (a :: int) \<Longrightarrow> 0 < b \<Longrightarrow> a sdiv b = a div b"
  by (simp add: signed_divide_int_def sgn_if)

lemma smod_nonneg: "0 \<le> (a :: int) \<Longrightarrow> 0 < b \<Longrightarrow> a smod b = a mod b"
  by (simp add: signed_modulo_int_def sgn_if)

lemma quad_quot_nonneg:
  "0 \<le> sint a \<Longrightarrow> 0 < sint b \<Longrightarrow> quad_quot a b = word_of_int (sint a div sint b)"
  by (simp add: quad_quot_def sdiv_nonneg)

lemma quad_rem_nonneg:
  "0 \<le> sint a \<Longrightarrow> 0 < sint b \<Longrightarrow> quad_rem a b = word_of_int (sint a mod sint b)"
  by (simp add: quad_rem_def smod_nonneg)

section \<open>Times\<close>

text \<open>The time of a number of microseconds since 1970, and back.\<close>

definition of_us :: "int \<Rightarrow> timeval" where
  "of_us t = \<lparr>tv_sec = word_of_int (t div 1000000), tv_usec = word_of_int (t mod 1000000)\<rparr>"

definition us :: "timeval \<Rightarrow> int" where
  "us tv = sint (tv_sec tv) * 1000000 + sint (tv_usec tv)"

text \<open>A signed 32-bit number of seconds lasts from 1901 to 2038.\<close>

definition until_2038 :: "int \<Rightarrow> bool" where
  "until_2038 t \<longleftrightarrow> - (2 ^ 31) \<le> t div 1000000 \<and> t div 1000000 < 2 ^ 31"

lemma sint_small: "0 \<le> k \<Longrightarrow> k < 2000000 \<Longrightarrow> sint (word_of_int k :: u32) = k"
  by (rule sint_word_of_int_32) simp_all

lemma sint_usec: "sint (word_of_int (t mod 1000000) :: u32) = t mod 1000000"
  by (rule sint_small) (use pos_mod_bound [of 1000000 t] pos_mod_sign [of 1000000 t] in linarith)+

lemma us_of_us: "until_2038 t \<Longrightarrow> us (of_us t) = t"
proof -
  assume "until_2038 t"
  then have "sint (word_of_int (t div 1000000) :: u32) = t div 1000000"
    by (simp add: until_2038_def sint_word_of_int_32)
  then show ?thesis
    unfolding us_def of_us_def timeval.simps sint_usec by (simp only: div_mult_mod_eq)
qed

lemma usec_of_us: "0 \<le> sint (tv_usec (of_us t)) \<and> sint (tv_usec (of_us t)) < 1000000"
  unfolding of_us_def timeval.simps sint_usec by simp

lemma of_us_parts:
  assumes "0 \<le> r" and "r < 1000000"
  shows "of_us (q * 1000000 + r) = \<lparr>tv_sec = word_of_int q, tv_usec = word_of_int r\<rparr>"
proof -
  have "(q * 1000000 + r) div 1000000 = q" by (rule int_div_pos_eq) (use assms in simp_all)
  moreover have "(q * 1000000 + r) mod 1000000 = r" by (rule int_mod_pos_eq) (use assms in simp_all)
  ultimately show ?thesis by (simp only: of_us_def)
qed

lemma borrow_of_us:
  assumes "- 1000000 \<le> u" and "u < 1000000"
  shows "borrow \<lparr>tv_sec = word_of_int a, tv_usec = word_of_int u\<rparr> = of_us (a * 1000000 + u)"
proof -
  have u: "sint (word_of_int u :: u32) = u" using assms by (intro sint_word_of_int_32) simp_all
  show ?thesis
  proof (cases "u < 0")
    case True
    then have "of_us ((a - 1) * 1000000 + (u + 1000000)) =
        \<lparr>tv_sec = word_of_int (a - 1), tv_usec = word_of_int (u + 1000000)\<rparr>"
      by (intro of_us_parts) (use assms in simp_all)
    moreover have "(a - 1) * 1000000 + (u + 1000000) = a * 1000000 + u" by simp
    ultimately have "of_us (a * 1000000 + u) = \<lparr>tv_sec = word_of_int (a - 1), tv_usec = word_of_int (u + 1000000)\<rparr>"
      by (simp only:)
    with True show ?thesis by (simp add: borrow_def word_sless_alt u)
  next
    case False
    with assms show ?thesis by (simp add: borrow_def of_us_parts word_sless_alt u)
  qed
qed

lemma carry_of_us:
  assumes "0 \<le> u" and "u < 2000000"
  shows "carry \<lparr>tv_sec = word_of_int a, tv_usec = word_of_int u\<rparr> = of_us (a * 1000000 + u)"
proof -
  have u: "sint (word_of_int u :: u32) = u" using assms by (intro sint_word_of_int_32) simp_all
  show ?thesis
  proof (cases "u < 1000000")
    case True
    with assms show ?thesis by (simp add: carry_def of_us_parts word_sle_eq u)
  next
    case False
    then have "of_us ((a + 1) * 1000000 + (u - 1000000)) =
        \<lparr>tv_sec = word_of_int (a + 1), tv_usec = word_of_int (u - 1000000)\<rparr>"
      by (intro of_us_parts) (use assms in simp_all)
    moreover have "(a + 1) * 1000000 + (u - 1000000) = a * 1000000 + u" by simp
    ultimately have "of_us (a * 1000000 + u) = \<lparr>tv_sec = word_of_int (a + 1), tv_usec = word_of_int (u - 1000000)\<rparr>"
      by (simp only:)
    with False show ?thesis by (simp add: carry_def word_sle_eq u)
  qed
qed

section \<open>The clocks\<close>

text \<open>
  Clocks as the kernel documents them: non-negative values, the frequency \<open>f\<close> of the counter
  positive and not above \<open>10 ^ 12\<close> per second.
\<close>

definition ticking :: "int \<Rightarrow> clocks \<Rightarrow> bool" where
  "ticking f c \<longleftrightarrow> sint (TimeFreq c) = f \<and> 0 < f \<and> f \<le> 1000000000000 \<and> 0 \<le> sint (PTime c) \<and> 0 \<le> sint (SystemTime c)"

text \<open>Microseconds the counter has run, and the system time in microseconds since 1970.\<close>

definition run_us :: "clocks \<Rightarrow> int" where
  "run_us c = sint (PTime c) * 1000000 div sint (TimeFreq c)"

definition system_us :: "clocks \<Rightarrow> int" where
  "system_us c = sint (SystemTime c) div 10 - 11644473600000000"

lemma div_scaled: "(p * s) div f = (p div f) * s + (p mod f * s) div f" if "0 < f" for p s f :: int
proof -
  have "p * s = (p mod f) * s + f * ((p div f) * s)"
    by (metis (no_types, opaque_lifting) distrib_right mod_mult_div_eq mult.assoc)
  with that show ?thesis by (simp add: div_mult_self2)
qed

lemma div_below: "x div f < k" if "0 < f" "x < k * f" for x f k :: int
proof (rule ccontr)
  assume "\<not> x div f < k"
  then have "k * f \<le> x div f * f" using that by simp
  moreover have "x div f * f \<le> x" using div_mult_mod_eq [of x f] pos_mod_sign [of f x] that by linarith
  ultimately show False using that by linarith
qed

lemma counter_parts:
  assumes "ticking f c"
  obtains u where "counter_sec c = word_of_int (sint (PTime c) div f)" and "counter_usec c = word_of_int u"
    and "0 \<le> u" and "u < 1000000" and "run_us c = sint (PTime c) div f * 1000000 + u"
proof -
  let ?p = "sint (PTime c)"
  have f: "sint (TimeFreq c) = f" "0 < f" "f \<le> 1000000000000" "0 \<le> ?p" using assms by (simp_all add: ticking_def)
  have r: "0 \<le> ?p mod f" "?p mod f < f" using f by simp_all
  have small: "?p mod f * 1000000 < 1000000000000000000" using r f by linarith
  have "sint (quad_rem (PTime c) (TimeFreq c) * 1000000) = ?p mod f * 1000000"
  proof -
    have "quad_rem (PTime c) (TimeFreq c) * 1000000 = word_of_int (?p mod f * 1000000)"
      using f by (simp add: quad_rem_nonneg)
    moreover have "sint (word_of_int (?p mod f * 1000000) :: u64) = ?p mod f * 1000000"
      by (rule sint_small_64) (use small r(1) in simp_all)
    ultimately show ?thesis by (simp only:)
  qed
  then have "quad_quot (quad_rem (PTime c) (TimeFreq c) * 1000000) (TimeFreq c) =
      word_of_int (?p mod f * 1000000 div f)"
    using f r by (simp add: quad_quot_nonneg)
  then have usec: "counter_usec c = word_of_int (?p mod f * 1000000 div f)"
    by (simp add: counter_usec_def ucast_word_of_int)
  have "counter_sec c = word_of_int (?p div f)"
    using f by (simp add: counter_sec_def quad_quot_nonneg ucast_word_of_int)
  moreover note usec
  moreover have "0 \<le> ?p mod f * 1000000 div f" using r f by (simp add: pos_imp_zdiv_nonneg_iff)
  moreover have "?p mod f * 1000000 div f < 1000000"
    by (rule div_below) (use r f in linarith)+
  moreover have "run_us c = ?p div f * 1000000 + ?p mod f * 1000000 div f"
    using div_scaled [of f ?p 1000000] f by (simp add: run_us_def)
  ultimately show ?thesis by (rule that)
qed

text \<open>Units of 100 nanoseconds as seconds and microseconds.\<close>

lemma quad_decimal:
  assumes "0 \<le> sint w"
  obtains u where "quad_quot w 10000000 = word_of_int (sint w div 10000000)"
    and "ucast (quad_quot (quad_rem w 10000000) 10) = (word_of_int u :: LONG)"
    and "0 \<le> u" and "u < 1000000" and "sint w div 10 = sint w div 10000000 * 1000000 + u"
proof -
  have r: "0 \<le> sint w mod 10000000" "sint w mod 10000000 < 10000000" by simp_all
  have n: "sint (10000000 :: u64) = 10000000" "sint (10 :: u64) = 10" by simp_all
  have sec: "quad_quot w 10000000 = word_of_int (sint w div 10000000)"
    using assms by (simp add: quad_quot_nonneg n)
  have "sint (quad_rem w 10000000) = sint w mod 10000000"
  proof -
    have "sint (word_of_int (sint w mod 10000000) :: u64) = sint w mod 10000000"
      by (rule sint_small_64) (use r in linarith)+
    then show ?thesis using assms by (simp only: quad_rem_nonneg n)
  qed
  then have usec: "ucast (quad_quot (quad_rem w 10000000) 10) = (word_of_int (sint w mod 10000000 div 10) :: LONG)"
    using r by (simp only: quad_quot_nonneg n ucast_word_of_int)
  have u: "0 \<le> sint w mod 10000000 div 10" "sint w mod 10000000 div 10 < 1000000"
    by (simp, rule div_below) simp_all
  have "sint w = sint w mod 10000000 + 10 * (sint w div 10000000 * 1000000)"
    using div_mult_mod_eq [of "sint w" 10000000] by linarith
  then have "sint w div 10 = (sint w mod 10000000 + 10 * (sint w div 10000000 * 1000000)) div 10" by (simp only:)
  then have "sint w div 10 = sint w div 10000000 * 1000000 + sint w mod 10000000 div 10"
    by (simp only: div_mult_self2)
  with sec usec u show ?thesis by (rule that)
qed

lemma system_parts:
  assumes "ticking f c"
  obtains u where "ucast (quad_quot (SystemTime c) 10000000 - 11644473600) =
      (word_of_int (sint (SystemTime c) div 10000000 - 11644473600) :: LONG)"
    and "ucast (quad_quot (quad_rem (SystemTime c) 10000000) 10) = (word_of_int u :: LONG)"
    and "0 \<le> u" and "u < 1000000"
    and "system_us c = (sint (SystemTime c) div 10000000 - 11644473600) * 1000000 + u"
proof -
  let ?st = "sint (SystemTime c)"
  obtain u where q: "quad_quot (SystemTime c) 10000000 = word_of_int (?st div 10000000)"
    and u: "ucast (quad_quot (quad_rem (SystemTime c) 10000000) 10) = (word_of_int u :: LONG)" "0 \<le> u" "u < 1000000"
    and st: "?st div 10 = ?st div 10000000 * 1000000 + u"
    by (rule quad_decimal [of "SystemTime c"]) (use assms in \<open>simp add: ticking_def\<close>)
  have "quad_quot (SystemTime c) 10000000 - 11644473600 = word_of_int (?st div 10000000 - 11644473600)"
    by (simp add: q)
  then have "ucast (quad_quot (SystemTime c) 10000000 - 11644473600) =
      (word_of_int (?st div 10000000 - 11644473600) :: LONG)"
    by (simp only: ucast_word_of_int)
  moreover have "system_us c = (?st div 10000000 - 11644473600) * 1000000 + u"
    by (simp add: system_us_def st algebra_simps)
  ultimately show ?thesis using u that by blast
qed

text \<open>A synchronised start is the time at which the counter was zero.\<close>

lemma SynchronizeOnCpu_time:
  assumes "ticking f c"
  shows "SynchronizeOnCpu c = Inr (of_us (system_us c - run_us c))"
proof -
  obtain u where u: "counter_sec c = word_of_int (sint (PTime c) div f)" "counter_usec c = word_of_int u"
    "0 \<le> u" "u < 1000000" "run_us c = sint (PTime c) div f * 1000000 + u"
    using assms by (rule counter_parts)
  obtain v where v: "ucast (quad_quot (SystemTime c) 10000000 - 11644473600) =
      (word_of_int (sint (SystemTime c) div 10000000 - 11644473600) :: LONG)"
    "ucast (quad_quot (quad_rem (SystemTime c) 10000000) 10) = (word_of_int v :: LONG)"
    "0 \<le> v" "v < 1000000"
    "system_us c = (sint (SystemTime c) div 10000000 - 11644473600) * 1000000 + v"
    using assms by (rule system_parts)
  have "borrow \<lparr>tv_sec = word_of_int (sint (SystemTime c) div 10000000 - 11644473600 - sint (PTime c) div f),
      tv_usec = word_of_int (v - u)\<rparr> = of_us (system_us c - run_us c)"
  proof (subst borrow_of_us)
    show "of_us ((sint (SystemTime c) div 10000000 - 11644473600 - sint (PTime c) div f) * 1000000 + (v - u)) =
        of_us (system_us c - run_us c)"
      unfolding u(5) v(5) by (simp only: left_diff_distrib) (rule arg_cong [of _ _ of_us], linarith)
  qed (use u v in simp_all)
  moreover have "TimeFreq c \<noteq> 0" using assms by (auto simp: ticking_def)
  ultimately show ?thesis
    unfolding SynchronizeOnCpu_def v u(1,2) by (simp only: if_False wi_hom_sub)
qed

lemma elapsed_of_us:
  assumes "ticking f c"
  shows "elapsed (of_us t) c = of_us (t + run_us c)"
proof -
  obtain u where u: "counter_sec c = word_of_int (sint (PTime c) div f)" "counter_usec c = word_of_int u"
    "0 \<le> u" "u < 1000000" "run_us c = sint (PTime c) div f * 1000000 + u"
    using assms by (rule counter_parts)
  have "carry \<lparr>tv_sec = word_of_int (t div 1000000 + sint (PTime c) div f),
      tv_usec = word_of_int (t mod 1000000 + u)\<rparr> =
      of_us ((t div 1000000 + sint (PTime c) div f) * 1000000 + (t mod 1000000 + u))"
    by (rule carry_of_us) (use u pos_mod_bound [of 1000000 t] in simp_all)
  moreover have "(t div 1000000 + sint (PTime c) div f) * 1000000 + (t mod 1000000 + u) = t + run_us c"
    unfolding u(5) distrib_right using div_mult_mod_eq [of t 1000000] by linarith
  ultimately show ?thesis
    unfolding elapsed_def u(1,2) of_us_def [of t] timeval.simps by (simp only: wi_hom_add)
qed

lemma GetTimeQST_time:
  assumes "ticking f c"
  shows "GetTimeQST c = of_us (system_us c)"
proof -
  obtain v where v: "ucast (quad_quot (SystemTime c) 10000000 - 11644473600) =
      (word_of_int (sint (SystemTime c) div 10000000 - 11644473600) :: LONG)"
    "ucast (quad_quot (quad_rem (SystemTime c) 10000000) 10) = (word_of_int v :: LONG)"
    "0 \<le> v" "v < 1000000"
    "system_us c = (sint (SystemTime c) div 10000000 - 11644473600) * 1000000 + v"
    using assms by (rule system_parts)
  then show ?thesis unfolding GetTimeQST_def v(1,2) v(5) by (simp only: of_us_parts)
qed

section \<open>Synchronisation of all processors\<close>

text \<open>When the counter of these clocks was zero.\<close>

definition boot_us :: "clocks \<Rightarrow> int" where
  "boot_us c = system_us c - run_us c"

lemma sync_cpus_append:
  "sync_cpus look (is @ js) tvs = bindr (sync_cpus look is tvs) (sync_cpus look js)"
proof (induction "is" arbitrary: tvs)
  case (Cons i "is")
  then show ?case by (cases "SynchronizeOnCpu (look (push_bit i 1))") (simp_all del: push_bit_of_1)
qed simp

lemma sync_cpus_runs:
  assumes "\<forall>mask. ticking f (look mask)" and "\<forall>i \<in> set is. i < length tvs"
  shows "\<exists>tvs'. sync_cpus look is tvs = Inr tvs' \<and> length tvs' = length tvs \<and>
    (\<forall>i \<in> set is. tvs' ! i = of_us (boot_us (look (push_bit i 1)))) \<and>
    (\<forall>i. i \<notin> set is \<longrightarrow> tvs' ! i = tvs ! i)"
  using assms(2)
proof (induction "is" arbitrary: tvs)
  case (Cons i "is")
  let ?tv = "of_us (boot_us (look (push_bit i 1)))"
  have tv: "SynchronizeOnCpu (look (push_bit i 1)) = Inr ?tv"
    using SynchronizeOnCpu_time [of f "look (push_bit i 1)"] assms(1) by (simp add: boot_us_def)
  obtain tvs' where "sync_cpus look is (tvs[i := ?tv]) = Inr tvs'" "length tvs' = length tvs"
    and all: "\<forall>k \<in> set is. tvs' ! k = of_us (boot_us (look (push_bit k 1)))"
    and rest: "\<forall>k. k \<notin> set is \<longrightarrow> tvs' ! k = tvs[i := ?tv] ! k"
    using Cons.IH [of "tvs[i := ?tv]"] Cons.prems by auto
  then have "sync_cpus look (i # is) tvs = Inr tvs' \<and> length tvs' = length tvs"
    using Cons.prems tv by simp
  moreover have "tvs' ! i = ?tv" using all rest Cons.prems by (cases "i \<in> set is") auto
  moreover have "\<forall>k. k \<notin> set (i # is) \<longrightarrow> tvs' ! k = tvs ! k" using rest by simp
  ultimately show ?case using all by auto
qed simp

text \<open>A machine of more than 32 processors is written behind the array.\<close>

lemma sync_cpus_overflow:
  assumes "\<forall>mask. ticking f (look mask)" and "length tvs < n"
  shows "sync_cpus look [0..<n] tvs = Inl (OutOfBounds (int (length tvs)))"
proof -
  have "[0..<n] = [0..<length tvs] @ length tvs # [Suc (length tvs)..<n]"
    using assms(2) by (metis less_imp_le_nat upt_add_eq_append upt_conv_Cons le0 ordered_cancel_comm_monoid_diff_class.add_diff_inverse)
  moreover obtain tvs' where "sync_cpus look [0..<length tvs] tvs = Inr tvs'" "length tvs' = length tvs"
    using sync_cpus_runs [OF assms(1), of "[0..<length tvs]" tvs] by auto
  ultimately show ?thesis by (simp add: sync_cpus_append)
qed

text \<open>
  The array of start times of an instance has 32 entries and the loop over the processors has
  no test: in the modes that synchronise on every processor the driver writes behind the array
  exactly on machines with more than 32 of them.
\<close>

theorem more_than_32_cpus_overflow:
  assumes "\<forall>mask. ticking f (look mask)" and "on_cpu_mode (TimestampMode drv)"
    and "reference data = 0" and "length (start data) = 32"
  shows "(TIME_SYNCHRONIZE intel n look looks (drv, data) = Inl (OutOfBounds 32) \<longleftrightarrow> 32 < unat n) \<and>
     (ok (TIME_SYNCHRONIZE intel n look looks (drv, data)) \<longleftrightarrow> unat n \<le> 32)"
  using sync_cpus_overflow [OF assms(1), of "start data" "unat n"]
    sync_cpus_runs [OF assms(1), of "[0..<unat n]" "start data"] assms(2-4)
  by (cases "32 < unat n") (force simp: TIME_SYNCHRONIZE_def)+

section \<open>Stamps\<close>

text \<open>The clocks an instance was synchronised with, for a stamp taken on processor \<open>cpu\<close>.\<close>

definition synchronised_with :: "(u32 \<Rightarrow> clocks) \<Rightarrow> driver \<Rightarrow> ULONG \<Rightarrow> clocks" where
  "synchronised_with look drv cpu =
     look (if on_cpu_mode (TimestampMode drv) then push_bit (unat cpu) 1 else affinity drv)"

definition normal :: "timeval \<Rightarrow> bool" where
  "normal tv \<longleftrightarrow> 0 \<le> sint (tv_usec tv) \<and> sint (tv_usec tv) < 1000000"

lemma normal_of_us: "normal (of_us t)"
  using usec_of_us by (simp add: normal_def)

lemma later_sint:
  "later a b \<longleftrightarrow> sint (tv_sec b) < sint (tv_sec a) \<or>
     sint (tv_sec a) = sint (tv_sec b) \<and> sint (tv_usec b) < sint (tv_usec a)"
  unfolding later_def word_sless_alt by (metis signed_word_eqI)

lemma later_us: "normal a \<Longrightarrow> normal b \<Longrightarrow> later a b \<longleftrightarrow> us b < us a"
  unfolding later_sint normal_def us_def by linarith

lemma TIME_SYNCHRONIZE_starts:
  assumes ticks: "\<forall>mask. ticking f (look mask)" and data: "reference data = 0" "length (start data) = 32"
    and mode: "TimestampMode drv \<noteq> 2" "intel \<longrightarrow> TimestampMode drv \<noteq> 3" and n: "unat cpu < unat n" "unat n \<le> 32"
  obtains drv' data' where "TIME_SYNCHRONIZE intel n look looks (drv, data) = Inr (drv', data')"
    and "TimestampMode drv' = TimestampMode drv" and "old_ts drv' = old_ts drv"
    and "reference data' = 1" and "length (start data') = 32"
    and "start data' ! (if on_cpu_mode (TimestampMode drv) then unat cpu else 0) =
      of_us (boot_us (synchronised_with look drv cpu))"
proof (cases "on_cpu_mode (TimestampMode drv)")
  case True
  obtain tvs where "sync_cpus look [0..<unat n] (start data) = Inr tvs" "length tvs = 32"
    "\<forall>i \<in> set [0..<unat n]. tvs ! i = of_us (boot_us (look (push_bit i 1)))"
    using sync_cpus_runs [OF ticks, of "[0..<unat n]" "start data"] data n by auto
  with True data n show ?thesis
    by (intro that [of "drv\<lparr>affinity := 0xFFFFFFFF\<rparr>" "data\<lparr>reference := 1, start := tvs\<rparr>"])
       (simp_all add: TIME_SYNCHRONIZE_def synchronised_with_def)
next
  case False
  have "SynchronizeOnCpu (look (affinity drv)) = Inr (of_us (boot_us (look (affinity drv))))"
    using SynchronizeOnCpu_time [of f "look (affinity drv)"] ticks by (simp add: boot_us_def)
  with False data mode show ?thesis
    by (intro that [of drv "data\<lparr>reference := 1, start := (start data)[0 := of_us (boot_us (look (affinity drv)))]\<rparr>"])
       (auto simp: TIME_SYNCHRONIZE_def synchronised_with_def)
qed

lemma GetTimeKQPC_time:
  assumes "ticking f c" and "start data ! (if on_cpu_mode (TimestampMode drv) then unat cpu else 0) = of_us t"
    and "length (start data) = 32" and "unat cpu < 32" and "normal (old_ts drv)" and "until_2038 (t + run_us c)"
  shows "\<exists>tv drv'. GetTimeKQPC c cpu drv data = Inr (tv, drv') \<and> normal tv \<and>
    us tv = (if TimestampMode drv = 1 then max (us (old_ts drv)) (t + run_us c) else t + run_us c)"
proof -
  have "TimeFreq c \<noteq> 0" using assms(1) by (auto simp: ticking_def)
  moreover have "elapsed (of_us t) c = of_us (t + run_us c)" using assms(1) by (rule elapsed_of_us)
  moreover have "later (old_ts drv) (of_us (t + run_us c)) \<longleftrightarrow> t + run_us c < us (old_ts drv)"
    using later_us [OF assms(5) normal_of_us] us_of_us [OF assms(6)] by simp
  ultimately show ?thesis
    using assms us_of_us [OF assms(6)] by (auto simp: GetTimeKQPC_def Let_def on_cpu_mode_def normal_of_us max_def)
qed

text \<open>
  C36. The time stamp the driver gives a packet is the system time at the synchronisation of its
  instance plus the time the performance counter has run since, exact to the microsecond, in
  every mode that uses the counter and on every one of up to 32 processors (the affinity mask
  has 32 bits); in the mode with fix-up it is that or the stamp given last, whichever is later.
  This holds as long as the seconds fit a signed 32-bit number.
\<close>

theorem stamp_is_system_time:
  assumes ticks: "\<forall>mask. ticking f (look mask)" "ticking f c"
    and data: "reference data = 0" "length (start data) = 32" and cpus: "unat cpu < unat n" "unat n \<le> 32"
    and mode: "TimestampMode drv \<noteq> 2" "intel \<longrightarrow> TimestampMode drv \<noteq> 3" and old: "normal (old_ts drv)"
    and "at = system_us (synchronised_with look drv cpu) + (run_us c - run_us (synchronised_with look drv cpu))"
    and "until_2038 at"
  shows "\<exists>drv' data' tv drv''. TIME_SYNCHRONIZE intel n look looks (drv, data) = Inr (drv', data') \<and>
     GET_TIME intel c cpu drv' data' dst = Inr (tv, drv'') \<and> normal tv \<and>
     us tv = (if TimestampMode drv = 1 then max (us (old_ts drv)) at else at)"
proof -
  obtain drv' data' where sync: "TIME_SYNCHRONIZE intel n look looks (drv, data) = Inr (drv', data')"
    and drv': "TimestampMode drv' = TimestampMode drv" "old_ts drv' = old_ts drv" and "length (start data') = 32"
    and "start data' ! (if on_cpu_mode (TimestampMode drv) then unat cpu else 0) =
      of_us (boot_us (synchronised_with look drv cpu))"
    using TIME_SYNCHRONIZE_starts [OF ticks(1) data mode cpus, of looks] .
  moreover have at: "boot_us (synchronised_with look drv cpu) + run_us c = at"
    using assms(10) by (simp add: boot_us_def)
  ultimately have "\<exists>tv drv''. GetTimeKQPC c cpu drv' data' = Inr (tv, drv'') \<and> normal tv \<and>
      us tv = (if TimestampMode drv' = 1
        then max (us (old_ts drv')) (boot_us (synchronised_with look drv cpu) + run_us c)
        else boot_us (synchronised_with look drv cpu) + run_us c)"
    by (intro GetTimeKQPC_time [OF ticks(2)]) (use assms(11) cpus old in simp_all)
  then obtain tv drv'' where "GetTimeKQPC c cpu drv' data' = Inr (tv, drv'')" "normal tv"
    "us tv = (if TimestampMode drv = 1 then max (us (old_ts drv)) at else at)"
    unfolding at drv' by blast
  moreover have "GET_TIME intel c cpu drv' data' dst = GetTimeKQPC c cpu drv' data'"
    using mode drv' by (auto simp: GET_TIME_def)
  ultimately show ?thesis using sync by simp
qed

section \<open>A sequence of stamps\<close>

text \<open>The packets of any instances, each with the look at the clocks and the processor it is stamped on.\<close>

fun stamps :: "(clocks \<times> ULONG \<times> time_conv) list \<Rightarrow> driver \<Rightarrow> timeval list res" where
  "stamps [] drv = Inr []"
| "stamps ((c, cpu, data) # ps) drv =
     bindr (GetTimeKQPC c cpu drv data) (\<lambda>(tv, drv). bindr (stamps ps drv) (\<lambda>tvs. Inr (tv # tvs)))"

lemma not_later_trans: "\<not> later a b \<Longrightarrow> \<not> later b c \<Longrightarrow> \<not> later a c"
  unfolding later_sint by linarith

lemma not_later_refl: "\<not> later a a"
  by (simp add: later_def word_sless_alt)

lemma GetTimeKQPC_fixup:
  assumes "GetTimeKQPC c cpu drv data = Inr (tv, drv')" and "TimestampMode drv = 1"
  shows "TimestampMode drv' = 1 \<and> old_ts drv' = tv \<and> \<not> later (old_ts drv) tv"
  using assms not_later_refl
  by (auto simp: GetTimeKQPC_def on_cpu_mode_def Let_def split: if_splits)

lemma stamps_sorted:
  "stamps ps drv = Inr tvs \<Longrightarrow> TimestampMode drv = 1 \<Longrightarrow>
    sorted_wrt (\<lambda>a b. \<not> later a b) (old_ts drv # tvs)"
proof (induction ps drv arbitrary: tvs rule: stamps.induct)
  case (2 c cpu data ps drv)
  obtain tv drv' tvs' where g: "GetTimeKQPC c cpu drv data = Inr (tv, drv')"
    and "stamps ps drv' = Inr tvs'" and tvs: "tvs = tv # tvs'"
    using "2.prems"(1) by (auto simp: bindr_Inr_iff)
  with "2.IH" GetTimeKQPC_fixup [OF g "2.prems"(2)] have "sorted_wrt (\<lambda>a b. \<not> later a b) (tv # tvs')" by auto
  moreover have "\<not> later (old_ts drv) tv" using GetTimeKQPC_fixup [OF g "2.prems"(2)] by simp
  ultimately show ?case unfolding tvs sorted_wrt.simps set_simps using not_later_trans by blast
qed simp

text \<open>
  C37. In the mode with fix-up the time stamps never go back, whatever the counters of the
  processors show, over all instances together and from the stamp given last on, when the stamps
  are taken one after the other: the static old_ts is not locked, and two processors inside the
  function at once are outside this.
\<close>

theorem fixup_never_goes_back:
  assumes "stamps ps drv = Inr tvs" and "TimestampMode drv = 1"
  shows "sorted_wrt (\<lambda>a b. \<not> later a b) (old_ts drv # tvs)"
  using assms by (rule stamps_sorted)

section \<open>The cycle counter\<close>

text \<open>Microseconds the cycle counter has run at \<open>r\<close> cycles per second.\<close>

definition cycles_us :: "u64 \<Rightarrow> clocks \<Rightarrow> int" where
  "cycles_us r c = uint (rdtsc c) * 1000000 div uint r"

lemma ucast_64_32: "(ucast (w :: u64) :: LONG) = word_of_int (uint w)"
  by (metis ucast_word_of_int word_of_int_uint)

lemma cycles_parts:
  assumes r: "0 < uint r" "uint r \<le> 10000000000000"
  shows "(ucast (rdtsc c div r) :: LONG) = word_of_int (uint (rdtsc c) div uint r)"
    and "(ucast (rdtsc c mod r * 1000000 div r) :: LONG) = word_of_int (uint (rdtsc c) mod uint r * 1000000 div uint r)"
    and "0 \<le> uint (rdtsc c) mod uint r * 1000000 div uint r"
    and "uint (rdtsc c) mod uint r * 1000000 div uint r < 1000000"
    and "cycles_us r c = uint (rdtsc c) div uint r * 1000000 + uint (rdtsc c) mod uint r * 1000000 div uint r"
proof -
  have m: "0 \<le> uint (rdtsc c) mod uint r" "uint (rdtsc c) mod uint r < uint r" using r by simp_all
  show "(ucast (rdtsc c div r) :: LONG) = word_of_int (uint (rdtsc c) div uint r)"
    by (simp add: ucast_64_32 uint_div)
  have "uint (rdtsc c mod r * 1000000) = uint (rdtsc c) mod uint r * 1000000 mod 18446744073709551616"
    by (simp add: uint_word_ariths uint_mod)
  also have "\<dots> = uint (rdtsc c) mod uint r * 1000000"
    by (rule mod_pos_pos_trivial) (use m r in linarith)+
  finally show "(ucast (rdtsc c mod r * 1000000 div r) :: LONG) =
      word_of_int (uint (rdtsc c) mod uint r * 1000000 div uint r)"
    by (simp add: ucast_64_32 uint_div)
  show "0 \<le> uint (rdtsc c) mod uint r * 1000000 div uint r"
    using m r by (simp add: pos_imp_zdiv_nonneg_iff)
  show "uint (rdtsc c) mod uint r * 1000000 div uint r < 1000000"
    by (rule div_below) (use m r in linarith)+
  show "cycles_us r c = uint (rdtsc c) div uint r * 1000000 + uint (rdtsc c) mod uint r * 1000000 div uint r"
    using div_scaled [of "uint r" "uint (rdtsc c)" 1000000] r by (simp add: cycles_us_def)
qed

lemma GetTimeRDTSC_time:
  assumes r: "0 < uint (reference data)" "uint (reference data) \<le> 10000000000000"
    and short: "uint (rdtsc c) div uint (reference data) < 2 ^ 31" and start: "start data ! 0 = of_us t"
  shows "GetTimeRDTSC c data dst = of_us (t + cycles_us (reference data) c)"
proof -
  let ?r = "reference data" and ?n = "uint (rdtsc c)"
  let ?q = "?n div uint ?r" and ?u = "?n mod uint ?r * 1000000 div uint ?r"
  note parts = cycles_parts [OF r, of c]
  have q: "0 \<le> ?q" using r by (simp add: pos_imp_zdiv_nonneg_iff)
  then have "sint (word_of_int ?q :: LONG) = ?q" by (intro sint_word_of_int_32) (use short in simp_all)
  then have "(scast (word_of_int ?q :: LONG) :: u64) = word_of_int ?q" by (simp only: scast_eq)
  then have rest: "rdtsc c - scast (word_of_int ?q :: LONG) * ?r = rdtsc c mod ?r"
    by (metis minus_div_mult_eq_mod uint_div word_of_int_uint)
  have "carry \<lparr>tv_sec = word_of_int (?q + t div 1000000), tv_usec = word_of_int (?u + t mod 1000000)\<rparr> =
      of_us ((?q + t div 1000000) * 1000000 + (?u + t mod 1000000))"
    by (rule carry_of_us) (use parts pos_mod_bound [of 1000000 t] in simp_all)
  moreover have "(?q + t div 1000000) * 1000000 + (?u + t mod 1000000) = t + cycles_us ?r c"
    unfolding parts(5) distrib_right using div_mult_mod_eq [of t 1000000] by linarith
  moreover have "?r \<noteq> 0" using r by auto
  ultimately show ?thesis
    unfolding GetTimeRDTSC_def Let_def parts(1) rest parts(2) start of_us_def [of t] timeval.simps
    by (simp only: if_False wi_hom_add)
qed

text \<open>The start time the cycle counter is given; the system time is one after 1970.\<close>

lemma TimeSynchronizeRDTSC_time:
  assumes run: "TimeSynchronizeRDTSC begun stopped now data = Inr data'" and data: "reference data = 0" "start data \<noteq> []"
    and now: "ticking f now" "116444736000000000 \<le> sint (SystemTime now)"
    and r: "uint (reference data') \<le> 10000000000000"
  shows "start data' ! 0 = of_us (system_us now - cycles_us (reference data') now) \<and> 0 < uint (reference data')"
proof -
  let ?st = "sint (SystemTime now) - 116444736000000000"
  let ?system = "SystemTime now - 116444736000000000"
  have st: "sint ?system = ?st"
  proof -
    have "?system = word_of_int ?st" by simp
    moreover have "sint (word_of_int ?st :: u64) = ?st"
      by (rule sint_word_of_int_64) (use now(2) sint_lt [of "SystemTime now"] in simp_all)
    ultimately show ?thesis by (simp only:)
  qed
  obtain freq where freq: "freq \<noteq> 0" and data': "reference data' = freq" "start data' ! 0 = borrow
      \<lparr>tv_sec = - ucast (rdtsc now div freq) + ucast (quad_quot ?system 10000000),
       tv_usec = - ucast (rdtsc now mod freq * 1000000 div freq) + ucast (quad_quot (quad_rem ?system 10000000) 10)\<rparr>"
    using run data by (auto simp: TimeSynchronizeRDTSC_def Let_def split: if_splits prod.splits)
  have pos: "0 < uint freq" using freq by (simp add: word_neq_0_conv word_less_def)
  note cycles = cycles_parts [OF pos r [unfolded data'(1)], of now]
  obtain u where q: "quad_quot ?system 10000000 = word_of_int (?st div 10000000)"
    and u: "ucast (quad_quot (quad_rem ?system 10000000) 10) = (word_of_int u :: LONG)" "0 \<le> u" "u < 1000000"
    and "?st div 10 = ?st div 10000000 * 1000000 + u"
    by (rule quad_decimal [of ?system, unfolded st]) (use now(2) in simp)
  moreover have "system_us now = ?st div 10" by (simp add: system_us_def)
  ultimately have system: "system_us now = ?st div 10000000 * 1000000 + u" by simp
  let ?c = "uint (rdtsc now) div uint freq" and ?m = "uint (rdtsc now) mod uint freq * 1000000 div uint freq"
  have "borrow \<lparr>tv_sec = word_of_int (- ?c + ?st div 10000000), tv_usec = word_of_int (- ?m + u)\<rparr> =
      of_us ((- ?c + ?st div 10000000) * 1000000 + (- ?m + u))"
    by (rule borrow_of_us) (use cycles u in simp_all)
  moreover have "(- ?c + ?st div 10000000) * 1000000 + (- ?m + u) = system_us now - cycles_us freq now"
    unfolding cycles(5) system distrib_right by linarith
  ultimately show ?thesis
    using pos unfolding data' cycles(1,2) q u(1) ucast_word_of_int
    by (simp only: wi_hom_neg wi_hom_add)
qed

text \<open>
  Stamps from the cycle counter follow the system time in the same way, at the frequency measured
  during the pause; a synchronised instance never divides by zero.
\<close>

theorem rdtsc_stamp_follows_cycles:
  assumes "TimeSynchronizeRDTSC begun stopped now data = Inr data'" and "reference data = 0" and "start data \<noteq> []"
    and "ticking f now" and "116444736000000000 \<le> sint (SystemTime now)"
    and "uint (reference data') \<le> 10000000000000"
    and "uint (rdtsc c) div uint (reference data') < 2 ^ 31"
  shows "GetTimeRDTSC c data' dst =
     of_us (system_us now + (cycles_us (reference data') c - cycles_us (reference data') now))"
  using GetTimeRDTSC_time [OF _ assms(6,7)] TimeSynchronizeRDTSC_time [OF assms(1-6)]
  by (simp add: algebra_simps)

end
