(* ===== verification/NativeWitnesses.thy ===== *)
theory NativeWitnesses
  imports Witnesses SenderLaws CaptorLaws WriterLaws Devices NativeMethods ApiLaws HeaderLaws LinkTypes
    ProtocolLaws SendSafety CaptureSafety Frames6 TimeLaws
begin

text \<open>
  A concrete library and states of the native code, and the properties of the operations applied
  to them.
\<close>

section \<open>A library and its states\<close>

text \<open>The device \<open>eth0\<close> opens with handle 7, every other one fails.\<close>

definition sample_lib :: sender_library where
  "sample_lib = \<lparr>lib_open_live = (\<lambda>dev _ _ _. if dev = ''eth0'' then (Some 7, None) else (None, Some ''no device'')),
     lib_lookupnet = (\<lambda>_. (0, Some 0, Some 0, None)), lib_open_offline = (\<lambda>_. (None, Some ''no file'')),
     lib_datalink = (\<lambda>_. DLT_EN10MB), lib_dispatch = (\<lambda>_ _. ([], 0)),
     lib_loop = (\<lambda>_ _. ([(sample_header 42, arp_frame), (sample_header 42, arp_frame)], 2)),
     lib_next_ex = (\<lambda>_. (1, sample_header 42, Some arp_frame)), lib_setnonblock = (\<lambda>_ _. None),
     lib_getnonblock = (\<lambda>_. (0, None)), lib_compile = (\<lambda>_ _ _ _. 0), lib_setfilter = (\<lambda>_ _. 0),
     lib_geterr = (\<lambda>_. None), lib_stats = (\<lambda>_. None), lib_fileno = (\<lambda>_. 3), lib_set_rcvtimeo = (\<lambda>_ _. 0),
     lib_get_rcvtimeo = (\<lambda>_. (0, timeval_of 1500, sizeof_timeval)), lib_sendpacket = (\<lambda>_ _. 0),
     lib_WSAStartup = 0, lib_WSASocket = None, lib_socket = 3, lib_sendto = (\<lambda>_ _. 0)\<rparr>"

definition sample_vm :: jvm where
  "sample_vm = \<lparr>vm_FindClass = (\<lambda>name. if name = ''java/lang/Thread'' then None else Some 1),
     vm_GetMethodID = (\<lambda>_ _ _. Some 1), vm_GetFieldID = (\<lambda>_ _ _. Some 1)\<rparr>"

definition sample_world :: world where
  "sample_world = \<lparr>w_platform = Unix, w_vm = sample_vm, w_lib = sample_lib, w_env = 1,
     w_dump_open = (\<lambda>_ _. Some 1), w_geterr = (\<lambda>_. []), w_num_addrs = False,
     w_junk = (\<lambda>_. sample_junk), w_buf = sample_buf\<rparr>"

text \<open>Instance 0 is open on Ethernet.\<close>

definition sample_native :: native where
  "sample_native = native0\<lparr>pcds := (pcds native0)[0 := Some 7], live := {7},
     linktypes := (linktypes native0)[0 := DLT_EN10MB]\<rparr>"

lemma slot_0 [simp]: "slot 0 = Inr 0"
  using slot_of_nat [of 0] by (simp add: MAX_NUMBER_OF_INSTANCE_def)

lemma sample_native_fields [simp]:
  "pcds sample_native ! 0 = Some 7" "7 \<in> live sample_native" "linktypes sample_native ! 0 = DLT_EN10MB"
  "arrays_sized sample_native"
  by (simp_all add: sample_native_def native0_def arrays_sized_def MAX_NUMBER_OF_INSTANCE_def)

lemma sample_world_fields [simp]:
  "w_lib sample_world = sample_lib"
  "lib_open_live sample_lib dev snaplen promisc to_ms =
     (if dev = ''eth0'' then (Some 7, None) else (None, Some ''no device''))"
  "lib_open_offline sample_lib f = (None, Some ''no file'')"
  "lib_lookupnet sample_lib dev = (0, Some 0, Some 0, None)"
  by (simp_all add: sample_world_def sample_lib_def)

lemma free_IDs_start [simp]: "free_IDs jstate0 = {..<MAX_NUMBER_OF_INSTANCE}"
  by (auto simp: free_IDs_def jstate0_def)

lemma max_pos [simp]: "0 < MAX_NUMBER_OF_INSTANCE" "{..<MAX_NUMBER_OF_INSTANCE} \<noteq> {}"
  by (simp_all add: MAX_NUMBER_OF_INSTANCE_def lessThan_empty_iff)

lemma Min_start [simp]: "Min {..<MAX_NUMBER_OF_INSTANCE} = 0"
  by (rule Min_eqI) simp_all

lemma live_start [simp]: "live (nat_state jstate0) = {}"
  by (simp add: jstate0_def native0_def)

lemma fresh_start: "live (nat_state s) = {} \<Longrightarrow> fresh_world sample_world s"
  by (simp add: fresh_world_def fresh_handle_def)

lemma can_open_start: "live (nat_state s) = {} \<Longrightarrow> can_open sample_world ''eth0'' 7 s"
  by (simp add: can_open_def)

lemma sample_open:
  "\<exists>s1. captor_openDevice sample_world (Some ''eth0'') 65535 False 1000 jstate0 = Inr (Inr 0, s1)"
  using captor_open_succeeds [OF api_inv_start _ can_open_start [OF live_start]] by simp

lemma sample_step:
  "\<exists>s1. api_step (OpenLive (Some ''eth0'') 65535 False 1000) jstate0 s1"
  using sample_open by (auto simp: api_step_iff drop_value_iff intro!: fresh_start exI [of _ sample_world])

section \<open>Instances\<close>

lemma api_inv_preserved_witness:
  "\<exists>s1. api_step (OpenLive (Some ''eth0'') 65535 False 1000) jstate0 s1 \<and> api_inv s1"
  using sample_step api_inv_preserved [OF _ _ api_inv_start] by blast

lemma reachable_instances_safe_witness:
  "\<exists>s1 s2. api_step (OpenLive (Some ''eth0'') 65535 False 1000) jstate0 s1 \<and>
     captor_close 0 s1 = Inr (Inr (), s2)"
proof -
  obtain s1 where s1: "api_step (OpenLive (Some ''eth0'') 65535 False 1000) jstate0 s1"
    using sample_step by blast
  then have "reachable s1" by (rule reachable.run [OF reachable.start]) (rule operation.distinct)
  from reachable_instances_safe [OF this, of 0] s1 show ?thesis by auto
qed

lemma openDevice_refines_table_witness:
  "\<exists>s1 h. captor_openDevice sample_world (Some ''eth0'') 65535 False 1000 jstate0 = Inr (Inr 0, s1) \<and>
     open_slots s1 = (open_slots jstate0)(0 \<mapsto> h)"
proof -
  obtain s1 where run: "captor_openDevice sample_world (Some ''eth0'') 65535 False 1000 jstate0 = Inr (Inr 0, s1)"
    using sample_open by blast
  from openDevice_refines_table [OF api_inv_start fresh_start [OF live_start] run] run show ?thesis
    by auto
qed

lemma open_then_close_restores_witness:
  "\<exists>ID s1 s2. captor_openDevice sample_world (Some ''eth0'') 65535 False 1000 jstate0 = Inr (Inr ID, s1) \<and>
     captor_close ID s1 = Inr (Inr (), s2) \<and> free_IDs s2 = free_IDs jstate0"
  using open_then_close_restores [OF api_inv_start fresh_start [OF live_start] _ can_open_start [OF live_start]]
  by auto

lemma failed_opens_use_up_IDs_witness:
  "\<exists>s'. attempts sample_world ''eth1'' MAX_NUMBER_OF_INSTANCE jstate0 = Inr s' \<and>
     captor_openDevice sample_world (Some ''eth0'') 65535 False 1000 s' = Inr (Inl (IOException all_taken), s')"
proof -
  have "cannot_open sample_world ''eth1''"
    by (simp add: cannot_open_def library_message_def PCAP_ERRBUF_SIZE_def)
  from failed_opens_use_up_IDs [OF api_inv_start this, of sample_world] show ?thesis by blast
qed

lemma sample_close_unopened:
  "\<exists>s1. captor_close 0 jstate0 = Inr (Inr (), s1) \<and> live (nat_state s1) = {}"
  by (simp add: captor_close_def close_instance_def nativeClose_def jstate0_def native0_def unreserveID_def
      MAX_NUMBER_OF_INSTANCE_def)

lemma closed_ID_is_reused_witness:
  "\<exists>s1 s2 s3. captor_close 0 jstate0 = Inr (Inr (), s1) \<and>
     captor_openDevice sample_world (Some ''eth0'') 65535 False 1000 s1 = Inr (Inr 0, s2) \<and>
     captor_close 0 s2 = Inr (Inr (), s3) \<and> open_slots s3 0 = None"
proof -
  have 0: "0 < MAX_NUMBER_OF_INSTANCE" by (simp add: MAX_NUMBER_OF_INSTANCE_def)
  obtain s1 where s1: "captor_close 0 jstate0 = Inr (Inr (), s1)" "live (nat_state s1) = {}"
    using sample_close_unopened by blast
  with captor_close_effect [OF api_inv_start 0] have inv: "api_inv s1" "free_IDs s1 \<noteq> {}" by auto
  obtain ID s2 where s2: "captor_openDevice sample_world (Some ''eth0'') 65535 False 1000 s1 = Inr (Inr ID, s2)"
    using captor_open_succeeds [OF inv can_open_start [OF s1(2)]] by blast
  from closed_ID_is_reused [OF api_inv_start 0 _ _ fresh_start [OF s1(2)] s2] s1 s2 show ?thesis by auto
qed

section \<open>Capture loops\<close>

lemma sample_packet_captured:
  "\<exists>p. get_packet False sample_junk DLT_EN10MB (sample_header 42) arp_frame = Inr p"
proof -
  have "\<not> isl (get_packet False sample_junk DLT_EN10MB (sample_header 42) arp_frame)" by code_simp
  then show ?thesis
    by (cases "get_packet False sample_junk DLT_EN10MB (sample_header 42) arp_frame") auto
qed

lemma capture_loop_delivers_in_order_witness:
  "\<exists>p s'. capture_loop (lib_loop sample_lib) False (\<lambda>_. sample_junk) (\<lambda>_. Inr) 1 0 (- 1) 5 sample_native =
     Inr ((2, [(5, p), (5, p)]), s')"
proof -
  obtain p where p: "get_packet False sample_junk DLT_EN10MB (sample_header 42) arp_frame = Inr p"
    using sample_packet_captured by blast
  have keep: "\<exists>s'. Inr s = Inr s' \<and> keeps_loop 0 s s'" for s by (simp add: keeps_loop_def)
  have "list_all2 (\<lambda>(k, header, data) p. get_packet False sample_junk (linktypes sample_native ! 0)
      header data = Inr p) (enumerate 0 [(sample_header 42, arp_frame), (sample_header 42, arp_frame)]) [p, p]"
    using p by simp
  from capture_loop_delivers_in_order [OF sample_native_fields(4) slot_0 sample_native_fields(1,2) _ keep this,
      of "lib_loop sample_lib" "- 1" 2 1 5]
  show ?thesis by (auto simp: sample_lib_def)
qed

lemma nested_loop_breaks_outer_witness:
  "capture_loop (lib_loop sample_lib) False (\<lambda>_. sample_junk)
     (\<lambda>_ s. bindr (capture_loop (lib_dispatch sample_lib) False (\<lambda>_. sample_junk) (\<lambda>_. Inr) 1 0 1 6 s)
       (\<lambda>(_, s). Inr s)) 1 0 (- 1) 5 sample_native = Inl NullReference"
proof -
  obtain p where p: "get_packet False sample_junk DLT_EN10MB (sample_header 42) arp_frame = Inr p"
    using sample_packet_captured by blast
  show ?thesis
    by (rule nested_loop_breaks_outer [OF sample_native_fields(4) slot_0 sample_native_fields(1,2)])
       (use p in \<open>auto simp: sample_lib_def\<close>)
qed

section \<open>Opening, timeouts, error messages\<close>

lemma open_live_then_close_witness:
  "\<exists>s1 s2. nativeOpenLive sample_vm (library.truncate sample_lib) 1 0 (Some ''eth0'') 65535 0 1000 native0 =
     Inr (None, s1) \<and> nativeClose 0 s1 = Inr s2 \<and> live s2 = {}"
proof -
  have n: "arrays_sized native0" "pcds native0 ! 0 = None" "7 \<notin> live native0" "live native0 = {}"
    by (simp_all add: native0_def arrays_sized_def MAX_NUMBER_OF_INSTANCE_def)
  have "lib_open_live (library.truncate sample_lib) ''eth0'' 65535 0 1000 = (Some 7, None)"
    by (simp add: truncated_open)
  from open_live_then_close [OF n(1) slot_0 n(2) this n(3), where vm = sample_vm and env = 1 and
      device' = None and snaplen' = 0 and promisc' = 0 and to_ms' = 0] n(4)
  show ?thesis by auto
qed

lemma read_timeout_round_trip_witness:
  "getPacketReadTimeout Unix (library.truncate sample_lib) 0 sample_native = Inr 1500"
  by (rule read_timeout_round_trip [OF slot_0 sample_native_fields(1,2)])
     (simp add: sample_lib_def library.truncate_def)

lemma error_messages_independent_witness:
  "getErrorMessage 1 (put_errbuf 0 (Some ''no device'') (put_errbuf 1 (Some ''no file'') native0)) = Inr ''no file''"
proof -
  let ?s = "put_errbuf 1 (Some ''no file'') native0"
  have "getErrorMessage (of_nat 1) ?s = Inr ''no file''"
    unfolding getErrorMessage_def
    using errbuf_read_back [of 1 "''no file''" native0] slot_of_nat [of 1]
    by (simp add: MAX_NUMBER_OF_INSTANCE_def library_message_def PCAP_ERRBUF_SIZE_def)
  from error_messages_independent [OF _ _ _ _ _ this, of 0 "''no device''"] show ?thesis
    by (simp add: MAX_NUMBER_OF_INSTANCE_def)
qed

section \<open>Sending and writing\<close>

lemma nativeSendPacket_sends_frame_witness:
  "\<exists>e frame s. nativeSendPacket sample_lib sample_buf 0 (sample_packet UDPPacketC ETHERTYPE_IP (Some [1, 2, 3]))
     sample_native = Inr ((e, Some frame), s)"
proof -
  let ?p = "sample_packet UDPPacketC ETHERTYPE_IP (Some [1, 2, 3])"
  obtain m where "bytes_sent sample_buf ?p = Inr m"
    using udp_frame_bytes [OF sample_sendable, of UDPPacketC ETHERTYPE_IP "[1, 2, 3]" sample_buf] by auto
  from nativeSendPacket_sends_frame [OF slot_0 sample_native_fields(1,2) this, of sample_lib]
  show ?thesis by (auto simp: sample_lib_def)
qed

lemma raw_socket_sends_ip_packet_witness:
  "\<exists>bytes. nativeSendPacketViaRawSocket Unix sample_lib sample_buf
     (sample_packet UDPPacketC ETHERTYPE_IP (Some [1, 2, 3])) (native0\<lparr>soc_num := 3, live_sockets := {3}\<rparr>) =
     Inr (None, Some (bytes, [10, 0, 0, 2]))"
  using raw_socket_sends_ip_packet [OF sample_sendable, where c1 = UDPPacketC and data = "[1, 2, 3]" and
      buf = sample_buf and plat = Unix and s = "native0\<lparr>soc_num := 3, live_sockets := {3}\<rparr>" and
      sock = 3 and lib = sample_lib]
  by (simp add: raw_socket_def sample_lib_def)

lemma captured_frame_written_back_witness:
  "\<exists>q r. get_packet False sample_junk DLT_EN10MB (sample_header 42) arp_frame = Inr q \<and>
     writePacket sample_buf q (native0\<lparr>pdt := Some 1\<rparr>) = Inr (r, None) \<and> dr_header r = sample_header 42"
proof -
  obtain q where q: "get_packet False sample_junk DLT_EN10MB (sample_header 42) arp_frame = Inr q"
    using sample_packet_captured by blast
  have "(case get_packet False sample_junk DLT_EN10MB (sample_header 42) arp_frame of
      Inl _ \<Rightarrow> False | Inr q \<Rightarrow> \<not> Option.is_none (pk_data q))" by code_simp
  with q obtain bd where "pk_data q = Some bd" by (auto simp: Option.is_none_def)
  moreover have "length arp_frame = 42" by (simp add: arp_frame_def)
  ultimately show ?thesis
    using captured_frame_written_back [OF _ _ q, of bd "native0\<lparr>pdt := Some 1\<rparr>" 1 sample_buf] q by auto
qed

lemma closing_writer_frees_captor_witness:
  "\<exists>s1 s2. nativeOpenDumpFile (\<lambda>_ _. Some 1) (\<lambda>_. []) (Some ''dump'') 0 sample_native = Inr (None, s1) \<and>
     writer_close s1 = Inr s2 \<and> nativeClose 0 s2 = Inl FreedHandle"
  using closing_writer_frees_captor [OF sample_native_fields(4) slot_0 sample_native_fields(1,2),
      of "\<lambda>_ _. Some 1" "''dump''" 1 "\<lambda>_. []" "library.truncate sample_lib" False sample_junk 1]
  by auto

section \<open>Devices, classes, headers\<close>

text \<open>
  A FreeBSD card with an IPv4, an IPv6 and an Appletalk address, and the entries of \<open>getifaddrs\<close>
  of its link level and of its IPv4 address.
\<close>

definition sample_card :: pcap_if where
  "sample_card = \<lparr>if_name = ''em0'', if_description = None, if_addresses =
     [\<lparr>a_addr = Some \<lparr>sa_family = AF_INET, sa_addr = [10, 0, 0, 1]\<rparr>, a_netmask = None, a_broadaddr = None, a_dstaddr = None\<rparr>,
      \<lparr>a_addr = Some \<lparr>sa_family = AF_other 16, sa_addr = [1, 2]\<rparr>, a_netmask = None, a_broadaddr = None, a_dstaddr = None\<rparr>,
      \<lparr>a_addr = Some \<lparr>sa_family = AF_INET6, sa_addr = replicate 16 1\<rparr>, a_netmask = None, a_broadaddr = None, a_dstaddr = None\<rparr>],
     if_flags = 0\<rparr>"

definition sample_entries :: "sockaddr_dl list" where
  "sample_entries = [\<lparr>sdl_nlen = 3, sdl_data = [101, 109, 48, 2, 0, 0, 0, 0, 1]\<rparr>,
     \<lparr>sdl_nlen = 1, sdl_data = [0, 0, 0, 0, 0, 0, 0, 0]\<rparr>]"

lemma device_list_complete_witness:
  "\<exists>dev. getDeviceList (FreeBSD (map Some sample_entries)) (\<lambda>_. None) (Some [sample_card]) = Inr (Some [dev], None) \<and>
     ni_mac_address dev = [2, 0, 0, 0, 0, 1] \<and>
     map (map_option ia_address) (ni_addresses dev) =
       [Some (Some (Inet4 [10, 0, 0, 1])), Some (Some (Inet6 (replicate 16 1)))]"
proof -
  have r: "\<forall>dl \<in> set sample_entries. readable (if_name sample_card) dl"
    by (simp add: sample_entries_def sample_card_def readable_def c_string_def)
  have mac: "link_address sample_entries (if_name sample_card) = [2, 0, 0, 0, 0, 1]"
    by (simp add: link_address_def sample_entries_def sample_card_def names_device_def c_string_def)
  obtain devs where d: "getDeviceList (FreeBSD (map Some sample_entries)) (\<lambda>_. None) (Some [sample_card]) =
      Inr (Some devs, None)"
    and a: "list_all2 (\<lambda>d. describes (\<lambda>_. None) (link_address sample_entries (if_name d)) d) [sample_card] devs"
    using device_list_complete [of "FreeBSD (map Some sample_entries)" "\<lambda>_. None"
        "link_address sample_entries" sample_entries "[sample_card]" "\<lambda>_. None"] r
    by auto
  then obtain dev where dev: "devs = [dev]" and
    o: "describes (\<lambda>_. None) (link_address sample_entries (if_name sample_card)) sample_card dev"
    by (auto simp: list_all2_Cons1)
  have addrs: "map (\<lambda>a. Some (ia_address (address_of a))) (filter has_address (if_addresses sample_card)) =
      [Some (Some (Inet4 [10, 0, 0, 1])), Some (Some (Inet6 (replicate 16 1)))]" by code_simp
  show ?thesis
    using o addrs by (intro exI [of _ dev]) (simp add: d dev describes_def mac o_def)
qed

lemma set_Java_env_failure_is_final_witness:
  "method_id (set_Java_env sample_vm java_env0) ''handleMID'' = None"
proof -
  have "(''Thread'', ''java/lang/Thread'') \<in> set java_classes" by (simp add: java_classes_def)
  from set_Java_env_failure_is_final [OF refl _ this, of sample_vm] show ?thesis
    by (simp add: sample_vm_def)
qed

lemma in_cksum_is_rfc1071_witness:
  "\<exists>c. in_cksum [0x45, 0, 0, 1] 0 4 = Inr c \<and> unat (ntohs c) = rfc1071 [0x45, 0, 0, 1]"
  using in_cksum_is_rfc1071 [of "[0x45, 0, 0, 1]" "[]" "[]"] by simp

lemma extension_headers_bounded_witness:
  "\<exists>q h. analyze_options ipv6_frame 0 54 40 (AllocObject IPPacketC) = Inr (q, h) \<and> option_count q \<le> 6"
proof -
  have "(case analyze_options ipv6_frame 0 54 40 (AllocObject IPPacketC) of Inl _ \<Rightarrow> False | Inr _ \<Rightarrow> True)"
    by code_simp
  then obtain q h where q: "analyze_options ipv6_frame 0 54 40 (AllocObject IPPacketC) = Inr (q, h)"
    by (cases "analyze_options ipv6_frame 0 54 40 (AllocObject IPPacketC)") auto
  have "length ipv6_frame = 102" by (simp add: ipv6_frame_def)
  moreover have "option_count (AllocObject IPPacketC) = 0" by (simp add: option_count_def AllocObject_def)
  ultimately show ?thesis using extension_headers_bounded [OF q] q by auto
qed

lemma other_link_types_stay_bytes_witness:
  "\<exists>q. get_packet False sample_junk 0 (sample_header 42) arp_frame = Inr q \<and> pk_data q = Some arp_frame"
  using other_link_types_stay_bytes [of 0 arp_frame "sample_header 42" False sample_junk]
  by (simp add: layout arp_frame_def)

lemma short_icmp_timestamp_over_reads_witness:
  "\<exists>a. analyze_icmp False (0, 0) (13 # replicate 9 0) (AllocObject ICMPPacketC) 0 10 = Inl (OutOfBounds a)"
  using short_icmp_timestamp_over_reads [of 0 "13 # replicate 9 0" False "(0, 0)" "AllocObject ICMPPacketC" 10]
  by (auto simp: ICMP_MINLEN_def ICMP_TSLEN_def layout)

section \<open>Packets and frames of any class\<close>

lemma every_fitting_packet_is_sent_witness:
  "\<exists>frame. bytes_sent sample_buf (sample_packet UDPPacketC ETHERTYPE_IP (Some [1, 2, 3])) = Inr frame \<and>
     60 \<le> length frame \<and> length frame \<le> 60"
proof -
  let ?p = "sample_packet UDPPacketC ETHERTYPE_IP (Some [1, 2, 3])"
  have "complete_packet ?p"
    by (simp add: complete_packet_def has_addresses_def IsInstanceOf_def sample_packet_def sample_ip_def
        zero_ip_def AllocObject_def)
  moreover have "frame_room ?p = 45"
    by (simp add: frame_room_def transport_room_def data_length_def IsInstanceOf_def sample_packet_def
        sample_ip_def zero_ip_def AllocObject_def)
  ultimately show ?thesis using every_fitting_packet_is_sent [of ?p sample_buf] by auto
qed

lemma every_whole_frame_is_analysed_witness:
  "(\<exists>q. get_packet False sample_junk DLT_EN10MB (sample_header 46) ping_frame = Inr q \<and>
     cut_of_frame (sample_header 46) DLT_EN10MB ping_frame q) \<and>
   (\<exists>q. get_packet False sample_junk DLT_EN10MB (sample_header 102) ipv6_frame = Inr q \<and>
     cut_of_frame (sample_header 102) DLT_EN10MB ipv6_frame q)"
proof
  show "\<exists>q. get_packet False sample_junk DLT_EN10MB (sample_header 46) ping_frame = Inr q \<and>
     cut_of_frame (sample_header 46) DLT_EN10MB ping_frame q"
    by (rule every_whole_frame_is_analysed [of ping_frame]) code_simp+
  show "\<exists>q. get_packet False sample_junk DLT_EN10MB (sample_header 102) ipv6_frame = Inr q \<and>
     cut_of_frame (sample_header 102) DLT_EN10MB ipv6_frame q"
    by (rule every_whole_frame_is_analysed [of ipv6_frame]) code_simp+
qed

text \<open>A whole packet with an authentication header of 24 bytes and 16 bytes of data.\<close>

definition ah_frame :: mem where
  "ah_frame = [2, 0, 0, 0, 0, 2, 2, 0, 0, 0, 0, 1, 0x86, 0xdd, 0x60, 0, 0, 0, 0, 40, 51, 64]
     @ replicate 16 1 @ replicate 16 2 @ [59, 4, 0, 0] @ replicate 20 7 @ replicate 16 9"

lemma authentication_header_over_reads_witness:
  "get_packet False sample_junk DLT_EN10MB (sample_header 94) ah_frame = Inl (OutOfBounds 150)"
  by (rule authentication_header_over_reads) (simp add: ah_frame_def, code_simp)+

lemma captured_object_well_typed_witness:
  "\<exists>q. get_packet False sample_junk DLT_EN10MB (sample_header 102) ipv6_frame = Inr q \<and> well_typed q"
proof -
  have "\<not> isl (get_packet False sample_junk DLT_EN10MB (sample_header 102) ipv6_frame)" by code_simp
  then obtain q where q: "get_packet False sample_junk DLT_EN10MB (sample_header 102) ipv6_frame = Inr q"
    by (cases "get_packet False sample_junk DLT_EN10MB (sample_header 102) ipv6_frame") auto
  from captured_object_well_typed [OF q] show ?thesis using q by blast
qed

text \<open>An IPv6 packet with addresses of 16 bytes.\<close>

definition sample_packet6 :: "jclass \<Rightarrow> jbyteArray \<Rightarrow> jpacket" where
  "sample_packet6 c data = (sample_packet c ETHERTYPE_IPV6 data)\<lparr>pk_ip := zero_ip\<lparr>ip_version := 6,
     ip_hop_limit := 64, ip_src_ip := Some (Inet6 (replicate 16 1)), ip_dst_ip := Some (Inet6 (replicate 16 2))\<rparr>\<rparr>"

lemma udp6_frame_sent_witness:
  "\<exists>m. bytes_sent sample_buf (sample_packet6 UDPPacketC (Some [1, 2, 3])) = Inr m \<and>
     be16 (m ! 18) (m ! 19) \<noteq> 11"
proof -
  have "sendable6 (sample_packet6 UDPPacketC (Some [1, 2, 3])) [2, 0, 0, 0, 0, 2] [2, 0, 0, 0, 0, 1]
      ETHERTYPE_IPV6 (replicate 16 1) (replicate 16 2) [1, 2, 3]"
    by (simp add: sendable6_def sample_packet6_def sample_packet_def zero_ip_def AllocObject_def)
  from udp6_frame_sent [OF this, of sample_buf] show ?thesis by (auto simp: sample_packet6_def)
qed

section \<open>Time stamps\<close>

text \<open>A counter of 10 MHz read at 2 and at 5.25 seconds, and the system time of 1 January 2010.\<close>

definition sample_clocks :: "u64 \<Rightarrow> clocks" where
  "sample_clocks ticks = \<lparr>PTime = ticks, TimeFreq = 10000000, SystemTime = 129067776000000000, rdtsc = 0\<rparr>"

definition sample_driver :: driver where
  "sample_driver = \<lparr>TimestampMode = 1, affinity = 0xFFFFFFFF, old_ts = \<lparr>tv_sec = 0, tv_usec = 0\<rparr>\<rparr>"

definition sample_conv :: time_conv where
  "sample_conv = \<lparr>reference = 0, start = replicate 32 \<lparr>tv_sec = 0, tv_usec = 0\<rparr>\<rparr>"

lemma sample_clocks_run:
  "system_us (sample_clocks ticks) = 1262304000000000"
  "run_us (sample_clocks 20000000) = 2000000" "run_us (sample_clocks 52500000) = 5250000"
  by (simp_all add: system_us_def run_us_def sample_clocks_def)

lemma stamp_is_system_time_witness:
  "\<exists>drv data tv drv'. TIME_SYNCHRONIZE False 4 (\<lambda>_. sample_clocks 20000000)
       (sample_clocks 0, sample_clocks 0, sample_clocks 0) (sample_driver, sample_conv) = Inr (drv, data) \<and>
     GET_TIME False (sample_clocks 52500000) 3 drv data \<lparr>tv_sec = 0, tv_usec = 0\<rparr> = Inr (tv, drv') \<and>
     us tv = 1262304003250000"
proof -
  have "ticking 10000000 (sample_clocks 20000000)" "ticking 10000000 (sample_clocks 52500000)"
    by (simp_all add: ticking_def sample_clocks_def)
  moreover have "reference sample_conv = 0" "length (start sample_conv) = 32" "TimestampMode sample_driver = 1"
    "normal (old_ts sample_driver)" "us (old_ts sample_driver) = 0"
    by (simp_all add: sample_conv_def sample_driver_def normal_def us_def)
  moreover have "until_2038 1262304003250000" by (simp add: until_2038_def)
  ultimately show ?thesis
    using stamp_is_system_time [where look = "\<lambda>_. sample_clocks 20000000" and f = 10000000
        and c = "sample_clocks 52500000" and data = sample_conv and cpu = 3 and n = 4 and drv = sample_driver
        and intel = False and at = 1262304003250000
        and looks = "(sample_clocks 0, sample_clocks 0, sample_clocks 0)"
        and dst = "\<lparr>tv_sec = 0, tv_usec = 0\<rparr>"]
    by (simp add: synchronised_with_def sample_clocks_run) blast
qed

lemma fixup_never_goes_back_witness:
  "\<exists>tvs. stamps [(sample_clocks 52500000, 0, sample_conv), (sample_clocks 20000000, 1, sample_conv)] sample_driver = Inr tvs \<and>
     sorted_wrt (\<lambda>a b. \<not> later a b) (old_ts sample_driver # tvs)"
proof -
  let ?ps = "[(sample_clocks 52500000, 0, sample_conv), (sample_clocks 20000000, 1, sample_conv)]"
  have "\<not> isl (stamps ?ps sample_driver)" by code_simp
  then obtain tvs where "stamps ?ps sample_driver = Inr tvs" by (cases "stamps ?ps sample_driver") auto
  then show ?thesis using fixup_never_goes_back [of ?ps sample_driver tvs] by (simp add: sample_driver_def)
qed

end
