(* ===== verification/JavaBuffer.thy ===== *)
theory JavaBuffer
  imports CMem
begin

text \<open>
  What the repository's Java code (\<open>src/src\<close>) uses of the Java language and library: its
  exceptions as values, byte arrays, and \<open>java.nio.ByteBuffer\<close> wrapped around an array, with its
  position and its relative and absolute accesses. The byte order is big endian, the initial
  order of a \<open>ByteBuffer\<close>, which the code also sets explicitly before most accesses.
\<close>

datatype java_fault =
    IndexOutOfBounds      \<comment> \<open>an absolute access of a buffer, or an array element, out of range\<close>
  | BufferOverflow        \<comment> \<open>a relative \<open>put\<close> with too little room\<close>
  | BufferUnderflow       \<comment> \<open>a relative \<open>get\<close> with too few bytes left\<close>
  | IllegalArgument       \<comment> \<open>a position beyond the limit\<close>
  | NegativeArraySize
  | NullPointer
  | StackOverflow
  | OtherException        \<comment> \<open>a plain \<open>Exception\<close> the code itself throws\<close>

type_synonym 'a java = "java_fault + 'a"

text \<open>A reference to a byte array that the code dereferences.\<close>

definition non_null :: "'a option \<Rightarrow> 'a java" where
  "non_null r = (case r of None \<Rightarrow> Inl NullPointer | Some x \<Rightarrow> Inr x)"

definition new_byte_array :: "int \<Rightarrow> u8 list java" where
  "new_byte_array n = (if n < 0 then Inl NegativeArraySize else Inr (replicate (nat n) 0))"

definition element_at :: "u8 list \<Rightarrow> nat \<Rightarrow> u8 java" where
  "element_at xs i = (if i < length xs then Inr (xs ! i) else Inl IndexOutOfBounds)"

definition array_copy :: "u8 list \<Rightarrow> nat \<Rightarrow> nat \<Rightarrow> u8 list java" where
  "array_copy src from n =
     (if from + n \<le> length src then Inr (take n (drop from src)) else Inl IndexOutOfBounds)"

section \<open>ByteBuffer\<close>

record jbuf =
  arr :: "u8 list"
  pos :: nat

definition wrap :: "u8 list \<Rightarrow> jbuf" where
  "wrap bs = \<lparr>arr = bs, pos = 0\<rparr>"

definition be_bytes16 :: "u16 \<Rightarrow> u8 list" where
  "be_bytes16 w = [byte_at 1 w, byte_at 0 w]"

definition be_bytes32 :: "u32 \<Rightarrow> u8 list" where
  "be_bytes32 w = [byte_at 3 w, byte_at 2 w, byte_at 1 w, byte_at 0 w]"

definition put_array :: "u8 list \<Rightarrow> jbuf \<Rightarrow> jbuf java" where
  "put_array bs b =
     (if pos b + length bs \<le> length (arr b)
      then Inr \<lparr>arr = overlay (pos b) bs (arr b), pos = pos b + length bs\<rparr>
      else Inl BufferOverflow)"

definition put_byte :: "u8 \<Rightarrow> jbuf \<Rightarrow> jbuf java" where
  "put_byte x = put_array [x]"

definition put_short :: "u16 \<Rightarrow> jbuf \<Rightarrow> jbuf java" where
  "put_short w = put_array (be_bytes16 w)"

definition put_int :: "u32 \<Rightarrow> jbuf \<Rightarrow> jbuf java" where
  "put_int w = put_array (be_bytes32 w)"

definition put_short_at :: "nat \<Rightarrow> u16 \<Rightarrow> jbuf \<Rightarrow> jbuf java" where
  "put_short_at i w b =
     (if i + 2 \<le> length (arr b) then Inr (b\<lparr>arr := overlay i (be_bytes16 w) (arr b)\<rparr>)
      else Inl IndexOutOfBounds)"

definition set_position :: "int \<Rightarrow> jbuf \<Rightarrow> jbuf java" where
  "set_position n b =
     (if 0 \<le> n \<and> n \<le> int (length (arr b)) then Inr (b\<lparr>pos := nat n\<rparr>) else Inl IllegalArgument)"

definition get_array :: "nat \<Rightarrow> jbuf \<Rightarrow> (u8 list \<times> jbuf) java" where
  "get_array n b =
     (if pos b + n \<le> length (arr b)
      then Inr (take n (drop (pos b) (arr b)), b\<lparr>pos := pos b + n\<rparr>)
      else Inl BufferUnderflow)"

definition short_of :: "u8 list \<Rightarrow> u16" where
  "short_of bs = be16 (bs ! 0) (bs ! 1)"

definition int_of :: "u8 list \<Rightarrow> u32" where
  "int_of bs = be32 (bs ! 0) (bs ! 1) (bs ! 2) (bs ! 3)"

definition get_byte :: "jbuf \<Rightarrow> (u8 \<times> jbuf) java" where
  "get_byte b = bindr (get_array 1 b) (\<lambda>(bs, b). Inr (bs ! 0, b))"

definition get_short :: "jbuf \<Rightarrow> (u16 \<times> jbuf) java" where
  "get_short b = bindr (get_array 2 b) (\<lambda>(bs, b). Inr (short_of bs, b))"

definition get_int :: "jbuf \<Rightarrow> (u32 \<times> jbuf) java" where
  "get_int b = bindr (get_array 4 b) (\<lambda>(bs, b). Inr (int_of bs, b))"

definition bytes_at :: "nat \<Rightarrow> nat \<Rightarrow> jbuf \<Rightarrow> u8 list java" where
  "bytes_at i n b =
     (if i + n \<le> length (arr b) then Inr (take n (drop i (arr b))) else Inl IndexOutOfBounds)"

definition get_byte_at :: "nat \<Rightarrow> jbuf \<Rightarrow> u8 java" where
  "get_byte_at i b = bindr (bytes_at i 1 b) (\<lambda>bs. Inr (bs ! 0))"

definition get_short_at :: "nat \<Rightarrow> jbuf \<Rightarrow> u16 java" where
  "get_short_at i b = bindr (bytes_at i 2 b) (\<lambda>bs. Inr (short_of bs))"

definition get_int_at :: "nat \<Rightarrow> jbuf \<Rightarrow> u32 java" where
  "get_int_at i b = bindr (bytes_at i 4 b) (\<lambda>bs. Inr (int_of bs))"

section \<open>Filling a fresh buffer\<close>

text \<open>
  A buffer that has been filled with \<open>done\<close> and has \<open>n\<close> zero bytes of room left: every relative
  \<open>put\<close> takes it to another such buffer.
\<close>

definition filled :: "u8 list \<Rightarrow> nat \<Rightarrow> jbuf" where
  "filled bs n = \<lparr>arr = bs @ replicate n 0, pos = length bs\<rparr>"

named_theorems jbuffer \<open>running a method over its byte buffers\<close>

lemma wrap_zeros [jbuffer]: "wrap (replicate n 0) = filled [] n"
  by (simp add: wrap_def filled_def)

lemma put_array_filled [jbuffer]:
  "put_array xs (filled bs n) =
     (if length xs \<le> n then Inr (filled (bs @ xs) (n - length xs)) else Inl BufferOverflow)"
  by (auto simp: put_array_def filled_def overlay_def)

lemma arr_filled [jbuffer]: "arr (filled bs n) = bs @ replicate n 0"
  by (simp add: filled_def)

lemma length_be_bytes [simp]: "length (be_bytes16 w) = 2" "length (be_bytes32 v) = 4"
  by (simp_all add: be_bytes16_def be_bytes32_def)

lemmas put_filled [jbuffer] = put_byte_def put_short_def put_int_def

lemma put_short_at_filled [jbuffer]:
  "put_short_at i w (filled bs n) =
     (if i + 2 \<le> length bs then Inr (filled (overlay i (be_bytes16 w) bs) n)
      else if i + 2 \<le> length bs + n
      then Inr ((filled bs n)\<lparr>arr := overlay i (be_bytes16 w) (bs @ replicate n 0)\<rparr>)
      else Inl IndexOutOfBounds)"
  by (auto simp: put_short_at_def filled_def overlay_append_left)

section \<open>Reading back\<close>

lemma short_of_be_bytes [simp]: "short_of (be_bytes16 w) = w"
  by (simp add: short_of_def be_bytes16_def)

lemma int_of_be_bytes [simp]: "int_of (be_bytes32 w) = w"
  by (simp add: int_of_def be_bytes32_def numeral_2_eq_2 [symmetric] numeral_3_eq_3 [symmetric])

text \<open>Relative and absolute reads of a field in a buffer written as prefix, field and rest.\<close>

lemma get_array_split [jbuffer]:
  "length ys = n \<Longrightarrow>
     get_array n \<lparr>arr = xs @ ys @ zs, pos = length xs\<rparr>
       = Inr (ys, \<lparr>arr = xs @ ys @ zs, pos = length xs + n\<rparr>)"
  by (simp add: get_array_def)

lemma bytes_at_split:
  "length xs = i \<Longrightarrow> length ys = n \<Longrightarrow> arr b = xs @ ys @ zs \<Longrightarrow> bytes_at i n b = Inr ys"
  by (simp add: bytes_at_def)

lemma new_byte_array_nonneg [jbuffer]: "new_byte_array (int n) = Inr (replicate n 0)"
  by (simp add: new_byte_array_def)

lemma new_byte_array_numeral [jbuffer]:
  "new_byte_array (numeral k) = Inr (replicate (numeral k) 0)"
  by (simp add: new_byte_array_def)

lemma non_null_simps [simp]: "non_null (Some x) = Inr x" "non_null None = Inl NullPointer"
  by (simp_all add: non_null_def)

section \<open>Methods with effects\<close>

text \<open>
  A method that changes state: from the state before to its result, or the exception it ends
  with, and the state after. What a method did before it threw stays done.
\<close>

type_synonym ('s, 'a) jmethod = "'s \<Rightarrow> 'a java \<times> 's"

definition returnj :: "'a \<Rightarrow> ('s, 'a) jmethod" where
  "returnj x = (\<lambda>s. (Inr x, s))"

definition liftj :: "'a java \<Rightarrow> ('s, 'a) jmethod" where
  "liftj r = (\<lambda>s. (r, s))"

definition bindj :: "('s, 'a) jmethod \<Rightarrow> ('a \<Rightarrow> ('s, 'b) jmethod) \<Rightarrow> ('s, 'b) jmethod" where
  "bindj m f = (\<lambda>s. case m s of (Inl e, t) \<Rightarrow> (Inl e, t) | (Inr x, t) \<Rightarrow> f x t)"

definition getj :: "('s \<Rightarrow> 'a) \<Rightarrow> ('s, 'a) jmethod" where
  "getj f = (\<lambda>s. (Inr (f s), s))"

definition setj :: "('s \<Rightarrow> 's) \<Rightarrow> ('s, unit) jmethod" where
  "setj f = (\<lambda>s. (Inr (), f s))"

text \<open>\<open>try { ... } catch (Exception e)\<close>; a \<open>StackOverflowError\<close> is not an \<open>Exception\<close>.\<close>

definition tryj :: "('s, unit) jmethod \<Rightarrow> ('s, unit) jmethod" where
  "tryj m = (\<lambda>s. case m s of
     (Inl e, t) \<Rightarrow> (if e = StackOverflow then Inl e else Inr (), t) | (Inr x, t) \<Rightarrow> (Inr x, t))"

fun for_each :: "'a list \<Rightarrow> ('a \<Rightarrow> ('s, unit) jmethod) \<Rightarrow> ('s, unit) jmethod" where
  "for_each [] f = returnj ()"
| "for_each (x # xs) f = bindj (f x) (\<lambda>_. for_each xs f)"

lemma method_simps [jbuffer]:
  "returnj x s = (Inr x, s)" "liftj r s = (r, s)" "getj f s = (Inr (f s), s)"
  "setj g s = (Inr (), g s)"
  by (simp_all add: returnj_def liftj_def getj_def setj_def)

lemma bindj_step [jbuffer]:
  "m s = (Inr x, t) \<Longrightarrow> bindj m f s = f x t"
  "m s = (Inl e, t) \<Longrightarrow> bindj m f s = (Inl e, t)"
  by (simp_all add: bindj_def)

lemma tryj_step [jbuffer]:
  "m s = (Inr (), t) \<Longrightarrow> tryj m s = (Inr (), t)"
  "m s = (Inl e, t) \<Longrightarrow> e \<noteq> StackOverflow \<Longrightarrow> tryj m s = (Inr (), t)"
  by (simp_all add: tryj_def)

text \<open>A condition on the state that a method keeps, however it ends.\<close>

definition keeps :: "('s \<Rightarrow> bool) \<Rightarrow> ('s, 'a) jmethod \<Rightarrow> bool" where
  "keeps P m \<longleftrightarrow> (\<forall>s. P s \<longrightarrow> P (snd (m s)))"

named_theorems keeping \<open>introduction rules for conditions methods keep\<close>

lemma keepsD: "keeps P m \<Longrightarrow> P s \<Longrightarrow> P (snd (m s))"
  by (simp add: keeps_def)

lemma keeps_basic [keeping]:
  "keeps P (returnj x)" "keeps P (liftj r)" "keeps P (getj f)"
  by (simp_all add: keeps_def method_simps)

lemma keeps_setj [keeping]: "(\<And>s. P s \<Longrightarrow> P (f s)) \<Longrightarrow> keeps P (setj f)"
  by (simp add: keeps_def method_simps)

lemma keeps_bindj [keeping]: "keeps P m \<Longrightarrow> (\<And>x. keeps P (f x)) \<Longrightarrow> keeps P (bindj m f)"
  by (auto simp: keeps_def bindj_def split: prod.splits sum.splits; metis snd_conv)

lemma keeps_tryj [keeping]: "keeps P m \<Longrightarrow> keeps P (tryj m)"
  by (auto simp: keeps_def tryj_def split: prod.splits sum.splits; metis snd_conv)

lemma keeps_if [keeping]:
  "(b \<Longrightarrow> keeps P m) \<Longrightarrow> (\<not> b \<Longrightarrow> keeps P n) \<Longrightarrow> keeps P (if b then m else n)"
  by simp

lemma keeps_for_each [keeping]: "(\<And>x. keeps P (f x)) \<Longrightarrow> keeps P (for_each xs f)"
  by (induction xs) (auto intro: keeping)

end
