(* ===== verification/IpStack.thy ===== *)
theory IpStack
  imports JavaBuffer JavaPacket
begin

text \<open>
  The protocol layers of the repository's own TCP/IP stack, \<open>src/src/protocol\<close>: building and
  reading IP, UDP and ICMP headers and ARP messages, over the packets that Jpcap delivers and
  sends (\<^typ>\<open>jpacket\<close>), and \<open>Utility.checksum\<close>. The untyped header tables
  (\<open>HashMap<String, Object>\<close>) of the code are records here, a key that is absent being \<open>None\<close>; the
  type casts of the code succeed because every caller puts values of the right type. Printing is
  left out. \<open>Random\<close> is a parameter.
\<close>

section \<open>Utility\<close>

text \<open>
  The \<open>while\<close> loop of \<open>checksum\<close>; \<open>i\<close> is the next index, and the \<open>long\<close> sum is a 64-bit word.
\<close>

function checksum_loop :: "u8 list \<Rightarrow> nat \<Rightarrow> int \<Rightarrow> u64 \<Rightarrow> u64 java" where
  "checksum_loop buf i len acc =
     (if len > 0
      then bindr (element_at buf i) (\<lambda>hi.
        let acc = acc + push_bit 8 (ucast hi) in
        if len = 1 then Inr acc
        else bindr (element_at buf (i + 1)) (\<lambda>lo.
          checksum_loop buf (i + 2) (len - 2) (acc + ucast lo)))
      else Inr acc)"
  by pat_completeness auto
termination
  by (relation "measure (\<lambda>(buf, i, len, acc). nat len)") auto

declare checksum_loop.simps [simp del]

definition java_checksum :: "u8 list \<Rightarrow> int \<Rightarrow> u64 java" where
  "java_checksum buf len =
     bindr (checksum_loop buf 0 len 0) (\<lambda>acc.
       Inr (NOT ((acc AND 0xFFFF) + signed_drop_bit 16 acc) AND 0xFFFF))"

section \<open>The network card the stack works on\<close>

record data_link =
  device_ip :: "u8 list option"      \<comment> \<open>\<open>ipAddress\<close>, an \<open>Inet4Address\<close>\<close>
  device_mac :: "u8 list"            \<comment> \<open>\<open>macAddress\<close>\<close>
  card_mac :: "u8 list"              \<comment> \<open>\<open>device.mac_address\<close>\<close>

definition deviceIPAddress :: "data_link \<Rightarrow> u8 list java" where
  "deviceIPAddress dl = non_null (device_ip dl)"

definition deviceMacAddress :: "data_link \<Rightarrow> u8 list" where
  "deviceMacAddress dl = device_mac dl"

section \<open>IP\<close>

record ip_info =
  internet_header_length :: "u8 option"
  dscp :: "u8 option"
  ecn :: "u8 option"
  data_length :: "u32 option"
  options :: jbyteArray
  identification :: "u16 option"
  flag :: "u16 option"
  fragment_offset :: "u16 option"
  time_to_live :: "u8 option"
  protocol :: "u8 option"
  source_ip :: "u32 option"
  destination_ip :: "u32 option"

definition no_ip_info :: ip_info where
  "no_ip_info = \<lparr>internet_header_length = None, dscp = None, ecn = None, data_length = None,
     options = None, identification = None, flag = None, fragment_offset = None,
     time_to_live = None, protocol = None, source_ip = None, destination_ip = None\<rparr>"

definition or_else :: "'a \<Rightarrow> 'a option \<Rightarrow> 'a" where
  "or_else d r = (case r of None \<Rightarrow> d | Some x \<Rightarrow> x)"

definition ip_createHeader :: "data_link \<Rightarrow> ip_info \<Rightarrow> jbyteArray java" where
  "ip_createHeader dl info =
     (let version = 4 AND 0x0F; ihl = or_else 5 (internet_header_length info) in
      bindr (new_byte_array (sint ihl * 4)) (\<lambda>buffer.
      bindr (put_byte (push_bit 4 version OR ihl) (wrap buffer)) (\<lambda>b.
      bindr (get_byte_at 0 b) (\<lambda>_.
      bindr (put_byte (push_bit 2 (or_else 0 (dscp info)) OR or_else 0 (ecn info)) b) (\<lambda>b.
      case data_length info of None \<Rightarrow> Inr None | Some dlen \<Rightarrow>
      let opts = options info;
          option_length = (case opts of None \<Rightarrow> 0 | Some os \<Rightarrow> of_nat (length os));
          total_length = ucast (dlen + option_length + scast ihl * 4) in
      bindr (put_short total_length b) (\<lambda>b.
      bindr (put_short (or_else 0 (identification info)) b) (\<lambda>b.
      let flags = (case flag info of None \<Rightarrow> 0 | Some f \<Rightarrow> push_bit 13 f);
          flags = (case fragment_offset info of None \<Rightarrow> flags | Some f \<Rightarrow> flags OR f) in
      bindr (put_short flags b) (\<lambda>b.
      bindr (put_byte (or_else 64 (time_to_live info)) b) (\<lambda>b.
      case protocol info of None \<Rightarrow> Inr None | Some proto \<Rightarrow>
      bindr (put_byte proto b) (\<lambda>b.
      bindr (put_short 0 b) (\<lambda>b.
      bindr (deviceIPAddress dl) (\<lambda>ip.
      bindr (get_int (wrap ip)) (\<lambda>(own, _).
      bindr (put_int (or_else own (source_ip info)) b) (\<lambda>b.
      case destination_ip info of None \<Rightarrow> Inr None | Some dst \<Rightarrow>
      bindr (put_int dst b) (\<lambda>b.
      bindr (case opts of None \<Rightarrow> Inr b | Some os \<Rightarrow> put_array os b) (\<lambda>b.
      bindr (java_checksum (arr b) (int (length (arr b)))) (\<lambda>sum.
      bindr (put_short_at 10 (ucast sum) b) (\<lambda>b.
      Inr (Some (arr b))))))))))))))))))))"

text \<open>What \<open>handlePacket\<close> reports; \<open>hd_payload\<close> is the entry \<open>header\<close>.\<close>

record ip_result =
  hd_source_ip :: "u8 list"
  hd_dest_ip :: "u8 list"
  hd_protocol :: u8
  hd_payload :: "u8 list"

fun same_address :: "u8 list \<Rightarrow> u8 list \<Rightarrow> nat \<Rightarrow> bool java" where
  "same_address [] dest i = Inr True"
| "same_address (a # ip) dest i =
     bindr (element_at dest i) (\<lambda>b. if a \<noteq> b then Inr False else same_address ip dest (i + 1))"

definition ip_handlePacket :: "data_link \<Rightarrow> jpacket \<Rightarrow> ip_result option java" where
  "ip_handlePacket dl packet =
     bindr (non_null (pk_header packet)) (\<lambda>header.
     bindr (non_null (pk_data packet)) (\<lambda>data.
     bindr (new_byte_array (int (length header + length data))) (\<lambda>ip_data.
     bindr (put_array header (wrap ip_data)) (\<lambda>b.
     bindr (put_array data b) (\<lambda>b.
     bindr (set_position 26 b) (\<lambda>b.
     bindr (get_array 4 b) (\<lambda>(src, b).
     bindr (set_position 30 b) (\<lambda>b.
     bindr (get_array 4 b) (\<lambda>(dest, b).
     bindr (deviceIPAddress dl) (\<lambda>ip.
     bindr (same_address ip dest 0) (\<lambda>ours.
     if \<not> ours then Inr None
     else
       bindr (set_position 0 b) (\<lambda>b.
       bindr (get_byte_at 23 b) (\<lambda>proto.
       bindr (get_byte_at 14 b) (\<lambda>first.
       let header_length = (first AND 0x0F) * 4 in
       bindr (get_short_at 16 b) (\<lambda>total_length.
       let data_len = sint total_length - sint header_length in
       bindr (new_byte_array data_len) (\<lambda>_.
       bindr (set_position (sint header_length + 14) b) (\<lambda>b.
       bindr (get_array (nat data_len) b) (\<lambda>(payload, b).
       Inr (Some \<lparr>hd_source_ip = src, hd_dest_ip = dest, hd_protocol = proto,
                  hd_payload = payload\<rparr>)))))))))))))))))))"

section \<open>UDP\<close>

record udp_info =
  source_port :: "u16 option"
  dest_port :: "u16 option"
  udp_data :: jbyteArray

definition udp_createHeader :: "udp_info \<Rightarrow> jbyteArray java" where
  "udp_createHeader info =
     (let total_length = (case udp_data info of None \<Rightarrow> 8 | Some d \<Rightarrow> 8 + of_nat (length d)) :: u16 in
      bindr (new_byte_array (sint total_length)) (\<lambda>buf.
      case source_port info of None \<Rightarrow> Inr None | Some sp \<Rightarrow>
      bindr (put_short sp (wrap buf)) (\<lambda>b.
      case dest_port info of None \<Rightarrow> Inr None | Some dp \<Rightarrow>
      bindr (put_short dp b) (\<lambda>b.
      bindr (put_short total_length b) (\<lambda>b.
      bindr (put_short 0 b) (\<lambda>b.
      bindr (case udp_data info of None \<Rightarrow> Inr b | Some d \<Rightarrow> put_array d b) (\<lambda>b.
      Inr (Some (arr b)))))))))"

record udp_result =
  u_src_port :: u16
  u_dest_port :: u16
  u_length :: u16
  u_data :: jbyteArray

definition udp_handlePacket :: "jpacket \<Rightarrow> udp_result java" where
  "udp_handlePacket packet =
     bindr (non_null (pk_header packet)) (\<lambda>header.
     bindr (get_short_at 0 (wrap header)) (\<lambda>sp.
     bindr (get_short_at 2 (wrap header)) (\<lambda>dp.
     bindr (get_short_at 4 (wrap header)) (\<lambda>len.
     Inr \<lparr>u_src_port = sp, u_dest_port = dp, u_length = len, u_data = pk_data packet\<rparr>))))"

section \<open>ICMP\<close>

record icmp_info =
  header_name :: "string option"
  icmp_data :: jbyteArray
  icmp_identifier :: "u16 option"
  sequence_number :: "u16 option"     \<comment> \<open>the key the echo header reads\<close>
  sequenceNumber :: "u16 option"      \<comment> \<open>the key the timestamp header reads\<close>
  sequence_num :: "u16 option"        \<comment> \<open>the key \<open>HPingApp\<close> writes\<close>
  original_time :: "u32 option"
  receive_time :: "u32 option"
  transmit_time :: "u32 option"

definition no_icmp_info :: icmp_info where
  "no_icmp_info = \<lparr>header_name = None, icmp_data = None, icmp_identifier = None,
     sequence_number = None, sequenceNumber = None, sequence_num = None,
     original_time = None, receive_time = None, transmit_time = None\<rparr>"

definition echo_createHeader :: "u16 \<Rightarrow> icmp_info \<Rightarrow> jbyteArray java" where
  "echo_createHeader random info =
     bindr (non_null (header_name info)) (\<lambda>name.
     if name \<noteq> ''echo'' \<and> name \<noteq> ''echo_reply'' then Inr None
     else
       bindr (non_null (icmp_data info)) (\<lambda>data.
       bindr (new_byte_array (8 + int (length data))) (\<lambda>buffer.
       bindr (put_byte (if name = ''echo_reply'' then 0 else 8) (wrap buffer)) (\<lambda>b.
       bindr (put_byte 0 b) (\<lambda>b.
       bindr (put_short 0 b) (\<lambda>b.
       bindr (put_short (or_else random (icmp_identifier info)) b) (\<lambda>b.
       bindr (put_short (or_else 0 (sequence_number info)) b) (\<lambda>b.
       bindr (put_array data b) (\<lambda>b.
       bindr (java_checksum (arr b) (int (length (arr b)))) (\<lambda>sum.
       bindr (put_short_at 2 (ucast sum) b) (\<lambda>b.
       Inr (Some (arr b)))))))))))))"

definition put_int_opt :: "u32 option \<Rightarrow> jbuf \<Rightarrow> jbuf java" where
  "put_int_opt r b = (case r of None \<Rightarrow> Inr b | Some t \<Rightarrow> put_int t b)"

definition timestamp_createHeader :: "u16 \<Rightarrow> icmp_info \<Rightarrow> jbyteArray java" where
  "timestamp_createHeader random info =
     bindr (non_null (header_name info)) (\<lambda>name.
     if name \<noteq> ''timestamp'' then Inr None
     else
       bindr (new_byte_array 20) (\<lambda>buffer.
       bindr (put_byte 13 (wrap buffer)) (\<lambda>b.
       bindr (put_byte 0 b) (\<lambda>b.
       bindr (put_short 0 b) (\<lambda>b.
       bindr (put_short (or_else random (icmp_identifier info)) b) (\<lambda>b.
       bindr (put_short (or_else 0 (sequenceNumber info)) b) (\<lambda>b.
       bindr (put_int_opt (original_time info) b) (\<lambda>b.
       bindr (put_int_opt (receive_time info) b) (\<lambda>b.
       bindr (put_int_opt (transmit_time info) b) (\<lambda>b.
       bindr (java_checksum (arr b) (int (length (arr b)))) (\<lambda>sum.
       bindr (put_short_at 2 (ucast sum) b) (\<lambda>b.
       Inr (Some (arr b))))))))))))))"

definition time_exceeded_createHeader :: "icmp_info \<Rightarrow> jbyteArray java" where
  "time_exceeded_createHeader info = Inr None"

text \<open>The loop of \<open>ICMPProtocolLayer.createHeader\<close> over its list of headers.\<close>

fun first_some :: "'a option java list \<Rightarrow> 'a option java" where
  "first_some [] = Inr None"
| "first_some (h # hs) = bindr h (\<lambda>r. if r \<noteq> None then Inr r else first_some hs)"

definition icmp_createHeader :: "u16 \<Rightarrow> icmp_info \<Rightarrow> jbyteArray java" where
  "icmp_createHeader random info =
     first_some [echo_createHeader random info, timestamp_createHeader random info,
                 time_exceeded_createHeader info]"

text \<open>What the ICMP headers report of a message that came in.\<close>

record icmp_result =
  r_type :: "u8 option"
  r_code :: "u8 option"
  r_identifier :: "u16 option"
  r_sequence :: "u16 option"
  r_data :: jbyteArray
  r_original_time :: "u32 option"
  r_receive_time :: "u32 option"
  r_transmit_time :: "u32 option"

definition no_icmp_result :: icmp_result where
  "no_icmp_result = \<lparr>r_type = None, r_code = None, r_identifier = None, r_sequence = None,
     r_data = None, r_original_time = None, r_receive_time = None, r_transmit_time = None\<rparr>"

definition echo_handlePacket :: "jpacket \<Rightarrow> icmp_result option java" where
  "echo_handlePacket packet =
     bindr (non_null (pk_header packet)) (\<lambda>header.
     bindr (get_byte_at 0 (wrap header)) (\<lambda>type.
     if type \<noteq> 0 then Inr None
     else
       bindr (get_short_at 4 (wrap header)) (\<lambda>ident.
       bindr (get_short_at 6 (wrap header)) (\<lambda>seq.
       Inr (Some (no_icmp_result\<lparr>r_identifier := Some ident, r_sequence := Some seq,
         r_data := (if length header > 8 then pk_data packet else None)\<rparr>))))))"

definition timestamp_handlePacket :: "jpacket \<Rightarrow> icmp_result option java" where
  "timestamp_handlePacket packet =
     bindr (non_null (pk_header packet)) (\<lambda>header.
     bindr (get_byte_at 0 (wrap header)) (\<lambda>type.
     if type \<noteq> 14 then Inr None
     else
       bindr (get_short_at 4 (wrap header)) (\<lambda>ident.
       bindr (get_short_at 6 (wrap header)) (\<lambda>seq.
       bindr (get_int_at 8 (wrap header)) (\<lambda>t0.
       bindr (get_int_at 12 (wrap header)) (\<lambda>t1.
       bindr (get_int_at 16 (wrap header)) (\<lambda>t2.
       Inr (Some (no_icmp_result\<lparr>r_identifier := Some ident, r_sequence := Some seq,
         r_original_time := Some t0, r_receive_time := Some t1,
         r_transmit_time := Some t2\<rparr>)))))))))"

definition time_exceeded_handlePacket :: "jpacket \<Rightarrow> icmp_result option java" where
  "time_exceeded_handlePacket packet =
     bindr (non_null (pk_header packet)) (\<lambda>header.
     bindr (get_byte_at 0 (wrap header)) (\<lambda>type.
     bindr (if type \<noteq> 11 then bindr (get_byte_at 1 (wrap header)) (\<lambda>code. Inr (code \<noteq> 0))
            else Inr False) (\<lambda>other.
     if other then Inr None
     else
       bindr (new_byte_array (int (length header) - 8)) (\<lambda>data.
       bindr (set_position 8 (wrap header)) (\<lambda>b.
       bindr (get_array (length data) b) (\<lambda>(data, _).
       Inr (Some (no_icmp_result\<lparr>r_type := Some 11, r_code := Some 0,
         r_data := Some data\<rparr>))))))))"

text \<open>The chain of responsibility of \<open>ICMPProtocolLayer\<close>.\<close>

definition icmp_handlePacket :: "jpacket \<Rightarrow> icmp_result option java" where
  "icmp_handlePacket packet =
     first_some [echo_handlePacket packet, timestamp_handlePacket packet,
                 time_exceeded_handlePacket packet]"

section \<open>ARP\<close>

text \<open>Writing bytes one by one at \<open>data[pointer++]\<close>.\<close>

fun store_bytes :: "u8 list \<Rightarrow> u8 list \<times> nat \<Rightarrow> (u8 list \<times> nat) java" where
  "store_bytes [] (data, p) = Inr (data, p)"
| "store_bytes (x # xs) (data, p) =
     (if p < length data then store_bytes xs (data[p := x], p + 1) else Inl IndexOutOfBounds)"

definition makeARPRequestMsg :: "data_link \<Rightarrow> u8 list \<Rightarrow> u8 list java" where
  "makeARPRequestMsg dl ip =
     bindr (store_bytes [0, 1] (replicate 28 0, 0)) (\<lambda>s.
     bindr (store_bytes (be_bytes16 0x0800) s) (\<lambda>s.
     bindr (store_bytes [6, 4] s) (\<lambda>s.
     bindr (store_bytes (be_bytes16 1) s) (\<lambda>s.
     bindr (store_bytes (deviceMacAddress dl) s) (\<lambda>s.
     bindr (deviceIPAddress dl) (\<lambda>srcip.
     bindr (store_bytes srcip s) (\<lambda>s.
     bindr (store_bytes (replicate 6 0xff) s) (\<lambda>s.
     bindr (store_bytes ip s) (\<lambda>s.
     Inr (fst s))))))))))"

definition arp_createHeader :: "data_link \<Rightarrow> jbyteArray \<Rightarrow> jbyteArray java" where
  "arp_createHeader dl ip =
     (case ip of None \<Rightarrow> Inr None
      | Some ip \<Rightarrow> bindr (makeARPRequestMsg dl ip) (\<lambda>m. Inr (Some m)))"

record arp_result =
  a_sender_ip :: jbyteArray
  a_sender_mac :: jbyteArray

fun target_is_ours :: "u8 list \<Rightarrow> u8 list \<Rightarrow> nat \<Rightarrow> nat \<Rightarrow> bool java" where
  "target_is_ours ip data i 0 = Inr True"
| "target_is_ours ip data i (Suc n) =
     bindr (element_at ip i) (\<lambda>a. bindr (element_at data (38 + i)) (\<lambda>b.
       if a \<noteq> b then Inr False else target_is_ours ip data (i + 1) n))"

definition analyseARPMsg :: "data_link \<Rightarrow> u8 list \<Rightarrow> arp_result java" where
  "analyseARPMsg dl data =
     bindr (array_copy data 20 2) (\<lambda>opcode.
     bindr (get_short (wrap opcode)) (\<lambda>(op, _).
     if op \<noteq> 2 then Inr \<lparr>a_sender_ip = None, a_sender_mac = None\<rparr>
     else
       bindr (deviceIPAddress dl) (\<lambda>ip.
       bindr (target_is_ours ip data 0 4) (\<lambda>ours.
       if \<not> ours then Inr \<lparr>a_sender_ip = None, a_sender_mac = None\<rparr>
       else
         bindr (array_copy data 28 4) (\<lambda>sender_ip.
         bindr (array_copy data 22 6) (\<lambda>sender_mac.
         Inr \<lparr>a_sender_ip = Some sender_ip, a_sender_mac = Some sender_mac\<rparr>))))))"

definition arp_handlePacket :: "data_link \<Rightarrow> jpacket \<Rightarrow> arp_result java" where
  "arp_handlePacket dl packet = bindr (non_null (pk_header packet)) (analyseARPMsg dl)"

end
