(* ===== verification/StackCore.thy ===== *)
theory StackCore
  imports IpStack
begin

text \<open>
  The link layer and the protocol manager of the repository's TCP/IP stack
  (\<open>src/src/datalinklayer/DataLinkLayer.java\<close>, the sending half of
  \<open>src/src/protocol/ProtocolManager.java\<close>): the table of hardware addresses, the packets that wait
  for the router's, and the packets handed to \<open>JpcapSender.sendPacket\<close>, as one state that the
  methods read and change. The code keeps these in static fields of singletons.
\<close>

section \<open>The network card\<close>

text \<open>\<open>getDeviceIpAddress\<close>: the first IPv4 address of the card.\<close>

fun getDeviceIpAddress :: "inet_address list \<Rightarrow> u8 list option" where
  "getDeviceIpAddress [] = None"
| "getDeviceIpAddress (Inet4 a # addrs) = Some a"
| "getDeviceIpAddress (Inet6 a # addrs) = getDeviceIpAddress addrs"

text \<open>\<open>getDeviceMacAddress\<close>: the card's address copied into an array of six bytes.\<close>

definition getDeviceMacAddress :: "u8 list \<Rightarrow> u8 list java" where
  "getDeviceMacAddress mac = bindr (store_bytes mac (replicate 6 0, 0)) (\<lambda>(a, _). Inr a)"

text \<open>\<open>initWithOpenDevice\<close> with a card that \<open>openDevice\<close> opens.\<close>

definition initWithOpenDevice :: "inet_address list \<Rightarrow> u8 list \<Rightarrow> data_link java" where
  "initWithOpenDevice addrs mac =
     bindr (getDeviceMacAddress mac) (\<lambda>m.
       Inr \<lparr>device_ip = getDeviceIpAddress addrs, device_mac = m, card_mac = mac\<rparr>)"

definition deviceFakeMacAddress :: "data_link \<Rightarrow> u8 list" where
  "deviceFakeMacAddress dl = map (\<lambda>b. b + 1) (device_mac dl)"

section \<open>The state\<close>

text \<open>
  \<open>mac_table\<close> and \<open>waiting\<close> are the maps \<open>ipToMacTable\<close> and \<open>dataWaitToSend\<close>; their keys are the
  strings that \<open>Arrays.toString\<close> makes of an address, one per address and one for \<open>null\<close>.
  \<open>receivers\<close> is \<open>icmpPacketReceiverList\<close>, by the number of the application. \<open>sent\<close> records the
  calls of \<open>JpcapSender.sendPacket\<close>, the last one at the end.
\<close>

type_synonym addr_key = "u8 list option"

record stack =
  link :: data_link
  router :: "u8 list option"
  mac_table :: "addr_key \<rightharpoonup> u8 list option"
  waiting :: "(addr_key \<times> jbyteArray) list"
  receivers :: "nat list"
  sent :: "jpacket list"

type_synonym 'a manager = "(stack, 'a) jmethod"

text \<open>\<open>HashMap.get\<close>: \<open>null\<close> for a key that is absent.\<close>

definition table_get :: "(addr_key \<rightharpoonup> u8 list option) \<Rightarrow> addr_key \<Rightarrow> u8 list option" where
  "table_get t k = (case t k of None \<Rightarrow> None | Some v \<Rightarrow> v)"

text \<open>\<open>HashMap.put\<close> on the map of waiting data.\<close>

fun waiting_put :: "addr_key \<Rightarrow> jbyteArray \<Rightarrow> (addr_key \<times> jbyteArray) list \<Rightarrow>
    (addr_key \<times> jbyteArray) list" where
  "waiting_put k d [] = [(k, d)]"
| "waiting_put k d ((k', d') # w) = (if k = k' then (k, d) # w else (k', d') # waiting_put k d w)"

section \<open>Sending\<close>

text \<open>
  \<open>DataLinkLayer.sendData\<close>. The copy of the frame that it writes to a text file for debugging
  is left out. The card is open: after an \<open>openDevice\<close> that failed \<open>jpcapSender\<close> stays \<open>null\<close> and
  every call with data is a \<open>NullPointerException\<close> that nothing here describes.
\<close>

definition link_packet :: "u8 list \<Rightarrow> u8 list \<Rightarrow> jbyteArray \<Rightarrow> u16 \<Rightarrow> jpacket" where
  "link_packet src data dst_mac frametype =
     (AllocObject PacketC)\<lparr>pk_data := Some data,
       pk_datalink := Some (EthernetPacket \<lparr>eth_dst_mac = dst_mac, eth_src_mac = Some src,
         eth_frametype = frametype\<rparr>)\<rparr>"

definition link_sendData :: "jbyteArray \<Rightarrow> jbyteArray \<Rightarrow> u16 \<Rightarrow> unit manager" where
  "link_sendData data dst_mac frametype =
     (case data of None \<Rightarrow> returnj ()
      | Some d \<Rightarrow> setj (\<lambda>s. s\<lparr>sent := sent s @
          [link_packet (card_mac (link s)) d dst_mac frametype]\<rparr>))"

definition broadcast :: "u8 list" where
  "broadcast = replicate 6 0xff"

definition broadCast :: "jbyteArray \<Rightarrow> unit manager" where
  "broadCast data = link_sendData data (Some broadcast) 0x0800"

definition prepareRouterMac :: "unit manager" where
  "prepareRouterMac =
     bindj (getj router) (\<lambda>r. bindj (liftj (non_null r)) (\<lambda>ip.
     bindj (getj link) (\<lambda>dl. bindj (liftj (arp_createHeader dl (Some ip))) (\<lambda>request.
     if request = None then liftj (Inl OtherException)
     else link_sendData request (Some broadcast) 0x0806))))"

definition getRouterMac :: "(u8 list option) manager" where
  "getRouterMac =
     bindj (getj router) (\<lambda>r. bindj (liftj (non_null r)) (\<lambda>ip.
       getj (\<lambda>s. table_get (mac_table s) (Some ip))))"

definition sendData :: "jbyteArray \<Rightarrow> u8 list \<Rightarrow> unit manager" where
  "sendData data ip =
     bindj getRouterMac (\<lambda>mac.
     if mac = None
     then bindj prepareRouterMac (\<lambda>_.
       setj (\<lambda>s. s\<lparr>waiting := waiting_put (Some ip) data (waiting s)\<rparr>))
     else link_sendData data mac 0x0800)"

text \<open>
  \<open>sendWaitingData\<close> goes through the key set of the map, whose order \<open>HashMap\<close> leaves open:
  \<open>order\<close> is that order.
\<close>

type_synonym key_order = "(addr_key \<times> jbyteArray) list \<Rightarrow> (addr_key \<times> jbyteArray) list"

definition sendWaitingData :: "key_order \<Rightarrow> unit manager" where
  "sendWaitingData order =
     bindj getRouterMac (\<lambda>mac.
     if mac = None then returnj ()
     else bindj (getj waiting) (\<lambda>w.
       bindj (for_each (order w) (\<lambda>(k, d). link_sendData d mac 0x0800)) (\<lambda>_.
         setj (\<lambda>s. s\<lparr>waiting := []\<rparr>))))"

definition registToReceiveICMPPacket :: "nat \<Rightarrow> unit manager" where
  "registToReceiveICMPPacket app =
     setj (\<lambda>s. if app \<in> set (receivers s) then s else s\<lparr>receivers := receivers s @ [app]\<rparr>)"

text \<open>
  \<open>getInstance\<close>: the manager of a link layer, whose first act is to ask for the router's
  hardware address; an exception there is printed.
\<close>

definition new_stack :: "data_link \<Rightarrow> u8 list option \<Rightarrow> stack" where
  "new_stack dl r = \<lparr>link = dl, router = r, mac_table = Map.empty, waiting = [], receivers = [],
     sent = []\<rparr>"

definition getInstance :: "data_link \<Rightarrow> u8 list option \<Rightarrow> stack" where
  "getInstance dl r = snd (tryj prepareRouterMac (new_stack dl r))"

text \<open>The ARP branch of \<open>receivePacket\<close>.\<close>

definition receive_arp :: "key_order \<Rightarrow> jpacket \<Rightarrow> unit manager" where
  "receive_arp order packet =
     bindj (getj link) (\<lambda>dl. bindj (liftj (arp_handlePacket dl packet)) (\<lambda>info.
     bindj (setj (\<lambda>s. s\<lparr>mac_table := (mac_table s)(a_sender_ip info \<mapsto> a_sender_mac info)\<rparr>)) (\<lambda>_.
       sendWaitingData order)))"

section \<open>Datagrams the applications send\<close>

text \<open>
  The header tables most applications fill in the same way: a UDP datagram in an IP packet, the
  IP header first. A \<open>null\<close> header is dereferenced (\<open>udpHeader.length\<close>).
\<close>

definition join_headers :: "u8 list \<Rightarrow> u8 list \<Rightarrow> u8 list java" where
  "join_headers ip_header rest =
     bindr (new_byte_array (int (length rest + length ip_header))) (\<lambda>packet.
     bindr (put_array ip_header (wrap packet)) (\<lambda>b.
     bindr (put_array rest b) (\<lambda>b. Inr (arr b))))"

text \<open>Methods of an application, over its own object and the protocol manager.\<close>

definition on_stack :: "'a manager \<Rightarrow> ('c \<times> stack, 'a) jmethod" where
  "on_stack m = (\<lambda>(c, s). case m s of (r, t) \<Rightarrow> (r, (c, t)))"

definition get_client :: "('c \<Rightarrow> 'a) \<Rightarrow> ('c \<times> stack, 'a) jmethod" where
  "get_client f = getj (\<lambda>(c, s). f c)"

definition set_client :: "('c \<Rightarrow> 'c) \<Rightarrow> ('c \<times> stack, unit) jmethod" where
  "set_client f = setj (\<lambda>(c, s). (f c, s))"

end
