(* ===== verification/Tftp.thy ===== *)
theory Tftp
  imports StackCore
begin

text \<open>
  \<open>src/src/Application/TFTPClient.java\<close>: the client of the Trivial File Transfer Protocol on top
  of the stack, from the request for a file to the last acknowledgement. Its methods act on the
  client and on the protocol manager.
\<close>

text \<open>A \<open>FileOutputStream\<close>: what was written to it, and whether it is closed.\<close>

datatype file_stream = NoStream | OpenStream "u8 list" | ClosedStream "u8 list"

record tftp =
  server_ip :: "u8 list"
  own_port :: jint            \<comment> \<open>\<open>port\<close> of \<open>Application\<close>\<close>
  data_block :: u16
  server_port :: u16          \<comment> \<open>static: see \<open>share_statics\<close>\<close>
  file_name :: "u8 list list" \<comment> \<open>\<open>filename\<close>, one entry per \<open>char\<close>: see \<open>sendReadPacket\<close>\<close>
  download :: file_stream

type_synonym 'a tftp_method = "(tftp \<times> stack, 'a) jmethod"

definition TFTPClient :: "u8 list \<Rightarrow> tftp" where
  "TFTPClient ip = \<lparr>server_ip = ip, own_port = scast (60706 :: u16), data_block = 1,
     server_port = 69, file_name = [], download = NoStream\<rparr>"

definition tftp_createUDPHeader :: "tftp \<Rightarrow> u8 list \<Rightarrow> jbyteArray java" where
  "tftp_createUDPHeader c data = udp_createHeader
     \<lparr>source_port = Some (ucast (own_port c)), dest_port = Some (server_port c),
      udp_data = Some data\<rparr>"

definition tftp_createIPHeader :: "data_link \<Rightarrow> tftp \<Rightarrow> nat \<Rightarrow> jbyteArray java" where
  "tftp_createIPHeader dl c len =
     bindr (get_int (wrap (server_ip c))) (\<lambda>(dst, _).
     bindr (get_int (wrap [192, 168, 1, 102])) (\<lambda>(fake, _).
       ip_createHeader dl (no_ip_info\<lparr>data_length := Some (of_nat len),
         destination_ip := Some dst, source_ip := Some fake, protocol := Some 17\<rparr>)))"

text \<open>The IP packet around a TFTP message.\<close>

definition tftp_packet :: "data_link \<Rightarrow> tftp \<Rightarrow> u8 list \<Rightarrow> u8 list java" where
  "tftp_packet dl c msg =
     bindr (tftp_createUDPHeader c msg) (\<lambda>u. bindr (non_null u) (\<lambda>udp_header.
     bindr (tftp_createIPHeader dl c (length udp_header)) (\<lambda>i. bindr (non_null i) (\<lambda>ip_header.
       join_headers ip_header udp_header))))"

definition tftp_send :: "u8 list \<Rightarrow> unit tftp_method" where
  "tftp_send msg =
     bindj (get_client (\<lambda>c. c)) (\<lambda>c. bindj (on_stack (getj link)) (\<lambda>dl.
     bindj (liftj (tftp_packet dl c msg)) (\<lambda>packet.
       tryj (on_stack (sendData (Some packet) (server_ip c))))))"

text \<open>\<open>netascii\<close>\<close>

definition tftp_mode :: "u8 list" where
  "tftp_mode = [110, 101, 116, 97, 115, 99, 105, 105]"

text \<open>
  The array is sized with \<open>filename.length()\<close>, the number of characters, and filled with
  \<open>filename.getBytes()\<close>, their encoding. A name is the list of its characters, each with the
  bytes the platform's encoding has for it (a surrogate pair: the bytes at its first half): a name
  with a character of more than one byte overflows the array.
\<close>

definition sendReadPacket :: "unit tftp_method" where
  "sendReadPacket =
     bindj (get_client file_name) (\<lambda>name.
     bindj (liftj (
       bindr (new_byte_array (int (2 + length name + 1 + length tftp_mode + 1))) (\<lambda>a.
       bindr (put_short 1 (wrap a)) (\<lambda>b.
       bindr (put_array (concat name) b) (\<lambda>b.
       bindr (put_byte 0 b) (\<lambda>b.
       bindr (put_array tftp_mode b) (\<lambda>b.
       bindr (put_byte 0 b) (\<lambda>b. Inr (arr b)))))))))
     tftp_send)"

text \<open>\<open>opens\<close> says whether the file could be created.\<close>

definition getFile :: "bool \<Rightarrow> u8 list list \<Rightarrow> unit tftp_method" where
  "getFile opens name =
     bindj (set_client (\<lambda>c. c\<lparr>file_name := name\<rparr>)) (\<lambda>_.
     bindj (set_client (\<lambda>c. if opens then c\<lparr>download := OpenStream []\<rparr> else c)) (\<lambda>_.
     sendReadPacket))"

text \<open>\<open>FileOutputStream.write\<close> inside its \<open>try\<close>: writing to a closed stream changes nothing.\<close>

definition write_block :: "u8 list \<Rightarrow> unit tftp_method" where
  "write_block content =
     bindj (get_client download) (\<lambda>f. case f of
       NoStream \<Rightarrow> liftj (Inl NullPointer)
     | OpenStream w \<Rightarrow> set_client (\<lambda>c. c\<lparr>download := OpenStream (w @ content)\<rparr>)
     | ClosedStream w \<Rightarrow> returnj ())"

definition close_stream :: "unit tftp_method" where
  "close_stream =
     bindj (get_client download) (\<lambda>f. case f of
       NoStream \<Rightarrow> liftj (Inl NullPointer)
     | OpenStream w \<Rightarrow> set_client (\<lambda>c. c\<lparr>download := ClosedStream w\<rparr>)
     | ClosedStream w \<Rightarrow> returnj ())"

definition sendACKPacket :: "unit tftp_method" where
  "sendACKPacket =
     bindj (get_client data_block) (\<lambda>block.
     bindj (liftj (
       bindr (new_byte_array 4) (\<lambda>a.
       bindr (put_short 4 (wrap a)) (\<lambda>b.
       bindr (put_short block b) (\<lambda>b. Inr (arr b))))))
     tftp_send)"

definition handleDataPacket :: "jbuf \<Rightarrow> unit tftp_method" where
  "handleDataPacket buffer =
     bindj (liftj (get_short buffer)) (\<lambda>(block, buffer).
     bindj (set_client (\<lambda>c. c\<lparr>data_block := block\<rparr>)) (\<lambda>_.
     let left_len = length (arr buffer) - pos buffer in
     bindj (liftj (get_array left_len buffer)) (\<lambda>(content, _).
     bindj (write_block content) (\<lambda>_.
     if left_len = 512
     then bindj sendACKPacket (\<lambda>_. set_client (\<lambda>c. c\<lparr>data_block := data_block c + 1\<rparr>))
     else if left_len < 512
     then bindj sendACKPacket (\<lambda>_. bindj close_stream (\<lambda>_.
       set_client (\<lambda>c. c\<lparr>data_block := 1\<rparr>)))
     else returnj ()))))"

definition handleErrorPacket :: "jbuf \<Rightarrow> unit tftp_method" where
  "handleErrorPacket buffer =
     bindj (liftj (get_short buffer)) (\<lambda>(code, buffer).
     bindj (liftj (get_array (length (arr buffer) - pos buffer) buffer)) (\<lambda>_. returnj ()))"

definition tftp_handleData :: "udp_result \<Rightarrow> unit tftp_method" where
  "tftp_handleData info =
     (case u_data info of None \<Rightarrow> returnj ()
      | Some data \<Rightarrow>
        bindj (set_client (\<lambda>c. c\<lparr>server_port := u_src_port info\<rparr>)) (\<lambda>_.
        bindj (liftj (get_short (wrap data))) (\<lambda>(op, buffer).
          if op = 3 then handleDataPacket buffer
          else if op = 5 then handleErrorPacket buffer
          else returnj ())))"

end
