(* ===== verification/PingApps.thy ===== *)
theory PingApps
  imports StackCore
begin

text \<open>
  The applications of the stack that use ICMP: \<open>PingApp\<close>, its subclass \<open>HPingApp\<close> and
  \<open>TraceRoute\<close> of \<open>src/src/Application\<close>. The clock is a parameter.
\<close>

section \<open>Ping\<close>

text \<open>One object of class \<open>PingApp\<close>, or of \<open>HPingApp\<close> if \<open>timestamps\<close> is set.\<close>

record ping_app =
  timestamps :: bool
  echo_times :: nat
  ping_identifier :: u16
  ping_sequence :: u16
  ping_dest :: "u8 list"
  ping_port :: jint
  send_time :: u32              \<comment> \<open>of \<open>HPingApp\<close>\<close>

text \<open>\<open>System.currentTimeMillis\<close> and the time of day.\<close>

record clock =
  millis :: u64
  hour :: u32
  minute :: u32
  second :: u32

definition PingApp :: "bool \<Rightarrow> u32 \<Rightarrow> jint \<Rightarrow> u8 list \<Rightarrow> ping_app java" where
  "PingApp hping random count dest =
     (if sint count > 0
      then let ident = ucast (random AND 0xFFFF) in
        Inr \<lparr>timestamps = hping, echo_times = nat (sint count), ping_identifier = ident,
             ping_sequence = 0, ping_dest = dest, ping_port = scast ident, send_time = 0\<rparr>
      else Inl IllegalArgument)"

definition be_bytes64 :: "u64 \<Rightarrow> u8 list" where
  "be_bytes64 w = map (\<lambda>i. byte_at (7 - i) w) [0..<8]"

definition ping_createICMPHeader :: "clock \<Rightarrow> (ping_app \<times> stack, jbyteArray) jmethod" where
  "ping_createICMPHeader now =
     bindj (get_client (\<lambda>c. c)) (\<lambda>c.
     bindj (set_client (\<lambda>c. c\<lparr>ping_sequence := ping_sequence c + 1\<rparr>)) (\<lambda>_.
     liftj (bindr (new_byte_array 8) (\<lambda>a.
       bindr (put_array (be_bytes64 (millis now)) (wrap a)) (\<lambda>b.
       icmp_createHeader 0 (no_icmp_info\<lparr>header_name := Some ''echo'',
         icmp_identifier := Some (ping_identifier c),
         sequence_number := Some (ping_sequence c), icmp_data := Some (arr b)\<rparr>))))))"

definition hping_createICMPHeader :: "clock \<Rightarrow> (ping_app \<times> stack, jbyteArray) jmethod" where
  "hping_createICMPHeader now =
     bindj (get_client (\<lambda>c. c)) (\<lambda>c.
     bindj (set_client (\<lambda>c. c\<lparr>ping_sequence := ping_sequence c + 1\<rparr>)) (\<lambda>_.
     let t = (hour now * 3600 + minute now * 60 + second now) * 1000 in
     bindj (set_client (\<lambda>c. c\<lparr>send_time := t\<rparr>)) (\<lambda>_.
     liftj (icmp_createHeader 0 (no_icmp_info\<lparr>header_name := Some ''timestamp'',
         icmp_identifier := Some (ping_identifier c),
         sequence_num := Some (ping_sequence c), original_time := Some t,
         receive_time := Some 0, transmit_time := Some 0\<rparr>)))))"

definition createICMPHeader :: "clock \<Rightarrow> (ping_app \<times> stack, jbyteArray) jmethod" where
  "createICMPHeader now = bindj (get_client timestamps) (\<lambda>h.
     if h then hping_createICMPHeader now else ping_createICMPHeader now)"

definition ping_createIP4Header :: "data_link \<Rightarrow> ping_app \<Rightarrow> nat \<Rightarrow> jbyteArray java" where
  "ping_createIP4Header dl c len =
     (if len = 0 then Inr None
      else bindr (get_int (wrap (ping_dest c))) (\<lambda>(dst, _).
        ip_createHeader dl (no_ip_info\<lparr>data_length := Some (of_nat len),
          destination_ip := Some dst, protocol := Some 1,
          identification := Some (ucast (ping_port c))\<rparr>)))"

definition createPackage :: "clock \<Rightarrow> (ping_app \<times> stack, u8 list) jmethod" where
  "createPackage now =
     bindj (createICMPHeader now) (\<lambda>r. case r of
       None \<Rightarrow> liftj (Inl OtherException)
     | Some icmp \<Rightarrow>
         bindj (get_client (\<lambda>c. c)) (\<lambda>c. bindj (on_stack (getj link)) (\<lambda>dl.
         liftj (bindr (ping_createIP4Header dl c (length icmp)) (\<lambda>r.
           bindr (non_null r) (\<lambda>ip_header. join_headers ip_header icmp))))))"

text \<open>\<open>startPing\<close>; \<open>now i\<close> is the time at the \<open>i\<close>-th pass of the loop.\<close>

definition startPing :: "(nat \<Rightarrow> clock) \<Rightarrow> (ping_app \<times> stack, unit) jmethod" where
  "startPing now =
     bindj (get_client echo_times) (\<lambda>n.
     for_each [0..<n] (\<lambda>i. tryj (
       bindj (createPackage (now i)) (\<lambda>packet.
       bindj (get_client ping_dest) (\<lambda>ip. on_stack (sendData (Some packet) ip))))))"

text \<open>Reading a reply: nothing but printing, but a missing entry is an exception.\<close>

definition ping_handleData :: "icmp_result \<Rightarrow> unit java" where
  "ping_handleData info =
     bindr (non_null (r_sequence info)) (\<lambda>_. bindr (non_null (r_data info)) (\<lambda>buf.
     bindr (get_array 8 (wrap buf)) (\<lambda>_. Inr ())))"

definition hping_handleData :: "icmp_result \<Rightarrow> unit java" where
  "hping_handleData info =
     bindr (non_null (r_sequence info)) (\<lambda>_. bindr (non_null (r_receive_time info)) (\<lambda>_.
     bindr (non_null (r_transmit_time info)) (\<lambda>_. Inr ())))"

section \<open>Traceroute\<close>

record trace_route =
  tr_port :: jint
  tr_dest_port :: u16
  tr_dest_ip :: "u8 list"
  tr_ttl :: u8

definition TraceRoute :: "u8 list \<Rightarrow> trace_route" where
  "TraceRoute dest = \<lparr>tr_port = 0, tr_dest_port = 33434, tr_dest_ip = dest, tr_ttl = 1\<rparr>"

definition trace_createUDPHeader :: "trace_route \<Rightarrow> jbyteArray java" where
  "trace_createUDPHeader c = udp_createHeader
     \<lparr>source_port = Some (ucast (tr_port c)), dest_port = Some (tr_dest_port c),
      udp_data = Some (replicate 24 0)\<rparr>"

definition trace_createIP4Header :: "data_link \<Rightarrow> trace_route \<Rightarrow> nat \<Rightarrow> jbyteArray java" where
  "trace_createIP4Header dl c len =
     bindr (get_int (wrap (tr_dest_ip c))) (\<lambda>(dst, _).
       ip_createHeader dl (no_ip_info\<lparr>data_length := Some (of_nat len),
         destination_ip := Some dst, protocol := Some 17,
         identification := Some (ucast (tr_port c)), time_to_live := Some (tr_ttl c)\<rparr>))"

definition createPacket :: "data_link \<Rightarrow> trace_route \<Rightarrow> u8 list java" where
  "createPacket dl c =
     bindr (trace_createUDPHeader c) (\<lambda>u. case u of
       None \<Rightarrow> Inl OtherException
     | Some udp_header \<Rightarrow>
         bindr (trace_createIP4Header dl c (length udp_header)) (\<lambda>i.
         bindr (non_null i) (\<lambda>ip_header. join_headers ip_header udp_header)))"

text \<open>\<open>self\<close> is the number the application is registered under.\<close>

definition startTraceRoute :: "nat \<Rightarrow> (trace_route \<times> stack, unit) jmethod" where
  "startTraceRoute self = tryj (
     bindj (get_client (\<lambda>c. c)) (\<lambda>c. bindj (on_stack (getj link)) (\<lambda>dl.
     bindj (liftj (createPacket dl c)) (\<lambda>packet.
     bindj (on_stack (sendData (Some packet) (tr_dest_ip c))) (\<lambda>_.
       on_stack (registToReceiveICMPPacket self))))))"

definition trace_handleData :: "nat \<Rightarrow> icmp_result \<Rightarrow> u8 list \<Rightarrow> (trace_route \<times> stack, unit) jmethod" where
  "trace_handleData self info source =
     (if r_type info = None \<or> r_code info = None then returnj ()
      else if r_type info \<noteq> Some 11 \<or> r_code info \<noteq> Some 0 then returnj ()
      else tryj (
        bindj (liftj (if length source = 4 \<or> length source = 16 then Inr ()
                      else Inl OtherException)) (\<lambda>_.
        bindj (set_client (\<lambda>c. c\<lparr>tr_dest_port := tr_dest_port c + 1\<rparr>)) (\<lambda>_.
        bindj (set_client (\<lambda>c. c\<lparr>tr_ttl := tr_ttl c + 1\<rparr>)) (\<lambda>_.
        startTraceRoute self)))))"

end
