(* ===== verification/Dns.thy ===== *)
theory Dns
  imports StackCore
begin

text \<open>
  \<open>src/src/Application/DNSApplication.java\<close>: building a query for the address of a domain and
  reading the reply. What the code prints of a reply is the result here. The names are byte
  strings, one byte per character.
\<close>

section \<open>The query\<close>

record dns =
  resolve_server_ip :: "u8 list"
  domain_name :: "u8 list"
  transition_id :: u16
  dns_port :: jint
  dns_header :: "u8 list"
  dns_question :: "u8 list"

definition constructDNSPacketHeader :: "u16 \<Rightarrow> u8 list java" where
  "constructDNSPacketHeader ident =
     bindr (new_byte_array 12) (\<lambda>a.
     bindr (put_short ident (wrap a)) (\<lambda>b.
     bindr (put_short (0 OR push_bit 8 1) b) (\<lambda>b.
     bindr (put_short 1 b) (\<lambda>b.
     bindr (put_short 0 b) (\<lambda>b.
     bindr (put_short 0 b) (\<lambda>b.
     bindr (put_short 0 b) (\<lambda>b. Inr (arr b))))))))"

text \<open>
  \<open>String.split("\\.")\<close>: the parts between dots, without the empty ones at the end; a string
  without a dot is its only part.
\<close>

abbreviation dot :: u8 where
  "dot \<equiv> 46"

fun parts :: "u8 list \<Rightarrow> u8 list \<Rightarrow> u8 list list" where
  "parts acc [] = [acc]"
| "parts acc (x # xs) = (if x = dot then acc # parts [] xs else parts (acc @ [x]) xs)"

definition split_dots :: "u8 list \<Rightarrow> u8 list list" where
  "split_dots xs =
     (if dot \<in> set xs then rev (dropWhile (\<lambda>p. p = []) (rev (parts [] xs))) else [xs])"

fun put_labels :: "u8 list list \<Rightarrow> jbuf \<Rightarrow> jbuf java" where
  "put_labels [] b = Inr b"
| "put_labels (l # ls) b =
     bindr (put_byte (of_nat (length l)) b) (\<lambda>b. bindr (put_array l b) (put_labels ls))"

definition constructDNSPacketQuestion :: "u8 list \<Rightarrow> u8 list java" where
  "constructDNSPacketQuestion domain =
     bindr (new_byte_array (int (1 + 1 + length domain + 2 + 2))) (\<lambda>a.
     bindr (put_labels (split_dots domain) (wrap a)) (\<lambda>b.
     bindr (put_byte 0 b) (\<lambda>b.
     bindr (put_short 1 b) (\<lambda>b.
     bindr (put_short 1 b) (\<lambda>b. Inr (arr b))))))"

definition DNSApplication :: "u16 \<Rightarrow> u16 \<Rightarrow> u8 list \<Rightarrow> u8 list \<Rightarrow> dns java" where
  "DNSApplication id_random port_random dest domain =
     bindr (constructDNSPacketHeader id_random) (\<lambda>h.
     bindr (constructDNSPacketQuestion domain) (\<lambda>q.
     Inr \<lparr>resolve_server_ip = dest, domain_name = domain, transition_id = id_random,
          dns_port = scast port_random, dns_header = h, dns_question = q\<rparr>))"

definition dns_createUDPHeader :: "dns \<Rightarrow> u8 list \<Rightarrow> jbyteArray java" where
  "dns_createUDPHeader c data = udp_createHeader
     \<lparr>source_port = Some (ucast (dns_port c)), dest_port = Some 53, udp_data = Some data\<rparr>"

definition dns_createIP4Header :: "data_link \<Rightarrow> dns \<Rightarrow> nat \<Rightarrow> jbyteArray java" where
  "dns_createIP4Header dl c len =
     (if len = 0 then Inr None
      else bindr (get_int (wrap (resolve_server_ip c))) (\<lambda>(dst, _).
        ip_createHeader dl (no_ip_info\<lparr>data_length := Some (of_nat len),
          destination_ip := Some dst, protocol := Some 17,
          identification := Some (transition_id c)\<rparr>)))"

definition dns_packet :: "data_link \<Rightarrow> dns \<Rightarrow> u8 list java" where
  "dns_packet dl c =
     bindr (join_headers (dns_header c) (dns_question c)) (\<lambda>msg.
     bindr (dns_createUDPHeader c msg) (\<lambda>u. bindr (non_null u) (\<lambda>udp_header.
     bindr (dns_createIP4Header dl c (length udp_header)) (\<lambda>i.
     bindr (non_null i) (\<lambda>ip_header. join_headers ip_header udp_header)))))"

definition queryDomain :: "dns \<Rightarrow> unit manager" where
  "queryDomain c =
     bindj (getj link) (\<lambda>dl. bindj (liftj (dns_packet dl c)) (\<lambda>packet.
       tryj (sendData (Some packet) (resolve_server_ip c))))"

section \<open>Reading names\<close>

definition isNameCompression :: "u8 \<Rightarrow> bool" where
  "isNameCompression b \<longleftrightarrow> b AND push_bit 7 1 \<noteq> 0 \<and> b AND push_bit 6 1 \<noteq> 0"

text \<open>
  \<open>readStringContent\<close> after its first byte \<open>count\<close>, with the buffer at \<open>p\<close> of the array \<open>a\<close>: the
  text it prints and the position after the name. A compressed name is read through a second
  buffer over the same array, at the offset in the next byte, which is a signed \<open>byte\<close>.
  \<open>depth\<close> is how many nested calls the stack of the virtual machine has room for. A byte in
  128..191 is a negative count, for which the loop over the characters does nothing.
\<close>

function read_name :: "nat \<Rightarrow> u8 list \<Rightarrow> nat \<Rightarrow> u8 \<Rightarrow> (u8 list \<times> nat) java" where
  "read_name depth a p count =
     (if isNameCompression count
      then if length a \<le> p then Inl BufferUnderflow
        else let offset = sint (a ! p) in
          if offset < 0 \<or> int (length a) < offset then Inl IllegalArgument
          else if int (length a) = offset then Inl BufferUnderflow
          else (case depth of 0 \<Rightarrow> Inl StackOverflow
            | Suc d \<Rightarrow> bindr (read_name d a (nat offset + 1) (a ! nat offset)) (\<lambda>(t, _).
                Inr (t, p + 1)))
      else if count = 0 then Inr ([], p)
      else let n = nat (sint count) in
        if length a < p + n + 1 then Inl BufferUnderflow
        else let next_count = a ! (p + n) in
          bindr (read_name depth a (p + n + 1) next_count) (\<lambda>(t, q).
            Inr (take n (drop p a) @ (if next_count \<noteq> 0 then [dot] else []) @ t, q)))"
  by pat_completeness auto
termination
  by (relation "inv_image (less_than <*lex*> less_than)
      (\<lambda>(depth, a, p, count). (depth, length a - p))") auto

declare read_name.simps [simp del]

definition readStringContent :: "nat \<Rightarrow> jbuf \<Rightarrow> (u8 list \<times> jbuf) java" where
  "readStringContent depth b =
     bindr (get_byte b) (\<lambda>(count, b).
     bindr (read_name depth (arr b) (pos b) count) (\<lambda>(t, p). Inr (t, b\<lparr>pos := p\<rparr>)))"

section \<open>The reply\<close>

record dns_query =
  q_name :: "u8 list"
  q_type :: u16
  q_class :: u16

fun readQuestions :: "nat \<Rightarrow> nat \<Rightarrow> jbuf \<Rightarrow> (dns_query list \<times> jbuf) java" where
  "readQuestions depth 0 b = Inr ([], b)"
| "readQuestions depth (Suc n) b =
     bindr (readStringContent depth b) (\<lambda>(name, b).
     bindr (get_short b) (\<lambda>(type, b).
     bindr (get_short b) (\<lambda>(clasz, b).
     bindr (readQuestions depth n b) (\<lambda>(qs, b).
       Inr (\<lparr>q_name = name, q_type = type, q_class = clasz\<rparr> # qs, b)))))"

record dns_answer =
  an_name :: "u8 list"
  an_type :: u16
  an_class :: u16
  an_ttl :: u32
  an_cname :: "u8 list option"
  an_address :: "u8 list option"

definition answer_name :: "nat \<Rightarrow> jbuf \<Rightarrow> (u8 list \<times> jbuf) java" where
  "answer_name depth b =
     bindr (get_byte b) (\<lambda>(first, b).
     if isNameCompression first
     then bindr (get_byte b) (\<lambda>(o8, b).
       bindr (set_position (sint o8) (wrap (arr b))) (\<lambda>dup.
       bindr (readStringContent depth dup) (\<lambda>(name, _). Inr (name, b))))
     else readStringContent depth b)"

fun readAnswers :: "nat \<Rightarrow> nat \<Rightarrow> jbuf \<Rightarrow> (dns_answer list \<times> jbuf) java" where
  "readAnswers depth 0 b = Inr ([], b)"
| "readAnswers depth (Suc n) b =
     bindr (answer_name depth b) (\<lambda>(name, b).
     bindr (get_short b) (\<lambda>(type, b).
     bindr (get_short b) (\<lambda>(clasz, b).
     bindr (get_int b) (\<lambda>(ttl, b).
     bindr (get_short b) (\<lambda>(len, b).
     bindr (if type = 5 then bindr (readStringContent depth b) (\<lambda>(t, b). Inr (Some t, None, b))
            else if type = 1 then bindr (get_array 4 b) (\<lambda>(ip, b). Inr (None, Some ip, b))
            else Inr (None, None, b)) (\<lambda>(cname, ip, b).
     bindr (readAnswers depth n b) (\<lambda>(as, b).
       Inr (\<lparr>an_name = name, an_type = type, an_class = clasz, an_ttl = ttl, an_cname = cname,
            an_address = ip\<rparr> # as, b))))))))"

text \<open>A count is a \<open>short\<close>: a negative one is no question and no answer.\<close>

definition dns_handleData :: "nat \<Rightarrow> dns \<Rightarrow> udp_result \<Rightarrow>
    (dns_query list \<times> dns_answer list) option java" where
  "dns_handleData depth c info =
     (case u_data info of None \<Rightarrow> Inr None
      | Some data \<Rightarrow>
        bindr (get_short (wrap data)) (\<lambda>(ident, b).
        if ident \<noteq> transition_id c then Inr None
        else
          bindr (get_short b) (\<lambda>(flags, b).
          bindr (get_short b) (\<lambda>(questions, b).
          bindr (get_short b) (\<lambda>(answers, b).
          bindr (get_short b) (\<lambda>(authorities, b).
          bindr (get_short b) (\<lambda>(additional, b).
          bindr (readQuestions depth (nat (sint questions)) b) (\<lambda>(qs, b).
          bindr (readAnswers depth (nat (sint answers)) b) (\<lambda>(as, b).
            Inr (Some (qs, as)))))))))))"

end
