(* ===== verification/Dhcp.thy ===== *)
theory Dhcp
  imports StackCore
begin

text \<open>
  \<open>src/src/Application/DHCPApplication.java\<close>: the client of the Dynamic Host Configuration
  Protocol, a state machine that asks for an address, takes the one it is offered and waits for
  the acknowledgement. The static fields of the class (the two halves of the message and the
  state) are fields of the client here; \<open>share_statics\<close> keeps those of several clients equal.
\<close>

section \<open>The client\<close>

datatype dhcp_state = DISCOVER | REQUESTING | ACK

record dhcp =
  dhcp_first_part :: "u8 list"
  dhcp_options_part :: "u8 list"
  server_supply_ip :: "u8 list option"
  dhcp_current_state :: dhcp_state

definition MAGIC_COOKIE :: "u8 list" where
  "MAGIC_COOKIE = [0x63, 0x82, 0x53, 0x63]"

text \<open>A fresh array of \<open>n\<close> bytes with a list of arrays put into it, one after the other.\<close>

fun put_arrays :: "u8 list list \<Rightarrow> jbuf \<Rightarrow> jbuf java" where
  "put_arrays [] b = Inr b"
| "put_arrays (xs # xss) b = bindr (put_array xs b) (put_arrays xss)"

definition fill_array :: "nat \<Rightarrow> u8 list list \<Rightarrow> u8 list java" where
  "fill_array n xss =
     bindr (new_byte_array (int n)) (\<lambda>a. bindr (put_arrays xss (wrap a)) (\<lambda>b. Inr (arr b)))"

definition constructDHCPFirstPart :: "data_link \<Rightarrow> u32 \<Rightarrow> u8 list java" where
  "constructDHCPFirstPart dl ident =
     fill_array 236 [[1], [1], [6], [0], be_bytes32 ident, be_bytes16 0, be_bytes16 0,
       replicate 4 0, replicate 4 0, replicate 4 0, replicate 4 0, deviceMacAddress dl,
       replicate 10 0, replicate 64 0, replicate 128 0]"

section \<open>Options\<close>

text \<open>\<open>cherryYang\<close> and \<open>MSFT 5.0\<close>\<close>

definition OPTION_HOST_NAME_CONTENT :: "u8 list" where
  "OPTION_HOST_NAME_CONTENT = [99, 104, 101, 114, 114, 121, 89, 97, 110, 103]"

definition OPTION_VENDOR_IDENTIFIER :: "u8 list" where
  "OPTION_VENDOR_IDENTIFIER = [0x4d, 0x53, 0x46, 0x54, 0x20, 0x35, 0x2e, 0x30]"

definition option_host_name :: "u8 list java" where
  "option_host_name = fill_array 12 [[12], [10], OPTION_HOST_NAME_CONTENT]"

definition option_vendor :: "u8 list java" where
  "option_vendor = fill_array 10 [[60], [8], OPTION_VENDOR_IDENTIFIER]"

definition option_parameter_request_list :: "u8 list java" where
  "option_parameter_request_list =
     fill_array 16 [[55], [14], [1, 3, 6, 15, 31, 33, 43, 44, 46, 47, 119, 121, 0xf9, 0xfc]]"

definition option_client_identifier :: "data_link \<Rightarrow> u8 list java" where
  "option_client_identifier dl = fill_array 9 [[61], [7], [1], deviceMacAddress dl]"

definition option_maximum_size :: "u8 list java" where
  "option_maximum_size = fill_array 4 [[57], [2], be_bytes16 1500]"

definition option_lease_time :: "u8 list java" where
  "option_lease_time = fill_array 6 [[51], [4], be_bytes32 7776000]"

definition constructDHCPOptionsPart :: "data_link \<Rightarrow> u8 list java" where
  "constructDHCPOptionsPart dl =
     bindr (fill_array 3 [[53], [1], [1]]) (\<lambda>msg_type.
     bindr option_maximum_size (\<lambda>_.
     bindr (option_client_identifier dl) (\<lambda>client.
     bindr (deviceIPAddress dl) (\<lambda>own.
     bindr (fill_array (4 + 2) [[50], [4], own]) (\<lambda>requested.
     bindr option_lease_time (\<lambda>_.
     bindr option_host_name (\<lambda>host_name.
     bindr option_vendor (\<lambda>vendor.
     bindr option_parameter_request_list (\<lambda>request_list.
     fill_array (length msg_type + length client + length requested + length host_name
         + length vendor + length request_list + 1 + 3)
       [msg_type, client, requested, host_name, vendor, request_list, [0xff],
        replicate 3 0])))))))))"

text \<open>The array for the requested address is four bytes longer than the option.\<close>

definition constructDHCPRequestOptions :: "data_link \<Rightarrow> u8 list \<Rightarrow> u8 list java" where
  "constructDHCPRequestOptions dl supplied =
     bindr (fill_array 3 [[53], [1], [3]]) (\<lambda>msg_type.
     bindr (option_client_identifier dl) (\<lambda>client.
     bindr option_maximum_size (\<lambda>maximum.
     bindr (fill_array (6 + length supplied) [[50], [4], supplied]) (\<lambda>requested.
     bindr option_lease_time (\<lambda>lease.
     bindr option_host_name (\<lambda>host_name.
     bindr option_vendor (\<lambda>vendor.
     bindr option_parameter_request_list (\<lambda>request_list.
     fill_array (length msg_type + length client + length requested + length host_name
         + length vendor + length request_list + length maximum + length lease + 1 + 3)
       [msg_type, client, requested, host_name, vendor, request_list, maximum, lease, [0xff],
        replicate 3 0]))))))))"

definition DHCPApplication :: "data_link \<Rightarrow> u32 \<Rightarrow> dhcp java" where
  "DHCPApplication dl random =
     bindr (constructDHCPFirstPart dl random) (\<lambda>first.
     bindr (constructDHCPOptionsPart dl) (\<lambda>opts.
     Inr \<lparr>dhcp_first_part = first, dhcp_options_part = opts, server_supply_ip = None,
          dhcp_current_state = DISCOVER\<rparr>))"

section \<open>Sending\<close>

definition dhcp_createUDPHeader :: "u8 list \<Rightarrow> jbyteArray java" where
  "dhcp_createUDPHeader data =
     udp_createHeader \<lparr>source_port = Some 68, dest_port = Some 67, udp_data = Some data\<rparr>"

definition dhcp_createIP4Header :: "data_link \<Rightarrow> nat \<Rightarrow> jbyteArray java" where
  "dhcp_createIP4Header dl len =
     bindr (get_int (wrap [0, 0, 0, 0])) (\<lambda>(src, _).
     bindr (get_int (wrap [255, 255, 255, 255])) (\<lambda>(dst, _).
     ip_createHeader dl (no_ip_info\<lparr>data_length := Some (of_nat len), source_ip := Some src,
       destination_ip := Some dst, protocol := Some 17, identification := Some 68\<rparr>)))"

text \<open>
  The packet both messages go out in. A missing UDP header ends \<open>dhcpDiscovery\<close> without a
  message; \<open>dhcpRequest\<close> and both IP headers are not checked and dereferenced.
\<close>

definition dhcp_packet :: "data_link \<Rightarrow> u8 list \<Rightarrow> u8 list java" where
  "dhcp_packet dl udp_header =
     bindr (dhcp_createIP4Header dl (length udp_header)) (\<lambda>i. bindr (non_null i) (\<lambda>ip_header.
       join_headers ip_header udp_header))"

definition dhcpDiscovery :: "(dhcp \<times> stack, unit) jmethod" where
  "dhcpDiscovery =
     bindj (get_client (\<lambda>c. c)) (\<lambda>c.
     bindj (liftj (bindr (fill_array
         (length (dhcp_first_part c) + length MAGIC_COOKIE + length (dhcp_options_part c))
         [dhcp_first_part c, MAGIC_COOKIE, dhcp_options_part c]) dhcp_createUDPHeader)) (\<lambda>u.
     case u of
       None \<Rightarrow> returnj ()
     | Some udp_header \<Rightarrow>
         bindj (on_stack (getj link)) (\<lambda>dl.
         bindj (liftj (dhcp_packet dl udp_header)) (\<lambda>packet.
           on_stack (broadCast (Some packet))))))"

definition dhcpRequest :: "(dhcp \<times> stack, unit) jmethod" where
  "dhcpRequest =
     bindj (get_client server_supply_ip) (\<lambda>supplied. case supplied of
       None \<Rightarrow> returnj ()
     | Some ip \<Rightarrow>
         bindj (on_stack (getj link)) (\<lambda>dl.
         bindj (liftj (constructDHCPRequestOptions dl ip)) (\<lambda>opts.
         bindj (set_client (\<lambda>c. c\<lparr>dhcp_options_part := opts\<rparr>)) (\<lambda>_.
         bindj (get_client (\<lambda>c. c)) (\<lambda>c.
         bindj (liftj (bindr (fill_array
             (length (dhcp_first_part c) + length MAGIC_COOKIE + length opts)
             [dhcp_first_part c, MAGIC_COOKIE, dhcp_options_part c]) dhcp_createUDPHeader)) (\<lambda>u.
         bindj (liftj (bindr (non_null u) (dhcp_packet dl))) (\<lambda>packet.
           on_stack (broadCast (Some packet)))))))))"

definition trigger_action_by_state :: "(dhcp \<times> stack, unit) jmethod" where
  "trigger_action_by_state =
     bindj (get_client dhcp_current_state) (\<lambda>st.
       if st = REQUESTING then dhcpRequest else returnj ())"

section \<open>Receiving\<close>

definition readFirstPart :: "u8 list \<Rightarrow> (dhcp \<times> stack, bool) jmethod" where
  "readFirstPart data =
     bindj (liftj (get_byte_at 0 (wrap data))) (\<lambda>reply.
     if reply \<noteq> 2 then returnj False
     else
       bindj (liftj (bindr (set_position 16 (wrap data)) (get_array 4))) (\<lambda>(ip, b).
       bindj (set_client (\<lambda>c. c\<lparr>server_supply_ip := Some ip\<rparr>)) (\<lambda>_.
       bindj (liftj (bindr (set_position 20 b) (get_array 4))) (\<lambda>_. returnj True))))"

text \<open>
  \<open>printOptionArray\<close> reads a length and as many bytes; four and eight are printed as addresses. A
  negative length reads nothing.
\<close>

definition option_array_length :: "u8 \<Rightarrow> nat" where
  "option_array_length len = nat (sint len)"

text \<open>
  The loop of \<open>readOptions\<close> at position \<open>p\<close>, with the state of the client: how many bytes an
  option of this type takes behind its type byte is known for the types of the \<open>switch\<close>; an
  option of another type is passed over byte by byte.
\<close>

function read_options :: "u8 list \<Rightarrow> nat \<Rightarrow> dhcp_state \<Rightarrow> unit java \<times> dhcp_state" where
  "read_options a p st =
     (if length a \<le> p then (Inl BufferUnderflow, st)
      else let type = a ! p in
      if type = 0xff then (Inr (), st)
      else if type = 53
      then if length a < p + 3 then (Inl BufferUnderflow, st)
        else let msg = a ! (p + 2) in
          read_options a (p + 3) (if msg = 2 then REQUESTING else if msg = 5 then ACK else st)
      else if type = 54 \<or> type = 1 \<or> type = 28 \<or> type = 3 \<or> type = 6 \<or> type = 15
      then if length a < p + 2 then (Inl BufferUnderflow, st)
        else let n = option_array_length (a ! (p + 1)) in
          if length a < p + 2 + n then (Inl BufferUnderflow, st)
          else read_options a (p + 2 + n) st
      else if type = 51 \<or> type = 58 \<or> type = 59
      then if length a < p + 6 then (Inl BufferUnderflow, st) else read_options a (p + 6) st
      else read_options a (p + 1) st)"
  by pat_completeness auto
termination
  by (relation "measure (\<lambda>(a, p, st). length a - p)") (auto simp: Let_def)

declare read_options.simps [simp del]

definition readOptions :: "u8 list \<Rightarrow> (dhcp \<times> stack, unit) jmethod" where
  "readOptions data =
     bindj (liftj (set_position 240 (wrap data))) (\<lambda>_.
     bindj (\<lambda>(c, s). case read_options data 240 (dhcp_current_state c) of
         (r, st) \<Rightarrow> (r, (c\<lparr>dhcp_current_state := st\<rparr>, s))) (\<lambda>_.
     bindj (get_client dhcp_current_state) (\<lambda>st.
       if st = REQUESTING then trigger_action_by_state else returnj ())))"

definition dhcp_handleData :: "jbyteArray \<Rightarrow> (dhcp \<times> stack, unit) jmethod" where
  "dhcp_handleData r =
     bindj (liftj (non_null r)) (\<lambda>data.
     bindj (readFirstPart data) (\<lambda>success.
       if success then readOptions data else returnj ()))"

end
