(* ===== verification/StackMain.thy ===== *)
theory StackMain
  imports Tftp PingApps Dns Dhcp
begin

text \<open>
  The receiving half of the repository's TCP/IP stack: \<open>DataLinkLayer.receivePacket\<close>,
  \<open>ProtocolManager.receivePacket\<close> and its handlers, and \<open>ApplicationManager\<close>, which finds the
  application a datagram is for. Packets are those Jpcap delivers.
\<close>

section \<open>The applications\<close>

text \<open>An application that is registered: an object of one of the classes of \<open>Application\<close>.\<close>

datatype app =
    PlainApp jint           \<comment> \<open>class \<open>Application\<close> itself, with its port\<close>
  | PingApplication ping_app
  | TraceApplication trace_route
  | TftpApplication tftp
  | DnsApplication dns
  | DhcpApplication dhcp

fun getPort :: "app \<Rightarrow> jint" where
  "getPort (PlainApp p) = p"
| "getPort (PingApplication c) = ping_port c"
| "getPort (TraceApplication c) = tr_port c"
| "getPort (TftpApplication c) = own_port c"
| "getPort (DnsApplication c) = dns_port c"
| "getPort (DhcpApplication c) = 68"

text \<open>The registered applications in the order of \<open>app_list\<close>, and the state of the manager.\<close>

type_synonym endpoint = "app list \<times> stack"

text \<open>\<open>getApplicationByPort\<close>: the number of the first application with that port.\<close>

fun application_from :: "nat \<Rightarrow> jint \<Rightarrow> app list \<Rightarrow> nat option" where
  "application_from i port [] = None"
| "application_from i port (a # as) =
     (if getPort a = port then Some i else application_from (i + 1) port as)"

definition getApplicationByPort :: "jint \<Rightarrow> app list \<Rightarrow> nat option" where
  "getApplicationByPort port apps = application_from 0 port apps"

text \<open>
  Static fields belong to the class: the port of the server in \<open>TFTPClient\<close>, and the two halves of
  the message and the state in \<open>DHCPApplication\<close>. Every object carries a copy; what one object \<open>a\<close>
  leaves in them the others of its class have from then on.
\<close>

fun share_statics :: "app \<Rightarrow> app \<Rightarrow> app" where
  "share_statics (TftpApplication c) (TftpApplication d) =
     TftpApplication (d\<lparr>server_port := server_port c\<rparr>)"
| "share_statics (DhcpApplication c) (DhcpApplication d) =
     DhcpApplication (d\<lparr>dhcp_first_part := dhcp_first_part c, dhcp_options_part := dhcp_options_part c,
       dhcp_current_state := dhcp_current_state c\<rparr>)"
| "share_statics a b = b"

text \<open>
  The constructors set all of them but the state of DHCP, which a new object finds as the others
  have left it.
\<close>

fun found_state :: "app \<Rightarrow> app list \<Rightarrow> app" where
  "found_state (DhcpApplication c) (DhcpApplication d # as) =
     DhcpApplication (c\<lparr>dhcp_current_state := dhcp_current_state d\<rparr>)"
| "found_state a (b # as) = found_state a as"
| "found_state a [] = a"

definition addApplication :: "app \<Rightarrow> app list \<Rightarrow> app list" where
  "addApplication a apps = (let a' = found_state a apps in map (share_statics a') apps @ [a'])"

text \<open>Running a method of an application that is number \<open>i\<close>.\<close>

definition with_app :: "nat \<Rightarrow> ('c \<Rightarrow> app) \<Rightarrow> 'c \<Rightarrow> ('c \<times> stack, 'a) jmethod \<Rightarrow> (endpoint, 'a) jmethod" where
  "with_app i wrap_app c m = (\<lambda>(apps, s). case m (c, s) of
     (r, (c', s')) \<Rightarrow> (r, (map (share_statics (wrap_app c')) (apps[i := wrap_app c']), s')))"

section \<open>Handing data to an application\<close>

text \<open>
  \<open>handleData\<close> with the table a UDP datagram makes. Of the keys the ICMP applications read
  (\<open>sequence\<close>, \<open>type\<close>) it has none.
\<close>

definition handle_udp_data :: "nat \<Rightarrow> nat \<Rightarrow> udp_result \<Rightarrow> (endpoint, unit) jmethod" where
  "handle_udp_data depth i info = (\<lambda>(apps, s). (case apps ! i of
     PlainApp p \<Rightarrow> returnj ()
   | PingApplication c \<Rightarrow> liftj (Inl NullPointer)
   | TraceApplication c \<Rightarrow> returnj ()
   | TftpApplication c \<Rightarrow> with_app i TftpApplication c (tftp_handleData info)
   | DnsApplication c \<Rightarrow> liftj (bindr (dns_handleData depth c info) (\<lambda>_. Inr ()))
   | DhcpApplication c \<Rightarrow> with_app i DhcpApplication c (dhcp_handleData (u_data info))) (apps, s))"

text \<open>
  \<open>handleData\<close> with the table an ICMP message makes, the entries of the IP layer merged in. The
  UDP applications read its entry \<open>data\<close>; \<open>src_port\<close>, which the TFTP client reads next, it has not.
\<close>

definition handle_icmp_data :: "nat \<Rightarrow> nat \<Rightarrow> icmp_result \<Rightarrow> ip_result \<Rightarrow> (endpoint, unit) jmethod" where
  "handle_icmp_data depth i info ip = (\<lambda>(apps, s). (case apps ! i of
     PlainApp p \<Rightarrow> returnj ()
   | PingApplication c \<Rightarrow>
       liftj (if timestamps c then hping_handleData info else ping_handleData info)
   | TraceApplication c \<Rightarrow>
       with_app i TraceApplication c (trace_handleData i info (hd_source_ip ip))
   | TftpApplication c \<Rightarrow> liftj (if r_data info = None then Inr () else Inl NullPointer)
   | DnsApplication c \<Rightarrow> liftj (bindr (dns_handleData depth c
       \<lparr>u_src_port = 0, u_dest_port = 0, u_length = 0, u_data = r_data info\<rparr>) (\<lambda>_. Inr ()))
   | DhcpApplication c \<Rightarrow> with_app i DhcpApplication c (dhcp_handleData (r_data info))) (apps, s))"

section \<open>Receiving\<close>

definition on_manager :: "'a manager \<Rightarrow> (endpoint, 'a) jmethod" where
  "on_manager m = (\<lambda>(apps, s). case m s of (r, t) \<Rightarrow> (r, (apps, t)))"

definition handleUDPPacket :: "nat \<Rightarrow> jpacket \<Rightarrow> (endpoint, unit) jmethod" where
  "handleUDPPacket depth packet =
     bindj (liftj (udp_handlePacket packet)) (\<lambda>info.
     bindj (getj (\<lambda>(apps, s). getApplicationByPort (scast (u_dest_port info)) apps)) (\<lambda>app.
       case app of None \<Rightarrow> returnj () | Some i \<Rightarrow> handle_udp_data depth i info))"

text \<open>A message no handler knows leaves the table \<open>null\<close>, which the code then adds entries to.\<close>

definition handleICMPPacket :: "nat \<Rightarrow> jpacket \<Rightarrow> ip_result \<Rightarrow> (endpoint, unit) jmethod" where
  "handleICMPPacket depth packet ip =
     bindj (liftj (icmp_handlePacket packet)) (\<lambda>r.
     bindj (liftj (non_null r)) (\<lambda>info.
     bindj (on_manager (getj receivers)) (\<lambda>rs.
       for_each rs (\<lambda>i. handle_icmp_data depth i info ip))))"

definition handleIPPacket :: "nat \<Rightarrow> jpacket \<Rightarrow> (endpoint, unit) jmethod" where
  "handleIPPacket depth packet =
     bindj (on_manager (getj link)) (\<lambda>dl.
     bindj (liftj (ip_handlePacket dl packet)) (\<lambda>r. case r of
       None \<Rightarrow> returnj ()
     | Some info \<Rightarrow>
         let packet = packet\<lparr>pk_header := Some (hd_payload info)\<rparr> in
         if hd_protocol info = 1 then handleICMPPacket depth packet info
         else if hd_protocol info = 17 then handleUDPPacket depth packet
         else returnj ()))"

text \<open>
  \<open>receivePacket\<close>: a cast to \<open>EthernetPacket\<close> that fails, or a missing link header, is an
  exception. The ARP branch has no \<open>try\<close>, the IP branch has one.
\<close>

definition receivePacket :: "key_order \<Rightarrow> nat \<Rightarrow> jpacket option \<Rightarrow> (endpoint, unit) jmethod" where
  "receivePacket order depth r = (case r of
     None \<Rightarrow> returnj ()
   | Some packet \<Rightarrow> (case pk_datalink packet of
       Some (EthernetPacket e) \<Rightarrow>
         if eth_frametype e = 0x0806 then on_manager (receive_arp order packet)
         else if eth_frametype e = 0x0800 then tryj (handleIPPacket depth packet)
         else returnj ()
     | Some OtherDatalink \<Rightarrow> liftj (Inl OtherException)
     | None \<Rightarrow> liftj (Inl NullPointer)))"

end
