(* ===== verification/IpStackLaws.thy ===== *)
theory IpStackLaws
  imports IpStack Checksum
begin

text \<open>
  What the protocol layers of \<^theory_text>\<open>IpStack\<close> compute: the value of \<open>Utility.checksum\<close> against RFC 1071,
  the bytes of the IP, UDP and ICMP headers, and what a receiver with the same stack reads from
  them.
\<close>

section \<open>The checksum\<close>

lemma checksum_loop_sum:
  assumes "length buf = i + n" and "n < 2 ^ 31"
  shows "checksum_loop buf i (int n) acc = Inr (acc + of_nat (sum_list (be_words (drop i buf))))"
  using assms
proof (induction n arbitrary: i acc rule: less_induct)
  case (less n)
  consider "n = 0" | "n = 1" | "2 \<le> n" by linarith
  then show ?case
  proof cases
    case 1
    with less.prems show ?thesis by (simp add: checksum_loop.simps)
  next
    case 2
    then have "drop i buf = [buf ! i]"
      using less.prems Cons_nth_drop_Suc [of i buf, symmetric] by simp
    with 2 less.prems show ?thesis
      by (simp add: checksum_loop.simps element_at_def push_bit_eq_mult)
  next
    case 3
    have d: "drop i buf = buf ! i # buf ! (i + 1) # drop (i + 2) buf"
      using 3 less.prems by (simp add: Cons_nth_drop_Suc)
    have n: "int n - 2 = int (n - 2)" using 3 by simp
    have el: "element_at buf i = Inr (buf ! i)" "element_at buf (i + 1) = Inr (buf ! (i + 1))"
      using 3 less.prems by (simp_all add: element_at_def)
    have "0 < int n" and "int n \<noteq> 1" using 3 by simp_all
    then have "checksum_loop buf i (int n) acc = checksum_loop buf (i + 2) (int (n - 2))
        (acc + push_bit 8 (ucast (buf ! i)) + ucast (buf ! (i + 1)))"
      by (subst checksum_loop.simps) (simp only: el n bindr_simps Let_def if_True if_False)
    also have "\<dots> = Inr (acc + push_bit 8 (ucast (buf ! i)) + ucast (buf ! (i + 1))
        + of_nat (sum_list (be_words (drop (i + 2) buf))))"
    proof (rule less.IH)
      show "n - 2 < n" and "length buf = i + 2 + (n - 2)" and "n - 2 < 2 ^ 31"
        using 3 less.prems by linarith+
    qed
    finally show ?thesis
      unfolding d by (simp add: push_bit_eq_mult)
  qed
qed

lemma sum_be_words_bound: "sum_list (be_words bs) \<le> 65535 * length bs"
proof (induction bs rule: be_words.induct)
  case (2 a)
  have "unat a \<le> 255" by (rule unat8_le)
  then show ?case by simp
next
  case (3 a b bs)
  have "unat a \<le> 255" "unat b \<le> 255" by (rule unat8_le)+
  with 3 show ?case by simp
qed simp

definition folded_once :: "u8 list \<Rightarrow> nat" where
  "folded_once bs = sum_list (be_words bs) mod 65536 + sum_list (be_words bs) div 65536"

lemma unat_low_word: "unat ((s :: u64) AND 0xFFFF) = unat s mod 65536"
proof -
  have "s AND 0xFFFF = take_bit 16 s" by (simp add: take_bit_eq_mask mask_numeral)
  then have "unat (s AND 0xFFFF) = take_bit 16 (unat s)" by (simp only: unsigned_take_bit_eq)
  then show ?thesis by (simp add: take_bit_eq_mod)
qed

lemma unat_high_word:
  assumes "unat (s :: u64) < 2 ^ 63"
  shows "unat (signed_drop_bit 16 s) = unat s div 65536"
proof -
  have "\<not> bit (unat s) 63" using assms by (simp add: bit_iff_odd)
  then have b: "\<not> bit s 63" by (simp add: bit_unsigned_iff)
  have "bit (signed_drop_bit 16 s) n = bit (drop_bit 16 s) n" if n: "n < 64" for n
  proof (cases "n < 48")
    case True
    then show ?thesis by (simp add: bit_signed_drop_bit_iff bit_drop_bit_eq)
  next
    case False
    then have "\<not> bit s (16 + n)"
      using b bit_imp_le_length [of s "16 + n"] by (cases "n = 47") auto
    with False n b show ?thesis by (simp add: bit_signed_drop_bit_iff bit_drop_bit_eq)
  qed
  then have "signed_drop_bit 16 s = drop_bit 16 s"
    by (intro bit_word_eqI) simp
  then have "unat (signed_drop_bit 16 s) = drop_bit 16 (unat s)"
    by (simp only: unat_drop_bit_eq)
  then show ?thesis by (simp add: drop_bit_eq_div)
qed

lemma unat_not_low: "unat (NOT (x :: u64) AND 0xFFFF) = 65535 - unat x mod 65536"
proof -
  define q r where "q = unat x div 65536" and "r = unat x mod 65536"
  have x: "unat x = 65536 * q + r" and r: "r < 65536" by (simp_all add: q_def r_def)
  have "unat x < 2 ^ 64" using unsigned_less [of x, where 'a = nat] by simp
  then have q: "q < 2 ^ 48" using x by simp
  have "NOT x = - 1 - x" by (simp add: not_eq_complement)
  then have "unat (NOT x) = unat (- 1 :: u64) - unat x"
    by (metis unat_sub word_order.extremum)
  moreover have "unat (- 1 :: u64) = 2 ^ 64 - 1"
    by (simp add: unsigned_minus_1_eq_mask mask_eq_exp_minus_1)
  ultimately have "unat (NOT x) = 65536 * (2 ^ 48 - 1 - q) + (65535 - r)"
    using x q r by simp
  moreover have "(65536 * (2 ^ 48 - 1 - q) + (65535 - r)) mod 65536 = 65535 - r" by simp
  ultimately show ?thesis by (simp only: unat_low_word r_def)
qed

text \<open>The loop sums the 16-bit words of the buffer and the result folds that sum once.\<close>

lemma java_checksum_eq:
  assumes "length buf < 2 ^ 31"
  shows "java_checksum buf (int (length buf)) = Inr (of_nat (65535 - folded_once buf mod 65536))"
proof -
  let ?s = "sum_list (be_words buf)"
  let ?w = "of_nat ?s :: u64"
  have s: "?s < 2 ^ 47"
    using sum_be_words_bound [of buf] assms by simp
  then have us: "unat ?w = ?s" by (simp add: unat_of_nat)
  have h: "unat (signed_drop_bit 16 ?w) = ?s div 65536"
    using s by (subst unat_high_word) (simp_all only: us, simp)
  have "unat ((?w AND 0xFFFF) + signed_drop_bit 16 ?w) = folded_once buf"
  proof -
    have "?s mod 65536 + ?s div 65536 < 2 ^ 64"
    proof -
      have "?s mod 65536 < 65536" and "?s div 65536 \<le> ?s" by simp_all
      moreover have "(2 :: nat) ^ 47 + 65536 < 2 ^ 64" by simp
      ultimately show ?thesis using s by linarith
    qed
    then show ?thesis
      by (simp add: unat_word_ariths unat_low_word us h folded_once_def del: unat_of_nat)
  qed
  then have "unat (NOT ((?w AND 0xFFFF) + signed_drop_bit 16 ?w) AND 0xFFFF) =
      65535 - folded_once buf mod 65536"
    by (simp only: unat_not_low)
  then have "NOT ((?w AND 0xFFFF) + signed_drop_bit 16 ?w) AND 0xFFFF =
      of_nat (65535 - folded_once buf mod 65536)"
    by (metis of_nat_unat ucast_id)
  then show ?thesis
    using checksum_loop_sum [of buf 0 "length buf" 0] assms
    by (simp add: java_checksum_def)
qed

lemma folded_once_bound: "length bs \<le> 65536 \<Longrightarrow> folded_once bs \<le> 131070"
proof -
  assume "length bs \<le> 65536"
  then have "sum_list (be_words bs) \<le> 65535 * 65536"
    using sum_be_words_bound [of bs] by (meson le_trans mult_le_mono2)
  then have "sum_list (be_words bs) div 65536 \<le> 65535" by (simp add: div_le_mono [of _ "65535 * 65536" 65536, simplified])
  moreover have "sum_list (be_words bs) mod 65536 \<le> 65535" by simp
  ultimately show ?thesis unfolding folded_once_def by linarith
qed

text \<open>
  A single fold is the RFC 1071 checksum unless it carries; when it does, the result is one too
  large.
\<close>

text \<open>
  C13. Utility.checksum of an array of at most 65536 bytes, of even or odd length, is the
  checksum of RFC 1071 exactly when its single fold does not carry; when it does, the result is
  one too large.
\<close>

lemma java_checksum_rfc1071:
  assumes "length buf \<le> 65536"
  shows "java_checksum buf (int (length buf)) =
    Inr (of_nat (if folded_once buf < 65536 then rfc1071 buf else rfc1071 buf + 1))"
proof -
  let ?f = "folded_once buf"
  have norm: "oc_norm ?f = oc_norm (sum_list (be_words buf))"
    unfolding folded_once_def by (rule oc_norm_unique [OF fold_step])
  have b: "?f \<le> 131070" using assms by (rule folded_once_bound)
  have "65535 - ?f mod 65536 = (if ?f < 65536 then rfc1071 buf else rfc1071 buf + 1)"
  proof (cases "?f < 65536")
    case True
    then show ?thesis using norm [symmetric] by (simp add: rfc1071_norm oc_norm_small)
  next
    case False
    then have "?f mod 65536 = ?f - 65536" using b by (simp add: le_mod_geq)
    moreover have "oc_norm ?f = ?f - 65535"
      using False b by (simp add: oc_norm_def le_mod_geq)
    ultimately show ?thesis using False b norm by (simp add: rfc1071_norm)
  qed
  then show ?thesis using java_checksum_eq [of buf] assms by simp
qed

text \<open>The 16-bit value that goes into a header.\<close>

definition checksum_field :: "u8 list \<Rightarrow> u16" where
  "checksum_field bs = of_nat (65535 - folded_once bs mod 65536)"

lemma unat_checksum_field: "unat (checksum_field bs) = 65535 - folded_once bs mod 65536"
  unfolding checksum_field_def by (simp only: unat_of_nat) simp

lemma ucast_u16_u64 [simp]: "ucast (ucast (x :: u16) :: u64) = x"
  by (rule bit_word_eqI) (simp add: bit_simps)

lemma java_checksum_field:
  assumes "length buf < 2 ^ 31"
  shows "java_checksum buf (int (length buf)) = Inr (ucast (checksum_field buf))"
proof -
  have "(of_nat (65535 - folded_once buf mod 65536) :: u64) = ucast (checksum_field buf)"
    unfolding word_unat_eq_iff unsigned_ucast_eq unat_checksum_field
    by (simp only: unat_of_nat take_bit_eq_mod)
  then show ?thesis using java_checksum_eq [OF assms] by simp
qed

section \<open>The IP header\<close>

definition ip_header_bytes ::
  "u8 \<Rightarrow> u16 \<Rightarrow> u16 \<Rightarrow> u16 \<Rightarrow> u8 \<Rightarrow> u8 \<Rightarrow> u16 \<Rightarrow> u32 \<Rightarrow> u32 \<Rightarrow> u8 list" where
  "ip_header_bytes tos total_length ident flags ttl proto ck src dst =
     [0x45, tos] @ be_bytes16 total_length @ be_bytes16 ident @ be_bytes16 flags @ [ttl, proto]
     @ be_bytes16 ck @ be_bytes32 src @ be_bytes32 dst"

definition plain_ip_info :: "ip_info \<Rightarrow> u32 \<Rightarrow> u8 \<Rightarrow> u32 \<Rightarrow> bool" where
  "plain_ip_info info dlen proto dst \<longleftrightarrow>
     internet_header_length info = None \<and> options info = None \<and> data_length info = Some dlen \<and>
     protocol info = Some proto \<and> destination_ip info = Some dst"

definition ip_header_for :: "u8 list \<Rightarrow> ip_info \<Rightarrow> u32 \<Rightarrow> u8 \<Rightarrow> u32 \<Rightarrow> u16 \<Rightarrow> u8 list" where
  "ip_header_for own info dlen proto dst ck =
     ip_header_bytes (push_bit 2 (or_else 0 (dscp info)) OR or_else 0 (ecn info))
       (ucast (dlen + 20)) (or_else 0 (identification info))
       (case fragment_offset info of
          None \<Rightarrow> (case flag info of None \<Rightarrow> 0 | Some f \<Rightarrow> push_bit 13 f)
        | Some f' \<Rightarrow> (case flag info of None \<Rightarrow> 0 | Some f \<Rightarrow> push_bit 13 f) OR f')
       (or_else 64 (time_to_live info)) proto ck (or_else (int_of own) (source_ip info)) dst"

lemmas header_bytes = ip_header_for_def ip_header_bytes_def be_bytes16_def be_bytes32_def

lemma length_ip_header_for [simp]: "length (ip_header_for own info dlen proto dst ck) = 20"
  by (simp add: ip_header_for_def ip_header_bytes_def)

lemma get_int_wrap [jbuffer]: "length own = 4 \<Longrightarrow> get_int (wrap own) = Inr (int_of own, \<lparr>arr = own, pos = 4\<rparr>)"
  by (simp add: get_int_def get_array_def wrap_def)

lemma get_byte_at_filled [jbuffer]: "i < length bs \<Longrightarrow> get_byte_at i (filled bs n) = Inr (bs ! i)"
  by (auto simp: get_byte_at_def bytes_at_def filled_def nth_append)

text \<open>
  A header of \<open>n\<close> words with the options \<open>os\<close>: \<open>ip_info_for\<close> says what the table asks for, and
  \<open>ip_header_with\<close> is the header, its options followed by zeros.
\<close>

definition options_of :: "ip_info \<Rightarrow> u8 list" where
  "options_of info = (case options info of None \<Rightarrow> [] | Some os \<Rightarrow> os)"

definition ip_info_for :: "ip_info \<Rightarrow> nat \<Rightarrow> u32 \<Rightarrow> u8 \<Rightarrow> u32 \<Rightarrow> bool" where
  "ip_info_for info n dlen proto dst \<longleftrightarrow>
     or_else 5 (internet_header_length info) = of_nat n \<and> 5 \<le> n \<and> n \<le> 15 \<and>
     20 + length (options_of info) \<le> 4 * n \<and> data_length info = Some dlen \<and>
     protocol info = Some proto \<and> destination_ip info = Some dst"

definition ip_header_with :: "u8 list \<Rightarrow> ip_info \<Rightarrow> nat \<Rightarrow> u32 \<Rightarrow> u8 \<Rightarrow> u32 \<Rightarrow> u16 \<Rightarrow> u8 list" where
  "ip_header_with own info n dlen proto dst ck =
     [0x40 OR of_nat n, push_bit 2 (or_else 0 (dscp info)) OR or_else 0 (ecn info)]
     @ be_bytes16 (ucast (dlen + of_nat (length (options_of info)) + of_nat (4 * n)))
     @ be_bytes16 (or_else 0 (identification info))
     @ be_bytes16 (case fragment_offset info of
          None \<Rightarrow> (case flag info of None \<Rightarrow> 0 | Some f \<Rightarrow> push_bit 13 f)
        | Some f' \<Rightarrow> (case flag info of None \<Rightarrow> 0 | Some f \<Rightarrow> push_bit 13 f) OR f')
     @ [or_else 64 (time_to_live info), proto] @ be_bytes16 ck
     @ be_bytes32 (or_else (int_of own) (source_ip info)) @ be_bytes32 dst
     @ options_of info @ replicate (4 * n - 20 - length (options_of info)) 0"

lemma length_ip_header_with:
  "20 + length (options_of info) \<le> 4 * n \<Longrightarrow> length (ip_header_with own info n dlen proto dst ck) = 4 * n"
  by (simp add: ip_header_with_def)

lemma header_words:
  assumes "n \<le> 15"
  shows "sint (of_nat n :: u8) = int n" and "(scast (of_nat n :: u8) :: u32) * 4 = of_nat (4 * n)"
proof -
  show s: "sint (of_nat n :: u8) = int n"
    using assms by (simp only: signed_of_nat) (simp add: signed_take_bit_int_eq_self)
  have "(scast (of_nat n :: u8) :: u32) = of_nat n" by (metis of_int_sint s of_int_of_nat_eq)
  then show "(scast (of_nat n :: u8) :: u32) * 4 = of_nat (4 * n)" by simp
qed

lemma ip_createHeader_with:
  assumes "ip_info_for info n dlen proto dst" and "device_ip dl = Some own" and "length own = 4"
  shows "ip_createHeader dl info = Inr (Some (ip_header_with own info n dlen proto dst
     (checksum_field (ip_header_with own info n dlen proto dst 0))))"
proof -
  let ?h = "ip_header_with own info n dlen proto dst" and ?os = "options_of info"
  obtain k where k: "4 * n = 20 + length ?os + k"
    using assms(1) by (metis ip_info_for_def le_Suc_ex)
  have w: "n \<le> 15" "or_else 5 (internet_header_length info) = of_nat n"
    using assms(1) by (simp_all add: ip_info_for_def)
  have "sint (of_nat n :: u8) * 4 = int (4 * n)" using header_words(1) [OF w(1)] by simp
  then have n: "new_byte_array (sint (of_nat n :: u8) * 4) = Inr (replicate (20 + length ?os + k) 0)"
    unfolding k by (simp only: new_byte_array_nonneg)
  have l: "length (?h 0) = 20 + length ?os + k"
    unfolding k [symmetric] using assms(1) by (intro length_ip_header_with) (simp add: ip_info_for_def)
  then have "length (?h 0) < 2 ^ 31" using k w(1) by simp
  then have c: "java_checksum (?h 0) (int (20 + length ?os + k)) = Inr (ucast (checksum_field (?h 0)))"
    using java_checksum_field [of "?h 0"] unfolding l by simp
  have len: "(case options info of None \<Rightarrow> 0 | Some os \<Rightarrow> of_nat (length os)) = (of_nat (length ?os) :: u32)"
    by (simp add: options_of_def split: option.split)
  have put: "(case options info of None \<Rightarrow> Inr (filled bs (length ?os + k))
      | Some os \<Rightarrow> put_array os (filled bs (length ?os + k))) = Inr (filled (bs @ ?os) k)" for bs
    by (simp add: options_of_def jbuffer split: option.split)
  have rest: "4 * n - (20 + length ?os) = k" using k by simp
  show ?thesis
    using assms
    by (simp add: ip_createHeader_def ip_info_for_def w(2) n jbuffer len put
        deviceIPAddress_def Let_def header_words(2) [OF w(1)])
      (use c in \<open>simp add: ip_header_with_def rest overlay_def be_bytes16_def add.assoc\<close>)
qed

lemma ip_header_with_plain:
  "options info = None \<Longrightarrow> ip_header_with own info 5 dlen proto dst = ip_header_for own info dlen proto dst"
  by (simp add: fun_eq_iff ip_header_with_def ip_header_for_def ip_header_bytes_def options_of_def)

lemma ip_createHeader_plain:
  assumes "plain_ip_info info dlen proto dst" and "device_ip dl = Some own" and "length own = 4"
  shows "ip_createHeader dl info = Inr (Some (ip_header_for own info dlen proto dst
     (checksum_field (ip_header_for own info dlen proto dst 0))))"
proof -
  have "ip_info_for info 5 dlen proto dst"
    using assms(1) by (simp add: plain_ip_info_def ip_info_for_def options_of_def or_else_def)
  from ip_createHeader_with [OF this assms(2,3)] show ?thesis
    using assms(1) by (simp add: plain_ip_info_def ip_header_with_plain)
qed

text \<open>
  A header sums to a valid one, as a receiver checks it, exactly if the folding of its sum with
  a zero checksum field does not carry.
\<close>

lemma sum_be_words_cksum:
  assumes "length a = 10" and "length c = 8"
  shows "sum_list (be_words (a @ be_bytes16 ck @ c)) =
    sum_list (be_words (a @ be_bytes16 0 @ c)) + unat ck"
proof -
  have w: "be_words (be_bytes16 x) = [unat x]" for x
    using unat_le16 [of "byte_at 0 x" "byte_at 1 x"] by (simp add: be_bytes16_def)
  have "be_words (a @ be_bytes16 x @ c) = be_words a @ [unat x] @ be_words c" for x
    using assms by (simp add: be_words_append w)
  then show ?thesis by simp
qed

lemma header_checksum_valid:
  assumes "length a = 10" and "length c = 8"
  defines "h \<equiv> \<lambda>ck. a @ be_bytes16 ck @ c"
  shows "rfc1071 (h (checksum_field (h 0))) = 0 \<longleftrightarrow> folded_once (h 0) < 65536"
proof -
  let ?s = "sum_list (be_words (h 0))"
  have total: "sum_list (be_words (h (checksum_field (h 0)))) = ?s + (65535 - folded_once (h 0) mod 65536)"
    by (simp only: h_def sum_be_words_cksum [OF assms(1,2), of "checksum_field (a @ be_bytes16 0 @ c)"]
        unat_checksum_field)
  have b: "folded_once (h 0) \<le> 131070"
    by (rule folded_once_bound) (simp add: h_def assms)
  have r: "rfc1071 (h (checksum_field (h 0))) = 65535 - oc_norm (?s + (65535 - folded_once (h 0) mod 65536))"
    by (simp only: rfc1071_norm total)
  show ?thesis
  proof (cases "folded_once (h 0) < 65536")
    case True
    define f where "f = folded_once (h 0)"
    have f: "f \<le> 65535" "f mod 65535 = ?s mod 65535"
      using True fold_step(1) [of ?s] by (simp_all add: f_def folded_once_def)
    have "(?s + (65535 - f)) mod 65535 = (f + (65535 - f)) mod 65535"
      using f(2) by (metis mod_add_left_eq)
    then have "(?s + (65535 - f)) mod 65535 = 65535 mod 65535" using f(1) by simp
    moreover have "?s + (65535 - f) \<noteq> 0"
    proof -
      have "f = 0" if "?s = 0" unfolding f_def folded_once_def that by simp
      then show ?thesis by linarith
    qed
    ultimately have "oc_norm (?s + (65535 - f)) = oc_norm 65535"
      by (intro oc_norm_unique) simp_all
    then have "oc_norm (?s + (65535 - f)) = 65535" by (simp add: oc_norm_small)
    with True f(1) show ?thesis by (simp add: r flip: f_def)
  next
    case False
    define f where "f = folded_once (h 0) - 65536"
    have f: "f \<le> 65534" and m: "folded_once (h 0) mod 65536 = f"
      using False b by (simp_all add: f_def le_mod_geq)
    have "(f + 65536) mod 65535 = ?s mod 65535"
      using False fold_step(1) [of ?s] by (simp add: f_def folded_once_def)
    then have "(?s + (65535 - f)) mod 65535 = (f + 65536 + (65535 - f)) mod 65535"
      by (metis mod_add_left_eq)
    also have "f + 65536 + (65535 - f) = 1 + 2 * 65535" using f by simp
    also have "(1 + 2 * 65535) mod 65535 = (1 :: nat) mod 65535" by simp
    finally have "oc_norm (?s + (65535 - f)) = oc_norm 1"
      using f by (intro oc_norm_unique) simp_all
    then show ?thesis using False by (simp add: r m oc_norm_small)
  qed
qed

text \<open>So it is with the headers the IP layer builds.\<close>

lemma ip_createHeader_accepted:
  assumes "plain_ip_info info dlen proto dst" and "device_ip dl = Some own" and "length own = 4"
  shows "\<exists>h. ip_createHeader dl info = Inr (Some h) \<and>
    (rfc1071 h = 0 \<longleftrightarrow> folded_once (ip_header_for own info dlen proto dst 0) < 65536)"
proof -
  let ?h = "ip_header_for own info dlen proto dst"
  let ?a = "take 10 (?h 0)" and ?c = "drop 12 (?h 0)"
  have e: "?h ck = ?a @ be_bytes16 ck @ ?c" for ck
    by (simp add: ip_header_for_def ip_header_bytes_def be_bytes16_def)
  have "length ?a = 10" "length ?c = 8" by simp_all
  from header_checksum_valid [OF this]
  have "rfc1071 (?h (checksum_field (?h 0))) = 0 \<longleftrightarrow> folded_once (?h 0) < 65536"
    by (simp only: e [symmetric])
  with ip_createHeader_plain [OF assms] show ?thesis by (intro exI conjI)
qed

section \<open>Reading an IP packet\<close>

lemma same_address_eq:
  "length dest = i + length ip \<Longrightarrow> same_address ip dest i = Inr (ip = drop i dest)"
proof (induction ip arbitrary: i)
  case Nil
  then show ?case by simp
next
  case (Cons a ip)
  then have "drop i dest = dest ! i # drop (i + 1) dest" by (simp add: Cons_nth_drop_Suc)
  with Cons show ?case by (simp add: element_at_def)
qed

text \<open>The payload of a packet for this host, or the exception reading it ends with.\<close>

definition ip_payload :: "u8 list \<Rightarrow> u8 list java" where
  "ip_payload m =
     (let hl = 4 * (unat (m ! 14) mod 16); n = sint (be16 (m ! 16) (m ! 17)) - int hl in
      if n < 0 then Inl NegativeArraySize
      else if length m < 14 + hl then Inl IllegalArgument
      else if length m < 14 + hl + nat n then Inl BufferUnderflow
      else Inr (take (nat n) (drop (14 + hl) m)))"

lemma header_length_bytes: "sint ((x AND 0x0F) * 4 :: u8) = int (4 * (unat x mod 16))"
proof -
  have "x AND 0x0F = take_bit 4 x" by (simp add: take_bit_eq_mask mask_numeral)
  then have "unat (x AND 0x0F) = take_bit 4 (unat x)" by (simp only: unsigned_take_bit_eq)
  then have a: "unat (x AND 0x0F) = unat x mod 16" by (simp add: take_bit_eq_mod)
  define k where "k = unat x mod 16"
  have k: "k < 16" by (simp add: k_def)
  have "x AND 0x0F = of_nat k"
    unfolding k_def a [symmetric] by simp
  then have "(x AND 0x0F) * 4 = of_nat (4 * k)" by (simp add: mult.commute)
  moreover have "sint (of_nat (4 * k) :: u8) = int (4 * k)"
    using k by (simp only: signed_of_nat) (simp add: signed_take_bit_int_eq_self)
  ultimately show ?thesis by (simp only: k_def)
qed

lemma ip_handlePacket_spec:
  assumes "pk_header packet = Some h" and "pk_data packet = Some d" and "m = h @ d"
    and "34 \<le> length m" and "device_ip dl = Some own" and "length own = 4"
  shows "ip_handlePacket dl packet =
    (if take 4 (drop 30 m) = own
     then bindr (ip_payload m) (\<lambda>payload. Inr (Some \<lparr>hd_source_ip = take 4 (drop 26 m),
       hd_dest_ip = own, hd_protocol = m ! 23, hd_payload = payload\<rparr>))
     else Inr None)"
proof -
  let ?b = "filled m 0"
  have fill: "bindr (new_byte_array (int (length h + length d))) (\<lambda>x. bindr (put_array h (wrap x))
      (\<lambda>b. bindr (put_array d b) f)) = f ?b" for f :: "jbuf \<Rightarrow> 'x java"
    using assms(3) by (simp only: jbuffer bindr_simps) (simp add: jbuffer)
  have addr: "same_address own (take 4 (drop 30 m)) 0 = Inr (own = take 4 (drop 30 m))"
    using assms(4,6) same_address_eq [of "take 4 (drop 30 m)" 0 own] by simp
  define hl where "hl = 4 * (unat (m ! 14) mod 16)"
  define n where "n = sint (be16 (m ! 16) (m ! 17)) - int hl"
  note hl = header_length_bytes [of "m ! 14", folded hl_def]
  have reads: "get_byte_at 23 \<lparr>arr = m, pos = p\<rparr> = Inr (m ! 23)"
    "get_byte_at 14 \<lparr>arr = m, pos = p\<rparr> = Inr (m ! 14)"
    "get_short_at 16 \<lparr>arr = m, pos = p\<rparr> = Inr (be16 (m ! 16) (m ! 17))" for p
    using assms(4)
    by (simp_all add: get_byte_at_def get_short_at_def bytes_at_def short_of_def)
  have body: "ip_handlePacket dl packet = (if own \<noteq> take 4 (drop 30 m) then Inr None
    else bindr (new_byte_array n) (\<lambda>_. bindr (set_position (int hl + 14) \<lparr>arr = m, pos = 0\<rparr>)
      (\<lambda>b. bindr (get_array (nat n) b) (\<lambda>(payload, b). Inr (Some \<lparr>hd_source_ip = take 4 (drop 26 m),
       hd_dest_ip = take 4 (drop 30 m), hd_protocol = m ! 23, hd_payload = payload\<rparr>)))))"
    using assms(4)
    by (simp only: ip_handlePacket_def assms(1,2) non_null_simps bindr_simps fill)
      (simp add: assms(5) deviceIPAddress_def addr filled_def set_position_def get_array_def
        reads hl n_def Let_def)
  show ?thesis
    unfolding body ip_payload_def Let_def hl_def [symmetric] n_def [symmetric]
    by (auto simp: new_byte_array_def set_position_def get_array_def nat_add_distrib add.commute)
qed

section \<open>UDP\<close>

lemma udp_createHeader_bytes:
  assumes "source_port info = Some sp" and "dest_port info = Some dp" and "udp_data info = Some d"
    and "length d < 32760"
  shows "udp_createHeader info = Inr (Some
    (be_bytes16 sp @ be_bytes16 dp @ be_bytes16 (of_nat (8 + length d)) @ be_bytes16 0 @ d))"
proof -
  have "sint (of_nat (8 + length d) :: u16) = int (8 + length d)"
    using assms(4) by (simp only: signed_of_nat) (simp add: signed_take_bit_int_eq_self)
  then have "new_byte_array (sint (8 + of_nat (length d) :: u16)) = Inr (replicate (8 + length d) 0)"
    by (simp add: new_byte_array_def nat_add_distrib)
  then show ?thesis
    using assms(1-3) by (simp add: udp_createHeader_def Let_def jbuffer)
qed

text \<open>A longer datagram has a negative length in the \<open>short\<close> that holds it.\<close>

lemma udp_createHeader_too_long:
  assumes "udp_data info = Some d" and "32760 \<le> length d" and "length d < 65528"
  shows "udp_createHeader info = Inl NegativeArraySize"
proof -
  have "sint (of_nat (8 + length d) :: u16) < 0"
  proof -
    have "(8 + length d) div 32768 = 1" using assms(2,3) by (intro div_nat_eqI) simp_all
    then have "bit (8 + length d) 15" by (simp add: bit_iff_odd)
    then have "bit (int (8 + length d)) 15" by (simp only: bit_of_nat_iff_bit)
    then show ?thesis
      by (simp only: signed_of_nat) (simp add: signed_take_bit_negative_iff)
  qed
  then have "sint (8 + of_nat (length d) :: u16) < 0" by simp
  then show ?thesis
    using assms(1) by (simp add: udp_createHeader_def new_byte_array_def Let_def)
qed

lemma udp_handlePacket_bytes:
  assumes "pk_header packet = Some (be_bytes16 sp @ be_bytes16 dp @ be_bytes16 len @ rest)"
  shows "udp_handlePacket packet =
    Inr \<lparr>u_src_port = sp, u_dest_port = dp, u_length = len, u_data = pk_data packet\<rparr>"
  using assms
  by (simp add: udp_handlePacket_def get_short_at_def bytes_at_def wrap_def be_bytes16_def short_of_def)

section \<open>ICMP\<close>

text \<open>Which message is taken for what, with every way reading it can fail.\<close>

definition icmp_reading :: "u8 list \<Rightarrow> jbyteArray \<Rightarrow> icmp_result option java" where
  "icmp_reading h d =
     (if h = [] then Inl IndexOutOfBounds
      else if h ! 0 = 0
      then (if length h < 8 then Inl IndexOutOfBounds
            else Inr (Some (no_icmp_result\<lparr>r_identifier := Some (be16 (h ! 4) (h ! 5)),
              r_sequence := Some (be16 (h ! 6) (h ! 7)),
              r_data := (if length h = 8 then None else d)\<rparr>)))
      else if h ! 0 = 14
      then (if length h < 20 then Inl IndexOutOfBounds
            else Inr (Some (no_icmp_result\<lparr>r_identifier := Some (be16 (h ! 4) (h ! 5)),
              r_sequence := Some (be16 (h ! 6) (h ! 7)),
              r_original_time := Some (be32 (h ! 8) (h ! 9) (h ! 10) (h ! 11)),
              r_receive_time := Some (be32 (h ! 12) (h ! 13) (h ! 14) (h ! 15)),
              r_transmit_time := Some (be32 (h ! 16) (h ! 17) (h ! 18) (h ! 19))\<rparr>)))
      else if h ! 0 \<noteq> 11 \<and> length h < 2 then Inl IndexOutOfBounds
      else if h ! 0 = 11 \<or> h ! 1 = 0
      then (if length h < 8 then Inl NegativeArraySize
            else Inr (Some (no_icmp_result\<lparr>r_type := Some 11, r_code := Some 0,
              r_data := Some (drop 8 h)\<rparr>)))
      else Inr None)"

lemma get_at_wrap:
  "get_byte_at i (wrap h) = (if i < length h then Inr (h ! i) else Inl IndexOutOfBounds)"
  "get_short_at i (wrap h) =
     (if i + 1 < length h then Inr (be16 (h ! i) (h ! (i + 1))) else Inl IndexOutOfBounds)"
  "get_int_at i (wrap h) =
     (if i + 3 < length h then Inr (be32 (h ! i) (h ! (i + 1)) (h ! (i + 2)) (h ! (i + 3)))
      else Inl IndexOutOfBounds)"
  by (auto simp: get_byte_at_def get_short_at_def get_int_at_def bytes_at_def wrap_def short_of_def
      int_of_def)

lemma copy_from_wrap:
  "bindr (new_byte_array (int (length h) - 8)) (\<lambda>a. bindr (set_position 8 (wrap h)) (\<lambda>b.
     bindr (get_array (length a) b) (\<lambda>(a, b). f a))) =
   (if length h < 8 then Inl NegativeArraySize else f (drop 8 h))"
  by (auto simp: new_byte_array_def set_position_def get_array_def wrap_def nat_diff_distrib)

lemma icmp_handlePacket_reading:
  assumes "pk_header packet = Some h"
  shows "icmp_handlePacket packet = icmp_reading h (pk_data packet)"
proof (cases "h = []")
  case True
  with assms show ?thesis
    by (simp add: icmp_handlePacket_def icmp_reading_def echo_handlePacket_def get_at_wrap)
next
  case False
  have echo: "echo_handlePacket packet =
    (if h ! 0 \<noteq> 0 then Inr None else if length h < 8 then Inl IndexOutOfBounds
     else icmp_reading h (pk_data packet))"
    and time: "timestamp_handlePacket packet =
    (if h ! 0 \<noteq> 14 then Inr None else if length h < 20 then Inl IndexOutOfBounds
     else icmp_reading h (pk_data packet))"
    and exceeded: "h ! 0 \<noteq> 0 \<Longrightarrow> h ! 0 \<noteq> 14 \<Longrightarrow>
      time_exceeded_handlePacket packet = icmp_reading h (pk_data packet)"
    using assms False
    by (auto simp: echo_handlePacket_def timestamp_handlePacket_def
        time_exceeded_handlePacket_def icmp_reading_def get_at_wrap copy_from_wrap)
  consider "h ! 0 = 0" | "h ! 0 = 14" | "h ! 0 \<noteq> 0" "h ! 0 \<noteq> 14" by auto
  then show ?thesis
    by cases (auto simp: icmp_handlePacket_def echo time exceeded icmp_reading_def False)
qed

section \<open>ARP\<close>

definition stored :: "u8 list \<Rightarrow> nat \<Rightarrow> u8 list \<times> nat" where
  "stored bs n = (bs @ replicate n 0, length bs)"

lemma store_bytes_stored:
  "length xs \<le> n \<Longrightarrow> store_bytes xs (stored bs n) = Inr (stored (bs @ xs) (n - length xs))"
proof (induction xs arbitrary: bs n)
  case Nil
  then show ?case by (simp add: stored_def)
next
  case (Cons x xs)
  then obtain k where n: "n = Suc k" by (cases n) auto
  have "store_bytes (x # xs) (stored bs n) = store_bytes xs (stored (bs @ [x]) k)"
    by (simp add: stored_def n list_update_append)
  also have "\<dots> = Inr (stored ((bs @ [x]) @ xs) (k - length xs))"
    by (rule Cons.IH) (use Cons.prems n in simp)
  finally show ?case by (simp add: n)
qed

definition arp_request_bytes :: "u8 list \<Rightarrow> u8 list \<Rightarrow> u8 list \<Rightarrow> u8 list" where
  "arp_request_bytes mac own ip =
     [0, 1, 8, 0, 6, 4, 0, 1] @ mac @ own @ replicate 6 0xff @ ip"

lemma makeARPRequestMsg_bytes:
  assumes "length (device_mac dl) = 6" and "device_ip dl = Some own" and "length own = 4"
    and "length ip = 4"
  shows "makeARPRequestMsg dl ip = Inr (arp_request_bytes (device_mac dl) own ip)"
proof -
  have e: "be_bytes16 0x0800 = [8, 0]" "be_bytes16 1 = [0, 1]"
    by (simp_all add: be_bytes16_def byte_at_def)
  have s: "(replicate 28 0, 0) = stored [] 28" "fst (stored bs 0) = bs" for bs
    by (simp_all add: stored_def)
  show ?thesis
    using assms
    by (simp add: makeARPRequestMsg_def s e deviceIPAddress_def deviceMacAddress_def
        store_bytes_stored arp_request_bytes_def)
qed

text \<open>A reply tells the address of its sender only if it answers this host.\<close>

lemma target_is_ours_eq:
  "length ip = i + n \<Longrightarrow> 38 + i + n \<le> length data \<Longrightarrow>
     target_is_ours ip data i n = Inr (drop i ip = take n (drop (38 + i) data))"
proof (induction n arbitrary: i)
  case 0
  then show ?case by simp
next
  case (Suc n)
  then have a: "drop i ip = ip ! i # drop (i + 1) ip"
    by (simp add: Cons_nth_drop_Suc)
  have b: "drop (38 + i) data = data ! (38 + i) # drop (38 + (i + 1)) data"
    using Suc.prems Cons_nth_drop_Suc [of "38 + i" data] by simp
  have "element_at ip i = Inr (ip ! i)" "element_at data (38 + i) = Inr (data ! (38 + i))"
    using Suc.prems by (simp_all add: element_at_def)
  then show ?case
    unfolding a b using Suc.IH [of "i + 1"] Suc.prems by simp
qed

lemma arp_handlePacket_spec:
  assumes "pk_header packet = Some h" and "42 \<le> length h" and "device_ip dl = Some own"
    and "length own = 4"
  shows "arp_handlePacket dl packet =
    Inr (if be16 (h ! 20) (h ! 21) = 2 \<and> take 4 (drop 38 h) = own
         then \<lparr>a_sender_ip = Some (take 4 (drop 28 h)), a_sender_mac = Some (take 6 (drop 22 h))\<rparr>
         else \<lparr>a_sender_ip = None, a_sender_mac = None\<rparr>)"
  using assms target_is_ours_eq [of own 0 4 h]
  by (auto simp: arp_handlePacket_def analyseARPMsg_def array_copy_def get_short_def get_array_def
      wrap_def short_of_def deviceIPAddress_def)

end
