(* ===== verification/TftpLaws.thy ===== *)
theory TftpLaws
  imports Tftp IpStackLaws
begin

text \<open>
  A whole TFTP transfer: which bytes end up in the file and which acknowledgements the client
  sends, once the router's hardware address is known.
\<close>

section \<open>Sending when the router is known\<close>

text \<open>The state in which \<open>sendData\<close> sends at once.\<close>

definition router_known :: "stack \<Rightarrow> u8 list \<Rightarrow> bool" where
  "router_known s mac \<longleftrightarrow>
     (\<exists>r. router s = Some r \<and> table_get (mac_table s) (Some r) = Some mac)"

definition sent_also :: "jpacket list \<Rightarrow> stack \<Rightarrow> stack" where
  "sent_also ps s = s\<lparr>sent := sent s @ ps\<rparr>"

lemma sent_also_simps [simp]:
  "link (sent_also ps s) = link s" "router_known (sent_also ps s) mac = router_known s mac"
  "sent_also [] s = s" "sent_also qs (sent_also ps s) = sent_also (ps @ qs) s"
  by (simp_all add: sent_also_def router_known_def)

lemma sendData_known:
  assumes "router_known s mac"
  shows "sendData (Some d) ip s =
    (Inr (), sent_also [link_packet (card_mac (link s)) d (Some mac) 0x0800] s)"
  using assms
  by (auto simp: router_known_def sendData_def getRouterMac_def link_sendData_def sent_also_def
      method_simps bindj_def)

text \<open>Before that, sending asks for the address again and keeps one packet per destination.\<close>

lemma sendData_unknown:
  assumes "router s = Some r" and "table_get (mac_table s) (Some r) = None"
    and "device_ip (link s) = Some own" and "length own = 4" and "length (device_mac (link s)) = 6"
    and "length r = 4"
  shows "sendData d ip s = (Inr (), sent_also [link_packet (card_mac (link s))
      (arp_request_bytes (device_mac (link s)) own r) (Some broadcast) 0x0806]
    (s\<lparr>waiting := waiting_put (Some ip) d (waiting s)\<rparr>))"
  using assms
  by (simp add: sendData_def getRouterMac_def bindj_def prepareRouterMac_def method_simps
      arp_createHeader_def makeARPRequestMsg_bytes link_sendData_def sent_also_def)

lemma waiting_put_twice [simp]:
  "waiting_put k d' (waiting_put k d w) = waiting_put k d' w"
  by (induction k d w rule: waiting_put.induct) simp_all

section \<open>The packets of the client\<close>

definition tftp_ip_info :: "tftp \<Rightarrow> nat \<Rightarrow> ip_info" where
  "tftp_ip_info c len = no_ip_info\<lparr>data_length := Some (of_nat len),
     destination_ip := Some (int_of (server_ip c)), source_ip := Some 0xC0A80166,
     protocol := Some 17\<rparr>"

definition udp_bytes :: "u16 \<Rightarrow> u16 \<Rightarrow> u8 list \<Rightarrow> u8 list" where
  "udp_bytes sp dp d =
     be_bytes16 sp @ be_bytes16 dp @ be_bytes16 (of_nat (8 + length d)) @ be_bytes16 0 @ d"

definition ip_around :: "u8 list \<Rightarrow> ip_info \<Rightarrow> u8 \<Rightarrow> u32 \<Rightarrow> u8 list \<Rightarrow> u8 list" where
  "ip_around own info proto dst rest =
     (let h = ip_header_for own info (of_nat (length rest)) proto dst
      in h (checksum_field (h 0)) @ rest)"

definition tftp_bytes :: "u8 list \<Rightarrow> tftp \<Rightarrow> u8 list \<Rightarrow> u8 list" where
  "tftp_bytes own c msg =
     ip_around own (tftp_ip_info c (8 + length msg)) 17 (int_of (server_ip c))
       (udp_bytes (ucast (own_port c)) (server_port c) msg)"

lemma join_headers_bytes [jbuffer]: "join_headers a b = Inr (a @ b)"
proof -
  have "new_byte_array (int (length b + length a)) = Inr (replicate (length b + length a) 0)"
    by (rule new_byte_array_nonneg)
  then show ?thesis by (simp only: join_headers_def bindr_simps) (simp add: jbuffer)
qed

lemma fake_address: "int_of [192, 168, 1, 102] = 0xC0A80166"
  by (simp add: int_of_def le32_def le16_def) code_simp

lemma tftp_packet_bytes:
  assumes "device_ip dl = Some own" and "length own = 4" and "length (server_ip c) = 4"
    and "length msg < 32760"
  shows "tftp_packet dl c msg = Inr (tftp_bytes own c msg)"
proof -
  let ?u = "udp_bytes (ucast (own_port c)) (server_port c) msg"
  have u: "tftp_createUDPHeader c msg = Inr (Some ?u)" and l: "length ?u = 8 + length msg"
    using assms(4) by (simp_all add: tftp_createUDPHeader_def udp_createHeader_bytes udp_bytes_def)
  have plain: "plain_ip_info (tftp_ip_info c (8 + length msg)) (of_nat (8 + length msg)) 17
      (int_of (server_ip c))"
    by (simp add: plain_ip_info_def tftp_ip_info_def no_ip_info_def)
  have i: "tftp_createIPHeader dl c (8 + length msg) =
    ip_createHeader dl (tftp_ip_info c (8 + length msg))"
    using assms(3)
    by (simp add: tftp_createIPHeader_def jbuffer fake_address tftp_ip_info_def)
  show ?thesis
    using ip_createHeader_plain [OF plain assms(1,2)]
    by (simp add: tftp_packet_def u l i jbuffer tftp_bytes_def ip_around_def Let_def)
qed

text \<open>The frame that carries a message of the client.\<close>

definition tftp_frame :: "u8 list \<Rightarrow> u8 list \<Rightarrow> tftp \<Rightarrow> stack \<Rightarrow> u8 list \<Rightarrow> jpacket" where
  "tftp_frame own mac c s msg =
     link_packet (card_mac (link s)) (tftp_bytes own c msg) (Some mac) 0x0800"

definition tftp_ready :: "u8 list \<Rightarrow> u8 list \<Rightarrow> tftp \<Rightarrow> stack \<Rightarrow> bool" where
  "tftp_ready own mac c s \<longleftrightarrow> router_known s mac \<and> device_ip (link s) = Some own \<and>
     length own = 4 \<and> length (server_ip c) = 4"

lemma tftp_send_ready:
  assumes "tftp_ready own mac c s" and "length msg < 32760"
  shows "tftp_send msg (c, s) = (Inr (), (c, sent_also [tftp_frame own mac c s msg] s))"
proof -
  have "tftp_packet (link s) c msg = Inr (tftp_bytes own c msg)"
    using assms by (intro tftp_packet_bytes) (simp_all add: tftp_ready_def)
  moreover have "sendData (Some (tftp_bytes own c msg)) (server_ip c) s =
      (Inr (), sent_also [tftp_frame own mac c s msg] s)"
    using assms by (simp add: tftp_ready_def sendData_known tftp_frame_def)
  ultimately show ?thesis
    by (simp add: tftp_send_def get_client_def on_stack_def method_simps bindj_def tryj_def)
qed

section \<open>One block\<close>

definition ack_bytes :: "u16 \<Rightarrow> u8 list" where
  "ack_bytes n = be_bytes16 4 @ be_bytes16 n"

lemma sendACKPacket_ready:
  assumes "tftp_ready own mac c s"
  shows "sendACKPacket (c, s) =
    (Inr (), (c, sent_also [tftp_frame own mac c s (ack_bytes (data_block c))] s))"
proof -
  have "bindr (new_byte_array 4) (\<lambda>a. bindr (put_short 4 (wrap a)) (\<lambda>b.
      bindr (put_short (data_block c) b) (\<lambda>b. Inr (arr b)))) = Inr (ack_bytes (data_block c))"
    by (simp add: jbuffer ack_bytes_def)
  then show ?thesis
    using tftp_send_ready [OF assms, of "ack_bytes (data_block c)"]
    by (simp add: sendACKPacket_def get_client_def method_simps bindj_def ack_bytes_def)
qed

definition data_message :: "u16 \<Rightarrow> u16 \<Rightarrow> u8 list \<Rightarrow> udp_result" where
  "data_message p n b = \<lparr>u_src_port = p, u_dest_port = 60706, u_length = of_nat (12 + length b),
     u_data = Some (be_bytes16 3 @ be_bytes16 n @ b)\<rparr>"

lemma read_data_message:
  "get_short (wrap (be_bytes16 3 @ be_bytes16 n @ b)) =
     Inr (3, \<lparr>arr = be_bytes16 3 @ be_bytes16 n @ b, pos = 2\<rparr>)"
  "get_short \<lparr>arr = be_bytes16 3 @ be_bytes16 n @ b, pos = 2\<rparr> =
     Inr (n, \<lparr>arr = be_bytes16 3 @ be_bytes16 n @ b, pos = 4\<rparr>)"
  "get_array (length b) \<lparr>arr = be_bytes16 3 @ be_bytes16 n @ b, pos = 4\<rparr> =
     Inr (b, \<lparr>arr = be_bytes16 3 @ be_bytes16 n @ b, pos = 4 + length b\<rparr>)"
proof -
  have "short_of [byte_at 1 x, byte_at 0 x] = x" for x by (simp add: short_of_def)
  then show "get_short (wrap (be_bytes16 3 @ be_bytes16 n @ b)) =
     Inr (3, \<lparr>arr = be_bytes16 3 @ be_bytes16 n @ b, pos = 2\<rparr>)"
  "get_short \<lparr>arr = be_bytes16 3 @ be_bytes16 n @ b, pos = 2\<rparr> =
     Inr (n, \<lparr>arr = be_bytes16 3 @ be_bytes16 n @ b, pos = 4\<rparr>)"
    by (simp_all add: get_short_def get_array_def wrap_def be_bytes16_def)
qed (simp add: get_array_def)

text \<open>
  Whatever number a block carries, it is appended to the open file and acknowledged under that
  number; a short block ends the transfer.
\<close>

lemma handle_data_block:
  fixes p n :: u16
  assumes ready: "tftp_ready own mac c s" and open_file: "download c = OpenStream w"
    and b: "length b \<le> 512"
  defines "c' \<equiv> c\<lparr>server_port := p, data_block := n, download := OpenStream (w @ b)\<rparr>"
  shows "tftp_handleData (data_message p n b) (c, s) =
    (Inr (), (if length b = 512 then c'\<lparr>data_block := n + 1\<rparr>
              else c'\<lparr>data_block := 1, download := ClosedStream (w @ b)\<rparr>,
              sent_also [tftp_frame own mac c' s (ack_bytes n)] s))"
proof -
  have "tftp_ready own mac c' s" using ready by (simp add: tftp_ready_def c'_def)
  from sendACKPacket_ready [OF this]
  have ack: "sendACKPacket (c', s) = (Inr (), (c', sent_also [tftp_frame own mac c' s (ack_bytes n)] s))"
    by (simp add: c'_def)
  have "tftp_handleData (data_message p n b) (c, s) =
    (if length b = 512
     then bindj sendACKPacket (\<lambda>_. set_client (\<lambda>c. c\<lparr>data_block := data_block c + 1\<rparr>))
     else bindj sendACKPacket (\<lambda>_. bindj close_stream (\<lambda>_. set_client (\<lambda>c. c\<lparr>data_block := 1\<rparr>)))) (c', s)"
    using open_file b
    by (simp add: tftp_handleData_def data_message_def handleDataPacket_def write_block_def
        get_client_def set_client_def method_simps bindj_def read_data_message c'_def Let_def)
  also have "\<dots> = (Inr (), (if length b = 512 then c'\<lparr>data_block := n + 1\<rparr>
              else c'\<lparr>data_block := 1, download := ClosedStream (w @ b)\<rparr>,
              sent_also [tftp_frame own mac c' s (ack_bytes n)] s))"
    by (simp add: bindj_def ack set_client_def close_stream_def get_client_def method_simps)
      (simp add: c'_def set_client_def method_simps)
  finally show ?thesis .
qed

section \<open>A whole transfer\<close>

text \<open>The blocks of a file, numbered from \<open>n\<close> on, and their acknowledgements.\<close>

fun data_messages :: "u16 \<Rightarrow> u16 \<Rightarrow> u8 list list \<Rightarrow> udp_result list" where
  "data_messages p n [] = []"
| "data_messages p n (b # bs) = data_message p n b # data_messages p (n + 1) bs"

fun ack_frames :: "u8 list \<Rightarrow> u8 list \<Rightarrow> tftp \<Rightarrow> stack \<Rightarrow> u16 \<Rightarrow> nat \<Rightarrow> jpacket list" where
  "ack_frames own mac c s n 0 = []"
| "ack_frames own mac c s n (Suc k) =
     tftp_frame own mac c s (ack_bytes n) # ack_frames own mac c s (n + 1) k"

definition file_blocks :: "u8 list list \<Rightarrow> bool" where
  "file_blocks bs \<longleftrightarrow>
     bs \<noteq> [] \<and> (\<forall>b \<in> set (butlast bs). length b = 512) \<and> length (last bs) < 512"

lemma tftp_frame_cong:
  "server_ip c = server_ip c' \<Longrightarrow> own_port c = own_port c' \<Longrightarrow> server_port c = server_port c' \<Longrightarrow>
     link s = link s' \<Longrightarrow> tftp_frame own mac c s msg = tftp_frame own mac c' s' msg"
  by (simp add: tftp_frame_def tftp_bytes_def tftp_ip_info_def)

lemma ack_frames_cong:
  "server_ip c = server_ip c' \<Longrightarrow> own_port c = own_port c' \<Longrightarrow> server_port c = server_port c' \<Longrightarrow>
     link s = link s' \<Longrightarrow> ack_frames own mac c s n k = ack_frames own mac c' s' n k"
  by (induction k arbitrary: n) (simp_all add: tftp_frame_cong [of c c' s s'])

lemma transfer_blocks:
  assumes "file_blocks bs" and "tftp_ready own mac c s" and "download c = OpenStream w"
  shows "for_each (data_messages p n bs) tftp_handleData (c, s) =
    (Inr (), (c\<lparr>server_port := p, data_block := 1, download := ClosedStream (w @ concat bs)\<rparr>,
      sent_also (ack_frames own mac (c\<lparr>server_port := p\<rparr>) s n (length bs)) s))"
  using assms
proof (induction bs arbitrary: n c s w)
  case Nil
  then show ?case by (simp add: file_blocks_def)
next
  case (Cons b bs)
  let ?c = "c\<lparr>server_port := p, data_block := n, download := OpenStream (w @ b)\<rparr>"
  let ?a = "tftp_frame own mac ?c s (ack_bytes n)"
  have a: "?a = tftp_frame own mac (c\<lparr>server_port := p\<rparr>) s (ack_bytes n)"
    by (rule tftp_frame_cong) simp_all
  show ?case
  proof (cases bs)
    case Nil
    with Cons.prems have "length b < 512" by (simp add: file_blocks_def)
    then have "tftp_handleData (data_message p n b) (c, s) = (Inr (),
        (c\<lparr>server_port := p, data_block := 1, download := ClosedStream (w @ b)\<rparr>, sent_also [?a] s))"
      using handle_data_block [OF Cons.prems(2,3), of b p n] by simp
    then show ?thesis by (simp add: Nil bindj_def method_simps a)
  next
    case (Cons b2 bs2)
    with Cons.prems(1) have b: "length b = 512" and bs: "file_blocks bs"
      by (auto simp: file_blocks_def)
    let ?d = "c\<lparr>server_port := p, data_block := n + 1, download := OpenStream (w @ b)\<rparr>"
    have step: "tftp_handleData (data_message p n b) (c, s) = (Inr (), (?d, sent_also [?a] s))"
      using handle_data_block [OF Cons.prems(2,3), of b p n] b by simp
    have "for_each (data_messages p n (b # bs)) tftp_handleData (c, s) =
        for_each (data_messages p (n + 1) bs) tftp_handleData (?d, sent_also [?a] s)"
      by (simp add: bindj_def step)
    also have "\<dots> = (Inr (), (?d\<lparr>server_port := p, data_block := 1,
        download := ClosedStream ((w @ b) @ concat bs)\<rparr>,
        sent_also (ack_frames own mac (?d\<lparr>server_port := p\<rparr>) (sent_also [?a] s) (n + 1) (length bs))
          (sent_also [?a] s)))"
      by (rule Cons.IH [OF bs]) (use Cons.prems(2) in \<open>simp_all add: tftp_ready_def\<close>)
    also have "ack_frames own mac (?d\<lparr>server_port := p\<rparr>) (sent_also [?a] s) (n + 1) (length bs) =
        ack_frames own mac (c\<lparr>server_port := p\<rparr>) s (n + 1) (length bs)"
      by (rule ack_frames_cong) simp_all
    finally show ?thesis by (simp add: a)
  qed
qed

text \<open>
  A transfer: the server sends the blocks of a file in order, from the port p it picked; the
  file on disk ends up with exactly the content, closed, every block is acknowledged once, in
  order, to that port, and the client is ready for the next transfer.
\<close>

text \<open>
  C8. A whole TFTP transfer: when the server sends the blocks of a file in order from the port
  it picked, the file on disk ends up closed with exactly the content of the blocks, every block
  is acknowledged once and in order to that port in a well-formed UDP and IP packet, and the
  block number is back at 1.
\<close>

theorem tftp_transfer_writes_file:
  assumes "file_blocks bs" and "tftp_ready own mac c s" and "download c = OpenStream []"
  shows "for_each (data_messages p 1 bs) tftp_handleData (c, s) =
    (Inr (), (c\<lparr>server_port := p, data_block := 1, download := ClosedStream (concat bs)\<rparr>,
      sent_also (ack_frames own mac (c\<lparr>server_port := p\<rparr>) s 1 (length bs)) s))"
  using transfer_blocks [OF assms] by simp

text \<open>
  The number of a block is never compared with the one expected: a block that the server sends
  again, because its acknowledgement was lost, is in the file twice.
\<close>

theorem retransmitted_block_written_twice:
  assumes "tftp_ready own mac c s" and "download c = OpenStream w" and "length b = 512"
  shows "\<exists>c' s'. for_each [data_message p n b, data_message p n b] tftp_handleData (c, s) =
    (Inr (), (c', s')) \<and> download c' = OpenStream (w @ b @ b)"
proof -
  let ?d = "c\<lparr>server_port := p, data_block := n + 1, download := OpenStream (w @ b)\<rparr>"
  obtain t where t: "tftp_handleData (data_message p n b) (c, s) = (Inr (), (?d, t))"
    and "tftp_ready own mac ?d t"
    using handle_data_block [OF assms(1,2), of b p n] assms(1,3) by (simp add: tftp_ready_def)
  then show ?thesis
    using handle_data_block [of own mac ?d t "w @ b" b p n] assms(3)
    by (simp add: bindj_def method_simps)
qed

text \<open>
  The request for a file whose name has a character of more than one byte is never sent: the
  array is sized by characters and filled by bytes. The file on this side has been created then.
\<close>

theorem wide_name_overflows:
  assumes "length name < length (concat name)"
  shows "getFile True name (c, s) =
    (Inl BufferOverflow, (c\<lparr>file_name := name, download := OpenStream []\<rparr>, s))"
proof -
  let ?n = "2 + length name + 1 + length tftp_mode + 1"
  have a: "new_byte_array (int ?n) = Inr (replicate ?n 0)" by (simp only: new_byte_array_nonneg)
  have "bindr (new_byte_array (int ?n)) (\<lambda>a. bindr (put_short 1 (wrap a)) (\<lambda>b. bindr (put_array (concat name) b) (\<lambda>b.
       bindr (put_byte 0 b) (\<lambda>b. bindr (put_array tftp_mode b) (\<lambda>b.
       bindr (put_byte 0 b) (\<lambda>b. Inr (arr b))))))) = Inl BufferOverflow"
    using assms by (simp only: a jbuffer bindr_simps) (auto simp: jbuffer)
  then show ?thesis
    by (simp add: getFile_def sendReadPacket_def get_client_def set_client_def method_simps bindj_def)
qed

end
