(* ===== verification/DhcpLaws.thy ===== *)
theory DhcpLaws
  imports Dhcp TftpLaws
begin

text \<open>
  The DHCP client as a state machine: what it does with a reply of the server, from the options
  it finds in it, and the bytes of the request it broadcasts.
\<close>

section \<open>The messages\<close>

lemma put_arrays_filled [jbuffer]:
  "put_arrays xss (filled bs n) =
     (if length (concat xss) \<le> n then Inr (filled (bs @ concat xss) (n - length (concat xss)))
      else Inl BufferOverflow)"
  by (induction xss arbitrary: bs n) (auto simp: jbuffer)

lemma fill_array_eq:
  "fill_array n xss =
     (if length (concat xss) \<le> n then Inr (concat xss @ replicate (n - length (concat xss)) 0)
      else Inl BufferOverflow)"
  by (simp add: fill_array_def jbuffer)

definition dhcp_request_options :: "u8 list \<Rightarrow> u8 list \<Rightarrow> u8 list" where
  "dhcp_request_options mac ip =
     [53, 1, 3] @ [61, 7, 1] @ mac @ [50, 4] @ ip @ [0, 0, 0, 0]
     @ [12, 10] @ OPTION_HOST_NAME_CONTENT @ [60, 8] @ OPTION_VENDOR_IDENTIFIER
     @ [55, 14, 1, 3, 6, 15, 31, 33, 43, 44, 46, 47, 119, 121, 0xf9, 0xfc]
     @ [57, 2] @ be_bytes16 1500 @ [51, 4] @ be_bytes32 7776000 @ [0xff, 0, 0, 0]"

lemma request_options_bytes:
  assumes "length (device_mac dl) = 6" and "length ip = 4"
  shows "constructDHCPRequestOptions dl ip = Inr (dhcp_request_options (device_mac dl) ip)"
  using assms
  by (simp add: constructDHCPRequestOptions_def fill_array_eq option_client_identifier_def
      option_maximum_size_def option_lease_time_def option_host_name_def option_vendor_def
      option_parameter_request_list_def deviceMacAddress_def dhcp_request_options_def
      OPTION_HOST_NAME_CONTENT_def OPTION_VENDOR_IDENTIFIER_def numeral_eq_Suc)

definition dhcp_ip_info :: "nat \<Rightarrow> ip_info" where
  "dhcp_ip_info len = no_ip_info\<lparr>data_length := Some (of_nat len), source_ip := Some 0,
     destination_ip := Some (- 1), protocol := Some 17, identification := Some 68\<rparr>"

definition dhcp_bytes :: "u8 list \<Rightarrow> u8 list \<Rightarrow> u8 list" where
  "dhcp_bytes own msg =
     ip_around own (dhcp_ip_info (8 + length msg)) 17 (- 1) (udp_bytes 68 67 msg)"

lemma broadcast_addresses: "int_of [0, 0, 0, 0] = 0" "int_of [255, 255, 255, 255] = - 1"
  by (simp_all add: int_of_def le32_def le16_def) code_simp+

lemma dhcp_packet_bytes:
  assumes "device_ip dl = Some own" and "length own = 4" and "length msg < 32760"
  shows "dhcp_packet dl (udp_bytes 68 67 msg) = Inr (dhcp_bytes own msg)"
proof -
  have l: "length (udp_bytes 68 67 msg) = 8 + length msg"
    by (simp add: udp_bytes_def)
  have plain: "plain_ip_info (dhcp_ip_info (8 + length msg)) (of_nat (8 + length msg)) 17 (- 1)"
    by (simp add: plain_ip_info_def dhcp_ip_info_def no_ip_info_def)
  have i: "dhcp_createIP4Header dl (8 + length msg) = ip_createHeader dl (dhcp_ip_info (8 + length msg))"
    by (simp add: dhcp_createIP4Header_def jbuffer broadcast_addresses dhcp_ip_info_def)
  show ?thesis
    using ip_createHeader_plain [OF plain assms(1,2)]
    by (simp add: dhcp_packet_def l i jbuffer dhcp_bytes_def ip_around_def Let_def)
qed

text \<open>The frame with which the client asks for \<open>ip\<close>.\<close>

definition request_message :: "dhcp \<Rightarrow> u8 list \<Rightarrow> u8 list \<Rightarrow> u8 list" where
  "request_message c mac ip = dhcp_first_part c @ MAGIC_COOKIE @ dhcp_request_options mac ip"

definition request_frame :: "u8 list \<Rightarrow> dhcp \<Rightarrow> stack \<Rightarrow> u8 list \<Rightarrow> jpacket" where
  "request_frame own c s ip = link_packet (card_mac (link s))
     (dhcp_bytes own (request_message c (device_mac (link s)) ip)) (Some (replicate 6 0xff)) 0x0800"

definition dhcp_ready :: "u8 list \<Rightarrow> dhcp \<Rightarrow> stack \<Rightarrow> bool" where
  "dhcp_ready own c s \<longleftrightarrow> device_ip (link s) = Some own \<and> length own = 4 \<and>
     length (device_mac (link s)) = 6 \<and> length (dhcp_first_part c) = 236"

lemma dhcpRequest_broadcasts:
  assumes "dhcp_ready own c s" and "server_supply_ip c = Some ip" and "length ip = 4"
  shows "dhcpRequest (c, s) =
    (Inr (), (c\<lparr>dhcp_options_part := dhcp_request_options (device_mac (link s)) ip\<rparr>,
      sent_also [request_frame own c s ip] s))"
proof -
  let ?o = "dhcp_request_options (device_mac (link s)) ip"
  have o: "constructDHCPRequestOptions (link s) ip = Inr ?o"
    using assms by (simp add: request_options_bytes dhcp_ready_def)
  have l: "length ?o < 1000"
    using assms by (simp add: dhcp_request_options_def dhcp_ready_def
        OPTION_HOST_NAME_CONTENT_def OPTION_VENDOR_IDENTIFIER_def)
  have m: "fill_array (length (dhcp_first_part c) + length MAGIC_COOKIE + length ?o)
      [dhcp_first_part c, MAGIC_COOKIE, ?o] = Inr (request_message c (device_mac (link s)) ip)"
    by (simp add: fill_array_eq request_message_def)
  have ml: "length (request_message c (device_mac (link s)) ip) < 32760"
    using assms(1) l by (simp add: dhcp_ready_def request_message_def MAGIC_COOKIE_def)
  then have u: "dhcp_createUDPHeader (request_message c (device_mac (link s)) ip) =
      Inr (Some (udp_bytes 68 67 (request_message c (device_mac (link s)) ip)))"
    by (simp add: dhcp_createUDPHeader_def udp_createHeader_bytes udp_bytes_def)
  have p: "dhcp_packet (link s) (udp_bytes 68 67 (request_message c (device_mac (link s)) ip)) =
      Inr (dhcp_bytes own (request_message c (device_mac (link s)) ip))"
    using assms(1) ml by (intro dhcp_packet_bytes) (simp_all add: dhcp_ready_def)
  show ?thesis
    using assms(2)
    by (simp add: dhcpRequest_def get_client_def set_client_def on_stack_def method_simps bindj_def
        o m u p broadCast_def broadcast_def link_sendData_def sent_also_def request_frame_def)
qed

section \<open>The options of a reply\<close>

type_synonym dhcp_option = "u8 \<times> u8 list"

text \<open>An option of a type the client knows, with a value of the length it expects.\<close>

definition known_option :: "dhcp_option \<Rightarrow> bool" where
  "known_option op = (case op of (t, v) \<Rightarrow>
     t = 53 \<and> length v = 1 \<or> t \<in> {54, 1, 28, 3, 6, 15} \<and> length v < 128 \<or>
     t \<in> {51, 58, 59} \<and> length v = 4)"

definition option_bytes :: "dhcp_option \<Rightarrow> u8 list" where
  "option_bytes op = (case op of (t, v) \<Rightarrow> t # of_nat (length v) # v)"

text \<open>The message type an option carries moves the client on.\<close>

definition option_state :: "dhcp_option \<Rightarrow> dhcp_state \<Rightarrow> dhcp_state" where
  "option_state op st = (case op of (t, v) \<Rightarrow>
     if t = 53 then if v = [2] then REQUESTING else if v = [5] then ACK else st else st)"

lemma option_array_length_byte: "n < 128 \<Longrightarrow> option_array_length (of_nat n) = n"
  unfolding option_array_length_def
  by (simp only: signed_of_nat) (simp add: signed_take_bit_int_eq_self)

lemma read_message_option:
  assumes "a ! p = 53" and "p + 3 \<le> length a"
  shows "read_options a p st = read_options a (p + 3)
    (if a ! (p + 2) = 2 then REQUESTING else if a ! (p + 2) = 5 then ACK else st)"
  using assms by (subst read_options.simps) (simp add: Let_def)

lemma read_array_option:
  assumes "a ! p \<in> {54, 1, 28, 3, 6, 15}" and "a ! (p + 1) = of_nat n" and "n < 128"
    and "p + 2 + n \<le> length a"
  shows "read_options a p st = read_options a (p + 2 + n) st"
proof -
  have "a ! p \<noteq> 0xff" "a ! p \<noteq> 53" using assms(1) by auto
  with assms show ?thesis
    by (subst read_options.simps) (simp add: Let_def option_array_length_byte)
qed

lemma read_time_option:
  assumes "a ! p \<in> {51, 58, 59}" and "p + 6 \<le> length a"
  shows "read_options a p st = read_options a (p + 6) st"
proof -
  have "a ! p \<noteq> 0xff" "a ! p \<noteq> 53" "a ! p \<notin> {54, 1, 28, 3, 6, 15}" using assms(1) by auto
  with assms show ?thesis by (subst read_options.simps) (simp add: Let_def)
qed

lemma read_one_option:
  assumes "known_option op"
  shows "read_options (pre @ option_bytes op @ post) (length pre) st =
    read_options (pre @ option_bytes op @ post) (length (pre @ option_bytes op)) (option_state op st)"
proof -
  obtain t v where op: "op = (t, v)" by (cases op)
  let ?a = "pre @ option_bytes op @ post"
  have a: "?a ! length pre = t" "?a ! (length pre + 1) = of_nat (length v)"
    "length ?a = length pre + 2 + length v + length post"
    "length (pre @ option_bytes op) = length pre + 2 + length v"
    by (simp_all add: op option_bytes_def nth_append)
  from assms consider "t = 53" "length v = 1" | "t \<in> {54, 1, 28, 3, 6, 15}" "length v < 128"
    | "t \<in> {51, 58, 59}" "length v = 4"
    by (auto simp: known_option_def op)
  then show ?thesis
  proof cases
    case 1
    then obtain x where v: "v = [x]" by (cases v) auto
    have "?a ! (length pre + 2) = x" by (simp add: op option_bytes_def v nth_append)
    then show ?thesis
      using read_message_option [of ?a "length pre" st] a 1 v
      by (simp add: op option_state_def numeral_3_eq_3)
  next
    case 2
    moreover have "option_state op st = st" using 2(1) by (auto simp: op option_state_def)
    ultimately show ?thesis
      using read_array_option [of ?a "length pre" "length v" st] a by simp
  next
    case 3
    moreover have "option_state op st = st" using 3(1) by (auto simp: op option_state_def)
    ultimately show ?thesis
      using read_time_option [of ?a "length pre" st] a by simp
  qed
qed

lemma read_known_options:
  "\<forall>op \<in> set ops. known_option op \<Longrightarrow>
     read_options (pre @ concat (map option_bytes ops) @ 0xff # rest) (length pre) st =
       (Inr (), fold option_state ops st)"
proof (induction ops arbitrary: pre st)
  case Nil
  then show ?case by (subst read_options.simps) (simp add: nth_append)
next
  case (Cons op ops)
  then have "known_option op" and ops: "\<forall>op \<in> set ops. known_option op" by simp_all
  then show ?case
    using read_one_option [of op pre "concat (map option_bytes ops) @ 0xff # rest" st]
      Cons.IH [OF ops, of "pre @ option_bytes op" "option_state op st"]
    by simp
qed

section \<open>A reply\<close>

lemma readFirstPart_reply:
  assumes "length fixed = 240" and "fixed ! 0 = 2"
  shows "readFirstPart (fixed @ rest) (c, s) =
    (Inr True, (c\<lparr>server_supply_ip := Some (take 4 (drop 16 fixed))\<rparr>, s))"
  using assms
  by (cases fixed)
    (simp_all add: readFirstPart_def method_simps bindj_def get_byte_at_def bytes_at_def wrap_def
      set_position_def get_array_def set_client_def)

lemma reply_handled:
  assumes ready: "dhcp_ready own c s" and fixed: "length fixed = 240" "fixed ! 0 = 2"
    and ops: "\<forall>op \<in> set ops. known_option op"
  shows "dhcp_handleData (Some (fixed @ concat (map option_bytes ops) @ 0xff # rest)) (c, s) =
    (let ip = take 4 (drop 16 fixed);
         st = fold option_state ops (dhcp_current_state c);
         c' = c\<lparr>server_supply_ip := Some ip, dhcp_current_state := st\<rparr>
     in (Inr (),
         if st = REQUESTING
         then (c'\<lparr>dhcp_options_part := dhcp_request_options (device_mac (link s)) ip\<rparr>,
               sent_also [request_frame own c s ip] s)
         else (c', s)))"
proof -
  let ?data = "fixed @ concat (map option_bytes ops) @ 0xff # rest"
  let ?ip = "take 4 (drop 16 fixed)"
  let ?st = "fold option_state ops (dhcp_current_state c)"
  let ?c = "c\<lparr>server_supply_ip := Some ?ip, dhcp_current_state := ?st\<rparr>"
  have read: "read_options ?data 240 (dhcp_current_state c) = (Inr (), ?st)"
    using read_known_options [OF ops, of fixed rest] fixed(1) by simp
  have options: "readOptions ?data (c\<lparr>server_supply_ip := Some ?ip\<rparr>, s) =
      (if ?st = REQUESTING then dhcpRequest (?c, s) else (Inr (), (?c, s)))"
    using fixed(1)
    by (simp add: readOptions_def method_simps bindj_def set_position_def wrap_def read
        get_client_def trigger_action_by_state_def)
  have request: "dhcpRequest (?c, s) =
    (Inr (), (?c\<lparr>dhcp_options_part := dhcp_request_options (device_mac (link s)) ?ip\<rparr>,
      sent_also [request_frame own ?c s ?ip] s))"
    using ready fixed(1) by (intro dhcpRequest_broadcasts) (simp_all add: dhcp_ready_def)
  have "request_frame own ?c s ?ip = request_frame own c s ?ip"
    by (simp add: request_frame_def request_message_def)
  with request options show ?thesis
    by (cases "?st = REQUESTING")
      (simp_all add: dhcp_handleData_def method_simps bindj_def readFirstPart_reply [OF fixed] Let_def)
qed

text \<open>
  A reply of a DHCP server whose options the client knows is read to its end. The last message
  type among the options decides the state, the address is the one in the reply, and exactly if
  the state is then that of requesting, one request for that address is broadcast.
\<close>


text \<open>
  The message types of a refusal (DHCPNAK) and of anything else leave the state as it is: a
  client that is refused while it requests broadcasts a request again, for the address in the
  refusal.
\<close>

theorem refusal_is_answered_by_a_request:
  assumes "dhcp_ready own c s" and "length fixed = 240" and "fixed ! 0 = 2"
    and "dhcp_current_state c = REQUESTING"
  shows "\<exists>c'. dhcp_handleData (Some (fixed @ [53, 1, 6, 0xff])) (c, s) =
    (Inr (), (c', sent_also [request_frame own c s (take 4 (drop 16 fixed))] s)) \<and>
    dhcp_current_state c' = REQUESTING"
  using reply_handled [OF assms(1-3), of "[(53, [6])]" "[]"] assms(4)
  by (simp add: known_option_def option_bytes_def option_state_def Let_def)

end
