(* ===== verification/DnsLaws.thy ===== *)
theory DnsLaws
  imports Dns IpStackLaws
begin

text \<open>
  The DNS client: the question it encodes is read back as the domain, a reply that repeats the
  question and points to it from its answers is understood, and the replies it cannot read.
\<close>

section \<open>Domains and their encoding\<close>

definition labels_ok :: "u8 list list \<Rightarrow> bool" where
  "labels_ok ls \<longleftrightarrow> (\<forall>l \<in> set ls. l \<noteq> [] \<and> length l \<le> 63 \<and> dot \<notin> set l)"

fun join_labels :: "u8 list list \<Rightarrow> u8 list" where
  "join_labels [] = []"
| "join_labels [l] = l"
| "join_labels (l # ls) = l @ [dot] @ join_labels ls"

definition wire_labels :: "u8 list list \<Rightarrow> u8 list" where
  "wire_labels ls = concat (map (\<lambda>l. of_nat (length l) # l) ls)"

definition wire_name :: "u8 list list \<Rightarrow> u8 list" where
  "wire_name ls = wire_labels ls @ [0]"

lemma wire_name_simps [simp]:
  "wire_name [] = [0]" "wire_name (l # ls) = of_nat (length l) # l @ wire_name ls"
  by (simp_all add: wire_name_def wire_labels_def)

lemma labels_ok_Cons [simp]:
  "labels_ok (l # ls) \<longleftrightarrow> l \<noteq> [] \<and> length l \<le> 63 \<and> dot \<notin> set l \<and> labels_ok ls"
  by (auto simp: labels_ok_def)

lemma join_labels_Cons:
  "join_labels (l # ls) = l @ (if ls = [] then [] else dot # join_labels ls)"
  by (cases ls) simp_all

lemma parts_label:
  "dot \<notin> set l \<Longrightarrow> parts acc (l @ xs) = (case xs of [] \<Rightarrow> [acc @ l] | _ \<Rightarrow> parts (acc @ l) xs)"
  by (induction l arbitrary: acc) (auto split: list.splits)

lemma parts_no_dot: "dot \<notin> set l \<Longrightarrow> parts acc l = [acc @ l]"
  using parts_label [of l acc "[]"] by simp

lemma parts_join: "labels_ok ls \<Longrightarrow> ls \<noteq> [] \<Longrightarrow> parts [] (join_labels ls) = ls"
  by (induction ls rule: join_labels.induct) (auto simp: parts_label parts_no_dot)

lemma split_join:
  assumes "labels_ok ls" and "ls \<noteq> []"
  shows "split_dots (join_labels ls) = ls"
proof (cases "dot \<in> set (join_labels ls)")
  case True
  have "last ls \<noteq> []" using assms by (auto simp: labels_ok_def)
  then have "dropWhile (\<lambda>p. p = []) (rev ls) = rev ls"
    using assms(2) by (cases ls rule: rev_cases) simp_all
  with True assms show ?thesis by (simp add: split_dots_def parts_join)
next
  case False
  then have "join_labels ls = hd ls \<and> tl ls = []"
    using assms by (cases ls rule: join_labels.cases) auto
  with False assms(2) show ?thesis by (cases ls) (simp_all add: split_dots_def)
qed

lemma put_labels_filled [jbuffer]:
  "length (wire_labels ls) \<le> n \<Longrightarrow>
     put_labels ls (filled bs n) = Inr (filled (bs @ wire_labels ls) (n - length (wire_labels ls)))"
  by (induction ls arbitrary: bs n) (auto simp: wire_labels_def jbuffer)

lemma length_wire_labels:
  "labels_ok ls \<Longrightarrow> ls \<noteq> [] \<Longrightarrow> length (wire_labels ls) = length (join_labels ls) + 1"
  by (induction ls rule: join_labels.induct) (auto simp: wire_labels_def)

lemma question_bytes:
  assumes "labels_ok ls" and "ls \<noteq> []"
  shows "constructDNSPacketQuestion (join_labels ls) =
    Inr (wire_name ls @ be_bytes16 1 @ be_bytes16 1)"
proof -
  define n where "n = 1 + 1 + length (join_labels ls) + 2 + 2"
  have n: "n = length (wire_labels ls) + 5"
    by (simp add: n_def length_wire_labels [OF assms])
  show ?thesis
    unfolding constructDNSPacketQuestion_def n_def [symmetric] new_byte_array_nonneg bindr_simps
    by (simp add: jbuffer split_join [OF assms] n wire_name_def)
qed

section \<open>Reading names\<close>

lemma label_length_byte:
  assumes "length l \<le> 63"
  shows "\<not> isNameCompression (of_nat (length l))" and "nat (sint (of_nat (length l) :: u8)) = length l"
    and "l \<noteq> [] \<Longrightarrow> (of_nat (length l) :: u8) \<noteq> 0"
proof -
  let ?w = "of_nat (length l) :: u8"
  have u: "unat ?w = length l" using assms by (simp add: unat_of_nat)
  have "\<not> bit (length l) 6" using assms by (simp add: bit_iff_odd)
  then have "\<not> bit (unat ?w) 6" by (simp only: u not_False_eq_True)
  then have "\<not> bit ?w 6" by (simp only: bit_unsigned_iff) simp
  moreover have "push_bit 6 (1 :: u8) = 2 ^ 6" by simp
  ultimately have "?w AND push_bit 6 1 = 0"
    by (simp only: and_exp_eq_0_iff_not_bit not_False_eq_True)
  then show "\<not> isNameCompression ?w" by (simp add: isNameCompression_def)
  show "nat (sint ?w) = length l"
    using assms by (simp only: signed_of_nat) (simp add: signed_take_bit_int_eq_self)
  show "?w \<noteq> 0" if "l \<noteq> []" using that u by auto
qed

lemma read_name_wire:
  "labels_ok ls \<Longrightarrow>
     read_name depth (pre @ wire_name ls @ post) (length pre + 1) (hd (wire_name ls)) =
       Inr (join_labels ls, length pre + length (wire_name ls))"
proof (induction ls arbitrary: pre)
  case Nil
  then show ?case by (simp add: read_name.simps isNameCompression_def)
next
  case (Cons l ls)
  then have l: "length l \<le> 63" "l \<noteq> []" and ls: "labels_ok ls" by simp_all
  let ?pre = "pre @ of_nat (length l) # l"
  let ?a = "?pre @ wire_name ls @ post"
  obtain h t where w: "wire_name ls = h # t" by (cases ls) simp_all
  have h: "h \<noteq> 0 \<longleftrightarrow> ls \<noteq> []"
    using w ls label_length_byte(3) by (cases ls) auto
  have a: "?a ! (length pre + 1 + length l) = h" by (simp add: w nth_append)
  have rest: "read_name depth ?a (length pre + 1 + length l + 1) h =
      Inr (join_labels ls, length ?pre + length (wire_name ls))"
    using Cons.IH [OF ls, of ?pre] by (simp add: w)
  have "read_name depth ?a (length pre + 1) (of_nat (length l)) =
    bindr (read_name depth ?a (length pre + 1 + length l + 1) h) (\<lambda>(t, q).
      Inr (l @ (if h \<noteq> 0 then [dot] else []) @ t, q))"
    using label_length_byte [OF l(1)] l(2) a
    by (subst read_name.simps) (simp add: w Let_def)
  also have "\<dots> = Inr (join_labels (l # ls), length pre + length (wire_name (l # ls)))"
    unfolding rest by (simp add: h join_labels_Cons)
  finally show ?case by simp
qed

lemma readStringContent_wire:
  assumes "labels_ok ls" and "length pre = p"
  shows "readStringContent depth \<lparr>arr = pre @ wire_name ls @ post, pos = p\<rparr> =
    Inr (join_labels ls, \<lparr>arr = pre @ wire_name ls @ post, pos = p + length (wire_name ls)\<rparr>)"
proof -
  obtain h t where w: "wire_name ls = h # t" by (cases ls) simp_all
  show ?thesis
    using read_name_wire [OF assms(1), of depth pre post]
    by (simp add: readStringContent_def get_byte_def get_array_def w assms(2) [symmetric])
qed

section \<open>Reading a reply\<close>

text \<open>A buffer that has been read up to the end of \<open>xs\<close> and has \<open>ys\<close> left.\<close>

definition buf_at :: "u8 list \<Rightarrow> u8 list \<Rightarrow> jbuf" where
  "buf_at xs ys = \<lparr>arr = xs @ ys, pos = length xs\<rparr>"

named_theorems reading \<open>relative reads of a buffer in front of what they read\<close>

lemma arr_buf_at [simp]: "arr (buf_at xs ys) = xs @ ys"
  by (simp add: buf_at_def)

lemma get_array_at [reading]:
  "length a = n \<Longrightarrow> get_array n (buf_at xs (a @ ys)) = Inr (a, buf_at (xs @ a) ys)"
  by (simp add: get_array_def buf_at_def)

lemma get_byte_at [reading]: "get_byte (buf_at xs (a # ys)) = Inr (a, buf_at (xs @ [a]) ys)"
  using get_array_at [of "[a]" 1 xs ys] by (simp add: get_byte_def)

lemma get_short_at [reading]:
  "get_short (buf_at xs (be_bytes16 w @ ys)) = Inr (w, buf_at (xs @ be_bytes16 w) ys)"
  by (simp add: get_short_def reading)

lemma get_int_at [reading]:
  "get_int (buf_at xs (be_bytes32 w @ ys)) = Inr (w, buf_at (xs @ be_bytes32 w) ys)"
  by (simp add: get_int_def reading)

lemma readStringContent_at [reading]:
  "labels_ok ls \<Longrightarrow> readStringContent depth (buf_at xs (wire_name ls @ ys)) =
     Inr (join_labels ls, buf_at (xs @ wire_name ls) ys)"
  using readStringContent_wire [of ls xs "length xs" depth ys] by (simp add: buf_at_def)

text \<open>An address in a reply, its name a pointer to the question behind the header.\<close>

definition a_record :: "u16 \<times> u32 \<times> u8 list \<Rightarrow> u8 list" where
  "a_record r = (case r of (cls, ttl, ip) \<Rightarrow>
     [0xC0, 12] @ be_bytes16 1 @ be_bytes16 cls @ be_bytes32 ttl @ be_bytes16 4 @ ip)"

definition a_answer :: "u8 list \<Rightarrow> u16 \<times> u32 \<times> u8 list \<Rightarrow> dns_answer" where
  "a_answer name r = (case r of (cls, ttl, ip) \<Rightarrow>
     \<lparr>an_name = name, an_type = 1, an_class = cls, an_ttl = ttl, an_cname = None,
      an_address = Some ip\<rparr>)"

definition ip_of_record :: "u16 \<times> u32 \<times> u8 list \<Rightarrow> u8 list" where
  "ip_of_record r = snd (snd r)"

lemma answer_name_pointer:
  assumes "labels_ok ls" and "length hdr = 12"
    and "xs @ 0xC0 # 12 # ys = hdr @ wire_name ls @ tail"
  shows "answer_name depth (buf_at xs (0xC0 # 12 # ys)) =
    Inr (join_labels ls, buf_at (xs @ [0xC0, 12]) ys)"
proof -
  have c: "isNameCompression 0xC0" by (simp add: isNameCompression_def)
  have "set_position 12 (wrap (xs @ 0xC0 # 12 # ys)) =
      Inr \<lparr>arr = hdr @ wire_name ls @ tail, pos = 12\<rparr>"
    unfolding assms(3) using assms(2) by (simp add: set_position_def wrap_def)
  then show ?thesis
    using readStringContent_wire [OF assms(1,2), of depth tail] c
    by (simp add: answer_name_def reading)
qed

lemma readAnswers_records:
  assumes "labels_ok ls" and "length hdr = 12" and "\<forall>r \<in> set rs. length (ip_of_record r) = 4"
    and "xs @ concat (map a_record rs) @ ys = hdr @ wire_name ls @ tail"
  shows "readAnswers depth (length rs) (buf_at xs (concat (map a_record rs) @ ys)) =
    Inr (map (a_answer (join_labels ls)) rs, buf_at (xs @ concat (map a_record rs)) ys)"
  using assms(3,4)
proof (induction rs arbitrary: xs)
  case Nil
  then show ?case by simp
next
  case (Cons r rs)
  obtain cls ttl ip where r: "r = (cls, ttl, ip)" by (cases r)
  let ?ys = "concat (map a_record rs) @ ys"
  let ?rest = "be_bytes16 1 @ be_bytes16 cls @ be_bytes32 ttl @ be_bytes16 4 @ ip @ ?ys"
  have ip: "length ip = 4" using Cons.prems(1) by (simp add: r ip_of_record_def)
  have whole: "concat (map a_record (r # rs)) @ ys = 0xC0 # 12 # ?rest"
    by (simp add: r a_record_def)
  have name: "answer_name depth (buf_at xs (0xC0 # 12 # ?rest)) =
      Inr (join_labels ls, buf_at (xs @ [0xC0, 12]) ?rest)"
    using Cons.prems(2) assms(1,2) unfolding whole by (intro answer_name_pointer) simp_all
  have "readAnswers depth (length rs) (buf_at (xs @ a_record r) ?ys) =
      Inr (map (a_answer (join_labels ls)) rs,
        buf_at ((xs @ a_record r) @ concat (map a_record rs)) ys)"
    using Cons.prems by (intro Cons.IH) simp_all
  then have rest: "readAnswers depth (length rs) (buf_at (xs @ 0xC0 # 12 # be_bytes16 1 @ be_bytes16 cls
        @ be_bytes32 ttl @ be_bytes16 4 @ ip) ?ys) =
      Inr (map (a_answer (join_labels ls)) rs,
        buf_at (xs @ concat (map a_record (r # rs))) ys)"
    by (simp add: r a_record_def)
  show ?case
    unfolding whole
    by (simp add: name reading ip rest a_answer_def r)
qed

text \<open>A reply to the query of \<open>c\<close>: its question again, and the addresses of the domain.\<close>

definition dns_reply :: "dns \<Rightarrow> u16 \<Rightarrow> u16 \<Rightarrow> u16 \<Rightarrow> (u16 \<times> u32 \<times> u8 list) list \<Rightarrow> u8 list \<Rightarrow> u8 list" where
  "dns_reply c flags authorities additional rs rest =
     be_bytes16 (transition_id c) @ be_bytes16 flags @ be_bytes16 1 @ be_bytes16 (of_nat (length rs))
     @ be_bytes16 authorities @ be_bytes16 additional @ dns_question c
     @ concat (map a_record rs) @ rest"

lemma reply_read:
  assumes c: "DNSApplication idr portr dest (join_labels ls) = Inr c"
    and ls: "labels_ok ls" "ls \<noteq> []"
    and rs: "\<forall>r \<in> set rs. length (ip_of_record r) = 4" "length rs < 32768"
    and data: "u_data info = Some (dns_reply c flags authorities additional rs rest)"
  shows "dns_handleData depth c info =
    Inr (Some ([\<lparr>q_name = join_labels ls, q_type = 1, q_class = 1\<rparr>],
               map (a_answer (join_labels ls)) rs))"
proof -
  have q: "dns_question c = wire_name ls @ be_bytes16 1 @ be_bytes16 1"
    using c question_bytes [OF ls] by (auto simp: DNSApplication_def bindr_Inr_iff)
  let ?hdr = "be_bytes16 (transition_id c) @ be_bytes16 flags @ be_bytes16 1
     @ be_bytes16 (of_nat (length rs)) @ be_bytes16 authorities @ be_bytes16 additional"
  have n: "nat (sint (of_nat (length rs) :: u16)) = length rs" "nat (sint (1 :: u16)) = Suc 0"
    using rs(2) by (simp_all only: signed_of_nat) (simp_all add: signed_take_bit_int_eq_self)
  have start: "wrap (dns_reply c flags authorities additional rs rest) =
      buf_at [] (dns_reply c flags authorities additional rs rest)"
    by (simp add: wrap_def buf_at_def)
  have answers: "readAnswers depth (length rs) (buf_at
      (be_bytes16 (transition_id c) @ be_bytes16 flags @ be_bytes16 1
       @ be_bytes16 (of_nat (length rs)) @ be_bytes16 authorities @ be_bytes16 additional
       @ wire_name ls @ be_bytes16 1 @ be_bytes16 1)
      (concat (map a_record rs) @ rest)) =
    Inr (map (a_answer (join_labels ls)) rs, buf_at
      ((be_bytes16 (transition_id c) @ be_bytes16 flags @ be_bytes16 1
       @ be_bytes16 (of_nat (length rs)) @ be_bytes16 authorities @ be_bytes16 additional
       @ wire_name ls @ be_bytes16 1 @ be_bytes16 1) @ concat (map a_record rs)) rest)"
    by (rule readAnswers_records [OF ls(1), where hdr = ?hdr and
          tail = "be_bytes16 1 @ be_bytes16 1 @ concat (map a_record rs) @ rest"])
      (simp_all add: rs(1))
  show ?thesis
    using ls(1)
    by (simp add: dns_handleData_def data start) 
      (simp add: dns_reply_def q reading n answers del: of_nat_1)
qed

text \<open>
  A reply that repeats the question and answers it with any number of address records whose
  names point back to the question is read completely: the question is the domain that was
  asked for and the answers are its addresses, in order.
\<close>

text \<open>
  C11. The question the DNS client encodes is decoded again: a reply that repeats it and answers
  with any number of address records whose names point back to the question is read completely
  as the domain asked for and its addresses, in order.
\<close>

theorem dns_reply_understood:
  assumes "DNSApplication idr portr dest (join_labels ls) = Inr c"
    and "labels_ok ls" and "ls \<noteq> []"
    and "\<forall>r \<in> set rs. length (ip_of_record r) = 4" and "length rs < 32768"
    and "u_data info = Some (dns_reply c flags authorities additional rs rest)"
  shows "dns_handleData depth c info =
    Inr (Some ([\<lparr>q_name = join_labels ls, q_type = 1, q_class = 1\<rparr>],
               map (a_answer (join_labels ls)) rs))"
  by (rule reply_read [OF assms])

section \<open>Replies it cannot read\<close>

text \<open>
  The offset of a compressed name has 14 bits; the code takes its low byte, as a signed number.
  A pointer to 128 or further is an exception, whatever the reply holds there.
\<close>

theorem far_pointer_fails:
  assumes "isNameCompression first" and "bit o8 7"
  shows "answer_name depth (buf_at xs (first # o8 # ys)) = Inl IllegalArgument"
proof -
  have "sint o8 < 0" using assms(2) by (simp add: sint_uint signed_take_bit_negative_iff bit_uint_iff)
  then show ?thesis
    using assms(1) by (simp add: answer_name_def reading set_position_def)
qed

text \<open>A name that points to itself overflows the stack of the virtual machine, however large.\<close>

lemma self_pointer_overflows:
  assumes "isNameCompression first" and "length pre = k" and "k < 128"
  shows "read_name depth (pre @ first # of_nat k # post) (k + 1) first = Inl StackOverflow"
proof (induction depth)
  case 0
  have "sint (of_nat k :: u8) = int k"
    using assms(3) by (simp only: signed_of_nat) (simp add: signed_take_bit_int_eq_self)
  then show ?case
    using assms by (subst read_name.simps) (simp add: nth_append Let_def)
next
  case (Suc depth)
  have "sint (of_nat k :: u8) = int k"
    using assms(3) by (simp only: signed_of_nat) (simp add: signed_take_bit_int_eq_self)
  then show ?case
    using assms Suc by (subst read_name.simps) (simp add: nth_append Let_def)
qed

text \<open>
  An answer whose name is not compressed: its length byte has been consumed by the test for
  compression, so its first character is taken for the length of a label.
\<close>

lemma uncompressed_name_misread:
  assumes "\<not> isNameCompression first"
  shows "answer_name depth (buf_at xs (first # ys)) = readStringContent depth (buf_at (xs @ [first]) ys)"
  using assms by (simp add: answer_name_def reading)

end
