(* ===== verification/StackLaws.thy ===== *)
theory StackLaws
  imports StackMain TftpLaws DhcpLaws DnsLaws
begin

text \<open>
  The stack as a whole, as the transition system of everything that can happen to it: a packet
  comes in, an application is registered or starts to send. Its invariant: packets wait only
  as long as the router's hardware address is unknown, and only traceroute applications are
  told of ICMP messages.
\<close>

section \<open>Sending\<close>

definition waiting_ok :: "stack \<Rightarrow> bool" where
  "waiting_ok s \<longleftrightarrow> (\<forall>mac. router_known s mac \<longrightarrow> waiting s = [])"

text \<open>The condition an application's method keeps: nothing waits in vain, the receivers stay.\<close>

definition calm :: "nat list \<Rightarrow> stack \<Rightarrow> bool" where
  "calm rs s \<longleftrightarrow> waiting_ok s \<and> receivers s = rs"

lemma waiting_ok_sent [simp]: "waiting_ok (s\<lparr>sent := x\<rparr>) = waiting_ok s"
  by (simp add: waiting_ok_def router_known_def)

lemma waiting_ok_receivers [simp]: "waiting_ok (s\<lparr>receivers := x\<rparr>) = waiting_ok s"
  by (simp add: waiting_ok_def router_known_def)

lemma keeps_getj_bindj: "(\<And>s. P s \<Longrightarrow> keeps P (f (g s))) \<Longrightarrow> keeps P (bindj (getj g) f)"
  by (simp add: keeps_def bindj_def method_simps)

lemma link_sendData_calm [keeping]: "keeps (calm rs) (link_sendData d mac t)"
  by (auto simp: link_sendData_def calm_def split: option.split intro!: keeping)

lemma broadCast_calm [keeping]: "keeps (calm rs) (broadCast d)"
  unfolding broadCast_def by (rule keeping)

lemma link_sendData_sent: "\<exists>ps. link_sendData d mac t s = (Inr (), s\<lparr>sent := sent s @ ps\<rparr>)"
  by (auto simp: link_sendData_def method_simps split: option.split)
    (rule exI [of _ "[]"], simp)

lemma prepareRouterMac_sent: "\<exists>r ps. prepareRouterMac s = (r, s\<lparr>sent := sent s @ ps\<rparr>)"
proof -
  have "\<exists>ps. s = s\<lparr>sent := sent s @ ps\<rparr>" by (rule exI [of _ "[]"]) simp
  then show ?thesis
    using link_sendData_sent
    by (auto simp: prepareRouterMac_def bindj_def method_simps split: sum.split prod.split) metis+
qed

lemma getRouterMac_eq:
  "getRouterMac s = (case router s of None \<Rightarrow> (Inl NullPointer, s)
     | Some r \<Rightarrow> (Inr (table_get (mac_table s) (Some r)), s))"
  by (simp add: getRouterMac_def bindj_def method_simps split: option.split)

lemma sendData_calm [keeping]: "keeps (calm rs) (sendData d ip)"
  unfolding keeps_def
proof (intro allI impI)
  fix s assume s: "calm rs s"
  obtain e ps where p: "prepareRouterMac s = (e, s\<lparr>sent := sent s @ ps\<rparr>)"
    using prepareRouterMac_sent by blast
  show "calm rs (snd (sendData d ip s))"
  proof (cases "\<exists>mac. router_known s mac")
    case True
    then obtain r mac where r: "router s = Some r" "table_get (mac_table s) (Some r) = Some mac"
      by (auto simp: router_known_def)
    have "sendData d ip s = link_sendData d (Some mac) 0x0800 s"
      by (simp add: sendData_def bindj_def getRouterMac_eq r)
    then show ?thesis using keepsD [OF link_sendData_calm s] by simp
  next
    case False
    then have ok: "waiting_ok (s\<lparr>sent := x, waiting := w\<rparr>)" for x w
      by (auto simp: waiting_ok_def router_known_def)
    have "router s = None \<or> (\<exists>r. router s = Some r \<and> table_get (mac_table s) (Some r) = None)"
      using False by (auto simp: router_known_def; metis option.exhaust)
    then show ?thesis
      using s ok p
      by (cases e) (auto simp: sendData_def bindj_def getRouterMac_eq calm_def method_simps)
  qed
qed

text \<open>Whatever was waiting, after \<open>sendWaitingData\<close> nothing waits for a router that is known.\<close>

lemma for_each_link_sendData:
  "\<exists>ps. for_each xs (\<lambda>(k, d). link_sendData d mac t) s = (Inr (), s\<lparr>sent := sent s @ ps\<rparr>)"
proof (induction xs arbitrary: s)
  case Nil
  show ?case by (rule exI [of _ "[]"]) (simp add: method_simps)
next
  case (Cons x xs)
  obtain k d where x: "x = (k, d)" by (cases x)
  obtain p where p: "link_sendData d mac t s = (Inr (), s\<lparr>sent := sent s @ p\<rparr>)"
    using link_sendData_sent by blast
  obtain q where q: "for_each xs (\<lambda>(k, d). link_sendData d mac t) (s\<lparr>sent := sent s @ p\<rparr>) =
      (Inr (), s\<lparr>sent := (sent s @ p) @ q\<rparr>)"
    using Cons.IH [of "s\<lparr>sent := sent s @ p\<rparr>"] by auto
  then show ?case by (intro exI [of _ "p @ q"]) (simp add: x bindj_def p)
qed

lemma sendWaitingData_calm:
  assumes "receivers s = rs"
  shows "calm rs (snd (sendWaitingData order s))"
proof (cases "\<exists>mac. router_known s mac")
  case True
  then obtain r mac where r: "router s = Some r" "table_get (mac_table s) (Some r) = Some mac"
    by (auto simp: router_known_def)
  obtain ps where ps: "for_each (order (waiting s)) (\<lambda>(k, d). link_sendData d (Some mac) 0x0800) s =
      (Inr (), s\<lparr>sent := sent s @ ps\<rparr>)"
    using for_each_link_sendData by blast
  have "sendWaitingData order s = (Inr (), s\<lparr>sent := sent s @ ps, waiting := []\<rparr>)"
    using ps by (simp add: sendWaitingData_def bindj_def getRouterMac_eq r method_simps)
  then show ?thesis using assms by (simp add: calm_def waiting_ok_def)
next
  case False
  then have "router s = None \<or> (\<exists>r. router s = Some r \<and> table_get (mac_table s) (Some r) = None)"
    by (auto simp: router_known_def; metis option.exhaust)
  then have "snd (sendWaitingData order s) = s"
    by (auto simp: sendWaitingData_def bindj_def getRouterMac_eq method_simps)
  then show ?thesis using False assms by (simp add: calm_def waiting_ok_def)
qed

lemma receive_arp_calm [keeping]: "keeps (calm rs) (receive_arp order p)"
  unfolding keeps_def
proof (intro allI impI)
  fix s assume s: "calm rs s"
  show "calm rs (snd (receive_arp order p s))"
  proof (cases "arp_handlePacket (link s) p")
    case (Inl e)
    then show ?thesis using s by (simp add: receive_arp_def bindj_def method_simps)
  next
    case (Inr info)
    have "receivers s = rs" using s by (simp add: calm_def)
    then show ?thesis
      by (simp add: receive_arp_def bindj_def method_simps Inr sendWaitingData_calm)
  qed
qed

section \<open>The applications\<close>

text \<open>Conditions on the stack lift to the methods of an application.\<close>

definition lifted :: "(stack \<Rightarrow> bool) \<Rightarrow> 'c \<times> stack \<Rightarrow> bool" where
  "lifted P cs = P (snd cs)"

lemma on_stack_keeps [keeping]: "keeps P m \<Longrightarrow> keeps (lifted P) (on_stack m)"
  by (auto simp: keeps_def on_stack_def lifted_def split: prod.splits; metis snd_conv)

lemma client_keeps [keeping]:
  "keeps (lifted P) (get_client f)" "keeps (lifted P) (set_client g)"
  by (auto simp: keeps_def get_client_def set_client_def lifted_def method_simps)

text \<open>
  What the clients ask of the manager: a condition on its state that sending and broadcasting
  keep is kept by everything a client does.
\<close>

locale packet_sender =
  fixes P :: "stack \<Rightarrow> bool"
  assumes keeps_sendData [keeping]: "keeps P (sendData d ip)"
    and keeps_broadCast [keeping]: "keeps P (broadCast d)"
begin

lemma keeps_tftp_send [keeping]:
  "keeps (lifted P) (tftp_send msg)"
  "keeps (lifted P) (write_block b)"
  "keeps (lifted P) close_stream"
  unfolding tftp_send_def write_block_def close_stream_def
  by (auto intro!: keeping split: file_stream.split)

lemma keeps_getFile [keeping]: "keeps (lifted P) (getFile opens name)"
  unfolding getFile_def sendReadPacket_def by (auto intro!: keeping)

lemma keeps_tftp_handleData [keeping]: "keeps (lifted P) (tftp_handleData info)"
  unfolding tftp_handleData_def handleDataPacket_def handleErrorPacket_def sendACKPacket_def Let_def
  by (auto intro!: keeping split: option.split)

lemma keeps_startPing [keeping]: "keeps (lifted P) (startPing now)"
  unfolding startPing_def createPackage_def createICMPHeader_def ping_createICMPHeader_def
    hping_createICMPHeader_def Let_def
  by (auto intro!: keeping split: option.split)

lemma keeps_dhcpRequest [keeping]: "keeps (lifted P) dhcpRequest"
  unfolding dhcpRequest_def by (auto intro!: keeping split: option.split)

lemma keeps_dhcp [keeping]:
  "keeps (lifted P) dhcpDiscovery"
  "keeps (lifted P) (dhcp_handleData r)"
proof -
  show "keeps (lifted P) dhcpDiscovery"
    unfolding dhcpDiscovery_def by (auto intro!: keeping split: option.split)
  have st: "keeps (lifted P) (\<lambda>(c, s). case f c of (r, st) \<Rightarrow> (r, (g c st, s)))" for f and g :: "'x \<Rightarrow> 'y \<Rightarrow> 'x"
    by (auto simp: keeps_def lifted_def split: prod.split)
  show "keeps (lifted P) (dhcp_handleData r)"
    unfolding dhcp_handleData_def readFirstPart_def readOptions_def trigger_action_by_state_def
    by (auto intro!: keeping st split: prod.split)
qed

lemma keeps_queryDomain [keeping]: "keeps P (queryDomain c)"
  unfolding queryDomain_def by (auto intro!: keeping)

end

text \<open>A traceroute application, number \<open>i\<close>, also registers itself for ICMP messages.\<close>

locale icmp_registrar = packet_sender +
  fixes i :: nat
  assumes keeps_regist [keeping]: "keeps P (registToReceiveICMPPacket i)"
begin

lemma keeps_startTraceRoute [keeping]: "keeps (lifted P) (startTraceRoute i)"
  unfolding startTraceRoute_def by (auto intro!: keeping)

lemma keeps_trace_handleData [keeping]: "keeps (lifted P) (trace_handleData i info source)"
  unfolding trace_handleData_def by (auto intro!: keeping)

end

interpretation calm: packet_sender "calm rs" for rs
  by unfold_locales (rule keeping)+

text \<open>It does so once.\<close>

definition joined :: "nat \<Rightarrow> nat list \<Rightarrow> stack \<Rightarrow> bool" where
  "joined i rs s \<longleftrightarrow>
     waiting_ok s \<and> (receivers s = rs \<or> i \<notin> set rs \<and> receivers s = rs @ [i])"

lemma joined_if_calm:
  assumes "\<And>rs. keeps (calm rs) m"
  shows "keeps (joined i rs) m"
  unfolding keeps_def
proof (intro allI impI)
  fix s assume s: "joined i rs s"
  then have "calm (receivers s) s" by (simp add: calm_def joined_def)
  then have "calm (receivers s) (snd (m s))" by (rule keepsD [OF assms])
  with s show "joined i rs (snd (m s))" by (auto simp: calm_def joined_def)
qed

lemma regist_joined [keeping]: "keeps (joined i rs) (registToReceiveICMPPacket i)"
  unfolding registToReceiveICMPPacket_def by (rule keeps_setj) (auto simp: joined_def)

interpretation joined: icmp_registrar "joined i rs" i for i rs
  by unfold_locales (auto intro: joined_if_calm keeping)

section \<open>The invariant\<close>

fun is_trace :: "app \<Rightarrow> bool" where
  "is_trace (TraceApplication c) = True"
| "is_trace a = False"

definition stack_inv :: "endpoint \<Rightarrow> bool" where
  "stack_inv h \<longleftrightarrow> (case h of (apps, s) \<Rightarrow>
     waiting_ok s \<and> distinct (receivers s) \<and>
     (\<forall>i \<in> set (receivers s). i < length apps \<and> is_trace (apps ! i)))"

lemma is_trace_share [simp]: "is_trace (share_statics a b) = is_trace b"
  by (cases a; cases b) simp_all

lemma share_trace [simp]: "share_statics (TraceApplication c) b = b"
  by (cases b) simp_all

lemma with_app_calm:
  assumes "stack_inv (apps, s)" and "apps ! i = w c" and "\<And>c'. is_trace (w c') = is_trace (w c)"
    and "\<And>rs. keeps (lifted (calm rs)) m"
  shows "stack_inv (snd (with_app i w c m (apps, s)))"
proof -
  obtain r c' s' where m: "m (c, s) = (r, (c', s'))" by (metis prod.exhaust)
  have "lifted (calm (receivers s)) (c, s)"
    using assms(1) by (simp add: stack_inv_def lifted_def calm_def)
  from keepsD [OF assms(4) this] have "calm (receivers s) s'" by (simp add: m lifted_def)
  moreover have "is_trace (apps[i := w c'] ! j) = is_trace (apps ! j)" if "j < length apps" for j
    using that assms(2) assms(3) [of c'] by (cases "j = i") simp_all
  ultimately show ?thesis
    using assms(1) by (auto simp: stack_inv_def with_app_def m calm_def)
qed

lemma with_app_joined:
  assumes "stack_inv (apps, s)" and "apps ! i = TraceApplication c" and "i < length apps"
    and "\<And>rs. keeps (lifted (joined i rs)) m"
  shows "stack_inv (snd (with_app i TraceApplication c m (apps, s)))"
proof -
  obtain r c' s' where m: "m (c, s) = (r, (c', s'))" by (metis prod.exhaust)
  have "lifted (joined i (receivers s)) (c, s)"
    using assms(1) by (simp add: stack_inv_def lifted_def joined_def)
  from keepsD [OF assms(4) this] have "joined i (receivers s) s'" by (simp add: m lifted_def)
  then show ?thesis
    using assms(1-3) by (auto simp: stack_inv_def with_app_def m joined_def nth_list_update)
qed

lemma on_manager_calm:
  assumes "\<And>rs. keeps (calm rs) m"
  shows "keeps stack_inv (on_manager m)"
  unfolding keeps_def
proof (intro allI impI)
  fix h assume h: "stack_inv h"
  obtain apps s where hs: "h = (apps, s)" by (cases h)
  obtain r t where m: "m s = (r, t)" by (cases "m s")
  have "calm (receivers s) s" using h by (simp add: hs stack_inv_def calm_def)
  from keepsD [OF assms this] have "calm (receivers s) t" by (simp add: m)
  then show "stack_inv (snd (on_manager m h))"
    using h by (auto simp: hs on_manager_def m stack_inv_def calm_def)
qed

text \<open>The handlers, for a number of applications that stays as it is.\<close>

definition sized_inv :: "nat \<Rightarrow> endpoint \<Rightarrow> bool" where
  "sized_inv n h \<longleftrightarrow> length (fst h) = n \<and> stack_inv h"

lemma with_app_length [simp]: "length (fst (snd (with_app i w c m (apps, s)))) = length apps"
  by (auto simp: with_app_def split: prod.split)

lemma on_manager_fst [simp]: "fst (snd (on_manager m h)) = fst h"
  by (auto simp: on_manager_def split: prod.split)

lemma on_manager_sized [keeping]:
  "(\<And>rs. keeps (calm rs) m) \<Longrightarrow> keeps (sized_inv n) (on_manager m)"
  using on_manager_calm [of m] by (auto simp: keeps_def sized_inv_def)

lemma handle_udp_data_inv [keeping]: "keeps (sized_inv n) (handle_udp_data depth i info)"
  unfolding keeps_def
proof (intro allI impI)
  fix h assume h: "sized_inv n h"
  obtain apps s where hs: "h = (apps, s)" by (cases h)
  have inv: "stack_inv (apps, s)" and n: "length apps = n" using h by (simp_all add: hs sized_inv_def)
  show "sized_inv n (snd (handle_udp_data depth i info h))"
    using inv n
    by (cases "apps ! i")
      (auto simp: hs handle_udp_data_def sized_inv_def method_simps intro!: with_app_calm keeping)
qed

lemma handle_icmp_data_inv:
  assumes "i < n"
  shows "keeps (sized_inv n) (handle_icmp_data depth i info ip)"
  unfolding keeps_def
proof (intro allI impI)
  fix h assume h: "sized_inv n h"
  obtain apps s where hs: "h = (apps, s)" by (cases h)
  have inv: "stack_inv (apps, s)" and n: "length apps = n" using h by (simp_all add: hs sized_inv_def)
  show "sized_inv n (snd (handle_icmp_data depth i info ip h))"
    using inv n assms
    by (cases "apps ! i")
      (auto simp: hs handle_icmp_data_def sized_inv_def method_simps
        intro!: with_app_calm with_app_joined keeping)
qed

lemma keeps_for_each_in:
  "(\<And>x. x \<in> set xs \<Longrightarrow> keeps P (f x)) \<Longrightarrow> keeps P (for_each xs f)"
  by (induction xs) (auto intro!: keeping)

lemma handleICMPPacket_inv [keeping]: "keeps (sized_inv n) (handleICMPPacket depth p ip)"
proof -
  have "keeps (sized_inv n) (bindj (on_manager (getj receivers)) (\<lambda>rs.
      for_each rs (\<lambda>i. handle_icmp_data depth i info ip)))" for info
  proof -
    have "on_manager (getj receivers) = getj (\<lambda>h. receivers (snd h))"
      by (auto simp: on_manager_def method_simps fun_eq_iff)
    then show ?thesis
      by (simp only:) (rule keeps_getj_bindj, rule keeps_for_each_in, rule handle_icmp_data_inv,
        auto simp: sized_inv_def stack_inv_def split: prod.splits)
  qed
  from keeps_bindj [OF keeps_basic(2) keeps_bindj [OF keeps_basic(2) this]]
  show ?thesis unfolding handleICMPPacket_def .
qed

lemma receivePacket_inv: "keeps (sized_inv n) (receivePacket order depth p)"
proof -
  have "keeps (sized_inv n) (handleUDPPacket depth q)" for q
    unfolding handleUDPPacket_def by (auto intro!: keeping split: option.split)
  then have "keeps (sized_inv n) (handleIPPacket depth q)" for q
    unfolding handleIPPacket_def Let_def by (auto intro!: keeping split: option.split)
  then show ?thesis
    unfolding receivePacket_def by (auto intro!: keeping split: option.split datalink.split)
qed

section \<open>The transition system\<close>

text \<open>
  What can happen to a running stack: a packet comes in, an application is created, and an
  application of each kind does what its user asks for.
\<close>

inductive stack_step :: "endpoint \<Rightarrow> endpoint \<Rightarrow> bool" where
  Receive: "stack_step h (snd (receivePacket order depth p h))"
| Create: "stack_step (apps, s) (addApplication a apps, s)"
| Ping: "i < length apps \<Longrightarrow> apps ! i = PingApplication c \<Longrightarrow>
    stack_step (apps, s) (snd (with_app i PingApplication c (startPing now) (apps, s)))"
| Trace: "i < length apps \<Longrightarrow> apps ! i = TraceApplication c \<Longrightarrow>
    stack_step (apps, s) (snd (with_app i TraceApplication c (startTraceRoute i) (apps, s)))"
| Download: "i < length apps \<Longrightarrow> apps ! i = TftpApplication c \<Longrightarrow>
    stack_step (apps, s) (snd (with_app i TftpApplication c (getFile opens name) (apps, s)))"
| Query: "stack_step (apps, s) (apps, snd (queryDomain c s))"
| Discover: "i < length apps \<Longrightarrow> apps ! i = DhcpApplication c \<Longrightarrow>
    stack_step (apps, s) (snd (with_app i DhcpApplication c dhcpDiscovery (apps, s)))"

inductive stack_reachable :: "data_link \<Rightarrow> u8 list option \<Rightarrow> endpoint \<Rightarrow> bool"
  for dl :: data_link and r :: "u8 list option" where
  Start: "stack_reachable dl r ([], getInstance dl r)"
| Step: "stack_reachable dl r h \<Longrightarrow> stack_step h h' \<Longrightarrow> stack_reachable dl r h'"

inductive_cases stack_stepE: "stack_step h h'"

lemma stack_inv_start: "stack_inv ([], getInstance dl r)"
proof -
  obtain e ps where "prepareRouterMac (new_stack dl r) =
      (e, (new_stack dl r)\<lparr>sent := sent (new_stack dl r) @ ps\<rparr>)"
    using prepareRouterMac_sent by blast
  then have "getInstance dl r = (new_stack dl r)\<lparr>sent := ps\<rparr>"
    by (cases e) (auto simp: getInstance_def tryj_def new_stack_def)
  then show ?thesis by (simp add: stack_inv_def new_stack_def waiting_ok_def)
qed

lemma stack_inv_step:
  assumes "stack_step h h'" and "stack_inv h"
  shows "stack_inv h'"
  using assms
proof (cases rule: stack_step.cases)
  case (Receive order depth p)
  then show ?thesis
    using keepsD [OF receivePacket_inv, of "length (fst h)" h] assms(2) by (simp add: sized_inv_def)
next
  case (Create apps s a)
  then show ?thesis using assms(2) by (auto simp: stack_inv_def addApplication_def Let_def nth_append)
next
  case (Query apps s c)
  have "apps = fst h" "(apps, snd (queryDomain c s)) = snd (on_manager (queryDomain c) (apps, s))"
    using Query by (auto simp: on_manager_def split: prod.split)
  then show ?thesis
    using keepsD [OF on_manager_calm [OF calm.keeps_queryDomain], of h c] Query assms(2) by simp
qed (auto intro!: with_app_calm with_app_joined keeping)

text \<open>
  In every state the stack can get into, packets wait only while the router's hardware address
  is unknown, no application is registered twice for ICMP messages, and only traceroute
  applications are.
\<close>

text \<open>
  C7. In every state the stack can get into, whatever packets arrive and whatever its
  applications do, packets wait only while the hardware address of the router is unknown, no
  application is registered twice for ICMP messages, and only traceroute applications are.
\<close>

theorem packets_wait_only_for_router:
  assumes "stack_reachable dl r (apps, s)"
  shows "(\<forall>mac. router_known s mac \<longrightarrow> waiting s = []) \<and> distinct (receivers s) \<and>
    (\<forall>i \<in> set (receivers s). i < length apps \<and> is_trace (apps ! i))"
proof -
  have "stack_inv h" if "stack_reachable dl r h" for h
    using that by induction (auto intro: stack_inv_start stack_inv_step)
  from this [OF assms] show ?thesis by (auto simp: stack_inv_def waiting_ok_def)
qed

section \<open>Conditions on the manager\<close>

text \<open>
  A condition that each operation of the manager keeps holds in every state of the stack if it
  holds at the start.
\<close>

locale manager_condition = packet_sender +
  assumes keeps_register: "keeps P (registToReceiveICMPPacket i)"
    and keeps_receive_arp: "keeps P (receive_arp order p)"

sublocale manager_condition \<subseteq> icmp_registrar P i for i
  by unfold_locales (rule keeps_register)

context manager_condition
begin

lemma with_app_keeps:
  assumes "P s" and "keeps (lifted P) m"
  shows "P (snd (snd (with_app i w c m (apps, s))))"
  using keepsD [OF assms(2), of "(c, s)"] assms(1)
  by (auto simp: with_app_def lifted_def split: prod.split)

lemma on_manager_keeps [keeping]: "keeps P m \<Longrightarrow> keeps (\<lambda>h. P (snd h)) (on_manager m)"
  by (auto simp: keeps_def on_manager_def split: prod.splits)

lemma handle_data_keeps [keeping]:
  "keeps (\<lambda>h. P (snd h)) (handle_udp_data depth i info)"
  "keeps (\<lambda>h. P (snd h)) (handle_icmp_data depth i msg ip)"
  unfolding keeps_def
  by (auto simp: handle_udp_data_def handle_icmp_data_def method_simps split: app.split
      intro!: with_app_keeps keeping)

lemma receivePacket_keeps: "keeps (\<lambda>h. P (snd h)) (receivePacket order depth p)"
proof -
  have "keeps (\<lambda>h. P (snd h)) (handleUDPPacket depth q)"
    "keeps (\<lambda>h. P (snd h)) (handleICMPPacket depth q ip)" for q ip
    unfolding handleUDPPacket_def handleICMPPacket_def
    by (auto intro!: keeping split: option.split)
  then have "keeps (\<lambda>h. P (snd h)) (handleIPPacket depth q)" for q
    unfolding handleIPPacket_def Let_def by (auto intro!: keeping split: option.split)
  then show ?thesis
    unfolding receivePacket_def
    by (auto intro!: keeping keeps_receive_arp split: option.split datalink.split)
qed

lemma stack_step_keeps:
  assumes "stack_step h h'" and "P (snd h)"
  shows "P (snd h')"
  using assms
proof (cases rule: stack_step.cases)
  case (Receive order depth p)
  then show ?thesis using keepsD [OF receivePacket_keeps, of h] assms(2) by simp
next
  case (Query apps s c)
  then show ?thesis using keepsD [OF keeps_queryDomain] assms(2) by simp
qed (use assms(2) in \<open>auto intro!: with_app_keeps keeping\<close>)

lemma reachable_keeps: "stack_reachable dl r h \<Longrightarrow> P (getInstance dl r) \<Longrightarrow> P (snd h)"
  by (induction rule: stack_reachable.induct) (auto intro: stack_step_keeps)

end

text \<open>The card and the address of the router stay what they were at the start.\<close>

definition settled :: "data_link \<Rightarrow> u8 list option \<Rightarrow> stack \<Rightarrow> bool" where
  "settled dl r s \<longleftrightarrow> link s = dl \<and> router s = r"

lemma settled_sent [simp]: "settled dl r (s\<lparr>sent := x\<rparr>) = settled dl r s"
  by (simp add: settled_def)

lemma link_sendData_settled [keeping]: "keeps (settled dl r) (link_sendData d mac t)"
  by (auto simp: link_sendData_def split: option.split intro!: keeping)

lemma prepareRouterMac_settled [keeping]: "keeps (settled dl r) prepareRouterMac"
  unfolding prepareRouterMac_def by (auto intro!: keeping split: option.split)

lemma getRouterMac_settled [keeping]: "keeps P getRouterMac"
  by (auto simp: keeps_def getRouterMac_eq split: option.split)

interpretation settled: manager_condition "settled dl r" for dl r
proof
  show "keeps (settled dl r) (sendData d ip)" for d ip
    unfolding sendData_def by (auto intro!: keeping simp: settled_def split: option.split)
  show "keeps (settled dl r) (broadCast d)" for d
    unfolding broadCast_def by (rule keeping)
  show "keeps (settled dl r) (registToReceiveICMPPacket i)" for i
    unfolding registToReceiveICMPPacket_def by (rule keeps_setj) (simp add: settled_def)
  show "keeps (settled dl r) (receive_arp order p)" for order p
    unfolding receive_arp_def sendWaitingData_def
    by (auto intro!: keeping simp: settled_def split: option.split prod.split)
qed

lemma settled_always: "stack_reachable dl r (apps, s) \<Longrightarrow> link s = dl \<and> router s = r"
proof -
  assume "stack_reachable dl r (apps, s)"
  moreover have "settled dl r (getInstance dl r)"
    using keepsD [OF prepareRouterMac_settled, of dl r "new_stack dl r"]
    by (auto simp: getInstance_def tryj_def new_stack_def settled_def split: prod.splits sum.splits)
  ultimately show ?thesis using settled.reachable_keeps [of dl r "(apps, s)"] by (simp add: settled_def)
qed

section \<open>Static fields\<close>

text \<open>All objects of a class hold the same values of its static fields.\<close>

definition statics_agree :: "app list \<Rightarrow> bool" where
  "statics_agree apps \<longleftrightarrow> (\<forall>a \<in> set apps. \<forall>b \<in> set apps. share_statics a b = b)"

definition agreeing :: "endpoint \<Rightarrow> bool" where
  "agreeing h \<longleftrightarrow> statics_agree (fst h)"

lemma share_self [simp]: "share_statics a a = a"
  by (cases a) simp_all

lemma share_shared:
  "share_statics y z = z \<Longrightarrow> share_statics (share_statics a y) (share_statics a z) = share_statics a z"
  by (cases a; cases y; cases z) simp_all

lemma share_given [simp]:
  "share_statics a (share_statics a z) = share_statics a z"
  "share_statics (share_statics a y) a = a"
  by (cases a; cases z; simp) (cases a; cases y; simp)

lemma agree_shared:
  assumes "statics_agree apps" and "set bs \<subseteq> insert a (set apps)"
  shows "statics_agree (map (share_statics a) bs)"
proof -
  have "share_statics (share_statics a y) (share_statics a z) = share_statics a z"
    if "y \<in> insert a (set apps)" and "z \<in> insert a (set apps)" for y z
  proof (cases "z = a")
    case True
    then show ?thesis by simp
  next
    case False
    with that(2) have z: "z \<in> set apps" by simp
    show ?thesis
    proof (cases "y = a")
      case True
      then show ?thesis by simp
    next
      case False
      with that(1) z assms(1) show ?thesis by (intro share_shared) (simp add: statics_agree_def)
    qed
  qed
  with assms(2) show ?thesis by (simp add: statics_agree_def) blast
qed

lemma with_app_agrees:
  assumes "agreeing (apps, s)"
  shows "agreeing (snd (with_app i w c m (apps, s)))"
proof -
  have "statics_agree (map (share_statics a) (apps[i := a]))" for a
    using assms set_update_subset_insert [of apps i a] by (intro agree_shared) (simp_all add: agreeing_def)
  then show ?thesis by (simp add: with_app_def agreeing_def split: prod.split)
qed

lemma add_agrees: "statics_agree apps \<Longrightarrow> statics_agree (addApplication a apps)"
  using agree_shared [of apps "apps @ [found_state a apps]" "found_state a apps"]
  by (simp add: addApplication_def Let_def)

lemma on_manager_agrees [keeping]: "keeps agreeing (on_manager m)"
  by (simp add: keeps_def agreeing_def)

lemma handle_data_agrees [keeping]:
  "keeps agreeing (handle_udp_data depth i info)" "keeps agreeing (handle_icmp_data depth i msg ip)"
  unfolding keeps_def
  by (auto simp: handle_udp_data_def handle_icmp_data_def method_simps split: app.split
      intro: with_app_agrees)

lemma receivePacket_agrees: "keeps agreeing (receivePacket order depth p)"
proof -
  have "keeps agreeing (handleUDPPacket depth q)" "keeps agreeing (handleICMPPacket depth q ip)" for q ip
    unfolding handleUDPPacket_def handleICMPPacket_def
    by (auto intro!: keeping keeps_for_each_in split: option.split)
  then have "keeps agreeing (handleIPPacket depth q)" for q
    unfolding handleIPPacket_def Let_def by (auto intro!: keeping split: option.split)
  then show ?thesis
    unfolding receivePacket_def by (auto intro!: keeping split: option.split datalink.split)
qed

lemma stack_step_agrees:
  assumes "stack_step h h'" and "agreeing h"
  shows "agreeing h'"
  using assms
proof (cases rule: stack_step.cases)
  case (Receive order depth p)
  then show ?thesis using keepsD [OF receivePacket_agrees] assms(2) by simp
next
  case (Create apps s a)
  then show ?thesis using assms(2) by (simp add: agreeing_def add_agrees)
next
  case (Query apps s c)
  then show ?thesis using assms(2) by (simp add: agreeing_def)
qed (use with_app_agrees assms(2) in auto)

lemma statics_always_agree: "stack_reachable dl r h \<Longrightarrow> statics_agree (fst h)"
proof (induction rule: stack_reachable.induct)
  case Start
  show ?case by (simp add: statics_agree_def)
next
  case (Step h h')
  then show ?case using stack_step_agrees [of h h'] by (simp add: agreeing_def)
qed

text \<open>
  So a second TFTP client, as soon as it is made, turns the acknowledgements of a transfer that is
  under way to port 69.
\<close>

lemma second_client_resets_port:
  assumes "apps ! i = TftpApplication c" and "i < length apps"
  shows "addApplication (TftpApplication (TFTPClient ip)) apps ! i = TftpApplication (c\<lparr>server_port := 69\<rparr>)"
proof -
  have "found_state (TftpApplication d) as = TftpApplication d" for d as
    by (induction as) simp_all
  then show ?thesis using assms by (simp add: addApplication_def TFTPClient_def Let_def nth_append)
qed

end
