(* ===== verification/StackFlow.thy ===== *)
theory StackFlow
  imports StackLaws RoundTrip
begin

text \<open>
  What flows through the whole stack: IP packets from one stack to another, UDP datagrams from
  Jpcap's sender on one machine to an application on another, packets that wait for the router.
\<close>

section \<open>IP packets from one stack to another\<close>

lemma ip_payload_whole:
  assumes "m ! 14 = 0x45" and "be16 (m ! 16) (m ! 17) = of_nat (20 + length payload)"
    and "20 + length payload < 32768" and "drop 34 m = payload @ pad" and "34 \<le> length m"
  shows "ip_payload m = Inr payload"
proof -
  have n: "sint (of_nat (20 + length payload) :: u16) = int (20 + length payload)"
    using assms(3) by (simp only: signed_of_nat) (simp add: signed_take_bit_int_eq_self)
  have "length (drop 34 m) = length payload + length pad" by (simp add: assms(4))
  then have l: "34 + length payload \<le> length m" using assms(5) by simp
  show ?thesis
    unfolding ip_payload_def assms(2) n using l assms(4)
    by (simp add: assms(1) Let_def)
qed

text \<open>The fields of a frame that consists of a link header, an IP header and the rest.\<close>

lemma ip_frame_fields:
  assumes "m = eth @ [b0, b1] @ be_bytes16 len @ mid @ [proto] @ be_bytes16 ck @ src @ dst @ rest"
    and "length eth = 14" and "length mid = 5" and "length src = 4" and "length dst = 4"
  shows "m ! 14 = b0" "be16 (m ! 16) (m ! 17) = len" "m ! 23 = proto"
    "take 4 (drop 26 m) = src" "take 4 (drop 30 m) = dst" "drop 34 m = rest" "34 \<le> length m"
  using assms(2-5) by (simp_all add: assms(1) nth_append be_bytes16_def)

lemma header_word_nibble:
  assumes "5 \<le> n" and "n \<le> 15"
  shows "unat (0x40 OR of_nat n :: u8) mod 16 = n"
proof -
  let ?w = "0x40 OR of_nat n :: u8"
  have "unat ?w mod 16 = take_bit 4 (unat ?w)" by (simp add: take_bit_eq_mod)
  also have "\<dots> = unat (take_bit 4 ?w)" by (simp only: unsigned_take_bit_eq)
  also have "take_bit 4 ?w = take_bit 4 (of_nat n)" by (simp add: take_bit_or)
  also have "unat (take_bit 4 (of_nat n :: u8)) = n"
    using assms(2) by (simp only: unsigned_take_bit_eq unsigned_of_nat) (simp add: take_bit_nat_eq_self)
  finally show ?thesis .
qed

text \<open>
  The IP layer of one stack builds a header, the IP layer of another, the machine the packet is
  addressed to, reads the frame. The total length counts the options twice, by themselves and in
  the length of the header, so that as many bytes behind the payload are taken for a part of it.
\<close>

lemma ip_layers_agree:
  assumes info: "ip_info_for info n (of_nat (length payload)) proto dst"
    and own: "device_ip dl = Some own" "length own = 4"
    and short: "4 * n + length (options_of info) + length payload < 32768"
    and hdr: "ip_createHeader dl info = Inr (Some hdr)"
    and p: "pk_header packet = Some h" "pk_data packet = Some d"
    and frame: "h @ d = eth @ hdr @ payload @ pad" "length eth = 14"
    and dl': "device_ip dl' = Some (be_bytes32 dst)"
  shows "ip_handlePacket dl' packet =
    (if length (options_of info) \<le> length pad
     then Inr (Some \<lparr>hd_source_ip = be_bytes32 (or_else (int_of own) (source_ip info)),
       hd_dest_ip = be_bytes32 dst, hd_protocol = proto,
       hd_payload = payload @ take (length (options_of info)) pad\<rparr>)
     else Inl BufferUnderflow)"
proof -
  let ?os = "options_of info" and ?m = "h @ d"
  have n: "5 \<le> n" "n \<le> 15" "20 + length ?os \<le> 4 * n" using info by (simp_all add: ip_info_for_def)
  obtain tos mid ck where "length mid = 5" and "hdr = [0x40 OR of_nat n, tos]
      @ be_bytes16 (ucast (of_nat (length payload) + of_nat (length ?os) + of_nat (4 * n) :: u32))
      @ mid @ [proto] @ be_bytes16 ck @ be_bytes32 (or_else (int_of own) (source_ip info)) @ be_bytes32 dst
      @ ?os @ replicate (4 * n - 20 - length ?os) 0"
  proof (rule that)
    show "length (be_bytes16 a @ be_bytes16 b @ [c]) = 5" for a b c by simp
    show "hdr = [0x40 OR of_nat n, push_bit 2 (or_else 0 (dscp info)) OR or_else 0 (ecn info)] @
      be_bytes16 (ucast (of_nat (length payload) + of_nat (length ?os) + of_nat (4 * n) :: u32)) @
      (be_bytes16 (or_else 0 (identification info)) @ be_bytes16 (case fragment_offset info of
          None \<Rightarrow> (case flag info of None \<Rightarrow> 0 | Some f \<Rightarrow> push_bit 13 f)
        | Some f' \<Rightarrow> (case flag info of None \<Rightarrow> 0 | Some f \<Rightarrow> push_bit 13 f) OR f') @
       [or_else 64 (time_to_live info)]) @ [proto] @
      be_bytes16 (checksum_field (ip_header_with own info n (of_nat (length payload)) proto dst 0)) @
      be_bytes32 (or_else (int_of own) (source_ip info)) @ be_bytes32 dst @ ?os @
      replicate (4 * n - 20 - length ?os) 0"
      using hdr ip_createHeader_with [OF info own] by (simp add: ip_header_with_def)
  qed
  moreover have "ucast (of_nat (length payload) + of_nat (length ?os) + of_nat (4 * n) :: u32) =
      (of_nat (4 * n + length ?os + length payload) :: u16)"
    using ucast_of_nat_short [of "length payload + length ?os + 4 * n"] by (simp add: ac_simps)
  ultimately have m: "?m = eth @ [0x40 OR of_nat n, tos] @ be_bytes16 (of_nat (4 * n + length ?os + length payload))
      @ mid @ [proto] @ be_bytes16 ck @ be_bytes32 (or_else (int_of own) (source_ip info)) @ be_bytes32 dst
      @ ?os @ replicate (4 * n - 20 - length ?os) 0 @ payload @ pad" and mid: "length mid = 5"
    using frame(1) by simp_all
  note f = ip_frame_fields [OF m frame(2) mid length_be_bytes(2) length_be_bytes(2)]
  have hl: "4 * (unat (?m ! 14) mod 16) = 4 * n" unfolding f(1) by (simp only: header_word_nibble [OF n(1,2)])
  have tl: "sint (be16 (?m ! 16) (?m ! 17)) = int (4 * n + length ?os + length payload)"
    unfolding f(2) using short by (simp only: signed_of_nat) (simp add: signed_take_bit_int_eq_self)
  have "14 + 4 * n = (4 * n - 20) + 34" using n by simp
  then have "drop (14 + 4 * n) ?m = drop (4 * n - 20) (drop 34 ?m)" by (simp only: drop_drop)
  also have "\<dots> = payload @ pad" unfolding f(6) using n(3) by simp
  finally have rest: "drop (14 + 4 * n) ?m = payload @ pad" .
  have len: "length ?m = 14 + 4 * n + length payload + length pad"
    unfolding m using frame(2) mid n(3) by simp
  have "ip_payload ?m = (if length ?os \<le> length pad then Inr (payload @ take (length ?os) pad) else Inl BufferUnderflow)"
    unfolding ip_payload_def hl tl Let_def len rest by (auto simp: nat_int_add)
  then show ?thesis
    using ip_handlePacket_spec [OF p refl f(7) dl'] f(3,4,5) by simp
qed

text \<open>
  C12. The IP header one stack builds for a payload, without options or with options that fit
  into the header length given with them (5 to 15 words), is read by the IP layer of the machine
  it is addressed to as the address of the sender, its own, the protocol and the payload, also
  when the frame was padded, for packets of less than 32768 bytes. Without options the payload
  is exact. Options are counted twice in the total length: with k bytes of options the first k
  bytes behind the payload are appended to it, and a frame that has no k bytes there ends in a
  BufferUnderflowException.
\<close>

theorem ip_packet_read_by_peer:
  assumes "ip_info_for info n (of_nat (length payload)) proto dst"
    and "device_ip dl = Some own" and "length own = 4"
    and "4 * n + length (options_of info) + length payload < 32768"
    and "ip_createHeader dl info = Inr (Some hdr)"
    and "pk_header packet = Some h" and "pk_data packet = Some d"
    and "h @ d = eth @ hdr @ payload @ pad" and "length eth = 14"
    and "device_ip dl' = Some (be_bytes32 dst)"
  shows "ip_handlePacket dl' packet =
    (if length (options_of info) \<le> length pad
     then Inr (Some \<lparr>hd_source_ip = be_bytes32 (or_else (int_of own) (source_ip info)),
       hd_dest_ip = be_bytes32 dst, hd_protocol = proto,
       hd_payload = payload @ take (length (options_of info)) pad\<rparr>)
     else Inl BufferUnderflow)"
  by (rule ip_layers_agree [OF assms])

section \<open>From the sender of one machine to an application of another\<close>

lemma bytes16_htons: "bytes16 (htons w) = be_bytes16 w"
  by (simp add: bytes16_def be_bytes16_def)

text \<open>A UDP datagram in an IP packet that Jpcap captured, handed to the stack.\<close>

lemma receivePacket_udp:
  assumes link: "pk_datalink p = Some (EthernetPacket e)" "eth_frametype e = 0x0800"
    and p: "pk_header p = Some h" "pk_data p = Some d"
    and ip: "ip_handlePacket (link s) p = Inr (Some info)" "hd_protocol info = 17"
    and udp: "hd_payload info = be_bytes16 sp @ be_bytes16 dp @ be_bytes16 len @ rest"
  shows "receivePacket order depth (Some p) (apps, s) =
    (case getApplicationByPort (scast dp) apps of
       None \<Rightarrow> (Inr (), (apps, s))
     | Some i \<Rightarrow> tryj (handle_udp_data depth i
         \<lparr>u_src_port = sp, u_dest_port = dp, u_length = len, u_data = Some d\<rparr>) (apps, s))"
proof -
  let ?q = "p\<lparr>pk_header := Some (hd_payload info)\<rparr>"
  have "udp_handlePacket ?q =
      Inr \<lparr>u_src_port = sp, u_dest_port = dp, u_length = len, u_data = Some d\<rparr>"
    using udp_handlePacket_bytes [of ?q sp dp len rest] udp p(2) by simp
  then show ?thesis
    by (simp add: receivePacket_def link tryj_def handleIPPacket_def bindj_def on_manager_def
        method_simps ip handleUDPPacket_def Let_def split: option.split)
qed

text \<open>The frame that UDP packets go out in, as the IP layer of the stack reads it.\<close>

lemma ip_reads_udp_frame:
  assumes sz: "length dmac = 6" "length smac = 6" "length src = 4" "length dst = 4"
    and len: "length data \<le> 1558" and dl: "device_ip dl = Some dst"
    and p: "pk_header p = Some h" "pk_data p = Some d"
    and m: "h @ d = frame_head dmac smac f src dst 17 (udp_segment u data ck) @ udp_segment u data ck"
  shows "ip_handlePacket dl p = Inr (Some \<lparr>hd_source_ip = src, hd_dest_ip = dst, hd_protocol = 17,
    hd_payload = udp_segment u data ck\<rparr>)"
proof -
  let ?u = "udp_segment u data ck"
  let ?n = "of_nat (20 + length ?u) :: u16"
  obtain c where m': "h @ d = ether_bytes dmac smac ETHERTYPE_IP @ [0x45, ip_tos_byte f]
      @ be_bytes16 ?n @ (be_bytes16 (ucast (ip_ident f)) @ be_bytes16 (ip_off_word f)
      @ [ucast (ip_hop_limit f)]) @ [17] @ be_bytes16 c @ src @ dst @ ?u"
  proof
    show "h @ d = ether_bytes dmac smac ETHERTYPE_IP @ [0x45, ip_tos_byte f]
      @ be_bytes16 ?n @ (be_bytes16 (ucast (ip_ident f)) @ be_bytes16 (ip_off_word f)
      @ [ucast (ip_hop_limit f)]) @ [17]
      @ be_bytes16 (htons (inet_cksum (ipv4_header f src dst 17 ?n 0))) @ src @ dst @ ?u"
      unfolding m frame_head_def ipv4_header_def Let_def
      by (simp add: bytes16_htons flip: bytes16_htons)
  qed
  note f = ip_frame_fields [OF m' _ _ sz(3,4), simplified sz length_ether_bytes [OF sz(1,2)], simplified]
  have "ip_payload (h @ d) = Inr ?u"
    using f len by (intro ip_payload_whole [where pad = "[]"]) simp_all
  then show ?thesis
    using ip_handlePacket_spec [OF p refl, of dl dst] f dl sz(4) by simp
qed

text \<open>
  From end to end: a program on one machine sends a UDP packet with nativeSendPacket, the card of
  another captures the frame, Jpcap makes an object of it, and the stack there hands the
  datagram, with its ports and exactly its data, to the first application registered under the
  destination port, or drops it when there is none.
\<close>

text \<open>
  C6. From end to end: a UDP packet with fragment offset 0, of up to 1558 data bytes, with any
  values of its other fields, sent with nativeSendPacket over IPv4 on one machine, captured by
  Jpcap on the machine it is addressed to and given to the stack there, is handed with its
  ports, its length and exactly its data to the first application registered under the
  destination port, or dropped when there is none.
\<close>

theorem udp_reaches_application:
  assumes ready: "sendable packet dmac smac ETHERTYPE_IP src dst data"
    and cls: "pk_class packet = UDPPacketC"
    and f: "ip_offset (pk_ip packet) = 0"
    and len: "length data \<le> 1558" and buf: "length buf = 1600"
    and sent: "bytes_sent buf packet = Inr m" and cap: "caplen header = of_nat (length m)"
    and captured: "get_packet na j DLT_EN10MB header m = Inr p"
    and own: "device_ip (link s) = Some dst"
  shows "receivePacket order depth (Some p) (apps, s) =
    (case getApplicationByPort (scast (ucast (udp_dst_port (pk_udp packet)) :: u16)) apps of
       None \<Rightarrow> (Inr (), (apps, s))
     | Some i \<Rightarrow> tryj (handle_udp_data depth i
         \<lparr>u_src_port = ucast (udp_src_port (pk_udp packet)),
          u_dest_port = ucast (udp_dst_port (pk_udp packet)),
          u_length = of_nat (length data + 8), u_data = Some data\<rparr>) (apps, s))"
proof -
  let ?u = "udp_datagram src dst (pk_udp packet) data"
  have sz: "length dmac = 6" "length smac = 6" "length src = 4" "length dst = 4"
    using ready by (simp_all add: sendable_def)
  have p: "pk_header p = Some (take 42 m)" "pk_data p = Some data"
    "pk_datalink p = Some (EthernetPacket \<lparr>eth_dst_mac = Some dmac, eth_src_mac = Some smac,
       eth_frametype = ETHERTYPE_IP\<rparr>)"
    using udp_captured_again [OF ready cls f len buf sent cap, of na j] captured
    by (auto simp: captured_object_def setDatalinkPacket_def)
  obtain ck where u: "?u = udp_segment (pk_udp packet) data ck"
    by (simp add: udp_datagram_def)
  let ?head = "frame_head dmac smac (pk_ip packet) src dst 17 ?u"
  define pad where "pad = replicate (60 - length (?head @ ?u)) (0 :: u8)"
  have m: "m = ?head @ ?u @ pad"
    using sent udp_frame_bytes [OF ready cls len buf]
    by (simp add: pad60_def ipv4_frame_eq pad_def flip: ipv4_frame_def)
  have u8: "take 8 ?u @ data = ?u"
    by (simp add: udp_datagram_def udp_segment_def bytes16_def)
  have "take 42 m = ?head @ take 8 ?u"
    using sz by (simp add: m)
  then have hd: "take 42 m @ data = ?head @ ?u" by (simp only: append_assoc u8)
  have read: "ip_handlePacket (link s) p = Inr (Some \<lparr>hd_source_ip = src, hd_dest_ip = dst,
      hd_protocol = 17, hd_payload = udp_segment (pk_udp packet) data ck\<rparr>)"
    using hd by (intro ip_reads_udp_frame [OF sz len own p(1,2)]) (simp add: u)
  show ?thesis
    by (rule receivePacket_udp [OF p(3) _ p(1,2) read])
      (simp_all add: udp_segment_def bytes16_htons ETHERTYPE_IP_def)
qed

section \<open>Waiting for the router\<close>

definition router_reply :: "u8 list \<Rightarrow> u8 list \<Rightarrow> u8 list \<Rightarrow> u8 list \<Rightarrow> bool" where
  "router_reply r own mac h \<longleftrightarrow> 42 \<le> length h \<and> be16 (h ! 20) (h ! 21) = 2 \<and>
     take 4 (drop 38 h) = own \<and> take 4 (drop 28 h) = r \<and> take 6 (drop 22 h) = mac"

lemma for_each_sends:
  "for_each xs (\<lambda>(k, d). link_sendData d mac t) s =
     (Inr (), sent_also (map (\<lambda>d. link_packet (card_mac (link s)) d mac t)
       (List.map_filter snd xs)) s)"
proof (induction xs arbitrary: s)
  case Nil
  then show ?case by (simp add: method_simps map_filter_simps)
next
  case (Cons x xs)
  obtain k d where x: "x = (k, d)" by (cases x)
  show ?case
  proof (cases d)
    case None
    have "link_sendData None mac t s = (Inr (), s)"
      by (simp add: link_sendData_def method_simps)
    then show ?thesis by (simp add: x None bindj_def Cons.IH map_filter_simps)
  next
    case (Some b)
    have "link_sendData d mac t s =
        (Inr (), sent_also [link_packet (card_mac (link s)) b mac t] s)"
      by (simp add: Some link_sendData_def method_simps sent_also_def)
    then show ?thesis by (simp add: x Some bindj_def Cons.IH map_filter_simps)
  qed
qed

text \<open>
  The router's answer to the ARP request: its hardware address is entered in the table and every
  packet that was waiting goes out to it, in the order of the map, and none waits any more.
\<close>

text \<open>
  C9. The ARP reply of the router enters its hardware address in the table and sends every
  packet that was waiting to it, in the order of the map; none waits any more.
\<close>

theorem router_reply_releases_packets:
  assumes link: "pk_datalink p = Some (EthernetPacket e)" "eth_frametype e = 0x0806"
    and p: "pk_header p = Some h"
    and s: "router s = Some r" "device_ip (link s) = Some own" "length own = 4"
    and reply: "router_reply r own mac h"
  shows "receivePacket order depth (Some p) (apps, s) = (Inr (), (apps,
    sent_also (map (\<lambda>d. link_packet (card_mac (link s)) d (Some mac) 0x0800)
        (List.map_filter snd (order (waiting s))))
      (s\<lparr>mac_table := (mac_table s)(Some r \<mapsto> Some mac), waiting := []\<rparr>)))"
proof -
  let ?s = "s\<lparr>mac_table := (mac_table s)(Some r \<mapsto> Some mac)\<rparr>"
  have arp: "arp_handlePacket (link s) p =
      Inr \<lparr>a_sender_ip = Some r, a_sender_mac = Some mac\<rparr>"
    using arp_handlePacket_spec [OF p _ s(2,3)] reply by (simp add: router_reply_def)
  have "sendWaitingData order ?s = (Inr (), sent_also
      (map (\<lambda>d. link_packet (card_mac (link s)) d (Some mac) 0x0800)
        (List.map_filter snd (order (waiting s)))) (?s\<lparr>waiting := []\<rparr>))"
    using for_each_sends [where xs = "order (waiting s)" and mac = "Some mac" and t = "0x0800" and s = ?s]
    by (simp add: sendWaitingData_def getRouterMac_eq bindj_def s(1) table_get_def method_simps
        sent_also_def)
  then show ?thesis
    by (simp add: receivePacket_def link on_manager_def receive_arp_def bindj_def method_simps arp)
qed

text \<open>Before that: sending asks for the address again, and keeps one packet per destination.\<close>

theorem waiting_packet_replaced:
  assumes "router s = Some r" and "table_get (mac_table s) (Some r) = None"
    and "device_ip (link s) = Some own" and "length own = 4" and "length (device_mac (link s)) = 6"
    and "length r = 4"
  shows "waiting (snd (bindj (sendData d1 ip) (\<lambda>_. sendData d2 ip) s)) =
    waiting_put (Some ip) d2 (waiting s)"
  using assms by (simp add: bindj_def sendData_unknown sent_also_def)

end
