(* ===== verification/PingLaws.thy ===== *)
theory PingLaws
  imports PingApps TftpLaws
begin

text \<open>
  The applications on top of ICMP: the echo requests of a ping are numbered, the timestamp
  requests of hping are not, and a traceroute advances with the answers of the routers.
\<close>

lemma map_shifted: "map g [0..<Suc n] = g 0 # map (\<lambda>k. g (Suc k)) [0..<n]"
  by (subst upt_conv_Cons) (simp_all add: o_def del: upt_Suc flip: map_Suc_upt)

section \<open>The messages\<close>

text \<open>The bytes of the messages the stack sends.\<close>

definition echo_bytes :: "u8 \<Rightarrow> u16 \<Rightarrow> u16 \<Rightarrow> u16 \<Rightarrow> u8 list \<Rightarrow> u8 list" where
  "echo_bytes type ck ident seq d =
     [type, 0] @ be_bytes16 ck @ be_bytes16 ident @ be_bytes16 seq @ d"

lemma echo_createHeader_bytes:
  assumes "header_name info = Some ''echo''" and "icmp_data info = Some d" and "length d < 2 ^ 30"
    and "icmp_identifier info = Some ident" and "sequence_number info = Some seq"
  shows "echo_createHeader random info = Inr (Some (echo_bytes 8
    (checksum_field (echo_bytes 8 0 ident seq d)) ident seq d))"
proof -
  let ?e = "echo_bytes 8 0 ident seq d"
  have n: "new_byte_array (8 + int (length d)) = Inr (replicate (8 + length d) 0)"
    using new_byte_array_nonneg [of "8 + length d"] by simp
  have l: "length ?e = 8 + length d" by (simp add: echo_bytes_def)
  have c: "java_checksum ?e (int (length ?e)) = Inr (ucast (checksum_field ?e))"
    using assms(3) l by (intro java_checksum_field) simp
  have o: "overlay 2 (be_bytes16 ck) ?e = echo_bytes 8 ck ident seq d" for ck
    by (simp add: overlay_def echo_bytes_def be_bytes16_def)
  show ?thesis
    using assms c
    by (simp add: echo_createHeader_def n jbuffer or_else_def)
      (simp add: echo_bytes_def o [unfolded echo_bytes_def, simplified])
qed

definition timestamp_bytes :: "u16 \<Rightarrow> u16 \<Rightarrow> u32 \<Rightarrow> u8 list" where
  "timestamp_bytes ck ident t = [13, 0] @ be_bytes16 ck @ be_bytes16 ident @ be_bytes16 0
     @ be_bytes32 t @ be_bytes32 0 @ be_bytes32 0"

lemma timestamp_createHeader_bytes:
  assumes "header_name info = Some ''timestamp''" and "icmp_identifier info = Some ident"
    and "sequenceNumber info = None" and "original_time info = Some t"
    and "receive_time info = Some 0" and "transmit_time info = Some 0"
  shows "timestamp_createHeader random info = Inr (Some (timestamp_bytes
    (checksum_field (timestamp_bytes 0 ident t)) ident t))"
proof -
  let ?e = "timestamp_bytes 0 ident t"
  have n: "new_byte_array 20 = Inr (replicate 20 0)"
    using new_byte_array_nonneg [of 20] by simp
  have l: "length ?e = 20" by (simp add: timestamp_bytes_def)
  have c: "java_checksum ?e (int (length ?e)) = Inr (ucast (checksum_field ?e))"
    using l by (intro java_checksum_field) simp
  have o: "overlay 2 (be_bytes16 ck) ?e = timestamp_bytes ck ident t" for ck
    by (simp add: overlay_def timestamp_bytes_def be_bytes16_def)
  show ?thesis
    using assms c
    by (simp add: timestamp_createHeader_def put_int_opt_def n jbuffer or_else_def)
      (simp add: timestamp_bytes_def o [unfolded timestamp_bytes_def, simplified])
qed

section \<open>Ping\<close>

text \<open>The local time of day in milliseconds, as hping sends it.\<close>

definition time_of_day :: "clock \<Rightarrow> u32" where
  "time_of_day now = (hour now * 3600 + minute now * 60 + second now) * 1000"

text \<open>
  \<open>HPingApp\<close> stores the sequence number under the key \<open>sequence_num\<close> and \<open>ICMPTimeStampHeader\<close>
  looks for \<open>sequenceNumber\<close>: every timestamp request goes out with the number zero.
\<close>

theorem hping_requests_not_numbered:
  assumes "timestamps c"
  shows "createICMPHeader now (c, s) =
    (Inr (Some (timestamp_bytes
       (checksum_field (timestamp_bytes 0 (ping_identifier c) (time_of_day now)))
       (ping_identifier c) (time_of_day now))),
     (c\<lparr>ping_sequence := ping_sequence c + 1, send_time := time_of_day now\<rparr>, s))"
  using assms
  by (simp add: createICMPHeader_def hping_createICMPHeader_def get_client_def set_client_def
      method_simps bindj_def icmp_createHeader_def no_icmp_info_def echo_createHeader_def
      timestamp_createHeader_bytes time_of_day_def Let_def)

definition ping_ip_info :: "ping_app \<Rightarrow> nat \<Rightarrow> ip_info" where
  "ping_ip_info c len = no_ip_info\<lparr>data_length := Some (of_nat len),
     destination_ip := Some (int_of (ping_dest c)), protocol := Some 1,
     identification := Some (ucast (ping_port c))\<rparr>"

definition echo_request :: "ping_app \<Rightarrow> clock \<Rightarrow> u8 list" where
  "echo_request c now =
     (let e = \<lambda>ck. echo_bytes 8 ck (ping_identifier c) (ping_sequence c) (be_bytes64 (millis now))
      in e (checksum_field (e 0)))"

definition ping_bytes :: "u8 list \<Rightarrow> ping_app \<Rightarrow> clock \<Rightarrow> u8 list" where
  "ping_bytes own c now =
     ip_around own (ping_ip_info c 16) 1 (int_of (ping_dest c)) (echo_request c now)"

definition numbered :: "nat \<Rightarrow> ping_app \<Rightarrow> ping_app" where
  "numbered k c = c\<lparr>ping_sequence := ping_sequence c + of_nat k\<rparr>"

definition ping_ready :: "u8 list \<Rightarrow> u8 list \<Rightarrow> ping_app \<Rightarrow> stack \<Rightarrow> bool" where
  "ping_ready own r c s \<longleftrightarrow> router s = Some r \<and> length r = 4 \<and> device_ip (link s) = Some own \<and>
     length own = 4 \<and> length (device_mac (link s)) = 6 \<and> length (ping_dest c) = 4 \<and> \<not> timestamps c"

lemma numbered_simps [simp]:
  "numbered j (numbered k c) = numbered (k + j) c" "numbered 0 c = c"
  "ping_ready own r (numbered k c) s = ping_ready own r c s"
  "ping_ready own r c (sent_also ps s) = ping_ready own r c s"
  "ping_ready own r c (s\<lparr>waiting := w\<rparr>) = ping_ready own r c s"
  "ping_dest (numbered k c) = ping_dest c"
  by (simp_all add: numbered_def ping_ready_def sent_also_def ac_simps)

lemma be_bytes64_length [simp]: "length (be_bytes64 w) = 8"
  by (simp add: be_bytes64_def)

lemma createPackage_echo:
  assumes "ping_ready own r c s"
  shows "createPackage now (c, s) = (Inr (ping_bytes own c now), (numbered 1 c, s))"
proof -
  have n: "new_byte_array 8 = Inr (replicate 8 0)"
    using new_byte_array_nonneg [of 8] by simp
  have l: "length (echo_request c now) = 16"
    by (simp add: echo_request_def echo_bytes_def Let_def)
  have e: "createICMPHeader now (c, s) = (Inr (Some (echo_request c now)), (numbered 1 c, s))"
    using assms
    by (simp add: createICMPHeader_def ping_createICMPHeader_def get_client_def set_client_def
        method_simps bindj_def icmp_createHeader_def no_icmp_info_def n jbuffer
        echo_createHeader_bytes echo_request_def ping_ready_def numbered_def Let_def)
  have plain: "plain_ip_info (ping_ip_info c 16) 16 1 (int_of (ping_dest c))"
    by (simp add: plain_ip_info_def ping_ip_info_def no_ip_info_def)
  have own: "device_ip (link s) = Some own" "length own = 4" "length (ping_dest c) = 4"
    using assms by (simp_all add: ping_ready_def)
  have i: "ping_createIP4Header (link s) (numbered (Suc 0) c) 16 = ip_createHeader (link s) (ping_ip_info c 16)"
    using own(3) by (simp add: ping_createIP4Header_def jbuffer ping_ip_info_def numbered_def)
  show ?thesis
    using ip_createHeader_plain [OF plain own(1,2)]
    by (simp add: createPackage_def e bindj_def get_client_def on_stack_def method_simps l i jbuffer
        ping_bytes_def ip_around_def Let_def)
qed

text \<open>The passes of the loop while the hardware address of the router is known.\<close>

lemma pings_sent:
  assumes "ping_ready own r c s" and "router_known s mac"
  shows "for_each is (\<lambda>i. tryj (bindj (createPackage (now i)) (\<lambda>packet.
      bindj (get_client ping_dest) (\<lambda>ip. on_stack (sendData (Some packet) ip))))) (c, s) =
    (Inr (), (numbered (length is) c, sent_also (map (\<lambda>k. link_packet (card_mac (link s))
        (ping_bytes own (numbered k c) (now (is ! k))) (Some mac) 0x0800) [0..<length is]) s))"
  using assms
proof (induction "is" arbitrary: c s)
  case Nil
  then show ?case by (simp add: method_simps)
next
  case (Cons i "is")
  let ?p = "link_packet (card_mac (link s)) (ping_bytes own c (now i)) (Some mac) 0x0800"
  show ?case
    using Cons.IH [of "numbered 1 c" "sent_also [?p] s"] Cons.prems
    by (simp add: tryj_def bindj_def createPackage_echo get_client_def on_stack_def method_simps
        sendData_known [OF Cons.prems(2)] map_shifted del: upt_Suc)
qed

text \<open>
  While it is not known, a pass asks for it again and puts its echo request in the place of the one
  of the pass before.
\<close>

definition router_request :: "u8 list \<Rightarrow> u8 list \<Rightarrow> stack \<Rightarrow> jpacket" where
  "router_request own r s = link_packet (card_mac (link s))
     (arp_request_bytes (device_mac (link s)) own r) (Some broadcast) 0x0806"

definition last_ping_waits :: "u8 list \<Rightarrow> ping_app \<Rightarrow> (nat \<Rightarrow> clock) \<Rightarrow> nat list \<Rightarrow>
    (addr_key \<times> jbyteArray) list \<Rightarrow> (addr_key \<times> jbyteArray) list" where
  "last_ping_waits own c now is w = (if is = [] then w else waiting_put (Some (ping_dest c))
     (Some (ping_bytes own (numbered (length is - 1) c) (now (last is)))) w)"

lemma pings_waiting:
  assumes "ping_ready own r c s" and "table_get (mac_table s) (Some r) = None"
  shows "for_each is (\<lambda>i. tryj (bindj (createPackage (now i)) (\<lambda>packet.
      bindj (get_client ping_dest) (\<lambda>ip. on_stack (sendData (Some packet) ip))))) (c, s) =
    (Inr (), (numbered (length is) c, sent_also (replicate (length is) (router_request own r s))
        (s\<lparr>waiting := last_ping_waits own c now is (waiting s)\<rparr>)))"
  using assms
proof (induction "is" arbitrary: c s)
  case Nil
  then show ?case by (simp add: method_simps last_ping_waits_def)
next
  case (Cons i "is")
  let ?s = "sent_also [router_request own r s]
    (s\<lparr>waiting := waiting_put (Some (ping_dest c)) (Some (ping_bytes own c (now i))) (waiting s)\<rparr>)"
  have send: "sendData (Some (ping_bytes own c (now i))) (ping_dest c) s = (Inr (), ?s)"
    using Cons.prems sendData_unknown [of s r own] by (simp add: ping_ready_def router_request_def)
  have same: "router_request own r ?s = router_request own r s"
    "mac_table ?s = mac_table s" "waiting ?s =
      waiting_put (Some (ping_dest c)) (Some (ping_bytes own c (now i))) (waiting s)"
    by (simp_all add: router_request_def sent_also_def)
  have w: "last_ping_waits own (numbered 1 c) now is (waiting ?s) =
      last_ping_waits own c now (i # is) (waiting s)"
    by (cases "is") (simp_all add: last_ping_waits_def same)
  let ?pass = "\<lambda>i. tryj (bindj (createPackage (now i)) (\<lambda>packet.
      bindj (get_client ping_dest) (\<lambda>ip. on_stack (sendData (Some packet) ip))))"
  have "?pass i (c, s) = (Inr (), (numbered 1 c, ?s))"
    using Cons.prems(1)
    by (simp add: tryj_def bindj_def createPackage_echo get_client_def on_stack_def method_simps send)
  then have "for_each (i # is) ?pass (c, s) = for_each is ?pass (numbered 1 c, ?s)"
    by (simp add: bindj_def)
  also have "\<dots> = (Inr (), (numbered (length is) (numbered 1 c),
      sent_also (replicate (length is) (router_request own r ?s))
        (?s\<lparr>waiting := last_ping_waits own (numbered 1 c) now is (waiting ?s)\<rparr>)))"
    using Cons.prems by (intro Cons.IH) (simp_all add: same)
  finally show ?case by (simp only: same(1) w) (simp add: sent_also_def)
qed

text \<open>
  C15. A ping of PingApp makes one echo request per pass of its loop, with the time of the pass
  and its checksum in it and with consecutive sequence numbers, each in an IP packet to the
  destination, and the next ping goes on counting. If the hardware address of the router is in
  the table, all of them are sent to it. If it is not, as right after the start, none is: each
  pass broadcasts one more ARP request, and of the echo requests only the last one waits. The
  addresses of card, router and destination have 4 bytes, the hardware address 6; the timestamp
  requests of HPingApp are not numbered (theorem hping_requests_not_numbered).
\<close>

theorem pings_are_numbered:
  assumes "ping_ready own r c s"
  shows "startPing now (c, s) = (Inr (), (numbered (echo_times c) c,
    case table_get (mac_table s) (Some r) of
      Some mac \<Rightarrow> sent_also (map (\<lambda>k. link_packet (card_mac (link s))
        (ping_bytes own (numbered k c) (now k)) (Some mac) 0x0800) [0..<echo_times c]) s
    | None \<Rightarrow> sent_also (replicate (echo_times c) (router_request own r s))
        (s\<lparr>waiting := last_ping_waits own c now [0..<echo_times c] (waiting s)\<rparr>)))"
proof -
  have start: "startPing now (c, s) = for_each [0..<echo_times c] (\<lambda>i. tryj (bindj
      (createPackage (now i)) (\<lambda>packet. bindj (get_client ping_dest)
        (\<lambda>ip. on_stack (sendData (Some packet) ip))))) (c, s)"
    by (simp add: startPing_def get_client_def method_simps bindj_def)
  show ?thesis
  proof (cases "table_get (mac_table s) (Some r)")
    case None
    from pings_waiting [OF assms this, of "[0..<echo_times c]" now] show ?thesis
      by (simp only: start None length_upt diff_zero option.case)
  next
    case (Some mac)
    let ?f = "\<lambda>t k. link_packet (card_mac (link s)) (ping_bytes own (numbered k c) t) (Some mac) 0x0800"
    have m: "map (\<lambda>k. ?f (now ([0..<echo_times c] ! k)) k) [0..<echo_times c] =
        map (\<lambda>k. ?f (now k) k) [0..<echo_times c]"
      by (rule map_cong [OF refl]) simp
    have "router_known s mac" using assms Some by (simp add: router_known_def ping_ready_def)
    from pings_sent [OF assms this, of "[0..<echo_times c]" now] show ?thesis
      by (simp only: start Some m length_upt diff_zero option.case)
  qed
qed

section \<open>Traceroute\<close>

definition trace_ready :: "nat \<Rightarrow> u8 list \<Rightarrow> u8 list \<Rightarrow> trace_route \<Rightarrow> stack \<Rightarrow> bool" where
  "trace_ready i own mac c s \<longleftrightarrow> router_known s mac \<and> device_ip (link s) = Some own \<and>
     length own = 4 \<and> length (tr_dest_ip c) = 4 \<and> i \<in> set (receivers s)"

definition probe_ip_info :: "trace_route \<Rightarrow> ip_info" where
  "probe_ip_info c = no_ip_info\<lparr>data_length := Some 32, destination_ip := Some (int_of (tr_dest_ip c)),
     protocol := Some 17, identification := Some (ucast (tr_port c)), time_to_live := Some (tr_ttl c)\<rparr>"

definition probe_bytes :: "u8 list \<Rightarrow> trace_route \<Rightarrow> u8 list" where
  "probe_bytes own c = ip_around own (probe_ip_info c) 17 (int_of (tr_dest_ip c))
     (udp_bytes (ucast (tr_port c)) (tr_dest_port c) (replicate 24 0))"

lemma createPacket_bytes:
  assumes "device_ip dl = Some own" and "length own = 4" and "length (tr_dest_ip c) = 4"
  shows "createPacket dl c = Inr (probe_bytes own c)"
proof -
  let ?u = "udp_bytes (ucast (tr_port c)) (tr_dest_port c) (replicate 24 0)"
  have u: "trace_createUDPHeader c = Inr (Some ?u)" and l: "length ?u = 32"
    by (simp_all add: trace_createUDPHeader_def udp_createHeader_bytes udp_bytes_def)
  have plain: "plain_ip_info (probe_ip_info c) 32 17 (int_of (tr_dest_ip c))"
    by (simp add: plain_ip_info_def probe_ip_info_def no_ip_info_def)
  have i: "trace_createIP4Header dl c 32 = ip_createHeader dl (probe_ip_info c)"
    using assms(3) by (simp add: trace_createIP4Header_def jbuffer probe_ip_info_def)
  show ?thesis
    using ip_createHeader_plain [OF plain assms(1,2)]
    by (simp add: createPacket_def u l i jbuffer probe_bytes_def ip_around_def Let_def)
qed

lemma startTraceRoute_ready:
  assumes "trace_ready i own mac c s"
  shows "startTraceRoute i (c, s) = (Inr (), (c, sent_also
    [link_packet (card_mac (link s)) (probe_bytes own c) (Some mac) 0x0800] s))"
proof -
  have "createPacket (link s) c = Inr (probe_bytes own c)"
    using assms by (intro createPacket_bytes) (simp_all add: trace_ready_def)
  then show ?thesis
    using assms
    by (simp add: startTraceRoute_def tryj_def bindj_def get_client_def on_stack_def method_simps
        trace_ready_def sendData_known [of s mac] registToReceiveICMPPacket_def sent_also_def)
qed

text \<open>The application as it is after \<open>k\<close> routers have answered.\<close>

definition hop :: "nat \<Rightarrow> trace_route \<Rightarrow> trace_route" where
  "hop k c = c\<lparr>tr_dest_port := tr_dest_port c + of_nat k, tr_ttl := tr_ttl c + of_nat k\<rparr>"

lemma trace_answer:
  assumes "trace_ready i own mac c s" and "length source = 4"
    and "r_type info = Some 11" and "r_code info = Some 0"
  shows "trace_handleData i info source (c, s) = (Inr (), (hop 1 c, sent_also
    [link_packet (card_mac (link s)) (probe_bytes own (hop 1 c)) (Some mac) 0x0800] s))"
proof -
  have "trace_ready i own mac (hop 1 c) s" using assms(1) by (simp add: trace_ready_def hop_def)
  from startTraceRoute_ready [OF this] show ?thesis
    using assms(2-4)
    by (simp add: trace_handleData_def tryj_def bindj_def set_client_def method_simps hop_def)
qed

lemma hop_hop [simp]: "hop j (hop k c) = hop (k + j) c"
  by (simp add: hop_def ac_simps)

lemma trace_answers:
  assumes "trace_ready i own mac c s" and "length source = 4"
    and "\<forall>info \<in> set infos. r_type info = Some 11 \<and> r_code info = Some 0"
  shows "for_each infos (\<lambda>info. trace_handleData i info source) (c, s) =
    (Inr (), (hop (length infos) c, sent_also (map (\<lambda>k. link_packet (card_mac (link s))
        (probe_bytes own (hop (k + 1) c)) (Some mac) 0x0800) [0..<length infos]) s))"
  using assms(1,3)
proof (induction infos arbitrary: c s)
  case Nil
  then show ?case by (simp add: method_simps hop_def)
next
  case (Cons info infos)
  let ?f = "\<lambda>c. link_packet (card_mac (link s)) (probe_bytes own c) (Some mac) 0x0800"
  let ?s = "sent_also [?f (hop 1 c)] s"
  have step: "trace_handleData i info source (c, s) = (Inr (), (hop 1 c, ?s))"
    using Cons.prems by (intro trace_answer [OF _ assms(2)]) simp_all
  have ready: "trace_ready i own mac (hop 1 c) ?s"
    using Cons.prems(1) by (simp add: trace_ready_def hop_def) (simp add: sent_also_def)
  have "for_each infos (\<lambda>info. trace_handleData i info source) (hop 1 c, ?s) =
      (Inr (), (hop (length infos) (hop 1 c), sent_also (map (\<lambda>k. link_packet (card_mac (link ?s))
        (probe_bytes own (hop (k + 1) (hop 1 c))) (Some mac) 0x0800) [0..<length infos]) ?s))"
    using Cons.prems(2) by (intro Cons.IH [OF ready]) simp
  then show ?case
    by (simp add: bindj_def step map_shifted del: upt_Suc)
qed

text \<open>
  C14. A traceroute advances by one hop for each router that reports that the time was exceeded:
  the probes that go out carry the next destination port and the next time to live, one after
  the other.
\<close>

theorem traceroute_advances_by_hops:
  assumes "trace_ready i own mac c s" and "length source = 4"
    and "\<forall>info \<in> set infos. r_type info = Some 11 \<and> r_code info = Some 0"
  shows "for_each infos (\<lambda>info. trace_handleData i info source) (c, s) =
    (Inr (), (hop (length infos) c, sent_also (map (\<lambda>k. link_packet (card_mac (link s))
        (probe_bytes own (hop (k + 1) c)) (Some mac) 0x0800) [0..<length infos]) s))"
  by (rule trace_answers [OF assms])

section \<open>Messages that come in\<close>

text \<open>
  \<open>ICMPTimeExceededHeader\<close> turns a message down only if type and code are both wrong: any message
  with code 0 that is no echo reply and no timestamp reply, a network that cannot be reached
  (type 3) for one, is reported as a time exceeded, with its type and code replaced.
\<close>

theorem code_0_taken_for_time_exceeded:
  assumes "pk_header p = Some h" and "8 \<le> length h" and "h ! 0 \<noteq> 0" and "h ! 0 \<noteq> 14"
    and "h ! 1 = 0"
  shows "icmp_handlePacket p = Inr (Some (no_icmp_result\<lparr>r_type := Some 11, r_code := Some 0,
    r_data := Some (drop 8 h)\<rparr>))"
  using assms icmp_handlePacket_reading [OF assms(1)] by (auto simp: icmp_reading_def)

end
