(* ===== verification/StackWitnesses.thy ===== *)
theory StackWitnesses
  imports StackFlow PingLaws DnsLaws DhcpLaws Witnesses
begin

text \<open>
  A concrete host on a small network, and the properties of the Java stack applied to it: each
  hypothesis of a property can be met.
\<close>

section \<open>A host\<close>

definition sample_link :: data_link where
  "sample_link = \<lparr>device_ip = Some [10, 0, 0, 2], device_mac = [2, 0, 0, 0, 0, 2],
     card_mac = [2, 0, 0, 0, 0, 2]\<rparr>"

definition router_mac :: "u8 list" where
  "router_mac = [2, 0, 0, 0, 0, 9]"

definition sample_stack :: stack where
  "sample_stack = (new_stack sample_link (Some [10, 0, 0, 9]))\<lparr>
     mac_table := [Some [10, 0, 0, 9] \<mapsto> Some router_mac]\<rparr>"

lemma sample_stack_simps [simp]:
  "device_ip sample_link = Some [10, 0, 0, 2]" "link sample_stack = sample_link"
  "router_known sample_stack router_mac" "length (device_mac sample_link) = 6"
  by (simp_all add: sample_stack_def new_stack_def router_known_def table_get_def sample_link_def)

section \<open>Captured packets\<close>

lemma udp_reaches_application_witness:
  "\<exists>m q. bytes_sent sample_buf (sample_packet UDPPacketC ETHERTYPE_IP (Some [1, 2, 3])) = Inr m \<and>
     get_packet False sample_junk DLT_EN10MB (sample_header (length m)) m = Inr q \<and>
     receivePacket (\<lambda>w. w) 100 (Some q) ([], sample_stack) = (Inr (), ([], sample_stack))"
proof -
  let ?p = "sample_packet UDPPacketC ETHERTYPE_IP (Some [1, 2, 3])"
  obtain m where m: "bytes_sent sample_buf ?p = Inr m"
    using udp_frame_bytes [OF sample_sendable, of UDPPacketC ETHERTYPE_IP "[1, 2, 3]" sample_buf] by auto
  obtain q where q: "get_packet False sample_junk DLT_EN10MB (sample_header (length m)) m = Inr q"
    using udp_captured_again [OF sample_sendable _ _ _ _ m, of "sample_header (length m)" False sample_junk]
    by auto
  show ?thesis
    using udp_reaches_application [OF sample_sendable _ _ _ _ m _ q, of sample_stack "\<lambda>w. w" 100 "[]"] m q
    by (auto simp: getApplicationByPort_def)
qed

lemma packets_wait_only_for_router_witness:
  "distinct (receivers (snd (addApplication (TraceApplication (TraceRoute [10, 0, 0, 7])) [],
     getInstance sample_link (Some [10, 0, 0, 9]))))"
proof -
  have "stack_reachable sample_link (Some [10, 0, 0, 9])
      (addApplication (TraceApplication (TraceRoute [10, 0, 0, 7])) [],
       getInstance sample_link (Some [10, 0, 0, 9]))"
    by (rule stack_reachable.Step [OF stack_reachable.Start stack_step.Create])
  from packets_wait_only_for_router [OF this] show ?thesis by simp
qed

text \<open>The ARP reply of the router, as it is captured.\<close>

definition reply_packet :: jpacket where
  "reply_packet = (AllocObject ARPPacketC)\<lparr>
     pk_datalink := Some (EthernetPacket \<lparr>eth_dst_mac = Some [2, 0, 0, 0, 0, 2],
       eth_src_mac = Some router_mac, eth_frametype = 0x0806\<rparr>),
     pk_header := Some ([2, 0, 0, 0, 0, 2] @ router_mac @ [8, 6, 0, 1, 8, 0, 6, 4, 0, 2] @ router_mac
       @ [10, 0, 0, 9, 2, 0, 0, 0, 0, 2, 10, 0, 0, 2])\<rparr>"

lemma router_reply_releases_packets_witness:
  "let s = (new_stack sample_link (Some [10, 0, 0, 9]))\<lparr>
       waiting := [(Some [10, 0, 0, 7], Some [1, 2])]\<rparr>
   in waiting (snd (snd (receivePacket (\<lambda>w. w) 100 (Some reply_packet) ([], s)))) = [] \<and>
      length (sent (snd (snd (receivePacket (\<lambda>w. w) 100 (Some reply_packet) ([], s))))) = 1"
proof -
  have "router_reply [10, 0, 0, 9] [10, 0, 0, 2] router_mac (the (pk_header reply_packet))"
    by (simp add: router_reply_def reply_packet_def router_mac_def le16_def)
  then show ?thesis
    using router_reply_releases_packets [of reply_packet "\<lparr>eth_dst_mac = Some [2, 0, 0, 0, 0, 2],
        eth_src_mac = Some router_mac, eth_frametype = 0x0806\<rparr>" "the (pk_header reply_packet)"
        "(new_stack sample_link (Some [10, 0, 0, 9]))\<lparr>waiting := [(Some [10, 0, 0, 7], Some [1, 2])]\<rparr>"
        "[10, 0, 0, 9]" "[10, 0, 0, 2]" router_mac "\<lambda>w. w" 100 "[]"]
    by (simp add: reply_packet_def new_stack_def sent_also_def map_filter_simps)
qed

section \<open>Checksums and IP headers\<close>

lemma java_checksum_rfc1071_witness:
  "java_checksum [0xFF, 0xFF, 0, 2] 4 = Inr (of_nat (rfc1071 [0xFF, 0xFF, 0, 2]))"
  using java_checksum_rfc1071 [of "[0xFF, 0xFF, 0, 2]"]
  by (simp add: folded_once_def)

lemma ip_packet_read_by_peer_witness:
  "\<exists>hdr. ip_createHeader sample_link (no_ip_info\<lparr>data_length := Some 3, protocol := Some 200,
       destination_ip := Some 0x0A000007, internet_header_length := Some 6,
       options := Some [7, 3, 4]\<rparr>) = Inr (Some hdr) \<and>
     ip_handlePacket (sample_link\<lparr>device_ip := Some [10, 0, 0, 7]\<rparr>)
       ((AllocObject IPPacketC)\<lparr>pk_header := Some (replicate 14 0 @ hdr),
          pk_data := Some [1, 2, 3, 9, 8, 7, 6]\<rparr>) =
     Inr (Some \<lparr>hd_source_ip = [10, 0, 0, 2], hd_dest_ip = [10, 0, 0, 7], hd_protocol = 200,
       hd_payload = [1, 2, 3, 9, 8, 7]\<rparr>)"
proof -
  let ?i = "no_ip_info\<lparr>data_length := Some 3, protocol := Some 200, destination_ip := Some 0x0A000007,
    internet_header_length := Some 6, options := Some [7, 3, 4]\<rparr>"
  have i: "ip_info_for ?i 6 3 200 0x0A000007" and os: "options_of ?i = [7, 3, 4]"
    by (simp_all add: ip_info_for_def options_of_def no_ip_info_def or_else_def)
  obtain hdr where hdr: "ip_createHeader sample_link ?i = Inr (Some hdr)"
    using ip_createHeader_with [OF i, of sample_link "[10, 0, 0, 2]"] by simp
  have own: "or_else (int_of [10, 0, 0, 2]) (source_ip ?i) = 0x0A000002"
    by (simp add: or_else_def no_ip_info_def int_of_def le32_def le16_def) code_simp
  have b: "be_bytes32 0x0A000007 = [10, 0, 0, 7]" "be_bytes32 0x0A000002 = [10, 0, 0, 2]" by code_simp+
  show ?thesis
    using ip_packet_read_by_peer [where info = ?i and n = 6 and payload = "[1, 2, 3]" and proto = 200
        and dst = "0x0A000007" and dl = sample_link and own = "[10, 0, 0, 2]" and hdr = hdr
        and packet = "(AllocObject IPPacketC)\<lparr>pk_header := Some (replicate 14 0 @ hdr),
          pk_data := Some [1, 2, 3, 9, 8, 7, 6]\<rparr>"
        and h = "replicate 14 0 @ hdr" and d = "[1, 2, 3, 9, 8, 7, 6]" and eth = "replicate 14 0"
        and pad = "[9, 8, 7, 6]"
        and dl' = "sample_link\<lparr>device_ip := Some [10, 0, 0, 7]\<rparr>"] i hdr
    by (simp only: own b os) simp
qed

section \<open>Applications\<close>

lemma tftp_transfer_writes_file_witness:
  "download (fst (snd (for_each (data_messages 5000 1 [replicate 512 7, [8]]) tftp_handleData
     ((TFTPClient [10, 0, 0, 7])\<lparr>download := OpenStream []\<rparr>, sample_stack)))) =
   ClosedStream (replicate 512 7 @ [8])"
proof -
  have "tftp_ready [10, 0, 0, 2] router_mac ((TFTPClient [10, 0, 0, 7])\<lparr>download := OpenStream []\<rparr>) sample_stack"
    by (simp add: tftp_ready_def TFTPClient_def)
  moreover have "file_blocks [replicate 512 7, [8]]" by (simp add: file_blocks_def)
  ultimately show ?thesis
    using tftp_transfer_writes_file [of "[replicate 512 7, [8]]" "[10, 0, 0, 2]" router_mac
        "(TFTPClient [10, 0, 0, 7])\<lparr>download := OpenStream []\<rparr>" sample_stack 5000]
    by simp
qed

definition sample_dhcp :: dhcp where
  "sample_dhcp = \<lparr>dhcp_first_part = replicate 236 0, dhcp_options_part = [], server_supply_ip = None,
     dhcp_current_state = DISCOVER\<rparr>"


lemma dns_reply_understood_witness:
  "\<exists>c. DNSApplication 7 9 [8, 8, 8, 8] (join_labels [[119, 119], [97]]) = Inr c \<and>
     (\<exists>answers. dns_handleData 100 c \<lparr>u_src_port = 53, u_dest_port = 9, u_length = 0,
         u_data = Some (dns_reply c 0x8180 0 0 [(1, 60, [10, 0, 0, 7])] [])\<rparr> = Inr (Some answers) \<and>
       map an_address (snd answers) = [Some [10, 0, 0, 7]])"
proof -
  let ?d = "join_labels [[119, 119], [97]]"
  have "\<not> isl (DNSApplication 7 9 [8, 8, 8, 8] ?d)" by code_simp
  then obtain c where c: "DNSApplication 7 9 [8, 8, 8, 8] ?d = Inr c"
    by (cases "DNSApplication 7 9 [8, 8, 8, 8] ?d") auto
  have "labels_ok [[119, 119], [97]]" by (simp add: labels_ok_def)
  with dns_reply_understood [OF c, of "[(1, 60, [10, 0, 0, 7])]" "\<lparr>u_src_port = 53, u_dest_port = 9,
      u_length = 0, u_data = Some (dns_reply c 0x8180 0 0 [(1, 60, [10, 0, 0, 7])] [])\<rparr>"] c
  show ?thesis by (simp add: ip_of_record_def a_answer_def)
qed

lemma pings_are_numbered_witness:
  "\<exists>c. \<forall>now. PingApp False 5 3 [10, 0, 0, 7] = Inr c \<and>
     ping_sequence (fst (snd (startPing now (c, sample_stack)))) = 3 \<and>
     length (sent (snd (snd (startPing now (c, sample_stack))))) = 3 \<and>
     length (waiting (snd (snd (startPing now (c, new_stack sample_link (Some [10, 0, 0, 9])))))) = 1"
proof -
  let ?new = "new_stack sample_link (Some [10, 0, 0, 9])"
  obtain c where c: "PingApp False 5 3 [10, 0, 0, 7] = Inr c" by (simp add: PingApp_def Let_def)
  then have r: "ping_ready [10, 0, 0, 2] [10, 0, 0, 9] c sample_stack"
      "ping_ready [10, 0, 0, 2] [10, 0, 0, 9] c ?new"
    and n: "echo_times c = 3" "ping_sequence c = 0" "ping_dest c = [10, 0, 0, 7]"
    by (auto simp: PingApp_def ping_ready_def Let_def sample_stack_def new_stack_def)
  have t: "table_get (mac_table sample_stack) (Some [10, 0, 0, 9]) = Some router_mac"
    "table_get (mac_table ?new) (Some [10, 0, 0, 9]) = None"
    by (simp_all add: sample_stack_def new_stack_def table_get_def)
  have known: "startPing now (c, sample_stack) = (Inr (), (numbered 3 c, sent_also
      (map (\<lambda>k. link_packet (card_mac (link sample_stack)) (ping_bytes [10, 0, 0, 2] (numbered k c) (now k))
        (Some router_mac) 0x0800) [0..<3]) sample_stack))" for now
    using pings_are_numbered [OF r(1), of now] by (simp only: t n option.case)
  have unknown: "startPing now (c, ?new) = (Inr (), (numbered 3 c,
      sent_also (replicate 3 (router_request [10, 0, 0, 2] [10, 0, 0, 9] ?new))
        (?new\<lparr>waiting := last_ping_waits [10, 0, 0, 2] c now [0..<3] (waiting ?new)\<rparr>)))" for now
    using pings_are_numbered [OF r(2), of now] by (simp only: t n option.case)
  show ?thesis
    using c by (intro exI [of _ c])
      (simp add: known unknown numbered_def n(2) sent_also_def last_ping_waits_def,
        simp add: sample_stack_def new_stack_def)
qed

lemma traceroute_advances_by_hops_witness:
  "let infos = replicate 2 (no_icmp_result\<lparr>r_type := Some 11, r_code := Some 0\<rparr>)
   in tr_ttl (fst (snd (for_each infos (\<lambda>info. trace_handleData 0 info [10, 0, 0, 9])
        (TraceRoute [10, 0, 0, 7], sample_stack\<lparr>receivers := [0]\<rparr>)))) = 3"
proof -
  have "trace_ready 0 [10, 0, 0, 2] router_mac (TraceRoute [10, 0, 0, 7]) (sample_stack\<lparr>receivers := [0]\<rparr>)"
    using sample_stack_simps(3) by (simp add: trace_ready_def TraceRoute_def router_known_def)
  from traceroute_advances_by_hops [OF this, of "[10, 0, 0, 9]"
      "replicate 2 (no_icmp_result\<lparr>r_type := Some 11, r_code := Some 0\<rparr>)"]
  show ?thesis by (simp add: hop_def TraceRoute_def)
qed

end
