(* ===== verification/BpfInsn.thy ===== *)
theory BpfInsn
  imports HeaderStructs
begin

text \<open>
  The instructions of the packet filter as \<open>pcap-bpf.h\<close> encodes them: the fields of an opcode, the
  structure of an instruction and the macros that build one, with the alignment macro and the remaining
  declarations of \<open>pcap.h\<close>. The fields of an opcode put together are read back by their masks.
\<close>

section \<open>Fields of an opcode\<close>

definition BPF_CLASS :: "u16 \<Rightarrow> u16" where "BPF_CLASS code = code AND 0x07"
definition BPF_SIZE :: "u16 \<Rightarrow> u16" where "BPF_SIZE code = code AND 0x18"
definition BPF_MODE :: "u16 \<Rightarrow> u16" where "BPF_MODE code = code AND 0xe0"
definition BPF_OP :: "u16 \<Rightarrow> u16" where "BPF_OP code = code AND 0xf0"
definition BPF_SRC :: "u16 \<Rightarrow> u16" where "BPF_SRC code = code AND 0x08"
definition BPF_RVAL :: "u16 \<Rightarrow> u16" where "BPF_RVAL code = code AND 0x18"
definition BPF_MISCOP :: "u16 \<Rightarrow> u16" where "BPF_MISCOP code = code AND 0xf8"

datatype bpf_class = BPF_LD | BPF_LDX | BPF_ST | BPF_STX | BPF_ALU | BPF_JMP | BPF_RET | BPF_MISC

fun class_code :: "bpf_class \<Rightarrow> u16" where
  "class_code BPF_LD = 0x00"
| "class_code BPF_LDX = 0x01"
| "class_code BPF_ST = 0x02"
| "class_code BPF_STX = 0x03"
| "class_code BPF_ALU = 0x04"
| "class_code BPF_JMP = 0x05"
| "class_code BPF_RET = 0x06"
| "class_code BPF_MISC = 0x07"

datatype bpf_size = BPF_W | BPF_H | BPF_B

fun size_code :: "bpf_size \<Rightarrow> u16" where
  "size_code BPF_W = 0x00"
| "size_code BPF_H = 0x08"
| "size_code BPF_B = 0x10"

datatype bpf_mode = BPF_IMM | BPF_ABS | BPF_IND | BPF_MEM | BPF_LEN | BPF_MSH

fun mode_code :: "bpf_mode \<Rightarrow> u16" where
  "mode_code BPF_IMM = 0x00"
| "mode_code BPF_ABS = 0x20"
| "mode_code BPF_IND = 0x40"
| "mode_code BPF_MEM = 0x60"
| "mode_code BPF_LEN = 0x80"
| "mode_code BPF_MSH = 0xa0"

datatype bpf_alu = BPF_ADD | BPF_SUB | BPF_MUL | BPF_DIV | BPF_OR | BPF_AND | BPF_LSH | BPF_RSH | BPF_NEG

fun alu_code :: "bpf_alu \<Rightarrow> u16" where
  "alu_code BPF_ADD = 0x00"
| "alu_code BPF_SUB = 0x10"
| "alu_code BPF_MUL = 0x20"
| "alu_code BPF_DIV = 0x30"
| "alu_code BPF_OR = 0x40"
| "alu_code BPF_AND = 0x50"
| "alu_code BPF_LSH = 0x60"
| "alu_code BPF_RSH = 0x70"
| "alu_code BPF_NEG = 0x80"

datatype bpf_jump = BPF_JA | BPF_JEQ | BPF_JGT | BPF_JGE | BPF_JSET

fun jump_code :: "bpf_jump \<Rightarrow> u16" where
  "jump_code BPF_JA = 0x00"
| "jump_code BPF_JEQ = 0x10"
| "jump_code BPF_JGT = 0x20"
| "jump_code BPF_JGE = 0x30"
| "jump_code BPF_JSET = 0x40"

datatype bpf_src = BPF_K | BPF_X

fun src_code :: "bpf_src \<Rightarrow> u16" where
  "src_code BPF_K = 0x00"
| "src_code BPF_X = 0x08"

text \<open>The value \<open>ret\<close> returns: the accumulator, or as for \<open>BPF_SRC\<close>.\<close>

datatype bpf_rval = RetSrc bpf_src | BPF_A

fun rval_code :: "bpf_rval \<Rightarrow> u16" where
  "rval_code (RetSrc s) = src_code s"
| "rval_code BPF_A = 0x10"

datatype bpf_miscop = BPF_TAX | BPF_TXA

fun miscop_code :: "bpf_miscop \<Rightarrow> u16" where
  "miscop_code BPF_TAX = 0x00"
| "miscop_code BPF_TXA = 0x80"

section \<open>Instructions\<close>

type_synonym bpf_int32 = u32
type_synonym bpf_u_int32 = u32

record bpf_insn =
  insn_code :: u16
  jt :: u8
  jf :: u8
  k_field :: bpf_int32

definition BPF_STMT :: "u16 \<Rightarrow> bpf_int32 \<Rightarrow> bpf_insn" where
  "BPF_STMT code k = \<lparr>insn_code = code, jt = 0, jf = 0, k_field = k\<rparr>"

definition BPF_JUMP :: "u16 \<Rightarrow> bpf_int32 \<Rightarrow> u8 \<Rightarrow> u8 \<Rightarrow> bpf_insn" where
  "BPF_JUMP code k t f = \<lparr>insn_code = code, jt = t, jf = f, k_field = k\<rparr>"

definition BPF_MEMWORDS :: nat where "BPF_MEMWORDS = 16"

definition struct_bpf_insn :: ctype where
  "struct_bpf_insn = CStruct [(''code'', u_short), (''jt'', u_char), (''jf'', u_char), (''k'', u_int)]"

definition struct_bpf_program :: ctype where
  "struct_bpf_program = CStruct [(''bf_len'', u_int), (''bf_insns'', CPtr)]"

definition struct_bpf_version :: ctype where
  "struct_bpf_version = CStruct [(''bv_major'', u_short), (''bv_minor'', u_short)]"

definition bpf_constants :: "(string \<times> nat) list" where
  "bpf_constants =
     [(''BPF_MAXINSNS'', 512), (''BPF_MAXBUFSIZE'', 0x8000), (''BPF_MINBUFSIZE'', 32)]"

definition BPF_RELEASE :: nat where "BPF_RELEASE = 199606"

definition bpf_versions :: "(string \<times> nat) list" where
  "bpf_versions = [(''BPF_MAJOR_VERSION'', 1), (''BPF_MINOR_VERSION'', 1)]"

text \<open>\<open>sizeof\<close> gives a \<open>size_t\<close>, so the macro computes without a sign.\<close>

definition BPF_ALIGNMENT :: "bool \<Rightarrow> data_model \<Rightarrow> nat" where
  "BPF_ALIGNMENT netbsd d = (if netbsd then sizeof d CLong else sizeof d u_int)"

definition BPF_WORDALIGN :: "bool \<Rightarrow> data_model \<Rightarrow> u64 \<Rightarrow> u64" where
  "BPF_WORDALIGN netbsd d x =
     (x + (of_nat (BPF_ALIGNMENT netbsd d) - 1)) AND NOT (of_nat (BPF_ALIGNMENT netbsd d) - 1)"

section \<open>The capture library\<close>

definition pcap_direction :: "(string \<times> nat) list" where
  "pcap_direction = [(''PCAP_D_INOUT'', 0), (''PCAP_D_IN'', 1), (''PCAP_D_OUT'', 2)]"

definition pcap_modes :: "(string \<times> nat) list" where
  "pcap_modes = [(''MODE_CAPT'', 0), (''MODE_STAT'', 1), (''MODE_MON'', 2)]"

definition pcap_versions :: "(string \<times> nat) list" where
  "pcap_versions = [(''PCAP_VERSION_MAJOR'', 2), (''PCAP_VERSION_MINOR'', 4)]"

definition struct_pcap_stat_ex :: ctype where
  "struct_pcap_stat_ex = CStruct
     [(''rx_packets'', CLong), (''tx_packets'', CLong), (''rx_bytes'', CLong), (''tx_bytes'', CLong),
      (''rx_errors'', CLong), (''tx_errors'', CLong), (''rx_dropped'', CLong), (''tx_dropped'', CLong),
      (''multicast'', CLong), (''collisions'', CLong),
      (''rx_length_errors'', CLong), (''rx_over_errors'', CLong), (''rx_crc_errors'', CLong),
      (''rx_frame_errors'', CLong), (''rx_fifo_errors'', CLong), (''rx_missed_errors'', CLong),
      (''tx_aborted_errors'', CLong), (''tx_carrier_errors'', CLong), (''tx_fifo_errors'', CLong),
      (''tx_heartbeat_errors'', CLong), (''tx_window_errors'', CLong)]"

section \<open>Laws\<close>

lemma class_code_masks:
  "class_code c AND 0x07 = class_code c" "class_code c AND 0x18 = 0" "class_code c AND 0xe0 = 0"
  "class_code c AND 0xf0 = 0" "class_code c AND 0x08 = 0" "class_code c AND 0xf8 = 0"
  by (cases c; simp)+

lemma size_code_masks: "size_code s AND 0x07 = 0" "size_code s AND 0x18 = size_code s" "size_code s AND 0xe0 = 0"
  by (cases s; simp)+

lemma mode_code_masks: "mode_code m AND 0x07 = 0" "mode_code m AND 0x18 = 0" "mode_code m AND 0xe0 = mode_code m"
  by (cases m; simp)+

lemma alu_code_masks: "alu_code f AND 0x07 = 0" "alu_code f AND 0xf0 = alu_code f" "alu_code f AND 0x08 = 0"
  by (cases f; simp)+

lemma jump_code_masks: "jump_code j AND 0x07 = 0" "jump_code j AND 0xf0 = jump_code j" "jump_code j AND 0x08 = 0"
  by (cases j; simp)+

lemma src_code_masks:
  "src_code s AND 0x07 = 0" "src_code s AND 0xf0 = 0" "src_code s AND 0x08 = src_code s"
  "src_code s AND 0x18 = src_code s"
  by (cases s; simp)+

lemma rval_code_masks: "rval_code v AND 0x07 = 0" "rval_code v AND 0x18 = rval_code v"
  by (cases v; simp add: src_code_masks)+

lemma miscop_code_masks: "miscop_code u AND 0x07 = 0" "miscop_code u AND 0xf8 = miscop_code u"
  by (cases u; simp)+

lemmas opcode_masks = BPF_CLASS_def BPF_SIZE_def BPF_MODE_def BPF_OP_def BPF_SRC_def BPF_RVAL_def BPF_MISCOP_def
  bit.conj_disj_distrib2 class_code_masks size_code_masks mode_code_masks alu_code_masks jump_code_masks
  src_code_masks rval_code_masks miscop_code_masks

text \<open>
  The fields of an opcode do not overlap: what is combined with \<open>|\<close> is read back by the masks, for
  the loads and stores, the arithmetic and jump instructions, \<open>ret\<close> and the transfers.
\<close>

theorem opcode_fields:
  "BPF_CLASS (class_code c OR size_code s OR mode_code m) = class_code c \<and>
   BPF_SIZE (class_code c OR size_code s OR mode_code m) = size_code s \<and>
   BPF_MODE (class_code c OR size_code s OR mode_code m) = mode_code m \<and>
   BPF_CLASS (class_code c OR alu_code f OR src_code x) = class_code c \<and>
   BPF_OP (class_code c OR alu_code f OR src_code x) = alu_code f \<and>
   BPF_SRC (class_code c OR alu_code f OR src_code x) = src_code x \<and>
   BPF_CLASS (class_code c OR jump_code j OR src_code x) = class_code c \<and>
   BPF_OP (class_code c OR jump_code j OR src_code x) = jump_code j \<and>
   BPF_SRC (class_code c OR jump_code j OR src_code x) = src_code x \<and>
   BPF_CLASS (class_code c OR rval_code v) = class_code c \<and>
   BPF_RVAL (class_code c OR rval_code v) = rval_code v \<and>
   BPF_CLASS (class_code c OR miscop_code u) = class_code c \<and>
   BPF_MISCOP (class_code c OR miscop_code u) = miscop_code u"
  by (intro conjI) (simp_all only: opcode_masks or.left_neutral or.right_neutral)

lemma opcode_codes_inj:
  "inj class_code" "inj size_code" "inj mode_code" "inj alu_code" "inj jump_code" "inj src_code" "inj rval_code"
  "inj miscop_code"
proof -
  show "inj class_code" "inj size_code" "inj mode_code" "inj alu_code" "inj jump_code" "inj src_code" "inj miscop_code"
    by (rule injI; rename_tac a b; case_tac a; case_tac b; simp)+
  show "inj rval_code"
  proof (rule injI)
    fix a b assume eq: "rval_code a = rval_code b"
    have src: "src_code x = src_code y \<longleftrightarrow> x = y" "src_code x \<noteq> 0x10" for x y
      by (cases x; cases y; simp)+
    show "a = b" using eq src src(2) [symmetric] by (cases a; cases b) auto
  qed
qed

text \<open>An instruction has the same eight bytes on every data model, as the kernel expects.\<close>

lemma bpf_insn_size: "sizeof d struct_bpf_insn = 8"
  by (cases d) (simp_all add: struct_bpf_insn_def round_up_def)

text \<open>The macro rounds up to the next multiple.\<close>

lemma and_not_mask: "(y :: u64) AND NOT (2 ^ k - 1) = push_bit k (drop_bit k y)"
  by (rule bit_word_eqI) (auto simp: bit_simps simp flip: mask_eq_exp_minus_1)

theorem BPF_WORDALIGN_rounds_up:
  assumes "unat x + BPF_ALIGNMENT netbsd d \<le> 2 ^ 64"
  shows "unat (BPF_WORDALIGN netbsd d x) = round_up (unat x) (BPF_ALIGNMENT netbsd d)"
proof -
  obtain k where k: "BPF_ALIGNMENT netbsd d = 2 ^ k" "k = 2 \<or> k = 3"
    by (cases d; cases netbsd) (force simp: BPF_ALIGNMENT_def intro: that [of 2] that [of 3])+
  let ?y = "x + (2 ^ k - 1)"
  have y: "unat ?y = unat x + (2 ^ k - 1)"
    using k(2) by (rule disjE) (use assms k(1) in \<open>simp_all add: unat_word_ariths\<close>)
  have "unat ?y < 2 ^ 64" using unsigned_less [of ?y] by simp
  then have self: "take_bit 64 (unat ?y) = unat ?y" by (simp add: take_bit_nat_eq_self)
  have "unat ?y div 2 ^ k * 2 ^ k \<le> unat ?y" by simp
  also have "\<dots> < 2 ^ 64" using unsigned_less [of ?y] by simp
  finally have "unat (push_bit k (drop_bit k ?y)) = unat ?y div 2 ^ k * 2 ^ k"
    unfolding unsigned_push_bit_eq unsigned_drop_bit_eq
    by (simp add: self take_bit_nat_eq_self push_bit_eq_mult drop_bit_eq_div)
  then show ?thesis
    using k(1) y by (simp add: BPF_WORDALIGN_def and_not_mask round_up_def)
qed

end
