(* ===== verification/Tme.thy ===== *)
theory Tme
  imports CMem HeaderStructs TimeLaws
begin

text \<open>
  The table management engine the driver runs statistics with, as far as its headers define it:
  \<open>memory_t.h\<close> (access to byte buffers in both byte orders), \<open>tme.h\<close> (registers, blocks and the
  test whether an entry may be deleted) and the structures and codes of \<open>tcp_session.h\<close>,
  \<open>count_packets.h\<close>, \<open>bucket_lookup.h\<close> and \<open>normal_lookup.h\<close>.
\<close>

section \<open>Memory\<close>

definition struct_MEM_TYPE :: ctype where
  "struct_MEM_TYPE = CStruct [(''buffer'', CPtr), (''size'', u_int)]"

text \<open>In the byte order of the host; \<open>LONG_AT\<close> and \<open>SHORT_AT\<close> read the same bits as signed.\<close>

definition ULONG_AT :: "mem \<Rightarrow> ptr \<Rightarrow> u32 \<Rightarrow> u32 res" where
  "ULONG_AT m base offset = rd32 m (base + uint offset)"

definition LONG_AT :: "mem \<Rightarrow> ptr \<Rightarrow> u32 \<Rightarrow> int res" where
  "LONG_AT m base offset = bindr (rd32 m (base + uint offset)) (\<lambda>w. Inr (sint w))"

definition USHORT_AT :: "mem \<Rightarrow> ptr \<Rightarrow> u32 \<Rightarrow> u16 res" where
  "USHORT_AT m base offset = rd16 m (base + uint offset)"

definition SHORT_AT :: "mem \<Rightarrow> ptr \<Rightarrow> u32 \<Rightarrow> int res" where
  "SHORT_AT m base offset = bindr (rd16 m (base + uint offset)) (\<lambda>w. Inr (sint w))"

text \<open>In network order.\<close>

definition SW_ULONG_AT :: "mem \<Rightarrow> ptr \<Rightarrow> u32 \<Rightarrow> u32 res" where
  "SW_ULONG_AT m b c =
     bindr (rd8 m (b + uint c)) (\<lambda>b0. bindr (rd8 m (b + uint c + 1)) (\<lambda>b1.
     bindr (rd8 m (b + uint c + 2)) (\<lambda>b2. bindr (rd8 m (b + uint c + 3)) (\<lambda>b3.
     Inr (push_bit 24 (ucast b0) OR push_bit 16 (ucast b1) OR push_bit 8 (ucast b2) OR push_bit 0 (ucast b3))))))"

definition SW_LONG_AT :: "mem \<Rightarrow> ptr \<Rightarrow> u32 \<Rightarrow> int res" where
  "SW_LONG_AT m b c =
     bindr (rd8 m (b + uint c)) (\<lambda>b0. bindr (rd8 m (b + uint c + 1)) (\<lambda>b1.
     bindr (rd8 m (b + uint c + 2)) (\<lambda>b2. bindr (rd8 m (b + uint c + 3)) (\<lambda>b3.
     Inr (sint (push_bit 24 (ucast b0) OR push_bit 16 (ucast b1) OR push_bit 8 (ucast b2)
       OR push_bit 0 (ucast b3) :: u32))))))"

definition SW_USHORT_AT :: "mem \<Rightarrow> ptr \<Rightarrow> u32 \<Rightarrow> u16 res" where
  "SW_USHORT_AT m b os =
     bindr (rd8 m (b + uint os + 0)) (\<lambda>b0. bindr (rd8 m (b + uint os + 1)) (\<lambda>b1.
     Inr (push_bit 8 (ucast b0) OR push_bit 0 (ucast b1))))"

definition SW_SHORT_AT :: "mem \<Rightarrow> ptr \<Rightarrow> u32 \<Rightarrow> int res" where
  "SW_SHORT_AT m b os =
     bindr (rd8 m (b + uint os + 0)) (\<lambda>b0. bindr (rd8 m (b + uint os + 1)) (\<lambda>b1.
     Inr (sint (push_bit 8 (ucast b0) OR push_bit 0 (ucast b1) :: u16))))"

definition SW_ULONG_ASSIGN :: "ptr \<Rightarrow> u32 \<Rightarrow> mem \<Rightarrow> mem res" where
  "SW_ULONG_ASSIGN dst src m =
     bindr (wr8 (dst + 0) (byte_at 3 src) m) (\<lambda>m. bindr (wr8 (dst + 1) (byte_at 2 src) m) (\<lambda>m.
     bindr (wr8 (dst + 2) (byte_at 1 src) m) (wr8 (dst + 3) (byte_at 0 src))))"

section \<open>Constants of the engine\<close>

definition tme_status :: "(string \<times> u32) list" where
  "tme_status = [(''TME_ERROR'', 0), (''TME_SUCCESS'', 1), (''TME_TRUE'', 2), (''TME_FALSE'', 3)]"

definition tme_limits :: "(string \<times> u32) list" where
  "tme_limits =
     [(''DEFAULT_MEM_EX_SIZE'', 65536), (''MAX_TME_DATA_BLOCKS'', 4), (''TME_NONE_ACTIVE'', 0xffffffff),
      (''DELTA_READ'', 2)]"

definition tme_registers :: "(string \<times> u32) list" where
  "tme_registers =
     [(''TME_LUT_ENTRIES'', 0x00), (''TME_MAX_FILL_STATE'', 0x01), (''TME_REHASHING_VALUE'', 0x02),
      (''TME_KEY_LEN'', 0x03), (''TME_SHARED_MEMORY_BLOCKS'', 0x04), (''TME_FILLED_ENTRIES'', 0x05),
      (''TME_BLOCK_SIZE'', 0x06), (''TME_EXTRA_SEGMENT_SIZE'', 0x07), (''TME_LOOKUP_CODE'', 0x08),
      (''TME_OUT_LUT_EXEC'', 0x09), (''TME_FILLED_BLOCKS'', 0x0a), (''TME_DEFAULT_EXEC'', 0x0b),
      (''TME_LUT_BASE_ADDRESS'', 0x0c), (''TME_SHARED_MEMORY_BASE_ADDRESS'', 0x0d),
      (''TME_EXTRA_SEGMENT_BASE_ADDRESS'', 0x0e), (''TME_LAST_FOUND'', 0x0f), (''TME_LAST_FOUND_BLOCK'', 0x10)]"

definition tme_defaults :: "(string \<times> u32) list" where
  "tme_defaults =
     [(''TME_LUT_ENTRIES_DEFAULT'', 32007), (''TME_REHASHING_VALUE_DEFAULT'', 1),
      (''TME_SHARED_MEMORY_BLOCKS_DEFAULT'', 16000), (''TME_BLOCK_SIZE_DEFAULT'', 64),
      (''TME_EXTRA_SEGMENT_SIZE_DEFAULT'', 0), (''TME_LOOKUP_CODE_DEFAULT'', 0),
      (''TME_OUT_LUT_EXEC_DEFAULT'', 0), (''TME_DEFAULT_EXEC_DEFAULT'', 0), (''TME_MAX_FILL_STATE_DEFAULT'', 15000)]"

text \<open>The functions a program may name, by table.\<close>

definition lut_fcn_codes :: "(string \<times> u32) list" where
  "lut_fcn_codes =
     [(''NORMAL_LUT_W_INSERT'', 0x00000000), (''NORMAL_LUT_WO_INSERT'', 0x00000001)]"

definition bucket_fcn_codes :: "(string \<times> u32) list" where
  "bucket_fcn_codes = [(''BUCKET_LOOKUP_INSERT'', 0x00000011), (''BUCKET_LOOKUP'', 0x00000010)]"

definition COUNT_PACKETS :: u32 where "COUNT_PACKETS = 0x00000000"
definition TCP_SESSION :: u32 where "TCP_SESSION = 0x00000800"
definition DUMMY_INSERT :: u32 where "DUMMY_INSERT = 1234"

section \<open>Blocks and entries\<close>

text \<open>Structures with a time stamp have a \<open>long\<close> of 32 bits on the systems the driver runs on.\<close>

definition struct_RECORD :: ctype where
  "struct_RECORD = CStruct [(''block'', u_int), (''exec_fcn'', u_int)]"

record TME_DATA =
  lut_entries :: u32
  max_fill_state :: u32
  rehashing_value :: u32
  key_len :: u32
  shared_memory_blocks :: u32
  filled_entries :: u32
  block_size :: u32
  extra_segment_size :: u32
  filled_blocks :: u32
  lookup_code :: ptr
  default_exec :: u32
  out_lut_exec :: u32
  lut_base_address :: ptr
  shared_memory_base_address :: ptr
  extra_segment_base_address :: ptr
  last_read :: timeval
  enable_deletion :: u32
  last_found :: ptr

record TME_CORE =
  working :: u32
  active :: u32
  validated_blocks :: u32
  block_data :: "TME_DATA list"
  active_read :: u32

definition struct_c_p_data :: ctype where
  "struct_c_p_data = CStruct [(''timestamp'', struct_timeval), (''packets'', CInt 8), (''bytes'', CInt 8)]"

definition IS_VALIDATED :: "u32 \<Rightarrow> nat \<Rightarrow> u32" where
  "IS_VALIDATED src index = src AND push_bit index 1"

definition VALIDATE :: "u32 \<Rightarrow> nat \<Rightarrow> u32" where
  "VALIDATE src index = src OR push_bit index 1"

definition FORCE_NO_DELETION :: "timeval \<Rightarrow> timeval" where
  "FORCE_NO_DELETION timestamp = timestamp\<lparr>tv_sec := 0x7fffffff\<rparr>"

text \<open>The sum is one of two \<open>long\<close> values of 32 bits.\<close>

definition IS_DELETABLE :: "timeval \<Rightarrow> TME_DATA \<Rightarrow> bool" where
  "IS_DELETABLE ts data =
     (if enable_deletion data = 0 then False
      else if filled_entries data < max_fill_state data then False
      else if tv_sec ts + 2 <s tv_sec (last_read data) then True
      else False)"

section \<open>The TCP sessions\<close>

definition tcp_session_states :: "(string \<times> u32) list" where
  "tcp_session_states =
     [(''UNKNOWN'', 0), (''SYN_RCV'', 1), (''SYN_ACK_RCV'', 2), (''ESTABLISHED'', 3), (''CLOSED_RST'', 4),
      (''FIN_CLN_RCV'', 5), (''FIN_SRV_RCV'', 6), (''CLOSED_FIN'', 7), (''ERROR_TCP'', 8)]"

definition tcp_session_constants :: "(string \<times> u32) list" where
  "tcp_session_constants =
     [(''FIRST_IS_CLN'', 0), (''FIRST_IS_SRV'', 0xffffffff), (''FIN_CLN'', 1), (''FIN_SRV'', 2),
      (''MAX_WINDOW'', 65536)]"

definition tcp_session_flags :: "(string \<times> u8) list" where
  "tcp_session_flags =
     [(''FIN'', 1), (''SYN'', 2), (''RST'', 4), (''PSH'', 8), (''ACK'', 16), (''URG'', 32)]"

definition struct_tcp_data :: ctype where
  "struct_tcp_data = CStruct
     [(''timestamp_block'', struct_timeval), (''syn_timestamp'', struct_timeval),
      (''last_timestamp'', struct_timeval), (''syn_ack_timestamp'', struct_timeval),
      (''direction'', u_int), (''seq_n_0_srv'', u_int), (''seq_n_0_cln'', u_int), (''ack_srv'', u_int),
      (''ack_cln'', u_int), (''status'', u_int), (''pkts_cln_to_srv'', u_int), (''pkts_srv_to_cln'', u_int),
      (''bytes_srv_to_cln'', u_int), (''bytes_cln_to_srv'', u_int), (''close_state'', u_int)]"

section \<open>Laws\<close>

lemma SW_bits_32:
  "push_bit 24 (ucast b0) OR push_bit 16 (ucast b1) OR push_bit 8 (ucast b2) OR ucast b3 =
     be32 b0 b1 b2 b3" (is "?l = ?r")
proof (rule bit_word_eqI)
  fix n assume n: "n < LENGTH(32)"
  show "bit ?l n \<longleftrightarrow> bit ?r n"
    using n bit_imp_le_length [of b3 n] bit_imp_le_length [of b2 "n - 8"] bit_imp_le_length [of b1 "n - 16"]
    by (auto simp: bit_le32 bit_or_iff bit_push_bit_iff bit_ucast_iff)
qed

lemma SW_bits_16:
  "push_bit 8 (ucast b0) OR ucast b1 = be16 b0 b1" (is "?l = ?r")
proof (rule bit_word_eqI)
  fix n assume n: "n < LENGTH(16)"
  show "bit ?l n \<longleftrightarrow> bit ?r n"
    using n bit_imp_le_length [of b1 n] bit_imp_le_length [of b0 "n - 8"]
    by (auto simp: bit_le16 bit_or_iff bit_push_bit_iff bit_ucast_iff)
qed

text \<open>
  The reads in network order are the reads in host order converted, where both are in bounds.
\<close>

theorem SW_reads_swap:
  assumes "0 \<le> b + uint c" and "b + uint c + 4 \<le> int (length m)"
  shows "SW_ULONG_AT m b c = bindr (ULONG_AT m b c) (\<lambda>w. Inr (ntohl w)) \<and>
     SW_USHORT_AT m b c = bindr (USHORT_AT m b c) (\<lambda>w. Inr (ntohs w)) \<and>
     SW_LONG_AT m b c = bindr (SW_ULONG_AT m b c) (\<lambda>w. Inr (sint w)) \<and>
     SW_SHORT_AT m b c = bindr (SW_USHORT_AT m b c) (\<lambda>w. Inr (sint w))"
  using assms
  by (simp add: SW_ULONG_AT_def SW_USHORT_AT_def SW_LONG_AT_def SW_SHORT_AT_def ULONG_AT_def USHORT_AT_def
      rd8_def rd16_def rd32_def in_range_def SW_bits_32 SW_bits_16 nat_add_distrib)

text \<open>What \<open>SW_ULONG_ASSIGN\<close> stores is read back by \<open>SW_ULONG_AT\<close>, and no other byte changes.\<close>

theorem SW_ULONG_round_trip:
  assumes "length w = 4"
  shows "\<exists>m. SW_ULONG_ASSIGN (int (length pre)) src (pre @ w @ post) = Inr m \<and>
     m = pre @ bytes32 (htonl src) @ post \<and> SW_ULONG_AT m (int (length pre)) 0 = Inr src"
proof -
  obtain a b c d where w: "w = [a, b, c, d]"
    using assms by (auto simp: numeral_eq_Suc length_Suc_conv)
  let ?m = "pre @ bytes32 (htonl src) @ post"
  have "SW_ULONG_ASSIGN (int (length pre)) src (pre @ w @ post) = Inr ?m"
    by (simp add: SW_ULONG_ASSIGN_def wr8_def wr_bytes_def in_range_def w overlay_def bytes32_def nat_add_distrib)
  moreover have "SW_ULONG_AT ?m (int (length pre)) 0 = Inr src"
    by (simp add: SW_ULONG_AT_def rd8_def in_range_def SW_bits_32 bytes32_def nat_add_distrib nth_append)
  ultimately show ?thesis by blast
qed

lemma push_bit_1_neq_0: "i < 32 \<Longrightarrow> (v :: u32) AND push_bit i 1 \<noteq> 0 \<longleftrightarrow> bit v i"
  by (metis and_exp_eq_0_iff_not_bit push_bit_of_1)

text \<open>Validating a block sets its bit and leaves those of the others.\<close>

theorem VALIDATE_block:
  assumes "i < 32" and "j < 32"
  shows "IS_VALIDATED (VALIDATE s i) j \<noteq> 0 \<longleftrightarrow> j = i \<or> IS_VALIDATED s j \<noteq> 0"
  using assms
  by (auto simp: IS_VALIDATED_def VALIDATE_def push_bit_1_neq_0 bit_or_iff bit_push_bit_iff bit_1_iff simp del: push_bit_of_1)

text \<open>
  An entry may be deleted when deletion is on, the table is full and the entry is more than two
  seconds older than the last read.
\<close>

lemma IS_DELETABLE_spec:
  assumes "sint (tv_sec ts) + 2 < 2 ^ 31"
  shows "IS_DELETABLE ts data \<longleftrightarrow> enable_deletion data \<noteq> 0 \<and> max_fill_state data \<le> filled_entries data \<and>
     sint (tv_sec ts) + 2 < sint (tv_sec (last_read data))"
proof -
  have "tv_sec ts + 2 = word_of_int (sint (tv_sec ts) + 2)" by simp
  moreover have "sint (word_of_int (sint (tv_sec ts) + 2) :: u32) = sint (tv_sec ts) + 2"
    by (rule sint_word_of_int_32) (use assms sint_ge [of "tv_sec ts"] in simp_all)
  ultimately have "sint (tv_sec ts + 2) = sint (tv_sec ts) + 2" by (simp only:)
  then show ?thesis by (auto simp: IS_DELETABLE_def word_sless_alt not_less)
qed

text \<open>
  \<open>FORCE_NO_DELETION\<close> does the opposite of what it is for: the time it stores overflows in the sum
  of \<open>IS_DELETABLE\<close>, and where that wraps around the entry may be deleted from the first read of the
  table on, whatever the age.
\<close>

theorem FORCE_NO_DELETION_allows_deletion:
  assumes "enable_deletion data \<noteq> 0" and "max_fill_state data \<le> filled_entries data"
    and "0 \<le> sint (tv_sec (last_read data))"
  shows "IS_DELETABLE (FORCE_NO_DELETION ts) data"
proof -
  have "(0x7fffffff + 2 :: u32) <s tv_sec (last_read data)"
    using assms(3) by (simp add: word_sless_alt)
  then show ?thesis
    using assms by (simp add: IS_DELETABLE_def FORCE_NO_DELETION_def not_less [symmetric])
qed

end
