(* ===== verification/Ioctl.thy ===== *)
theory Ioctl
  imports HeaderStructs
begin

text \<open>
  The control codes of the driver: \<open>CTL_CODE\<close> and the device numbers of \<open>Devioctl.h\<close>, the codes of
  \<open>Ntddpack.h\<close> and \<open>Packet32.h\<close>, and the constants and structures of \<open>Packet32.h\<close> that need no type
  of Windows; and what \<open>Win32-Extensions.h\<close> adds.
\<close>

section \<open>Control codes\<close>

definition file_devices :: "(string \<times> u32) list" where
  "file_devices =
     [(''FILE_DEVICE_BEEP'', 0x01), (''FILE_DEVICE_CD_ROM'', 0x02), (''FILE_DEVICE_CD_ROM_FILE_SYSTEM'', 0x03),
      (''FILE_DEVICE_CONTROLLER'', 0x04), (''FILE_DEVICE_DATALINK'', 0x05), (''FILE_DEVICE_DFS'', 0x06),
      (''FILE_DEVICE_DISK'', 0x07), (''FILE_DEVICE_DISK_FILE_SYSTEM'', 0x08), (''FILE_DEVICE_FILE_SYSTEM'', 0x09),
      (''FILE_DEVICE_INPORT_PORT'', 0x0a), (''FILE_DEVICE_KEYBOARD'', 0x0b), (''FILE_DEVICE_MAILSLOT'', 0x0c),
      (''FILE_DEVICE_MIDI_IN'', 0x0d), (''FILE_DEVICE_MIDI_OUT'', 0x0e), (''FILE_DEVICE_MOUSE'', 0x0f),
      (''FILE_DEVICE_MULTI_UNC_PROVIDER'', 0x10), (''FILE_DEVICE_NAMED_PIPE'', 0x11), (''FILE_DEVICE_NETWORK'', 0x12),
      (''FILE_DEVICE_NETWORK_BROWSER'', 0x13), (''FILE_DEVICE_NETWORK_FILE_SYSTEM'', 0x14), (''FILE_DEVICE_NULL'', 0x15),
      (''FILE_DEVICE_PARALLEL_PORT'', 0x16), (''FILE_DEVICE_PHYSICAL_NETCARD'', 0x17), (''FILE_DEVICE_PRINTER'', 0x18),
      (''FILE_DEVICE_SCANNER'', 0x19), (''FILE_DEVICE_SERIAL_MOUSE_PORT'', 0x1a), (''FILE_DEVICE_SERIAL_PORT'', 0x1b),
      (''FILE_DEVICE_SCREEN'', 0x1c), (''FILE_DEVICE_SOUND'', 0x1d), (''FILE_DEVICE_STREAMS'', 0x1e),
      (''FILE_DEVICE_TAPE'', 0x1f), (''FILE_DEVICE_TAPE_FILE_SYSTEM'', 0x20), (''FILE_DEVICE_TRANSPORT'', 0x21),
      (''FILE_DEVICE_UNKNOWN'', 0x22), (''FILE_DEVICE_VIDEO'', 0x23), (''FILE_DEVICE_VIRTUAL_DISK'', 0x24),
      (''FILE_DEVICE_WAVE_IN'', 0x25), (''FILE_DEVICE_WAVE_OUT'', 0x26), (''FILE_DEVICE_8042_PORT'', 0x27),
      (''FILE_DEVICE_NETWORK_REDIRECTOR'', 0x28), (''FILE_DEVICE_BATTERY'', 0x29), (''FILE_DEVICE_BUS_EXTENDER'', 0x2a),
      (''FILE_DEVICE_MODEM'', 0x2b), (''FILE_DEVICE_VDM'', 0x2c), (''FILE_DEVICE_MASS_STORAGE'', 0x2d)]"

definition CTL_CODE :: "u32 \<Rightarrow> u32 \<Rightarrow> u32 \<Rightarrow> u32 \<Rightarrow> u32" where
  "CTL_CODE DeviceType Function Method Access =
     push_bit 16 DeviceType OR push_bit 14 Access OR push_bit 2 Function OR Method"

definition METHOD_BUFFERED :: u32 where "METHOD_BUFFERED = 0"
definition METHOD_IN_DIRECT :: u32 where "METHOD_IN_DIRECT = 1"
definition METHOD_OUT_DIRECT :: u32 where "METHOD_OUT_DIRECT = 2"
definition METHOD_NEITHER :: u32 where "METHOD_NEITHER = 3"

definition FILE_ANY_ACCESS :: u32 where "FILE_ANY_ACCESS = 0"
definition FILE_READ_ACCESS :: u32 where "FILE_READ_ACCESS = 1"
definition FILE_WRITE_ACCESS :: u32 where "FILE_WRITE_ACCESS = 2"

definition FILE_DEVICE_PROTOCOL :: u32 where "FILE_DEVICE_PROTOCOL = 0x8000"

abbreviation "protocol_code n \<equiv> CTL_CODE FILE_DEVICE_PROTOCOL n METHOD_BUFFERED FILE_ANY_ACCESS"

definition ntddpack_codes :: "(string \<times> u32) list" where
  "ntddpack_codes =
     [(''IOCTL_PROTOCOL_QUERY_OID'', protocol_code 0), (''IOCTL_PROTOCOL_SET_OID'', protocol_code 1),
      (''IOCTL_PROTOCOL_STATISTICS'', protocol_code 2), (''IOCTL_PROTOCOL_RESET'', protocol_code 3),
      (''IOCTL_PROTOCOL_READ'', protocol_code 4), (''IOCTL_PROTOCOL_WRITE'', protocol_code 5),
      (''IOCTL_PROTOCOL_MACNAME'', protocol_code 6), (''IOCTL_OPEN'', protocol_code 7),
      (''IOCTL_CLOSE'', protocol_code 8)]"

definition packet32_codes :: "(string \<times> u32) list" where
  "packet32_codes =
     [(''IOCTL_PROTOCOL_STATISTICS'', protocol_code 2), (''IOCTL_PROTOCOL_RESET'', protocol_code 3),
      (''IOCTL_PROTOCOL_READ'', protocol_code 4), (''IOCTL_PROTOCOL_WRITE'', protocol_code 5),
      (''IOCTL_PROTOCOL_MACNAME'', protocol_code 6), (''IOCTL_OPEN'', protocol_code 7),
      (''IOCTL_CLOSE'', protocol_code 8)]"

definition packet32_bioc_codes :: "(string \<times> u32) list" where
  "packet32_bioc_codes =
     [(''pBIOCSETBUFFERSIZE'', 9592), (''pBIOCSETF'', 9030), (''pBIOCGSTATS'', 9031),
      (''pBIOCSRTIMEOUT'', 7416), (''pBIOCSMODE'', 7412), (''pBIOCSWRITEREP'', 7413),
      (''pBIOCSMINTOCOPY'', 7414), (''pBIOCSETOID'', 2147483648), (''pBIOCQUERYOID'', 2147483652),
      (''pATTACHPROCESS'', 7117), (''pDETACHPROCESS'', 7118), (''pBIOCSETDUMPFILENAME'', 9029),
      (''pBIOCEVNAME'', 7415), (''pBIOCSENDPACKETSNOSYNC'', 9032), (''pBIOCSENDPACKETSSYNC'', 9033),
      (''pBIOCSETDUMPLIMITS'', 9034), (''pBIOCISDUMPENDED'', 7411), (''pBIOCISETLOBBEH'', 7410),
      (''pBIOCSETEVENTHANDLE'', 7920), (''pBIOCSTIMEZONE'', 7471)]"

text \<open>\<open>Ntddndis.h\<close>\<close>

definition NDIS_CONTROL_CODE :: "u32 \<Rightarrow> u32 \<Rightarrow> u32" where
  "NDIS_CONTROL_CODE request meth = CTL_CODE 0x17 request meth FILE_ANY_ACCESS"

definition ndis_codes :: "(string \<times> u32) list" where
  "ndis_codes =
     [(''IOCTL_NDIS_QUERY_GLOBAL_STATS'', NDIS_CONTROL_CODE 0 METHOD_OUT_DIRECT),
      (''IOCTL_NDIS_QUERY_ALL_STATS'', NDIS_CONTROL_CODE 1 METHOD_OUT_DIRECT),
      (''IOCTL_NDIS_ADD_DEVICE'', NDIS_CONTROL_CODE 2 METHOD_BUFFERED),
      (''IOCTL_NDIS_DELETE_DEVICE'', NDIS_CONTROL_CODE 3 METHOD_BUFFERED),
      (''IOCTL_NDIS_TRANSLATE_NAME'', NDIS_CONTROL_CODE 4 METHOD_BUFFERED),
      (''IOCTL_NDIS_ADD_TDI_DEVICE'', NDIS_CONTROL_CODE 5 METHOD_BUFFERED),
      (''IOCTL_NDIS_NOTIFY_PROTOCOL'', NDIS_CONTROL_CODE 6 METHOD_BUFFERED),
      (''IOCTL_NDIS_GET_LOG_DATA'', NDIS_CONTROL_CODE 7 METHOD_OUT_DIRECT)]"

section \<open>Packet.dll\<close>

definition packet_modes :: "(string \<times> nat) list" where
  "packet_modes =
     [(''PACKET_MODE_CAPT'', 0x0), (''PACKET_MODE_STAT'', 0x1), (''PACKET_MODE_MON'', 0x2),
      (''PACKET_MODE_DUMP'', 0x10)]"

definition Packet_ALIGNMENT :: u32 where "Packet_ALIGNMENT = 4"

definition Packet_WORDALIGN :: "u32 \<Rightarrow> u32" where
  "Packet_WORDALIGN x = (x + (Packet_ALIGNMENT - 1)) AND NOT (Packet_ALIGNMENT - 1)"

definition ndis_media :: "(string \<times> int) list" where
  "ndis_media =
     [(''NdisMediumNull'', -1), (''NdisMediumCHDLC'', -2), (''NdisMediumPPPSerial'', -3),
      (''NdisMediumBare80211'', -4), (''NdisMediumRadio80211'', -5)]"

definition loopback_behaviours :: "(string \<times> nat) list" where
  "loopback_behaviours = [(''NPF_DISABLE_LOOPBACK'', 1), (''NPF_ENABLE_LOOPBACK'', 2)]"

definition packet32_limits :: "(string \<times> nat) list" where
  "packet32_limits =
     [(''MAX_LINK_NAME_LENGTH'', 64), (''NMAX_PACKET'', 65535)]"

definition adapter_limits :: "(string \<times> nat) list" where
  "adapter_limits =
     [(''ADAPTER_NAME_LENGTH'', 256 + 12), (''ADAPTER_DESC_LENGTH'', 128), (''MAX_MAC_ADDR_LENGTH'', 8),
      (''MAX_NETWORK_ADDRESSES'', 16)]"

definition adapter_flags :: "(string \<times> nat) list" where
  "adapter_flags =
     [(''INFO_FLAG_NDIS_ADAPTER'', 0), (''INFO_FLAG_NDISWAN_ADAPTER'', 1), (''INFO_FLAG_DAG_CARD'', 2),
      (''INFO_FLAG_DAG_FILE'', 6), (''INFO_FLAG_DONT_EXPORT'', 8), (''INFO_FLAG_AIRPCAP_CARD'', 16),
      (''INFO_FLAG_NPFIM_DEVICE'', 32)]"

definition struct_NetType :: ctype where
  "struct_NetType = CStruct [(''LinkType'', u_int), (''LinkSpeed'', CInt 8)]"

definition struct_bpf_stat :: ctype where
  "struct_bpf_stat = CStruct
     [(''bs_recv'', u_int), (''bs_drop'', u_int), (''ps_ifdrop'', u_int), (''bs_capt'', u_int)]"

definition struct_bpf_hdr :: ctype where
  "struct_bpf_hdr = CStruct
     [(''bh_tstamp'', struct_timeval), (''bh_caplen'', u_int), (''bh_datalen'', u_int), (''bh_hdrlen'', u_short)]"

definition struct_dump_bpf_hdr :: ctype where
  "struct_dump_bpf_hdr = CStruct [(''ts'', struct_timeval), (''caplen'', u_int), (''len'', u_int)]"

definition struct_npf_if_addr :: "ctype \<Rightarrow> ctype" where
  "struct_npf_if_addr sockaddr_storage = CStruct
     [(''IPAddress'', sockaddr_storage), (''SubnetMask'', sockaddr_storage), (''Broadcast'', sockaddr_storage)]"

definition struct_ADAPTER_INFO :: ctype where
  "struct_ADAPTER_INFO = CStruct
     [(''Next'', CPtr), (''Name'', CArray u_char (256 + 12 + 1)), (''Description'', CArray u_char (128 + 1)),
      (''MacAddressLen'', u_int), (''MacAddress'', CArray u_char 8), (''LinkLayer'', struct_NetType),
      (''NNetworkAddresses'', u_int), (''NetworkAddresses'', CPtr), (''Flags'', u_int)]"

text \<open>\<open>ULONG\<close> is a \<open>long\<close>; both headers declare the structure.\<close>

definition struct_PACKET_OID_DATA :: ctype where
  "struct_PACKET_OID_DATA = CStruct [(''Oid'', CLong), (''Length'', CLong), (''Data'', CArray u_char 1)]"

section \<open>The send queue and the instructions of the engine\<close>

text \<open>\<open>Win32-Extensions.h\<close>\<close>

definition struct_pcap_send_queue :: ctype where
  "struct_pcap_send_queue = CStruct [(''maxlen'', u_int), (''len'', u_int), (''buffer'', CPtr)]"

definition bpf_mem_ex :: "(string \<times> u16) list" where
  "bpf_mem_ex = [(''BPF_MEM_EX_IMM'', 0xc0), (''BPF_MEM_EX_IND'', 0xe0), (''BPF_MEM_EX'', 0xc0), (''BPF_TME'', 0x08)]"

definition bpf_tme_ops :: "(string \<times> u16) list" where
  "bpf_tme_ops =
     [(''BPF_LOOKUP'', 0x90), (''BPF_EXECUTE'', 0xa0), (''BPF_INIT'', 0xb0), (''BPF_VALIDATE'', 0xc0),
      (''BPF_SET_ACTIVE'', 0xd0), (''BPF_RESET'', 0xe0), (''BPF_SET_MEMORY'', 0x80),
      (''BPF_GET_REGISTER_VALUE'', 0x70), (''BPF_SET_REGISTER_VALUE'', 0x60), (''BPF_SET_WORKING'', 0x50),
      (''BPF_SET_ACTIVE_READ'', 0x40), (''BPF_SET_AUTODELETION'', 0x30), (''BPF_SEPARATION'', 0xff)]"

section \<open>Laws\<close>

lemma bit_below: "bit w n \<Longrightarrow> uint w < 2 ^ k \<Longrightarrow> n < k" for w :: u32
proof -
  assume w: "bit w n" "uint w < 2 ^ k"
  then have "take_bit k (uint w) = uint w" by (simp add: take_bit_int_eq_self)
  moreover have "bit (uint w) n" using w(1) bit_imp_le_length [of w n] by (simp add: bit_uint_iff)
  ultimately show "n < k" by (metis bit_take_bit_iff)
qed

text \<open>The parts of a control code can be read back from it, so different parts give different codes.\<close>

theorem CTL_CODE_parts:
  assumes "uint dev < 2 ^ 16" and "uint func < 2 ^ 12" and "uint meth < 2 ^ 2" and "uint acc < 2 ^ 2"
  shows "drop_bit 16 (CTL_CODE dev func meth acc) = dev \<and>
     take_bit 2 (drop_bit 14 (CTL_CODE dev func meth acc)) = acc \<and>
     take_bit 12 (drop_bit 2 (CTL_CODE dev func meth acc)) = func \<and>
     take_bit 2 (CTL_CODE dev func meth acc) = meth"
proof -
  have bits: "bit dev n \<Longrightarrow> n < 16" "bit func n \<Longrightarrow> n < 12" "bit meth n \<Longrightarrow> n < 2" "bit acc n \<Longrightarrow> n < 2" for n
    using assms by (blast intro: bit_below)+
  show ?thesis
    by (intro conjI; rule bit_word_eqI)
       (auto simp: CTL_CODE_def bit_take_bit_iff bit_drop_bit_eq bit_or_iff bit_push_bit_iff dest: bits)
qed

text \<open>
  The codes for reading and setting an OID of the network card are exchanged between the two
  headers: what \<open>Packet32.h\<close> calls setting an OID is the code for querying one in \<open>Ntddpack.h\<close>, and
  the other way round.
\<close>

theorem oid_codes_exchanged:
  "map_of packet32_bioc_codes ''pBIOCSETOID'' = map_of ntddpack_codes ''IOCTL_PROTOCOL_QUERY_OID'' \<and>
   map_of packet32_bioc_codes ''pBIOCQUERYOID'' = map_of ntddpack_codes ''IOCTL_PROTOCOL_SET_OID'' \<and>
   map_of ntddpack_codes ''IOCTL_PROTOCOL_QUERY_OID'' \<noteq> map_of ntddpack_codes ''IOCTL_PROTOCOL_SET_OID''"
  by (simp add: packet32_bioc_codes_def ntddpack_codes_def CTL_CODE_def FILE_DEVICE_PROTOCOL_def
      METHOD_BUFFERED_def FILE_ANY_ACCESS_def)

lemma control_codes_distinct:
  "distinct (map snd packet32_codes @ map snd packet32_bioc_codes @ map snd ndis_codes)"
  by (simp add: packet32_bioc_codes_def packet32_codes_def ndis_codes_def NDIS_CONTROL_CODE_def CTL_CODE_def
      FILE_DEVICE_PROTOCOL_def METHOD_BUFFERED_def METHOD_OUT_DIRECT_def FILE_ANY_ACCESS_def)

text \<open>
  On 32-bit Windows the header before a packet in the buffer of the driver has 18 bytes and is
  padded to 20, and the one in a dump buffer has 16.
\<close>

lemma packet32_layouts:
  "struct_end LLP64 0 [(''bh_tstamp'', struct_timeval), (''bh_caplen'', u_int), (''bh_datalen'', u_int),
     (''bh_hdrlen'', u_short)] = 18"
  "Packet_WORDALIGN 18 = 20" "sizeof LLP64 struct_bpf_hdr = 20" "sizeof LLP64 struct_dump_bpf_hdr = 16"
  by (simp_all add: struct_bpf_hdr_def struct_dump_bpf_hdr_def struct_timeval_def round_up_def
      Packet_WORDALIGN_def Packet_ALIGNMENT_def)

end
