(* ===== verification/NdisOids.thy ===== *)
theory NdisOids
  imports Ioctl
begin

text \<open>
  The object identifiers of \<open>Ntddndis.h\<close>, the numbers under which a driver of a network card is
  asked for its properties, in the order of the file, and the constants of \<open>NDIS_PACKET_TYPE\<close>. The
  first byte of an identifier is the kind of medium, the second tells what the object is about, the
  last two count.
\<close>

section \<open>Object identifiers\<close>

text \<open>General objects\<close>

definition oids_general :: "(string \<times> u32) list" where
  "oids_general =
     [(''OID_GEN_SUPPORTED_LIST'', 0x00010101), (''OID_GEN_HARDWARE_STATUS'', 0x00010102),
      (''OID_GEN_MEDIA_SUPPORTED'', 0x00010103), (''OID_GEN_MEDIA_IN_USE'', 0x00010104),
      (''OID_GEN_MAXIMUM_LOOKAHEAD'', 0x00010105), (''OID_GEN_MAXIMUM_FRAME_SIZE'', 0x00010106),
      (''OID_GEN_LINK_SPEED'', 0x00010107), (''OID_GEN_TRANSMIT_BUFFER_SPACE'', 0x00010108),
      (''OID_GEN_RECEIVE_BUFFER_SPACE'', 0x00010109), (''OID_GEN_TRANSMIT_BLOCK_SIZE'', 0x0001010A),
      (''OID_GEN_RECEIVE_BLOCK_SIZE'', 0x0001010B), (''OID_GEN_VENDOR_ID'', 0x0001010C),
      (''OID_GEN_VENDOR_DESCRIPTION'', 0x0001010D), (''OID_GEN_CURRENT_PACKET_FILTER'', 0x0001010E),
      (''OID_GEN_CURRENT_LOOKAHEAD'', 0x0001010F), (''OID_GEN_DRIVER_VERSION'', 0x00010110),
      (''OID_GEN_MAXIMUM_TOTAL_SIZE'', 0x00010111), (''OID_GEN_PROTOCOL_OPTIONS'', 0x00010112),
      (''OID_GEN_MAC_OPTIONS'', 0x00010113), (''OID_GEN_MEDIA_CONNECT_STATUS'', 0x00010114),
      (''OID_GEN_MAXIMUM_SEND_PACKETS'', 0x00010115),
      (''OID_GEN_VENDOR_DRIVER_VERSION'', 0x00010116), (''OID_GEN_XMIT_OK'', 0x00020101),
      (''OID_GEN_RCV_OK'', 0x00020102), (''OID_GEN_XMIT_ERROR'', 0x00020103),
      (''OID_GEN_RCV_ERROR'', 0x00020104), (''OID_GEN_RCV_NO_BUFFER'', 0x00020105),
      (''OID_GEN_DIRECTED_BYTES_XMIT'', 0x00020201), (''OID_GEN_DIRECTED_FRAMES_XMIT'', 0x00020202),
      (''OID_GEN_MULTICAST_BYTES_XMIT'', 0x00020203),
      (''OID_GEN_MULTICAST_FRAMES_XMIT'', 0x00020204),
      (''OID_GEN_BROADCAST_BYTES_XMIT'', 0x00020205),
      (''OID_GEN_BROADCAST_FRAMES_XMIT'', 0x00020206), (''OID_GEN_DIRECTED_BYTES_RCV'', 0x00020207),
      (''OID_GEN_DIRECTED_FRAMES_RCV'', 0x00020208), (''OID_GEN_MULTICAST_BYTES_RCV'', 0x00020209),
      (''OID_GEN_MULTICAST_FRAMES_RCV'', 0x0002020A), (''OID_GEN_BROADCAST_BYTES_RCV'', 0x0002020B),
      (''OID_GEN_BROADCAST_FRAMES_RCV'', 0x0002020C), (''OID_GEN_RCV_CRC_ERROR'', 0x0002020D),
      (''OID_GEN_TRANSMIT_QUEUE_LENGTH'', 0x0002020E), (''OID_GEN_GET_TIME_CAPS'', 0x0002020F),
      (''OID_GEN_GET_NETCARD_TIME'', 0x00020210)]"

text \<open>Objects that replace them on connection-oriented media, and those of call managers\<close>

definition oids_connection_oriented :: "(string \<times> u32) list" where
  "oids_connection_oriented =
     [(''OID_GEN_CO_SUPPORTED_LIST'', 0x00010101), (''OID_GEN_CO_HARDWARE_STATUS'', 0x00010102),
      (''OID_GEN_CO_MEDIA_SUPPORTED'', 0x00010103), (''OID_GEN_CO_MEDIA_IN_USE'', 0x00010104),
      (''OID_GEN_CO_LINK_SPEED'', 0x00010105), (''OID_GEN_CO_VENDOR_ID'', 0x00010106),
      (''OID_GEN_CO_VENDOR_DESCRIPTION'', 0x00010107), (''OID_GEN_CO_DRIVER_VERSION'', 0x00010108),
      (''OID_GEN_CO_PROTOCOL_OPTIONS'', 0x00010109), (''OID_GEN_CO_MAC_OPTIONS'', 0x0001010A),
      (''OID_GEN_CO_MEDIA_CONNECT_STATUS'', 0x0001010B),
      (''OID_GEN_CO_VENDOR_DRIVER_VERSION'', 0x0001010C),
      (''OID_GEN_CO_MINIMUM_LINK_SPEED'', 0x0001010D), (''OID_GEN_CO_GET_TIME_CAPS'', 0x00010201),
      (''OID_GEN_CO_GET_NETCARD_TIME'', 0x00010202), (''OID_GEN_CO_XMIT_PDUS_OK'', 0x00020101),
      (''OID_GEN_CO_RCV_PDUS_OK'', 0x00020102), (''OID_GEN_CO_XMIT_PDUS_ERROR'', 0x00020103),
      (''OID_GEN_CO_RCV_PDUS_ERROR'', 0x00020104), (''OID_GEN_CO_RCV_PDUS_NO_BUFFER'', 0x00020105),
      (''OID_GEN_CO_RCV_CRC_ERROR'', 0x00020201),
      (''OID_GEN_CO_TRANSMIT_QUEUE_LENGTH'', 0x00020202), (''OID_GEN_CO_BYTES_XMIT'', 0x00020203),
      (''OID_GEN_CO_BYTES_RCV'', 0x00020204), (''OID_GEN_CO_BYTES_XMIT_OUTSTANDING'', 0x00020205),
      (''OID_GEN_CO_NETCARD_LOAD'', 0x00020206), (''OID_CO_ADD_PVC'', 0xFF000001),
      (''OID_CO_DELETE_PVC'', 0xFF000002), (''OID_CO_GET_CALL_INFORMATION'', 0xFF000003),
      (''OID_CO_ADD_ADDRESS'', 0xFF000004), (''OID_CO_DELETE_ADDRESS'', 0xFF000005),
      (''OID_CO_GET_ADDRESSES'', 0xFF000006), (''OID_CO_ADDRESS_CHANGE'', 0xFF000007),
      (''OID_CO_SIGNALING_ENABLED'', 0xFF000008), (''OID_CO_SIGNALING_DISABLED'', 0xFF000009)]"

text \<open>Ethernet\<close>

definition oids_802_3 :: "(string \<times> u32) list" where
  "oids_802_3 =
     [(''OID_802_3_PERMANENT_ADDRESS'', 0x01010101), (''OID_802_3_CURRENT_ADDRESS'', 0x01010102),
      (''OID_802_3_MULTICAST_LIST'', 0x01010103), (''OID_802_3_MAXIMUM_LIST_SIZE'', 0x01010104),
      (''OID_802_3_MAC_OPTIONS'', 0x01010105), (''OID_802_3_RCV_ERROR_ALIGNMENT'', 0x01020101),
      (''OID_802_3_XMIT_ONE_COLLISION'', 0x01020102),
      (''OID_802_3_XMIT_MORE_COLLISIONS'', 0x01020103), (''OID_802_3_XMIT_DEFERRED'', 0x01020201),
      (''OID_802_3_XMIT_MAX_COLLISIONS'', 0x01020202), (''OID_802_3_RCV_OVERRUN'', 0x01020203),
      (''OID_802_3_XMIT_UNDERRUN'', 0x01020204), (''OID_802_3_XMIT_HEARTBEAT_FAILURE'', 0x01020205),
      (''OID_802_3_XMIT_TIMES_CRS_LOST'', 0x01020206),
      (''OID_802_3_XMIT_LATE_COLLISIONS'', 0x01020207)]"

text \<open>Token ring\<close>

definition oids_802_5 :: "(string \<times> u32) list" where
  "oids_802_5 =
     [(''OID_802_5_PERMANENT_ADDRESS'', 0x02010101), (''OID_802_5_CURRENT_ADDRESS'', 0x02010102),
      (''OID_802_5_CURRENT_FUNCTIONAL'', 0x02010103), (''OID_802_5_CURRENT_GROUP'', 0x02010104),
      (''OID_802_5_LAST_OPEN_STATUS'', 0x02010105), (''OID_802_5_CURRENT_RING_STATUS'', 0x02010106),
      (''OID_802_5_CURRENT_RING_STATE'', 0x02010107), (''OID_802_5_LINE_ERRORS'', 0x02020101),
      (''OID_802_5_LOST_FRAMES'', 0x02020102), (''OID_802_5_BURST_ERRORS'', 0x02020201),
      (''OID_802_5_AC_ERRORS'', 0x02020202), (''OID_802_5_ABORT_DELIMETERS'', 0x02020203),
      (''OID_802_5_FRAME_COPIED_ERRORS'', 0x02020204), (''OID_802_5_FREQUENCY_ERRORS'', 0x02020205),
      (''OID_802_5_TOKEN_ERRORS'', 0x02020206), (''OID_802_5_INTERNAL_ERRORS'', 0x02020207)]"

text \<open>FDDI\<close>

definition oids_fddi_smt :: "(string \<times> u32) list" where
  "oids_fddi_smt =
     [(''OID_FDDI_LONG_PERMANENT_ADDR'', 0x03010101), (''OID_FDDI_LONG_CURRENT_ADDR'', 0x03010102),
      (''OID_FDDI_LONG_MULTICAST_LIST'', 0x03010103), (''OID_FDDI_LONG_MAX_LIST_SIZE'', 0x03010104),
      (''OID_FDDI_SHORT_PERMANENT_ADDR'', 0x03010105),
      (''OID_FDDI_SHORT_CURRENT_ADDR'', 0x03010106),
      (''OID_FDDI_SHORT_MULTICAST_LIST'', 0x03010107),
      (''OID_FDDI_SHORT_MAX_LIST_SIZE'', 0x03010108), (''OID_FDDI_ATTACHMENT_TYPE'', 0x03020101),
      (''OID_FDDI_UPSTREAM_NODE_LONG'', 0x03020102),
      (''OID_FDDI_DOWNSTREAM_NODE_LONG'', 0x03020103), (''OID_FDDI_FRAME_ERRORS'', 0x03020104),
      (''OID_FDDI_FRAMES_LOST'', 0x03020105), (''OID_FDDI_RING_MGT_STATE'', 0x03020106),
      (''OID_FDDI_LCT_FAILURES'', 0x03020107), (''OID_FDDI_LEM_REJECTS'', 0x03020108),
      (''OID_FDDI_LCONNECTION_STATE'', 0x03020109), (''OID_FDDI_SMT_STATION_ID'', 0x03030201),
      (''OID_FDDI_SMT_OP_VERSION_ID'', 0x03030202), (''OID_FDDI_SMT_HI_VERSION_ID'', 0x03030203),
      (''OID_FDDI_SMT_LO_VERSION_ID'', 0x03030204),
      (''OID_FDDI_SMT_MANUFACTURER_DATA'', 0x03030205), (''OID_FDDI_SMT_USER_DATA'', 0x03030206),
      (''OID_FDDI_SMT_MIB_VERSION_ID'', 0x03030207), (''OID_FDDI_SMT_MAC_CT'', 0x03030208),
      (''OID_FDDI_SMT_NON_MASTER_CT'', 0x03030209), (''OID_FDDI_SMT_MASTER_CT'', 0x0303020A),
      (''OID_FDDI_SMT_AVAILABLE_PATHS'', 0x0303020B),
      (''OID_FDDI_SMT_CONFIG_CAPABILITIES'', 0x0303020C),
      (''OID_FDDI_SMT_CONFIG_POLICY'', 0x0303020D),
      (''OID_FDDI_SMT_CONNECTION_POLICY'', 0x0303020E), (''OID_FDDI_SMT_T_NOTIFY'', 0x0303020F),
      (''OID_FDDI_SMT_STAT_RPT_POLICY'', 0x03030210),
      (''OID_FDDI_SMT_TRACE_MAX_EXPIRATION'', 0x03030211),
      (''OID_FDDI_SMT_PORT_INDEXES'', 0x03030212), (''OID_FDDI_SMT_MAC_INDEXES'', 0x03030213),
      (''OID_FDDI_SMT_BYPASS_PRESENT'', 0x03030214), (''OID_FDDI_SMT_ECM_STATE'', 0x03030215),
      (''OID_FDDI_SMT_CF_STATE'', 0x03030216), (''OID_FDDI_SMT_HOLD_STATE'', 0x03030217),
      (''OID_FDDI_SMT_REMOTE_DISCONNECT_FLAG'', 0x03030218),
      (''OID_FDDI_SMT_STATION_STATUS'', 0x03030219), (''OID_FDDI_SMT_PEER_WRAP_FLAG'', 0x0303021A),
      (''OID_FDDI_SMT_MSG_TIME_STAMP'', 0x0303021B),
      (''OID_FDDI_SMT_TRANSITION_TIME_STAMP'', 0x0303021C),
      (''OID_FDDI_SMT_SET_COUNT'', 0x0303021D), (''OID_FDDI_SMT_LAST_SET_STATION_ID'', 0x0303021E),
      (''OID_FDDI_MAC_FRAME_STATUS_FUNCTIONS'', 0x0303021F),
      (''OID_FDDI_MAC_BRIDGE_FUNCTIONS'', 0x03030220),
      (''OID_FDDI_MAC_T_MAX_CAPABILITY'', 0x03030221),
      (''OID_FDDI_MAC_TVX_CAPABILITY'', 0x03030222), (''OID_FDDI_MAC_AVAILABLE_PATHS'', 0x03030223),
      (''OID_FDDI_MAC_CURRENT_PATH'', 0x03030224), (''OID_FDDI_MAC_UPSTREAM_NBR'', 0x03030225),
      (''OID_FDDI_MAC_DOWNSTREAM_NBR'', 0x03030226),
      (''OID_FDDI_MAC_OLD_UPSTREAM_NBR'', 0x03030227),
      (''OID_FDDI_MAC_OLD_DOWNSTREAM_NBR'', 0x03030228),
      (''OID_FDDI_MAC_DUP_ADDRESS_TEST'', 0x03030229),
      (''OID_FDDI_MAC_REQUESTED_PATHS'', 0x0303022A),
      (''OID_FDDI_MAC_DOWNSTREAM_PORT_TYPE'', 0x0303022B), (''OID_FDDI_MAC_INDEX'', 0x0303022C),
      (''OID_FDDI_MAC_SMT_ADDRESS'', 0x0303022D), (''OID_FDDI_MAC_LONG_GRP_ADDRESS'', 0x0303022E),
      (''OID_FDDI_MAC_SHORT_GRP_ADDRESS'', 0x0303022F), (''OID_FDDI_MAC_T_REQ'', 0x03030230),
      (''OID_FDDI_MAC_T_NEG'', 0x03030231), (''OID_FDDI_MAC_T_MAX'', 0x03030232),
      (''OID_FDDI_MAC_TVX_VALUE'', 0x03030233), (''OID_FDDI_MAC_T_PRI0'', 0x03030234),
      (''OID_FDDI_MAC_T_PRI1'', 0x03030235), (''OID_FDDI_MAC_T_PRI2'', 0x03030236),
      (''OID_FDDI_MAC_T_PRI3'', 0x03030237), (''OID_FDDI_MAC_T_PRI4'', 0x03030238),
      (''OID_FDDI_MAC_T_PRI5'', 0x03030239), (''OID_FDDI_MAC_T_PRI6'', 0x0303023A),
      (''OID_FDDI_MAC_FRAME_CT'', 0x0303023B), (''OID_FDDI_MAC_COPIED_CT'', 0x0303023C),
      (''OID_FDDI_MAC_TRANSMIT_CT'', 0x0303023D), (''OID_FDDI_MAC_TOKEN_CT'', 0x0303023E),
      (''OID_FDDI_MAC_ERROR_CT'', 0x0303023F)]"

text \<open>FDDI, continued\<close>

definition oids_fddi_mac :: "(string \<times> u32) list" where
  "oids_fddi_mac =
     [(''OID_FDDI_MAC_LOST_CT'', 0x03030240), (''OID_FDDI_MAC_TVX_EXPIRED_CT'', 0x03030241),
      (''OID_FDDI_MAC_NOT_COPIED_CT'', 0x03030242), (''OID_FDDI_MAC_LATE_CT'', 0x03030243),
      (''OID_FDDI_MAC_RING_OP_CT'', 0x03030244),
      (''OID_FDDI_MAC_FRAME_ERROR_THRESHOLD'', 0x03030245),
      (''OID_FDDI_MAC_FRAME_ERROR_RATIO'', 0x03030246),
      (''OID_FDDI_MAC_NOT_COPIED_THRESHOLD'', 0x03030247),
      (''OID_FDDI_MAC_NOT_COPIED_RATIO'', 0x03030248), (''OID_FDDI_MAC_RMT_STATE'', 0x03030249),
      (''OID_FDDI_MAC_DA_FLAG'', 0x0303024A), (''OID_FDDI_MAC_UNDA_FLAG'', 0x0303024B),
      (''OID_FDDI_MAC_FRAME_ERROR_FLAG'', 0x0303024C),
      (''OID_FDDI_MAC_NOT_COPIED_FLAG'', 0x0303024D),
      (''OID_FDDI_MAC_MA_UNITDATA_AVAILABLE'', 0x0303024E),
      (''OID_FDDI_MAC_HARDWARE_PRESENT'', 0x0303024F),
      (''OID_FDDI_MAC_MA_UNITDATA_ENABLE'', 0x03030250), (''OID_FDDI_PATH_INDEX'', 0x03030251),
      (''OID_FDDI_PATH_RING_LATENCY'', 0x03030252), (''OID_FDDI_PATH_TRACE_STATUS'', 0x03030253),
      (''OID_FDDI_PATH_SBA_PAYLOAD'', 0x03030254), (''OID_FDDI_PATH_SBA_OVERHEAD'', 0x03030255),
      (''OID_FDDI_PATH_CONFIGURATION'', 0x03030256), (''OID_FDDI_PATH_T_R_MODE'', 0x03030257),
      (''OID_FDDI_PATH_SBA_AVAILABLE'', 0x03030258),
      (''OID_FDDI_PATH_TVX_LOWER_BOUND'', 0x03030259),
      (''OID_FDDI_PATH_T_MAX_LOWER_BOUND'', 0x0303025A), (''OID_FDDI_PATH_MAX_T_REQ'', 0x0303025B),
      (''OID_FDDI_PORT_MY_TYPE'', 0x0303025C), (''OID_FDDI_PORT_NEIGHBOR_TYPE'', 0x0303025D),
      (''OID_FDDI_PORT_CONNECTION_POLICIES'', 0x0303025E),
      (''OID_FDDI_PORT_MAC_INDICATED'', 0x0303025F), (''OID_FDDI_PORT_CURRENT_PATH'', 0x03030260),
      (''OID_FDDI_PORT_REQUESTED_PATHS'', 0x03030261),
      (''OID_FDDI_PORT_MAC_PLACEMENT'', 0x03030262),
      (''OID_FDDI_PORT_AVAILABLE_PATHS'', 0x03030263),
      (''OID_FDDI_PORT_MAC_LOOP_TIME'', 0x03030264), (''OID_FDDI_PORT_PMD_CLASS'', 0x03030265),
      (''OID_FDDI_PORT_CONNECTION_CAPABILITIES'', 0x03030266),
      (''OID_FDDI_PORT_INDEX'', 0x03030267), (''OID_FDDI_PORT_MAINT_LS'', 0x03030268),
      (''OID_FDDI_PORT_BS_FLAG'', 0x03030269), (''OID_FDDI_PORT_PC_LS'', 0x0303026A),
      (''OID_FDDI_PORT_EB_ERROR_CT'', 0x0303026B), (''OID_FDDI_PORT_LCT_FAIL_CT'', 0x0303026C),
      (''OID_FDDI_PORT_LER_ESTIMATE'', 0x0303026D), (''OID_FDDI_PORT_LEM_REJECT_CT'', 0x0303026E),
      (''OID_FDDI_PORT_LEM_CT'', 0x0303026F), (''OID_FDDI_PORT_LER_CUTOFF'', 0x03030270),
      (''OID_FDDI_PORT_LER_ALARM'', 0x03030271), (''OID_FDDI_PORT_CONNNECT_STATE'', 0x03030272),
      (''OID_FDDI_PORT_PCM_STATE'', 0x03030273), (''OID_FDDI_PORT_PC_WITHHOLD'', 0x03030274),
      (''OID_FDDI_PORT_LER_FLAG'', 0x03030275), (''OID_FDDI_PORT_HARDWARE_PRESENT'', 0x03030276),
      (''OID_FDDI_SMT_STATION_ACTION'', 0x03030277), (''OID_FDDI_PORT_ACTION'', 0x03030278),
      (''OID_FDDI_IF_DESCR'', 0x03030279), (''OID_FDDI_IF_TYPE'', 0x0303027A),
      (''OID_FDDI_IF_MTU'', 0x0303027B), (''OID_FDDI_IF_SPEED'', 0x0303027C),
      (''OID_FDDI_IF_PHYS_ADDRESS'', 0x0303027D), (''OID_FDDI_IF_ADMIN_STATUS'', 0x0303027E),
      (''OID_FDDI_IF_OPER_STATUS'', 0x0303027F), (''OID_FDDI_IF_LAST_CHANGE'', 0x03030280),
      (''OID_FDDI_IF_IN_OCTETS'', 0x03030281), (''OID_FDDI_IF_IN_UCAST_PKTS'', 0x03030282),
      (''OID_FDDI_IF_IN_NUCAST_PKTS'', 0x03030283), (''OID_FDDI_IF_IN_DISCARDS'', 0x03030284),
      (''OID_FDDI_IF_IN_ERRORS'', 0x03030285), (''OID_FDDI_IF_IN_UNKNOWN_PROTOS'', 0x03030286),
      (''OID_FDDI_IF_OUT_OCTETS'', 0x03030287), (''OID_FDDI_IF_OUT_UCAST_PKTS'', 0x03030288),
      (''OID_FDDI_IF_OUT_NUCAST_PKTS'', 0x03030289), (''OID_FDDI_IF_OUT_DISCARDS'', 0x0303028A),
      (''OID_FDDI_IF_OUT_ERRORS'', 0x0303028B), (''OID_FDDI_IF_OUT_QLEN'', 0x0303028C),
      (''OID_FDDI_IF_SPECIFIC'', 0x0303028D)]"

text \<open>Wide area networks\<close>

definition oids_wan :: "(string \<times> u32) list" where
  "oids_wan =
     [(''OID_WAN_PERMANENT_ADDRESS'', 0x04010101), (''OID_WAN_CURRENT_ADDRESS'', 0x04010102),
      (''OID_WAN_QUALITY_OF_SERVICE'', 0x04010103), (''OID_WAN_PROTOCOL_TYPE'', 0x04010104),
      (''OID_WAN_MEDIUM_SUBTYPE'', 0x04010105), (''OID_WAN_HEADER_FORMAT'', 0x04010106),
      (''OID_WAN_GET_INFO'', 0x04010107), (''OID_WAN_SET_LINK_INFO'', 0x04010108),
      (''OID_WAN_GET_LINK_INFO'', 0x04010109), (''OID_WAN_LINE_COUNT'', 0x0401010A),
      (''OID_WAN_GET_BRIDGE_INFO'', 0x0401020A), (''OID_WAN_SET_BRIDGE_INFO'', 0x0401020B),
      (''OID_WAN_GET_COMP_INFO'', 0x0401020C), (''OID_WAN_SET_COMP_INFO'', 0x0401020D),
      (''OID_WAN_GET_STATS_INFO'', 0x0401020E)]"

text \<open>LocalTalk\<close>

definition oids_localtalk :: "(string \<times> u32) list" where
  "oids_localtalk =
     [(''OID_LTALK_CURRENT_NODE_ID'', 0x05010102), (''OID_LTALK_IN_BROADCASTS'', 0x05020101),
      (''OID_LTALK_IN_LENGTH_ERRORS'', 0x05020102), (''OID_LTALK_OUT_NO_HANDLERS'', 0x05020201),
      (''OID_LTALK_COLLISIONS'', 0x05020202), (''OID_LTALK_DEFERS'', 0x05020203),
      (''OID_LTALK_NO_DATA_ERRORS'', 0x05020204), (''OID_LTALK_RANDOM_CTS_ERRORS'', 0x05020205),
      (''OID_LTALK_FCS_ERRORS'', 0x05020206)]"

text \<open>ARCnet\<close>

definition oids_arcnet :: "(string \<times> u32) list" where
  "oids_arcnet =
     [(''OID_ARCNET_PERMANENT_ADDRESS'', 0x06010101), (''OID_ARCNET_CURRENT_ADDRESS'', 0x06010102),
      (''OID_ARCNET_RECONFIGURATIONS'', 0x06020201)]"

text \<open>Telephony\<close>

definition oids_tapi :: "(string \<times> u32) list" where
  "oids_tapi =
     [(''OID_TAPI_ACCEPT'', 0x07030101), (''OID_TAPI_ANSWER'', 0x07030102),
      (''OID_TAPI_CLOSE'', 0x07030103), (''OID_TAPI_CLOSE_CALL'', 0x07030104),
      (''OID_TAPI_CONDITIONAL_MEDIA_DETECTION'', 0x07030105),
      (''OID_TAPI_CONFIG_DIALOG'', 0x07030106), (''OID_TAPI_DEV_SPECIFIC'', 0x07030107),
      (''OID_TAPI_DIAL'', 0x07030108), (''OID_TAPI_DROP'', 0x07030109),
      (''OID_TAPI_GET_ADDRESS_CAPS'', 0x0703010A), (''OID_TAPI_GET_ADDRESS_ID'', 0x0703010B),
      (''OID_TAPI_GET_ADDRESS_STATUS'', 0x0703010C), (''OID_TAPI_GET_CALL_ADDRESS_ID'', 0x0703010D),
      (''OID_TAPI_GET_CALL_INFO'', 0x0703010E), (''OID_TAPI_GET_CALL_STATUS'', 0x0703010F),
      (''OID_TAPI_GET_DEV_CAPS'', 0x07030110), (''OID_TAPI_GET_DEV_CONFIG'', 0x07030111),
      (''OID_TAPI_GET_EXTENSION_ID'', 0x07030112), (''OID_TAPI_GET_ID'', 0x07030113),
      (''OID_TAPI_GET_LINE_DEV_STATUS'', 0x07030114), (''OID_TAPI_MAKE_CALL'', 0x07030115),
      (''OID_TAPI_NEGOTIATE_EXT_VERSION'', 0x07030116), (''OID_TAPI_OPEN'', 0x07030117),
      (''OID_TAPI_PROVIDER_INITIALIZE'', 0x07030118), (''OID_TAPI_PROVIDER_SHUTDOWN'', 0x07030119),
      (''OID_TAPI_SECURE_CALL'', 0x0703011A), (''OID_TAPI_SELECT_EXT_VERSION'', 0x0703011B),
      (''OID_TAPI_SEND_USER_USER_INFO'', 0x0703011C), (''OID_TAPI_SET_APP_SPECIFIC'', 0x0703011D),
      (''OID_TAPI_SET_CALL_PARAMS'', 0x0703011E),
      (''OID_TAPI_SET_DEFAULT_MEDIA_DETECTION'', 0x0703011F),
      (''OID_TAPI_SET_DEV_CONFIG'', 0x07030120), (''OID_TAPI_SET_MEDIA_MODE'', 0x07030121),
      (''OID_TAPI_SET_STATUS_MESSAGES'', 0x07030122)]"

text \<open>ATM\<close>

definition oids_atm :: "(string \<times> u32) list" where
  "oids_atm =
     [(''OID_ATM_SUPPORTED_VC_RATES'', 0x08010101),
      (''OID_ATM_SUPPORTED_SERVICE_CATEGORY'', 0x08010102),
      (''OID_ATM_SUPPORTED_AAL_TYPES'', 0x08010103), (''OID_ATM_HW_CURRENT_ADDRESS'', 0x08010104),
      (''OID_ATM_MAX_ACTIVE_VCS'', 0x08010105), (''OID_ATM_MAX_ACTIVE_VCI_BITS'', 0x08010106),
      (''OID_ATM_MAX_ACTIVE_VPI_BITS'', 0x08010107), (''OID_ATM_MAX_AAL0_PACKET_SIZE'', 0x08010108),
      (''OID_ATM_MAX_AAL1_PACKET_SIZE'', 0x08010109),
      (''OID_ATM_MAX_AAL34_PACKET_SIZE'', 0x0801010A),
      (''OID_ATM_MAX_AAL5_PACKET_SIZE'', 0x0801010B), (''OID_ATM_SIGNALING_VPIVCI'', 0x08010201),
      (''OID_ATM_ASSIGNED_VPI'', 0x08010202),
      (''OID_ATM_ACQUIRE_ACCESS_NET_RESOURCES'', 0x08010203),
      (''OID_ATM_RELEASE_ACCESS_NET_RESOURCES'', 0x08010204), (''OID_ATM_ILMI_VPIVCI'', 0x08010205),
      (''OID_ATM_DIGITAL_BROADCAST_VPIVCI'', 0x08010206),
      (''OID_ATM_GET_NEAREST_FLOW'', 0x08010207), (''OID_ATM_ALIGNMENT_REQUIRED'', 0x08010208),
      (''OID_ATM_RCV_CELLS_OK'', 0x08020101), (''OID_ATM_XMIT_CELLS_OK'', 0x08020102),
      (''OID_ATM_RCV_CELLS_DROPPED'', 0x08020103), (''OID_ATM_RCV_INVALID_VPI_VCI'', 0x08020201),
      (''OID_ATM_CELLS_HEC_ERROR'', 0x08020202), (''OID_ATM_RCV_REASSEMBLY_ERROR'', 0x08020203)]"

text \<open>Wireless wide area networks\<close>

definition oids_wireless :: "(string \<times> u32) list" where
  "oids_wireless =
     [(''OID_WW_GEN_NETWORK_TYPES_SUPPORTED'', 0x09010101),
      (''OID_WW_GEN_NETWORK_TYPE_IN_USE'', 0x09010102),
      (''OID_WW_GEN_HEADER_FORMATS_SUPPORTED'', 0x09010103),
      (''OID_WW_GEN_HEADER_FORMAT_IN_USE'', 0x09010104),
      (''OID_WW_GEN_INDICATION_REQUEST'', 0x09010105), (''OID_WW_GEN_DEVICE_INFO'', 0x09010106),
      (''OID_WW_GEN_OPERATION_MODE'', 0x09010107), (''OID_WW_GEN_LOCK_STATUS'', 0x09010108),
      (''OID_WW_GEN_DISABLE_TRANSMITTER'', 0x09010109), (''OID_WW_GEN_NETWORK_ID'', 0x0901010A),
      (''OID_WW_GEN_PERMANENT_ADDRESS'', 0x0901010B), (''OID_WW_GEN_CURRENT_ADDRESS'', 0x0901010C),
      (''OID_WW_GEN_SUSPEND_DRIVER'', 0x0901010D), (''OID_WW_GEN_BASESTATION_ID'', 0x0901010E),
      (''OID_WW_GEN_CHANNEL_ID'', 0x0901010F), (''OID_WW_GEN_ENCRYPTION_SUPPORTED'', 0x09010110),
      (''OID_WW_GEN_ENCRYPTION_IN_USE'', 0x09010111), (''OID_WW_GEN_ENCRYPTION_STATE'', 0x09010112),
      (''OID_WW_GEN_CHANNEL_QUALITY'', 0x09010113),
      (''OID_WW_GEN_REGISTRATION_STATUS'', 0x09010114),
      (''OID_WW_GEN_RADIO_LINK_SPEED'', 0x09010115), (''OID_WW_GEN_LATENCY'', 0x09010116),
      (''OID_WW_GEN_BATTERY_LEVEL'', 0x09010117), (''OID_WW_GEN_EXTERNAL_POWER'', 0x09010118),
      (''OID_WW_MBX_SUBADDR'', 0x09050101), (''OID_WW_MBX_FLEXLIST'', 0x09050103),
      (''OID_WW_MBX_GROUPLIST'', 0x09050104), (''OID_WW_MBX_TRAFFIC_AREA'', 0x09050105),
      (''OID_WW_MBX_LIVE_DIE'', 0x09050106), (''OID_WW_MBX_TEMP_DEFAULTLIST'', 0x09050107),
      (''OID_WW_PIN_LOC_AUTHORIZE'', 0x09090101), (''OID_WW_PIN_LAST_LOCATION'', 0x09090102),
      (''OID_WW_PIN_LOC_FIX'', 0x09090103), (''OID_WW_CDPD_SPNI'', 0x090D0101),
      (''OID_WW_CDPD_WASI'', 0x090D0102), (''OID_WW_CDPD_AREA_COLOR'', 0x090D0103),
      (''OID_WW_CDPD_TX_POWER_LEVEL'', 0x090D0104), (''OID_WW_CDPD_EID'', 0x090D0105),
      (''OID_WW_CDPD_HEADER_COMPRESSION'', 0x090D0106),
      (''OID_WW_CDPD_DATA_COMPRESSION'', 0x090D0107), (''OID_WW_CDPD_CHANNEL_SELECT'', 0x090D0108),
      (''OID_WW_CDPD_CHANNEL_STATE'', 0x090D0109), (''OID_WW_CDPD_NEI'', 0x090D010A),
      (''OID_WW_CDPD_NEI_STATE'', 0x090D010B),
      (''OID_WW_CDPD_SERVICE_PROVIDER_IDENTIFIER'', 0x090D010C),
      (''OID_WW_CDPD_SLEEP_MODE'', 0x090D010D), (''OID_WW_CDPD_CIRCUIT_SWITCHED'', 0x090D010E),
      (''OID_WW_CDPD_TEI'', 0x090D010F), (''OID_WW_CDPD_RSSI'', 0x090D0110),
      (''OID_WW_ARD_SNDCP'', 0x09110101), (''OID_WW_ARD_TMLY_MSG'', 0x09110102),
      (''OID_WW_ARD_DATAGRAM'', 0x09110103), (''OID_WW_TAC_COMPRESSION'', 0x09150101),
      (''OID_WW_TAC_SET_CONFIG'', 0x09150102), (''OID_WW_TAC_GET_STATUS'', 0x09150103),
      (''OID_WW_TAC_USER_HEADER'', 0x09150104), (''OID_WW_MET_FUNCTION'', 0x09190101)]"

text \<open>Infrared\<close>

definition oids_irda :: "(string \<times> u32) list" where
  "oids_irda =
     [(''OID_IRDA_RECEIVING'', 0x0A010100), (''OID_IRDA_TURNAROUND_TIME'', 0x0A010101),
      (''OID_IRDA_SUPPORTED_SPEEDS'', 0x0A010102), (''OID_IRDA_LINK_SPEED'', 0x0A010103),
      (''OID_IRDA_MEDIA_BUSY'', 0x0A010104), (''OID_IRDA_EXTRA_RCV_BOFS'', 0x0A010200),
      (''OID_IRDA_RATE_SNIFF'', 0x0A010201), (''OID_IRDA_UNICAST_LIST'', 0x0A010202),
      (''OID_IRDA_MAX_UNICAST_LIST_SIZE'', 0x0A010203),
      (''OID_IRDA_MAX_RECEIVE_WINDOW_SIZE'', 0x0A010204),
      (''OID_IRDA_MAX_SEND_WINDOW_SIZE'', 0x0A010205)]"

section \<open>Bits\<close>

text \<open>The bits of a packet filter, of the status of a ring, and the options of protocols and drivers.\<close>

definition ndis_packet_types :: "(string \<times> u32) list" where
  "ndis_packet_types =
     [(''NDIS_PACKET_TYPE_DIRECTED'', 0x0001), (''NDIS_PACKET_TYPE_MULTICAST'', 0x0002),
      (''NDIS_PACKET_TYPE_ALL_MULTICAST'', 0x0004), (''NDIS_PACKET_TYPE_BROADCAST'', 0x0008),
      (''NDIS_PACKET_TYPE_SOURCE_ROUTING'', 0x0010), (''NDIS_PACKET_TYPE_PROMISCUOUS'', 0x0020),
      (''NDIS_PACKET_TYPE_SMT'', 0x0040), (''NDIS_PACKET_TYPE_ALL_LOCAL'', 0x0080),
      (''NDIS_PACKET_TYPE_MAC_FRAME'', 0x8000), (''NDIS_PACKET_TYPE_FUNCTIONAL'', 0x4000),
      (''NDIS_PACKET_TYPE_ALL_FUNCTIONAL'', 0x2000), (''NDIS_PACKET_TYPE_GROUP'', 0x1000)]"

definition ndis_ring_status :: "(string \<times> u32) list" where
  "ndis_ring_status =
     [(''NDIS_RING_SIGNAL_LOSS'', 0x00008000), (''NDIS_RING_HARD_ERROR'', 0x00004000),
      (''NDIS_RING_SOFT_ERROR'', 0x00002000), (''NDIS_RING_TRANSMIT_BEACON'', 0x00001000),
      (''NDIS_RING_LOBE_WIRE_FAULT'', 0x00000800), (''NDIS_RING_AUTO_REMOVAL_ERROR'', 0x00000400),
      (''NDIS_RING_REMOVE_RECEIVED'', 0x00000200), (''NDIS_RING_COUNTER_OVERFLOW'', 0x00000100),
      (''NDIS_RING_SINGLE_STATION'', 0x00000080), (''NDIS_RING_RING_RECOVERY'', 0x00000040)]"

definition ndis_prot_options :: "(string \<times> u32) list" where
  "ndis_prot_options =
     [(''NDIS_PROT_OPTION_ESTIMATED_LENGTH'', 0x00000001),
      (''NDIS_PROT_OPTION_NO_LOOPBACK'', 0x00000002),
      (''NDIS_PROT_OPTION_NO_RSVD_ON_RCVPKT'', 0x00000004)]"

definition ndis_mac_options :: "(string \<times> u32) list" where
  "ndis_mac_options =
     [(''NDIS_MAC_OPTION_COPY_LOOKAHEAD_DATA'', 0x00000001),
      (''NDIS_MAC_OPTION_RECEIVE_SERIALIZED'', 0x00000002),
      (''NDIS_MAC_OPTION_TRANSFERS_NOT_PEND'', 0x00000004),
      (''NDIS_MAC_OPTION_NO_LOOPBACK'', 0x00000008), (''NDIS_MAC_OPTION_FULL_DUPLEX'', 0x00000010),
      (''NDIS_MAC_OPTION_EOTX_INDICATION'', 0x00000020),
      (''NDIS_MAC_OPTION_RESERVED'', 0x80000000)]"

definition ndis_time_caps :: "(string \<times> u32) list" where
  "ndis_time_caps =
     [(''READABLE_LOCAL_CLOCK'', 0x000000001), (''CLOCK_NETWORK_DERIVED'', 0x000000002),
      (''CLOCK_PRECISION'', 0x000000004), (''RECEIVE_TIME_INDICATION_CAPABLE'', 0x000000008),
      (''TIMED_SEND_CAPABLE'', 0x000000010), (''TIME_STAMP_CAPABLE'', 0x000000020)]"

section \<open>Enumerations\<close>

text \<open>The members of an enumeration count from its first value.\<close>

definition enum_from :: "int \<Rightarrow> string list \<Rightarrow> (string \<times> int) list" where
  "enum_from n names = zip names (map (\<lambda>k. n + int k) [0..<length names])"

definition NDIS_MEDIUM :: "(string \<times> int) list" where
  "NDIS_MEDIUM = enum_from 0
     [''NdisMedium802_3'', ''NdisMedium802_5'', ''NdisMediumFddi'', ''NdisMediumWan'',
      ''NdisMediumLocalTalk'', ''NdisMediumDix'', ''NdisMediumArcnetRaw'',
      ''NdisMediumArcnet878_2'', ''NdisMediumAtm'', ''NdisMediumWirelessWan'',
      ''NdisMediumIrda'', ''NdisMediumMax'']"

definition NDIS_HARDWARE_STATUS :: "(string \<times> int) list" where
  "NDIS_HARDWARE_STATUS = enum_from 0
     [''NdisHardwareStatusReady'', ''NdisHardwareStatusInitializing'',
      ''NdisHardwareStatusReset'', ''NdisHardwareStatusClosing'',
      ''NdisHardwareStatusNotReady'']"

definition NDIS_FDDI_ATTACHMENT_TYPE :: "(string \<times> int) list" where
  "NDIS_FDDI_ATTACHMENT_TYPE = enum_from 1
     [''NdisFddiTypeIsolated'', ''NdisFddiTypeLocalA'', ''NdisFddiTypeLocalB'',
      ''NdisFddiTypeLocalAB'', ''NdisFddiTypeLocalS'', ''NdisFddiTypeWrapA'',
      ''NdisFddiTypeWrapB'', ''NdisFddiTypeWrapAB'', ''NdisFddiTypeWrapS'',
      ''NdisFddiTypeCWrapA'', ''NdisFddiTypeCWrapB'', ''NdisFddiTypeCWrapS'',
      ''NdisFddiTypeThrough'']"

definition NDIS_FDDI_RING_MGT_STATE :: "(string \<times> int) list" where
  "NDIS_FDDI_RING_MGT_STATE = enum_from 1
     [''NdisFddiRingIsolated'', ''NdisFddiRingNonOperational'', ''NdisFddiRingOperational'',
      ''NdisFddiRingDetect'', ''NdisFddiRingNonOperationalDup'',
      ''NdisFddiRingOperationalDup'', ''NdisFddiRingDirected'', ''NdisFddiRingTrace'']"

definition NDIS_FDDI_LCONNECTION_STATE :: "(string \<times> int) list" where
  "NDIS_FDDI_LCONNECTION_STATE = enum_from 1
     [''NdisFddiStateOff'', ''NdisFddiStateBreak'', ''NdisFddiStateTrace'',
      ''NdisFddiStateConnect'', ''NdisFddiStateNext'', ''NdisFddiStateSignal'',
      ''NdisFddiStateJoin'', ''NdisFddiStateVerify'', ''NdisFddiStateActive'',
      ''NdisFddiStateMaintenance'']"

definition NDIS_WAN_MEDIUM_SUBTYPE :: "(string \<times> int) list" where
  "NDIS_WAN_MEDIUM_SUBTYPE = enum_from 0
     [''NdisWanMediumHub'', ''NdisWanMediumX_25'', ''NdisWanMediumIsdn'',
      ''NdisWanMediumSerial'', ''NdisWanMediumFrameRelay'', ''NdisWanMediumAtm'',
      ''NdisWanMediumSonet'', ''NdisWanMediumSW56K'']"

definition NDIS_WAN_HEADER_FORMAT :: "(string \<times> int) list" where
  "NDIS_WAN_HEADER_FORMAT = enum_from 0
     [''NdisWanHeaderNative'', ''NdisWanHeaderEthernet'']"

definition NDIS_WAN_QUALITY :: "(string \<times> int) list" where
  "NDIS_WAN_QUALITY = enum_from 0
     [''NdisWanRaw'', ''NdisWanErrorControl'', ''NdisWanReliable'']"

definition NDIS_802_5_RING_STATE :: "(string \<times> int) list" where
  "NDIS_802_5_RING_STATE = enum_from 1
     [''NdisRingStateOpened'', ''NdisRingStateClosed'', ''NdisRingStateOpening'',
      ''NdisRingStateClosing'', ''NdisRingStateOpenFailure'', ''NdisRingStateRingFailure'']"

definition NDIS_MEDIA_STATE :: "(string \<times> int) list" where
  "NDIS_MEDIA_STATE = enum_from 0
     [''NdisMediaStateConnected'', ''NdisMediaStateDisconnected'']"

definition NDIS_WW_NETWORK_TYPE :: "(string \<times> int) list" where
  "NDIS_WW_NETWORK_TYPE = enum_from 0
     [''NdisWWGeneric'', ''NdisWWMobitex'', ''NdisWWPinpoint'', ''NdisWWCDPD'',
      ''NdisWWArdis'', ''NdisWWDataTAC'', ''NdisWWMetricom'', ''NdisWWGSM'', ''NdisWWCDMA'',
      ''NdisWWTDMA'', ''NdisWWAMPS'', ''NdisWWInmarsat'', ''NdisWWpACT'']"

definition NDIS_WW_HEADER_FORMAT :: "(string \<times> int) list" where
  "NDIS_WW_HEADER_FORMAT = enum_from 0
     [''NdisWWDIXEthernetFrames'', ''NdisWWMPAKFrames'', ''NdisWWRDLAPFrames'',
      ''NdisWWMDC4800Frames'']"

definition NDIS_WW_ENCRYPTION_TYPE :: "(string \<times> int) list" where
  "NDIS_WW_ENCRYPTION_TYPE = enum_from (-1)
     [''NdisWWUnknownEncryption'', ''NdisWWNoEncryption'', ''NdisWWDefaultEncryption'']"

definition WW_CDPD_CHANNEL_STATE :: "(string \<times> int) list" where
  "WW_CDPD_CHANNEL_STATE = enum_from 0
     [''CDPDChannelNotAvail'', ''CDPDChannelScanning'', ''CDPDChannelInitAcquired'',
      ''CDPDChannelAcquired'', ''CDPDChannelSleeping'', ''CDPDChannelWaking'',
      ''CDPDChannelCSDialing'', ''CDPDChannelCSRedial'', ''CDPDChannelCSAnswering'',
      ''CDPDChannelCSConnected'', ''CDPDChannelCSSuspended'']"

definition WW_CDPD_NEI_FORMAT :: "(string \<times> int) list" where
  "WW_CDPD_NEI_FORMAT = enum_from 0
     [''CDPDNeiIPv4'', ''CDPDNeiCLNP'', ''CDPDNeiIPv6'']"

definition WW_CDPD_NEI_TYPE :: "(string \<times> int) list" where
  "WW_CDPD_NEI_TYPE = enum_from 0
     [''CDPDNeiIndividual'', ''CDPDNeiMulticast'', ''CDPDNeiBroadcast'']"

definition WW_CDPD_NEI_STATE :: "(string \<times> int) list" where
  "WW_CDPD_NEI_STATE = enum_from 0
     [''CDPDUnknown'', ''CDPDRegistered'', ''CDPDDeregistered'']"

definition WW_CDPD_NEI_SUB_STATE :: "(string \<times> int) list" where
  "WW_CDPD_NEI_SUB_STATE = enum_from 0
     [''CDPDPending'', ''CDPDNoReason'', ''CDPDMDISNotCapable'', ''CDPDNEINotAuthorized'',
      ''CDPDInsufficientAuth'', ''CDPDUnsupportedAuth'', ''CDPDUsageExceeded'',
      ''CDPDDeniedThisNetwork'']"

definition WW_MBX_TRAFFIC_AREA :: "(string \<times> int) list" where
  "WW_MBX_TRAFFIC_AREA = enum_from 0
     [''unknown_traffic_area'', ''in_traffic_area'', ''in_auth_traffic_area'',
      ''unauth_traffic_area'']"

section \<open>No two objects share an identifier\<close>

fun ascending :: "u32 list \<Rightarrow> bool" where
  "ascending (x # y # zs) \<longleftrightarrow> x < y \<and> ascending (y # zs)"
| "ascending zs \<longleftrightarrow> True"

lemma ascending_sorted: "ascending xs \<Longrightarrow> sorted_wrt (<) xs"
proof (induction xs rule: ascending.induct)
  case (1 x y zs)
  then show ?case by (auto intro: less_trans)
qed simp_all

lemma ascending_distinct: "ascending xs \<Longrightarrow> distinct xs"
  by (auto dest: ascending_sorted simp: strict_sorted_iff)

definition oids :: "(string \<times> u32) list" where
  "oids = oids_general @ oids_802_3 @ oids_802_5 @ oids_fddi_smt @ oids_fddi_mac @ oids_wan @ oids_localtalk
     @ oids_arcnet @ oids_tapi @ oids_atm @ oids_wireless @ oids_irda"

lemmas oid_tables = oids_general_def oids_802_3_def oids_802_5_def oids_fddi_smt_def oids_fddi_mac_def
  oids_wan_def oids_localtalk_def oids_arcnet_def oids_tapi_def oids_atm_def oids_wireless_def oids_irda_def

lemma oids_ascending: "ascending (map snd oids)"
  unfolding oids_def oid_tables by simp

text \<open>
  The identifiers of the different media are all different; those of connection-oriented media
  are too, but most of them mean something else on other media.
\<close>

lemma oids_distinct:
  "distinct (map snd oids)" "distinct (map snd oids_connection_oriented)"
proof -
  show "distinct (map snd oids)" by (rule ascending_distinct [OF oids_ascending])
  have "ascending (map snd oids_connection_oriented)" unfolding oids_connection_oriented_def by simp
  then show "distinct (map snd oids_connection_oriented)" by (rule ascending_distinct)
qed

lemma co_link_speed_is_lookahead:
  "map_of oids_connection_oriented ''OID_GEN_CO_LINK_SPEED'' = map_of oids_general ''OID_GEN_MAXIMUM_LOOKAHEAD''"
  unfolding oids_connection_oriented_def oids_general_def by simp

text \<open>The first byte is the kind of medium.\<close>

definition of_medium :: "u32 \<Rightarrow> (string \<times> u32) list \<Rightarrow> bool" where
  "of_medium m table \<longleftrightarrow> list_all (\<lambda>oid. m * 0x1000000 \<le> oid \<and> oid \<le> m * 0x1000000 + 0xFFFFFF) (map snd table)"

lemma media_of_oids:
  "of_medium 0 oids_general" "of_medium 1 oids_802_3" "of_medium 2 oids_802_5" "of_medium 3 oids_fddi_smt"
  "of_medium 3 oids_fddi_mac" "of_medium 4 oids_wan" "of_medium 5 oids_localtalk" "of_medium 6 oids_arcnet"
  "of_medium 7 oids_tapi" "of_medium 8 oids_atm" "of_medium 9 oids_wireless" "of_medium 10 oids_irda"
  unfolding of_medium_def oid_tables by simp_all

text \<open>Each entry is a single bit, and within a table no two are the same.\<close>

lemma ndis_bits:
  "map snd ndis_packet_types = map (\<lambda>k. 2 ^ k) [0, 1, 2, 3, 4, 5, 6, 7, 15, 14, 13, 12]"
  "map snd ndis_ring_status = map (\<lambda>k. 2 ^ k) [15, 14, 13, 12, 11, 10, 9, 8, 7, 6]"
  "map snd ndis_prot_options = map (\<lambda>k. 2 ^ k) [0, 1, 2]"
  "map snd ndis_mac_options = map (\<lambda>k. 2 ^ k) [0, 1, 2, 3, 4, 5, 31]"
  "map snd ndis_time_caps = map (\<lambda>k. 2 ^ k) [0, 1, 2, 3, 4, 5]"
  by (simp_all add: ndis_packet_types_def ndis_ring_status_def ndis_prot_options_def
      ndis_mac_options_def ndis_time_caps_def)

text \<open>
  The media WinPcap adds in \<open>Packet32.h\<close> are negative, so they are none of the enumeration, not even
  its upper bound.
\<close>

lemma packet32_media_apart: "set (map snd ndis_media) \<inter> set (map snd NDIS_MEDIUM) = {}"
  by (auto simp: ndis_media_def NDIS_MEDIUM_def enum_from_def)

end
