(* ===== verification/NdisStructs.thy ===== *)
theory NdisStructs
  imports NdisOids
begin

text \<open>
  The structures of \<open>Ntddndis.h\<close> as C types, and which of them have one layout for a program with
  32-bit pointers and a driver with 64-bit pointers.
\<close>

section \<open>Structures\<close>

definition struct_NDIS_STATISTICS_VALUE :: ctype where
  "struct_NDIS_STATISTICS_VALUE = CStruct
     [(''Oid'', CLong), (''DataLength'', CLong), (''Data'', CArray (CInt 1) 1)]"

definition struct_NET_PNP_ID :: ctype where
  "struct_NET_PNP_ID = CStruct
     [(''ClassId'', CLong), (''Token'', CLong)]"

definition struct_NET_PNP_TRANSLATE_LIST :: ctype where
  "struct_NET_PNP_TRANSLATE_LIST = CStruct
     [(''BytesNeeded'', CLong), (''IdArray'', CArray struct_NET_PNP_ID 1)]"

definition struct_NDIS_VAR_DATA_DESC :: ctype where
  "struct_NDIS_VAR_DATA_DESC = CStruct
     [(''Length'', CInt 2), (''MaximumLength'', CInt 2), (''Offset'', CLong)]"

definition struct_GEN_GET_TIME_CAPS :: ctype where
  "struct_GEN_GET_TIME_CAPS = CStruct
     [(''Flags'', CLong), (''ClockPrecision'', CLong)]"

definition struct_GEN_GET_NETCARD_TIME :: ctype where
  "struct_GEN_GET_NETCARD_TIME = CStruct
     [(''ReadTime'', CLong)]"

definition struct_NDIS_CO_LINK_SPEED :: ctype where
  "struct_NDIS_CO_LINK_SPEED = CStruct
     [(''Outbound'', CLong), (''Inbound'', CLong)]"

definition struct_NDIS_IRDA_PACKET_INFO :: ctype where
  "struct_NDIS_IRDA_PACKET_INFO = CStruct
     [(''ExtraBOFs'', CInt 4), (''MinTurnAroundTime'', CInt 4)]"

definition struct_NDIS_WW_INDICATION_REQUEST :: ctype where
  "struct_NDIS_WW_INDICATION_REQUEST = CStruct
     [(''Oid'', CLong), (''uIndicationFlag'', CInt 4), (''uApplicationToken'', CInt 4),
      (''hIndicationHandle'', CPtr), (''iPollingInterval'', CInt 4),
      (''InitialValue'', struct_NDIS_VAR_DATA_DESC),
      (''OIDIndicationValue'', struct_NDIS_VAR_DATA_DESC),
      (''TriggerValue'', struct_NDIS_VAR_DATA_DESC)]"

definition struct_WW_DEVICE_INFO :: ctype where
  "struct_WW_DEVICE_INFO = CStruct
     [(''Manufacturer'', struct_NDIS_VAR_DATA_DESC), (''ModelNum'', struct_NDIS_VAR_DATA_DESC),
      (''SWVersionNum'', struct_NDIS_VAR_DATA_DESC), (''SerialNum'', struct_NDIS_VAR_DATA_DESC)]"

definition struct_WW_CURRENT_ADDRESS :: ctype where
  "struct_WW_CURRENT_ADDRESS = CStruct
     [(''Format'', CInt 4), (''Address'', struct_NDIS_VAR_DATA_DESC)]"

definition struct_WW_TAC_SETCONFIG :: ctype where
  "struct_WW_TAC_SETCONFIG = CStruct
     [(''RCV_MODE'', struct_NDIS_VAR_DATA_DESC), (''TX_CONTROL'', struct_NDIS_VAR_DATA_DESC),
      (''RX_CONTROL'', struct_NDIS_VAR_DATA_DESC), (''FLOW_CONTROL'', struct_NDIS_VAR_DATA_DESC),
      (''RESET_CNF'', struct_NDIS_VAR_DATA_DESC), (''READ_CNF'', struct_NDIS_VAR_DATA_DESC)]"

definition struct_WW_TAC_GETSTATUS :: ctype where
  "struct_WW_TAC_GETSTATUS = CStruct
     [(''Action'', CInt 1), (''Command'', struct_NDIS_VAR_DATA_DESC),
      (''Option'', struct_NDIS_VAR_DATA_DESC), (''Response'', struct_NDIS_VAR_DATA_DESC)]"

definition struct_WW_ARD_SNDCP :: ctype where
  "struct_WW_ARD_SNDCP = CStruct
     [(''Version'', struct_NDIS_VAR_DATA_DESC), (''BlockSize'', CInt 4), (''Window'', CInt 4)]"

definition struct_WW_ARD_DATAGRAM :: ctype where
  "struct_WW_ARD_DATAGRAM = CStruct
     [(''LoadLevel'', CInt 1), (''SessionTime'', CInt 4),
      (''HostAddr'', struct_NDIS_VAR_DATA_DESC), (''THostAddr'', struct_NDIS_VAR_DATA_DESC)]"

definition struct_WW_CDPD_SPNI :: ctype where
  "struct_WW_CDPD_SPNI = CStruct
     [(''SPNI'', CArray (CInt 4) 10), (''OperatingMode'', CInt 4)]"

definition struct_WW_CDPD_WIDE_AREA_SERVICE_ID :: ctype where
  "struct_WW_CDPD_WIDE_AREA_SERVICE_ID = CStruct
     [(''WASI'', CArray (CInt 4) 10), (''OperatingMode'', CInt 4)]"

definition struct_WW_CDPD_CHANNEL_SELECT :: ctype where
  "struct_WW_CDPD_CHANNEL_SELECT = CStruct
     [(''ChannelID'', CInt 4), (''fixedDuration'', CInt 4)]"

definition struct_WW_CDPD_NEI :: ctype where
  "struct_WW_CDPD_NEI = CStruct
     [(''uNeiIndex'', CInt 4), (''NeiFormat'', CInt 4), (''NeiType'', CInt 4),
      (''NeiGmid'', CInt 2), (''NeiAddress'', struct_NDIS_VAR_DATA_DESC)]"

definition struct_WW_CDPD_NEI_REG_STATE :: ctype where
  "struct_WW_CDPD_NEI_REG_STATE = CStruct
     [(''uNeiIndex'', CInt 4), (''NeiState'', CInt 4), (''NeiSubState'', CInt 4)]"

definition struct_WW_CDPD_SERVICE_PROVIDER_ID :: ctype where
  "struct_WW_CDPD_SERVICE_PROVIDER_ID = CStruct
     [(''SPI'', CArray (CInt 4) 10), (''OperatingMode'', CInt 4)]"

definition struct_WW_CDPD_CIRCUIT_SWITCHED :: ctype where
  "struct_WW_CDPD_CIRCUIT_SWITCHED = CStruct
     [(''service_preference'', CInt 4), (''service_status'', CInt 4), (''connect_rate'', CInt 4),
      (''dial_code'', CArray struct_NDIS_VAR_DATA_DESC 20), (''sid'', CInt 4),
      (''a_b_side_selection'', CInt 4), (''AMPS_channel'', CInt 4), (''action'', CInt 4),
      (''default_dial'', CArray struct_NDIS_VAR_DATA_DESC 20),
      (''call_back'', CArray struct_NDIS_VAR_DATA_DESC 20), (''sid_list'', CArray (CInt 4) 10),
      (''inactivity_timer'', CInt 4), (''receive_timer'', CInt 4), (''conn_resp_timer'', CInt 4),
      (''reconn_resp_timer'', CInt 4), (''disconn_timer'', CInt 4), (''NEI_reg_timer'', CInt 4),
      (''reconn_retry_timer'', CInt 4), (''link_reset_timer'', CInt 4),
      (''link_reset_ack_timer'', CInt 4), (''n401_retry_limit'', CInt 4),
      (''n402_retry_limit'', CInt 4), (''n404_retry_limit'', CInt 4),
      (''n405_retry_limit'', CInt 4)]"

definition struct_WW_PIN_LOCATION :: ctype where
  "struct_WW_PIN_LOCATION = CStruct
     [(''Latitude'', CInt 4), (''Longitude'', CInt 4), (''Altitude'', CInt 4),
      (''FixTime'', CInt 4), (''NetTime'', CInt 4), (''LocQuality'', CInt 4),
      (''LatReg'', CInt 4), (''LongReg'', CInt 4), (''GMTOffset'', CInt 4)]"

definition struct_WW_MBX_PMAN :: ctype where
  "struct_WW_MBX_PMAN = CStruct
     [(''ACTION'', CInt 1), (''MAN'', CInt 4), (''PASSWORD'', CArray (CInt 1) 8)]"

definition struct_WW_MBX_FLEXLIST :: ctype where
  "struct_WW_MBX_FLEXLIST = CStruct
     [(''count'', CInt 4), (''MAN'', CArray (CInt 4) 7)]"

definition struct_WW_MBX_GROUPLIST :: ctype where
  "struct_WW_MBX_GROUPLIST = CStruct
     [(''count'', CInt 4), (''MAN'', CArray (CInt 4) 15)]"

definition struct_WW_MBX_CHANNEL_PAIR :: ctype where
  "struct_WW_MBX_CHANNEL_PAIR = CStruct
     [(''Mobile_Tx'', CInt 4), (''Mobile_Rx'', CInt 4)]"

definition struct_WW_MBX_TEMPDEFAULTLIST :: ctype where
  "struct_WW_MBX_TEMPDEFAULTLIST = CStruct
     [(''Length'', CInt 4), (''ChannelPair'', CArray struct_WW_MBX_CHANNEL_PAIR 1)]"

section \<open>One layout for both sides\<close>

text \<open>Types without pointers are laid out alike by the two Windows compilers.\<close>

fun pointer_free :: "ctype \<Rightarrow> bool" and pointer_free_members :: "(string \<times> ctype) list \<Rightarrow> bool" where
  "pointer_free (CInt n) \<longleftrightarrow> True"
| "pointer_free CLong \<longleftrightarrow> True"
| "pointer_free CPtr \<longleftrightarrow> False"
| "pointer_free (CArray t n) \<longleftrightarrow> pointer_free t"
| "pointer_free (CStruct ms) \<longleftrightarrow> pointer_free_members ms"
| "pointer_free (CUnion ms) \<longleftrightarrow> pointer_free_members ms"
| "pointer_free (CBits n fs) \<longleftrightarrow> True"
| "pointer_free_members [] \<longleftrightarrow> True"
| "pointer_free_members ((f, t) # ms) \<longleftrightarrow> pointer_free t \<and> pointer_free_members ms"

lemma pointer_free_align:
  "pointer_free t \<Longrightarrow> alignof LLP64 t = alignof ILP32 t"
  "pointer_free_members ms \<Longrightarrow> alignof_members LLP64 ms = alignof_members ILP32 ms"
  by (induction t and ms rule: pointer_free_pointer_free_members.induct) simp_all

lemma pointer_free_size:
  "pointer_free t \<Longrightarrow> sizeof LLP64 t = sizeof ILP32 t"
  "pointer_free_members ms \<Longrightarrow> struct_end LLP64 off ms = struct_end ILP32 off ms \<and>
     union_size LLP64 ms = union_size ILP32 ms"
  by (induction t and ms arbitrary: and off rule: pointer_free_pointer_free_members.induct)
    (simp_all add: pointer_free_align)

lemma pointer_free_locate:
  "pointer_free t \<Longrightarrow> locate LLP64 t path = locate ILP32 t path"
  "pointer_free_members ms \<Longrightarrow> locate_struct LLP64 off ms f path = locate_struct ILP32 off ms f path"
  "pointer_free_members ms \<Longrightarrow> locate_union LLP64 ms f path = locate_union ILP32 ms f path"
  by (induction LLP64 t path and LLP64 off ms f path and LLP64 ms f path
      rule: locate_locate_struct_locate_union.induct)
    (simp_all add: pointer_free_align pointer_free_size Let_def)

definition ndis_structs :: "ctype list" where
  "ndis_structs =
     [struct_NDIS_STATISTICS_VALUE, struct_NET_PNP_ID, struct_NET_PNP_TRANSLATE_LIST,
      struct_NDIS_VAR_DATA_DESC, struct_GEN_GET_TIME_CAPS, struct_GEN_GET_NETCARD_TIME,
      struct_NDIS_CO_LINK_SPEED, struct_NDIS_IRDA_PACKET_INFO, struct_WW_DEVICE_INFO,
      struct_WW_CURRENT_ADDRESS, struct_WW_TAC_SETCONFIG, struct_WW_TAC_GETSTATUS,
      struct_WW_ARD_SNDCP, struct_WW_ARD_DATAGRAM, struct_WW_CDPD_SPNI,
      struct_WW_CDPD_WIDE_AREA_SERVICE_ID, struct_WW_CDPD_CHANNEL_SELECT, struct_WW_CDPD_NEI,
      struct_WW_CDPD_NEI_REG_STATE, struct_WW_CDPD_SERVICE_PROVIDER_ID,
      struct_WW_CDPD_CIRCUIT_SWITCHED, struct_WW_PIN_LOCATION, struct_WW_MBX_PMAN,
      struct_WW_MBX_FLEXLIST, struct_WW_MBX_GROUPLIST, struct_WW_MBX_CHANNEL_PAIR,
      struct_WW_MBX_TEMPDEFAULTLIST]"

lemmas ndis_struct_defs =
  struct_NDIS_STATISTICS_VALUE_def  struct_NET_PNP_ID_def  struct_NET_PNP_TRANSLATE_LIST_def 
  struct_NDIS_VAR_DATA_DESC_def  struct_GEN_GET_TIME_CAPS_def  struct_GEN_GET_NETCARD_TIME_def 
  struct_NDIS_CO_LINK_SPEED_def  struct_NDIS_IRDA_PACKET_INFO_def  struct_WW_DEVICE_INFO_def 
  struct_WW_CURRENT_ADDRESS_def  struct_WW_TAC_SETCONFIG_def  struct_WW_TAC_GETSTATUS_def 
  struct_WW_ARD_SNDCP_def  struct_WW_ARD_DATAGRAM_def  struct_WW_CDPD_SPNI_def 
  struct_WW_CDPD_WIDE_AREA_SERVICE_ID_def  struct_WW_CDPD_CHANNEL_SELECT_def 
  struct_WW_CDPD_NEI_def  struct_WW_CDPD_NEI_REG_STATE_def 
  struct_WW_CDPD_SERVICE_PROVIDER_ID_def  struct_WW_CDPD_CIRCUIT_SWITCHED_def 
  struct_WW_PIN_LOCATION_def  struct_WW_MBX_PMAN_def  struct_WW_MBX_FLEXLIST_def 
  struct_WW_MBX_GROUPLIST_def  struct_WW_MBX_CHANNEL_PAIR_def 
  struct_WW_MBX_TEMPDEFAULTLIST_def

lemma ndis_structs_pointer_free: "\<forall>t \<in> set ndis_structs. pointer_free t"
  by (simp add: ndis_structs_def ndis_struct_defs)

text \<open>
  Every structure but one is found by a 64-bit driver as a 32-bit program wrote it. The request for
  an indication holds a handle: its members from there on lie elsewhere.
\<close>

lemma ndis_structs_one_layout:
  assumes "t \<in> set ndis_structs"
  shows "sizeof LLP64 t = sizeof ILP32 t" and "locate LLP64 t path = locate ILP32 t path"
  using assms ndis_structs_pointer_free by (simp_all add: pointer_free_size pointer_free_locate)

lemma indication_request_layouts:
  "sizeof ILP32 struct_NDIS_WW_INDICATION_REQUEST = 44"
  "sizeof LLP64 struct_NDIS_WW_INDICATION_REQUEST = 56"
  "map_option fst (locate ILP32 struct_NDIS_WW_INDICATION_REQUEST [''iPollingInterval'']) = Some 16"
  "map_option fst (locate LLP64 struct_NDIS_WW_INDICATION_REQUEST [''iPollingInterval'']) = Some 24"
  by (simp_all add: struct_NDIS_WW_INDICATION_REQUEST_def struct_NDIS_VAR_DATA_DESC_def round_up_def)

text \<open>
  A statistics value is padded behind its data: the record of a statistic of one byte takes 12 bytes.
  The lists of service providers hold 32-bit numbers, where the comments speak of 16-bit ones.
\<close>

lemma ndis_sizes:
  "sizeof LLP64 struct_NDIS_STATISTICS_VALUE = 12"
  "sizeof LLP64 struct_WW_CDPD_SPNI = 44"
  "sizeof LLP64 struct_NDIS_VAR_DATA_DESC = 8"
  "sizeof LLP64 struct_WW_MBX_PMAN = 16"
  by (simp_all add: ndis_struct_defs round_up_def)

end
