(* ===== verification/BitTypes.thy ===== *)
theory BitTypes
  imports Layout
begin

text \<open>
  \<open>bittypes.h\<close> and \<open>pcap-stdinc.h\<close>: how the headers of WinPcap choose the C types behind
  \<open>u_int8_t\<close> to \<open>u_int64_t\<close> from what the preprocessor knows of the compiler, and what they tell it
  on Windows.
\<close>

section \<open>What the preprocessor knows\<close>

text \<open>The macros the headers test; a size that is not defined counts as 0 in \<open>#if\<close>.\<close>

record macros =
  SIZEOF_CHAR :: nat
  SIZEOF_SHORT :: nat
  SIZEOF_INT :: nat
  SIZEOF_LONG :: nat
  SIZEOF_LONG_LONG :: nat
  MSC_EXTENSIONS :: bool
  HAVE_U_INT8_T :: bool
  HAVE_U_INT16_T :: bool
  HAVE_U_INT32_T :: bool
  HAVE_U_INT64_T :: bool

text \<open>\<open>pcap-stdinc.h\<close>; whether the extensions of Microsoft are on depends on the compiler.\<close>

definition pcap_stdinc :: "bool \<Rightarrow> macros" where
  "pcap_stdinc msc = \<lparr>SIZEOF_CHAR = 1, SIZEOF_SHORT = 2, SIZEOF_INT = 4, SIZEOF_LONG = 0,
     SIZEOF_LONG_LONG = (if msc then 0 else 8), MSC_EXTENSIONS = msc, HAVE_U_INT8_T = False,
     HAVE_U_INT16_T = False, HAVE_U_INT32_T = False, HAVE_U_INT64_T = False\<rparr>"

section \<open>The types chosen\<close>

datatype int_type = C_char | C_short | C_int | C_long | C_long_long | MS_int64

text \<open>A \<open>typedef\<close> of the headers: left to others, of a type, or \<open>#error\<close>.\<close>

datatype chosen = Elsewhere | Typedef int_type | Error

definition bittypes_8 :: "macros \<Rightarrow> chosen" where
  "bittypes_8 m =
     (if HAVE_U_INT8_T m then Elsewhere
      else if SIZEOF_CHAR m = 1 then Typedef C_char
      else if SIZEOF_INT m = 1 then Typedef C_int
      else Error)"

definition bittypes_16 :: "macros \<Rightarrow> chosen" where
  "bittypes_16 m =
     (if HAVE_U_INT16_T m then Elsewhere
      else if SIZEOF_SHORT m = 2 then Typedef C_short
      else if SIZEOF_INT m = 2 then Typedef C_int
      else if SIZEOF_CHAR m = 2 then Typedef C_char
      else Error)"

definition bittypes_32 :: "macros \<Rightarrow> chosen" where
  "bittypes_32 m =
     (if HAVE_U_INT32_T m then Elsewhere
      else if SIZEOF_INT m = 4 then Typedef C_int
      else if SIZEOF_LONG m = 4 then Typedef C_long
      else if SIZEOF_SHORT m = 4 then Typedef C_short
      else Error)"

definition bittypes_64 :: "macros \<Rightarrow> chosen" where
  "bittypes_64 m =
     (if HAVE_U_INT64_T m then Elsewhere
      else if SIZEOF_LONG_LONG m = 8 then Typedef C_long_long
      else if MSC_EXTENSIONS m then Typedef MS_int64
      else if SIZEOF_INT m = 8 then Typedef C_int
      else if SIZEOF_LONG m = 8 then Typedef C_long
      else if SIZEOF_SHORT m = 8 then Typedef C_short
      else Error)"

text \<open>The conversions \<open>PRId64\<close>, \<open>PRIo64\<close>, \<open>PRIx64\<close> and \<open>PRIu64\<close> for \<open>printf\<close>.\<close>

definition PRI64 :: "macros \<Rightarrow> char \<Rightarrow> string" where
  "PRI64 m conversion = (if MSC_EXTENSIONS m then ''I64'' else ''ll'') @ [conversion]"

section \<open>The types have the width they are named after\<close>

text \<open>The sizes of the types of a compiler; a size macro is either right or not defined.\<close>

fun size_in :: "data_model \<Rightarrow> int_type \<Rightarrow> nat" where
  "size_in dm C_char = 1"
| "size_in dm C_short = 2"
| "size_in dm C_int = 4"
| "size_in dm C_long = long_size dm"
| "size_in dm C_long_long = 8"
| "size_in dm MS_int64 = 8"

definition truthful :: "data_model \<Rightarrow> macros \<Rightarrow> bool" where
  "truthful dm m \<longleftrightarrow> SIZEOF_CHAR m \<in> {0, size_in dm C_char} \<and> SIZEOF_SHORT m \<in> {0, size_in dm C_short} \<and>
     SIZEOF_INT m \<in> {0, size_in dm C_int} \<and> SIZEOF_LONG m \<in> {0, size_in dm C_long} \<and>
     SIZEOF_LONG_LONG m \<in> {0, size_in dm C_long_long}"

lemma bittypes_widths:
  assumes "truthful dm m"
  shows "bittypes_8 m = Typedef t \<Longrightarrow> size_in dm t = 1"
    and "bittypes_16 m = Typedef t \<Longrightarrow> size_in dm t = 2"
    and "bittypes_32 m = Typedef t \<Longrightarrow> size_in dm t = 4"
    and "bittypes_64 m = Typedef t \<Longrightarrow> size_in dm t = 8"
  using assms
  by (auto simp: truthful_def bittypes_8_def bittypes_16_def bittypes_32_def bittypes_64_def
      split: if_splits)

text \<open>On Windows all four exist, with either kind of compiler.\<close>

lemma windows_bittypes:
  "truthful dm (pcap_stdinc msc)"
  "bittypes_8 (pcap_stdinc msc) = Typedef C_char" "bittypes_16 (pcap_stdinc msc) = Typedef C_short"
  "bittypes_32 (pcap_stdinc msc) = Typedef C_int"
  "bittypes_64 (pcap_stdinc msc) = Typedef (if msc then MS_int64 else C_long_long)"
  by (auto simp: truthful_def pcap_stdinc_def bittypes_8_def bittypes_16_def bittypes_32_def bittypes_64_def)

end
