(* ===== verification/Savefile.thy ===== *)
theory Savefile
  imports CMem HeaderStructs
begin

text \<open>
  What \<open>pcap-int.h\<close> fixes of the capture library: the packet headers as they are stored in a file,
  with 32-bit times on every system, and the macros \<open>min\<close> and \<open>strlcpy\<close>; the constants and
  structures \<open>remote-ext.h\<close> adds for remote capture.
\<close>

section \<open>Headers in a file\<close>

definition struct_pcap_timeval :: ctype where
  "struct_pcap_timeval = CStruct [(''tv_sec'', u_int), (''tv_usec'', u_int)]"

definition struct_pcap_sf_pkthdr :: ctype where
  "struct_pcap_sf_pkthdr = CStruct [(''ts'', struct_pcap_timeval), (''caplen'', u_int), (''len'', u_int)]"

definition struct_pcap_sf_patched_pkthdr :: ctype where
  "struct_pcap_sf_patched_pkthdr = CStruct
     [(''ts'', struct_pcap_timeval), (''caplen'', u_int), (''len'', u_int), (''index'', u_int),
      (''protocol'', u_short), (''pkt_type'', u_char)]"

datatype swapped_type_t = NOT_SWAPPED | SWAPPED | MAYBE_SWAPPED

definition struct_pcap_sf :: ctype where
  "struct_pcap_sf = CStruct
     [(''rfile'', CPtr), (''swapped'', u_int), (''hdrsize'', u_int), (''lengths_swapped'', u_int),
      (''version_major'', u_int), (''version_minor'', u_int), (''base'', CPtr)]"

section \<open>Remote capture\<close>

definition PCAP_BUF_SIZE :: nat where "PCAP_BUF_SIZE = 1024"
definition RPCAP_HOSTLIST_SIZE :: nat where "RPCAP_HOSTLIST_SIZE = 1024"

definition remote_sources :: "(string \<times> nat) list" where
  "remote_sources = [(''PCAP_SRC_FILE'', 2), (''PCAP_SRC_IFLOCAL'', 3), (''PCAP_SRC_IFREMOTE'', 4)]"

definition PCAP_SRC_FILE_STRING :: string where "PCAP_SRC_FILE_STRING = ''file://''"
definition PCAP_SRC_IF_STRING :: string where "PCAP_SRC_IF_STRING = ''rpcap://''"

definition remote_open_flags :: "(string \<times> nat) list" where
  "remote_open_flags =
     [(''PCAP_OPENFLAG_PROMISCUOUS'', 1), (''PCAP_OPENFLAG_DATATX_UDP'', 2),
      (''PCAP_OPENFLAG_NOCAPTURE_RPCAP'', 4), (''PCAP_OPENFLAG_NOCAPTURE_LOCAL'', 8),
      (''PCAP_OPENFLAG_MAX_RESPONSIVENESS'', 16)]"

definition remote_sampling :: "(string \<times> nat) list" where
  "remote_sampling =
     [(''PCAP_SAMP_NOSAMP'', 0), (''PCAP_SAMP_1_EVERY_N'', 1), (''PCAP_SAMP_FIRST_AFTER_N_MS'', 2)]"

definition remote_auth :: "(string \<times> nat) list" where
  "remote_auth = [(''RPCAP_RMTAUTH_NULL'', 0), (''RPCAP_RMTAUTH_PWD'', 1)]"

definition struct_pcap_rmtauth :: ctype where
  "struct_pcap_rmtauth = CStruct [(''type'', u_int), (''username'', CPtr), (''password'', CPtr)]"

definition struct_pcap_samp :: ctype where
  "struct_pcap_samp = CStruct [(''method'', u_int), (''value'', u_int)]"

section \<open>Macros\<close>

definition min_macro :: "int \<Rightarrow> int \<Rightarrow> int" where
  "min_macro a b = (if a > b then b else a)"

text \<open>\<open>strncpy\<close> of the C library for the characters \<open>y\<close> of a string: padded with zeros to \<open>n\<close>.\<close>

definition strncpy :: "ptr \<Rightarrow> u8 list \<Rightarrow> nat \<Rightarrow> mem \<Rightarrow> mem res" where
  "strncpy x y n = wr_bytes x (take n y @ replicate (n - length y) 0)"

definition strlcpy :: "ptr \<Rightarrow> u8 list \<Rightarrow> nat \<Rightarrow> mem \<Rightarrow> (nat \<times> mem) res" where
  "strlcpy x y z m =
     bindr (strncpy x y z m) (\<lambda>m.
     bindr (if z \<le> 0 then Inr m else wr8 (x + (int z - 1)) 0 m) (\<lambda>m.
     Inr (length y, m)))"

section \<open>Laws\<close>

text \<open>The header in a file is the same on every system; the one in memory is not.\<close>

lemma savefile_sizes:
  "sizeof d struct_pcap_sf_pkthdr = 16" "sizeof d struct_pcap_sf_patched_pkthdr = 24"
  "sizeof LP64 struct_pcap_pkthdr = 24"
  by (simp_all add: struct_pcap_sf_pkthdr_def struct_pcap_sf_patched_pkthdr_def struct_pcap_timeval_def
      struct_pcap_pkthdr_def struct_timeval_def round_up_def)

lemma min_macro_min: "min_macro a b = min a b"
  by (simp add: min_macro_def min_def)

text \<open>
  \<open>strlcpy\<close> leaves a terminated string with as many of the characters as fit, fills the rest of the
  buffer with zeros and returns the length of the whole string, so a caller sees a truncation.
\<close>

theorem strlcpy_copies:
  assumes "length w = z" and "0 < z"
  shows "strlcpy (int (length pre)) y z (pre @ w @ post) =
     Inr (length y, pre @ take (z - 1) y @ replicate (z - length (take (z - 1) y)) 0 @ post)"
proof -
  let ?c = "take z y @ replicate (z - length y) 0"
  have len: "length ?c = z" by simp
  have "strncpy (int (length pre)) y z (pre @ w @ post) = Inr (pre @ ?c @ post)"
    using assms len unfolding strncpy_def wr_bytes_def
    by (simp add: in_range_def overlay_def)
  moreover have "wr8 (int (length pre) + (int z - 1)) 0 (pre @ ?c @ post) =
      Inr (pre @ take (z - 1) ?c @ [0] @ post)"
  proof -
    have "nat (int (length pre) + (int z - 1)) = length pre + (z - 1)" using assms by simp
    then show ?thesis using assms len
      by (simp add: wr8_def wr_bytes_def in_range_def overlay_def)
  qed
  moreover have "take (z - 1) ?c @ [0] = take (z - 1) y @ replicate (z - length (take (z - 1) y)) 0"
  proof (cases "length y < z")
    case True
    then obtain k where z: "z = length y + Suc k" by (metis less_iff_Suc_add add_Suc_right)
    have "take k (replicate (Suc k) 0) @ [0 :: u8] = replicate (Suc k) 0"
      by (simp only: take_replicate min_def) (simp add: replicate_append_same)
    with z show ?thesis by simp
  next
    case False
    then show ?thesis using assms(2) by (simp add: min_def)
  qed
  ultimately show ?thesis using assms by (simp add: strlcpy_def)
qed

end
