(* ===== verification/Spec2Isabelle.thy ===== *)
theory Spec2Isabelle
  imports NativeWitnesses StackWitnesses BpfInsn Tme NdisStructs BitTypes Savefile
begin

text \<open>
  A TCP/IP stack in Java, and Jpcap, the packet capture library it runs on.

  The repository holds a small TCP/IP stack in Java (\<open>src/src\<close>) on top of the library Jpcap, which it
  carries under \<open>src/api/jpcap/Jpcap-master/src/main\<close>. The development models Jpcap's native code
  (directory \<open>c\<close>), the part of its Java classes the native code works on (directory \<open>java\<close>), the
  headers whose structures and constants that code uses, and the stack. In what follows file names are
  relative to \<open>c\<close>, or to \<open>src/src\<close> where the stack is described.


  The program

  A \<open>JpcapCaptor\<close> or \<open>JpcapSender\<close> object holds an ID, the index of its slot in global C arrays with
  255 entries (\<open>JpcapCaptor.c\<close>, \<open>Jpcap_sub.h\<close>). Opening takes the lowest free ID on the Java side
  (\<open>JpcapInstance.java\<close>) and stores the handle of the capture library in the slot. A captured frame
  goes through \<open>get_packet\<close>, which calls the analysers of \<open>packet_*.c\<close> to make a Java object of it; a
  Java packet to be sent goes through \<open>set_packet\<close>, which calls the setters of the same files to write
  a frame into a stack array of 1600 bytes, which \<open>nativeSendPacket\<close> hands to \<open>pcap_sendpacket\<close> or
  \<open>nativeSendPacketViaRawSocket\<close> to \<open>sendto\<close>. \<open>JpcapWriter.c\<close> writes packets into one dump file for
  the whole process. \<open>set_Java_env\<close> looks up once the classes, methods and fields all of this uses.

  In the stack, \<open>DataLinkLayer\<close> sends and receives packets of Jpcap. \<open>ProtocolManager\<close> keeps a table of
  hardware addresses filled by ARP, sends every IP packet to the router, lets packets wait while
  its address is unknown, and gives what comes in to the IP, UDP and ICMP layers and then to an
  application: a UDP datagram to the first one registered with its port (\<open>ApplicationManager\<close>), an
  ICMP message to those that asked for it. The applications are clients of TFTP, DNS and DHCP, ping,
  its variant with timestamps, and traceroute; each builds its message, the UDP and IP headers
  around it, and hands the packet to \<open>ProtocolManager.sendData\<close> or \<open>broadCast\<close>.


  Theories

  Foundations:
  \<^item> Prelude: machine integers (\<open>u8\<close>, \<open>jint\<close>, ...), byte order, generic lemmas and the collections of
    rewrite rules the other theories feed.
  \<^item> CMem: C memory as a list of bytes; every access outside it is a fault, so that a result
    \<open>Inr\<close> of a modelled function says that no access left the memory. Windows of memory and how
    reads and writes of fields act on them.
  \<^item> JavaPacket, Jni: the Java packet classes as records, and the JNI calls with which the native code
    reads fields and calls methods (\<open>setValue\<close>, \<open>setIPv4Value\<close>, ...).
  \<^item> Headers: the constants and field positions of \<open>include/netinet\<close>, \<open>include/net\<close> and
    \<open>Jpcap_ether.h\<close> the packet code uses.
  \<^item> Layout, HeaderStructs, HeaderTables, HeaderLaws: the structure declarations of the headers as C
    types with the rules of structure layout for 32-bit, LP64 and LLP64 compilers, the tables of
    constants and the macros that compute; theorem \<open>header_layouts\<close> derives every position of Headers
    from the declarations.
  \<^item> Checksum: \<open>in_cksum\<close> and \<open>in_cksum2\<close> of \<open>JpcapSender.c\<close> and the ones-complement arithmetic that
    relates them to RFC 1071.

  Packets, both directions, one theory per file: PacketDatalink, PacketIp, PacketIpv6, PacketArp,
  PacketUdp, PacketTcp, PacketIcmp (\<open>analyze_*\<close> reads a frame, \<open>set_*\<close> writes one).

  Sending and receiving frames:
  \<^item> SetPacket: \<open>set_packet\<close> and the composition of the setters. Frames: \<open>build_frame\<close> and
    \<open>bytes_sent\<close>, the body of \<open>nativeSendPacket\<close> around it, with the exact bytes of UDP, TCP, ARP and
    ICMP echo frames; Frames6 those of UDP and TCP over IPv6.
  \<^item> Captor: \<open>get_packet\<close> of \<open>JpcapCaptor.c\<close> and what it calls. Capture: what every result has in
    common. RoundTrip: send, then capture. CaptureLaws: classes of objects and that every object has
    the class of the setters called on it (\<open>well_typed\<close>), truncated frames, deviations of the
    analysers.
  \<^item> Triples, SendSafety, CaptureSafety: total correctness. \<open>yields m P\<close> says that \<open>m\<close> returns, with
    a result for which \<open>P\<close> holds; with one rule per construct it shows that every packet that fits the
    stack array is sent, and every frame whose headers claim no more than is there is analysed
    (\<open>frame_whole\<close>, IPv6 extension headers included). The authentication header is the one that can
    be whole and still be read past its end (\<open>authentication_header_over_reads\<close>).
  \<^item> ProtocolLaws: RFC 1071, the pseudo header, the loop over IPv6 extension headers.
  \<^item> LinkTypes: the DLT numbers of \<open>pcap-bpf.h\<close> and what \<open>get_packet\<close> does for them.

  Instances and native methods:
  \<^item> JavaEnv: \<open>set_Java_env\<close>, and the arguments of every call of a Java method against its descriptor.
    NativeMethods: the generated headers \<open>jpcap_Jpcap*.h\<close> against the Java declarations.
  \<^item> Instances: the record \<open>native\<close> of the global variables. The array with one slot per instance is a
    locale, interpreted for the handles, link types, netmasks and the overlapping rows of
    \<open>pcap_errbuf\<close>.
  \<^item> CaptorOps, SenderOps, Writer: the native methods of \<open>JpcapCaptor.c\<close>, \<open>JpcapSender.c\<close> and
    \<open>JpcapWriter.c\<close> as functions on that record, whole handlers with their early returns; CaptorLaws,
    SenderLaws, WriterLaws their properties.
  \<^item> Devices: \<open>getDeviceList\<close> with its three ways to find a hardware address: the adapters of Windows, the
    \<open>ioctl\<close> of Linux, and on FreeBSD the entries of \<open>getifaddrs\<close>, each as the cast to \<open>sockaddr_dl\<close>
    makes it appear, or \<open>NULL\<close>.
  \<^item> Api: IDs, opening and closing of the Java classes, composed with the native methods to the
    transition system \<open>api_step\<close>; ApiLaws: its invariant, and the abstract table of open
    instances that \<open>openDevice\<close> and \<open>close\<close> implement.

  The headers of WinPcap (directory \<open>win32/WpdPack/Include\<close>) the library is built with on Windows:
  \<^item> TimeCalls, TimeLaws: \<open>time_calls.h\<close>, how the driver stamps packets: synchronisation with the system
    time in four modes, the stamp from the performance or the cycle counter, and the mode in the
    registry. Stamps are exact to the microsecond until 2038; with the fix-up they never go back.
  \<^item> Tme: \<open>memory_t.h\<close>, \<open>tme.h\<close> and the headers of its functions: reads and writes in both byte orders,
    and the test whether an entry of a table may be deleted.
  \<^item> BpfInsn: the encoding of filter instructions in \<open>pcap-bpf.h\<close>, its alignment macro, and what
    \<open>pcap.h\<close> declares beside the functions in use.
  \<^item> Ioctl: \<open>CTL_CODE\<close> of \<open>Devioctl.h\<close> and the codes, constants and structures of \<open>Packet32.h\<close>,
    \<open>Ntddpack.h\<close>, \<open>Ntddndis.h\<close> and \<open>Win32-Extensions.h\<close>.
  \<^item> NdisOids, NdisStructs: the object identifiers, masks, enumerations and structures of
    \<open>Ntddndis.h\<close>. BitTypes: how \<open>bittypes.h\<close> chooses integer types.
  \<^item> Savefile: packet headers in files and the macros of \<open>pcap-int.h\<close>, constants of \<open>remote-ext.h\<close>.

  The stack (\<open>src/src\<close>):
  \<^item> JavaBuffer: arrays and \<open>ByteBuffer\<close> with the exceptions they throw, and methods as functions on a
    state that return a value or an exception; the state changes made before an exception stay.
    \<open>keeps P m\<close> says that the method \<open>m\<close> preserves \<open>P\<close>, with one rule per construct.
  \<^item> IpStack: \<open>createHeader\<close> and \<open>handlePacket\<close> of the layers in \<open>protocol\<close> and \<open>Utility.checksum\<close>;
    IpStackLaws: the bytes they write, with IP options and without, what they read, and the checksum
    against RFC 1071.
  \<^item> StackCore: \<open>DataLinkLayer\<close> and the sending half of \<open>ProtocolManager\<close>, with the record \<open>stack\<close>
    of their fields; \<open>sent\<close> lists the packets handed to \<open>JpcapSender.sendPacket\<close>.
  \<^item> Tftp, PingApps, Dns, Dhcp: the classes of \<open>Application\<close>; TftpLaws, PingLaws, DnsLaws, DhcpLaws:
    a whole transfer, the packets of ping (also before the router is known) and traceroute, names and
    replies, the state machine.
  \<^item> StackMain: receiving, from \<open>receivePacket\<close> to the application, and \<open>ApplicationManager\<close>; a state
    \<open>endpoint\<close> is the list of registered applications with the record of the manager. Static fields of
    the clients are copies kept equal (\<open>share_statics\<close>).
  \<^item> StackLaws: the transition system \<open>stack_step\<close> of packets that come in and of what users ask of
    the applications, with its invariant. StackFlow: a datagram from \<open>nativeSendPacket\<close> on one machine
    over \<open>get_packet\<close> to an application on another, and packets that wait for the router.

  Witnesses, NativeWitnesses and StackWitnesses apply the properties to concrete inputs.


  Groups of lemmas

  Every operation on memory has a rule for its effect on a window (\<open>pre @ w @ post\<close>), and every setter a
  lemma that gives the bytes it writes; the frame theorems compose them. The analysers have lemmas that
  give the record they build from such bytes, and the round trips join both sides, for packets that are
  no fragments; \<open>tos_comes_back\<close> and \<open>tos_spills\<close> say which service fields survive. \<open>set_packet_frame\<close>
  bounds what is written for every packet by the extent of its layers. For the instances, each operation has a lemma that says what it
  does to the slots (\<open>same_slots\<close>, \<open>slot_opened\<close>, \<open>slot_closed\<close>), from which the invariant, safety of all
  reachable states and the refinement follow. A time of the driver is the image under \<open>of_us\<close> of a number
  of microseconds; \<open>SynchronizeOnCpu\<close>, \<open>elapsed\<close> and the rest each have a lemma that gives that number,
  and the theorems on stamps add them up. Where the code deviates from what it means to do, a theorem
  says what it does instead.


  Conventions

  There is no fuel: the loops of the program are structural recursions, or recursions with a measure (the
  bytes of the frame that are left). The one recursion of the code that may not end follows the pointers
  in a DNS name; there the argument \<open>depth\<close> is the number of nested calls the virtual machine has stack
  for, and its exhaustion the exception the machine throws. The theorems on replies that are understood
  hold for every depth, also 0. Signed division of 64-bit values rounds to zero, as in C; sums of
  signed values wrap around. The host is little-endian. What the code takes from outside is a
  parameter: the capture library, the sockets and the Java virtual machine are records of answers
  (\<open>library\<close>, \<open>sender_library\<close>, \<open>jvm\<close>, \<open>world\<close>); the clocks of the Windows kernel are readings
  (\<open>clocks\<close>), one for every look the driver takes at them, also where it uses the instruction \<open>rdtsc\<close>, and
  the registry is a function; the platform is the datatype of the code's
  \<open>#ifdef\<close> branches; uninitialised stack memory is an argument (\<open>buf\<close>, \<open>junk\<close>). Handles of the library
  are numbers with the set \<open>live\<close> of those not freed. Arguments that come from system headers
  (\<open>struct sockaddr\<close>, the number of TCP timers) are parameters of the structures that use them. For the
  stack, numbers of \<open>Random\<close>, the clock (\<open>clock\<close>), the order in which a \<open>HashMap\<close> lists its keys
  (\<open>order\<close>) and whether a file can be created are arguments; printing has no effect.


  Not modelled

  Constructors, getters and \<open>toString\<close> of the Java packet classes; the inside of libpcap; the kernel
  prototypes in the BSD headers. Of the stack: the main program and the properties file it reads, the
  dump of every packet into a file for debugging, \<open>ICMPUnreachableMsgHandler\<close>, which nothing calls, the
  null sender that an \<open>openDevice\<close> that failed leaves in \<open>DataLinkLayer\<close>, and threads: packets and requests
  of users are handled one after the other. Of Jpcap: handlers that call back into the API while a
  capture loop runs are outside \<open>api_step\<close> (\<open>nested_loop_breaks_outer\<close> shows one at the level of the
  native methods), and the stamps of \<open>time_calls.h\<close> are taken one after the other, although the code does
  not lock \<open>old_ts\<close>. Of the headers of
  WinPcap: functions they only declare, since their bodies belong to the capture library and its
  driver; the structures \<open>pcap\<close> and \<open>pcap_md\<close> of \<open>pcap-int.h\<close> and \<open>ADAPTER\<close> and \<open>PACKET\<close> of \<open>Packet32.h\<close>,
  which hold handles of other libraries; the allocation macros of \<open>memory_t.h\<close>; and \<open>Gnuc.h\<close>, which
  adapts compilers.
\<close>

end
